(* ===== verification/Prelude.thy ===== *)
theory Prelude
  imports Main "HOL-Library.Product_Lexorder" "HOL-Library.List_Lexorder"
begin

text \<open>
  Shared vocabulary of the development.

  A table of the database is a list of rows in insertion order, and the SQL statements of
  \<^verbatim>\<open>src/internal/store\<close> are the list operations below: \<open>update_where\<close> is
  \<open>UPDATE .. WHERE\<close>, \<open>delete_where\<close> is \<open>DELETE .. WHERE\<close>, \<open>affected\<close> is
  \<open>RowsAffected\<close>, \<open>insert_new\<close> is \<open>INSERT .. ON CONFLICT DO NOTHING\<close>,
  \<open>insert_or\<close> is \<open>INSERT .. ON CONFLICT DO UPDATE\<close>, \<open>find\<close> is a one-row
  \<open>SELECT\<close>, \<open>list_ex\<close> is \<open>EXISTS\<close>, \<open>sort_key\<close> is \<open>ORDER BY\<close> (ties in
  insertion order) and \<open>take\<close> is \<open>LIMIT\<close>.

  An instant is an integer count of nanoseconds, as Go's \<^verbatim>\<open>time.Time\<close> counts them; a
  \<^verbatim>\<open>time.Duration\<close> is an integer count of nanoseconds.  A UUID is a number: the database
  draws it, so every inserting operation takes the drawn value as an argument.
\<close>

section \<open>Types, errors and environment\<close>

type_synonym time = int
type_synonym duration = int
type_synonym uuid = nat
type_synonym GitHubID = int

abbreviation Second :: duration where "Second \<equiv> 1000000000"
abbreviation Minute :: duration where "Minute \<equiv> 60 * Second"
abbreviation Hour :: duration where "Hour \<equiv> 60 * Minute"

text \<open>The faults the database reports; \<open>In_failed_transaction\<close> is PostgreSQL's answer to
  every statement that follows a failed one inside the same transaction.\<close>

datatype db_fault =
    Unique_violation
  | Foreign_key_violation
  | Check_violation
  | Not_null_violation
  | In_failed_transaction
  | Invalid_text

text \<open>\<open>ErrNotFound\<close> is the store's own error; \<open>ErrNoRows\<close> is the driver's answer to an
  empty one-row query that the store hands on without \<open>norm\<close>; every other error is a wrapped
  database fault.  \<open>Diverges\<close> is the model's value for a retry loop that has used up its fuel.\<close>

datatype store_error = ErrNotFound | ErrNoRows | ErrDB db_fault | Diverges

text \<open>The two clocks an operation can read: the injected \<open>s.Clock.Now()\<close> and the
  database's own \<open>now()\<close>.\<close>

record env =
  Now :: time
  db_now :: time

text \<open>An operation yields an error, and then leaves the database as it was (a failed
  statement or a rolled-back transaction), or a value with the new database.\<close>

fun bind_res :: "'e + 'a \<Rightarrow> ('a \<Rightarrow> 'e + 'b) \<Rightarrow> 'e + 'b" where
  "bind_res (Inl e) f = Inl e"
| "bind_res (Inr x) f = f x"

lemma bind_res_Inr_iff: "bind_res m f = Inr y \<longleftrightarrow> (\<exists>x. m = Inr x \<and> f x = Inr y)"
  by (cases m) auto

lemma bind_res_Inl_iff:
  "bind_res m f = Inl e \<longleftrightarrow> m = Inl e \<or> (\<exists>x. m = Inr x \<and> f x = Inl e)"
  by (cases m) auto

text \<open>The row a successful one-row query returned, or \<open>ErrNotFound\<close> (the store's
  \<open>norm\<close> of \<open>pgx.ErrNoRows\<close>).\<close>

definition row_or_notfound :: "'a option \<Rightarrow> store_error + 'a" where
  "row_or_notfound r = (case r of None \<Rightarrow> Inl ErrNotFound | Some x \<Rightarrow> Inr x)"

lemma row_or_notfound_Inr [simp]: "row_or_notfound r = Inr x \<longleftrightarrow> r = Some x"
  by (cases r) (auto simp: row_or_notfound_def)

lemma row_or_notfound_Inl [simp]: "row_or_notfound r = Inl e \<longleftrightarrow> r = None \<and> e = ErrNotFound"
  by (cases r) (auto simp: row_or_notfound_def)

lemma row_or_notfound_eval [simp]:
  "row_or_notfound (Some x) = Inr x" "row_or_notfound None = Inl ErrNotFound"
  by (simp_all add: row_or_notfound_def)

section \<open>Tables\<close>

named_theorems table_simps \<open>characteristic equations of the table operations\<close>

definition update_where :: "('r \<Rightarrow> bool) \<Rightarrow> ('r \<Rightarrow> 'r) \<Rightarrow> 'r list \<Rightarrow> 'r list" where
  "update_where P f rs = map (\<lambda>r. if P r then f r else r) rs"

definition delete_where :: "('r \<Rightarrow> bool) \<Rightarrow> 'r list \<Rightarrow> 'r list" where
  "delete_where P rs = filter (\<lambda>r. \<not> P r) rs"

definition affected :: "('r \<Rightarrow> bool) \<Rightarrow> 'r list \<Rightarrow> nat" where
  "affected P rs = length (filter P rs)"

definition insert_new :: "('r \<Rightarrow> bool) \<Rightarrow> 'r \<Rightarrow> 'r list \<Rightarrow> 'r list" where
  "insert_new same r rs = (if list_ex same rs then rs else rs @ [r])"

definition insert_or :: "('r \<Rightarrow> bool) \<Rightarrow> ('r \<Rightarrow> 'r) \<Rightarrow> 'r \<Rightarrow> 'r list \<Rightarrow> 'r list" where
  "insert_or same f r rs = (if list_ex same rs then update_where same f rs else rs @ [r])"

lemma affected_zero [table_simps]: "affected P rs = 0 \<longleftrightarrow> (\<forall>r\<in>set rs. \<not> P r)"
  by (auto simp: affected_def filter_empty_conv)

lemma affected_pos: "0 < affected P rs \<longleftrightarrow> (\<exists>r\<in>set rs. P r)"
  using affected_zero[of P rs] by auto

lemma set_update_where [table_simps]:
  "set (update_where P f rs) = (\<lambda>r. if P r then f r else r) ` set rs"
  by (simp add: update_where_def)

lemma in_update_where:
  "r \<in> set (update_where P f rs) \<Longrightarrow> (r \<in> set rs \<and> \<not> P r) \<or> (\<exists>q\<in>set rs. P q \<and> r = f q)"
  by (auto simp: set_update_where split: if_splits)

lemma set_delete_where [table_simps]: "set (delete_where P rs) = {r \<in> set rs. \<not> P r}"
  by (auto simp: delete_where_def)

lemma list_ex_append_one [simp]: "list_ex P (xs @ [x]) \<longleftrightarrow> list_ex P xs \<or> P x"
  by simp

lemma set_insert_new [table_simps]:
  "set (insert_new same r rs) = (if list_ex same rs then set rs else insert r (set rs))"
  by (simp add: insert_new_def)

lemma update_where_none [simp]: "\<forall>r\<in>set rs. \<not> P r \<Longrightarrow> update_where P f rs = rs"
  by (simp add: update_where_def map_idI)

lemma update_where_Nil [simp]: "update_where P f [] = []"
  by (simp add: update_where_def)

lemma update_where_Cons [simp]:
  "update_where P f (r # rs) = (if P r then f r else r) # update_where P f rs"
  by (simp add: update_where_def)

lemma update_where_append [simp]:
  "update_where P f (xs @ ys) = update_where P f xs @ update_where P f ys"
  by (simp add: update_where_def)

lemma length_update_where [simp]: "length (update_where P f rs) = length rs"
  by (simp add: update_where_def)

lemma map_update_where:
  "(\<And>r. r \<in> set rs \<Longrightarrow> P r \<Longrightarrow> key (f r) = key r) \<Longrightarrow> map key (update_where P f rs) = map key rs"
  by (simp add: update_where_def)

lemma list_ex_update_where [table_simps]:
  "list_ex Q (update_where P f rs) \<longleftrightarrow> list_ex (\<lambda>r. Q (if P r then f r else r)) rs"
  by (induction rs) auto

lemma list_ex_update_frame:
  "(\<And>r. r \<in> set rs \<Longrightarrow> P r \<Longrightarrow> Q (f r) = Q r) \<Longrightarrow>
    list_ex Q (update_where P f rs) \<longleftrightarrow> list_ex Q rs"
  by (auto simp: list_ex_iff set_update_where split: if_splits)

lemma list_ex_delete_where [table_simps]:
  "list_ex Q (delete_where P rs) \<longleftrightarrow> list_ex (\<lambda>r. Q r \<and> \<not> P r) rs"
  by (auto simp: list_ex_iff set_delete_where)

lemma list_ex_insert_new [table_simps]:
  "list_ex Q (insert_new same r rs) \<longleftrightarrow> list_ex Q rs \<or> (\<not> list_ex same rs \<and> Q r)"
  by (simp add: insert_new_def)

lemma list_ex_insert_or [table_simps]:
  "list_ex Q (insert_or same f r rs) \<longleftrightarrow>
    (if list_ex same rs then list_ex (\<lambda>q. Q (if same q then f q else q)) rs else list_ex Q rs \<or> Q r)"
  by (simp add: insert_or_def list_ex_update_where)

lemma insert_new_idem:
  "same r \<Longrightarrow> insert_new same r (insert_new same r rs) = insert_new same r rs"
  by (simp add: insert_new_def)

lemma delete_where_idem: "delete_where P (delete_where P rs) = delete_where P rs"
  by (simp add: delete_where_def)

lemma find_update_where:
  "find Q (update_where P f rs) =
    map_option (\<lambda>r. if P r then f r else r) (find (\<lambda>r. Q (if P r then f r else r)) rs)"
  by (induction rs) auto

lemma find_update_frame:
  "(\<And>r. r \<in> set rs \<Longrightarrow> P r \<Longrightarrow> Q (f r) = Q r) \<Longrightarrow>
    find Q (update_where P f rs) = map_option (\<lambda>r. if P r then f r else r) (find Q rs)"
  by (induction rs) auto

lemma filter_update_where_other:
  assumes "\<And>x. P x \<Longrightarrow> \<not> Q x \<and> \<not> Q (f x)"
  shows "filter Q (update_where P f xs) = filter Q xs"
  by (induction xs) (use assms in auto)

lemma affected_update_where_zero:
  assumes "\<And>x. P x \<Longrightarrow> \<not> P (f x)"
  shows "affected P (update_where P f xs) = 0"
  by (induction xs) (use assms in \<open>auto simp: affected_def\<close>)

lemma find_cong_set: "(\<And>r. r \<in> set rs \<Longrightarrow> P r = Q r) \<Longrightarrow> find P rs = find Q rs"
  by (induction rs) auto

lemma find_Some_in: "find P rs = Some r \<Longrightarrow> r \<in> set rs \<and> P r"
  by (induction rs) (auto split: if_splits)

lemma find_append: "find P (xs @ ys) = (case find P xs of None \<Rightarrow> find P ys | Some x \<Rightarrow> Some x)"
  by (induction xs) auto

lemma find_None_ex: "find P rs = None \<longleftrightarrow> \<not> list_ex P rs"
  by (induction rs) auto

text \<open>A query over a join is not affected by a change of rows it does not select.\<close>

lemma find_join_frame:
  assumes "\<And>x. x \<in> set rs \<Longrightarrow> P x \<Longrightarrow> find Q (J x) = None \<and> find Q (J (f x)) = None"
  shows "find Q (concat (map J (update_where P f rs))) = find Q (concat (map J rs))"
  using assms
proof (induction rs)
  case (Cons x rs)
  then have "find Q (concat (map J (update_where P f rs))) = find Q (concat (map J rs))" by simp
  with Cons.prems[of x] show ?case by (cases "P x") (simp_all add: find_append split: option.split)
qed simp

subsection \<open>Primary keys\<close>

definition keyed :: "('r \<Rightarrow> 'k) \<Rightarrow> 'r list \<Rightarrow> bool" where
  "keyed key rs \<longleftrightarrow> distinct (map key rs)"

lemma keyed_Nil [simp]: "keyed key []"
  by (simp add: keyed_def)

lemma keyed_update_where:
  assumes "keyed key rs" and "\<And>r. r \<in> set rs \<Longrightarrow> P r \<Longrightarrow> key (f r) = key r"
  shows "keyed key (update_where P f rs)"
  using assms(1) map_update_where[of rs P key f] assms(2) by (simp add: keyed_def)

lemma keyed_delete_where: "keyed key rs \<Longrightarrow> keyed key (delete_where P rs)"
  by (simp add: keyed_def delete_where_def distinct_map_filter)

lemma keyed_append:
  "keyed key rs \<Longrightarrow> \<not> list_ex (\<lambda>q. key q = key r) rs \<Longrightarrow> keyed key (rs @ [r])"
  by (force simp: keyed_def list_ex_iff)

lemma keyed_insert_new:
  assumes "keyed key rs" and "\<And>q. same q \<longleftrightarrow> key q = key r"
  shows "keyed key (insert_new same r rs)"
proof -
  from assms(2) have "same = (\<lambda>q. key q = key r)" by blast
  with assms(1) show ?thesis by (simp add: insert_new_def keyed_append)
qed

lemma keyed_insert_or:
  assumes "keyed key rs" and "\<And>q. same q \<longleftrightarrow> key q = key r" and "\<And>q. key (f q) = key q"
  shows "keyed key (insert_or same f r rs)"
proof -
  from assms(2) have "same = (\<lambda>q. key q = key r)" by blast
  with assms(1,3) show ?thesis by (simp add: insert_or_def keyed_append keyed_update_where)
qed

lemma keyed_unique: "keyed key rs \<Longrightarrow> q \<in> set rs \<Longrightarrow> r \<in> set rs \<Longrightarrow> key q = key r \<Longrightarrow> q = r"
  by (auto simp: keyed_def distinct_map dest: inj_onD)

lemma keyed_find: "keyed key rs \<Longrightarrow> r \<in> set rs \<Longrightarrow> find (\<lambda>q. key q = key r) rs = Some r"
  by (induction rs) (force simp: keyed_def)+

lemma keyed_update_one:
  assumes "keyed key rs" and "r \<in> set rs" and "q \<in> set (update_where (\<lambda>x. key x = key r) g rs)"
    and "key q = key r" and "\<And>x. key (g x) = key x"
  shows "q = g r"
proof -
  from assms(3) obtain x where x: "x \<in> set rs" "q = (if key x = key r then g x else x)"
    by (auto simp: set_update_where)
  with assms(4,5) have "key x = key r" "q = g x" by (auto split: if_splits)
  with keyed_unique[OF assms(1) x(1) assms(2)] show ?thesis by simp
qed

lemma keyed_affected_le_one: "keyed key rs \<Longrightarrow> affected (\<lambda>r. key r = k \<and> Q r) rs \<le> 1"
proof (induction rs)
  case Nil
  then show ?case by (simp add: affected_def)
next
  case (Cons a rs)
  have "affected (\<lambda>r. key r = k \<and> Q r) rs = 0" if "key a = k"
  proof -
    from Cons.prems that have "k \<notin> key ` set rs" by (auto simp: keyed_def)
    then show ?thesis by (auto simp: affected_zero)
  qed
  with Cons show ?case by (auto simp: affected_def keyed_def)
qed

section \<open>Text\<close>

text \<open>\<open>lower()\<close> on the ASCII logins GitHub issues.\<close>

definition lower_char :: "char \<Rightarrow> char" where
  "lower_char c = (let n = (of_char c :: nat) in if 65 \<le> n \<and> n \<le> 90 then char_of (n + 32) else c)"

definition lower :: "string \<Rightarrow> string" where
  "lower s = map lower_char s"

lemma lower_char_idem [simp]: "lower_char (lower_char c) = lower_char c"
proof -
  have "(of_char c :: nat) < 256" by simp
  then show ?thesis by (auto simp: lower_char_def Let_def)
qed

lemma lower_idem [simp]: "lower (lower s) = lower s"
  by (simp add: lower_def)

lemma lower_append: "lower (s @ t) = lower s @ lower t"
  by (simp add: lower_def)

lemma length_lower [simp]: "length (lower s) = length s"
  by (simp add: lower_def)

text \<open>\<open>strings.TrimPrefix(l, "@")\<close>: one leading character, when it is there.\<close>

fun trim_at :: "string \<Rightarrow> string" where
  "trim_at [] = []"
| "trim_at (c # cs) = (if c = CHR ''@'' then cs else c # cs)"

text \<open>\<open>strings.TrimSpace\<close> on ASCII white space.\<close>

definition is_space :: "char \<Rightarrow> bool" where
  "is_space c \<longleftrightarrow> (let n = (of_char c :: nat) in 9 \<le> n \<and> n \<le> 13 \<or> n = 32)"

definition TrimSpace :: "string \<Rightarrow> string" where
  "TrimSpace s = rev (dropWhile is_space (rev (dropWhile is_space s)))"

text \<open>The decimal text of an integer (\<open>%d\<close>, \<open>::text\<close>).\<close>

definition digit :: "nat \<Rightarrow> char" where
  "digit d = char_of (48 + d)"

fun decimal_nat :: "nat \<Rightarrow> string" where
  "decimal_nat n = (if n < 10 then [digit n] else decimal_nat (n div 10) @ [digit (n mod 10)])"

declare decimal_nat.simps [simp del]

definition decimal :: "int \<Rightarrow> string" where
  "decimal i = (if i < 0 then CHR ''-'' # decimal_nat (nat (- i)) else decimal_nat (nat i))"

lemma decimal_nat_nonempty [simp]: "decimal_nat n \<noteq> []"
  by (subst decimal_nat.simps) simp

text \<open>Reading the digits back: the left inverse of \<open>decimal_nat\<close>.\<close>

definition digit_value :: "char \<Rightarrow> nat" where
  "digit_value c = of_char c - 48"

definition undecimal_nat :: "string \<Rightarrow> nat" where
  "undecimal_nat s = foldl (\<lambda>n c. 10 * n + digit_value c) 0 s"

lemma digit_value_digit [simp]: "d < 10 \<Longrightarrow> digit_value (digit d) = d"
  by (simp add: digit_value_def digit_def)

lemma undecimal_decimal_nat [simp]: "undecimal_nat (decimal_nat n) = n"
proof (induction n rule: decimal_nat.induct)
  case (1 n)
  then show ?case
    by (subst decimal_nat.simps) (auto simp: undecimal_nat_def)
qed

lemma decimal_nat_inject: "decimal_nat m = decimal_nat n \<longleftrightarrow> m = n"
  by (metis undecimal_decimal_nat)

section \<open>Ordering\<close>

lemma sort_key_hd_le:
  "sort_key f xs = y # ys \<Longrightarrow> z \<in> set xs \<Longrightarrow> f y \<le> f z"
proof -
  assume eq: "sort_key f xs = y # ys" and z: "z \<in> set xs"
  have "sorted (map f (sort_key f xs))" by simp
  with eq have "sorted (f y # map f ys)" by simp
  moreover from z eq have "z \<in> set (y # ys)" by (metis set_sort)
  ultimately show "f y \<le> f z" by auto
qed

lemma sort_key_Cons_in: "sort_key f (filter P xs) = y # ys \<Longrightarrow> y \<in> set xs \<and> P y"
proof -
  assume eq: "sort_key f (filter P xs) = y # ys"
  have "y \<in> set (sort_key f (filter P xs))" unfolding eq by simp
  then show ?thesis by simp
qed

lemma sort_key_Nil_ex: "sort_key f (filter P xs) = [] \<longleftrightarrow> \<not> list_ex P xs"
proof -
  have "sort_key f (filter P xs) = [] \<longleftrightarrow> filter P xs = []"
    by (metis set_empty set_sort)
  then show ?thesis by (auto simp: filter_empty_conv list_ex_iff)
qed

end
