(* ===== verification/Domain.thy ===== *)
theory Domain
  imports Prelude
begin

text \<open>
  The core types of \<^verbatim>\<open>src/internal/domain/domain.go\<close>: identities, accounts, sessions,
  the audience of a Story, Story items and their variants, uploads and media jobs, with the
  small methods that decide whether an account is active, a session valid and a Story live.
  A Go string type with a closed set of constants is a datatype; its wire form is a function
  to text.  A pointer is an option.
\<close>

section \<open>Identity and accounts\<close>

record IdentityCore =
  gi_GitHubID :: GitHubID
  gi_Login :: string
  gi_AvatarURL :: string
  gi_ProfileURL :: string
  gi_AccountType :: string
  gi_RefreshedAt :: time

record Identity = IdentityCore +
  gi_Registered :: bool

datatype Visibility = FollowersOfAuthor | AuthorFollows | Mutuals | CustomList | Public

record User =
  u_ID :: uuid
  u_GitHubID :: GitHubID
  u_Login :: string
  u_AvatarURL :: string
  u_ProfileURL :: string
  u_CreatedAt :: time
  u_IsModerator :: bool
  u_SuspendedAt :: "time option"
  u_DeletedAt :: "time option"
  u_OnboardedAt :: "time option"
  u_DefaultVisibility :: Visibility
  u_DefaultAudienceListID :: "uuid option"
  u_DefaultAllowReplies :: bool
  u_DefaultAllowReactions :: bool

text \<open>\<open>Active\<close> is called on a possibly nil pointer.\<close>

definition Active :: "User option \<Rightarrow> bool" where
  "Active u = (case u of None \<Rightarrow> False | Some u \<Rightarrow> u_SuspendedAt u = None \<and> u_DeletedAt u = None)"

datatype ClientKind = ClientBrowserExtension | ClientCLI | ClientWeb

fun client_kind_text :: "ClientKind \<Rightarrow> string" where
  "client_kind_text ClientBrowserExtension = ''browser_extension''"
| "client_kind_text ClientCLI = ''cli''"
| "client_kind_text ClientWeb = ''web''"

record Session =
  se_ID :: uuid
  se_UserID :: uuid
  se_ClientKind :: ClientKind
  se_ClientLabel :: string
  se_UserAgent :: string
  se_CreatedAt :: time
  se_LastUsedAt :: time
  se_ExpiresAt :: time
  se_RevokedAt :: "time option"

definition Session_Valid :: "('a Session_scheme) option \<Rightarrow> time \<Rightarrow> bool" where
  "Session_Valid s now =
    (case s of None \<Rightarrow> False | Some s \<Rightarrow> se_RevokedAt s = None \<and> now < se_ExpiresAt s)"

section \<open>Social graph\<close>

datatype Provenance = ProvenanceGitHubImport | ProvenanceNative

datatype RelationshipState = RelationshipActive | RelationshipUnfollowed

record Relationship =
  r_FollowerUserID :: uuid
  r_FolloweeGitHubID :: GitHubID
  r_State :: RelationshipState
  r_Provenance :: Provenance
  r_CreatedAt :: time

section \<open>Visibility\<close>

fun visibility_text :: "Visibility \<Rightarrow> string" where
  "visibility_text FollowersOfAuthor = ''followers_of_author''"
| "visibility_text AuthorFollows = ''author_follows''"
| "visibility_text Mutuals = ''mutuals''"
| "visibility_text CustomList = ''custom_list''"
| "visibility_text Public = ''public''"

text \<open>\<open>Valid\<close>, \<open>Label\<close> and \<open>Description\<close> are methods of a string type and
  answer for any text.\<close>

definition Visibility_Valid :: "string \<Rightarrow> bool" where
  "Visibility_Valid v \<longleftrightarrow>
    v = ''followers_of_author'' \<or> v = ''author_follows'' \<or> v = ''mutuals'' \<or>
    v = ''custom_list'' \<or> v = ''public''"

definition parse_visibility :: "string \<Rightarrow> Visibility option" where
  "parse_visibility v =
    find (\<lambda>k. visibility_text k = v) [FollowersOfAuthor, AuthorFollows, Mutuals, CustomList, Public]"

text \<open>The em dash of the public label, as its three UTF-8 bytes.\<close>

definition em_dash :: string where
  "em_dash = [CHR 0xE2, CHR 0x80, CHR 0x94]"

definition Label :: "string \<Rightarrow> string" where
  "Label v =
    (if v = visibility_text FollowersOfAuthor then ''People I follow''
     else if v = visibility_text AuthorFollows then ''My followers''
     else if v = visibility_text Mutuals then ''Mutuals''
     else if v = visibility_text CustomList then ''Custom list''
     else if v = visibility_text Public then ''Public '' @ em_dash @ '' anyone, no sign-in required''
     else v)"

definition Description :: "string \<Rightarrow> string" where
  "Description v =
    (if v = visibility_text FollowersOfAuthor then ''Only people you follow on Stories can see this.''
     else if v = visibility_text AuthorFollows then
       ''Only people who follow you on Stories can see this.''
     else if v = visibility_text Mutuals then
       ''Only people you follow who also follow you back can see this.''
     else if v = visibility_text CustomList then
       ''Only the people on the list you choose can see this.''
     else if v = visibility_text Public then
       ''Anyone can open the share link without a Stories account.''
     else '''')"

lemma visibility_text_inject [simp]: "visibility_text v = visibility_text w \<longleftrightarrow> v = w"
  by (cases v; cases w) simp_all

lemma parse_visibility_text [simp]: "parse_visibility (visibility_text v) = Some v"
  by (cases v) (simp_all add: parse_visibility_def)

lemma Visibility_Valid_iff: "Visibility_Valid s \<longleftrightarrow> (\<exists>v. s = visibility_text v)"
proof
  assume "Visibility_Valid s"
  then show "\<exists>v. s = visibility_text v"
    unfolding Visibility_Valid_def by (metis visibility_text.simps)
next
  assume "\<exists>v. s = visibility_text v"
  then obtain v where "s = visibility_text v" ..
  then show "Visibility_Valid s" by (cases v) (simp_all add: Visibility_Valid_def)
qed

section \<open>Story items\<close>

datatype StoryState = StoryProcessing | StoryPublished | StoryFailed | StoryDeleted | StoryRemoved

datatype MediaKind = MediaImage | MediaVideo

datatype VariantKind = VariantImage | VariantVideo | VariantPoster | VariantThumb | VariantTerminal

fun variant_kind_text :: "VariantKind \<Rightarrow> string" where
  "variant_kind_text VariantImage = ''image''"
| "variant_kind_text VariantVideo = ''video''"
| "variant_kind_text VariantPoster = ''poster''"
| "variant_kind_text VariantThumb = ''thumb''"
| "variant_kind_text VariantTerminal = ''terminal''"

lemma variant_kind_text_inject [simp]: "variant_kind_text v = variant_kind_text w \<longleftrightarrow> v = w"
  by (cases v; cases w) simp_all

definition ContentBearing :: "VariantKind \<Rightarrow> bool" where
  "ContentBearing k \<longleftrightarrow>
    k = VariantImage \<or> k = VariantVideo \<or> k = VariantPoster \<or> k = VariantTerminal"

record MediaVariant =
  mv_ID :: uuid
  mv_StoryID :: uuid
  mv_Kind :: VariantKind
  mv_ObjectKey :: string
  mv_MIME :: string
  mv_Width :: int
  mv_Height :: int
  mv_DurationMS :: int
  mv_ByteSize :: int
  mv_Checksum :: string
  mv_HasAudio :: bool

text \<open>The columns a Story row and the scanned \<open>StoryItem\<close> have in common.\<close>

record StoryCore =
  si_ID :: uuid
  si_AuthorUserID :: uuid
  si_MediaJobID :: uuid
  si_State :: StoryState
  si_Caption :: string
  si_AltText :: string
  si_Visibility :: Visibility
  si_AudienceListID :: "uuid option"
  si_AllowReplies :: bool
  si_AllowReactions :: bool
  si_PublishedAt :: "time option"
  si_ExpiresAt :: "time option"
  si_CreatedAt :: time
  si_DeletedAt :: "time option"

record StoryItem = StoryCore +
  si_FailureCode :: string
  si_FailureMessage :: string
  si_Author :: "Identity option"
  si_Variants :: "MediaVariant list"

text \<open>The boundary is exclusive: at exactly \<open>expires_at\<close> the item is expired.\<close>

definition Expired :: "('a StoryCore_scheme) \<Rightarrow> time \<Rightarrow> bool" where
  "Expired s now = (case si_ExpiresAt s of None \<Rightarrow> False | Some t \<Rightarrow> \<not> now < t)"

definition Live :: "('a StoryCore_scheme) option \<Rightarrow> time \<Rightarrow> bool" where
  "Live s now =
    (case s of None \<Rightarrow> False
     | Some s \<Rightarrow> si_State s = StoryPublished \<and> si_PublishedAt s \<noteq> None \<and> \<not> Expired s now)"

definition StoryItem_MediaKind :: "StoryItem \<Rightarrow> MediaKind" where
  "StoryItem_MediaKind s =
    (if list_ex (\<lambda>v. mv_Kind v = VariantVideo) (si_Variants s) then MediaVideo else MediaImage)"

definition StoryItem_Variant :: "StoryItem \<Rightarrow> VariantKind \<Rightarrow> MediaVariant option" where
  "StoryItem_Variant s kind = find (\<lambda>v. mv_Kind v = kind) (si_Variants s)"

section \<open>Reactions\<close>

text \<open>The five emoji as UTF-8 text, in display order: heart, joy, fire, sob, skull.\<close>

definition Reactions :: "string list" where
  "Reactions =
    [[CHR 0xE2, CHR 0x9D, CHR 0xA4, CHR 0xEF, CHR 0xB8, CHR 0x8F],
     [CHR 0xF0, CHR 0x9F, CHR 0x98, CHR 0x82],
     [CHR 0xF0, CHR 0x9F, CHR 0x94, CHR 0xA5],
     [CHR 0xF0, CHR 0x9F, CHR 0x98, CHR 0xAD],
     [CHR 0xF0, CHR 0x9F, CHR 0x92, CHR 0x80]]"

definition ValidReaction :: "string \<Rightarrow> bool" where
  "ValidReaction e = list_ex (\<lambda>r. r = e) Reactions"

section \<open>The media pipeline and the inbox\<close>

datatype UploadState = UploadIssued | UploadFinalized | UploadAborted | UploadExpired

record UploadIntent =
  ui_ID :: uuid
  ui_UserID :: uuid
  ui_ObjectKey :: string
  ui_DeclaredMIME :: string
  ui_DeclaredSize :: int
  ui_State :: UploadState
  ui_ActualSize :: "int option"
  ui_Checksum :: "string option"
  ui_CreatedAt :: time
  ui_ExpiresAt :: time

datatype JobState = JobQueued | JobLeased | JobSucceeded | JobFailed

record MediaJobInput =
  in_ObjectKey :: string
  in_DeclaredMIME :: string
  in_ByteSize :: int
  in_Checksum :: string
  in_StoryItemID :: string
  in_Filename :: string

record MediaJob =
  mj_ID :: uuid
  mj_UploadIntentID :: uuid
  mj_UserID :: uuid
  mj_State :: JobState
  mj_Input :: MediaJobInput
  mj_Attempts :: int
  mj_MaxAttempts :: int
  mj_CreatedAt :: time
  mj_UpdatedAt :: time

datatype InboxKind = InboxReply | InboxReaction | InboxFollow

section \<open>Liveness of a Story\<close>

lemma Live_Some:
  "Live (Some s) now \<longleftrightarrow>
    si_State s = StoryPublished \<and> si_PublishedAt s \<noteq> None \<and>
    (\<forall>t. si_ExpiresAt s = Some t \<longrightarrow> now < t)"
  by (auto simp: Live_def Expired_def split: option.splits)

lemma Live_None [simp]: "\<not> Live None now"
  by (simp add: Live_def)

lemma Expired_mono: "Expired s now \<Longrightarrow> now \<le> later \<Longrightarrow> Expired s later"
  by (auto simp: Expired_def split: option.splits)

lemma Live_antimono: "Live s later \<Longrightarrow> now \<le> later \<Longrightarrow> Live s now"
  by (cases s) (auto simp: Live_Some)

end
