(* ===== verification/Database.thy ===== *)
theory Database
  imports Domain
begin

text \<open>
  The state of the service: one list of rows per table that the operations of
  \<^verbatim>\<open>src/internal/store\<close> read and write, with the columns those operations use (the
  schema is \<^verbatim>\<open>src/infra/migrations\<close>).  Rows that the store scans into a struct reuse the
  fields of that struct.
\<close>

section \<open>Rows\<close>

record identity_row = IdentityCore +
  login_lower :: string

record user_row =
  us_id :: uuid
  us_github_user_id :: GitHubID
  us_created_at :: time
  us_last_seen_at :: time
  us_is_moderator :: bool
  us_suspended_at :: "time option"
  us_suspended_reason :: "string option"
  us_deleted_at :: "time option"
  us_default_visibility :: Visibility
  us_default_audience_list_id :: "uuid option"
  us_default_allow_replies :: bool
  us_default_allow_reactions :: bool
  us_follow_import_completed_at :: "time option"

record session_row = Session +
  se_token_hash :: string

record oauth_flow_row =
  of_id :: uuid
  of_state_hash :: string
  of_code_verifier :: string
  of_redirect_uri :: string
  of_purpose :: string
  of_return_to :: string
  of_pending_login_id :: "uuid option"
  of_expires_at :: time
  of_consumed_at :: "time option"

datatype LoginState = LPending | LApproved | LDenied | LConsumed | LExpired

record pending_login_row =
  pl_id :: uuid
  pl_secret_hash :: string
  pl_user_code :: string
  pl_client_kind :: ClientKind
  pl_client_label :: string
  pl_state :: LoginState
  pl_approved_user_id :: "uuid option"
  pl_issued_session_id :: "uuid option"
  pl_issued_token :: "string option"
  pl_expires_at :: time
  pl_poll_count :: int
  pl_last_poll_at :: "time option"

record device_login_row =
  dl_id :: uuid
  dl_device_code :: string
  dl_client_kind :: ClientKind
  dl_client_label :: string
  dl_state :: LoginState
  dl_user_id :: "uuid option"
  dl_issued_token :: "string option"
  dl_expires_at :: time
  dl_poll_count :: int
  dl_last_poll_at :: "time option"

record relationship_row = Relationship +
  r_UpdatedAt :: time
  r_UnfollowedAt :: "time option"

text \<open>A row of \<open>mutes\<close>, \<open>blocks\<close> or \<open>hide_rules\<close>: an owner and a GitHub account.\<close>

type_synonym pair_row = "uuid \<times> GitHubID"

record audience_list_row =
  al_id :: uuid
  al_owner_user_id :: uuid
  al_name :: string
  al_deleted_at :: "time option"

type_synonym member_row = "uuid \<times> GitHubID"

text \<open>The metadata captured with an upload intent (\<^verbatim>\<open>StoryDraft\<close>).\<close>

record StoryDraft =
  d_Caption :: string
  d_AltText :: string
  d_Visibility :: Visibility
  d_AudienceListID :: "uuid option"
  d_AllowReplies :: bool
  d_AllowReactions :: bool

text \<open>Its stored form (\<^verbatim>\<open>draftRecord\<close>, a JSON object): the visibility and the list id are
  text there.\<close>

record draftRecord =
  dr_Caption :: string
  dr_AltText :: string
  dr_Visibility :: string
  dr_AudienceListID :: "string option"
  dr_AllowReplies :: bool
  dr_AllowReactions :: bool

record upload_row = UploadIntent +
  ui_draft :: draftRecord
  ui_filename :: string
  ui_FinalizedAt :: "time option"

record media_job_row = MediaJob +
  mj_LeaseOwner :: "string option"
  mj_LeaseExpiresAt :: "time option"
  mj_RunAfter :: time
  mj_ErrorCode :: "string option"
  mj_ErrorMessage :: "string option"
  mj_FinishedAt :: "time option"

record story_row = StoryCore +
  si_failure_code :: "string option"
  si_failure_message :: "string option"
  si_removed_by_user_id :: "uuid option"
  si_removal_reason :: "string option"
  si_anonymous_view_count :: int

record view_row =
  sv_StoryID :: uuid
  sv_Viewer :: uuid
  sv_DeliveredAt :: time
  sv_AcknowledgedAt :: "time option"

record reaction_row =
  rx_StoryID :: uuid
  rx_UserID :: uuid
  rx_Emoji :: string

record reply_row =
  rp_ID :: uuid
  rp_StoryID :: uuid
  rp_Sender :: uuid
  rp_Recipient :: uuid
  rp_Body :: string
  rp_CreatedAt :: time
  rp_ReadAt :: "time option"
  rp_DeletedAt :: "time option"
  rp_PurgeAfter :: time

record inbox_row =
  e_ID :: uuid
  e_UserID :: uuid
  e_Kind :: InboxKind
  e_Actor :: uuid
  e_StoryID :: "uuid option"
  e_ReplyID :: "uuid option"
  e_Emoji :: "string option"
  e_CreatedAt :: time
  e_ReadAt :: "time option"

text \<open>The JSON payload of a cleanup job: the object keys a \<open>delete_objects\<close> job removes,
  with the story it was scheduled for, or some other text.\<close>

datatype cleanup_payload = ObjectKeys "string list" "uuid option" | OtherPayload string

record cleanup_row =
  cj_ID :: uuid
  cj_Kind :: string
  cj_Payload :: cleanup_payload
  cj_State :: JobState
  cj_Attempts :: int
  cj_Max :: int
  cj_LeaseOwner :: "string option"
  cj_LeaseExpiresAt :: "time option"
  cj_RunAfter :: time
  cj_ErrorMessage :: "string option"

datatype SubjectKind = SubjectStory | SubjectUser
datatype ReportState = ReportOpen | ReportActioned | ReportDismissed

record report_row =
  rep_ID :: uuid
  rep_Reporter :: uuid
  rep_SubjectKind :: SubjectKind
  rep_StoryID :: "uuid option"
  rep_SubjectUserID :: "uuid option"
  rep_Reason :: string
  rep_Details :: string
  rep_State :: ReportState
  rep_CreatedAt :: time
  rep_ResolvedAt :: "time option"
  rep_ResolvedBy :: "uuid option"

record moderation_row =
  ma_Moderator :: uuid
  ma_Kind :: string
  ma_ReportID :: "uuid option"
  ma_StoryID :: "uuid option"
  ma_Target :: "uuid option"
  ma_Reason :: string
  ma_CreatedAt :: time

record idempotency_row =
  ik_UserID :: uuid
  ik_Scope :: string
  ik_Key :: string
  ik_RequestHash :: string
  ik_Status :: int
  ik_Response :: string

section \<open>The database\<close>

record db =
  identities :: "identity_row list"
  users :: "user_row list"
  sessions :: "session_row list"
  oauth_flows :: "oauth_flow_row list"
  pending_logins :: "pending_login_row list"
  device_logins :: "device_login_row list"
  relationships :: "relationship_row list"
  mutes :: "pair_row list"
  blocks :: "pair_row list"
  hide_rules :: "pair_row list"
  audience_lists :: "audience_list_row list"
  audience_members :: "member_row list"
  uploads :: "upload_row list"
  media_jobs :: "media_job_row list"
  stories :: "story_row list"
  variants :: "MediaVariant list"
  views :: "view_row list"
  reactions :: "reaction_row list"
  replies :: "reply_row list"
  inbox :: "inbox_row list"
  reports :: "report_row list"
  moderation_actions :: "moderation_row list"
  cleanup_jobs :: "cleanup_row list"
  idempotency_keys :: "idempotency_row list"

definition empty_db :: db where
  "empty_db = \<lparr>
    identities = [], users = [], sessions = [], oauth_flows = [], pending_logins = [],
    device_logins = [], relationships = [], mutes = [], blocks = [], hide_rules = [],
    audience_lists = [], audience_members = [], uploads = [], media_jobs = [], stories = [],
    variants = [], views = [], reactions = [], replies = [], inbox = [], reports = [],
    moderation_actions = [], cleanup_jobs = [], idempotency_keys = []\<rparr>"

type_synonym 'a result = "store_error + ('a \<times> db)"

text \<open>Foreign-key checks of the inserting statements.\<close>

definition user_exists :: "db \<Rightarrow> uuid \<Rightarrow> bool" where
  "user_exists d u = list_ex (\<lambda>r. us_id r = u) (users d)"

definition identity_exists :: "db \<Rightarrow> GitHubID \<Rightarrow> bool" where
  "identity_exists d g = list_ex (\<lambda>r. gi_GitHubID r = g) (identities d)"

definition story_exists :: "db \<Rightarrow> uuid \<Rightarrow> bool" where
  "story_exists d s = list_ex (\<lambda>r. si_ID r = s) (stories d)"

text \<open>The user row of an id, of a GitHub account, and the account of a user.\<close>

definition user_row_of :: "db \<Rightarrow> uuid \<Rightarrow> user_row option" where
  "user_row_of d u = find (\<lambda>r. us_id r = u) (users d)"

definition user_of_github :: "db \<Rightarrow> GitHubID \<Rightarrow> uuid option" where
  "user_of_github d g = map_option us_id (find (\<lambda>r. us_github_user_id r = g) (users d))"

definition github_of_user :: "db \<Rightarrow> uuid \<Rightarrow> GitHubID option" where
  "github_of_user d u = map_option us_github_user_id (user_row_of d u)"

definition identity_row_of :: "db \<Rightarrow> GitHubID \<Rightarrow> identity_row option" where
  "identity_row_of d g = find (\<lambda>r. gi_GitHubID r = g) (identities d)"

definition story_row_of :: "db \<Rightarrow> uuid \<Rightarrow> story_row option" where
  "story_row_of d s = find (\<lambda>r. si_ID r = s) (stories d)"

section \<open>The keys of the schema\<close>

text \<open>Primary keys and unique constraints that the operations rely on; every operation of the
  model keeps them.\<close>

definition keys_ok :: "db \<Rightarrow> bool" where
  "keys_ok d \<longleftrightarrow>
    keyed gi_GitHubID (identities d) \<and> keyed login_lower (identities d) \<and>
    keyed us_id (users d) \<and> keyed us_github_user_id (users d) \<and>
    keyed (\<lambda>r. (r_FollowerUserID r, r_FolloweeGitHubID r)) (relationships d) \<and>
    keyed ui_ID (uploads d) \<and> keyed mj_ID (media_jobs d) \<and> keyed mj_UploadIntentID (media_jobs d) \<and>
    keyed si_ID (stories d) \<and>
    keyed (\<lambda>v. (mv_StoryID v, mv_Kind v)) (variants d) \<and>
    keyed (\<lambda>v. (sv_StoryID v, sv_Viewer v)) (views d) \<and>
    keyed (\<lambda>v. (rx_StoryID v, rx_UserID v)) (reactions d) \<and>
    keyed cj_ID (cleanup_jobs d)"

lemma keys_ok_empty [simp]: "keys_ok empty_db"
  by (simp add: keys_ok_def empty_db_def)

lemma story_row_of_in: "story_row_of d s = Some r \<Longrightarrow> r \<in> set (stories d) \<and> si_ID r = s"
  unfolding story_row_of_def by (drule find_Some_in) simp

lemma user_row_of_in: "user_row_of d s = Some r \<Longrightarrow> r \<in> set (users d) \<and> us_id r = s"
  unfolding user_row_of_def by (drule find_Some_in) simp

lemma identity_row_of_in:
  "identity_row_of d g = Some r \<Longrightarrow> r \<in> set (identities d) \<and> gi_GitHubID r = g"
  unfolding identity_row_of_def by (drule find_Some_in) simp

end
