(* ===== verification/Action.thy ===== *)
theory Action
  imports Database
begin

text \<open>
  Sequences of steps on the database that are not a transaction: the handlers of
  \<^verbatim>\<open>src/internal/api\<close> and the operations of \<^verbatim>\<open>src/internal/auth\<close>.  A step yields an error
  or a value and the new database; an error ends the sequence, and what was written before it stays.
\<close>

type_synonym ('e, 'a) act = "db \<Rightarrow> ('e + 'a) \<times> db"

definition returns :: "'a \<Rightarrow> ('e, 'a) act" where "returns x d = (Inr x, d)"

definition fails :: "'e \<Rightarrow> ('e, 'a) act" where "fails e d = (Inl e, d)"

definition andthen :: "('e, 'a) act \<Rightarrow> ('a \<Rightarrow> ('e, 'b) act) \<Rightarrow> ('e, 'b) act" where
  "andthen m f d = (case m d of (Inl e, d') \<Rightarrow> (Inl e, d') | (Inr x, d') \<Rightarrow> f x d')"

text \<open>A check that may return early, a value that may be an error, a query, a query that may fail, a
  statement whose failure ends the handler, and one whose failure is only logged.\<close>

definition reject :: "bool \<Rightarrow> 'e \<Rightarrow> ('e, unit) act" where
  "reject b e d = (if b then Inl e else Inr (), d)"

definition known :: "'e + 'a \<Rightarrow> ('e, 'a) act" where "known x d = (x, d)"

definition reads :: "(db \<Rightarrow> 'a) \<Rightarrow> ('e, 'a) act" where "reads q d = (Inr (q d), d)"

definition queries :: "(store_error \<Rightarrow> 'e) \<Rightarrow> (db \<Rightarrow> store_error + 'a) \<Rightarrow> ('e, 'a) act" where
  "queries g q d = (case q d of Inl e \<Rightarrow> Inl (g e) | Inr x \<Rightarrow> Inr x, d)"

definition executes :: "(store_error \<Rightarrow> 'e) \<Rightarrow> (db \<Rightarrow> 'a result) \<Rightarrow> ('e, 'a) act" where
  "executes g op d = (case op d of Inl e \<Rightarrow> (Inl (g e), d) | Inr (x, d') \<Rightarrow> (Inr x, d'))"

definition attempts :: "(db \<Rightarrow> 'a result) \<Rightarrow> ('e, unit) act" where
  "attempts op d = (Inr (), case op d of Inl e \<Rightarrow> d | Inr (x, d') \<Rightarrow> d')"

definition changes :: "(db \<Rightarrow> db) \<Rightarrow> ('e, unit) act" where "changes f d = (Inr (), f d)"

text \<open>An error under another name, a step whose error the sequence goes on with.\<close>

definition maps :: "('e \<Rightarrow> 'f) \<Rightarrow> ('e, 'a) act \<Rightarrow> ('f, 'a) act" where
  "maps g m d = (case m d of (Inl e, d') \<Rightarrow> (Inl (g e), d') | (Inr x, d') \<Rightarrow> (Inr x, d'))"

definition tries :: "('e, 'a) act \<Rightarrow> ('f, 'e + 'a) act" where
  "tries m d = (case m d of (r, d') \<Rightarrow> (Inr r, d'))"

text \<open>One step for every element of a list.\<close>

fun for_each :: "('a \<Rightarrow> ('e, 'b) act) \<Rightarrow> 'a list \<Rightarrow> ('e, 'b list) act" where
  "for_each f [] = returns []"
| "for_each f (x # xs) = andthen (f x) (\<lambda>y. andthen (for_each f xs) (\<lambda>ys. returns (y # ys)))"

named_theorems act_simps \<open>what the steps of a handler do\<close>

lemma act_simps_rules [act_simps]:
  "returns x d = (Inr x, d)" "fails e d = (Inl e, d)" "known v d = (v, d)" "reads q d = (Inr (q d), d)"
  "reject b e2 d = (if b then Inl e2 else Inr (), d)" "changes u d = (Inr (), u d)"
  by (simp_all add: returns_def fails_def known_def reads_def reject_def changes_def)

lemma andthen_simps [act_simps]:
  "andthen (returns x) f d = f x d" "andthen (fails e) f1 d = (Inl e, d)"
  "andthen (reads q) f2 d = f2 (q d) d"
  "andthen (reject b e) f3 d = (if b then (Inl e, d) else f3 () d)"
  "andthen (known (Inl e)) f4 d = (Inl e, d)" "andthen (known (Inr y)) f5 d = f5 y d"
  "andthen (changes u) f6 d = f6 () (u d)"
  by (simp_all add: andthen_def act_simps_rules)

lemma andthen_known: "andthen (known v) f d = (case v of Inl e \<Rightarrow> (Inl e, d) | Inr x \<Rightarrow> f x d)"
  by (simp add: andthen_def known_def split: sum.splits)

lemma andthen_queries [act_simps]:
  "andthen (queries g q) f d = (case q d of Inl e \<Rightarrow> (Inl (g e), d) | Inr x \<Rightarrow> f x d)"
  by (simp add: andthen_def queries_def split: sum.splits)

lemma andthen_executes [act_simps]:
  "andthen (executes g op) f d = (case op d of Inl e \<Rightarrow> (Inl (g e), d) | Inr (x, d') \<Rightarrow> f x d')"
  by (simp add: andthen_def executes_def split: sum.splits)

lemma andthen_attempts [act_simps]:
  "andthen (attempts op) f d = f () (case op d of Inl e \<Rightarrow> d | Inr (x, d') \<Rightarrow> d')"
  by (simp add: andthen_def attempts_def)

lemma andthen_maps [act_simps]:
  "andthen (maps g m) f d = (case m d of (Inl e, d') \<Rightarrow> (Inl (g e), d') | (Inr x, d') \<Rightarrow> f x d')"
  by (simp add: andthen_def maps_def split: prod.splits sum.splits)

lemma andthen_tries [act_simps]: "andthen (tries m) f d = (case m d of (r, d') \<Rightarrow> f r d')"
  by (simp add: andthen_def tries_def split: prod.splits)

text \<open>A sequence that succeeds has succeeded at every step.\<close>

lemma andthen_Inr:
  "andthen m f d = (Inr y, d') \<longleftrightarrow> (\<exists>x d1. m d = (Inr x, d1) \<and> f x d1 = (Inr y, d'))"
  by (auto simp: andthen_def split: prod.splits sum.splits)

lemma executes_Inr: "executes g op d = (Inr x, d') \<longleftrightarrow> op d = Inr (x, d')"
  by (auto simp: executes_def split: sum.splits)

lemma andthen_assoc: "andthen (andthen m f) g = andthen m (\<lambda>x. andthen (f x) g)"
  by (auto simp: andthen_def fun_eq_iff split: prod.splits sum.splits)

text \<open>A sequence of steps that a change of the database passes through.\<close>

definition passes :: "(db \<Rightarrow> db) \<Rightarrow> ('e, 'a) act \<Rightarrow> bool" where
  "passes f m \<longleftrightarrow> (\<forall>d. m (f d) = apsnd f (m d))"

lemma passes_andthen: "passes f m \<Longrightarrow> (\<And>x. passes f (g x)) \<Longrightarrow> passes f (andthen m g)"
  by (auto simp: passes_def andthen_def split: prod.splits sum.splits)

lemma passes_steps:
  "passes f (returns x)" "passes f (fails e)" "passes f (reject c e)" "passes f (known v)"
  "(\<And>d. q (f d) = q d) \<Longrightarrow> passes f (reads q)"
  "(\<And>d. p (f d) = p d) \<Longrightarrow> passes f (queries g p)"
  by (simp_all add: passes_def act_simps_rules queries_def split: sum.splits)

lemma passes_tries: "passes f m \<Longrightarrow> passes f (tries m)"
  by (auto simp: passes_def tries_def split: prod.splits)

lemma passes_changes: "(\<And>d. u (f d) = f (u d)) \<Longrightarrow> passes f (changes u)"
  by (simp add: passes_def changes_def)

lemma passes_writes:
  assumes "\<And>d. op (f d) = map_sum id (apsnd f) (op d)"
  shows "passes f (executes g op)" and "passes f (attempts op)"
  using assms by (auto simp: passes_def executes_def attempts_def split: sum.splits)

end
