(* ===== verification/Visibility.thy ===== *)
theory Visibility
  imports Database
begin

text \<open>
  The authorization predicate of \<^verbatim>\<open>src/internal/store/visibility.go\<close> and the single-item
  reads of \<^verbatim>\<open>src/internal/store/story.go\<close> that apply it: \<open>StoryForViewer\<close>,
  \<open>PublicStory\<close>, \<open>RecordAnonymousView\<close>, \<open>AnonymousViewCount\<close> and
  \<open>OwnStory\<close>.  The declarative audience \<open>may_see\<close> is the rule list of that file's
  comment; the lemmas show that the SQL predicate implements it.
\<close>

section \<open>The predicate\<close>

definition active_follow :: "db \<Rightarrow> uuid \<Rightarrow> GitHubID \<Rightarrow> bool" where
  "active_follow d u g =
    list_ex (\<lambda>r. r_FollowerUserID r = u \<and> r_FolloweeGitHubID r = g \<and> r_State r = RelationshipActive)
      (relationships d)"

text \<open>\<open>visibleToViewer d viewer gh now si au\<close>: the SQL fragment with \<open>$1 = viewer\<close>,
  \<open>$2 = gh\<close>, \<open>$3 = now\<close>, for the joined rows \<open>si\<close> and \<open>au\<close>.\<close>

definition visibleToViewer ::
  "db \<Rightarrow> uuid \<Rightarrow> GitHubID \<Rightarrow> time \<Rightarrow> story_row \<Rightarrow> user_row \<Rightarrow> bool" where
  "visibleToViewer d viewer gh now si au \<longleftrightarrow>
    si_State si = StoryPublished
    \<and> si_PublishedAt si \<noteq> None
    \<and> si_ExpiresAt si \<noteq> None
    \<and> now < the (si_ExpiresAt si)
    \<and> us_suspended_at au = None
    \<and> us_deleted_at au = None
    \<and> (si_AuthorUserID si = viewer
      \<or> (\<not> list_ex (\<lambda>b. (fst b = viewer \<and> snd b = us_github_user_id au)
                     \<or> (fst b = si_AuthorUserID si \<and> snd b = gh)) (blocks d)
        \<and> \<not> list_ex (\<lambda>h. fst h = si_AuthorUserID si \<and> snd h = gh) (hide_rules d)
        \<and> (case si_Visibility si of
             FollowersOfAuthor \<Rightarrow>
               list_ex (\<lambda>r. r_FollowerUserID r = si_AuthorUserID si \<and> r_FolloweeGitHubID r = gh
                 \<and> r_State r = RelationshipActive) (relationships d)
           | AuthorFollows \<Rightarrow>
               list_ex (\<lambda>r. r_FollowerUserID r = viewer \<and> r_FolloweeGitHubID r = us_github_user_id au
                 \<and> r_State r = RelationshipActive) (relationships d)
           | Mutuals \<Rightarrow>
               list_ex (\<lambda>r. r_FollowerUserID r = si_AuthorUserID si \<and> r_FolloweeGitHubID r = gh
                 \<and> r_State r = RelationshipActive) (relationships d)
               \<and> list_ex (\<lambda>r. r_FollowerUserID r = viewer \<and> r_FolloweeGitHubID r = us_github_user_id au
                 \<and> r_State r = RelationshipActive) (relationships d)
           | CustomList \<Rightarrow>
               list_ex (\<lambda>m. list_ex (\<lambda>al. al_id al = fst m \<and> Some (fst m) = si_AudienceListID si
                   \<and> al_owner_user_id al = si_AuthorUserID si \<and> al_deleted_at al = None
                   \<and> snd m = gh) (audience_lists d)) (audience_members d)
           | Public \<Rightarrow> True)))"

section \<open>The audience as a specification\<close>

definition blocked_pair :: "db \<Rightarrow> uuid \<Rightarrow> GitHubID \<Rightarrow> uuid \<Rightarrow> GitHubID \<Rightarrow> bool" where
  "blocked_pair d a ga b gb \<longleftrightarrow> (a, gb) \<in> set (blocks d) \<or> (b, ga) \<in> set (blocks d)"

definition list_member :: "db \<Rightarrow> uuid \<Rightarrow> uuid \<Rightarrow> GitHubID \<Rightarrow> bool" where
  "list_member d owner l g \<longleftrightarrow>
    (l, g) \<in> set (audience_members d) \<and>
    (\<exists>al\<in>set (audience_lists d). al_id al = l \<and> al_owner_user_id al = owner \<and> al_deleted_at al = None)"

fun audience_admits :: "db \<Rightarrow> story_row \<Rightarrow> GitHubID \<Rightarrow> uuid \<Rightarrow> GitHubID \<Rightarrow> Visibility \<Rightarrow> bool" where
  "audience_admits d si ga v gv FollowersOfAuthor = active_follow d (si_AuthorUserID si) gv"
| "audience_admits d si ga v gv AuthorFollows = active_follow d v ga"
| "audience_admits d si ga v gv Mutuals =
    (active_follow d (si_AuthorUserID si) gv \<and> active_follow d v ga)"
| "audience_admits d si ga v gv CustomList =
    (\<exists>l. si_AudienceListID si = Some l \<and> list_member d (si_AuthorUserID si) l gv)"
| "audience_admits d si ga v gv Public = True"

text \<open>Rules 1 to 4 of the comment on \<open>visibleToViewer\<close>.\<close>

definition may_see :: "db \<Rightarrow> uuid \<Rightarrow> GitHubID \<Rightarrow> time \<Rightarrow> story_row \<Rightarrow> user_row \<Rightarrow> bool" where
  "may_see d viewer gh now si au \<longleftrightarrow>
    Live (Some si) now \<and> si_ExpiresAt si \<noteq> None \<and>
    us_suspended_at au = None \<and> us_deleted_at au = None \<and>
    (si_AuthorUserID si = viewer \<or>
      \<not> blocked_pair d viewer gh (si_AuthorUserID si) (us_github_user_id au) \<and>
      (si_AuthorUserID si, gh) \<notin> set (hide_rules d) \<and>
      audience_admits d si (us_github_user_id au) viewer gh (si_Visibility si))"

lemma custom_list_iff:
  "list_ex (\<lambda>m. list_ex (\<lambda>al. al_id al = fst m \<and> Some (fst m) = L
       \<and> al_owner_user_id al = owner \<and> al_deleted_at al = None \<and> snd m = g) (audience_lists d))
     (audience_members d)
   \<longleftrightarrow> (\<exists>l. L = Some l \<and> list_member d owner l g)"
  by (force simp: list_ex_iff list_member_def)

lemma visibleToViewer_eq_may_see:
  "visibleToViewer d viewer gh now si au = may_see d viewer gh now si au"
proof -
  have b: "list_ex (\<lambda>b. (fst b = viewer \<and> snd b = us_github_user_id au)
             \<or> (fst b = si_AuthorUserID si \<and> snd b = gh)) (blocks d)
           \<longleftrightarrow> blocked_pair d viewer gh (si_AuthorUserID si) (us_github_user_id au)"
    by (force simp: list_ex_iff blocked_pair_def)
  have h: "list_ex (\<lambda>h. fst h = si_AuthorUserID si \<and> snd h = gh) (hide_rules d)
           \<longleftrightarrow> (si_AuthorUserID si, gh) \<in> set (hide_rules d)"
    by (force simp: list_ex_iff)
  have a: "(case si_Visibility si of
             FollowersOfAuthor \<Rightarrow> active_follow d (si_AuthorUserID si) gh
           | AuthorFollows \<Rightarrow> active_follow d viewer (us_github_user_id au)
           | Mutuals \<Rightarrow> active_follow d (si_AuthorUserID si) gh
               \<and> active_follow d viewer (us_github_user_id au)
           | CustomList \<Rightarrow> (\<exists>l. si_AudienceListID si = Some l \<and> list_member d (si_AuthorUserID si) l gh)
           | Public \<Rightarrow> True)
         = audience_admits d si (us_github_user_id au) viewer gh (si_Visibility si)"
    by (cases "si_Visibility si") simp_all
  show ?thesis
    unfolding visibleToViewer_def may_see_def b h custom_list_iff
      a[unfolded active_follow_def, symmetric]
    by (auto simp: Live_Some)
qed

lemma visibleToViewer_live:
  "visibleToViewer d viewer gh now si au \<Longrightarrow> Live (Some si) now"
  by (simp add: visibleToViewer_eq_may_see may_see_def)

section \<open>Joins and scans\<close>

text \<open>\<open>FROM story_items si JOIN users au JOIN github_identities gi\<close>.\<close>

definition story_join :: "db \<Rightarrow> (story_row \<times> user_row \<times> identity_row) list" where
  "story_join d =
    [(si, au, gi). si \<leftarrow> stories d,
       au \<leftarrow> filter (\<lambda>au. us_id au = si_AuthorUserID si) (users d),
       gi \<leftarrow> filter (\<lambda>gi. gi_GitHubID gi = us_github_user_id au) (identities d)]"

definition null_text :: "string option \<Rightarrow> string" where
  "null_text x = (case x of None \<Rightarrow> '''' | Some s \<Rightarrow> s)"

definition scanStory :: "story_row \<Rightarrow> user_row \<Rightarrow> identity_row \<Rightarrow> StoryItem" where
  "scanStory si au gi = \<lparr>
    si_ID = si_ID si, si_AuthorUserID = si_AuthorUserID si, si_MediaJobID = si_MediaJobID si,
    si_State = si_State si, si_Caption = si_Caption si, si_AltText = si_AltText si,
    si_Visibility = si_Visibility si, si_AudienceListID = si_AudienceListID si,
    si_AllowReplies = si_AllowReplies si, si_AllowReactions = si_AllowReactions si,
    si_PublishedAt = si_PublishedAt si, si_ExpiresAt = si_ExpiresAt si,
    si_CreatedAt = si_CreatedAt si, si_DeletedAt = si_DeletedAt si,
    si_FailureCode = null_text (si_failure_code si),
    si_FailureMessage = null_text (si_failure_message si),
    si_Author = Some \<lparr>gi_GitHubID = us_github_user_id au, gi_Login = gi_Login gi,
      gi_AvatarURL = gi_AvatarURL gi, gi_ProfileURL = gi_ProfileURL gi,
      gi_AccountType = '''', gi_RefreshedAt = 0, gi_Registered = True\<rparr>,
    si_Variants = []\<rparr>"

definition loadVariants :: "db \<Rightarrow> StoryItem \<Rightarrow> StoryItem" where
  "loadVariants d item =
    item\<lparr>si_Variants := si_Variants item @ filter (\<lambda>v. mv_StoryID v = si_ID item) (variants d)\<rparr>"

definition scan_first :: "db \<Rightarrow> (story_row \<times> user_row \<times> identity_row) option \<Rightarrow> store_error + StoryItem" where
  "scan_first d row =
    (case row of None \<Rightarrow> Inl ErrNotFound
     | Some (si, au, gi) \<Rightarrow> Inr (loadVariants d (scanStory si au gi)))"

section \<open>Single-item reads\<close>

definition StoryForViewer :: "env \<Rightarrow> uuid \<Rightarrow> GitHubID \<Rightarrow> uuid \<Rightarrow> db \<Rightarrow> store_error + StoryItem" where
  "StoryForViewer e viewer viewerGitHub storyID d =
    scan_first d (find (\<lambda>(si, au, gi). si_ID si = storyID
      \<and> visibleToViewer d viewer viewerGitHub (Now e) si au) (story_join d))"

definition PublicStory :: "env \<Rightarrow> uuid \<Rightarrow> db \<Rightarrow> store_error + StoryItem" where
  "PublicStory e storyID d =
    scan_first d (find (\<lambda>(si, au, gi). si_ID si = storyID
      \<and> si_State si = StoryPublished
      \<and> si_PublishedAt si \<noteq> None
      \<and> si_ExpiresAt si \<noteq> None
      \<and> Now e < the (si_ExpiresAt si)
      \<and> us_suspended_at au = None
      \<and> us_deleted_at au = None
      \<and> si_Visibility si = Public) (story_join d))"

definition RecordAnonymousView :: "env \<Rightarrow> uuid \<Rightarrow> db \<Rightarrow> unit result" where
  "RecordAnonymousView e storyID d =
    Inr ((), d\<lparr>stories := update_where
      (\<lambda>si. si_ID si = storyID \<and> si_State si = StoryPublished
        \<and> si_PublishedAt si \<noteq> None \<and> si_ExpiresAt si \<noteq> None
        \<and> Now e < the (si_ExpiresAt si)
        \<and> si_Visibility si = Public)
      (\<lambda>si. si\<lparr>si_anonymous_view_count := si_anonymous_view_count si + 1\<rparr>) (stories d)\<rparr>)"

definition AnonymousViewCount :: "uuid \<Rightarrow> db \<Rightarrow> store_error + int" where
  "AnonymousViewCount storyID d =
    (case story_row_of d storyID of None \<Rightarrow> Inl ErrNoRows | Some si \<Rightarrow> Inr (si_anonymous_view_count si))"

definition OwnStory :: "uuid \<Rightarrow> uuid \<Rightarrow> db \<Rightarrow> store_error + StoryItem" where
  "OwnStory owner storyID d =
    scan_first d (find (\<lambda>(si, au, gi). si_ID si = storyID \<and> si_AuthorUserID si = owner
      \<and> si_State si \<noteq> StoryDeleted \<and> si_State si \<noteq> StoryRemoved) (story_join d))"

section \<open>Facts about the joins and the reads\<close>

lemma story_join_in:
  "(si, au, gi) \<in> set (story_join d) \<longleftrightarrow>
    si \<in> set (stories d) \<and> au \<in> set (users d) \<and> gi \<in> set (identities d) \<and>
    us_id au = si_AuthorUserID si \<and> gi_GitHubID gi = us_github_user_id au"
  by (auto simp: story_join_def)

lemma scanStory_core [simp]:
  "si_ID (scanStory si au gi) = si_ID si"
  "si_AuthorUserID (scanStory si au gi) = si_AuthorUserID si"
  "si_State (scanStory si au gi) = si_State si"
  "si_Visibility (scanStory si au gi) = si_Visibility si"
  "si_PublishedAt (scanStory si au gi) = si_PublishedAt si"
  "si_ExpiresAt (scanStory si au gi) = si_ExpiresAt si"
  "si_Variants (scanStory si au gi) = []"
  by (simp_all add: scanStory_def)

lemma loadVariants_core [simp]:
  "si_ID (loadVariants d i) = si_ID i"
  "si_AuthorUserID (loadVariants d i) = si_AuthorUserID i"
  "si_State (loadVariants d i) = si_State i"
  "si_Visibility (loadVariants d i) = si_Visibility i"
  "si_PublishedAt (loadVariants d i) = si_PublishedAt i"
  "si_ExpiresAt (loadVariants d i) = si_ExpiresAt i"
  by (simp_all add: loadVariants_def)

lemma Live_scan [simp]:
  "Live (Some (loadVariants d (scanStory si au gi))) now = Live (Some si) now"
  by (simp add: Live_Some)

lemma scan_first_find_Inr:
  assumes "scan_first d (find (\<lambda>(si, au, gi). Q si au gi) (story_join d)) = Inr item"
  obtains si au gi where "(si, au, gi) \<in> set (story_join d)" and "Q si au gi"
    and "item = loadVariants d (scanStory si au gi)"
proof -
  from assms obtain t where t: "find (\<lambda>(si, au, gi). Q si au gi) (story_join d) = Some t"
    by (auto simp: scan_first_def split: option.splits)
  obtain si au gi where eq: "t = (si, au, gi)" by (cases t)
  from find_Some_in[OF t] eq have "(si, au, gi) \<in> set (story_join d)" "Q si au gi" by auto
  moreover from assms t eq have "item = loadVariants d (scanStory si au gi)"
    by (simp add: scan_first_def)
  ultimately show thesis by (rule that)
qed

lemma scan_first_find_Inl:
  "scan_first d (find (\<lambda>(si, au, gi). Q si au gi) (story_join d)) = Inl err \<longleftrightarrow>
    err = ErrNotFound \<and> (\<forall>si au gi. (si, au, gi) \<in> set (story_join d) \<longrightarrow> \<not> Q si au gi)"
proof (cases "find (\<lambda>(si, au, gi). Q si au gi) (story_join d)")
  case None
  then have "\<forall>si au gi. (si, au, gi) \<in> set (story_join d) \<longrightarrow> \<not> Q si au gi"
    by (auto simp: find_None_iff)
  moreover from None have "scan_first d (find (\<lambda>(si, au, gi). Q si au gi) (story_join d)) = Inl ErrNotFound"
    by (simp add: scan_first_def)
  ultimately show ?thesis by auto
next
  case (Some t)
  then show ?thesis using find_Some_in[OF Some] by (cases t) (auto simp: scan_first_def)
qed

lemma StoryForViewer_Inr:
  assumes "StoryForViewer e viewer gh sid d = Inr item"
  obtains si au gi where "si \<in> set (stories d)" "au \<in> set (users d)" "si_ID si = sid"
    "us_id au = si_AuthorUserID si" "visibleToViewer d viewer gh (Now e) si au"
    "item = loadVariants d (scanStory si au gi)"
  using assms unfolding StoryForViewer_def
  by (rule scan_first_find_Inr) (use that in \<open>auto simp: story_join_in\<close>)

lemma StoryForViewer_Inl:
  "StoryForViewer e viewer gh sid d = Inl err \<longleftrightarrow>
    err = ErrNotFound \<and>
    (\<forall>si au gi. (si, au, gi) \<in> set (story_join d) \<longrightarrow> si_ID si = sid \<longrightarrow>
      \<not> visibleToViewer d viewer gh (Now e) si au)"
  unfolding StoryForViewer_def scan_first_find_Inl by auto

lemma PublicStory_Inr:
  assumes "PublicStory e sid d = Inr item"
  obtains si au gi where "(si, au, gi) \<in> set (story_join d)" "si_ID si = sid"
    "Live (Some si) (Now e)" "us_suspended_at au = None" "us_deleted_at au = None"
    "si_Visibility si = Public" "item = loadVariants d (scanStory si au gi)"
  using assms unfolding PublicStory_def
  by (rule scan_first_find_Inr) (use that in \<open>auto simp: Live_Some\<close>)

text \<open>The predicate reads neither mutes nor views nor any other presentation state.\<close>

lemma visibleToViewer_frame:
  "blocks d' = blocks d \<Longrightarrow> hide_rules d' = hide_rules d \<Longrightarrow> relationships d' = relationships d \<Longrightarrow>
   audience_lists d' = audience_lists d \<Longrightarrow> audience_members d' = audience_members d \<Longrightarrow>
   visibleToViewer d' viewer gh now si au = visibleToViewer d viewer gh now si au"
  by (cases "si_Visibility si") (simp_all add: visibleToViewer_def)

end
