(* ===== verification/Accounts.thy ===== *)
theory Accounts
  imports Visibility
begin

text \<open>
  Identities and accounts: \<^verbatim>\<open>src/internal/store/identity.go\<close>.

  \<open>UpsertIdentity\<close> retries itself after it has released a login that another identity
  holds; the model bounds the retries by fuel and \<open>UpsertIdentity_returns\<close> shows that one
  retry is enough.  Run inside a transaction (\<open>in_tx\<close>) the statements that follow the failed
  insert are refused by the database.  \<open>DeleteAccount\<close>, whose effect is the cascade of the
  schema, is in the theory \<open>Erasure\<close>.
\<close>

section \<open>Identities\<close>

definition registered :: "db \<Rightarrow> GitHubID \<Rightarrow> bool" where
  "registered d g =
    (case find (\<lambda>u. us_github_user_id u = g) (users d) of
       None \<Rightarrow> False
     | Some u \<Rightarrow> us_deleted_at u = None \<and> us_suspended_at u = None)"

definition scanIdentity :: "db \<Rightarrow> identity_row \<Rightarrow> Identity" where
  "scanIdentity d gi = \<lparr>
    gi_GitHubID = gi_GitHubID gi, gi_Login = gi_Login gi, gi_AvatarURL = gi_AvatarURL gi,
    gi_ProfileURL = gi_ProfileURL gi, gi_AccountType = gi_AccountType gi,
    gi_RefreshedAt = gi_RefreshedAt gi, gi_Registered = registered d (gi_GitHubID gi)\<rparr>"

definition account_types :: "string list" where
  "account_types = [''User'', ''Organization'', ''Bot'']"

definition identity_values :: "env \<Rightarrow> Identity \<Rightarrow> identity_row" where
  "identity_values e idn = \<lparr>
    gi_GitHubID = gi_GitHubID idn, gi_Login = gi_Login idn, gi_AvatarURL = gi_AvatarURL idn,
    gi_ProfileURL = gi_ProfileURL idn,
    gi_AccountType = (if gi_AccountType idn = '''' then ''User'' else gi_AccountType idn),
    gi_RefreshedAt = db_now e, login_lower = lower (gi_Login idn)\<rparr>"

text \<open>The \<open>INSERT .. ON CONFLICT (github_user_id) DO UPDATE\<close>, with the check on the
  account type and the unique index on the lower-case login.\<close>

definition upsert_statement :: "env \<Rightarrow> Identity \<Rightarrow> db \<Rightarrow> store_error + db" where
  "upsert_statement e idn d =
    (let row = identity_values e idn in
     if gi_AccountType row \<notin> set account_types then Inl (ErrDB Check_violation)
     else if list_ex (\<lambda>r. login_lower r = login_lower row \<and> gi_GitHubID r \<noteq> gi_GitHubID idn) (identities d)
     then Inl (ErrDB Unique_violation)
     else Inr (d\<lparr>identities := insert_or (\<lambda>r. gi_GitHubID r = gi_GitHubID idn) (\<lambda>_. row) row (identities d)\<rparr>))"

definition stale_login :: "identity_row \<Rightarrow> string" where
  "stale_login r = gi_Login r @ ''#stale-'' @ decimal (gi_GitHubID r)"

definition release_stale :: "Identity \<Rightarrow> db \<Rightarrow> store_error + db" where
  "release_stale idn d =
    (let rows = update_where (\<lambda>r. login_lower r = lower (gi_Login idn) \<and> gi_GitHubID r \<noteq> gi_GitHubID idn)
          (\<lambda>r. r\<lparr>gi_Login := stale_login r, login_lower := lower (stale_login r)\<rparr>) (identities d) in
     if distinct (map login_lower rows) then Inr (d\<lparr>identities := rows\<rparr>)
     else Inl (ErrDB Unique_violation))"

fun UpsertIdentity_fuel :: "nat \<Rightarrow> bool \<Rightarrow> env \<Rightarrow> Identity \<Rightarrow> db \<Rightarrow> unit result" where
  "UpsertIdentity_fuel 0 in_tx e idn d = Inl Diverges"
| "UpsertIdentity_fuel (Suc n) in_tx e idn d =
    (case upsert_statement e idn d of
       Inr d' \<Rightarrow> Inr ((), d')
     | Inl err \<Rightarrow>
         if err = ErrDB Unique_violation then
           (if in_tx then Inl (ErrDB In_failed_transaction)
            else bind_res (release_stale idn d) (\<lambda>d'. UpsertIdentity_fuel n in_tx e idn d'))
         else Inl err)"

definition UpsertIdentity :: "bool \<Rightarrow> env \<Rightarrow> Identity \<Rightarrow> db \<Rightarrow> unit result" where
  "UpsertIdentity = UpsertIdentity_fuel 2"

definition IdentityByGitHubID :: "GitHubID \<Rightarrow> db \<Rightarrow> store_error + Identity" where
  "IdentityByGitHubID g d =
    row_or_notfound (map_option (scanIdentity d) (identity_row_of d g))"

definition IdentityByLogin :: "string \<Rightarrow> db \<Rightarrow> store_error + Identity" where
  "IdentityByLogin login d =
    row_or_notfound (map_option (scanIdentity d)
      (find (\<lambda>r. login_lower r = lower (trim_at login)) (identities d)))"

definition IdentitiesByGitHubIDs :: "GitHubID list \<Rightarrow> db \<Rightarrow> GitHubID \<rightharpoonup> Identity" where
  "IdentitiesByGitHubIDs ids d =
    foldl (\<lambda>m r. m(gi_GitHubID r \<mapsto> scanIdentity d r)) Map.empty
      (filter (\<lambda>r. gi_GitHubID r \<in> set ids) (identities d))"

definition IdentitiesByLogins :: "string list \<Rightarrow> db \<Rightarrow> string \<rightharpoonup> Identity" where
  "IdentitiesByLogins logins d =
    foldl (\<lambda>m r. m(lower (gi_Login r) \<mapsto> scanIdentity d r)) Map.empty
      (filter (\<lambda>r. login_lower r \<in> set (map (\<lambda>l. lower (trim_at l)) logins)) (identities d))"

text \<open>SQL's \<open>LIKE\<close>: a percent sign matches any text, an underscore any character, a
  backslash quotes the next character.\<close>

fun sql_like :: "string \<Rightarrow> string \<Rightarrow> bool" where
  "sql_like [] s = (s = [])"
| "sql_like (p # ps) [] = (p = CHR ''%'' \<and> sql_like ps [])"
| "sql_like (p # ps) (c # s) =
    (if p = CHR ''%'' then sql_like ps (c # s) \<or> sql_like (p # ps) s
     else if p = CHR ''_'' then sql_like ps s
     else if p = CHR 0x5C then (case ps of [] \<Rightarrow> False | q # qs \<Rightarrow> q = c \<and> sql_like qs s)
     else p = c \<and> sql_like ps s)"

definition SearchIdentities :: "string \<Rightarrow> int \<Rightarrow> db \<Rightarrow> Identity list" where
  "SearchIdentities query limit d =
    (let q = lower (trim_at (TrimSpace query)) in
     if q = '''' then []
     else
       (let lim = (if limit \<le> 0 \<or> 25 < limit then 10 else nat limit) in
        map (scanIdentity d) (take lim (sort_key (\<lambda>r. (length (gi_Login r), map of_char (login_lower r) :: nat list))
          (filter (\<lambda>r. registered d (gi_GitHubID r) \<and> sql_like (q @ ''%'') (login_lower r)) (identities d))))))"

section \<open>Users\<close>

definition scanUser :: "user_row \<Rightarrow> identity_row \<Rightarrow> User" where
  "scanUser u gi = \<lparr>
    u_ID = us_id u, u_GitHubID = us_github_user_id u, u_Login = gi_Login gi,
    u_AvatarURL = gi_AvatarURL gi, u_ProfileURL = gi_ProfileURL gi, u_CreatedAt = us_created_at u,
    u_IsModerator = us_is_moderator u, u_SuspendedAt = us_suspended_at u,
    u_DeletedAt = us_deleted_at u, u_OnboardedAt = us_follow_import_completed_at u,
    u_DefaultVisibility = us_default_visibility u,
    u_DefaultAudienceListID = us_default_audience_list_id u,
    u_DefaultAllowReplies = us_default_allow_replies u,
    u_DefaultAllowReactions = us_default_allow_reactions u\<rparr>"

definition user_join :: "db \<Rightarrow> (user_row \<times> identity_row) list" where
  "user_join d =
    [(u, gi). u \<leftarrow> users d, gi \<leftarrow> filter (\<lambda>gi. gi_GitHubID gi = us_github_user_id u) (identities d)]"

definition UserByID :: "uuid \<Rightarrow> db \<Rightarrow> store_error + User" where
  "UserByID uid d =
    row_or_notfound (map_option (\<lambda>(u, gi). scanUser u gi) (find (\<lambda>(u, gi). us_id u = uid) (user_join d)))"

definition UserByGitHubID :: "GitHubID \<Rightarrow> db \<Rightarrow> store_error + User" where
  "UserByGitHubID g d =
    row_or_notfound (map_option (\<lambda>(u, gi). scanUser u gi)
      (find (\<lambda>(u, gi). us_github_user_id u = g) (user_join d)))"

definition UserByLogin :: "string \<Rightarrow> db \<Rightarrow> store_error + User" where
  "UserByLogin login d =
    row_or_notfound (map_option (\<lambda>(u, gi). scanUser u gi)
      (find (\<lambda>(u, gi). login_lower gi = lower (trim_at login)) (user_join d)))"

definition new_user :: "env \<Rightarrow> uuid \<Rightarrow> GitHubID \<Rightarrow> user_row" where
  "new_user e nid g = \<lparr>
    us_id = nid, us_github_user_id = g, us_created_at = db_now e, us_last_seen_at = db_now e,
    us_is_moderator = False, us_suspended_at = None, us_suspended_reason = None,
    us_deleted_at = None, us_default_visibility = FollowersOfAuthor,
    us_default_audience_list_id = None, us_default_allow_replies = True,
    us_default_allow_reactions = True, us_follow_import_completed_at = None\<rparr>"

text \<open>\<open>nid\<close> is the id the database draws for a new row.\<close>

definition EnsureUser :: "bool \<Rightarrow> env \<Rightarrow> uuid \<Rightarrow> Identity \<Rightarrow> db \<Rightarrow> (User \<times> bool) result" where
  "EnsureUser in_tx e nid idn d =
    bind_res (UpsertIdentity in_tx e idn d) (\<lambda>(_, d1).
      let g = gi_GitHubID idn;
          inserted = \<not> list_ex (\<lambda>u. us_github_user_id u = g) (users d1);
          userID = (case user_of_github d1 g of None \<Rightarrow> nid | Some u \<Rightarrow> u);
          d2 = d1\<lparr>users := insert_new (\<lambda>u. us_github_user_id u = g) (new_user e nid g) (users d1)\<rparr>;
          d3 = d2\<lparr>users := update_where (\<lambda>u. us_id u = userID) (\<lambda>u. u\<lparr>us_last_seen_at := db_now e\<rparr>) (users d2)\<rparr>
      in if inserted \<and> user_exists d1 nid then Inl (ErrDB Unique_violation)
         else bind_res (UserByID userID d3) (\<lambda>u. Inr ((u, inserted), d3)))"

definition set_user :: "uuid \<Rightarrow> (user_row \<Rightarrow> user_row) \<Rightarrow> db \<Rightarrow> db" where
  "set_user uid f d = d\<lparr>users := update_where (\<lambda>u. us_id u = uid) f (users d)\<rparr>"

definition MarkOnboarded :: "env \<Rightarrow> uuid \<Rightarrow> db \<Rightarrow> unit result" where
  "MarkOnboarded e uid d =
    Inr ((), set_user uid (\<lambda>u. u\<lparr>us_follow_import_completed_at := Some (Now e)\<rparr>) d)"

definition SuspendUser :: "env \<Rightarrow> uuid \<Rightarrow> string \<Rightarrow> db \<Rightarrow> unit result" where
  "SuspendUser e uid reason d =
    Inr ((), set_user uid (\<lambda>u. u\<lparr>us_suspended_at := Some (db_now e), us_suspended_reason := Some reason\<rparr>) d)"

definition UnsuspendUser :: "uuid \<Rightarrow> db \<Rightarrow> unit result" where
  "UnsuspendUser uid d =
    Inr ((), set_user uid (\<lambda>u. u\<lparr>us_suspended_at := None, us_suspended_reason := None\<rparr>) d)"

definition coalesce :: "'a option \<Rightarrow> 'a \<Rightarrow> 'a" where
  "coalesce x y = (case x of None \<Rightarrow> y | Some v \<Rightarrow> v)"

definition coalesce_opt :: "'a option \<Rightarrow> 'a option \<Rightarrow> 'a option" where
  "coalesce_opt x y = (case x of None \<Rightarrow> y | Some v \<Rightarrow> Some v)"

definition UpdateSettings ::
  "uuid \<Rightarrow> Visibility option \<Rightarrow> uuid option \<Rightarrow> bool \<Rightarrow> bool option \<Rightarrow> bool option \<Rightarrow> db \<Rightarrow> unit result" where
  "UpdateSettings uid vis listID clearList allow_replies allow_reactions d =
    (if user_exists d uid \<and> \<not> clearList
        \<and> (case listID of None \<Rightarrow> False | Some l \<Rightarrow> \<not> list_ex (\<lambda>al. al_id al = l) (audience_lists d))
     then Inl (ErrDB Foreign_key_violation)
     else Inr ((), set_user uid (\<lambda>u. u\<lparr>
       us_default_visibility := coalesce vis (us_default_visibility u),
       us_default_audience_list_id :=
         (if clearList then None else coalesce_opt listID (us_default_audience_list_id u)),
       us_default_allow_replies := coalesce allow_replies (us_default_allow_replies u),
       us_default_allow_reactions := coalesce allow_reactions (us_default_allow_reactions u)\<rparr>) d))"

definition TouchSeen :: "uuid \<Rightarrow> time \<Rightarrow> db \<Rightarrow> db" where
  "TouchSeen uid at_time d = set_user uid (\<lambda>u. u\<lparr>us_last_seen_at := at_time\<rparr>) d"

definition SyncModerators :: "GitHubID list \<Rightarrow> db \<Rightarrow> (nat \<times> nat) result" where
  "SyncModerators ids d =
    (let grant = (\<lambda>u. us_github_user_id u \<in> set ids \<and> \<not> us_is_moderator u);
         us1 = update_where grant (\<lambda>u. u\<lparr>us_is_moderator := True\<rparr>) (users d);
         revoke = (\<lambda>u. us_is_moderator u \<and> us_github_user_id u \<notin> set ids);
         us2 = update_where revoke (\<lambda>u. u\<lparr>us_is_moderator := False\<rparr>) us1
     in Inr ((affected grant (users d), affected revoke us1), d\<lparr>users := us2\<rparr>))"

section \<open>Identities: facts\<close>

text \<open>The stored lower-case login is the lower-case of the stored login.\<close>

definition logins_ok :: "db \<Rightarrow> bool" where
  "logins_ok d \<longleftrightarrow> (\<forall>r\<in>set (identities d). login_lower r = lower (gi_Login r))"

lemma upsert_statement_Inr:
  assumes "upsert_statement e idn d = Inr d'"
  shows "d' = d\<lparr>identities := insert_or (\<lambda>r. gi_GitHubID r = gi_GitHubID idn)
           (\<lambda>_. identity_values e idn) (identity_values e idn) (identities d)\<rparr>"
    and "\<not> list_ex (\<lambda>r. login_lower r = lower (gi_Login idn) \<and> gi_GitHubID r \<noteq> gi_GitHubID idn) (identities d)"
  using assms by (auto simp: upsert_statement_def Let_def identity_values_def split: if_splits)

lemma insert_or_identity_set:
  "set (insert_or (\<lambda>r. gi_GitHubID r = gi_GitHubID idn) (\<lambda>_. v) v rs)
    = insert v {r \<in> set rs. gi_GitHubID r \<noteq> gi_GitHubID idn}"
  by (auto simp: insert_or_def list_ex_iff set_update_where)

lemma identity_values_simps [simp]:
  "gi_GitHubID (identity_values e idn) = gi_GitHubID idn"
  "login_lower (identity_values e idn) = lower (gi_Login idn)"
  "gi_Login (identity_values e idn) = gi_Login idn"
  by (simp_all add: identity_values_def)

lemma upsert_statement_keeps:
  assumes "upsert_statement e idn d = Inr d'"
  shows "keyed gi_GitHubID (identities d) \<Longrightarrow> keyed gi_GitHubID (identities d')"
    and "logins_ok d \<Longrightarrow> logins_ok d'"
    and "users d' = users d" and "stories d' = stories d"
    and "gi_GitHubID ` set (identities d') = insert (gi_GitHubID idn) (gi_GitHubID ` set (identities d))"
    and "r \<in> set (identities d') \<Longrightarrow> login_lower r = lower (gi_Login idn) \<Longrightarrow> gi_GitHubID r = gi_GitHubID idn"
    and "\<exists>r\<in>set (identities d'). login_lower r = lower (gi_Login idn)"
proof -
  let ?v = "identity_values e idn"
  note eq = upsert_statement_Inr(1)[OF assms] and free = upsert_statement_Inr(2)[OF assms]
  have ids: "set (identities d') = insert ?v {r \<in> set (identities d). gi_GitHubID r \<noteq> gi_GitHubID idn}"
    by (simp add: eq insert_or_identity_set)
  show "users d' = users d" "stories d' = stories d" by (simp_all add: eq)
  show "keyed gi_GitHubID (identities d')" if "keyed gi_GitHubID (identities d)"
    unfolding eq using that
    by (auto simp: insert_or_def intro!: keyed_append keyed_update_where)
  show "logins_ok d'" if "logins_ok d"
    using that ids by (auto simp: logins_ok_def)
  show "gi_GitHubID ` set (identities d') = insert (gi_GitHubID idn) (gi_GitHubID ` set (identities d))"
    unfolding ids by auto
  show "gi_GitHubID r = gi_GitHubID idn"
    if "r \<in> set (identities d')" "login_lower r = lower (gi_Login idn)"
    using that free unfolding ids by (auto simp: list_ex_iff)
  show "\<exists>r\<in>set (identities d'). login_lower r = lower (gi_Login idn)"
    unfolding ids by simp
qed

lemma release_stale_Inr:
  assumes "release_stale idn d = Inr d'"
  shows "users d' = users d" and "stories d' = stories d"
    and "map gi_GitHubID (identities d') = map gi_GitHubID (identities d)"
    and "logins_ok d \<Longrightarrow> logins_ok d'"
    and "logins_ok d \<Longrightarrow>
      \<not> list_ex (\<lambda>r. login_lower r = lower (gi_Login idn) \<and> gi_GitHubID r \<noteq> gi_GitHubID idn) (identities d')"
proof -
  let ?P = "\<lambda>r. login_lower r = lower (gi_Login idn) \<and> gi_GitHubID r \<noteq> gi_GitHubID idn"
  let ?f = "\<lambda>r. r\<lparr>gi_Login := stale_login r, login_lower := lower (stale_login r)\<rparr>"
  have eq: "d' = d\<lparr>identities := update_where ?P ?f (identities d)\<rparr>"
    using assms by (auto simp: release_stale_def Let_def split: if_splits)
  show "users d' = users d" "stories d' = stories d" by (simp_all add: eq)
  show "map gi_GitHubID (identities d') = map gi_GitHubID (identities d)"
    by (simp add: eq map_update_where)
  show "logins_ok d'" if "logins_ok d"
    using that by (auto simp: eq logins_ok_def set_update_where)
  show "\<not> list_ex ?P (identities d')" if ok: "logins_ok d"
  proof -
    have longer: "lower (stale_login r) \<noteq> lower (gi_Login idn)"
      if "r \<in> set (identities d)" "?P r" for r
    proof -
      from ok that have "lower (gi_Login r) = lower (gi_Login idn)" by (simp add: logins_ok_def)
      then have "length (gi_Login r) = length (gi_Login idn)" by (metis length_lower)
      then have "length (stale_login r) \<noteq> length (gi_Login idn)" by (simp add: stale_login_def)
      then show ?thesis by (metis length_lower)
    qed
    then show ?thesis by (auto simp: eq list_ex_iff set_update_where)
  qed
qed

lemma UpsertIdentity_returns:
  assumes "logins_ok d" shows "UpsertIdentity in_tx e idn d \<noteq> Inl Diverges"
proof -
  have stmt: "upsert_statement e idn d'' = Inl err \<Longrightarrow> err \<noteq> Diverges" for d'' err
    by (auto simp: upsert_statement_def Let_def split: if_splits)
  have rel: "release_stale idn d = Inl err \<Longrightarrow> err \<noteq> Diverges" for err
    by (auto simp: release_stale_def Let_def split: if_splits)
  have second: "UpsertIdentity_fuel (Suc 0) False e idn d' \<noteq> Inl Diverges"
    if "release_stale idn d = Inr d'" for d'
  proof -
    from release_stale_Inr(5)[OF that assms]
    have "upsert_statement e idn d' \<noteq> Inl (ErrDB Unique_violation)"
      by (auto simp: upsert_statement_def Let_def identity_values_def split: if_splits)
    then show ?thesis using stmt by (auto split: sum.splits)
  qed
  show ?thesis
    using stmt rel second
    by (cases "release_stale idn d")
      (auto simp: UpsertIdentity_def numeral_2_eq_2 split: sum.splits)
qed

lemma UpsertIdentity_Inr:
  assumes "UpsertIdentity in_tx e idn d = Inr ((), d')"
  obtains d0 where "upsert_statement e idn d0 = Inr d'"
    and "d0 = d \<or> (\<not> in_tx \<and> release_stale idn d = Inr d0)"
  using assms that
  by (cases "release_stale idn d")
    (auto simp: UpsertIdentity_def numeral_2_eq_2 bind_res_Inr_iff split: sum.splits if_splits)

lemma UpsertIdentity_keeps:
  assumes "UpsertIdentity in_tx e idn d = Inr ((), d')"
  shows "users d' = users d" and "stories d' = stories d"
    and "gi_GitHubID ` set (identities d') = insert (gi_GitHubID idn) (gi_GitHubID ` set (identities d))"
    and "keyed gi_GitHubID (identities d) \<Longrightarrow> keyed gi_GitHubID (identities d')"
    and "logins_ok d \<Longrightarrow> logins_ok d'"
proof -
  from assms obtain d0 where u: "upsert_statement e idn d0 = Inr d'"
    and d0: "d0 = d \<or> (\<not> in_tx \<and> release_stale idn d = Inr d0)"
    by (rule UpsertIdentity_Inr)
  have *: "users d0 = users d" "stories d0 = stories d"
    "map gi_GitHubID (identities d0) = map gi_GitHubID (identities d)"
    "logins_ok d \<Longrightarrow> logins_ok d0"
    using d0 release_stale_Inr by auto
  from *(3) have ids: "gi_GitHubID ` set (identities d0) = gi_GitHubID ` set (identities d)"
    by (metis set_map)
  show "users d' = users d" "stories d' = stories d"
    using upsert_statement_keeps(3,4)[OF u] *(1,2) by simp_all
  show "gi_GitHubID ` set (identities d') = insert (gi_GitHubID idn) (gi_GitHubID ` set (identities d))"
    using upsert_statement_keeps(5)[OF u] ids by simp
  show "keyed gi_GitHubID (identities d')" if "keyed gi_GitHubID (identities d)"
    using upsert_statement_keeps(1)[OF u] that *(3) by (simp add: keyed_def)
  show "logins_ok d'" if "logins_ok d"
    using upsert_statement_keeps(2)[OF u] that *(4) by simp
qed

lemma UpsertIdentity_frame:
  assumes "UpsertIdentity in_tx e idn d = Inr ((), d')"
  obtains rows where "d' = d\<lparr>identities := rows\<rparr>"
proof -
  from assms obtain d0 where u: "upsert_statement e idn d0 = Inr d'"
    and d0: "d0 = d \<or> (\<not> in_tx \<and> release_stale idn d = Inr d0)"
    by (rule UpsertIdentity_Inr)
  from d0 obtain rows0 where r0: "d0 = d\<lparr>identities := rows0\<rparr>"
  proof (cases "d0 = d")
    case True
    then have "d0 = d\<lparr>identities := identities d\<rparr>" by simp
    then show thesis by (rule that)
  next
    case False
    with d0 show thesis by (intro that) (auto simp: release_stale_def Let_def split: if_splits)
  qed
  from upsert_statement_Inr(1)[OF u] r0 show thesis by (intro that) simp
qed

text \<open>Inside a transaction the upsert is the statement alone.\<close>

lemma UpsertIdentity_tx:
  "UpsertIdentity True e idn d =
    (if gi_AccountType (identity_values e idn) \<notin> set account_types then Inl (ErrDB Check_violation)
     else if list_ex (\<lambda>r. login_lower r = lower (gi_Login idn) \<and> gi_GitHubID r \<noteq> gi_GitHubID idn) (identities d)
     then Inl (ErrDB In_failed_transaction)
     else Inr ((), d\<lparr>identities := insert_or (\<lambda>r. gi_GitHubID r = gi_GitHubID idn)
       (\<lambda>_. identity_values e idn) (identity_values e idn) (identities d)\<rparr>))"
  by (simp add: UpsertIdentity_def numeral_2_eq_2 upsert_statement_def Let_def)

lemma identity_exists_after_upsert:
  "identity_exists (d\<lparr>identities := insert_or (\<lambda>r. gi_GitHubID r = gi_GitHubID idn)
     (\<lambda>_. identity_values e idn) (identity_values e idn) rows\<rparr>) (gi_GitHubID idn)"
  by (simp add: identity_exists_def list_ex_iff insert_or_identity_set)

section \<open>Users: facts\<close>

lemma set_user_fields [simp]:
  "identities (set_user uid f d) = identities d"
  "relationships (set_user uid f d) = relationships d"
  "blocks (set_user uid f d) = blocks d"
  "stories (set_user uid f d) = stories d"
  "users (set_user uid f d) = update_where (\<lambda>u. us_id u = uid) f (users d)"
  by (simp_all add: set_user_def)

lemma EnsureUser_cases:
  assumes "EnsureUser in_tx e nid idn d = Inr ((u, inserted), d')"
  obtains d1 where "UpsertIdentity in_tx e idn d = Inr ((), d1)"
    and "inserted \<longleftrightarrow> \<not> list_ex (\<lambda>u. us_github_user_id u = gi_GitHubID idn) (users d)"
    and "users d' = update_where
      (\<lambda>u. us_id u = (case user_of_github d (gi_GitHubID idn) of None \<Rightarrow> nid | Some u \<Rightarrow> u))
      (\<lambda>u. u\<lparr>us_last_seen_at := db_now e\<rparr>)
      (insert_new (\<lambda>u. us_github_user_id u = gi_GitHubID idn) (new_user e nid (gi_GitHubID idn)) (users d))"
    and "stories d' = stories d"
    and "u_ID u = (case user_of_github d (gi_GitHubID idn) of None \<Rightarrow> nid | Some u \<Rightarrow> u)"
proof -
  from assms obtain d1 where d1: "UpsertIdentity in_tx e idn d = Inr ((), d1)"
    by (auto simp: EnsureUser_def bind_res_Inr_iff)
  note keep = UpsertIdentity_keeps(1,2)[OF d1]
  have uid: "UserByID v dd = Inr w \<Longrightarrow> u_ID w = v" for v dd w
    by (auto simp: UserByID_def scanUser_def dest!: find_Some_in)
  show thesis
  proof (rule that[OF d1])
    show "u_ID u = (case user_of_github d (gi_GitHubID idn) of None \<Rightarrow> nid | Some u \<Rightarrow> u)"
      using assms d1 keep uid
      by (auto simp: EnsureUser_def bind_res_Inr_iff Let_def user_of_github_def split: if_splits)
  qed (use assms d1 keep in \<open>auto simp: EnsureUser_def bind_res_Inr_iff Let_def user_of_github_def split: if_splits\<close>)
qed

section \<open>Properties\<close>

text \<open>A GitHub account that takes over a login: when the upsert (with its retry) succeeds,
  the numeric id keeps identifying the account.  The login now resolves to the upserted account
  and to no other, every account known before is still known, ids stay unique, and no user or
  Story row changes hands.\<close>

theorem UpsertIdentity_rename_safe:
  assumes "logins_ok d" and "keyed gi_GitHubID (identities d)"
    and "UpsertIdentity in_tx e idn d = Inr ((), d')"
  shows "users d' = users d \<and> stories d' = stories d \<and> keyed gi_GitHubID (identities d') \<and> logins_ok d'
    \<and> gi_GitHubID ` set (identities d') = insert (gi_GitHubID idn) (gi_GitHubID ` set (identities d))
    \<and> {gi_GitHubID r | r. r \<in> set (identities d') \<and> login_lower r = lower (gi_Login idn)} = {gi_GitHubID idn}"
proof -
  from assms(3) obtain d0 where u: "upsert_statement e idn d0 = Inr d'"
    by (rule UpsertIdentity_Inr)
  have "{gi_GitHubID r | r. r \<in> set (identities d') \<and> login_lower r = lower (gi_Login idn)} = {gi_GitHubID idn}"
  proof -
    from upsert_statement_keeps(7)[OF u] obtain r0
      where r0: "r0 \<in> set (identities d')" "login_lower r0 = lower (gi_Login idn)" by blast
    with upsert_statement_keeps(6)[OF u] have "gi_GitHubID r0 = gi_GitHubID idn" by blast
    with r0 show ?thesis by (auto dest: upsert_statement_keeps(6)[OF u] intro!: exI[of _ r0])
  qed
  with UpsertIdentity_keeps[OF assms(3)] assms(1,2) show ?thesis by simp
qed

text \<open>Two accounts used by the witnesses: 7 holds the login that 8 now has.\<close>

definition wit_env :: env where
  "wit_env = \<lparr>Now = 100, db_now = 100\<rparr>"

definition wit_identity :: "GitHubID \<Rightarrow> string \<Rightarrow> Identity" where
  "wit_identity g l = \<lparr>gi_GitHubID = g, gi_Login = l, gi_AvatarURL = [], gi_ProfileURL = [],
     gi_AccountType = ''User'', gi_RefreshedAt = 0, gi_Registered = False\<rparr>"

definition wit_identity_db :: db where
  "wit_identity_db = empty_db\<lparr>identities := [identity_values wit_env (wit_identity 7 ''octo'')]\<rparr>"

lemmas wit_identity_defs = wit_env_def wit_identity_def wit_identity_db_def empty_db_def
  identity_values_def UpsertIdentity_def upsert_statement_def release_stale_def account_types_def
  numeral_2_eq_2 update_where_def insert_or_def stale_login_def lower_def lower_char_def decimal_def
  decimal_nat.simps digit_def

theorem UpsertIdentity_rename_safe_witness:
  "\<exists>d'. UpsertIdentity False wit_env (wit_identity 8 ''octo'') wit_identity_db = Inr ((), d')
    \<and> {gi_GitHubID r | r. r \<in> set (identities d') \<and> login_lower r = ''octo''} = {8}"
proof -
  have ok: "logins_ok wit_identity_db" "keyed gi_GitHubID (identities wit_identity_db)"
    by (simp_all add: logins_ok_def wit_identity_db_def empty_db_def keyed_def)
  obtain d' where u: "UpsertIdentity False wit_env (wit_identity 8 ''octo'') wit_identity_db = Inr ((), d')"
    by (simp add: wit_identity_defs Let_def)
  from UpsertIdentity_rename_safe[OF ok u] u show ?thesis
    by (auto simp: wit_identity_def lower_def lower_char_def)
qed

text \<open>Inside a transaction the retry cannot help: when another account still holds the
  login, the upsert fails with the aborted transaction, so an import or a sign-in that runs it in
  a transaction fails as a whole.\<close>

theorem UpsertIdentity_in_tx_fails:
  assumes "list_ex (\<lambda>r. login_lower r = lower (gi_Login idn) \<and> gi_GitHubID r \<noteq> gi_GitHubID idn) (identities d)"
    and "gi_AccountType idn = ''User''"
  shows "UpsertIdentity True e idn d = Inl (ErrDB In_failed_transaction)"
  using assms
  by (simp add: UpsertIdentity_def numeral_2_eq_2 upsert_statement_def identity_values_def account_types_def)

theorem UpsertIdentity_in_tx_fails_witness:
  "UpsertIdentity True wit_env (wit_identity 8 ''octo'') wit_identity_db = Inl (ErrDB In_failed_transaction)"
  by (rule UpsertIdentity_in_tx_fails)
    (simp_all add: wit_identity_def wit_identity_db_def identity_values_def lower_def lower_char_def)

text \<open>The configured moderator set is authoritative: after \<open>SyncModerators\<close> exactly the
  listed accounts are moderators, nobody else is touched, and the two counts it reports account
  for the difference.\<close>

theorem SyncModerators_authoritative:
  "\<exists>g v d'. SyncModerators ids d = Inr ((g, v), d')
    \<and> users d' = map (\<lambda>u. u\<lparr>us_is_moderator := us_github_user_id u \<in> set ids\<rparr>) (users d)
    \<and> affected us_is_moderator (users d') + v = affected us_is_moderator (users d) + g"
proof -
  let ?grant = "\<lambda>u. us_github_user_id u \<in> set ids \<and> \<not> us_is_moderator u"
  let ?us1 = "update_where ?grant (\<lambda>u. u\<lparr>us_is_moderator := True\<rparr>) (users d)"
  let ?revoke = "\<lambda>u. us_is_moderator u \<and> us_github_user_id u \<notin> set ids"
  let ?us2 = "update_where ?revoke (\<lambda>u. u\<lparr>us_is_moderator := False\<rparr>) ?us1"
  have rows: "?us2 = map (\<lambda>u. u\<lparr>us_is_moderator := us_github_user_id u \<in> set ids\<rparr>) (users d)"
    unfolding update_where_def map_map by (rule map_cong) auto
  have count: "affected us_is_moderator (update_where ?revoke (\<lambda>u. u\<lparr>us_is_moderator := False\<rparr>)
          (update_where ?grant (\<lambda>u. u\<lparr>us_is_moderator := True\<rparr>) us))
        + affected ?revoke (update_where ?grant (\<lambda>u. u\<lparr>us_is_moderator := True\<rparr>) us)
      = affected us_is_moderator us + affected ?grant us" for us :: "user_row list"
    by (induction us) (auto simp: affected_def)
  have "SyncModerators ids d =
      Inr ((affected ?grant (users d), affected ?revoke ?us1), d\<lparr>users := ?us2\<rparr>)"
    by (simp add: SyncModerators_def Let_def)
  moreover have "users (d\<lparr>users := ?us2\<rparr>)
      = map (\<lambda>u. u\<lparr>us_is_moderator := us_github_user_id u \<in> set ids\<rparr>) (users d)"
    by (simp add: rows)
  moreover have "affected us_is_moderator (users (d\<lparr>users := ?us2\<rparr>)) + affected ?revoke ?us1
      = affected us_is_moderator (users d) + affected ?grant (users d)"
    using count[of "users d"] by simp
  ultimately show ?thesis by blast
qed

text \<open>Signing in again finds the same account: \<open>EnsureUser\<close> on a known GitHub id inserts
  nothing, returns that account's id, and leaves every account's suspension, deletion mark and
  moderator flag as it was (it does not clear a deletion mark, whatever its comment says).\<close>

theorem EnsureUser_known_account:
  assumes "EnsureUser in_tx e nid idn d = Inr ((u, inserted), d')"
    and "user_of_github d (gi_GitHubID idn) = Some uid"
  shows "\<not> inserted \<and> u_ID u = uid
    \<and> map (\<lambda>r. (us_id r, us_github_user_id r, us_suspended_at r, us_deleted_at r, us_is_moderator r)) (users d')
      = map (\<lambda>r. (us_id r, us_github_user_id r, us_suspended_at r, us_deleted_at r, us_is_moderator r)) (users d)"
proof -
  from assms(2) have known: "list_ex (\<lambda>u. us_github_user_id u = gi_GitHubID idn) (users d)"
    by (auto simp: user_of_github_def list_ex_iff dest!: find_Some_in)
  from assms(1) show ?thesis
    by (rule EnsureUser_cases)
      (use assms(2) known in \<open>auto simp: insert_new_def update_where_def\<close>)
qed

definition wit_user :: "uuid \<Rightarrow> GitHubID \<Rightarrow> user_row" where
  "wit_user u g = new_user wit_env u g"

theorem EnsureUser_known_account_witness:
  "\<exists>u d'. EnsureUser False wit_env 5 (wit_identity 7 ''octo'')
      (wit_identity_db\<lparr>users := [(wit_user 3 7)\<lparr>us_deleted_at := Some 50\<rparr>]\<rparr>) = Inr ((u, False), d')
    \<and> map us_deleted_at (users d') = [Some 50]"
proof -
  let ?d = "wit_identity_db\<lparr>users := [(wit_user 3 7)\<lparr>us_deleted_at := Some 50\<rparr>]\<rparr>"
  obtain u d' where r: "EnsureUser False wit_env 5 (wit_identity 7 ''octo'') ?d = Inr ((u, False), d')"
    by (simp add: EnsureUser_def wit_identity_defs Let_def user_of_github_def insert_new_def wit_user_def
        new_user_def user_exists_def UserByID_def user_join_def row_or_notfound_def)
  have known: "user_of_github ?d (gi_GitHubID (wit_identity 7 ''octo'')) = Some 3"
    by (simp add: user_of_github_def wit_user_def new_user_def wit_identity_def)
  from EnsureUser_known_account[OF r known] have
    "map us_deleted_at (users d') = [Some 50]"
    by (auto simp: map_eq_Cons_conv)
  with r show ?thesis by auto
qed

end
