(* ===== verification/Graph.thy ===== *)
theory Graph
  imports Accounts
begin

text \<open>
  The social graph: \<^verbatim>\<open>src/internal/store/graph.go\<close>.  Follows with their tombstones, the
  import of GitHub follows (applied or previewed), the three one-sided tables of mutes, blocks and
  hide rules, the listings and the audience lists.

  The interface \<open>toggle_table\<close> states what the three one-sided tables promise their
  callers; it is interpreted on each of them.
\<close>

section \<open>Follows\<close>

definition follow_key :: "uuid \<Rightarrow> GitHubID \<Rightarrow> ('a Relationship_scheme) \<Rightarrow> bool" where
  "follow_key u g r \<longleftrightarrow> r_FollowerUserID r = u \<and> r_FolloweeGitHubID r = g"

definition new_follow :: "env \<Rightarrow> uuid \<Rightarrow> GitHubID \<Rightarrow> Provenance \<Rightarrow> relationship_row" where
  "new_follow e u g prov =
    \<lparr>r_FollowerUserID = u, r_FolloweeGitHubID = g, r_State = RelationshipActive,
     r_Provenance = prov, r_CreatedAt = db_now e, r_UpdatedAt = db_now e, r_UnfollowedAt = None\<rparr>"

text \<open>The conflict branch: native always wins, an import never downgrades a native follow.\<close>

definition refollow :: "env \<Rightarrow> Provenance \<Rightarrow> relationship_row \<Rightarrow> relationship_row" where
  "refollow e prov r =
    r\<lparr>r_State := RelationshipActive, r_UnfollowedAt := None, r_UpdatedAt := db_now e,
      r_Provenance := (if prov = ProvenanceNative then ProvenanceNative else r_Provenance r)\<rparr>"

definition Follow :: "env \<Rightarrow> uuid \<Rightarrow> GitHubID \<Rightarrow> Provenance \<Rightarrow> db \<Rightarrow> unit result" where
  "Follow e follower followee prov d =
    (if \<not> user_exists d follower \<or> \<not> identity_exists d followee then Inl ErrNotFound
     else Inr ((), d\<lparr>relationships := insert_or (follow_key follower followee) (refollow e prov)
       (new_follow e follower followee prov) (relationships d)\<rparr>))"

definition Unfollow :: "env \<Rightarrow> uuid \<Rightarrow> GitHubID \<Rightarrow> db \<Rightarrow> unit result" where
  "Unfollow e follower followee d =
    Inr ((), d\<lparr>relationships := update_where
      (\<lambda>r. follow_key follower followee r \<and> r_State r = RelationshipActive)
      (\<lambda>r. r\<lparr>r_State := RelationshipUnfollowed, r_UnfollowedAt := Some (db_now e), r_UpdatedAt := db_now e\<rparr>)
      (relationships d)\<rparr>)"

definition Follows :: "uuid \<Rightarrow> GitHubID \<Rightarrow> db \<Rightarrow> bool" where
  "Follows follower followee d =
    list_ex (\<lambda>r. follow_key follower followee r \<and> r_State r = RelationshipActive) (relationships d)"

definition RelationshipProvenance :: "uuid \<Rightarrow> GitHubID \<Rightarrow> db \<Rightarrow> Provenance option" where
  "RelationshipProvenance follower followee d =
    map_option r_Provenance
      (find (\<lambda>r. follow_key follower followee r \<and> r_State r = RelationshipActive) (relationships d))"

section \<open>The import of GitHub follows\<close>

datatype ImportAction = Added | Already_following | Skipped_unfollowed | Skipped_blocked

definition import_state :: "db \<Rightarrow> uuid \<Rightarrow> GitHubID \<Rightarrow> RelationshipState option" where
  "import_state d u g = map_option r_State (find (follow_key u g) (relationships d))"

definition import_blocked :: "db \<Rightarrow> uuid \<Rightarrow> GitHubID \<Rightarrow> bool" where
  "import_blocked d u g =
    list_ex (\<lambda>b. (fst b = u \<and> snd b = g)
      \<or> (github_of_user d u = Some (snd b) \<and> user_of_github d g = Some (fst b))) (blocks d)"

text \<open>The switch of the loop body, and one iteration over the fetched identities.\<close>

definition import_action :: "db \<Rightarrow> uuid \<Rightarrow> GitHubID \<Rightarrow> ImportAction" where
  "import_action d u g =
    (if import_blocked d u g then Skipped_blocked
     else if import_state d u g = Some RelationshipUnfollowed then Skipped_unfollowed
     else if import_state d u g = Some RelationshipActive then Already_following
     else Added)"

definition import_one :: "env \<Rightarrow> uuid \<Rightarrow> bool \<Rightarrow> Identity \<Rightarrow> db \<Rightarrow> (Identity \<times> ImportAction) result" where
  "import_one e userID preview idn d =
    bind_res (UpsertIdentity True e idn d) (\<lambda>(_, d1).
      let action = import_action d1 userID (gi_GitHubID idn) in
      if action = Added \<and> \<not> preview then
        bind_res (Follow e userID (gi_GitHubID idn) ProvenanceGitHubImport d1)
          (\<lambda>(_, d2). Inr ((idn, action), d2))
      else Inr ((idn, action), d1))"

fun import_loop ::
  "env \<Rightarrow> uuid \<Rightarrow> bool \<Rightarrow> Identity list \<Rightarrow> db \<Rightarrow> (Identity \<times> ImportAction) list result" where
  "import_loop e userID preview [] d = Inr ([], d)"
| "import_loop e userID preview (idn # idns) d =
    bind_res (import_one e userID preview idn d) (\<lambda>(c, d1).
      bind_res (import_loop e userID preview idns d1) (\<lambda>(cs, d2). Inr (c # cs, d2)))"

text \<open>A preview rolls the whole transaction back and reports its changes without an error.\<close>

definition ImportFollows ::
  "env \<Rightarrow> uuid \<Rightarrow> Identity list \<Rightarrow> bool \<Rightarrow> db \<Rightarrow> (Identity \<times> ImportAction) list result" where
  "ImportFollows e userID idns preview d =
    bind_res (import_loop e userID preview idns d) (\<lambda>(changes, d1).
      if preview then Inr (changes, d)
      else bind_res (MarkOnboarded e userID d1) (\<lambda>(_, d2). Inr (changes, d2)))"

section \<open>Mutes, blocks and hide rules\<close>

definition toggle_rows :: "bool \<Rightarrow> uuid \<Rightarrow> GitHubID \<Rightarrow> pair_row list \<Rightarrow> pair_row list" where
  "toggle_rows on u g rs =
    (if on then insert_new (\<lambda>r. r = (u, g)) (u, g) rs else delete_where (\<lambda>r. fst r = u \<and> snd r = g) rs)"

definition toggle ::
  "(db \<Rightarrow> pair_row list) \<Rightarrow> ((pair_row list \<Rightarrow> pair_row list) \<Rightarrow> db \<Rightarrow> db) \<Rightarrow>
   uuid \<Rightarrow> GitHubID \<Rightarrow> bool \<Rightarrow> db \<Rightarrow> unit result" where
  "toggle tab upd u g on d =
    (if on \<and> (u, g) \<notin> set (tab d) \<and> (\<not> user_exists d u \<or> \<not> identity_exists d g) then Inl ErrNotFound
     else Inr ((), upd (toggle_rows on u g) d))"

definition SetMute :: "uuid \<Rightarrow> GitHubID \<Rightarrow> bool \<Rightarrow> db \<Rightarrow> unit result" where
  "SetMute u target on d = toggle mutes mutes_update u target on d"

definition SetHide :: "uuid \<Rightarrow> GitHubID \<Rightarrow> bool \<Rightarrow> db \<Rightarrow> unit result" where
  "SetHide u target on d = toggle hide_rules hide_rules_update u target on d"

definition cut_follows :: "env \<Rightarrow> uuid \<Rightarrow> GitHubID \<Rightarrow> db \<Rightarrow> db" where
  "cut_follows e u target d =
    d\<lparr>relationships := update_where
      (\<lambda>r. r_State r = RelationshipActive \<and>
        ((r_FollowerUserID r = u \<and> r_FolloweeGitHubID r = target) \<or>
         (github_of_user d u = Some (r_FolloweeGitHubID r) \<and> user_of_github d target = Some (r_FollowerUserID r))))
      (\<lambda>r. r\<lparr>r_State := RelationshipUnfollowed, r_UnfollowedAt := Some (db_now e), r_UpdatedAt := db_now e\<rparr>)
      (relationships d)\<rparr>"

definition SetBlock :: "env \<Rightarrow> uuid \<Rightarrow> GitHubID \<Rightarrow> bool \<Rightarrow> db \<Rightarrow> unit result" where
  "SetBlock e u target on d =
    (if \<not> on then toggle blocks blocks_update u target False d
     else bind_res (toggle blocks blocks_update u target True d) (\<lambda>(_, d1). Inr ((), cut_follows e u target d1)))"

definition BlockedEitherWay :: "uuid \<Rightarrow> GitHubID \<Rightarrow> uuid \<Rightarrow> GitHubID \<Rightarrow> db \<Rightarrow> bool" where
  "BlockedEitherWay a aGitHub b bGitHub d =
    (list_ex (\<lambda>r. fst r = a \<and> snd r = bGitHub) (blocks d)
     \<or> list_ex (\<lambda>r. fst r = b \<and> snd r = aGitHub) (blocks d))"

definition Muted :: "uuid \<Rightarrow> GitHubID \<Rightarrow> db \<Rightarrow> bool" where
  "Muted u target d = list_ex (\<lambda>r. fst r = u \<and> snd r = target) (mutes d)"

section \<open>Listings\<close>

record RelationshipRow =
  rr_Identity :: Identity
  rr_Provenance :: Provenance
  rr_FollowsMe :: bool
  rr_Muted :: bool
  rr_Blocked :: bool
  rr_Hidden :: bool

definition relationship_flags ::
  "db \<Rightarrow> uuid \<Rightarrow> identity_row \<Rightarrow> bool \<Rightarrow> relationship_row \<Rightarrow> RelationshipRow \<times> time" where
  "relationship_flags d u gi follows_me r =
    (\<lparr>rr_Identity = scanIdentity d gi, rr_Provenance = r_Provenance r, rr_FollowsMe = follows_me,
      rr_Muted = list_ex (\<lambda>m. fst m = u \<and> snd m = gi_GitHubID gi) (mutes d),
      rr_Blocked = list_ex (\<lambda>b. fst b = u \<and> snd b = gi_GitHubID gi) (blocks d),
      rr_Hidden = list_ex (\<lambda>h. fst h = u \<and> snd h = gi_GitHubID gi) (hide_rules d)\<rparr>, r_CreatedAt r)"

text \<open>\<open>listRelationships\<close>: newest first, at most \<open>limit\<close> rows, and the creation time of
  the last row as the cursor when the page is full.  The cursor argument is a time or absent.\<close>

definition page_limit :: "int \<Rightarrow> int \<Rightarrow> int \<Rightarrow> nat" where
  "page_limit dflt mx limit = nat (if limit \<le> 0 \<or> mx < limit then dflt else limit)"

definition listRelationships ::
  "int \<Rightarrow> (RelationshipRow \<times> time) list \<Rightarrow> RelationshipRow list \<times> time option" where
  "listRelationships limit rows =
    (let lim = page_limit 50 200 limit;
         out = take lim (sort_key (\<lambda>r. - snd r) rows)
     in (map fst out, if length out = lim then map_option snd (case out of [] \<Rightarrow> None | _ \<Rightarrow> Some (last out)) else None))"

definition before_cursor :: "time option \<Rightarrow> time \<Rightarrow> bool" where
  "before_cursor after t = (case after of None \<Rightarrow> True | Some a \<Rightarrow> t < a)"

definition ListFollowing :: "uuid \<Rightarrow> GitHubID \<Rightarrow> int \<Rightarrow> time option \<Rightarrow> db \<Rightarrow> RelationshipRow list \<times> time option" where
  "ListFollowing u gid limit after d =
    listRelationships limit
      [relationship_flags d u gi
         (list_ex (\<lambda>rb. list_ex (\<lambda>ub. us_id ub = r_FollowerUserID rb \<and> us_github_user_id ub = gi_GitHubID gi) (users d)
            \<and> r_FolloweeGitHubID rb = gid \<and> r_State rb = RelationshipActive) (relationships d)) r.
        r \<leftarrow> filter (\<lambda>r. r_FollowerUserID r = u \<and> r_State r = RelationshipActive
               \<and> before_cursor after (r_CreatedAt r)) (relationships d),
        gi \<leftarrow> filter (\<lambda>gi. gi_GitHubID gi = r_FolloweeGitHubID r) (identities d)]"

definition ListFollowers :: "uuid \<Rightarrow> GitHubID \<Rightarrow> int \<Rightarrow> time option \<Rightarrow> db \<Rightarrow> RelationshipRow list \<times> time option" where
  "ListFollowers u gid limit after d =
    listRelationships limit
      [relationship_flags d u gi
         (list_ex (\<lambda>rf. r_FollowerUserID rf = u \<and> r_FolloweeGitHubID rf = gi_GitHubID gi
            \<and> r_State rf = RelationshipActive) (relationships d)) r.
        r \<leftarrow> filter (\<lambda>r. r_FolloweeGitHubID r = gid \<and> r_State r = RelationshipActive
               \<and> before_cursor after (r_CreatedAt r)) (relationships d),
        fu \<leftarrow> filter (\<lambda>fu. us_id fu = r_FollowerUserID r \<and> us_deleted_at fu = None \<and> us_suspended_at fu = None) (users d),
        gi \<leftarrow> filter (\<lambda>gi. gi_GitHubID gi = us_github_user_id fu) (identities d)]"

definition login_order :: "identity_row \<Rightarrow> nat list" where
  "login_order gi = map of_char (login_lower gi)"

text \<open>\<open>ListSimple\<close> over a one-sided table.\<close>

definition ListSimple :: "(db \<Rightarrow> pair_row list) \<Rightarrow> uuid \<Rightarrow> db \<Rightarrow> Identity list" where
  "ListSimple tab u d =
    map (scanIdentity d) (sort_key login_order
      [gi. t \<leftarrow> filter (\<lambda>t. fst t = u) (tab d), gi \<leftarrow> filter (\<lambda>gi. gi_GitHubID gi = snd t) (identities d)])"

section \<open>Audience lists\<close>

record AudienceList =
  AL_ID :: uuid
  AL_Name :: string
  AL_Members :: "Identity list"

definition add_member :: "uuid \<Rightarrow> string \<Rightarrow> db \<Rightarrow> db" where
  "add_member listID l d =
    (case find (\<lambda>r. login_lower r = lower (trim_at l)) (identities d) of
       None \<Rightarrow> d
     | Some r \<Rightarrow> d\<lparr>audience_members :=
         insert_new (\<lambda>m. m = (listID, gi_GitHubID r)) (listID, gi_GitHubID r) (audience_members d)\<rparr>)"

definition replaceMembers :: "uuid \<Rightarrow> string list \<Rightarrow> db \<Rightarrow> db" where
  "replaceMembers listID logins d =
    foldl (\<lambda>d l. add_member listID l d)
      (d\<lparr>audience_members := delete_where (\<lambda>m. fst m = listID) (audience_members d)\<rparr>) logins"

definition AudienceList_get :: "uuid \<Rightarrow> uuid \<Rightarrow> db \<Rightarrow> store_error + AudienceList" where
  "AudienceList_get u listID d =
    row_or_notfound (map_option (\<lambda>al. \<lparr>AL_ID = al_id al, AL_Name = al_name al,
        AL_Members = map (scanIdentity d) (sort_key login_order
          [gi. m \<leftarrow> filter (\<lambda>m. fst m = listID) (audience_members d),
               gi \<leftarrow> filter (\<lambda>gi. gi_GitHubID gi = snd m) (identities d)])\<rparr>)
      (find (\<lambda>al. al_id al = listID \<and> al_owner_user_id al = u \<and> al_deleted_at al = None) (audience_lists d)))"

definition CreateAudienceList :: "uuid \<Rightarrow> uuid \<Rightarrow> string \<Rightarrow> string list \<Rightarrow> db \<Rightarrow> AudienceList result" where
  "CreateAudienceList nid u name logins d =
    (if list_ex (\<lambda>al. al_owner_user_id al = u \<and> al_name al = TrimSpace name) (audience_lists d)
        \<or> list_ex (\<lambda>al. al_id al = nid) (audience_lists d) then Inl ErrNotFound
     else if \<not> user_exists d u then Inl (ErrDB Foreign_key_violation)
     else
       (let d1 = d\<lparr>audience_lists := audience_lists d @
              [\<lparr>al_id = nid, al_owner_user_id = u, al_name = TrimSpace name, al_deleted_at = None\<rparr>]\<rparr>;
            d2 = replaceMembers nid logins d1
        in bind_res (AudienceList_get u nid d2) (\<lambda>l. Inr (l, d2))))"

definition UpdateAudienceList ::
  "uuid \<Rightarrow> uuid \<Rightarrow> string option \<Rightarrow> string list \<Rightarrow> bool \<Rightarrow> db \<Rightarrow> AudienceList result" where
  "UpdateAudienceList u listID name logins replace d =
    (case find (\<lambda>al. al_id al = listID \<and> al_deleted_at al = None) (audience_lists d) of
       None \<Rightarrow> Inl ErrNotFound
     | Some al \<Rightarrow>
         if al_owner_user_id al \<noteq> u then Inl ErrNotFound
         else if (case name of None \<Rightarrow> False | Some n \<Rightarrow>
             list_ex (\<lambda>q. al_owner_user_id q = u \<and> al_name q = TrimSpace n \<and> al_id q \<noteq> listID) (audience_lists d))
         then Inl (ErrDB Unique_violation)
         else
           (let d1 = (case name of None \<Rightarrow> d
                  | Some n \<Rightarrow> d\<lparr>audience_lists := update_where (\<lambda>al. al_id al = listID)
                      (\<lambda>al. al\<lparr>al_name := TrimSpace n\<rparr>) (audience_lists d)\<rparr>);
                d2 = (if replace then replaceMembers listID logins d1 else d1)
            in bind_res (AudienceList_get u listID d2) (\<lambda>l. Inr (l, d2))))"

definition ListAudienceLists :: "uuid \<Rightarrow> db \<Rightarrow> store_error + AudienceList list" where
  "ListAudienceLists u d =
    foldr (\<lambda>al acc. bind_res (AudienceList_get u (al_id al) d) (\<lambda>l. bind_res acc (\<lambda>ls. Inr (l # ls))))
      (sort_key (\<lambda>al. map of_char (al_name al) :: nat list)
        (filter (\<lambda>al. al_owner_user_id al = u \<and> al_deleted_at al = None) (audience_lists d)))
      (Inr [])"

definition DeleteAudienceList :: "env \<Rightarrow> uuid \<Rightarrow> uuid \<Rightarrow> db \<Rightarrow> unit result" where
  "DeleteAudienceList e u listID d =
    Inr ((), d\<lparr>audience_lists := update_where (\<lambda>al. al_id al = listID \<and> al_owner_user_id al = u)
      (\<lambda>al. al\<lparr>al_deleted_at := Some (db_now e)\<rparr>) (audience_lists d)\<rparr>)"

section \<open>Follows: facts\<close>

lemma active_follow_eq_Follows: "active_follow d u g = Follows u g d"
  by (simp add: active_follow_def Follows_def follow_key_def)

lemma follow_key_simps [simp]:
  "follow_key u g (new_follow e u' g' p) \<longleftrightarrow> u' = u \<and> g' = g"
  "follow_key u g (refollow e p r) = follow_key u g r"
  "r_State (refollow e p r) = RelationshipActive"
  "r_State (new_follow e u g p) = RelationshipActive"
  by (simp_all add: follow_key_def new_follow_def refollow_def)

lemma Follows_Follow:
  assumes "Follow e u g p d = Inr ((), d')"
  shows "Follows u' g' d' \<longleftrightarrow> (u' = u \<and> g' = g) \<or> Follows u' g' d"
proof -
  have eq: "d' = d\<lparr>relationships := insert_or (follow_key u g) (refollow e p) (new_follow e u g p) (relationships d)\<rparr>"
    using assms by (auto simp: Follow_def split: if_splits)
  have diff: "follow_key u g r \<Longrightarrow> follow_key u' g' r \<longleftrightarrow> u' = u \<and> g' = g" for r :: relationship_row
    by (auto simp: follow_key_def)
  have upd: "(\<lambda>q. follow_key u' g' (if follow_key u g q then refollow e p q else q)
        \<and> r_State (if follow_key u g q then refollow e p q else q) = RelationshipActive)
      = (\<lambda>q. follow_key u' g' q \<and> (follow_key u g q \<or> r_State q = RelationshipActive))"
    by (auto simp: fun_eq_iff)
  have "Follows u' g' d' \<longleftrightarrow>
      (if list_ex (follow_key u g) (relationships d)
       then list_ex (\<lambda>q. follow_key u' g' q \<and> (follow_key u g q \<or> r_State q = RelationshipActive)) (relationships d)
       else Follows u' g' d \<or> u' = u \<and> g' = g)"
    by (simp add: eq Follows_def list_ex_insert_or upd) blast
  then show ?thesis by (auto simp: Follows_def list_ex_iff diff split: if_splits)
qed

lemma Follows_update:
  "Follows u' g' (d\<lparr>relationships := update_where P (\<lambda>r. r\<lparr>r_State := RelationshipUnfollowed,
      r_UnfollowedAt := t, r_UpdatedAt := t'\<rparr>) (relationships d)\<rparr>) \<longleftrightarrow>
   list_ex (\<lambda>r. follow_key u' g' r \<and> r_State r = RelationshipActive \<and> \<not> P r) (relationships d)"
  by (auto simp: Follows_def list_ex_iff set_update_where follow_key_def)

lemma Follows_Unfollow:
  assumes "Unfollow e u g d = Inr ((), d')"
  shows "Follows u' g' d' \<longleftrightarrow> Follows u' g' d \<and> \<not> (u' = u \<and> g' = g)"
proof -
  have "Follows u' g' d' \<longleftrightarrow> list_ex (\<lambda>r. follow_key u' g' r \<and> r_State r = RelationshipActive
      \<and> \<not> (follow_key u g r \<and> r_State r = RelationshipActive)) (relationships d)"
    using assms by (auto simp only: Unfollow_def Follows_update sum.inject prod.inject)
  then show ?thesis by (auto simp: Follows_def list_ex_iff follow_key_def)
qed

lemma Follows_cut_follows:
  "Follows u' g' (cut_follows e u t d) \<longleftrightarrow>
    Follows u' g' d \<and> \<not> (u' = u \<and> g' = t) \<and>
    \<not> (github_of_user d u = Some g' \<and> user_of_github d t = Some u')"
  unfolding cut_follows_def Follows_update
  by (auto simp: Follows_def list_ex_iff follow_key_def)

section \<open>The import: facts\<close>

lemma import_one_Inr:
  assumes "import_one e u preview idn d = Inr ((i, a), d')"
  obtains rows d1 where "d1 = d\<lparr>identities := rows\<rparr>" and "i = idn"
    and "a = import_action d1 u (gi_GitHubID idn)"
    and "if a = Added \<and> \<not> preview
      then Follow e u (gi_GitHubID idn) ProvenanceGitHubImport d1 = Inr ((), d') else d' = d1"
proof -
  from assms obtain d1 where up: "UpsertIdentity True e idn d = Inr ((), d1)"
    by (auto simp: import_one_def bind_res_Inr_iff)
  from up obtain rows where "d1 = d\<lparr>identities := rows\<rparr>" by (rule UpsertIdentity_frame)
  then show thesis
    by (rule that) (use assms up in \<open>auto simp: import_one_def bind_res_Inr_iff Let_def split: if_splits\<close>)
qed

lemma import_blocked_frame:
  "blocks d' = blocks d \<Longrightarrow> users d' = users d \<Longrightarrow> import_blocked d' u g = import_blocked d u g"
  by (simp add: import_blocked_def github_of_user_def user_row_of_def user_of_github_def)

lemma import_action_frame:
  "blocks d' = blocks d \<Longrightarrow> users d' = users d \<Longrightarrow> relationships d' = relationships d \<Longrightarrow>
    import_action d' u g = import_action d u g"
  by (simp only: import_action_def import_blocked_frame[of d' d] import_state_def)

lemma import_action_Added:
  "import_action d u g = Added \<longleftrightarrow> \<not> import_blocked d u g \<and> import_state d u g = None"
  by (cases "import_state d u g"; cases "the (import_state d u g)") (auto simp: import_action_def)

lemma Follow_new:
  assumes "Follow e u g p d = Inr ((), d')" and "import_state d u g = None"
  shows "relationships d' = relationships d @ [new_follow e u g p]"
    and "blocks d' = blocks d" and "users d' = users d"
  using assms
  by (auto simp: Follow_def import_state_def insert_or_def find_None_ex split: if_splits)

text \<open>The import only ever appends: no existing relationship is changed.\<close>

lemma import_loop_effect:
  assumes "import_loop e u preview idns d = Inr (cs, d')"
  shows "map fst cs = idns \<and> blocks d' = blocks d \<and> users d' = users d \<and>
    (\<exists>new. relationships d' = relationships d @ new \<and>
      (\<forall>r\<in>set new. \<exists>idn\<in>set idns. r = new_follow e u (gi_GitHubID idn) ProvenanceGitHubImport \<and>
        \<not> import_blocked d u (gi_GitHubID idn) \<and> import_state d u (gi_GitHubID idn) = None))"
  using assms
proof (induction idns arbitrary: d cs)
  case Nil
  then show ?case by simp
next
  case (Cons idn idns)
  from Cons.prems obtain i a cs' d2 where
    one: "import_one e u preview idn d = Inr ((i, a), d2)" and
    rest: "import_loop e u preview idns d2 = Inr (cs', d')" and cs: "cs = (i, a) # cs'"
    by (auto simp: bind_res_Inr_iff)
  from one obtain rows d1 where d1: "d1 = d\<lparr>identities := rows\<rparr>" and i: "i = idn"
    and a: "a = import_action d1 u (gi_GitHubID idn)"
    and step: "if a = Added \<and> \<not> preview
      then Follow e u (gi_GitHubID idn) ProvenanceGitHubImport d1 = Inr ((), d2) else d2 = d1"
    by (rule import_one_Inr)
  let ?row = "new_follow e u (gi_GitHubID idn) ProvenanceGitHubImport"
  have a': "a = import_action d u (gi_GitHubID idn)"
    unfolding a by (rule import_action_frame) (simp_all add: d1)
  obtain new1 where new1: "relationships d2 = relationships d @ new1" "blocks d2 = blocks d" "users d2 = users d"
    and row: "\<forall>r\<in>set new1. r = ?row \<and> \<not> import_blocked d u (gi_GitHubID idn) \<and>
      import_state d u (gi_GitHubID idn) = None"
  proof (cases "a = Added \<and> \<not> preview")
    case True
    with step have F: "Follow e u (gi_GitHubID idn) ProvenanceGitHubImport d1 = Inr ((), d2)" by simp
    from True a' have add: "\<not> import_blocked d u (gi_GitHubID idn)" "import_state d u (gi_GitHubID idn) = None"
      by (simp_all add: import_action_Added)
    then have "import_state d1 u (gi_GitHubID idn) = None" by (simp add: d1 import_state_def)
    from Follow_new[OF F this] d1 add show thesis by (intro that[of "[?row]"]) auto
  next
    case False
    with step d1 show thesis by (intro that[of "[]"]) auto
  qed
  from Cons.IH[OF rest] obtain new2 where
    IH: "map fst cs' = idns" "blocks d' = blocks d2" "users d' = users d2"
      "relationships d' = relationships d2 @ new2"
      "\<forall>r\<in>set new2. \<exists>idn\<in>set idns. r = new_follow e u (gi_GitHubID idn) ProvenanceGitHubImport \<and>
        \<not> import_blocked d2 u (gi_GitHubID idn) \<and> import_state d2 u (gi_GitHubID idn) = None"
    by auto
  have earlier: "import_state d2 u g = None \<Longrightarrow> import_state d u g = None" for g
    using new1(1) by (auto simp: import_state_def find_append split: option.splits)
  have blk: "import_blocked d2 u g = import_blocked d u g" for g
    using new1(2,3) by (rule import_blocked_frame)
  have all: "\<forall>r\<in>set (new1 @ new2). \<exists>idn\<in>set (idn # idns).
      r = new_follow e u (gi_GitHubID idn) ProvenanceGitHubImport \<and>
      \<not> import_blocked d u (gi_GitHubID idn) \<and> import_state d u (gi_GitHubID idn) = None"
    using row IH(5) earlier blk by (auto 4 3)
  show ?case
    using IH new1 i cs all by (auto intro!: exI[of _ "new1 @ new2"])
qed

text \<open>An iteration of the loop, spelled out on its tables.\<close>

lemma import_one_simp:
  "import_one e u preview idn d =
    (if gi_AccountType (identity_values e idn) \<notin> set account_types then Inl (ErrDB Check_violation)
     else if list_ex (\<lambda>r. login_lower r = lower (gi_Login idn) \<and> gi_GitHubID r \<noteq> gi_GitHubID idn) (identities d)
     then Inl (ErrDB In_failed_transaction)
     else
       (let d1 = d\<lparr>identities := insert_or (\<lambda>r. gi_GitHubID r = gi_GitHubID idn)
              (\<lambda>_. identity_values e idn) (identity_values e idn) (identities d)\<rparr>;
            action = import_action d u (gi_GitHubID idn)
        in if action = Added \<and> \<not> preview then
             (if user_exists d u then Inr ((idn, Added), d1\<lparr>relationships := relationships d @
                [new_follow e u (gi_GitHubID idn) ProvenanceGitHubImport]\<rparr>)
              else Inl ErrNotFound)
           else Inr ((idn, action), d1)))"
proof -
  let ?d1 = "d\<lparr>identities := insert_or (\<lambda>r. gi_GitHubID r = gi_GitHubID idn)
              (\<lambda>_. identity_values e idn) (identity_values e idn) (identities d)\<rparr>"
  have act: "import_action ?d1 u (gi_GitHubID idn) = import_action d u (gi_GitHubID idn)"
    by (rule import_action_frame) simp_all
  have ex: "user_exists ?d1 u = user_exists d u" by (simp add: user_exists_def)
  have F: "Follow e u (gi_GitHubID idn) ProvenanceGitHubImport ?d1 =
      (if user_exists d u then Inr ((), ?d1\<lparr>relationships := relationships d @
          [new_follow e u (gi_GitHubID idn) ProvenanceGitHubImport]\<rparr>) else Inl ErrNotFound)"
    if "import_action d u (gi_GitHubID idn) = Added"
  proof -
    from that have none: "\<not> list_ex (follow_key u (gi_GitHubID idn)) (relationships d)"
      by (simp add: import_action_Added import_state_def find_None_ex)
    have "insert_or (follow_key u (gi_GitHubID idn)) f row (relationships d) = relationships d @ [row]" for f row
      by (simp add: insert_or_def none)
    then show ?thesis by (simp add: Follow_def ex identity_exists_after_upsert)
  qed
  show ?thesis
    by (simp add: import_one_def UpsertIdentity_tx act F Let_def)
qed

text \<open>The value an operation returns, without its database.\<close>

definition res_value :: "'a result \<Rightarrow> store_error + 'a" where
  "res_value r = map_sum (\<lambda>e. e) fst r"

lemma res_value_simps [simp]:
  "res_value (Inl e) = Inl e" "res_value (Inr (x, d)) = Inr x"
  by (simp_all add: res_value_def)

text \<open>A preview and the real import run in lockstep: the follows the import has added concern
  accounts the rest of the list does not mention.\<close>

definition import_sim :: "uuid \<Rightarrow> GitHubID set \<Rightarrow> db \<Rightarrow> db \<Rightarrow> bool" where
  "import_sim u todo dp dr \<longleftrightarrow>
    identities dr = identities dp \<and> users dr = users dp \<and> blocks dr = blocks dp \<and>
    user_exists dr u \<and>
    (\<forall>g\<in>todo. import_state dr u g = import_state dp u g)"

lemma import_sim_step:
  assumes sim: "import_sim u (insert (gi_GitHubID idn) todo) dp dr" and new: "gi_GitHubID idn \<notin> todo"
  obtains (failed) err where "import_one e u True idn dp = Inl err" "import_one e u False idn dr = Inl err"
  | (stepped) c dp' dr' where "import_one e u True idn dp = Inr (c, dp')"
      "import_one e u False idn dr = Inr (c, dr')" "import_sim u todo dp' dr'"
proof -
  let ?ids = "insert_or (\<lambda>r. gi_GitHubID r = gi_GitHubID idn)
              (\<lambda>_. identity_values e idn) (identity_values e idn) (identities dp)"
  let ?row = "new_follow e u (gi_GitHubID idn) ProvenanceGitHubImport"
  have eqs: "identities dr = identities dp" "users dr = users dp" "blocks dr = blocks dp" "user_exists dr u"
    and states: "\<And>g. g \<in> insert (gi_GitHubID idn) todo \<Longrightarrow> import_state dr u g = import_state dp u g"
    using sim by (auto simp: import_sim_def)
  have blk: "import_blocked dr u g = import_blocked dp u g" for g
    using eqs(3,2) by (rule import_blocked_frame)
  have act: "import_action dr u (gi_GitHubID idn) = import_action dp u (gi_GitHubID idn)"
    by (simp add: import_action_def blk states)
  have keep: "import_sim u todo (dp\<lparr>identities := ?ids\<rparr>) (dr\<lparr>identities := ?ids\<rparr>)"
    using eqs states by (simp add: import_sim_def import_state_def user_exists_def)
  have added: "import_sim u todo (dp\<lparr>identities := ?ids\<rparr>)
      (dr\<lparr>identities := ?ids, relationships := relationships dr @ [?row]\<rparr>)"
  proof -
    have "import_state (dr\<lparr>relationships := relationships dr @ [?row]\<rparr>) u g = import_state dp u g" if "g \<in> todo" for g
    proof -
      from that new have "gi_GitHubID idn \<noteq> g" by blast
      then show ?thesis using states[of g] that
        by (cases "find (follow_key u g) (relationships dr)"; cases "find (follow_key u g) (relationships dp)")
          (auto simp: import_state_def find_append)
    qed
    then show ?thesis using eqs by (simp add: import_sim_def import_state_def user_exists_def)
  qed
  show thesis
  proof (cases "gi_AccountType (identity_values e idn) \<notin> set account_types \<or>
      list_ex (\<lambda>r. login_lower r = lower (gi_Login idn) \<and> gi_GitHubID r \<noteq> gi_GitHubID idn) (identities dp)")
    case True
    then show thesis using eqs(1)
      by (intro failed[of "if gi_AccountType (identity_values e idn) \<notin> set account_types
            then ErrDB Check_violation else ErrDB In_failed_transaction"])
        (auto simp: import_one_simp)
  next
    case ok: False
    show thesis
    proof (cases "import_action dp u (gi_GitHubID idn) = Added")
      case True
      with ok eqs added act show thesis by (intro stepped) (auto simp: import_one_simp Let_def)
    next
      case False
      with ok eqs keep act show thesis by (intro stepped) (auto simp: import_one_simp Let_def)
    qed
  qed
qed

lemma res_value_cons:
  "res_value (bind_res m (\<lambda>(cs, d). Inr (c # cs, d))) = map_sum (\<lambda>e. e) ((#) c) (res_value m)"
  by (cases m) auto

lemma import_loop_sim:
  assumes "import_sim u (gi_GitHubID ` set idns) dp dr" and "distinct (map gi_GitHubID idns)"
  shows "res_value (import_loop e u True idns dp) = res_value (import_loop e u False idns dr)"
  using assms
proof (induction idns arbitrary: dp dr)
  case Nil
  then show ?case by simp
next
  case (Cons idn idns)
  from Cons.prems have sim: "import_sim u (insert (gi_GitHubID idn) (gi_GitHubID ` set idns)) dp dr"
    and new: "gi_GitHubID idn \<notin> gi_GitHubID ` set idns" and dist: "distinct (map gi_GitHubID idns)"
    by auto
  from sim new show ?case
  proof (cases rule: import_sim_step[where e = e])
    case (failed err)
    then show ?thesis by simp
  next
    case (stepped c dp' dr')
    with Cons.IH[OF _ dist] show ?thesis by (simp add: res_value_cons)
  qed
qed

section \<open>One-sided tables: the interface\<close>

text \<open>What a caller of \<open>SetMute\<close>, \<open>SetBlock\<close> or \<open>SetHide\<close> relies on.  \<open>rows\<close> is the
  table, \<open>setf\<close> the operation.\<close>

definition db_after :: "'a result \<Rightarrow> db \<Rightarrow> db" where
  "db_after r d = (case r of Inl _ \<Rightarrow> d | Inr (_, d') \<Rightarrow> d')"

lemma db_after_simps [simp]:
  "db_after (Inl e) d = d" "db_after (Inr (x, d')) d = d'"
  by (simp_all add: db_after_def)

locale toggle_table =
  fixes rows :: "db \<Rightarrow> pair_row list"
    and setf :: "uuid \<Rightarrow> GitHubID \<Rightarrow> bool \<Rightarrow> db \<Rightarrow> unit result"
  assumes on_rows: "setf u g True d = Inr ((), d') \<Longrightarrow> set (rows d') = insert (u, g) (set (rows d))"
    and off_rows: "setf u g False d = Inr ((), d') \<Longrightarrow> set (rows d') = set (rows d) - {(u, g)}"
    and total: "user_exists d u \<Longrightarrow> identity_exists d g \<Longrightarrow> \<exists>d'. setf u g on d = Inr ((), d')"
    and frame: "setf u g on d = Inr ((), d') \<Longrightarrow> users d' = users d \<and> identities d' = identities d"
begin

lemma member_after:
  assumes "user_exists d u" and "identity_exists d g"
  shows "(v, h) \<in> set (rows (db_after (setf u g on d) d)) \<longleftrightarrow>
    (if (v, h) = (u, g) then on else (v, h) \<in> set (rows d))"
proof -
  from total[OF assms] obtain d' where s: "setf u g on d = Inr ((), d')" by blast
  have after: "db_after (setf u g on d) d = d'" by (simp add: s)
  show ?thesis
  proof (cases on)
    case True
    with s have "set (rows d') = insert (u, g) (set (rows d))" by (simp add: on_rows)
    then show ?thesis unfolding after by (auto simp: True)
  next
    case False
    with s have "set (rows d') = set (rows d) - {(u, g)}" by (simp add: off_rows)
    then show ?thesis unfolding after by (auto simp: False)
  qed
qed

lemma exists_after:
  "user_exists (db_after (setf u g on d) d) v = user_exists d v"
  "identity_exists (db_after (setf u g on d) d) h = identity_exists d h"
proof -
  have "users (db_after (setf u g on d) d) = users d \<and> identities (db_after (setf u g on d) d) = identities d"
  proof (cases "setf u g on d")
    case (Inl e)
    then show ?thesis by simp
  next
    case (Inr p)
    then obtain d' where s: "setf u g on d = Inr ((), d')" by (cases p) auto
    from frame[OF s] show ?thesis by (simp add: s)
  qed
  then show "user_exists (db_after (setf u g on d) d) v = user_exists d v"
    "identity_exists (db_after (setf u g on d) d) h = identity_exists d h"
    by (simp_all add: user_exists_def identity_exists_def)
qed

text \<open>After any history of toggles by existing accounts the last one for a pair decides.\<close>

lemma last_write_wins:
  assumes "list_all (\<lambda>(v, h, b). user_exists d v \<and> identity_exists d h) hist"
  shows "(u, g) \<in> set (rows (foldl (\<lambda>d (v, h, b). db_after (setf v h b d) d) d hist)) \<longleftrightarrow>
    (case find (\<lambda>(v, h, b). (v, h) = (u, g)) (rev hist) of
       None \<Rightarrow> (u, g) \<in> set (rows d) | Some (v, h, b) \<Rightarrow> b)"
  using assms
proof (induction hist rule: rev_induct)
  case Nil
  then show ?case by simp
next
  case (snoc t hist)
  let ?f = "\<lambda>d (v, h, b). db_after (setf v h b d) d"
  obtain v h b where t: "t = (v, h, b)" by (cases t)
  have ex: "user_exists (foldl ?f d hs) w = user_exists d w \<and>
      identity_exists (foldl ?f d hs) k = identity_exists d k" for hs w k
    by (induction hs rule: rev_induct) (auto simp: exists_after)
  from snoc.prems t have "user_exists (foldl ?f d hist) v" "identity_exists (foldl ?f d hist) h"
    by (auto simp: ex)
  from member_after[OF this, of u g b]
  have step: "(u, g) \<in> set (rows (foldl ?f d (hist @ [t]))) \<longleftrightarrow>
      (if (u, g) = (v, h) then b else (u, g) \<in> set (rows (foldl ?f d hist)))"
    by (simp add: t)
  have IH: "(u, g) \<in> set (rows (foldl ?f d hist)) \<longleftrightarrow>
      (case find (\<lambda>(v, h, b). (v, h) = (u, g)) (rev hist) of
         None \<Rightarrow> (u, g) \<in> set (rows d) | Some (v, h, b) \<Rightarrow> b)"
    using snoc.prems by (intro snoc.IH) simp
  show ?case
  proof (cases "(u, g) = (v, h)")
    case True
    then show ?thesis unfolding step by (simp add: t)
  next
    case False
    then show ?thesis unfolding step using IH by (auto simp: t)
  qed
qed

end

lemma set_toggle_rows:
  "set (toggle_rows on u g rs) = (if on then insert (u, g) (set rs) else set rs - {(u, g)})"
  by (auto simp: toggle_rows_def set_insert_new set_delete_where list_ex_iff)

interpretation mute_table: toggle_table mutes SetMute
  by unfold_locales
    (auto simp: SetMute_def toggle_def set_toggle_rows split: if_splits)

interpretation hide_table: toggle_table hide_rules SetHide
  by unfold_locales
    (auto simp: SetHide_def toggle_def set_toggle_rows split: if_splits)

lemma cut_follows_frame [simp]:
  "blocks (cut_follows e u t d) = blocks d" "users (cut_follows e u t d) = users d"
  "identities (cut_follows e u t d) = identities d"
  by (simp_all add: cut_follows_def)

interpretation block_table: toggle_table blocks "SetBlock e" for e
  by unfold_locales
    (auto simp: SetBlock_def toggle_def set_toggle_rows bind_res_Inr_iff split: if_splits)

section \<open>Audience lists: facts\<close>

definition members_of :: "db \<Rightarrow> uuid \<Rightarrow> GitHubID set" where
  "members_of d l = {g. (l, g) \<in> set (audience_members d)}"

definition resolves_to :: "db \<Rightarrow> string \<Rightarrow> GitHubID option" where
  "resolves_to d l = map_option gi_GitHubID (find (\<lambda>r. login_lower r = lower (trim_at l)) (identities d))"

lemma add_member_effect:
  "identities (add_member l n d) = identities d \<and> audience_lists (add_member l n d) = audience_lists d \<and>
   set (audience_members (add_member l n d)) =
     set (audience_members d) \<union> (case resolves_to d n of None \<Rightarrow> {} | Some g \<Rightarrow> {(l, g)})"
  by (auto simp: add_member_def resolves_to_def set_insert_new list_ex_iff split: option.splits)

lemma add_members_effect:
  "identities (foldl (\<lambda>d n. add_member l n d) d ns) = identities d \<and>
   audience_lists (foldl (\<lambda>d n. add_member l n d) d ns) = audience_lists d \<and>
   set (audience_members (foldl (\<lambda>d n. add_member l n d) d ns)) =
     set (audience_members d) \<union> {(l, g) | g n. n \<in> set ns \<and> resolves_to d n = Some g}"
proof (induction ns arbitrary: d)
  case Nil
  then show ?case by simp
next
  case (Cons n ns)
  have res: "resolves_to (add_member l n d) m = resolves_to d m" for m
    using add_member_effect[of l n d] by (simp add: resolves_to_def)
  from Cons.IH[of "add_member l n d"] add_member_effect[of l n d] show ?case
    by (auto simp: res split: option.splits)
qed

text \<open>The whole import, over the loop's effect.\<close>

lemma ImportFollows_effect:
  assumes "ImportFollows e u idns preview d = Inr (changes, d')"
  shows "map fst changes = idns \<and> (preview \<longrightarrow> d' = d) \<and>
    (\<exists>new. relationships d' = relationships d @ new \<and>
      (\<forall>r\<in>set new. \<exists>idn\<in>set idns. r = new_follow e u (gi_GitHubID idn) ProvenanceGitHubImport \<and>
        \<not> import_blocked d u (gi_GitHubID idn) \<and> import_state d u (gi_GitHubID idn) = None))"
proof -
  from assms obtain d1 where loop: "import_loop e u preview idns d = Inr (changes, d1)"
    and d': "relationships d' = (if preview then relationships d else relationships d1)" "preview \<longrightarrow> d' = d"
    by (auto simp: ImportFollows_def bind_res_Inr_iff MarkOnboarded_def split: if_splits)
  from import_loop_effect[OF loop] d' show ?thesis by (cases preview) (auto intro: exI[of _ "[]"])
qed

section \<open>Properties\<close>

definition wit_graph_db :: db where
  "wit_graph_db = empty_db\<lparr>
    identities := [identity_values wit_env (wit_identity 11 ''ann''), identity_values wit_env (wit_identity 12 ''bob'')],
    users := [wit_user 3 11, wit_user 2 12]\<rparr>"

lemmas wit_graph_defs = wit_graph_db_def wit_user_def new_user_def wit_identity_def identity_values_def
  wit_env_def empty_db_def user_exists_def identity_exists_def lower_def lower_char_def

lemma wit_graph_import:
  "ImportFollows wit_env 3 [wit_identity 12 ''bob''] False wit_graph_db =
    Inr ([(wit_identity 12 ''bob'', Added)],
      wit_graph_db\<lparr>relationships := [new_follow wit_env 3 12 ProvenanceGitHubImport],
        users := [(wit_user 3 11)\<lparr>us_follow_import_completed_at := Some 100\<rparr>, wit_user 2 12]\<rparr>)"
  by (simp add: ImportFollows_def import_one_simp account_types_def wit_graph_defs Let_def insert_or_def
      import_action_def import_blocked_def import_state_def MarkOnboarded_def set_user_def)

text \<open>An import of GitHub follows only adds: every relationship that existed before, active
  or tombstone, native or imported, is still there unchanged, a preview leaves the database as it
  was, and each new row is an imported active follow of a listed account that had no relationship
  and no block in either direction.\<close>

theorem ImportFollows_append_only:
  assumes "ImportFollows e u idns preview d = Inr (changes, d')"
  shows "map fst changes = idns \<and> (preview \<longrightarrow> d' = d) \<and>
    (\<exists>new. relationships d' = relationships d @ new \<and>
      (\<forall>r\<in>set new. \<exists>idn\<in>set idns. r = new_follow e u (gi_GitHubID idn) ProvenanceGitHubImport \<and>
        \<not> import_blocked d u (gi_GitHubID idn) \<and> import_state d u (gi_GitHubID idn) = None))"
  using assms by (rule ImportFollows_effect)

theorem ImportFollows_append_only_witness:
  "\<exists>new. [new_follow wit_env 3 12 ProvenanceGitHubImport] = relationships wit_graph_db @ new
    \<and> \<not> import_blocked wit_graph_db 3 12"
proof -
  have "relationships wit_graph_db = []" by (simp add: wit_graph_db_def empty_db_def)
  with ImportFollows_append_only[OF wit_graph_import] show ?thesis by (auto simp: wit_identity_def)
qed

text \<open>A preview is exact: on a list of distinct accounts, for an existing user, it reports
  the same actions, or the same error, as the import it previews.\<close>

theorem ImportFollows_preview_exact:
  assumes "distinct (map gi_GitHubID idns)" and "user_exists d u"
  shows "res_value (ImportFollows e u idns True d) = res_value (ImportFollows e u idns False d)"
proof -
  have "import_sim u (gi_GitHubID ` set idns) d d" using assms(2) by (simp add: import_sim_def)
  from import_loop_sim[OF this assms(1), of e] show ?thesis
    by (cases "import_loop e u True idns d"; cases "import_loop e u False idns d")
      (auto simp: ImportFollows_def MarkOnboarded_def)
qed

theorem ImportFollows_preview_exact_witness:
  "res_value (ImportFollows wit_env 3 [wit_identity 12 ''bob''] True wit_graph_db)
    = Inr [(wit_identity 12 ''bob'', Added)]"
proof -
  have "distinct (map gi_GitHubID [wit_identity 12 ''bob''])" "user_exists wit_graph_db 3"
    by (simp_all add: wit_graph_defs)
  from ImportFollows_preview_exact[OF this, of wit_env] show ?thesis by (simp add: wit_graph_import)
qed

text \<open>C40. An unfollow is remembered: after it, no import brings the follow back, whatever the
  list of accounts GitHub reports, while an explicit follow inside Stories does, as a native one.\<close>

theorem Unfollow_tombstone:
  assumes "keyed (\<lambda>r. (r_FollowerUserID r, r_FolloweeGitHubID r)) (relationships d)"
    and "Follows u g d" and "Unfollow e u g d = Inr ((), d1)"
    and "ImportFollows e' u idns preview d1 = Inr (changes, d2)"
    and "Follow e'' u g ProvenanceNative d2 = Inr ((), d3)"
  shows "\<not> Follows u g d1 \<and> \<not> Follows u g d2 \<and> Follows u g d3"
proof -
  have gone: "\<not> Follows u g d1" using Follows_Unfollow[OF assms(3)] by simp
  from assms(3) have rel: "relationships d1 = update_where
      (\<lambda>r. follow_key u g r \<and> r_State r = RelationshipActive)
      (\<lambda>r. r\<lparr>r_State := RelationshipUnfollowed, r_UnfollowedAt := Some (db_now e), r_UpdatedAt := db_now e\<rparr>)
      (relationships d)"
    by (auto simp: Unfollow_def)
  from assms(2) obtain r where "r \<in> set (relationships d)" "follow_key u g r"
    by (auto simp: Follows_def list_ex_iff)
  then have "list_ex (follow_key u g) (relationships d1)"
    unfolding rel by (subst list_ex_update_frame) (auto simp: follow_key_def list_ex_iff)
  then have some: "import_state d1 u g \<noteq> None" by (simp add: import_state_def find_None_ex)
  from ImportFollows_effect[OF assms(4)] obtain new where
    new: "relationships d2 = relationships d1 @ new"
      "\<forall>r\<in>set new. \<exists>idn\<in>set idns. r = new_follow e' u (gi_GitHubID idn) ProvenanceGitHubImport \<and>
        \<not> import_blocked d1 u (gi_GitHubID idn) \<and> import_state d1 u (gi_GitHubID idn) = None" by auto
  have "\<not> Follows u g d2"
  proof
    assume "Follows u g d2"
    with gone new(1) obtain q where "q \<in> set new" "follow_key u g q"
      by (auto simp: Follows_def list_ex_iff)
    from new(2) \<open>q \<in> set new\<close> obtain idn where
      q: "idn \<in> set idns" "q = new_follow e' u (gi_GitHubID idn) ProvenanceGitHubImport"
        "import_state d1 u (gi_GitHubID idn) = None"
      by blast
    with \<open>follow_key u g q\<close> some show False by simp
  qed
  moreover have "Follows u g d3" using Follows_Follow[OF assms(5)] by simp
  ultimately show ?thesis using gone by simp
qed

theorem Unfollow_tombstone_witness:
  "\<exists>d1 d2 d3. Unfollow wit_env 3 12 (wit_graph_db\<lparr>relationships := [new_follow wit_env 3 12 ProvenanceNative]\<rparr>) = Inr ((), d1)
    \<and> ImportFollows wit_env 3 [wit_identity 12 ''bob''] False d1 = Inr ([(wit_identity 12 ''bob'', Skipped_unfollowed)], d2)
    \<and> Follow wit_env 3 12 ProvenanceNative d2 = Inr ((), d3)
    \<and> \<not> Follows 3 12 d1 \<and> \<not> Follows 3 12 d2 \<and> Follows 3 12 d3"
proof -
  let ?d = "wit_graph_db\<lparr>relationships := [new_follow wit_env 3 12 ProvenanceNative]\<rparr>"
  have k: "keyed (\<lambda>r. (r_FollowerUserID r, r_FolloweeGitHubID r)) (relationships ?d)"
    by (simp add: keyed_def)
  have f: "Follows 3 12 ?d" by (simp add: Follows_def follow_key_def new_follow_def)
  obtain d1 where u: "Unfollow wit_env 3 12 ?d = Inr ((), d1)" by (simp add: Unfollow_def)
  then have d1: "d1 = snd ((), d1)" "d1 = db_after (Unfollow wit_env 3 12 ?d) ?d" by simp_all
  obtain d2 where i: "ImportFollows wit_env 3 [wit_identity 12 ''bob''] False d1
      = Inr ([(wit_identity 12 ''bob'', Skipped_unfollowed)], d2)"
    using u by (auto simp: Unfollow_def ImportFollows_def import_one_simp account_types_def wit_graph_defs
        Let_def insert_or_def import_action_def import_blocked_def import_state_def MarkOnboarded_def
        set_user_def new_follow_def follow_key_def)
  have "user_exists d2 3" "identity_exists d2 12"
    using u i by (auto simp: Unfollow_def ImportFollows_def import_one_simp account_types_def wit_graph_defs
        Let_def insert_or_def import_action_def import_blocked_def import_state_def MarkOnboarded_def
        set_user_def new_follow_def follow_key_def)
  then obtain d3 where n: "Follow wit_env 3 12 ProvenanceNative d2 = Inr ((), d3)"
    by (simp add: Follow_def)
  from Unfollow_tombstone[OF k f u i n] u i n show ?thesis by blast
qed

text \<open>C9. A block cuts both ways: after \<open>SetBlock\<close> neither account follows the other, the pair
  counts as blocked for every later check, and neither can see any Story of the other, whatever
  its audience.\<close>

theorem SetBlock_severs:
  assumes "keyed us_id (users d)" and "keyed us_github_user_id (users d)"
    and "ua \<in> set (users d)" and "ub \<in> set (users d)" and "us_id ua \<noteq> us_id ub"
    and "SetBlock e (us_id ua) (us_github_user_id ub) True d = Inr ((), d')"
  shows "\<not> Follows (us_id ua) (us_github_user_id ub) d' \<and> \<not> Follows (us_id ub) (us_github_user_id ua) d'
    \<and> BlockedEitherWay (us_id ua) (us_github_user_id ua) (us_id ub) (us_github_user_id ub) d'
    \<and> (si_AuthorUserID sa = us_id ua \<longrightarrow> \<not> visibleToViewer d' (us_id ub) (us_github_user_id ub) now sa ua)
    \<and> (si_AuthorUserID sb = us_id ub \<longrightarrow> \<not> visibleToViewer d' (us_id ua) (us_github_user_id ua) now sb ub)"
proof -
  from assms(6) obtain d1 where t: "toggle blocks blocks_update (us_id ua) (us_github_user_id ub) True d = Inr ((), d1)"
    and d': "d' = cut_follows e (us_id ua) (us_github_user_id ub) d1"
    by (auto simp: SetBlock_def bind_res_Inr_iff)
  from t have us: "users d1 = users d" by (auto simp: toggle_def split: if_splits)
  have blk: "(us_id ua, us_github_user_id ub) \<in> set (blocks d')"
    using block_table.on_rows[OF assms(6)] by simp
  have "github_of_user d1 (us_id ua) = Some (us_github_user_id ua)"
    using keyed_find[OF assms(1,3)] by (simp add: github_of_user_def user_row_of_def us)
  moreover have "user_of_github d1 (us_github_user_id ub) = Some (us_id ub)"
    using keyed_find[OF assms(2,4)] by (simp add: user_of_github_def us)
  ultimately have "\<not> Follows (us_id ua) (us_github_user_id ub) d'" "\<not> Follows (us_id ub) (us_github_user_id ua) d'"
    unfolding d' Follows_cut_follows by simp_all
  moreover have "BlockedEitherWay (us_id ua) (us_github_user_id ua) (us_id ub) (us_github_user_id ub) d'"
    unfolding BlockedEitherWay_def list_ex_iff using blk by force
  ultimately show ?thesis using blk assms(5)
    by (auto simp: visibleToViewer_eq_may_see may_see_def blocked_pair_def)
qed

theorem SetBlock_severs_witness:
  "\<exists>d'. SetBlock wit_env 3 12 True (wit_graph_db\<lparr>relationships := [new_follow wit_env 2 11 ProvenanceNative]\<rparr>) = Inr ((), d')
    \<and> \<not> Follows 3 12 d' \<and> \<not> Follows 2 11 d' \<and> BlockedEitherWay 3 11 2 12 d'"
proof -
  let ?d = "wit_graph_db\<lparr>relationships := [new_follow wit_env 2 11 ProvenanceNative]\<rparr>"
  have s: "\<exists>d'. SetBlock wit_env (us_id (wit_user 3 11)) (us_github_user_id (wit_user 2 12)) True ?d = Inr ((), d')"
    by (simp add: SetBlock_def toggle_def wit_graph_defs)
  then obtain d' where s: "SetBlock wit_env (us_id (wit_user 3 11)) (us_github_user_id (wit_user 2 12)) True ?d = Inr ((), d')" ..
  have h: "keyed us_id (users ?d)" "keyed us_github_user_id (users ?d)" "wit_user 3 11 \<in> set (users ?d)"
    "wit_user 2 12 \<in> set (users ?d)" "us_id (wit_user 3 11) \<noteq> us_id (wit_user 2 12)"
    by (simp_all add: keyed_def wit_graph_db_def wit_user_def new_user_def)
  from SetBlock_severs[OF h s] s show ?thesis by (auto simp: wit_user_def new_user_def)
qed

text \<open>Mutes, blocks and hide rules: after any history of settings by existing accounts, a
  pair is in the table exactly when its last setting turned it on (or, when it has none, when it
  was there before).\<close>

theorem toggles_last_write_wins:
  assumes "list_all (\<lambda>(v, h, b). user_exists d v \<and> identity_exists d h) hist"
  shows "((u, g) \<in> set (mutes (foldl (\<lambda>d (v, h, b). db_after (SetMute v h b d) d) d hist)) \<longleftrightarrow>
      (case find (\<lambda>(v, h, b). (v, h) = (u, g)) (rev hist) of None \<Rightarrow> (u, g) \<in> set (mutes d) | Some (v, h, b) \<Rightarrow> b))
    \<and> ((u, g) \<in> set (hide_rules (foldl (\<lambda>d (v, h, b). db_after (SetHide v h b d) d) d hist)) \<longleftrightarrow>
      (case find (\<lambda>(v, h, b). (v, h) = (u, g)) (rev hist) of None \<Rightarrow> (u, g) \<in> set (hide_rules d) | Some (v, h, b) \<Rightarrow> b))
    \<and> ((u, g) \<in> set (blocks (foldl (\<lambda>d (v, h, b). db_after (SetBlock e v h b d) d) d hist)) \<longleftrightarrow>
      (case find (\<lambda>(v, h, b). (v, h) = (u, g)) (rev hist) of None \<Rightarrow> (u, g) \<in> set (blocks d) | Some (v, h, b) \<Rightarrow> b))"
  using mute_table.last_write_wins[OF assms] hide_table.last_write_wins[OF assms]
    block_table.last_write_wins[OF assms] by blast

theorem toggles_last_write_wins_witness:
  "(3, 12) \<notin> set (mutes (foldl (\<lambda>d (v, h, b). db_after (SetMute v h b d) d) wit_graph_db
      [(3, 12, True), (2, 11, True), (3, 12, False)]))"
proof -
  have "list_all (\<lambda>(v, h, b). user_exists wit_graph_db v \<and> identity_exists wit_graph_db h)
      [(3, 12, True), (2, 11, True), (3, 12, False)]"
    by (simp add: wit_graph_defs)
  from toggles_last_write_wins[OF this, of 3 12] show ?thesis by simp
qed

text \<open>Replacing the members of an audience list makes it hold exactly the accounts that the
  given logins resolve to (unknown logins are skipped) and leaves every other list alone.\<close>

theorem replaceMembers_exact:
  "members_of (replaceMembers l logins d) l = {g. Some g \<in> resolves_to d ` set logins}
    \<and> (l' = l \<or> members_of (replaceMembers l logins d) l' = members_of d l')"
proof -
  let ?d = "d\<lparr>audience_members := delete_where (\<lambda>m. fst m = l) (audience_members d)\<rparr>"
  have "resolves_to ?d n = resolves_to d n" for n by (simp add: resolves_to_def)
  with add_members_effect[where l=l and ns=logins and d="?d"] show ?thesis
    by (force simp: replaceMembers_def members_of_def set_delete_where image_iff)
qed

text \<open>The name of a deleted audience list stays taken: creating a list of that name again is
  refused as not found.\<close>

theorem deleted_list_name_stays_taken:
  assumes "al \<in> set (audience_lists d)" and "al_owner_user_id al = u"
    and "DeleteAudienceList e u (al_id al) d = Inr ((), d')" and "TrimSpace name = al_name al"
  shows "AudienceList_get u (al_id al) d' = Inl ErrNotFound
    \<and> CreateAudienceList nid u name logins d' = Inl ErrNotFound"
proof -
  from assms(3) have als: "audience_lists d' = update_where
      (\<lambda>q. al_id q = al_id al \<and> al_owner_user_id q = u) (\<lambda>q. q\<lparr>al_deleted_at := Some (db_now e)\<rparr>) (audience_lists d)"
    by (auto simp: DeleteAudienceList_def)
  have "find (\<lambda>q. al_id q = al_id al \<and> al_owner_user_id q = u \<and> al_deleted_at q = None) (audience_lists d') = None"
    unfolding find_None_ex als list_ex_update_where by (auto simp: list_ex_iff)
  moreover have "list_ex (\<lambda>q. al_owner_user_id q = u \<and> al_name q = TrimSpace name) (audience_lists d')"
    unfolding als by (subst list_ex_update_frame) (use assms in \<open>auto simp: list_ex_iff\<close>)
  ultimately show ?thesis by (simp add: AudienceList_get_def CreateAudienceList_def row_or_notfound_def)
qed

theorem deleted_list_name_stays_taken_witness:
  "CreateAudienceList 9 3 ''close'' [] (db_after (DeleteAudienceList wit_env 3 8
     (wit_graph_db\<lparr>audience_lists := [\<lparr>al_id = 8, al_owner_user_id = 3, al_name = ''close'', al_deleted_at = None\<rparr>]\<rparr>))
     wit_graph_db) = Inl ErrNotFound"
proof -
  let ?al = "\<lparr>al_id = 8, al_owner_user_id = 3, al_name = ''close'', al_deleted_at = None\<rparr>"
  let ?d = "wit_graph_db\<lparr>audience_lists := [?al]\<rparr>"
  have h: "?al \<in> set (audience_lists ?d)" "al_owner_user_id ?al = 3" by simp_all
  obtain d' where del: "DeleteAudienceList wit_env 3 (al_id ?al) ?d = Inr ((), d')"
    by (simp add: DeleteAudienceList_def)
  have "TrimSpace ''close'' = al_name ?al" by (simp add: TrimSpace_def is_space_def)
  from deleted_list_name_stays_taken[OF h del this, of 9 "[]"] del show ?thesis by simp
qed

end
