(* ===== verification/Leases.thy ===== *)
theory Leases
  imports Database "HOL-Library.Word"
begin

text \<open>
  What the two job queues of the store (\<open>media_jobs\<close> in
  \<^verbatim>\<open>src/internal/store/story.go\<close>, \<open>cleanup_jobs\<close> in \<^verbatim>\<open>src/internal/store/jobs.go\<close>)
  have in common: the retry delay, computed in 64-bit arithmetic as the code computes it, and
  the contract of a claim, stated as the locale \<open>lease_queue\<close>.  The locale is interpreted on
  \<open>ClaimMediaJob\<close> in the theory \<open>Stories\<close> and on \<open>ClaimCleanupJob\<close> in the theory \<open>Jobs\<close>.
\<close>

section \<open>Retry delays\<close>

text \<open>\<open>time.Duration(1<<uint(attempts)) * unit * time.Second\<close>: the shift and the products
  are 64-bit, and a shift of 64 or more gives 0.\<close>

definition backoff :: "int \<Rightarrow> int \<Rightarrow> duration" where
  "backoff unit attempts =
    sint (push_bit (unat (word_of_int attempts :: 64 word)) (1 :: 64 word) * word_of_int unit * word_of_int Second)"

lemma backoff_word:
  "backoff unit attempts =
    signed_take_bit 63 (2 ^ unat (word_of_int attempts :: 64 word) * unit * Second)"
proof -
  have "push_bit n (1 :: 64 word) = word_of_int (2 ^ n)" for n
    by (simp add: push_bit_eq_mult)
  then have "push_bit n (1 :: 64 word) * word_of_int unit * word_of_int Second
      = (word_of_int (2 ^ n * unit * Second) :: 64 word)" for n
    by simp
  then show ?thesis
    by (simp only: backoff_def sint_sbintrunc') simp
qed

text \<open>Inside the budget the delay is the exact power of two.\<close>

lemma backoff_exact:
  assumes "0 \<le> attempts" "attempts \<le> 28" "0 < unit" "unit \<le> 30"
  shows "backoff unit attempts = 2 ^ nat attempts * unit * Second"
proof -
  have u: "unat (word_of_int attempts :: 64 word) = nat attempts"
    using assms by (simp add: unat_eq_nat_uint uint_word_of_int_eq take_bit_int_eq_self)
  have "(2 :: int) ^ nat attempts \<le> 2 ^ 28" using assms by (intro power_increasing) auto
  then have "2 ^ nat attempts * unit \<le> (2 ^ 28 * 30 :: int)"
    using assms by (intro mult_mono) auto
  then have "2 ^ nat attempts * unit * Second \<le> (2 ^ 28 * 30) * Second"
    by (intro mult_right_mono) auto
  also have "\<dots> < 2 ^ 63" by simp
  finally have "2 ^ nat attempts * unit * Second < 2 ^ 63" .
  moreover have "0 \<le> 2 ^ nat attempts * unit * Second" using assms by simp
  ultimately show ?thesis unfolding backoff_word u
    by (intro signed_take_bit_int_eq_self) auto
qed

lemma backoff_pos:
  assumes "0 \<le> attempts" "attempts \<le> 28" "0 < unit" "unit \<le> 30"
  shows "0 < backoff unit attempts"
  unfolding backoff_exact[OF assms] using assms by simp

section \<open>The contract of a claim\<close>

text \<open>A job is due when its run time has come and it is queued, or leased with the lease run
  out.  The clock reading is the claimer's.\<close>

definition due :: "time \<Rightarrow> time \<Rightarrow> JobState \<Rightarrow> time option \<Rightarrow> bool" where
  "due now run_after state lease_expires \<longleftrightarrow>
    run_after \<le> now \<and>
    (state = JobQueued \<or> (state = JobLeased \<and> (case lease_expires of None \<Rightarrow> False | Some t \<Rightarrow> t < now)))"

lemma due_leased [simp]: "due now ra JobLeased (Some t) \<longleftrightarrow> ra \<le> now \<and> t < now"
  by (simp add: due_def)

lemma due_queued [simp]: "due now ra JobQueued l \<longleftrightarrow> ra \<le> now"
  by (simp add: due_def)

lemma due_done [simp]: "\<not> due now ra JobSucceeded l" "\<not> due now ra JobFailed l"
  by (simp_all add: due_def)

text \<open>\<open>rows\<close> is the queue, \<open>jid\<close> the id of a row, \<open>is_due now\<close> whether a row can be
  claimed at \<open>now\<close>, \<open>jrun\<close> its run time, \<open>jatt\<close> its attempts, \<open>leased_to\<close> the owner
  and end of its lease, \<open>claimed\<close> the id of the job a claim hands out.  \<open>locked\<close> are the rows
  other transactions hold (\<open>SKIP LOCKED\<close>).\<close>

locale lease_queue =
  fixes rows :: "db \<Rightarrow> 'r list"
    and jid :: "'r \<Rightarrow> uuid"
    and is_due :: "time \<Rightarrow> 'r \<Rightarrow> bool"
    and jatt :: "'r \<Rightarrow> int"
    and leased_to :: "'r \<Rightarrow> (string \<times> time) option"
    and claim :: "env \<Rightarrow> (uuid \<Rightarrow> bool) \<Rightarrow> string \<Rightarrow> duration \<Rightarrow> db \<Rightarrow> 'j result"
    and claimed :: "'j \<Rightarrow> uuid"
  assumes claim_some: "keyed jid (rows d) \<Longrightarrow> claim e locked owner lease d = Inr (j, d') \<Longrightarrow>
      \<exists>r f. r \<in> set (rows d) \<and> jid r = claimed j \<and> is_due (Now e) r \<and> \<not> locked (jid r) \<and>
        rows d' = update_where (\<lambda>q. jid q = jid r) f (rows d) \<and>
        jid (f r) = jid r \<and> jatt (f r) = jatt r + 1 \<and> leased_to (f r) = Some (owner, Now e + lease)"
    and claim_none: "claim e locked owner lease d = Inl err \<longleftrightarrow>
      err = ErrNotFound \<and> \<not> list_ex (\<lambda>r. is_due (Now e) r \<and> \<not> locked (jid r)) (rows d)"
    and lease_holds: "leased_to r = Some (owner, t) \<Longrightarrow> is_due now r \<Longrightarrow> t < now"
begin

lemma claim_row:
  assumes "keyed jid (rows d)" and "claim e locked owner lease d = Inr (j, d')"
  obtains r f where "r \<in> set (rows d)" "jid r = claimed j" "is_due (Now e) r" "\<not> locked (jid r)"
    "rows d' = update_where (\<lambda>q. jid q = jid r) f (rows d)"
    "jid (f r) = jid r" "jatt (f r) = jatt r + 1" "leased_to (f r) = Some (owner, Now e + lease)"
  using claim_some[OF assms] that by blast

lemma claim_keyed:
  assumes "keyed jid (rows d)" and "claim e locked owner lease d = Inr (j, d')"
  shows "keyed jid (rows d')"
proof -
  from assms obtain r f where r: "r \<in> set (rows d)" "rows d' = update_where (\<lambda>q. jid q = jid r) f (rows d)"
    "jid (f r) = jid r" by (rule claim_row)
  have "jid (f q) = jid q" if "q \<in> set (rows d)" "jid q = jid r" for q
    using keyed_unique[OF assms(1) that(1) r(1) that(2)] r(3) by simp
  with assms(1) show ?thesis unfolding r(2) by (rule keyed_update_where)
qed

lemma claim_sets_lease:
  assumes "keyed jid (rows d)" and "claim e locked owner lease d = Inr (j, d')"
    and "q \<in> set (rows d')" and "jid q = claimed j"
  shows "leased_to q = Some (owner, Now e + lease)"
proof -
  from assms(1,2) obtain r f where r: "r \<in> set (rows d)" "jid r = claimed j"
    "rows d' = update_where (\<lambda>q. jid q = jid r) f (rows d)"
    "jid (f r) = jid r" "leased_to (f r) = Some (owner, Now e + lease)" by (rule claim_row)
  then have "f r \<in> set (rows d')" by (force simp: set_update_where)
  with keyed_unique[OF claim_keyed[OF assms(1,2)] assms(3), of "f r"] r assms(4) have "q = f r" by simp
  with r(5) show ?thesis by simp
qed

text \<open>While a lease runs, no other claim hands out the same job.\<close>

lemma no_double_claim:
  assumes "keyed jid (rows d)" and "claim e locked owner lease d = Inr (j, d')"
    and "claim e2 locked2 owner2 lease2 d' = Inr (j2, d2)" and "Now e2 \<le> Now e + lease"
  shows "claimed j2 \<noteq> claimed j"
proof
  assume same: "claimed j2 = claimed j"
  from claim_keyed[OF assms(1,2)] assms(3) obtain q where
    q: "q \<in> set (rows d')" "jid q = claimed j2" "is_due (Now e2) q" by (rule claim_row)
  from claim_sets_lease[OF assms(1,2) q(1)] q(2) same
  have "leased_to q = Some (owner, Now e + lease)" by simp
  from lease_holds[OF this q(3)] assms(4) show False by simp
qed

text \<open>A claim takes one job out of the due ones, so claiming at a fixed time comes to an end.\<close>

lemma claim_decreases:
  assumes "keyed jid (rows d)" and "claim e locked owner lease d = Inr (j, d')" and "0 \<le> lease"
  shows "affected (is_due (Now e)) (rows d') < affected (is_due (Now e)) (rows d)"
proof -
  from assms(1,2) obtain r f where r: "r \<in> set (rows d)" "is_due (Now e) r"
    "rows d' = update_where (\<lambda>q. jid q = jid r) f (rows d)"
    "leased_to (f r) = Some (owner, Now e + lease)" by (rule claim_row)
  have gone: "\<not> is_due (Now e) (f r)" using lease_holds[OF r(4)] assms(3) by force
  from r(1) obtain xs ys where split: "rows d = xs @ r # ys" by (auto dest: split_list)
  have "distinct (map jid (xs @ r # ys))" using assms(1) unfolding keyed_def split .
  then have "\<forall>q\<in>set (xs @ ys). jid q \<noteq> jid r" by (auto simp: image_iff)
  then have "rows d' = xs @ f r # ys"
    unfolding r(3) split by simp
  with split gone r(2) show ?thesis by (simp add: affected_def)
qed

end

end
