(* ===== verification/Stories.thy ===== *)
theory Stories
  imports Accounts Leases
begin

text \<open>
  Uploads, media jobs and the writes to a Story: \<^verbatim>\<open>src/internal/store/story.go\<close> (its
  reads are in the theory \<open>Visibility\<close>).  The text form of a UUID and its parser are a library
  of the program; they are the parameters \<open>uuid_str\<close> and \<open>uuid_parse\<close>.  The JSON of a
  worker input or a draft is kept as the record it encodes.
\<close>

section \<open>Uploads\<close>

definition empty_draft :: draftRecord where
  "empty_draft = \<lparr>dr_Caption = '''', dr_AltText = '''', dr_Visibility = '''', dr_AudienceListID = None,
    dr_AllowReplies = False, dr_AllowReactions = False\<rparr>"

definition new_upload :: "env \<Rightarrow> uuid \<Rightarrow> uuid \<Rightarrow> string \<Rightarrow> string \<Rightarrow> int \<Rightarrow> time \<Rightarrow> upload_row" where
  "new_upload e nid userID objectKey mime nbytes expires = \<lparr>
    ui_ID = nid, ui_UserID = userID, ui_ObjectKey = objectKey, ui_DeclaredMIME = mime,
    ui_DeclaredSize = nbytes, ui_State = UploadIssued, ui_ActualSize = None, ui_Checksum = None,
    ui_CreatedAt = db_now e, ui_ExpiresAt = expires,
    ui_draft = empty_draft, ui_filename = '''', ui_FinalizedAt = None\<rparr>"

definition CreateUploadIntent ::
  "env \<Rightarrow> uuid \<Rightarrow> uuid \<Rightarrow> string \<Rightarrow> string \<Rightarrow> int \<Rightarrow> duration \<Rightarrow> db \<Rightarrow> UploadIntent result" where
  "CreateUploadIntent e nid userID objectKey mime nbytes ttl d =
    (if list_ex (\<lambda>u. ui_ObjectKey u = objectKey) (uploads d) then Inl (ErrDB Unique_violation)
     else if \<not> user_exists d userID then Inl (ErrDB Foreign_key_violation)
     else let row = new_upload e nid userID objectKey mime nbytes (Now e + ttl) in
       Inr (UploadIntent.truncate row, d\<lparr>uploads := uploads d @ [row]\<rparr>))"

definition UploadIntent_get :: "uuid \<Rightarrow> db \<Rightarrow> store_error + UploadIntent" where
  "UploadIntent_get uid d =
    row_or_notfound (map_option UploadIntent.truncate (find (\<lambda>u. ui_ID u = uid) (uploads d)))"

text \<open>The three inserts and updates of a first finalization.\<close>

definition mark_finalized :: "env \<Rightarrow> uuid \<Rightarrow> int \<Rightarrow> string \<Rightarrow> db \<Rightarrow> db" where
  "mark_finalized e uploadID nbytes checksum d =
    d\<lparr>uploads := update_where (\<lambda>u. ui_ID u = uploadID)
      (\<lambda>u. u\<lparr>ui_State := UploadFinalized, ui_ActualSize := Some nbytes, ui_Checksum := Some checksum,
        ui_FinalizedAt := Some (db_now e)\<rparr>) (uploads d)\<rparr>"

definition empty_input :: MediaJobInput where
  "empty_input = \<lparr>in_ObjectKey = '''', in_DeclaredMIME = '''', in_ByteSize = 0, in_Checksum = '''',
    in_StoryItemID = '''', in_Filename = ''''\<rparr>"

definition new_media_job :: "env \<Rightarrow> uuid \<Rightarrow> uuid \<Rightarrow> uuid \<Rightarrow> media_job_row" where
  "new_media_job e jobID uploadID userID = \<lparr>
    mj_ID = jobID, mj_UploadIntentID = uploadID, mj_UserID = userID, mj_State = JobQueued,
    mj_Input = empty_input, mj_Attempts = 0, mj_MaxAttempts = 3,
    mj_CreatedAt = db_now e, mj_UpdatedAt = db_now e,
    mj_LeaseOwner = None, mj_LeaseExpiresAt = None, mj_RunAfter = Now e,
    mj_ErrorCode = None, mj_ErrorMessage = None, mj_FinishedAt = None\<rparr>"

definition insert_media_job :: "env \<Rightarrow> uuid \<Rightarrow> uuid \<Rightarrow> uuid \<Rightarrow> db \<Rightarrow> store_error + db" where
  "insert_media_job e jobID uploadID userID d =
    (if list_ex (\<lambda>j. mj_UploadIntentID j = uploadID) (media_jobs d) then Inl (ErrDB Unique_violation)
     else if \<not> user_exists d userID then Inl (ErrDB Foreign_key_violation)
     else Inr (d\<lparr>media_jobs := media_jobs d @ [new_media_job e jobID uploadID userID]\<rparr>))"

definition new_story :: "env \<Rightarrow> uuid \<Rightarrow> uuid \<Rightarrow> uuid \<Rightarrow> StoryDraft \<Rightarrow> story_row" where
  "new_story e storyID userID jobID draft = \<lparr>
    si_ID = storyID, si_AuthorUserID = userID, si_MediaJobID = jobID, si_State = StoryProcessing,
    si_Caption = d_Caption draft, si_AltText = d_AltText draft, si_Visibility = d_Visibility draft,
    si_AudienceListID = d_AudienceListID draft, si_AllowReplies = d_AllowReplies draft,
    si_AllowReactions = d_AllowReactions draft, si_PublishedAt = None, si_ExpiresAt = None,
    si_CreatedAt = db_now e, si_DeletedAt = None, si_failure_code = None, si_failure_message = None,
    si_removed_by_user_id = None, si_removal_reason = None, si_anonymous_view_count = 0\<rparr>"

definition list_row_exists :: "db \<Rightarrow> uuid option \<Rightarrow> bool" where
  "list_row_exists d l = (case l of None \<Rightarrow> True | Some i \<Rightarrow> list_ex (\<lambda>a. al_id a = i) (audience_lists d))"

definition insert_story :: "env \<Rightarrow> uuid \<Rightarrow> uuid \<Rightarrow> uuid \<Rightarrow> StoryDraft \<Rightarrow> db \<Rightarrow> store_error + db" where
  "insert_story e storyID userID jobID draft d =
    (if d_Visibility draft = CustomList \<and> d_AudienceListID draft = None then Inl (ErrDB Check_violation)
     else if \<not> list_row_exists d (d_AudienceListID draft) \<or> \<not> user_exists d userID
     then Inl (ErrDB Foreign_key_violation)
     else Inr (d\<lparr>stories := stories d @ [new_story e storyID userID jobID draft]\<rparr>))"

definition freeze_input :: "uuid \<Rightarrow> MediaJobInput \<Rightarrow> db \<Rightarrow> db" where
  "freeze_input jobID inp d =
    d\<lparr>media_jobs := update_where (\<lambda>j. mj_ID j = jobID) (\<lambda>j. j\<lparr>mj_Input := inp\<rparr>) (media_jobs d)\<rparr>"

definition FinalizeUpload ::
  "(uuid \<Rightarrow> string) \<Rightarrow> env \<Rightarrow> uuid \<Rightarrow> uuid \<Rightarrow> uuid \<Rightarrow> uuid \<Rightarrow> int \<Rightarrow> string \<Rightarrow> StoryDraft \<Rightarrow>
    string \<Rightarrow> db \<Rightarrow> (uuid \<times> bool) result" where
  "FinalizeUpload uuid_str e jobID storyID userID uploadID nbytes checksum draft filename d =
    bind_res (UploadIntent_get uploadID d) (\<lambda>ui.
      if ui_UserID ui \<noteq> userID then Inl ErrNotFound
      else if ui_State ui = UploadFinalized then
        (case find (\<lambda>si. list_ex (\<lambda>mj. mj_ID mj = si_MediaJobID si \<and> mj_UploadIntentID mj = uploadID)
             (media_jobs d)) (stories d) of
           None \<Rightarrow> Inl ErrNoRows
         | Some si \<Rightarrow> Inr ((si_ID si, False), d))
      else if ui_State ui \<noteq> UploadIssued then Inl ErrNotFound
      else if ui_ExpiresAt ui < Now e then Inl ErrNotFound
      else
        bind_res (insert_media_job e jobID uploadID userID (mark_finalized e uploadID nbytes checksum d)) (\<lambda>d1.
        bind_res (insert_story e storyID userID jobID draft d1) (\<lambda>d2.
        Inr ((storyID, True), freeze_input jobID
          \<lparr>in_ObjectKey = ui_ObjectKey ui, in_DeclaredMIME = ui_DeclaredMIME ui, in_ByteSize = nbytes,
           in_Checksum = checksum, in_StoryItemID = uuid_str storyID, in_Filename = filename\<rparr> d2))))"

section \<open>Drafts\<close>

definition StashDraft :: "(uuid \<Rightarrow> string) \<Rightarrow> uuid \<Rightarrow> StoryDraft \<Rightarrow> string \<Rightarrow> db \<Rightarrow> unit result" where
  "StashDraft uuid_str uploadID dr filename d =
    (let rec = \<lparr>dr_Caption = d_Caption dr, dr_AltText = d_AltText dr,
       dr_Visibility = visibility_text (d_Visibility dr),
       dr_AudienceListID = map_option uuid_str (d_AudienceListID dr),
       dr_AllowReplies = d_AllowReplies dr, dr_AllowReactions = d_AllowReactions dr\<rparr> in
     Inr ((), d\<lparr>uploads := update_where (\<lambda>u. ui_ID u = uploadID)
       (\<lambda>u. u\<lparr>ui_draft := rec, ui_filename := filename\<rparr>) (uploads d)\<rparr>))"

definition LoadDraft :: "(string \<Rightarrow> uuid option) \<Rightarrow> uuid \<Rightarrow> db \<Rightarrow> store_error + (StoryDraft \<times> string)" where
  "LoadDraft uuid_parse uploadID d =
    bind_res (row_or_notfound (find (\<lambda>u. ui_ID u = uploadID) (uploads d))) (\<lambda>u.
      let rec = ui_draft u in
      Inr (\<lparr>d_Caption = dr_Caption rec, d_AltText = dr_AltText rec,
        d_Visibility = (case parse_visibility (dr_Visibility rec) of
            None \<Rightarrow> FollowersOfAuthor | Some v \<Rightarrow> v),
        d_AudienceListID = (case dr_AudienceListID rec of None \<Rightarrow> None | Some t \<Rightarrow> uuid_parse t),
        d_AllowReplies = dr_AllowReplies rec, d_AllowReactions = dr_AllowReactions rec\<rparr>,
       ui_filename u))"

section \<open>Media jobs\<close>

definition media_due :: "time \<Rightarrow> media_job_row \<Rightarrow> bool" where
  "media_due now j = due now (mj_RunAfter j) (mj_State j) (mj_LeaseExpiresAt j)"

definition lease_media :: "env \<Rightarrow> string \<Rightarrow> duration \<Rightarrow> media_job_row \<Rightarrow> media_job_row" where
  "lease_media e owner lease j = j\<lparr>mj_State := JobLeased, mj_LeaseOwner := Some owner,
    mj_LeaseExpiresAt := Some (Now e + lease), mj_Attempts := mj_Attempts j + 1, mj_UpdatedAt := db_now e\<rparr>"

definition ClaimMediaJob ::
  "env \<Rightarrow> (uuid \<Rightarrow> bool) \<Rightarrow> string \<Rightarrow> duration \<Rightarrow> db \<Rightarrow> MediaJob result" where
  "ClaimMediaJob e locked owner lease d =
    (case sort_key mj_CreatedAt (filter (\<lambda>j. media_due (Now e) j \<and> \<not> locked (mj_ID j)) (media_jobs d)) of
       [] \<Rightarrow> Inl ErrNotFound
     | j # _ \<Rightarrow> Inr (MediaJob.truncate (lease_media e owner lease j),
         d\<lparr>media_jobs := update_where (\<lambda>r. mj_ID r = mj_ID j) (lease_media e owner lease) (media_jobs d)\<rparr>))"

record PublishResult =
  pr_JobID :: uuid
  pr_StoryID :: uuid
  pr_Variants :: "MediaVariant list"

text \<open>\<open>draw k\<close> is the id the database draws for a new variant row of kind \<open>k\<close>.\<close>

definition insert_variant :: "(VariantKind \<Rightarrow> uuid) \<Rightarrow> uuid \<Rightarrow> MediaVariant \<Rightarrow> db \<Rightarrow> store_error + db" where
  "insert_variant draw story v d =
    (if \<not> story_exists d story then Inl (ErrDB Foreign_key_violation)
     else Inr (d\<lparr>variants := insert_or (\<lambda>q. mv_StoryID q = story \<and> mv_Kind q = mv_Kind v)
        (\<lambda>q. v\<lparr>mv_ID := mv_ID q, mv_StoryID := story\<rparr>)
        (v\<lparr>mv_ID := draw (mv_Kind v), mv_StoryID := story\<rparr>) (variants d)\<rparr>))"

fun insert_variants :: "(VariantKind \<Rightarrow> uuid) \<Rightarrow> uuid \<Rightarrow> MediaVariant list \<Rightarrow> db \<Rightarrow> store_error + db" where
  "insert_variants draw story [] d = Inr d"
| "insert_variants draw story (v # vs) d =
    bind_res (insert_variant draw story v d) (insert_variants draw story vs)"

definition new_cleanup :: "uuid \<Rightarrow> string \<Rightarrow> cleanup_payload \<Rightarrow> time \<Rightarrow> cleanup_row" where
  "new_cleanup nid kind payload run_after = \<lparr>
    cj_ID = nid, cj_Kind = kind, cj_Payload = payload, cj_State = JobQueued, cj_Attempts = 0,
    cj_Max = 8, cj_LeaseOwner = None, cj_LeaseExpiresAt = None, cj_RunAfter = run_after,
    cj_ErrorMessage = None\<rparr>"

definition schedule_original_cleanup :: "env \<Rightarrow> uuid \<Rightarrow> uuid \<Rightarrow> db \<Rightarrow> db" where
  "schedule_original_cleanup e nid jobID d =
    d\<lparr>cleanup_jobs := cleanup_jobs d @
      [new_cleanup nid ''delete_objects'' (ObjectKeys [ui_ObjectKey ui] None) (Now e).
        mj \<leftarrow> filter (\<lambda>mj. mj_ID mj = jobID) (media_jobs d),
        ui \<leftarrow> filter (\<lambda>ui. ui_ID ui = mj_UploadIntentID mj) (uploads d)]\<rparr>"

definition PublishStory ::
  "env \<Rightarrow> (VariantKind \<Rightarrow> uuid) \<Rightarrow> uuid \<Rightarrow> PublishResult \<Rightarrow> duration \<Rightarrow> db \<Rightarrow> (time \<times> time) result" where
  "PublishStory e draw nid res lifetime d =
    (let now = Now e; expires = now + lifetime;
         publishable = (\<lambda>si. si_ID si = pr_StoryID res \<and> si_State si = StoryProcessing) in
     bind_res (insert_variants draw (pr_StoryID res) (pr_Variants res) d) (\<lambda>d1.
       let d2 = d1\<lparr>stories := update_where publishable
             (\<lambda>si. si\<lparr>si_State := StoryPublished, si_PublishedAt := Some now, si_ExpiresAt := Some expires\<rparr>)
             (stories d1)\<rparr> in
       if affected publishable (stories d1) = 0 then Inl ErrNotFound
       else
         (let d3 = d2\<lparr>media_jobs := update_where (\<lambda>j. mj_ID j = pr_JobID res)
               (\<lambda>j. j\<lparr>mj_State := JobSucceeded, mj_FinishedAt := Some (db_now e), mj_UpdatedAt := db_now e,
                 mj_LeaseOwner := None, mj_LeaseExpiresAt := None\<rparr>) (media_jobs d2)\<rparr> in
          Inr ((now, expires), schedule_original_cleanup e nid (pr_JobID res) d3))))"

definition FailMediaJob ::
  "env \<Rightarrow> uuid \<Rightarrow> uuid \<Rightarrow> uuid \<Rightarrow> string \<Rightarrow> string \<Rightarrow> bool \<Rightarrow> db \<Rightarrow> unit result" where
  "FailMediaJob e nid jobID storyID code message retryable d =
    bind_res (row_or_notfound (find (\<lambda>j. mj_ID j = jobID) (media_jobs d))) (\<lambda>j.
      if retryable \<and> mj_Attempts j < mj_MaxAttempts j then
        Inr ((), d\<lparr>media_jobs := update_where (\<lambda>r. mj_ID r = jobID)
          (\<lambda>r. r\<lparr>mj_State := JobQueued, mj_RunAfter := Now e + backoff 10 (mj_Attempts j),
            mj_ErrorCode := Some code, mj_ErrorMessage := Some message, mj_LeaseOwner := None,
            mj_LeaseExpiresAt := None, mj_UpdatedAt := db_now e\<rparr>) (media_jobs d)\<rparr>)
      else
        (let d1 = d\<lparr>media_jobs := update_where (\<lambda>r. mj_ID r = jobID)
               (\<lambda>r. r\<lparr>mj_State := JobFailed, mj_ErrorCode := Some code, mj_ErrorMessage := Some message,
                 mj_FinishedAt := Some (db_now e), mj_LeaseOwner := None, mj_LeaseExpiresAt := None,
                 mj_UpdatedAt := db_now e\<rparr>) (media_jobs d)\<rparr>;
             d2 = d1\<lparr>stories := update_where (\<lambda>si. si_ID si = storyID \<and> si_State si = StoryProcessing)
               (\<lambda>si. si\<lparr>si_State := StoryFailed, si_failure_code := Some code,
                 si_failure_message := Some message\<rparr>) (stories d1)\<rparr> in
         Inr ((), schedule_original_cleanup e nid jobID d2)))"

section \<open>Edits and deletion\<close>

definition edit_story ::
  "string option \<Rightarrow> string option \<Rightarrow> Visibility option \<Rightarrow> uuid option \<Rightarrow> bool option \<Rightarrow> bool option \<Rightarrow>
    story_row \<Rightarrow> story_row" where
  "edit_story caption alt vis listID allow_replies allow_reactions si =
    si\<lparr>si_Caption := coalesce caption (si_Caption si), si_AltText := coalesce alt (si_AltText si),
       si_Visibility := coalesce vis (si_Visibility si),
       si_AudienceListID := (if vis = Some CustomList then listID
         else if vis = None then si_AudienceListID si else None),
       si_AllowReplies := coalesce allow_replies (si_AllowReplies si),
       si_AllowReactions := coalesce allow_reactions (si_AllowReactions si)\<rparr>"

definition UpdateStory ::
  "uuid \<Rightarrow> uuid \<Rightarrow> string option \<Rightarrow> string option \<Rightarrow> Visibility option \<Rightarrow> uuid option \<Rightarrow> bool option \<Rightarrow>
    bool option \<Rightarrow> db \<Rightarrow> unit result" where
  "UpdateStory owner storyID caption alt vis listID allow_replies allow_reactions d =
    (let mine = (\<lambda>si. si_ID si = storyID \<and> si_AuthorUserID si = owner \<and> si_State si = StoryPublished);
         edit = edit_story caption alt vis listID allow_replies allow_reactions in
     if list_ex (\<lambda>si. mine si \<and> si_Visibility (edit si) = CustomList \<and> si_AudienceListID (edit si) = None)
          (stories d) then Inl (ErrDB Check_violation)
     else if vis = Some CustomList \<and> \<not> list_row_exists d listID \<and> list_ex mine (stories d)
     then Inl (ErrDB Foreign_key_violation)
     else if affected mine (stories d) = 0 then Inl ErrNotFound
     else Inr ((), d\<lparr>stories := update_where mine edit (stories d)\<rparr>))"

definition scheduleStoryObjectCleanup :: "env \<Rightarrow> uuid \<Rightarrow> uuid \<Rightarrow> db \<Rightarrow> db" where
  "scheduleStoryObjectCleanup e nid storyID d =
    d\<lparr>cleanup_jobs := cleanup_jobs d @
      [new_cleanup nid ''delete_objects''
        (ObjectKeys (map mv_ObjectKey (filter (\<lambda>v. mv_StoryID v = storyID) (variants d))) (Some storyID))
        (Now e)]\<rparr>"

definition deletable :: "story_row \<Rightarrow> bool" where
  "deletable si \<longleftrightarrow> si_State si = StoryPublished \<or> si_State si = StoryProcessing"

definition DeleteStory ::
  "env \<Rightarrow> uuid \<Rightarrow> uuid \<Rightarrow> uuid \<Rightarrow> bool \<Rightarrow> string \<Rightarrow> db \<Rightarrow> unit result" where
  "DeleteStory e nid owner storyID moderator reason d =
    (let P = (if moderator then (\<lambda>si. si_ID si = storyID \<and> deletable si)
              else (\<lambda>si. si_ID si = storyID \<and> si_AuthorUserID si = owner \<and> deletable si));
         f = (if moderator then (\<lambda>si. si\<lparr>si_State := StoryRemoved, si_DeletedAt := Some (db_now e),
                 si_removed_by_user_id := Some owner, si_removal_reason := Some reason\<rparr>)
              else (\<lambda>si. si\<lparr>si_State := StoryDeleted, si_DeletedAt := Some (db_now e)\<rparr>)) in
     if affected P (stories d) = 0 then Inl ErrNotFound
     else if moderator \<and> \<not> user_exists d owner then Inl (ErrDB Foreign_key_violation)
     else Inr ((), scheduleStoryObjectCleanup e nid storyID (d\<lparr>stories := update_where P f (stories d)\<rparr>)))"

definition VariantKeys :: "uuid \<Rightarrow> db \<Rightarrow> string list" where
  "VariantKeys storyID d = map mv_ObjectKey (filter (\<lambda>v. mv_StoryID v = storyID) (variants d))"


section \<open>The media queue keeps the contract of a lease queue\<close>

definition media_lease :: "media_job_row \<Rightarrow> (string \<times> time) option" where
  "media_lease j = (if mj_State j = JobLeased
    then (case (mj_LeaseOwner j, mj_LeaseExpiresAt j) of (Some ow, Some t) \<Rightarrow> Some (ow, t) | _ \<Rightarrow> None)
    else None)"

lemma lease_media_simps [simp]:
  "mj_ID (lease_media e owner lease j) = mj_ID j"
  "mj_State (lease_media e owner lease j) = JobLeased"
  "mj_RunAfter (lease_media e owner lease j) = mj_RunAfter j"
  "mj_Attempts (lease_media e owner lease j) = mj_Attempts j + 1"
  "mj_MaxAttempts (lease_media e owner lease j) = mj_MaxAttempts j"
  "mj_LeaseExpiresAt (lease_media e owner lease j) = Some (Now e + lease)"
  "mj_UploadIntentID (lease_media e owner lease j) = mj_UploadIntentID j"
  "mj_Input (lease_media e owner lease j) = mj_Input j"
  "media_lease (lease_media e owner lease j) = Some (owner, Now e + lease)"
  by (simp_all add: lease_media_def media_lease_def)

lemma ClaimMediaJob_Inr:
  assumes "ClaimMediaJob e locked owner lease d = Inr (j, d')"
  obtains r where "r \<in> set (media_jobs d)" "media_due (Now e) r" "\<not> locked (mj_ID r)"
    "j = MediaJob.truncate (lease_media e owner lease r)"
    "d' = d\<lparr>media_jobs := update_where (\<lambda>q. mj_ID q = mj_ID r) (lease_media e owner lease) (media_jobs d)\<rparr>"
proof -
  from assms obtain r rs where
    s: "sort_key mj_CreatedAt (filter (\<lambda>j. media_due (Now e) j \<and> \<not> locked (mj_ID j)) (media_jobs d)) = r # rs"
    by (auto simp: ClaimMediaJob_def split: list.splits)
  from sort_key_Cons_in[OF s] assms s show thesis by (intro that) (auto simp: ClaimMediaJob_def)
qed

lemma ClaimMediaJob_Inl:
  "ClaimMediaJob e locked owner lease d = Inl err \<longleftrightarrow>
    err = ErrNotFound \<and> \<not> list_ex (\<lambda>r. media_due (Now e) r \<and> \<not> locked (mj_ID r)) (media_jobs d)"
  unfolding sort_key_Nil_ex[of mj_CreatedAt, symmetric]
  by (auto simp: ClaimMediaJob_def split: list.splits)

lemma truncate_simps [simp]:
  "mj_ID (MediaJob.truncate j) = mj_ID j" "mj_Attempts (MediaJob.truncate j) = mj_Attempts j"
  "mj_MaxAttempts (MediaJob.truncate j) = mj_MaxAttempts j"
  "mj_Input (MediaJob.truncate j) = mj_Input j"
  by (simp_all add: MediaJob.defs)

interpretation media_queue: lease_queue media_jobs mj_ID media_due mj_Attempts media_lease ClaimMediaJob mj_ID
proof unfold_locales
  fix d e locked owner lease j d'
  assume "ClaimMediaJob e locked owner lease d = Inr (j, d')"
  then show "\<exists>r f. r \<in> set (media_jobs d) \<and> mj_ID r = mj_ID j \<and> media_due (Now e) r \<and> \<not> locked (mj_ID r) \<and>
      media_jobs d' = update_where (\<lambda>q. mj_ID q = mj_ID r) f (media_jobs d) \<and>
      mj_ID (f r) = mj_ID r \<and> mj_Attempts (f r) = mj_Attempts r + 1 \<and>
      media_lease (f r) = Some (owner, Now e + lease)"
    by (rule ClaimMediaJob_Inr) (auto intro!: exI[of _ "lease_media e owner lease"])
next
  fix e locked owner lease d err
  show "ClaimMediaJob e locked owner lease d = Inl err \<longleftrightarrow>
      err = ErrNotFound \<and> \<not> list_ex (\<lambda>r. media_due (Now e) r \<and> \<not> locked (mj_ID r)) (media_jobs d)"
    by (rule ClaimMediaJob_Inl)
next
  fix r owner t now
  assume "media_lease r = Some (owner, t)" "media_due now r"
  then show "t < now"
    by (auto simp: media_lease_def media_due_def split: if_splits option.splits)
qed

section \<open>Facts about uploads\<close>

lemma upload_truncate_simps [simp]:
  "ui_ID (UploadIntent.truncate u) = ui_ID u" "ui_UserID (UploadIntent.truncate u) = ui_UserID u"
  "ui_State (UploadIntent.truncate u) = ui_State u" "ui_ExpiresAt (UploadIntent.truncate u) = ui_ExpiresAt u"
  "ui_ObjectKey (UploadIntent.truncate u) = ui_ObjectKey u"
  "ui_DeclaredMIME (UploadIntent.truncate u) = ui_DeclaredMIME u"
  by (simp_all add: UploadIntent.defs)

definition frozen_job ::
  "(uuid \<Rightarrow> string) \<Rightarrow> env \<Rightarrow> uuid \<Rightarrow> uuid \<Rightarrow> upload_row \<Rightarrow> int \<Rightarrow> string \<Rightarrow> string \<Rightarrow> media_job_row" where
  "frozen_job uuid_str e jobID storyID ui nbytes checksum filename =
    (new_media_job e jobID (ui_ID ui) (ui_UserID ui))\<lparr>mj_Input :=
      \<lparr>in_ObjectKey = ui_ObjectKey ui, in_DeclaredMIME = ui_DeclaredMIME ui, in_ByteSize = nbytes,
       in_Checksum = checksum, in_StoryItemID = uuid_str storyID, in_Filename = filename\<rparr>\<rparr>"

lemma new_media_job_simps [simp]:
  "mj_ID (new_media_job e jobID uploadID userID) = jobID"
  "mj_UploadIntentID (new_media_job e jobID uploadID userID) = uploadID"
  by (simp_all add: new_media_job_def)

lemma FinalizeUpload_created:
  assumes "FinalizeUpload uuid_str e jobID storyID userID uploadID nbytes checksum draft filename d = Inr ((s, True), d')"
    and "\<not> list_ex (\<lambda>j. mj_ID j = jobID) (media_jobs d)"
  shows "s = storyID \<and> (\<exists>ui. find (\<lambda>u. ui_ID u = uploadID) (uploads d) = Some ui \<and> ui_UserID ui = userID \<and>
      ui_State ui = UploadIssued \<and> Now e \<le> ui_ExpiresAt ui \<and> user_exists d userID \<and>
      uploads d' = uploads (mark_finalized e uploadID nbytes checksum d) \<and>
      \<not> list_ex (\<lambda>j. mj_UploadIntentID j = uploadID) (media_jobs d) \<and>
      media_jobs d' = media_jobs d @ [frozen_job uuid_str e jobID storyID ui nbytes checksum filename] \<and>
      stories d' = stories d @ [new_story e storyID userID jobID draft])"
proof -
  from assms(1) obtain ui where ui: "find (\<lambda>u. ui_ID u = uploadID) (uploads d) = Some ui"
    by (auto simp: FinalizeUpload_def bind_res_Inr_iff UploadIntent_get_def)
  then have ui_id: "ui_ID ui = uploadID" by (auto dest: find_Some_in)
  have none: "\<forall>r\<in>set (media_jobs d). mj_ID r \<noteq> jobID" using assms(2) by (simp add: list_ex_iff)
  from assms(1) show ?thesis unfolding FinalizeUpload_def
    by (auto simp: UploadIntent_get_def ui bind_res_Inr_iff insert_media_job_def insert_story_def
        freeze_input_def mark_finalized_def user_exists_def frozen_job_def ui_id none
        split: if_splits option.splits)
qed

lemma FinalizeUpload_replay:
  assumes "find (\<lambda>u. ui_ID u = uploadID) (uploads d) = Some ui" and "ui_UserID ui = userID"
    and "ui_State ui = UploadFinalized"
    and "find (\<lambda>si. list_ex (\<lambda>mj. mj_ID mj = si_MediaJobID si \<and> mj_UploadIntentID mj = uploadID)
           (media_jobs d)) (stories d) = Some si"
  shows "FinalizeUpload uuid_str e jobID storyID userID uploadID nbytes checksum draft filename d
    = Inr ((si_ID si, False), d)"
  using assms by (simp add: FinalizeUpload_def UploadIntent_get_def row_or_notfound_def)

lemma find_finalized:
  assumes "find (\<lambda>u. ui_ID u = uploadID) (uploads d) = Some ui"
  shows "\<exists>ui'. find (\<lambda>u. ui_ID u = uploadID) (uploads (mark_finalized e uploadID nbytes checksum d)) = Some ui'
    \<and> ui_UserID ui' = ui_UserID ui \<and> ui_State ui' = UploadFinalized"
  using assms find_Some_in[OF assms]
  by (auto simp: mark_finalized_def find_update_frame)

lemma FinalizeUpload_again:
  assumes "FinalizeUpload uuid_str e jobID storyID userID uploadID nbytes checksum draft filename d = Inr ((s, True), d')"
    and "\<not> list_ex (\<lambda>j. mj_ID j = jobID) (media_jobs d)"
    and "\<not> list_ex (\<lambda>si. si_MediaJobID si = jobID) (stories d)"
  shows "FinalizeUpload uuid_str e2 jobID2 storyID2 userID uploadID nbytes2 checksum2 draft2 filename2 d'
    = Inr ((s, False), d')"
proof -
  from FinalizeUpload_created[OF assms(1,2)] obtain ui where
    s: "s = storyID" and ui: "find (\<lambda>u. ui_ID u = uploadID) (uploads d) = Some ui" "ui_UserID ui = userID"
    and d': "uploads d' = uploads (mark_finalized e uploadID nbytes checksum d)"
      "\<not> list_ex (\<lambda>j. mj_UploadIntentID j = uploadID) (media_jobs d)"
      "media_jobs d' = media_jobs d @ [frozen_job uuid_str e jobID storyID ui nbytes checksum filename]"
      "stories d' = stories d @ [new_story e storyID userID jobID draft]" by blast
  from find_finalized[OF ui(1), of e nbytes checksum] ui(2) obtain ui' where
    ui': "find (\<lambda>u. ui_ID u = uploadID) (uploads d') = Some ui'" "ui_UserID ui' = userID"
      "ui_State ui' = UploadFinalized" unfolding d'(1) by auto
  have job: "mj_ID (frozen_job uuid_str e jobID storyID ui nbytes checksum filename) = jobID"
    "mj_UploadIntentID (frozen_job uuid_str e jobID storyID ui nbytes checksum filename) = uploadID"
    using find_Some_in[OF ui(1)] by (simp_all add: frozen_job_def)
  have joined: "list_ex (\<lambda>mj. mj_ID mj = si_MediaJobID si \<and> mj_UploadIntentID mj = uploadID) (media_jobs d')
      \<longleftrightarrow> si_MediaJobID si = jobID" for si
    unfolding d'(3) using d'(2) job by (auto simp: list_ex_iff)
  have "find (\<lambda>si. si_MediaJobID si = jobID) (stories d) = None" using assms(3) by (simp add: find_None_ex)
  then have found: "find (\<lambda>si. list_ex (\<lambda>mj. mj_ID mj = si_MediaJobID si \<and> mj_UploadIntentID mj = uploadID) (media_jobs d'))
      (stories d') = Some (new_story e storyID userID jobID draft)"
    unfolding joined d'(4) by (simp add: find_append new_story_def)
  show ?thesis using FinalizeUpload_replay[OF ui' found] by (simp add: s new_story_def)
qed

section \<open>Facts about publication and deletion\<close>

lemma insert_variants_frame:
  "insert_variants draw story vs d = Inr d' \<Longrightarrow>
    stories d' = stories d \<and> media_jobs d' = media_jobs d \<and> uploads d' = uploads d \<and>
    users d' = users d \<and> cleanup_jobs d' = cleanup_jobs d \<and> blocks d' = blocks d \<and>
    relationships d' = relationships d"
proof (induction vs arbitrary: d)
  case Nil
  then show ?case by simp
next
  case (Cons v vs)
  then obtain d1 where "insert_variant draw story v d = Inr d1" "insert_variants draw story vs d1 = Inr d'"
    by (auto simp: bind_res_Inr_iff)
  with Cons.IH[of d1] show ?case by (auto simp: insert_variant_def split: if_splits)
qed

lemma insert_variants_ok:
  "story_exists d story \<Longrightarrow> \<exists>d'. insert_variants draw story vs d = Inr d'"
proof (induction vs arbitrary: d)
  case Nil
  then show ?case by simp
next
  case (Cons v vs)
  then obtain d1 where d1: "insert_variant draw story v d = Inr d1" "story_exists d1 story"
    by (simp add: insert_variant_def story_exists_def)
  with Cons.IH[OF d1(2)] show ?case by simp
qed

lemma insert_variants_Inl:
  "insert_variants draw story vs d = Inl err \<Longrightarrow> \<not> story_exists d story \<and> err = ErrDB Foreign_key_violation"
proof (induction vs arbitrary: d)
  case Nil
  then show ?case by simp
next
  case (Cons v vs)
  show ?case
  proof (cases "insert_variant draw story v d")
    case (Inl e)
    with Cons.prems show ?thesis by (auto simp: insert_variant_def split: if_splits)
  next
    case (Inr d1)
    with Cons.prems have "insert_variants draw story vs d1 = Inl err" by simp
    from Cons.IH[OF this] Inr show ?thesis
      by (auto simp: insert_variant_def story_exists_def split: if_splits)
  qed
qed

definition published_row :: "time \<Rightarrow> duration \<Rightarrow> story_row \<Rightarrow> story_row" where
  "published_row now lifetime si =
    si\<lparr>si_State := StoryPublished, si_PublishedAt := Some now, si_ExpiresAt := Some (now + lifetime)\<rparr>"

lemma PublishStory_Inr:
  assumes "PublishStory e draw nid res lifetime d = Inr (r, d')"
  shows "r = (Now e, Now e + lifetime) \<and>
    list_ex (\<lambda>si. si_ID si = pr_StoryID res \<and> si_State si = StoryProcessing) (stories d) \<and>
    stories d' = update_where (\<lambda>si. si_ID si = pr_StoryID res \<and> si_State si = StoryProcessing)
      (published_row (Now e) lifetime) (stories d) \<and>
    users d' = users d \<and> blocks d' = blocks d \<and> relationships d' = relationships d \<and>
    (\<exists>d1. insert_variants draw (pr_StoryID res) (pr_Variants res) d = Inr d1 \<and> variants d' = variants d1)"
proof -
  from assms obtain d1 where d1: "insert_variants draw (pr_StoryID res) (pr_Variants res) d = Inr d1"
    by (auto simp: PublishStory_def Let_def bind_res_Inr_iff)
  from insert_variants_frame[OF d1] assms d1 show ?thesis
    by (auto simp: PublishStory_def Let_def affected_pos list_ex_iff
        schedule_original_cleanup_def published_row_def[abs_def] affected_zero split: if_splits)
qed

lemma PublishStory_not_processing:
  assumes "\<not> list_ex (\<lambda>si. si_ID si = pr_StoryID res \<and> si_State si = StoryProcessing) (stories d)"
  shows "PublishStory e draw nid res lifetime d =
    (if story_exists d (pr_StoryID res) \<or> pr_Variants res = [] then Inl ErrNotFound
     else Inl (ErrDB Foreign_key_violation))"
proof (cases "insert_variants draw (pr_StoryID res) (pr_Variants res) d")
  case (Inl err)
  with insert_variants_Inl[OF Inl] show ?thesis
    by (auto simp: PublishStory_def Let_def)
next
  case (Inr d1)
  have "story_exists d (pr_StoryID res) \<or> pr_Variants res = []"
    using Inr by (cases "pr_Variants res") (auto simp: bind_res_Inr_iff insert_variant_def split: if_splits)
  moreover have "affected (\<lambda>si. si_ID si = pr_StoryID res \<and> si_State si = StoryProcessing) (stories d1) = 0"
    using assms insert_variants_frame[OF Inr] by (auto simp: affected_zero list_ex_iff)
  ultimately show ?thesis by (simp add: PublishStory_def Let_def Inr)
qed

text \<open>What a successful deletion does.\<close>

definition deleted_row :: "env \<Rightarrow> uuid \<Rightarrow> bool \<Rightarrow> string \<Rightarrow> story_row \<Rightarrow> story_row" where
  "deleted_row e owner m reason si =
    (if m then si\<lparr>si_State := StoryRemoved, si_DeletedAt := Some (db_now e),
       si_removed_by_user_id := Some owner, si_removal_reason := Some reason\<rparr>
     else si\<lparr>si_State := StoryDeleted, si_DeletedAt := Some (db_now e)\<rparr>)"

lemma deleted_row_simps [simp]:
  "si_ID (deleted_row e owner m reason si) = si_ID si"
  "si_AuthorUserID (deleted_row e owner m reason si) = si_AuthorUserID si"
  "si_State (deleted_row e owner m reason si) = (if m then StoryRemoved else StoryDeleted)"
  by (simp_all add: deleted_row_def)

lemma DeleteStory_Inr:
  assumes "DeleteStory e nid owner sid m reason d = Inr ((), d')"
  shows "list_ex (\<lambda>si. si_ID si = sid \<and> (m \<or> si_AuthorUserID si = owner) \<and> deletable si) (stories d) \<and>
    variants d' = variants d \<and> users d' = users d \<and> identities d' = identities d \<and>
    cleanup_jobs d' = cleanup_jobs d @
      [new_cleanup nid ''delete_objects'' (ObjectKeys (VariantKeys sid d) (Some sid)) (Now e)] \<and>
    stories d' = update_where (\<lambda>si. si_ID si = sid \<and> (m \<or> si_AuthorUserID si = owner) \<and> deletable si)
      (deleted_row e owner m reason) (stories d)"
  using assms
  by (cases m) (auto simp: DeleteStory_def Let_def scheduleStoryObjectCleanup_def VariantKeys_def
      deleted_row_def[abs_def] affected_pos list_ex_iff split: if_splits)

lemma story_row_gone:
  assumes "keyed si_ID (stories d)" and "DeleteStory e nid owner sid m reason d = Inr ((), d')"
    and "si \<in> set (stories d')" and "si_ID si = sid"
  shows "si_State si = (if m then StoryRemoved else StoryDeleted)"
proof -
  note del = DeleteStory_Inr[OF assms(2)]
  let ?P = "\<lambda>si. si_ID si = sid \<and> (m \<or> si_AuthorUserID si = owner) \<and> deletable si"
  from del have d': "stories d' = update_where ?P (deleted_row e owner m reason) (stories d)" by simp
  from del obtain r where r: "r \<in> set (stories d)" "?P r" by (auto simp: list_ex_iff)
  from assms(3) d' obtain q where q: "q \<in> set (stories d)" "si = (if ?P q then deleted_row e owner m reason q else q)"
    by (auto simp: set_update_where)
  with assms(4) have "si_ID q = sid" by (auto split: if_splits)
  with keyed_unique[OF assms(1) q(1) r(1)] r(2) have "q = r" by auto
  with q(2) r(2) show ?thesis by simp
qed

definition requeued_row :: "env \<Rightarrow> int \<Rightarrow> string \<Rightarrow> string \<Rightarrow> media_job_row \<Rightarrow> media_job_row" where
  "requeued_row e attempts code msg r = r\<lparr>mj_State := JobQueued, mj_RunAfter := Now e + backoff 10 attempts,
     mj_ErrorCode := Some code, mj_ErrorMessage := Some msg, mj_LeaseOwner := None,
     mj_LeaseExpiresAt := None, mj_UpdatedAt := db_now e\<rparr>"

definition failed_row :: "env \<Rightarrow> string \<Rightarrow> string \<Rightarrow> media_job_row \<Rightarrow> media_job_row" where
  "failed_row e code msg r = r\<lparr>mj_State := JobFailed, mj_ErrorCode := Some code, mj_ErrorMessage := Some msg,
     mj_FinishedAt := Some (db_now e), mj_LeaseOwner := None, mj_LeaseExpiresAt := None,
     mj_UpdatedAt := db_now e\<rparr>"

definition failed_story :: "string \<Rightarrow> string \<Rightarrow> story_row \<Rightarrow> story_row" where
  "failed_story code msg si =
    si\<lparr>si_State := StoryFailed, si_failure_code := Some code, si_failure_message := Some msg\<rparr>"

lemma failed_story_ends:
  assumes "si \<in> set (update_where (\<lambda>si. si_ID si = sid \<and> si_State si = StoryProcessing) (failed_story code msg) rs)"
    and "si_ID si = sid"
  shows "si_State si \<noteq> StoryProcessing"
proof
  assume "si_State si = StoryProcessing"
  with in_update_where[OF assms(1)] assms(2) obtain q where "si = failed_story code msg q" by blast
  with \<open>si_State si = StoryProcessing\<close> show False by (simp add: failed_story_def)
qed

lemma failure_rows_id [simp]:
  "mj_ID (requeued_row e n code msg r) = mj_ID r" "mj_ID (failed_row e code msg r) = mj_ID r"
  by (simp_all add: requeued_row_def failed_row_def)

lemma FailMediaJob_retry:
  assumes "keyed mj_ID (media_jobs d)" and "j \<in> set (media_jobs d)"
    and "retryable \<and> mj_Attempts j < mj_MaxAttempts j"
  shows "FailMediaJob e nid (mj_ID j) sid code msg retryable d = Inr ((), d\<lparr>media_jobs :=
    update_where (\<lambda>r. mj_ID r = mj_ID j) (requeued_row e (mj_Attempts j) code msg) (media_jobs d)\<rparr>)"
  using keyed_find[OF assms(1,2)] assms(3) by (simp add: FailMediaJob_def requeued_row_def[abs_def])

lemma schedule_original_cleanup_cong:
  assumes "uploads d' = uploads d" and "cleanup_jobs d' = cleanup_jobs d"
    and "media_jobs d' = update_where P g (media_jobs d)"
    and "\<And>r. mj_ID (g r) = mj_ID r" and "\<And>r. mj_UploadIntentID (g r) = mj_UploadIntentID r"
  shows "cleanup_jobs (schedule_original_cleanup e nid jobID d')
    = cleanup_jobs (schedule_original_cleanup e nid jobID d)"
  using assms by (simp add: schedule_original_cleanup_def update_where_def filter_map comp_def if_distrib
      cong: if_cong)

lemma FailMediaJob_final:
  assumes "keyed mj_ID (media_jobs d)" and "j \<in> set (media_jobs d)"
    and "\<not> (retryable \<and> mj_Attempts j < mj_MaxAttempts j)"
  shows "\<exists>d'. FailMediaJob e nid (mj_ID j) sid code msg retryable d = Inr ((), d') \<and>
    media_jobs d' = update_where (\<lambda>r. mj_ID r = mj_ID j) (failed_row e code msg) (media_jobs d) \<and>
    stories d' = update_where (\<lambda>si. si_ID si = sid \<and> si_State si = StoryProcessing)
      (failed_story code msg) (stories d) \<and>
    cleanup_jobs d' = cleanup_jobs (schedule_original_cleanup e nid (mj_ID j) d)"
proof -
  let ?d = "d\<lparr>media_jobs := update_where (\<lambda>r. mj_ID r = mj_ID j) (failed_row e code msg) (media_jobs d),
    stories := update_where (\<lambda>si. si_ID si = sid \<and> si_State si = StoryProcessing)
      (failed_story code msg) (stories d)\<rparr>"
  have "cleanup_jobs (schedule_original_cleanup e nid (mj_ID j) ?d)
      = cleanup_jobs (schedule_original_cleanup e nid (mj_ID j) d)"
    by (rule schedule_original_cleanup_cong[where P = "\<lambda>r. mj_ID r = mj_ID j" and g = "failed_row e code msg"])
      (auto simp: failed_row_def)
  moreover have "FailMediaJob e nid (mj_ID j) sid code msg retryable d
      = Inr ((), schedule_original_cleanup e nid (mj_ID j) ?d)"
    using keyed_find[OF assms(1,2)] assms(3)
    by (auto simp: FailMediaJob_def Let_def failed_row_def[abs_def] failed_story_def[abs_def])
  ultimately show ?thesis by (simp add: schedule_original_cleanup_def)
qed

section \<open>Properties\<close>

definition wit_author_db :: db where
  "wit_author_db = empty_db\<lparr>
    identities := [identity_values wit_env (wit_identity 11 ''ann'')], users := [wit_user 3 11]\<rparr>"

definition wit_draft :: StoryDraft where
  "wit_draft = \<lparr>d_Caption = ''hi'', d_AltText = '''', d_Visibility = Public, d_AudienceListID = None,
    d_AllowReplies = True, d_AllowReactions = False\<rparr>"

definition wit_upload_db :: db where
  "wit_upload_db = wit_author_db\<lparr>uploads := [new_upload wit_env 5 3 ''k'' ''image/png'' 9 150]\<rparr>"

definition wit_story :: "StoryState \<Rightarrow> story_row" where
  "wit_story st = (new_story wit_env 7 3 6 wit_draft)\<lparr>si_State := st\<rparr>"

definition wit_story_db :: "StoryState \<Rightarrow> db" where
  "wit_story_db st = wit_upload_db\<lparr>media_jobs := [new_media_job wit_env 6 5 3], stories := [wit_story st]\<rparr>"

lemmas wit_story_defs = wit_story_db_def wit_story_def wit_upload_db_def wit_author_db_def wit_draft_def
  new_upload_def new_story_def new_media_job_def wit_user_def new_user_def wit_identity_def
  identity_values_def wit_env_def empty_db_def user_exists_def

text \<open>C13. Finalizing an upload is idempotent: the first call creates exactly one Story, in
  state processing, with the audience of the draft and for the owner only; a later call by the
  owner, with whatever size, checksum or draft, returns the same Story and changes nothing.\<close>

theorem FinalizeUpload_idempotent:
  assumes "FinalizeUpload uuid_str e jobID storyID userID uploadID nbytes checksum draft filename d = Inr ((s, True), d')"
    and "\<not> list_ex (\<lambda>j. mj_ID j = jobID) (media_jobs d)"
    and "\<not> list_ex (\<lambda>si. si_MediaJobID si = jobID) (stories d)"
  shows "stories d' = stories d @ [new_story e s userID jobID draft]
    \<and> (\<exists>ui\<in>set (uploads d). ui_ID ui = uploadID \<and> ui_UserID ui = userID \<and> ui_State ui = UploadIssued
        \<and> Now e \<le> ui_ExpiresAt ui)
    \<and> FinalizeUpload uuid_str e2 jobID2 storyID2 userID uploadID nbytes2 checksum2 draft2 filename2 d'
      = Inr ((s, False), d')"
  using FinalizeUpload_created[OF assms(1,2)] FinalizeUpload_again[OF assms] find_Some_in by fastforce

theorem FinalizeUpload_idempotent_witness:
  "\<exists>d'. FinalizeUpload decimal_nat wit_env 6 7 3 5 9 ''c'' wit_draft ''f'' wit_upload_db = Inr ((7, True), d')
    \<and> FinalizeUpload decimal_nat wit_env 8 9 3 5 4 ''x'' wit_draft ''g'' d' = Inr ((7, False), d')"
proof -
  obtain d' where f: "FinalizeUpload decimal_nat wit_env 6 7 3 5 9 ''c'' wit_draft ''f'' wit_upload_db = Inr ((7, True), d')"
    by (simp add: FinalizeUpload_def UploadIntent_get_def insert_media_job_def insert_story_def
        mark_finalized_def list_row_exists_def wit_story_defs)
  have "\<not> list_ex (\<lambda>j. mj_ID j = 6) (media_jobs wit_upload_db)"
    "\<not> list_ex (\<lambda>si. si_MediaJobID si = 6) (stories wit_upload_db)"
    by (simp_all add: wit_story_defs)
  from FinalizeUpload_idempotent[OF f this] f show ?thesis by blast
qed

text \<open>C8. Publication starts the viewing window exactly: the published Story had been
  processing, its publication time is the time of the call, it expires after exactly the
  lifetime, and from then on it is live at an instant exactly when that instant is before the
  expiry.\<close>

theorem PublishStory_window:
  assumes "keyed si_ID (stories d)" and "PublishStory e draw nid res lifetime d = Inr ((p, x), d')"
    and "si' \<in> set (stories d')" and "si_ID si' = pr_StoryID res"
  shows "p = Now e \<and> x = p + lifetime \<and> si_PublishedAt si' = Some p \<and> si_ExpiresAt si' = Some x
    \<and> (\<exists>si\<in>set (stories d). si_ID si = pr_StoryID res \<and> si_State si = StoryProcessing
        \<and> si_Visibility si' = si_Visibility si \<and> si_AudienceListID si' = si_AudienceListID si)
    \<and> (Live (Some si') t \<longleftrightarrow> t < x)"
proof -
  note pub = PublishStory_Inr[OF assms(2)]
  let ?P = "\<lambda>si. si_ID si = pr_StoryID res \<and> si_State si = StoryProcessing"
  from pub obtain r where r: "r \<in> set (stories d)" "?P r" by (auto simp: list_ex_iff)
  from pub assms(3) obtain q where q: "q \<in> set (stories d)"
    "si' = (if ?P q then published_row (Now e) lifetime q else q)" by (auto simp: set_update_where)
  with assms(4) have "si_ID q = pr_StoryID res" by (auto simp: published_row_def split: if_splits)
  with keyed_unique[OF assms(1) q(1) r(1)] r(2) have "q = r" by simp
  with q(2) r(2) have "si' = published_row (Now e) lifetime r" by simp
  with pub r show ?thesis by (auto simp: published_row_def Live_Some)
qed

theorem PublishStory_window_witness:
  "\<exists>d' si'. PublishStory wit_env (\<lambda>_. 9) 4 \<lparr>pr_JobID = 6, pr_StoryID = 7, pr_Variants = []\<rparr> 50
      (wit_story_db StoryProcessing) = Inr ((100, 150), d')
    \<and> si' \<in> set (stories d') \<and> (\<forall>t. Live (Some si') t \<longleftrightarrow> t < 150)"
proof -
  let ?res = "\<lparr>pr_JobID = 6, pr_StoryID = 7, pr_Variants = []\<rparr>"
  have k: "keyed si_ID (stories (wit_story_db StoryProcessing))" by (simp add: keyed_def wit_story_defs)
  obtain d' where p: "PublishStory wit_env (\<lambda>_. 9) 4 ?res 50 (wit_story_db StoryProcessing) = Inr ((100, 150), d')"
    by (simp add: PublishStory_def Let_def affected_def wit_story_defs)
  from PublishStory_Inr[OF p] have "stories d' = [published_row 100 50 (wit_story StoryProcessing)]"
    by (simp add: wit_story_defs)
  then have "published_row 100 50 (wit_story StoryProcessing) \<in> set (stories d')"
    "si_ID (published_row 100 50 (wit_story StoryProcessing)) = pr_StoryID ?res"
    by (simp_all add: published_row_def wit_story_defs)
  from PublishStory_window[OF k p this] p \<open>published_row 100 50 (wit_story StoryProcessing) \<in> set (stories d')\<close>
  show ?thesis by blast
qed

text \<open>C3. Deletion and removal take effect at once and for good: afterwards no viewer, the
  author included, and no anonymous reader gets the Story, a publication that was under way is
  refused, and one cleanup job holds exactly the object keys of its variants.\<close>

theorem DeleteStory_immediate:
  assumes "keyed si_ID (stories d)" and "DeleteStory e nid owner sid m reason d = Inr ((), d')"
  shows "StoryForViewer e2 viewer gh sid d' = Inl ErrNotFound \<and> PublicStory e2 sid d' = Inl ErrNotFound
    \<and> OwnStory viewer sid d' = Inl ErrNotFound
    \<and> PublishStory e2 draw nid2 \<lparr>pr_JobID = j, pr_StoryID = sid, pr_Variants = vs\<rparr> lifetime d' = Inl ErrNotFound
    \<and> cleanup_jobs d' = cleanup_jobs d @
        [new_cleanup nid ''delete_objects'' (ObjectKeys (VariantKeys sid d) (Some sid)) (Now e)]"
proof -
  note gone = story_row_gone[OF assms]
  have live: "\<not> Live (Some si) now" if "si \<in> set (stories d')" "si_ID si = sid" for si now
    using gone[OF that] by (simp add: Live_Some)
  have "StoryForViewer e2 viewer gh sid d' = Inl ErrNotFound"
    using live visibleToViewer_live by (fastforce simp: StoryForViewer_Inl story_join_in)
  moreover have "PublicStory e2 sid d' = Inl ErrNotFound"
    unfolding PublicStory_def scan_first_find_Inl using gone by (auto simp: story_join_in split: if_splits)
  moreover have "OwnStory viewer sid d' = Inl ErrNotFound"
    unfolding OwnStory_def scan_first_find_Inl using gone by (auto simp: story_join_in split: if_splits)
  moreover have "\<not> list_ex (\<lambda>si. si_ID si = sid \<and> si_State si = StoryProcessing) (stories d')"
    using gone by (auto simp: list_ex_iff split: if_splits)
  moreover have "story_exists d' sid"
    using DeleteStory_Inr[OF assms(2)] list_ex_update_frame[where Q = "\<lambda>si. si_ID si = sid" and f = "deleted_row e owner m reason"]
    by (auto simp: story_exists_def) (auto simp: list_ex_iff)
  ultimately show ?thesis
    using DeleteStory_Inr[OF assms(2)] by (simp add: PublishStory_not_processing)
qed

theorem DeleteStory_immediate_witness:
  "\<exists>d'. DeleteStory wit_env 4 3 7 False '''' (wit_story_db StoryProcessing) = Inr ((), d')
    \<and> PublishStory wit_env (\<lambda>_. 9) 4 \<lparr>pr_JobID = 6, pr_StoryID = 7, pr_Variants = []\<rparr> 50 d' = Inl ErrNotFound"
proof -
  have k: "keyed si_ID (stories (wit_story_db StoryProcessing))" by (simp add: keyed_def wit_story_defs)
  obtain d' where p: "DeleteStory wit_env 4 3 7 False '''' (wit_story_db StoryProcessing) = Inr ((), d')"
    by (simp add: DeleteStory_def deletable_def Let_def affected_def wit_story_defs)
  from DeleteStory_immediate[OF k p] p show ?thesis by blast
qed

text \<open>The draft captured when an upload is authorized is what finalization reads back,
  provided the UUID library parses what it prints.\<close>

theorem StashDraft_LoadDraft:
  assumes "\<And>i. uuid_parse (uuid_str i) = Some i" and "list_ex (\<lambda>u. ui_ID u = uploadID) (uploads d)"
    and "StashDraft uuid_str uploadID dr filename d = Inr ((), d')"
  shows "LoadDraft uuid_parse uploadID d' = Inr (dr, filename)"
proof -
  from assms(2) obtain u where u: "find (\<lambda>u. ui_ID u = uploadID) (uploads d) = Some u"
    by (metis find_None_ex not_None_eq)
  from find_Some_in[OF u] have "ui_ID u = uploadID" by simp
  with assms(1,3) u show ?thesis
    by (auto simp: StashDraft_def LoadDraft_def Let_def find_update_frame split: option.splits)
qed

theorem StashDraft_LoadDraft_witness:
  "LoadDraft (\<lambda>t. Some (undecimal_nat t)) 5
     (wit_upload_db\<lparr>uploads := [(new_upload wit_env 5 3 ''k'' ''image/png'' 9 150)\<lparr>
        ui_draft := \<lparr>dr_Caption = ''hi'', dr_AltText = '''', dr_Visibility = ''public'', dr_AudienceListID = None,
          dr_AllowReplies = True, dr_AllowReactions = False\<rparr>, ui_filename := ''f''\<rparr>]\<rparr>)
    = Inr (wit_draft, ''f'')"
proof -
  have u: "list_ex (\<lambda>u. ui_ID u = 5) (uploads wit_upload_db)" by (simp add: wit_upload_db_def new_upload_def)
  have s: "StashDraft decimal_nat 5 wit_draft ''f'' wit_upload_db = Inr ((),
     wit_upload_db\<lparr>uploads := [(new_upload wit_env 5 3 ''k'' ''image/png'' 9 150)\<lparr>
        ui_draft := \<lparr>dr_Caption = ''hi'', dr_AltText = '''', dr_Visibility = ''public'', dr_AudienceListID = None,
          dr_AllowReplies = True, dr_AllowReactions = False\<rparr>, ui_filename := ''f''\<rparr>]\<rparr>)"
    by (simp add: StashDraft_def wit_upload_db_def new_upload_def wit_draft_def)
  show ?thesis by (rule StashDraft_LoadDraft[OF _ u s]) simp
qed

text \<open>The retry budget of a media job: a retryable failure below the budget queues the job
  again, due exactly \<open>2 ^ attempts * 10\<close> seconds later and leaves every Story alone; any other
  failure ends the job for good, fails the Story if it was still processing and schedules the
  deletion of the original.\<close>

theorem FailMediaJob_budget:
  assumes "keyed mj_ID (media_jobs d)" and "j \<in> set (media_jobs d)" and "0 \<le> mj_Attempts j" and "mj_Attempts j \<le> 28"
    and "FailMediaJob e nid (mj_ID j) sid code msg retryable d = Inr ((), d')"
    and "j' \<in> set (media_jobs d')" and "mj_ID j' = mj_ID j"
  shows "if retryable \<and> mj_Attempts j < mj_MaxAttempts j
    then stories d' = stories d \<and> cleanup_jobs d' = cleanup_jobs d
      \<and> (media_due t j' \<longleftrightarrow> Now e + 2 ^ nat (mj_Attempts j) * 10 * Second \<le> t)
    else \<not> media_due t j'
      \<and> (\<forall>si\<in>set (stories d'). si_ID si = sid \<longrightarrow> si_State si \<noteq> StoryProcessing)
      \<and> cleanup_jobs d' = cleanup_jobs (schedule_original_cleanup e nid (mj_ID j) d)"
proof (cases "retryable \<and> mj_Attempts j < mj_MaxAttempts j")
  case True
  have "d' = d\<lparr>media_jobs := update_where (\<lambda>r. mj_ID r = mj_ID j)
      (requeued_row e (mj_Attempts j) code msg) (media_jobs d)\<rparr>"
    using FailMediaJob_retry[OF assms(1,2) True, of e nid sid code msg] assms(5) by simp
  moreover from this have "j' = requeued_row e (mj_Attempts j) code msg j"
    using keyed_update_one[OF assms(1,2)] assms(6,7) by simp
  ultimately show ?thesis using True backoff_exact[OF assms(3,4), of 10]
    by (simp add: media_due_def requeued_row_def)
next
  case False
  from FailMediaJob_final[OF assms(1,2) False, of e nid sid code msg] obtain d1 where
    r: "FailMediaJob e nid (mj_ID j) sid code msg retryable d = Inr ((), d1)"
    and d1: "media_jobs d1 = update_where (\<lambda>r. mj_ID r = mj_ID j) (failed_row e code msg) (media_jobs d)"
    "stories d1 = update_where (\<lambda>si. si_ID si = sid \<and> si_State si = StoryProcessing)
       (failed_story code msg) (stories d)"
    "cleanup_jobs d1 = cleanup_jobs (schedule_original_cleanup e nid (mj_ID j) d)" by blast
  from r assms(5) have "d1 = d'" by simp
  note d' = d1[unfolded this]
  have "j' = failed_row e code msg j"
    by (rule keyed_update_one[OF assms(1,2) assms(6)[unfolded d'(1)] assms(7)]) simp
  then have "\<not> media_due t j'" by (simp add: media_due_def failed_row_def)
  moreover have "\<forall>si\<in>set (stories d'). si_ID si = sid \<longrightarrow> si_State si \<noteq> StoryProcessing"
    using failed_story_ends unfolding d'(2) by blast
  ultimately show ?thesis unfolding if_not_P[OF False] using d'(3) by blast
qed

theorem FailMediaJob_budget_witness:
  "\<exists>d' j'. FailMediaJob wit_env 4 6 7 ''c'' ''m'' True (wit_story_db StoryProcessing) = Inr ((), d')
    \<and> j' \<in> set (media_jobs d') \<and> (media_due 109 j' \<longleftrightarrow> 100 + 10 * Second \<le> 109)"
proof -
  let ?d = "wit_story_db StoryProcessing" and ?j = "new_media_job wit_env 6 5 3"
  have k: "keyed mj_ID (media_jobs ?d)" "?j \<in> set (media_jobs ?d)" by (simp_all add: wit_story_db_def keyed_def)
  have a: "0 \<le> mj_Attempts ?j" "mj_Attempts ?j \<le> 28" "True \<and> mj_Attempts ?j < mj_MaxAttempts ?j"
    by (simp_all add: new_media_job_def)
  note f = FailMediaJob_retry[OF k a(3), of wit_env 4 7 "''c''" "''m''"]
  let ?q = "requeued_row wit_env (mj_Attempts ?j) ''c'' ''m'' ?j"
  let ?d' = "?d\<lparr>media_jobs := update_where (\<lambda>r. mj_ID r = mj_ID ?j)
      (requeued_row wit_env (mj_Attempts ?j) ''c'' ''m'') (media_jobs ?d)\<rparr>"
  have m: "?q \<in> set (media_jobs ?d')" by (simp add: wit_story_db_def)
  have i: "mj_ID ?q = mj_ID ?j" by simp
  have "media_due 109 ?q \<longleftrightarrow> Now wit_env + 2 ^ nat (mj_Attempts ?j) * 10 * Second \<le> 109"
    using FailMediaJob_budget[OF k a(1,2) f m i, of 109] a(3) by (simp only: if_True)
  then have "media_due 109 ?q \<longleftrightarrow> 100 + 10 * Second \<le> 109"
    by (simp add: wit_env_def new_media_job_def)
  with f m show ?thesis by (intro exI[of _ ?d'] exI[of _ ?q]) (simp add: new_media_job_def)
qed

lemma UpdateStory_Inr:
  assumes "UpdateStory owner sid caption alt vis listID ar ax d = Inr ((), d')"
  shows "d' = d\<lparr>stories := update_where
      (\<lambda>si. si_ID si = sid \<and> si_AuthorUserID si = owner \<and> si_State si = StoryPublished)
      (edit_story caption alt vis listID ar ax) (stories d)\<rparr>
    \<and> (\<exists>r\<in>set (stories d). si_ID r = sid \<and> si_AuthorUserID r = owner \<and> si_State r = StoryPublished)"
  using assms by (auto simp: UpdateStory_def Let_def affected_pos split: if_splits)

text \<open>C10. An edit of the audience governs the very next read: after the author has set the
  audience to \<open>v\<close>, whoever still gets the Story is the author or is admitted by \<open>v\<close> under
  the follows and lists of that moment; a list is kept only for a custom-list audience.\<close>

theorem UpdateStory_narrows:
  assumes "keyed si_ID (stories d)"
    and "UpdateStory owner sid caption alt (Some v) listID ar ax d = Inr ((), d')"
    and "StoryForViewer e viewer gh sid d' = Inr item"
  shows "viewer = owner \<or> (\<exists>si\<in>set (stories d'). \<exists>au\<in>set (users d'). si_ID si = sid \<and> us_id au = owner
    \<and> si_Visibility si = v \<and> si_AudienceListID si = (if v = CustomList then listID else None)
    \<and> audience_admits d' si (us_github_user_id au) viewer gh v)"
proof -
  from UpdateStory_Inr[OF assms(2)] obtain r where
    d': "stories d' = update_where (\<lambda>si. si_ID si = sid \<and> si_AuthorUserID si = owner \<and> si_State si = StoryPublished)
      (edit_story caption alt (Some v) listID ar ax) (stories d)"
    and r: "r \<in> set (stories d)" "si_ID r = sid" "si_AuthorUserID r = owner" "si_State r = StoryPublished"
    by auto
  from assms(3) obtain si au where si: "si \<in> set (stories d')" "au \<in> set (users d')" "si_ID si = sid"
    "us_id au = si_AuthorUserID si" "visibleToViewer d' viewer gh (Now e) si au" by (rule StoryForViewer_Inr)
  from in_update_where[OF si(1)[unfolded d']] have eq: "si = edit_story caption alt (Some v) listID ar ax r"
  proof (elim disjE)
    assume q: "si \<in> set (stories d) \<and> \<not> (si_ID si = sid \<and> si_AuthorUserID si = owner \<and> si_State si = StoryPublished)"
    then have "si = r" using keyed_unique[OF assms(1) _ r(1), of si] si(3) r(2) by simp
    with q r si(3) show ?thesis by simp
  next
    assume "\<exists>q\<in>set (stories d). (si_ID q = sid \<and> si_AuthorUserID q = owner \<and> si_State q = StoryPublished) \<and>
      si = edit_story caption alt (Some v) listID ar ax q"
    then obtain q where q: "q \<in> set (stories d)" "si_ID q = sid"
      "si = edit_story caption alt (Some v) listID ar ax q" by blast
    from q(1,2) have "q = r" using keyed_unique[OF assms(1) _ r(1), of q] r(2) by simp
    with q(3) show ?thesis by simp
  qed
  have row: "si_AuthorUserID si = owner" "si_Visibility si = v"
    "si_AudienceListID si = (if v = CustomList then listID else None)"
    unfolding eq using r(3) by (simp_all add: edit_story_def coalesce_def)
  from si(5) row have "viewer = owner \<or> audience_admits d' si (us_github_user_id au) viewer gh v"
    by (auto simp: visibleToViewer_eq_may_see may_see_def)
  with si row show ?thesis by blast
qed

definition wit_live_db :: db where
  "wit_live_db = wit_author_db\<lparr>stories := [published_row 100 50 (wit_story StoryProcessing)]\<rparr>"

theorem UpdateStory_narrows_witness:
  "\<exists>d' item. UpdateStory 3 7 None None (Some Mutuals) None None None wit_live_db = Inr ((), d')
    \<and> StoryForViewer wit_env 3 11 7 d' = Inr item \<and> si_Visibility item = Mutuals"
proof -
  have k: "keyed si_ID (stories wit_live_db)" by (simp add: keyed_def wit_live_db_def)
  obtain d' where u: "UpdateStory 3 7 None None (Some Mutuals) None None None wit_live_db = Inr ((), d')"
    by (simp add: UpdateStory_def Let_def affected_def edit_story_def coalesce_def wit_live_db_def
        published_row_def wit_story_defs)
  have "d' = wit_live_db\<lparr>stories := [edit_story None None (Some Mutuals) None None None
      (published_row 100 50 (wit_story StoryProcessing))]\<rparr>"
    using UpdateStory_Inr[OF u] by (simp add: wit_live_db_def published_row_def wit_story_def new_story_def)
  then obtain item where i: "StoryForViewer wit_env 3 11 7 d' = Inr item" "si_Visibility item = Mutuals"
    by (simp add: StoryForViewer_def story_join_def visibleToViewer_def scan_first_def scanStory_def
        loadVariants_def edit_story_def coalesce_def published_row_def wit_live_db_def wit_story_defs)
  from UpdateStory_narrows[OF k u i(1)] u i show ?thesis by blast
qed

text \<open>C39. A leased media job is handed out to one worker at a time: while its lease runs no
  other claim, by whatever worker, returns it.\<close>

theorem ClaimMediaJob_exclusive:
  assumes "keyed mj_ID (media_jobs d)" and "ClaimMediaJob e locked owner lease d = Inr (j, d')"
    and "ClaimMediaJob e2 locked2 owner2 lease2 d' = Inr (j2, d2)"
    and "Now e2 \<le> Now e + lease"
  shows "mj_ID j2 \<noteq> mj_ID j"
  using media_queue.no_double_claim[OF assms] .

theorem ClaimMediaJob_exclusive_witness:
  "\<exists>j d' j2 d2. ClaimMediaJob wit_env (\<lambda>_. False) ''a'' 5
        (empty_db\<lparr>media_jobs := [new_media_job wit_env 6 5 3, new_media_job wit_env 8 9 3]\<rparr>) = Inr (j, d')
    \<and> ClaimMediaJob (wit_env\<lparr>Now := 105\<rparr>) (\<lambda>_. False) ''b'' 5 d' = Inr (j2, d2) \<and> mj_ID j2 \<noteq> mj_ID j"
proof -
  let ?d = "empty_db\<lparr>media_jobs := [new_media_job wit_env 6 5 3, new_media_job wit_env 8 9 3]\<rparr>"
  have k: "keyed mj_ID (media_jobs ?d)" by (simp add: keyed_def)
  obtain j d' where c: "ClaimMediaJob wit_env (\<lambda>_. False) ''a'' 5 ?d = Inr (j, d')"
    by (simp add: ClaimMediaJob_def media_due_def wit_story_defs)
  then obtain j2 d2 where c2: "ClaimMediaJob (wit_env\<lparr>Now := 105\<rparr>) (\<lambda>_. False) ''b'' 5 d' = Inr (j2, d2)"
    by (auto simp: ClaimMediaJob_def media_due_def lease_media_def wit_story_defs)
  have "Now (wit_env\<lparr>Now := 105\<rparr>) \<le> Now wit_env + 5" by (simp add: wit_env_def)
  from ClaimMediaJob_exclusive[OF k c c2 this] c c2 show ?thesis by blast
qed

text \<open>The attempt budget is not consulted when a job is claimed: whatever the number of
  attempts, a leased job whose lease has run out and whose run time has come is due, and the
  queue does not report empty.\<close>

theorem ClaimMediaJob_ignores_budget:
  assumes "j \<in> set (media_jobs d)" and "mj_State j = JobLeased" and "mj_LeaseExpiresAt j = Some t"
    and "t < Now e" and "mj_RunAfter j \<le> Now e" and "mj_MaxAttempts j \<le> mj_Attempts j"
  shows "\<exists>j' d'. ClaimMediaJob e (\<lambda>_. False) owner lease d = Inr (j', d')"
proof (cases "ClaimMediaJob e (\<lambda>_. False) owner lease d")
  case (Inl err)
  with assms show ?thesis by (auto simp: ClaimMediaJob_Inl list_ex_iff media_due_def)
next
  case (Inr p)
  then show ?thesis by (cases p) auto
qed

theorem ClaimMediaJob_ignores_budget_witness:
  "\<exists>j' d'. ClaimMediaJob wit_env (\<lambda>_. False) ''w'' 5 (empty_db\<lparr>media_jobs := [(new_media_job wit_env 6 5 3)\<lparr>
      mj_State := JobLeased, mj_LeaseExpiresAt := Some 90, mj_Attempts := 1000\<rparr>]\<rparr>) = Inr (j', d')"
  by (rule ClaimMediaJob_ignores_budget[where j = "(new_media_job wit_env 6 5 3)\<lparr>
      mj_State := JobLeased, mj_LeaseExpiresAt := Some 90, mj_Attempts := 1000\<rparr>" and t = 90])
    (simp_all add: new_media_job_def wit_env_def)

end
