(* ===== verification/Jobs.thy ===== *)
theory Jobs
  imports Stories
begin

text \<open>
  The cleanup queue and the retention sweeps: \<^verbatim>\<open>src/internal/store/jobs.go\<close>.  A sweep takes
  the rows other transactions have locked as an argument (\<open>SKIP LOCKED\<close>) and the ids the database
  draws for the jobs it inserts as a function of what the job is for.
\<close>

section \<open>The cleanup queue\<close>

record CleanupJob =
  cl_ID :: uuid
  cl_Kind :: string
  cl_Payload :: cleanup_payload
  cl_Attempts :: int
  cl_Max :: int

definition cleanup_kinds :: "string list" where
  "cleanup_kinds = [''expire_stories'', ''delete_objects'', ''purge_replies'', ''purge_views'', ''gc_uploads'']"

definition EnqueueCleanup :: "uuid \<Rightarrow> string \<Rightarrow> cleanup_payload \<Rightarrow> time \<Rightarrow> db \<Rightarrow> unit result" where
  "EnqueueCleanup nid kind payload runAfter d =
    (if kind \<notin> set cleanup_kinds then Inl (ErrDB Check_violation)
     else Inr ((), d\<lparr>cleanup_jobs := cleanup_jobs d @ [new_cleanup nid kind payload runAfter]\<rparr>))"

definition cleanup_due :: "time \<Rightarrow> cleanup_row \<Rightarrow> bool" where
  "cleanup_due now j = due now (cj_RunAfter j) (cj_State j) (cj_LeaseExpiresAt j)"

definition lease_cleanup :: "env \<Rightarrow> string \<Rightarrow> duration \<Rightarrow> cleanup_row \<Rightarrow> cleanup_row" where
  "lease_cleanup e owner lease j = j\<lparr>cj_State := JobLeased, cj_LeaseOwner := Some owner,
    cj_LeaseExpiresAt := Some (Now e + lease), cj_Attempts := cj_Attempts j + 1\<rparr>"

definition ClaimCleanupJob ::
  "env \<Rightarrow> (uuid \<Rightarrow> bool) \<Rightarrow> string \<Rightarrow> duration \<Rightarrow> db \<Rightarrow> CleanupJob result" where
  "ClaimCleanupJob e locked owner lease d =
    (case sort_key cj_RunAfter (filter (\<lambda>j. cleanup_due (Now e) j \<and> \<not> locked (cj_ID j)) (cleanup_jobs d)) of
       [] \<Rightarrow> Inl ErrNotFound
     | j # _ \<Rightarrow> Inr (\<lparr>cl_ID = cj_ID j, cl_Kind = cj_Kind j, cl_Payload = cj_Payload j,
           cl_Attempts = cj_Attempts j + 1, cl_Max = cj_Max j\<rparr>,
         d\<lparr>cleanup_jobs := update_where (\<lambda>r. cj_ID r = cj_ID j) (lease_cleanup e owner lease) (cleanup_jobs d)\<rparr>))"

definition CompleteCleanupJob :: "uuid \<Rightarrow> db \<Rightarrow> unit result" where
  "CompleteCleanupJob jid d =
    Inr ((), d\<lparr>cleanup_jobs := update_where (\<lambda>r. cj_ID r = jid)
      (\<lambda>r. r\<lparr>cj_State := JobSucceeded, cj_LeaseOwner := None, cj_LeaseExpiresAt := None\<rparr>) (cleanup_jobs d)\<rparr>)"

definition FailCleanupJob :: "env \<Rightarrow> uuid \<Rightarrow> int \<Rightarrow> int \<Rightarrow> string \<Rightarrow> db \<Rightarrow> unit result" where
  "FailCleanupJob e jid attempts mx msg d =
    (if mx \<le> attempts then
       Inr ((), d\<lparr>cleanup_jobs := update_where (\<lambda>r. cj_ID r = jid)
         (\<lambda>r. r\<lparr>cj_State := JobFailed, cj_ErrorMessage := Some msg, cj_LeaseOwner := None,
           cj_LeaseExpiresAt := None\<rparr>) (cleanup_jobs d)\<rparr>)
     else
       Inr ((), d\<lparr>cleanup_jobs := update_where (\<lambda>r. cj_ID r = jid)
         (\<lambda>r. r\<lparr>cj_State := JobQueued, cj_RunAfter := Now e + backoff 30 attempts, cj_ErrorMessage := Some msg,
           cj_LeaseOwner := None, cj_LeaseExpiresAt := None\<rparr>) (cleanup_jobs d)\<rparr>))"

section \<open>Sweeps\<close>

text \<open>The keys in the payload of an expired Story: \<open>jsonb_agg\<close> over the left join yields one
  JSON null for a Story without variants, which the worker decodes as the empty key.\<close>

definition joined_keys :: "db \<Rightarrow> uuid \<Rightarrow> string list" where
  "joined_keys d sid = (case VariantKeys sid d of [] \<Rightarrow> [''''] | ks \<Rightarrow> ks)"

definition story_due :: "time \<Rightarrow> story_row \<Rightarrow> bool" where
  "story_due now si \<longleftrightarrow> si_State si = StoryPublished \<and>
    (case si_ExpiresAt si of None \<Rightarrow> False | Some t \<Rightarrow> t \<le> now)"

definition due_stories :: "env \<Rightarrow> (uuid \<Rightarrow> bool) \<Rightarrow> int \<Rightarrow> db \<Rightarrow> story_row list" where
  "due_stories e locked limit d =
    take (nat limit) (sort_key (\<lambda>si. the (si_ExpiresAt si))
      (filter (\<lambda>si. story_due (Now e) si \<and> \<not> locked (si_ID si)) (stories d)))"

definition ExpireStories :: "env \<Rightarrow> (uuid \<Rightarrow> bool) \<Rightarrow> (uuid \<Rightarrow> uuid) \<Rightarrow> int \<Rightarrow> db \<Rightarrow> nat \<times> db" where
  "ExpireStories e locked draw limit d =
    (let due = due_stories e locked limit d;
         P = (\<lambda>si. si_ID si \<in> set (map si_ID due)) in
     (affected P (stories d),
      d\<lparr>cleanup_jobs := cleanup_jobs d @
          map (\<lambda>si. new_cleanup (draw (si_ID si)) ''delete_objects''
            (ObjectKeys (joined_keys d (si_ID si)) (Some (si_ID si))) (Now e)) due,
        stories := update_where P
          (\<lambda>si. si\<lparr>si_State := StoryDeleted, si_DeletedAt := Some (Now e)\<rparr>) (stories d)\<rparr>))"

definition upload_due :: "time \<Rightarrow> upload_row \<Rightarrow> bool" where
  "upload_due now u \<longleftrightarrow> ui_State u = UploadIssued \<and> ui_ExpiresAt u \<le> now"

definition due_uploads :: "env \<Rightarrow> (uuid \<Rightarrow> bool) \<Rightarrow> int \<Rightarrow> db \<Rightarrow> upload_row list" where
  "due_uploads e locked limit d =
    take (nat limit) (sort_key ui_ExpiresAt (filter (\<lambda>u. upload_due (Now e) u \<and> \<not> locked (ui_ID u)) (uploads d)))"

definition GCAbandonedUploads :: "env \<Rightarrow> (uuid \<Rightarrow> bool) \<Rightarrow> uuid \<Rightarrow> int \<Rightarrow> db \<Rightarrow> nat \<times> db" where
  "GCAbandonedUploads e locked nid limit d =
    (let due = due_uploads e locked limit d;
         P = (\<lambda>u. ui_ID u \<in> set (map ui_ID due)) in
     (affected P (uploads d),
      d\<lparr>cleanup_jobs := cleanup_jobs d @
          (if due = [] then []
           else [new_cleanup nid ''delete_objects'' (ObjectKeys (map ui_ObjectKey due) None) (Now e)]),
        uploads := update_where P (\<lambda>u. u\<lparr>ui_State := UploadExpired\<rparr>) (uploads d)\<rparr>))"

text \<open>Deleting a reply takes its inbox events with it (\<open>ON DELETE CASCADE\<close>).\<close>

definition PurgeReplies :: "env \<Rightarrow> db \<Rightarrow> nat \<times> db" where
  "PurgeReplies e d =
    (let gone = (\<lambda>r. rp_PurgeAfter r \<le> Now e) in
     (affected gone (replies d),
      d\<lparr>replies := delete_where gone (replies d),
        inbox := delete_where (\<lambda>ev. \<exists>r\<in>set (replies d). gone r \<and> e_ReplyID ev = Some (rp_ID r)) (inbox d)\<rparr>))"

definition PurgeViews :: "env \<Rightarrow> duration \<Rightarrow> db \<Rightarrow> nat \<times> db" where
  "PurgeViews e retention d =
    (let gone = (\<lambda>v. sv_DeliveredAt v \<le> Now e + (- retention)) in
     (affected gone (views d), d\<lparr>views := delete_where gone (views d)\<rparr>))"

definition PurgeExpiredAuth :: "env \<Rightarrow> db \<Rightarrow> db" where
  "PurgeExpiredAuth e d =
    (let now = Now e in
     d\<lparr>oauth_flows := delete_where (\<lambda>f. of_expires_at f < now - Hour) (oauth_flows d),
       pending_logins := delete_where (\<lambda>p. pl_expires_at p < now - Hour) (pending_logins d),
       device_logins := delete_where (\<lambda>p. dl_expires_at p < now - Hour) (device_logins d)\<rparr>)"

definition ReapExpiredLeases :: "env \<Rightarrow> db \<Rightarrow> db" where
  "ReapExpiredLeases e d =
    d\<lparr>media_jobs := update_where
        (\<lambda>j. mj_State j = JobLeased \<and> (case mj_LeaseExpiresAt j of None \<Rightarrow> False | Some t \<Rightarrow> t < Now e)
          \<and> mj_Attempts j < mj_MaxAttempts j)
        (\<lambda>j. j\<lparr>mj_State := JobQueued, mj_LeaseOwner := None, mj_LeaseExpiresAt := None\<rparr>) (media_jobs d),
      cleanup_jobs := update_where
        (\<lambda>j. cj_State j = JobLeased \<and> (case cj_LeaseExpiresAt j of None \<Rightarrow> False | Some t \<Rightarrow> t < Now e)
          \<and> cj_Attempts j < cj_Max j)
        (\<lambda>j. j\<lparr>cj_State := JobQueued, cj_LeaseOwner := None, cj_LeaseExpiresAt := None\<rparr>) (cleanup_jobs d)\<rparr>"

section \<open>Operational counters\<close>

record OpsSnapshot =
  ops_MediaBacklog :: nat
  ops_OldestMediaJobAge :: duration
  ops_MediaFailures :: nat
  ops_CleanupBacklog :: nat
  ops_CleanupFailures :: nat
  ops_PublishedStories :: nat
  ops_PendingObjectDeletes :: nat

definition waiting :: "JobState \<Rightarrow> bool" where
  "waiting s \<longleftrightarrow> s = JobQueued \<or> s = JobLeased"

definition Ops :: "env \<Rightarrow> db \<Rightarrow> OpsSnapshot" where
  "Ops e d = \<lparr>
    ops_MediaBacklog = affected (\<lambda>j. waiting (mj_State j)) (media_jobs d),
    ops_OldestMediaJobAge =
      (case sort_key mj_CreatedAt (filter (\<lambda>j. waiting (mj_State j)) (media_jobs d)) of
         [] \<Rightarrow> 0 | j # _ \<Rightarrow> Now e - mj_CreatedAt j),
    ops_MediaFailures = affected (\<lambda>j. mj_State j = JobFailed) (media_jobs d),
    ops_CleanupBacklog = affected (\<lambda>j. waiting (cj_State j)) (cleanup_jobs d),
    ops_CleanupFailures = affected (\<lambda>j. cj_State j = JobFailed) (cleanup_jobs d),
    ops_PublishedStories = affected (\<lambda>si. si_State si = StoryPublished \<and>
      (case si_ExpiresAt si of None \<Rightarrow> False | Some t \<Rightarrow> db_now e < t)) (stories d),
    ops_PendingObjectDeletes = affected (\<lambda>j. cj_Kind j = ''delete_objects'' \<and> waiting (cj_State j)) (cleanup_jobs d)\<rparr>"

section \<open>The cleanup queue keeps the contract of a lease queue\<close>

definition cleanup_lease :: "cleanup_row \<Rightarrow> (string \<times> time) option" where
  "cleanup_lease j = (if cj_State j = JobLeased
    then (case (cj_LeaseOwner j, cj_LeaseExpiresAt j) of (Some ow, Some t) \<Rightarrow> Some (ow, t) | _ \<Rightarrow> None)
    else None)"

lemma lease_cleanup_simps [simp]:
  "cj_ID (lease_cleanup e owner lease j) = cj_ID j"
  "cj_State (lease_cleanup e owner lease j) = JobLeased"
  "cj_RunAfter (lease_cleanup e owner lease j) = cj_RunAfter j"
  "cj_Attempts (lease_cleanup e owner lease j) = cj_Attempts j + 1"
  "cj_Max (lease_cleanup e owner lease j) = cj_Max j"
  "cj_Kind (lease_cleanup e owner lease j) = cj_Kind j"
  "cj_Payload (lease_cleanup e owner lease j) = cj_Payload j"
  "cj_LeaseExpiresAt (lease_cleanup e owner lease j) = Some (Now e + lease)"
  "cleanup_lease (lease_cleanup e owner lease j) = Some (owner, Now e + lease)"
  by (simp_all add: lease_cleanup_def cleanup_lease_def)

lemma ClaimCleanupJob_Inr:
  assumes "ClaimCleanupJob e locked owner lease d = Inr (j, d')"
  obtains r where "r \<in> set (cleanup_jobs d)" "cleanup_due (Now e) r" "\<not> locked (cj_ID r)"
    "j = \<lparr>cl_ID = cj_ID r, cl_Kind = cj_Kind r, cl_Payload = cj_Payload r,
       cl_Attempts = cj_Attempts r + 1, cl_Max = cj_Max r\<rparr>"
    "d' = d\<lparr>cleanup_jobs := update_where (\<lambda>q. cj_ID q = cj_ID r) (lease_cleanup e owner lease) (cleanup_jobs d)\<rparr>"
proof -
  from assms obtain r rs where
    s: "sort_key cj_RunAfter (filter (\<lambda>j. cleanup_due (Now e) j \<and> \<not> locked (cj_ID j)) (cleanup_jobs d)) = r # rs"
    by (auto simp: ClaimCleanupJob_def split: list.splits)
  from sort_key_Cons_in[OF s] assms s show thesis by (intro that) (auto simp: ClaimCleanupJob_def)
qed

lemma ClaimCleanupJob_Inl:
  "ClaimCleanupJob e locked owner lease d = Inl err \<longleftrightarrow>
    err = ErrNotFound \<and> \<not> list_ex (\<lambda>r. cleanup_due (Now e) r \<and> \<not> locked (cj_ID r)) (cleanup_jobs d)"
  unfolding sort_key_Nil_ex[of cj_RunAfter, symmetric]
  by (auto simp: ClaimCleanupJob_def split: list.splits)

interpretation cleanup_queue:
  lease_queue cleanup_jobs cj_ID cleanup_due cj_Attempts cleanup_lease ClaimCleanupJob cl_ID
proof unfold_locales
  fix d e locked owner lease j d'
  assume "ClaimCleanupJob e locked owner lease d = Inr (j, d')"
  then show "\<exists>r f. r \<in> set (cleanup_jobs d) \<and> cj_ID r = cl_ID j \<and> cleanup_due (Now e) r \<and> \<not> locked (cj_ID r) \<and>
      cleanup_jobs d' = update_where (\<lambda>q. cj_ID q = cj_ID r) f (cleanup_jobs d) \<and>
      cj_ID (f r) = cj_ID r \<and> cj_Attempts (f r) = cj_Attempts r + 1 \<and>
      cleanup_lease (f r) = Some (owner, Now e + lease)"
    by (rule ClaimCleanupJob_Inr) (auto intro!: exI[of _ "lease_cleanup e owner lease"])
next
  fix e locked owner lease d err
  show "ClaimCleanupJob e locked owner lease d = Inl err \<longleftrightarrow>
      err = ErrNotFound \<and> \<not> list_ex (\<lambda>r. cleanup_due (Now e) r \<and> \<not> locked (cj_ID r)) (cleanup_jobs d)"
    by (rule ClaimCleanupJob_Inl)
next
  fix r owner t now
  assume "cleanup_lease r = Some (owner, t)" "cleanup_due now r"
  then show "t < now"
    by (auto simp: cleanup_lease_def cleanup_due_def split: if_splits option.splits)
qed

section \<open>Facts about the sweeps\<close>

text \<open>A change of rows that no branch of a read selects does not change the read.\<close>

lemma find_story_join_frame:
  assumes "\<And>si au gi. si \<in> set (stories d) \<Longrightarrow> P si \<Longrightarrow> \<not> Q (si, au, gi) \<and> \<not> Q (f si, au, gi)"
  shows "find Q (story_join (d\<lparr>stories := update_where P f (stories d)\<rparr>)) = find Q (story_join d)"
proof -
  let ?J = "\<lambda>si. [(si, au, gi). au \<leftarrow> filter (\<lambda>au. us_id au = si_AuthorUserID si) (users d),
      gi \<leftarrow> filter (\<lambda>gi. gi_GitHubID gi = us_github_user_id au) (identities d)]"
  have none: "find Q (?J si) = None" if "\<And>au gi. \<not> Q (si, au, gi)" for si
    using that by (auto simp: find_None_iff)
  have "find Q (concat (map ?J (update_where P f (stories d)))) = find Q (concat (map ?J (stories d)))"
    using assms by (intro find_join_frame conjI none) blast+
  then show ?thesis by (simp add: story_join_def)
qed

lemma scan_first_frame: "variants d' = variants d \<Longrightarrow> scan_first d' r = scan_first d r"
  by (cases r) (auto simp: scan_first_def loadVariants_def)

lemma in_due_stories:
  "si \<in> set (due_stories e locked limit d) \<Longrightarrow> si \<in> set (stories d) \<and> story_due (Now e) si"
  by (auto simp: due_stories_def dest!: in_set_takeD)

lemma story_due_not_live: "story_due now si \<Longrightarrow> \<not> Live (Some si) now"
  by (auto simp: story_due_def Live_Some split: option.splits)

lemma swept_rows:
  assumes "keyed si_ID (stories d)" and "si \<in> set (stories d)"
    and "si_ID si \<in> set (map si_ID (due_stories e locked limit d))"
  shows "story_due (Now e) si"
proof -
  from assms(3) obtain r where r: "r \<in> set (due_stories e locked limit d)" "si_ID r = si_ID si" by auto
  with in_due_stories have "r \<in> set (stories d)" "story_due (Now e) r" by blast+
  with keyed_unique[OF assms(1) _ assms(2) r(2)] show ?thesis by blast
qed

section \<open>Properties\<close>

definition wit_due_db :: db where
  "wit_due_db = wit_author_db\<lparr>stories := [published_row 10 50 (wit_story StoryProcessing)]\<rparr>"

text \<open>Physical expiry is invisible: whatever rows are locked and whatever the batch size,
  the sweep changes no answer a viewer or an anonymous reader gets at or after that time, because
  the reads refuse exactly the Stories the sweep retires.\<close>

theorem ExpireStories_invisible:
  assumes "keyed si_ID (stories d)" and "Now e \<le> Now e2"
  shows "StoryForViewer e2 viewer gh sid (snd (ExpireStories e locked draw limit d)) = StoryForViewer e2 viewer gh sid d
    \<and> PublicStory e2 sid (snd (ExpireStories e locked draw limit d)) = PublicStory e2 sid d"
proof -
  let ?P = "\<lambda>si. si_ID si \<in> set (map si_ID (due_stories e locked limit d))"
  let ?f = "\<lambda>si. si\<lparr>si_State := StoryDeleted, si_DeletedAt := Some (Now e)\<rparr>"
  let ?d = "snd (ExpireStories e locked draw limit d)"
  have join: "story_join ?d = story_join (d\<lparr>stories := update_where ?P ?f (stories d)\<rparr>)"
    by (simp add: ExpireStories_def Let_def story_join_def)
  have vis: "visibleToViewer ?d viewer gh t si au = visibleToViewer d viewer gh t si au" for t si au
    by (rule visibleToViewer_frame) (simp_all add: ExpireStories_def Let_def)
  have scan: "scan_first ?d r = scan_first d r" for r
    by (rule scan_first_frame) (simp add: ExpireStories_def Let_def)
  have dead: "\<not> Live (Some si) (Now e2)" if "si \<in> set (stories d)" "?P si" for si
    using story_due_not_live[OF swept_rows[OF assms(1) that]] Live_antimono assms(2) by blast
  have dead': "\<not> Live (Some (?f si)) (Now e2)" for si by (simp add: Live_Some)
  have "find (\<lambda>(si, au, gi). si_ID si = sid \<and> visibleToViewer d viewer gh (Now e2) si au) (story_join ?d)
      = find (\<lambda>(si, au, gi). si_ID si = sid \<and> visibleToViewer d viewer gh (Now e2) si au) (story_join d)"
    unfolding join using dead dead' by (intro find_story_join_frame) (blast dest: visibleToViewer_live)
  moreover have "find (\<lambda>(si, au, gi). si_ID si = sid \<and> si_State si = StoryPublished \<and> si_PublishedAt si \<noteq> None
        \<and> si_ExpiresAt si \<noteq> None \<and> Now e2 < the (si_ExpiresAt si) \<and> us_suspended_at au = None
        \<and> us_deleted_at au = None \<and> si_Visibility si = Public) (story_join ?d)
      = find (\<lambda>(si, au, gi). si_ID si = sid \<and> si_State si = StoryPublished \<and> si_PublishedAt si \<noteq> None
        \<and> si_ExpiresAt si \<noteq> None \<and> Now e2 < the (si_ExpiresAt si) \<and> us_suspended_at au = None
        \<and> us_deleted_at au = None \<and> si_Visibility si = Public) (story_join d)"
    unfolding join using dead by (intro find_story_join_frame) (fastforce simp: Live_Some)
  ultimately show ?thesis by (simp only: StoryForViewer_def PublicStory_def vis scan)
qed

theorem ExpireStories_invisible_witness:
  "PublicStory (wit_env\<lparr>Now := 59\<rparr>) 7 (snd (ExpireStories (wit_env\<lparr>Now := 59\<rparr>) (\<lambda>_. False) (\<lambda>_. 4) 200 wit_due_db))
    = PublicStory (wit_env\<lparr>Now := 59\<rparr>) 7 wit_due_db
    \<and> fst (ExpireStories (wit_env\<lparr>Now := 60\<rparr>) (\<lambda>_. False) (\<lambda>_. 4) 200 wit_due_db) = 1"
proof -
  have k: "keyed si_ID (stories wit_due_db)" by (simp add: keyed_def wit_due_db_def)
  from ExpireStories_invisible[OF k order_refl] show ?thesis
    by (simp add: ExpireStories_def Let_def due_stories_def story_due_def affected_def wit_due_db_def published_row_def)
qed

text \<open>A sweep whose batch covers the backlog leaves no Story past its expiry published,
  touches no other Story, and schedules for each retired Story one cleanup job with the keys of
  its variants.\<close>

theorem ExpireStories_complete:
  assumes "keyed si_ID (stories d)" and "affected (story_due (Now e)) (stories d) \<le> nat limit"
    and "ExpireStories e (\<lambda>_. False) draw limit d = (n, d')"
  shows "n = affected (story_due (Now e)) (stories d)
    \<and> stories d' = update_where (story_due (Now e))
        (\<lambda>si. si\<lparr>si_State := StoryDeleted, si_DeletedAt := Some (Now e)\<rparr>) (stories d)
    \<and> (\<exists>due. set due = {si \<in> set (stories d). story_due (Now e) si}
        \<and> cleanup_jobs d' = cleanup_jobs d @ map (\<lambda>si. new_cleanup (draw (si_ID si)) ''delete_objects''
            (ObjectKeys (joined_keys d (si_ID si)) (Some (si_ID si))) (Now e)) due)"
proof -
  let ?due = "due_stories e (\<lambda>_. False) limit d"
  have all: "set ?due = {si \<in> set (stories d). story_due (Now e) si}"
    using assms(2) by (simp add: due_stories_def affected_def)
  have P: "si_ID si \<in> set (map si_ID ?due) \<longleftrightarrow> story_due (Now e) si" if "si \<in> set (stories d)" for si
    using swept_rows[OF assms(1) that, of e "\<lambda>_. False" limit] all that by (intro iffI) auto
  have "update_where (\<lambda>si. si_ID si \<in> set (map si_ID ?due)) f (stories d)
      = update_where (story_due (Now e)) f (stories d)" for f
    using P by (auto simp: update_where_def)
  moreover have "affected (\<lambda>si. si_ID si \<in> set (map si_ID ?due)) (stories d) = affected (story_due (Now e)) (stories d)"
    using P by (auto simp: affected_def cong: filter_cong)
  ultimately show ?thesis using assms(3) all
    by (auto simp: ExpireStories_def Let_def intro!: exI[of _ ?due])
qed

theorem ExpireStories_complete_witness:
  "\<exists>d'. ExpireStories wit_env (\<lambda>_. False) (\<lambda>_. 4) 200 wit_due_db = (1, d')
    \<and> stories d' = [(published_row 10 50 (wit_story StoryProcessing))\<lparr>si_State := StoryDeleted, si_DeletedAt := Some 100\<rparr>]"
proof -
  have k: "keyed si_ID (stories wit_due_db)" by (simp add: keyed_def wit_due_db_def)
  have a: "affected (story_due (Now wit_env)) (stories wit_due_db) = 1"
    by (simp add: affected_def story_due_def wit_due_db_def published_row_def wit_env_def)
  obtain n d' where r: "ExpireStories wit_env (\<lambda>_. False) (\<lambda>_. 4) 200 wit_due_db = (n, d')"
    by (cases "ExpireStories wit_env (\<lambda>_. False) (\<lambda>_. 4) 200 wit_due_db")
  from ExpireStories_complete[OF k _ r] a r show ?thesis
    by (simp add: wit_due_db_def story_due_def published_row_def wit_env_def)
qed

text \<open>Collecting abandoned uploads is safe: an idle sweep changes nothing; otherwise it
  schedules one job whose keys all belong to uploads that were issued, past their expiry and
  never finalized, and none of those uploads can be finalized afterwards.\<close>

theorem GCAbandonedUploads_safe:
  assumes "keyed ui_ID (uploads d)" and "GCAbandonedUploads e locked nid limit d = (n, d')"
  shows "d' = d \<or> (\<exists>due. due \<noteq> [] \<and> list_all (\<lambda>u. u \<in> set (uploads d) \<and> ui_State u = UploadIssued
        \<and> ui_ExpiresAt u \<le> Now e
        \<and> FinalizeUpload uuid_str e2 jobID sid (ui_UserID u) (ui_ID u) nbytes checksum draft filename d' = Inl ErrNotFound) due
      \<and> cleanup_jobs d' = cleanup_jobs d @
          [new_cleanup nid ''delete_objects'' (ObjectKeys (map ui_ObjectKey due) None) (Now e)])"
proof (cases "due_uploads e locked limit d = []")
  case True
  with assms(2) show ?thesis by (auto simp: GCAbandonedUploads_def)
next
  case False
  let ?due = "due_uploads e locked limit d"
  have due: "u \<in> set (uploads d) \<and> ui_State u = UploadIssued \<and> ui_ExpiresAt u \<le> Now e" if "u \<in> set ?due" for u
    using that by (auto simp: due_uploads_def upload_due_def dest!: in_set_takeD)
  have d': "uploads d' = update_where (\<lambda>u. ui_ID u \<in> set (map ui_ID ?due)) (\<lambda>u. u\<lparr>ui_State := UploadExpired\<rparr>) (uploads d)"
    and cj: "cleanup_jobs d' = cleanup_jobs d @
          [new_cleanup nid ''delete_objects'' (ObjectKeys (map ui_ObjectKey ?due) None) (Now e)]"
    using assms(2) False by (auto simp: GCAbandonedUploads_def Let_def)
  have "FinalizeUpload uuid_str e2 jobID sid (ui_UserID u) (ui_ID u) nbytes checksum draft filename d' = Inl ErrNotFound"
    if u: "u \<in> set ?due" for u
  proof -
    have "find (\<lambda>q. ui_ID q = ui_ID u) (uploads d) = Some u" using keyed_find[OF assms(1)] due[OF u] by blast
    with u have "find (\<lambda>q. ui_ID q = ui_ID u) (uploads d') = Some (u\<lparr>ui_State := UploadExpired\<rparr>)"
      unfolding d' by (simp add: find_update_frame)
    then show ?thesis by (simp add: FinalizeUpload_def UploadIntent_get_def)
  qed
  with False due cj show ?thesis by (intro disjI2 exI[of _ ?due]) (simp add: list_all_iff)
qed

theorem GCAbandonedUploads_safe_witness:
  "\<exists>d' due. GCAbandonedUploads (wit_env\<lparr>Now := 160\<rparr>) (\<lambda>_. False) 4 200 wit_upload_db = (1, d')
    \<and> (due :: upload_row list) \<noteq> [] \<and> cleanup_jobs d' = [new_cleanup 4 ''delete_objects'' (ObjectKeys (map ui_ObjectKey due) None) 160]"
proof -
  have k: "keyed ui_ID (uploads wit_upload_db)" by (simp add: keyed_def wit_upload_db_def)
  obtain d' where g: "GCAbandonedUploads (wit_env\<lparr>Now := 160\<rparr>) (\<lambda>_. False) 4 200 wit_upload_db = (1, d')"
    by (simp add: GCAbandonedUploads_def Let_def due_uploads_def upload_due_def affected_def wit_story_defs)
  then have "d' \<noteq> wit_upload_db"
    by (auto simp: GCAbandonedUploads_def Let_def due_uploads_def upload_due_def affected_def wit_story_defs)
  from GCAbandonedUploads_safe[OF k g, of decimal_nat wit_env 2 2 2 "[]" wit_draft "[]"] show ?thesis
  proof (elim disjE exE conjE)
    assume "d' = wit_upload_db"
    with \<open>d' \<noteq> wit_upload_db\<close> show ?thesis by simp
  next
    fix due :: "upload_row list"
    assume "due \<noteq> []" and c: "cleanup_jobs d' = cleanup_jobs wit_upload_db @
      [new_cleanup 4 ''delete_objects'' (ObjectKeys (map ui_ObjectKey due) None) (Now (wit_env\<lparr>Now := 160\<rparr>))]"
    have "cleanup_jobs wit_upload_db = []" by (simp add: wit_story_defs)
    with c have "cleanup_jobs d' = [new_cleanup 4 ''delete_objects'' (ObjectKeys (map ui_ObjectKey due) None) 160]"
      by simp
    with g \<open>due \<noteq> []\<close> show ?thesis by (intro exI[of _ d'] exI[of _ due] conjI)
  qed
qed

text \<open>Releasing leases is a safety net only: a job whose lease still runs keeps it, and a
  job within its attempt budget whose lease has run out can be claimed by anyone again.\<close>

theorem ReapExpiredLeases_releases:
  assumes "keyed mj_ID (media_jobs d)" and "j \<in> set (media_jobs d)" and "mj_State j = JobLeased"
    and "mj_LeaseExpiresAt j = Some t"
  shows "if Now e \<le> t then j \<in> set (media_jobs (ReapExpiredLeases e d))
    else mj_Attempts j < mj_MaxAttempts j \<longrightarrow>
      j\<lparr>mj_State := JobQueued, mj_LeaseOwner := None, mj_LeaseExpiresAt := None\<rparr>
        \<in> set (media_jobs (ReapExpiredLeases e d))"
  using assms by (force simp: ReapExpiredLeases_def set_update_where image_iff)

theorem ReapExpiredLeases_releases_witness:
  "(new_media_job wit_env 6 5 3)\<lparr>mj_LeaseOwner := None, mj_State := JobQueued, mj_LeaseExpiresAt := None\<rparr> \<in>
    set (media_jobs (ReapExpiredLeases wit_env (empty_db\<lparr>media_jobs :=
      [(new_media_job wit_env 6 5 3)\<lparr>mj_State := JobLeased, mj_LeaseExpiresAt := Some 90\<rparr>]\<rparr>)))"
  using ReapExpiredLeases_releases[of "empty_db\<lparr>media_jobs :=
      [(new_media_job wit_env 6 5 3)\<lparr>mj_State := JobLeased, mj_LeaseExpiresAt := Some 90\<rparr>]\<rparr>"
      "(new_media_job wit_env 6 5 3)\<lparr>mj_State := JobLeased, mj_LeaseExpiresAt := Some 90\<rparr>" 90 wit_env]
  by (simp add: new_media_job_def wit_env_def keyed_def)

end
