(* ===== verification/Interact.thy ===== *)
theory Interact
  imports Graph Jobs
begin

text \<open>
  Views, reactions, private replies and the inbox: \<^verbatim>\<open>src/internal/store/interact.go\<close>.
  The cursor of the inbox is the creation time of the last entry of a page.
\<close>

section \<open>Views\<close>

definition same_view :: "uuid \<Rightarrow> uuid \<Rightarrow> view_row \<Rightarrow> bool" where
  "same_view story viewer v \<longleftrightarrow> sv_StoryID v = story \<and> sv_Viewer v = viewer"

definition new_view :: "uuid \<Rightarrow> uuid \<Rightarrow> time \<Rightarrow> time option \<Rightarrow> view_row" where
  "new_view story viewer now ack =
    \<lparr>sv_StoryID = story, sv_Viewer = viewer, sv_DeliveredAt = now, sv_AcknowledgedAt = ack\<rparr>"

definition RecordView :: "env \<Rightarrow> uuid \<Rightarrow> uuid \<Rightarrow> db \<Rightarrow> unit result" where
  "RecordView e story viewer d =
    (if list_ex (same_view story viewer) (views d) then Inr ((), d)
     else if \<not> story_exists d story \<or> \<not> user_exists d viewer then Inl (ErrDB Foreign_key_violation)
     else Inr ((), d\<lparr>views := insert_new (same_view story viewer) (new_view story viewer (Now e) None) (views d)\<rparr>))"

definition AcknowledgeView :: "env \<Rightarrow> uuid \<Rightarrow> uuid \<Rightarrow> db \<Rightarrow> unit result" where
  "AcknowledgeView e story viewer d =
    (if \<not> list_ex (same_view story viewer) (views d) \<and> (\<not> story_exists d story \<or> \<not> user_exists d viewer)
     then Inl (ErrDB Foreign_key_violation)
     else Inr ((), d\<lparr>views := insert_or (same_view story viewer)
       (\<lambda>v. v\<lparr>sv_AcknowledgedAt := coalesce_opt (sv_AcknowledgedAt v) (Some (Now e))\<rparr>)
       (new_view story viewer (Now e) (Some (Now e))) (views d)\<rparr>))"

definition Seen :: "uuid \<Rightarrow> uuid \<Rightarrow> db \<Rightarrow> bool" where
  "Seen story viewer d = list_ex (\<lambda>v. sv_StoryID v = story \<and> sv_Viewer v = viewer) (views d)"

record Viewer =
  vw_Identity :: Identity
  vw_ViewedAt :: time
  vw_Reaction :: string

definition Viewers :: "uuid \<Rightarrow> uuid \<Rightarrow> db \<Rightarrow> store_error + Viewer list" where
  "Viewers owner story d =
    (if \<not> list_ex (\<lambda>si. si_ID si = story \<and> si_AuthorUserID si = owner \<and>
          (si_State si = StoryPublished \<or> si_State si = StoryProcessing)) (stories d)
     then Inl ErrNotFound
     else Inr (map (\<lambda>(sv, gi). \<lparr>vw_Identity = scanIdentity d gi, vw_ViewedAt = sv_DeliveredAt sv,
           vw_Reaction = (case find (\<lambda>rx. rx_StoryID rx = story \<and> rx_UserID rx = sv_Viewer sv) (reactions d) of
             None \<Rightarrow> '''' | Some rx \<Rightarrow> rx_Emoji rx)\<rparr>)
       (sort_key (\<lambda>(sv, gi). - sv_DeliveredAt sv)
         [(sv, gi). sv \<leftarrow> filter (\<lambda>v. sv_StoryID v = story) (views d),
           vu \<leftarrow> filter (\<lambda>u. us_id u = sv_Viewer sv) (users d),
           gi \<leftarrow> filter (\<lambda>gi. gi_GitHubID gi = us_github_user_id vu) (identities d)])))"

definition Counts :: "uuid \<Rightarrow> db \<Rightarrow> nat \<times> nat" where
  "Counts story d =
    (affected (\<lambda>v. sv_StoryID v = story) (views d), affected (\<lambda>r. rx_StoryID r = story) (reactions d))"

section \<open>Reactions\<close>

definition same_reaction :: "uuid \<Rightarrow> uuid \<Rightarrow> reaction_row \<Rightarrow> bool" where
  "same_reaction story u r \<longleftrightarrow> rx_StoryID r = story \<and> rx_UserID r = u"

definition reaction_event :: "uuid \<Rightarrow> uuid \<Rightarrow> uuid \<Rightarrow> inbox_row \<Rightarrow> bool" where
  "reaction_event owner story actor ev \<longleftrightarrow>
    e_Kind ev = InboxReaction \<and> e_UserID ev = owner \<and> e_StoryID ev = Some story \<and> e_Actor ev = actor"

definition SetReaction :: "env \<Rightarrow> uuid \<Rightarrow> uuid \<Rightarrow> uuid \<Rightarrow> uuid \<Rightarrow> string \<Rightarrow> db \<Rightarrow> unit result" where
  "SetReaction e nid story u author emoji d =
    (if \<not> ValidReaction emoji then Inl (ErrDB Check_violation)
     else if \<not> story_exists d story \<or> \<not> user_exists d u then Inl (ErrDB Foreign_key_violation)
     else
       (let d1 = d\<lparr>reactions := insert_or (same_reaction story u) (\<lambda>r. r\<lparr>rx_Emoji := emoji\<rparr>)
             \<lparr>rx_StoryID = story, rx_UserID = u, rx_Emoji = emoji\<rparr> (reactions d)\<rparr> in
        if u = author then Inr ((), d1)
        else if \<not> user_exists d author then Inl (ErrDB Foreign_key_violation)
        else Inr ((), d1\<lparr>inbox := insert_or (reaction_event author story u)
          (\<lambda>ev. ev\<lparr>e_Emoji := Some emoji, e_CreatedAt := db_now e, e_ReadAt := None\<rparr>)
          \<lparr>e_ID = nid, e_UserID = author, e_Kind = InboxReaction, e_Actor = u, e_StoryID = Some story,
           e_ReplyID = None, e_Emoji = Some emoji, e_CreatedAt = db_now e, e_ReadAt = None\<rparr> (inbox d1)\<rparr>)))"

definition ClearReaction :: "uuid \<Rightarrow> uuid \<Rightarrow> db \<Rightarrow> unit result" where
  "ClearReaction story u d =
    Inr ((), d\<lparr>reactions := delete_where (same_reaction story u) (reactions d),
      inbox := delete_where (\<lambda>ev. e_Kind ev = InboxReaction \<and> e_StoryID ev = Some story \<and> e_Actor ev = u)
        (inbox d)\<rparr>)"

definition MyReaction :: "uuid \<Rightarrow> uuid \<Rightarrow> db \<Rightarrow> string" where
  "MyReaction story u d =
    (case find (same_reaction story u) (reactions d) of None \<Rightarrow> '''' | Some r \<Rightarrow> rx_Emoji r)"

definition MyReactions :: "uuid \<Rightarrow> uuid list \<Rightarrow> db \<Rightarrow> uuid \<rightharpoonup> string" where
  "MyReactions u ids d =
    (if ids = [] then Map.empty
     else foldl (\<lambda>m r. m(rx_StoryID r \<mapsto> rx_Emoji r)) Map.empty
       (filter (\<lambda>r. rx_UserID r = u \<and> rx_StoryID r \<in> set ids) (reactions d)))"

section \<open>Replies and the inbox\<close>

text \<open>\<open>char_length\<close> of a text in UTF-8: its bytes without the continuation bytes.\<close>

definition char_length :: "string \<Rightarrow> nat" where
  "char_length s = length (filter (\<lambda>c. \<not> (128 \<le> (of_char c :: nat) \<and> (of_char c :: nat) < 192)) s)"

definition CreateReply ::
  "env \<Rightarrow> uuid \<Rightarrow> uuid \<Rightarrow> uuid \<Rightarrow> uuid \<Rightarrow> uuid \<Rightarrow> string \<Rightarrow> duration \<Rightarrow> db \<Rightarrow> uuid result" where
  "CreateReply e nid evid story sender recipient body retention d =
    (if \<not> (1 \<le> char_length body \<and> char_length body \<le> 500) then Inl (ErrDB Check_violation)
     else if \<not> story_exists d story \<or> \<not> user_exists d sender \<or> \<not> user_exists d recipient
     then Inl (ErrDB Foreign_key_violation)
     else Inr (nid, d\<lparr>
       replies := replies d @ [\<lparr>rp_ID = nid, rp_StoryID = story, rp_Sender = sender, rp_Recipient = recipient,
         rp_Body = body, rp_CreatedAt = db_now e, rp_ReadAt = None, rp_DeletedAt = None,
         rp_PurgeAfter = Now e + retention\<rparr>],
       inbox := inbox d @ [\<lparr>e_ID = evid, e_UserID = recipient, e_Kind = InboxReply, e_Actor = sender,
         e_StoryID = Some story, e_ReplyID = Some nid, e_Emoji = None, e_CreatedAt = db_now e, e_ReadAt = None\<rparr>]\<rparr>))"

record InboxEntry =
  ie_ID :: uuid
  ie_Kind :: InboxKind
  ie_Actor :: Identity
  ie_StoryID :: "uuid option"
  ie_StoryExpired :: bool
  ie_HasThumb :: bool
  ie_Body :: string
  ie_Emoji :: string
  ie_CreatedAt :: time
  ie_ReadAt :: "time option"

text \<open>\<open>si.id IS NULL OR si.state <> 'published' OR si.expires_at <= now\<close>; a published row has
  an expiry.\<close>

definition story_gone :: "env \<Rightarrow> db \<Rightarrow> uuid option \<Rightarrow> bool" where
  "story_gone e d sid =
    (case sid of None \<Rightarrow> True
     | Some s \<Rightarrow> (case story_row_of d s of None \<Rightarrow> True
       | Some si \<Rightarrow> si_State si \<noteq> StoryPublished \<or>
           (case si_ExpiresAt si of None \<Rightarrow> False | Some t \<Rightarrow> t \<le> Now e)))"

definition inbox_entry :: "env \<Rightarrow> db \<Rightarrow> inbox_row \<times> identity_row \<Rightarrow> InboxEntry" where
  "inbox_entry e d = (\<lambda>(ev, gi). \<lparr>
    ie_ID = e_ID ev, ie_Kind = e_Kind ev, ie_Actor = scanIdentity d gi, ie_StoryID = e_StoryID ev,
    ie_StoryExpired = story_gone e d (e_StoryID ev),
    ie_HasThumb = (\<not> story_gone e d (e_StoryID ev) \<and> e_StoryID ev \<noteq> None),
    ie_Body = (case find (\<lambda>rp. Some (rp_ID rp) = e_ReplyID ev \<and> rp_DeletedAt rp = None) (replies d) of
      None \<Rightarrow> '''' | Some rp \<Rightarrow> rp_Body rp),
    ie_Emoji = null_text (e_Emoji ev), ie_CreatedAt = e_CreatedAt ev, ie_ReadAt = e_ReadAt ev\<rparr>)"

definition inbox_join :: "db \<Rightarrow> uuid \<Rightarrow> (inbox_row \<times> identity_row) list" where
  "inbox_join d u =
    [(ev, gi). ev \<leftarrow> filter (\<lambda>ev. e_UserID ev = u) (inbox d),
      actor \<leftarrow> filter (\<lambda>a. us_id a = e_Actor ev) (users d),
      gi \<leftarrow> filter (\<lambda>gi. gi_GitHubID gi = us_github_user_id actor) (identities d)]"

definition UnreadCount :: "uuid \<Rightarrow> db \<Rightarrow> nat" where
  "UnreadCount u d = affected (\<lambda>ev. e_UserID ev = u \<and> e_ReadAt ev = None) (inbox d)"

definition inbox_limit :: "int \<Rightarrow> nat" where
  "inbox_limit limit = (if limit \<le> 0 \<or> 100 < limit then 30 else nat limit)"

definition Inbox :: "env \<Rightarrow> uuid \<Rightarrow> int \<Rightarrow> time option \<Rightarrow> db \<Rightarrow> InboxEntry list \<times> nat \<times> time option" where
  "Inbox e u limit before d =
    (let n = inbox_limit limit;
         out = map (inbox_entry e d) (take n (sort_key (\<lambda>(ev, gi). - e_CreatedAt ev)
           (filter (\<lambda>(ev, gi). case before of None \<Rightarrow> True | Some t \<Rightarrow> e_CreatedAt ev < t) (inbox_join d u)))) in
     (out, UnreadCount u d,
      if length out = n then Some (ie_CreatedAt (last out)) else None))"

record Reply =
  re_ID :: uuid
  re_StoryID :: uuid
  re_Sender :: Identity
  re_Recipient :: Identity
  re_Body :: string
  re_CreatedAt :: time
  re_ReadAt :: "time option"
  re_StoryExpired :: bool

definition party :: "identity_row \<Rightarrow> GitHubID \<Rightarrow> Identity" where
  "party gi g = \<lparr>gi_GitHubID = g, gi_Login = gi_Login gi, gi_AvatarURL = gi_AvatarURL gi,
    gi_ProfileURL = gi_ProfileURL gi, gi_AccountType = '''', gi_RefreshedAt = 0, gi_Registered = False\<rparr>"

definition Thread :: "env \<Rightarrow> uuid \<Rightarrow> uuid \<Rightarrow> uuid \<Rightarrow> db \<Rightarrow> Reply list" where
  "Thread e u other story d =
    map (\<lambda>(r, su, ru, sgi, rgi). \<lparr>re_ID = rp_ID r, re_StoryID = rp_StoryID r,
        re_Sender = party sgi (us_github_user_id su), re_Recipient = party rgi (us_github_user_id ru),
        re_Body = rp_Body r, re_CreatedAt = rp_CreatedAt r, re_ReadAt = rp_ReadAt r,
        re_StoryExpired = story_gone e d (Some (rp_StoryID r))\<rparr>)
      (sort_key (\<lambda>(r, _). rp_CreatedAt r)
        [(r, su, ru, sgi, rgi).
          r \<leftarrow> filter (\<lambda>r. rp_DeletedAt r = None \<and> rp_StoryID r = story
              \<and> ((rp_Sender r = u \<and> rp_Recipient r = other) \<or> (rp_Sender r = other \<and> rp_Recipient r = u))) (replies d),
          su \<leftarrow> filter (\<lambda>x. us_id x = rp_Sender r) (users d),
          ru \<leftarrow> filter (\<lambda>x. us_id x = rp_Recipient r) (users d),
          sgi \<leftarrow> filter (\<lambda>x. gi_GitHubID x = us_github_user_id su) (identities d),
          rgi \<leftarrow> filter (\<lambda>x. gi_GitHubID x = us_github_user_id ru) (identities d)])"

definition MarkInboxRead :: "env \<Rightarrow> uuid \<Rightarrow> uuid list \<Rightarrow> bool \<Rightarrow> db \<Rightarrow> db" where
  "MarkInboxRead e u ids all_events d =
    (if all_events then
       d\<lparr>inbox := update_where (\<lambda>ev. e_UserID ev = u \<and> e_ReadAt ev = None)
         (\<lambda>ev. ev\<lparr>e_ReadAt := Some (db_now e)\<rparr>) (inbox d)\<rparr>
     else if ids \<noteq> [] then
       (let d1 = d\<lparr>inbox := update_where (\<lambda>ev. e_UserID ev = u \<and> e_ID ev \<in> set ids \<and> e_ReadAt ev = None)
             (\<lambda>ev. ev\<lparr>e_ReadAt := Some (db_now e)\<rparr>) (inbox d)\<rparr> in
        d1\<lparr>replies := update_where
          (\<lambda>r. rp_Recipient r = u \<and> rp_ReadAt r = None
             \<and> list_ex (\<lambda>ev. e_ID ev \<in> set ids \<and> e_ReplyID ev = Some (rp_ID r)) (inbox d1))
          (\<lambda>r. r\<lparr>rp_ReadAt := Some (db_now e)\<rparr>) (replies d1)\<rparr>)
     else d)"

definition follow_event :: "uuid \<Rightarrow> uuid \<Rightarrow> inbox_row \<Rightarrow> bool" where
  "follow_event owner actor ev \<longleftrightarrow> e_Kind ev = InboxFollow \<and> e_UserID ev = owner \<and> e_Actor ev = actor"

definition NotifyFollow :: "env \<Rightarrow> uuid \<Rightarrow> uuid \<Rightarrow> uuid \<Rightarrow> db \<Rightarrow> unit result" where
  "NotifyFollow e nid followee follower d =
    (if followee = follower then Inr ((), d)
     else if \<not> user_exists d followee \<or> \<not> user_exists d follower then Inl (ErrDB Foreign_key_violation)
     else Inr ((), d\<lparr>inbox := insert_or (follow_event followee follower)
       (\<lambda>ev. ev\<lparr>e_CreatedAt := db_now e, e_ReadAt := None\<rparr>)
       \<lparr>e_ID = nid, e_UserID = followee, e_Kind = InboxFollow, e_Actor = follower, e_StoryID = None,
        e_ReplyID = None, e_Emoji = None, e_CreatedAt = db_now e, e_ReadAt = None\<rparr> (inbox d)\<rparr>))"

section \<open>Facts\<close>

lemma find_insert_or:
  assumes "\<And>q. same q \<Longrightarrow> same (f q)" and "same r"
  shows "find same (insert_or same f r rs) = Some (case find same rs of None \<Rightarrow> r | Some q \<Rightarrow> f q)"
proof (cases "list_ex same rs")
  case True
  then obtain q where q: "find same rs = Some q" by (metis find_None_ex option.exhaust)
  then have "same q" by (auto dest: find_Some_in)
  have "find same (update_where same f rs) = map_option (\<lambda>r. if same r then f r else r) (find same rs)"
    using assms(1) by (induction rs) auto
  with True q \<open>same q\<close> show ?thesis by (simp add: insert_or_def)
next
  case False
  then have "find same rs = None" by (simp add: find_None_ex)
  with False assms(2) show ?thesis by (simp add: insert_or_def find_append)
qed

lemma find_insert_or_other:
  assumes "\<And>q. same q \<Longrightarrow> \<not> Q q \<and> \<not> Q (f q)" and "\<not> Q r"
  shows "find Q (insert_or same f r rs) = find Q rs"
proof -
  have "find Q (update_where same f rs) = find Q rs"
    by (induction rs) (use assms(1) in auto)
  with assms(2) show ?thesis by (simp add: insert_or_def find_append split: option.split)
qed

lemma last_of_take: "0 < n \<Longrightarrow> n \<le> length s \<Longrightarrow> last (take n s) = s ! (n - 1)"
proof -
  assume n: "0 < n" "n \<le> length s"
  then have "take n s \<noteq> []" by auto
  with n show ?thesis by (simp add: last_conv_nth min_def)
qed

lemma strictly_sorted_page:
  fixes f :: "'a \<Rightarrow> int"
  assumes "sorted (map f xs)" and "distinct (map f xs)" and "0 < n" and "n \<le> length xs"
  shows "filter (\<lambda>x. f (xs ! (n - 1)) < f x) xs = drop n xs"
proof -
  let ?ys = "take n xs" and ?zs = "drop n xs"
  have s: "sorted_wrt (<) (map f xs)" using assms(1,2) by (simp add: strict_sorted_iff)
  have lt: "f (xs ! i) < f (xs ! j)" if "i < j" "j < length xs" for i j
    using sorted_wrt_nth_less[OF s that(1)] that by simp
  have "\<not> f (xs ! (n - 1)) < f x" if x: "x \<in> set ?ys" for x
  proof -
    from x obtain i where "i < n" "x = xs ! i" using assms(4) by (auto simp: in_set_conv_nth)
    show ?thesis
    proof (cases "i = n - 1")
      case False
      with \<open>i < n\<close> assms(4) have "i < n - 1" "n - 1 < length xs" by arith+
      from lt[OF this] \<open>x = xs ! i\<close> show ?thesis by simp
    qed (simp add: \<open>x = xs ! i\<close>)
  qed
  moreover have "f (xs ! (n - 1)) < f x" if "x \<in> set ?zs" for x
  proof -
    from that obtain i where "i < length xs - n" "x = xs ! (n + i)" using assms(4) by (auto simp: in_set_conv_nth)
    with lt[of "n - 1" "n + i"] assms(3) show ?thesis by simp
  qed
  ultimately have "filter (\<lambda>x. f (xs ! (n - 1)) < f x) (?ys @ ?zs) = ?zs"
    by (simp only: filter_append) (simp add: filter_empty_conv filter_id_conv)
  then show ?thesis by simp
qed

section \<open>Properties\<close>

definition wit_chat_db :: db where
  "wit_chat_db = (wit_graph_db)\<lparr>stories := [published_row 100 50 (wit_story StoryProcessing)]\<rparr>"

lemmas wit_chat_defs = wit_chat_db_def wit_graph_db_def published_row_def wit_story_defs

text \<open>Views are counted once: after the first delivery a repeated delivery changes nothing,
  and an acknowledgement only fills in the acknowledgement time, once, so the number of views of
  a Story does not change and the first delivery time stays.\<close>

theorem views_counted_once:
  assumes "Seen story viewer d"
  shows "RecordView e story viewer d = Inr ((), d)
    \<and> (\<exists>d'. AcknowledgeView e story viewer d = Inr ((), d') \<and> Counts s d' = Counts s d
      \<and> map sv_DeliveredAt (views d') = map sv_DeliveredAt (views d)
      \<and> AcknowledgeView e2 story viewer d' = Inr ((), d'))"
proof -
  have seen: "list_ex (same_view story viewer) (views d)"
    using assms by (simp add: Seen_def same_view_def[abs_def])
  let ?ack = "\<lambda>e v. v\<lparr>sv_AcknowledgedAt := coalesce_opt (sv_AcknowledgedAt v) (Some (Now e))\<rparr>"
  let ?vs = "update_where (same_view story viewer) (?ack e) (views d)"
  have ack: "AcknowledgeView e story viewer d = Inr ((), d\<lparr>views := ?vs\<rparr>)"
    using seen by (simp add: AcknowledgeView_def insert_or_def)
  have seen2: "list_ex (same_view story viewer) ?vs"
    by (subst list_ex_update_frame) (use seen in \<open>auto simp: same_view_def\<close>)
  have "update_where (same_view story viewer) (?ack e2) ?vs = ?vs"
    by (auto simp: update_where_def same_view_def coalesce_opt_def split: option.splits)
  with seen2 have "AcknowledgeView e2 story viewer (d\<lparr>views := ?vs\<rparr>) = Inr ((), d\<lparr>views := ?vs\<rparr>)"
    by (simp add: AcknowledgeView_def insert_or_def)
  moreover have "affected (\<lambda>v. sv_StoryID v = s) ?vs = affected (\<lambda>v. sv_StoryID v = s) (views d)"
    by (induction "views d" rule: list.induct) (auto simp: affected_def update_where_def filter_map comp_def if_distrib cong: if_cong)
  ultimately show ?thesis using seen ack
    by (auto simp: RecordView_def Counts_def update_where_def)
qed

theorem views_counted_once_witness:
  "\<exists>d d'. RecordView wit_env 7 2 wit_chat_db = Inr ((), d)
    \<and> AcknowledgeView (wit_env\<lparr>Now := 120\<rparr>) 7 2 d = Inr ((), d') \<and> Counts 7 d' = (1, 0)"
proof -
  obtain d where r: "RecordView wit_env 7 2 wit_chat_db = Inr ((), d)" "Seen 7 2 d" "Counts 7 d = (1, 0)"
    by (simp add: RecordView_def Seen_def Counts_def affected_def insert_new_def new_view_def story_exists_def wit_chat_defs)
  from views_counted_once[OF r(2), of "wit_env\<lparr>Now := 120\<rparr>" 7] r show ?thesis by auto
qed

text \<open>One reaction per account and Story: after a reaction is set it is the caller's
  reaction, the other accounts' reactions are untouched, the author has exactly the matching
  event, unread again; clearing it removes reaction and event; an emoji outside the five is
  refused.\<close>

theorem SetReaction_last_wins:
  assumes "SetReaction e nid story u author emoji d = Inr ((), d')" and "u \<noteq> author"
    and "ClearReaction story u d' = Inr ((), d2)"
  shows "ValidReaction emoji \<and> MyReaction story u d' = emoji
    \<and> (v = u \<or> MyReaction story v d' = MyReaction story v d)
    \<and> (\<exists>ev. find (reaction_event author story u) (inbox d') = Some ev \<and> e_Emoji ev = Some emoji \<and> e_ReadAt ev = None)
    \<and> MyReaction story u d2 = '''' \<and> \<not> list_ex (reaction_event author story u) (inbox d2)"
proof -
  have d': "reactions d' = insert_or (same_reaction story u) (\<lambda>r. r\<lparr>rx_Emoji := emoji\<rparr>)
        \<lparr>rx_StoryID = story, rx_UserID = u, rx_Emoji = emoji\<rparr> (reactions d)"
    "inbox d' = insert_or (reaction_event author story u)
          (\<lambda>ev. ev\<lparr>e_Emoji := Some emoji, e_CreatedAt := db_now e, e_ReadAt := None\<rparr>)
          \<lparr>e_ID = nid, e_UserID = author, e_Kind = InboxReaction, e_Actor = u, e_StoryID = Some story,
           e_ReplyID = None, e_Emoji = Some emoji, e_CreatedAt = db_now e, e_ReadAt = None\<rparr> (inbox d)"
    and ok: "ValidReaction emoji"
    using assms(1,2) by (auto simp: SetReaction_def Let_def split: if_splits)
  have mine: "MyReaction story u d' = emoji"
    unfolding MyReaction_def d'(1)
    by (subst find_insert_or) (auto simp: same_reaction_def split: option.splits)
  have others: "MyReaction story v d' = MyReaction story v d" if "v \<noteq> u"
  proof -
    have "find (same_reaction story v) (reactions d') = find (same_reaction story v) (reactions d)"
      unfolding d'(1) by (rule find_insert_or_other) (use that in \<open>auto simp: same_reaction_def\<close>)
    then show ?thesis by (simp add: MyReaction_def)
  qed
  have ev: "find (reaction_event author story u) (inbox d') = Some (case find (reaction_event author story u) (inbox d) of
      None \<Rightarrow> \<lparr>e_ID = nid, e_UserID = author, e_Kind = InboxReaction, e_Actor = u, e_StoryID = Some story,
           e_ReplyID = None, e_Emoji = Some emoji, e_CreatedAt = db_now e, e_ReadAt = None\<rparr>
    | Some ev \<Rightarrow> ev\<lparr>e_Emoji := Some emoji, e_CreatedAt := db_now e, e_ReadAt := None\<rparr>)"
    unfolding d'(2) by (rule find_insert_or) (auto simp: reaction_event_def)
  from assms(3) have d2: "reactions d2 = delete_where (same_reaction story u) (reactions d')"
    "inbox d2 = delete_where (\<lambda>ev. e_Kind ev = InboxReaction \<and> e_StoryID ev = Some story \<and> e_Actor ev = u) (inbox d')"
    by (auto simp: ClearReaction_def)
  have "find (same_reaction story u) (reactions d2) = None"
    unfolding d2(1) find_None_ex list_ex_delete_where by (simp add: list_ex_iff)
  then have "MyReaction story u d2 = ''''" by (simp add: MyReaction_def)
  moreover have "\<exists>ev. find (reaction_event author story u) (inbox d') = Some ev \<and> e_Emoji ev = Some emoji \<and> e_ReadAt ev = None"
    unfolding ev by (simp split: option.split)
  moreover have "\<not> list_ex (reaction_event author story u) (inbox d2)"
    unfolding d2(2) list_ex_delete_where by (auto simp: list_ex_iff reaction_event_def)
  moreover have "v = u \<or> MyReaction story v d' = MyReaction story v d" using others by blast
  ultimately show ?thesis using ok mine by simp
qed

theorem SetReaction_last_wins_witness:
  "\<exists>d' d2. SetReaction wit_env 9 7 2 3 (hd Reactions) wit_chat_db = Inr ((), d')
    \<and> MyReaction 7 2 d' = hd Reactions \<and> ClearReaction 7 2 d' = Inr ((), d2) \<and> MyReaction 7 2 d2 = ''''"
proof -
  have v: "ValidReaction (hd Reactions)" by (simp add: ValidReaction_def Reactions_def)
  obtain d' where s: "SetReaction wit_env 9 7 2 3 (hd Reactions) wit_chat_db = Inr ((), d')"
    using v by (simp add: SetReaction_def Let_def story_exists_def wit_chat_defs)
  obtain d2 where c: "ClearReaction 7 2 d' = Inr ((), d2)" by (simp add: ClearReaction_def)
  have "(2::uuid) \<noteq> 3" by simp
  from SetReaction_last_wins[OF s this c] s c show ?thesis by blast
qed

lemma inbox_entry_time: "ie_CreatedAt (inbox_entry e d p) = e_CreatedAt (fst p)"
  by (cases p) (simp add: inbox_entry_def)

lemma inbox_sorted_page:
  fixes rows :: "(inbox_row \<times> identity_row) list"
  assumes "distinct (map (\<lambda>(ev, gi). e_CreatedAt ev) rows)" and "0 < n"
    and "s = sort_key (\<lambda>(ev, gi). - e_CreatedAt ev) rows" and "n \<le> length s"
  shows "sort_key (\<lambda>(ev, gi). - e_CreatedAt ev)
      (filter (\<lambda>(ev, gi). e_CreatedAt ev < e_CreatedAt (fst (s ! (n - 1)))) rows) = drop n s"
proof -
  let ?k = "\<lambda>(ev :: inbox_row, gi :: identity_row). - e_CreatedAt ev"
  have "map ?k rows = map uminus (map (\<lambda>(ev, gi). e_CreatedAt ev) rows)" by auto
  then have "distinct (map ?k rows)" using assms(1) by (simp only: distinct_map[of uminus]) simp
  then have "distinct (map ?k s)" unfolding assms(3) by (simp add: distinct_map)
  moreover have "sorted (map ?k s)" unfolding assms(3) by simp
  ultimately have "filter (\<lambda>x. ?k (s ! (n - 1)) < ?k x) s = drop n s"
    using assms(2,4) by (intro strictly_sorted_page)
  moreover have "(\<lambda>x. ?k (s ! (n - 1)) < ?k x) = (\<lambda>(ev, gi). e_CreatedAt ev < e_CreatedAt (fst (s ! (n - 1))))"
    by (auto simp: fun_eq_iff split: prod.splits)
  ultimately show ?thesis unfolding assms(3) by (simp add: filter_sort)
qed

text \<open>The inbox is paged without loss or repetition: when a caller's events have distinct
  times, the page after a full first page, fetched with its cursor, continues it exactly, so the
  two pages are the first entries of the whole inbox in order.\<close>

theorem Inbox_pages:
  assumes "distinct (map (\<lambda>(ev, gi). e_CreatedAt ev) (inbox_join d u))"
    and "Inbox e u limit None d = (page1, unread, Some t)" and "Inbox e u limit (Some t) d = (page2, unread2, next2)"
  shows "page1 @ page2 = map (inbox_entry e d)
    (take (2 * inbox_limit limit) (sort_key (\<lambda>(ev, gi). - e_CreatedAt ev) (inbox_join d u)))"
proof -
  let ?n = "inbox_limit limit" and ?s = "sort_key (\<lambda>(ev, gi). - e_CreatedAt ev) (inbox_join d u)"
  have n: "0 < ?n" by (simp add: inbox_limit_def)
  have p1: "page1 = map (inbox_entry e d) (take ?n ?s)" "length page1 = ?n" "t = ie_CreatedAt (last page1)"
    using assms(2) by (auto simp: Inbox_def Let_def case_prod_unfold split: if_splits)
  then have len: "?n \<le> length ?s" by (simp del: length_sort)
  then have ne: "take ?n ?s \<noteq> []" using n by (metis length_0_conv length_take min.absorb2 not_less0)
  have t: "t = e_CreatedAt (fst (?s ! (?n - 1)))"
    unfolding p1(3) p1(1) last_map[OF ne] inbox_entry_time last_of_take[OF n len] ..
  have "page2 = map (inbox_entry e d) (take ?n (sort_key (\<lambda>(ev, gi). - e_CreatedAt ev)
      (filter (\<lambda>(ev, gi). e_CreatedAt ev < t) (inbox_join d u))))"
    using assms(3) by (simp add: Inbox_def Let_def)
  also have "\<dots> = map (inbox_entry e d) (take ?n (drop ?n ?s))"
    unfolding t inbox_sorted_page[OF assms(1) n refl len] ..
  finally show ?thesis using p1(1) by (simp add: mult_2 take_add)
qed

definition wit_inbox_db :: db where
  "wit_inbox_db = wit_graph_db\<lparr>inbox := map (\<lambda>i. \<lparr>e_ID = nat i, e_UserID = 3, e_Kind = InboxFollow, e_Actor = 2,
     e_StoryID = None, e_ReplyID = None, e_Emoji = None, e_CreatedAt = i, e_ReadAt = None\<rparr>) [40, 60, 50]\<rparr>"

theorem Inbox_pages_witness:
  "\<exists>page1 page2 n t nx. Inbox wit_env 3 1 None wit_inbox_db = (page1, n, Some t)
    \<and> Inbox wit_env 3 1 (Some t) wit_inbox_db = (page2, n, nx)
    \<and> map ie_CreatedAt (page1 @ page2) = [60, 50]"
proof -
  have s: "sort_key (\<lambda>(ev, gi). - e_CreatedAt ev) (inbox_join wit_inbox_db 3)
      = map (\<lambda>i. (\<lparr>e_ID = nat i, e_UserID = 3, e_Kind = InboxFollow, e_Actor = 2, e_StoryID = None,
          e_ReplyID = None, e_Emoji = None, e_CreatedAt = i, e_ReadAt = None\<rparr>,
          identity_values wit_env (wit_identity 12 ''bob''))) [60, 50, 40]"
    by (simp add: inbox_join_def wit_inbox_db_def wit_graph_db_def wit_user_def new_user_def
        identity_values_def wit_identity_def)
  have k: "distinct (map (\<lambda>(ev, gi). e_CreatedAt ev) (inbox_join wit_inbox_db 3))"
    by (simp add: inbox_join_def wit_inbox_db_def wit_graph_db_def wit_user_def new_user_def
        identity_values_def wit_identity_def)
  have l: "inbox_limit 1 = 1" by (simp add: inbox_limit_def)
  obtain page1 n where p1: "Inbox wit_env 3 1 None wit_inbox_db = (page1, n, Some 60)"
    by (simp add: Inbox_def Let_def l s inbox_entry_def)
  obtain page2 n2 nx where p2: "Inbox wit_env 3 1 (Some 60) wit_inbox_db = (page2, n2, nx)"
    by (cases "Inbox wit_env 3 1 (Some 60) wit_inbox_db")
  have "n2 = n" using p1 p2 by (simp add: Inbox_def Let_def)
  from Inbox_pages[OF k p1 p2] have "map ie_CreatedAt (page1 @ page2) = [60, 50]"
    unfolding l s by (simp add: inbox_entry_def)
  with p1 p2[unfolded \<open>n2 = n\<close>] show ?thesis
    by (intro exI[of _ page1] exI[of _ page2] exI[of _ n] exI[of _ 60] exI[of _ nx] conjI)
qed

text \<open>A thread is private and the same from both sides: each participant gets the same
  replies in the same order, and every reply in it was sent by one of the two to the other about
  that Story.\<close>

theorem Thread_private:
  "Thread e u other story d = Thread e other u story d
    \<and> list_all (\<lambda>re. \<exists>r\<in>set (replies d). re_ID re = rp_ID r \<and> re_Body re = rp_Body r \<and> rp_StoryID r = story
        \<and> rp_DeletedAt r = None \<and> {rp_Sender r, rp_Recipient r} = {u, other}) (Thread e u other story d)"
proof
  have eq: "(\<lambda>r. rp_DeletedAt r = None \<and> rp_StoryID r = story
        \<and> ((rp_Sender r = u \<and> rp_Recipient r = other) \<or> (rp_Sender r = other \<and> rp_Recipient r = u)))
      = (\<lambda>r. rp_DeletedAt r = None \<and> rp_StoryID r = story
        \<and> ((rp_Sender r = other \<and> rp_Recipient r = u) \<or> (rp_Sender r = u \<and> rp_Recipient r = other)))"
    by (intro ext) blast
  show "Thread e u other story d = Thread e other u story d" unfolding Thread_def eq ..
  show "list_all (\<lambda>re. \<exists>r\<in>set (replies d). re_ID re = rp_ID r \<and> re_Body re = rp_Body r \<and> rp_StoryID r = story
        \<and> rp_DeletedAt r = None \<and> {rp_Sender r, rp_Recipient r} = {u, other}) (Thread e u other story d)"
    by (auto simp: Thread_def list_all_iff intro!: bexI)
qed

text \<open>Marking the inbox read is limited to the caller: another account's events and the
  replies addressed to others keep their state, and marking everything leaves no unread event.\<close>

theorem MarkInboxRead_own:
  assumes "v \<noteq> u"
  shows "filter (\<lambda>ev. e_UserID ev = v) (inbox (MarkInboxRead e u ids al d)) = filter (\<lambda>ev. e_UserID ev = v) (inbox d)
    \<and> filter (\<lambda>r. rp_Recipient r = v) (replies (MarkInboxRead e u ids al d)) = filter (\<lambda>r. rp_Recipient r = v) (replies d)
    \<and> UnreadCount v (MarkInboxRead e u ids al d) = UnreadCount v d
    \<and> UnreadCount u (MarkInboxRead e u ids True d) = 0"
proof -
  have ev: "filter (\<lambda>ev. e_UserID ev = v) (inbox (MarkInboxRead e u ids al d)) = filter (\<lambda>ev. e_UserID ev = v) (inbox d)"
    using assms by (auto simp: MarkInboxRead_def Let_def intro!: filter_update_where_other)
  have count: "UnreadCount v d' = length (filter (\<lambda>ev. e_ReadAt ev = None) (filter (\<lambda>ev. e_UserID ev = v) (inbox d')))" for d'
    by (simp add: UnreadCount_def affected_def conj_commute)
  have "UnreadCount v (MarkInboxRead e u ids al d) = UnreadCount v d" unfolding count ev ..
  moreover have "filter (\<lambda>r. rp_Recipient r = v) (replies (MarkInboxRead e u ids al d)) = filter (\<lambda>r. rp_Recipient r = v) (replies d)"
    using assms by (auto simp: MarkInboxRead_def Let_def intro!: filter_update_where_other)
  moreover have "UnreadCount u (MarkInboxRead e u ids True d) = 0"
    by (simp add: UnreadCount_def MarkInboxRead_def affected_update_where_zero)
  ultimately show ?thesis using ev by simp
qed

theorem MarkInboxRead_own_witness:
  "UnreadCount 3 (MarkInboxRead wit_env 2 [40] False wit_inbox_db) = UnreadCount 3 wit_inbox_db
    \<and> UnreadCount 2 (MarkInboxRead wit_env 2 [] True wit_inbox_db) = 0 \<and> UnreadCount 3 wit_inbox_db = 3"
proof -
  have "UnreadCount 3 wit_inbox_db = 3" by (simp add: UnreadCount_def affected_def wit_inbox_db_def)
  moreover have "(3::uuid) \<noteq> 2" by simp
  note MarkInboxRead_own[OF this]
  ultimately show ?thesis by blast
qed

end
