(* ===== verification/Sessions.thy ===== *)
theory Sessions
  imports Interact
begin

text \<open>
  Sessions, OAuth flows and pending authorizations: \<^verbatim>\<open>src/internal/store/session.go\<close> and
  \<^verbatim>\<open>src/internal/store/device.go\<close>.  SHA-256 is the parameter \<open>sha\<close>.  The promise that an
  issued token is collected at most once is the locale \<open>one_shot_token\<close>, interpreted on
  \<open>PollPendingLogin\<close> and on \<open>PollDeviceLogin\<close>.
\<close>

section \<open>Sessions\<close>

definition HashToken :: "(string \<Rightarrow> string) \<Rightarrow> string \<Rightarrow> string" where
  "HashToken sha token = sha token"

definition new_session ::
  "(string \<Rightarrow> string) \<Rightarrow> env \<Rightarrow> uuid \<Rightarrow> uuid \<Rightarrow> string \<Rightarrow> ClientKind \<Rightarrow> string \<Rightarrow> string \<Rightarrow> duration \<Rightarrow> session_row" where
  "new_session sha e nid u token kind label userAgent ttl = \<lparr>
    se_ID = nid, se_UserID = u, se_ClientKind = kind, se_ClientLabel = label, se_UserAgent = userAgent,
    se_CreatedAt = db_now e, se_LastUsedAt = db_now e, se_ExpiresAt = Now e + ttl, se_RevokedAt = None,
    se_token_hash = HashToken sha token\<rparr>"

definition CreateSession ::
  "(string \<Rightarrow> string) \<Rightarrow> env \<Rightarrow> uuid \<Rightarrow> uuid \<Rightarrow> string \<Rightarrow> ClientKind \<Rightarrow> string \<Rightarrow> string \<Rightarrow> duration \<Rightarrow> db \<Rightarrow>
    Session result" where
  "CreateSession sha e nid u token kind label userAgent ttl d =
    (if list_ex (\<lambda>s. se_token_hash s = HashToken sha token) (sessions d) then Inl (ErrDB Unique_violation)
     else if \<not> user_exists d u then Inl (ErrDB Foreign_key_violation)
     else let row = new_session sha e nid u token kind label userAgent ttl in
       Inr (Session.truncate row, d\<lparr>sessions := sessions d @ [row]\<rparr>))"

definition session_join :: "db \<Rightarrow> (session_row \<times> user_row \<times> identity_row) list" where
  "session_join d =
    [(se, u, gi). se \<leftarrow> sessions d, u \<leftarrow> filter (\<lambda>u. us_id u = se_UserID se) (users d),
      gi \<leftarrow> filter (\<lambda>gi. gi_GitHubID gi = us_github_user_id u) (identities d)]"

definition SessionByToken :: "(string \<Rightarrow> string) \<Rightarrow> env \<Rightarrow> string \<Rightarrow> db \<Rightarrow> store_error + (Session \<times> User)" where
  "SessionByToken sha e token d =
    row_or_notfound (map_option (\<lambda>(se, u, gi). (Session.truncate se, scanUser u gi))
      (find (\<lambda>(se, u, gi). se_token_hash se = HashToken sha token \<and> se_RevokedAt se = None
        \<and> Now e < se_ExpiresAt se \<and> us_deleted_at u = None) (session_join d)))"

definition TouchSession :: "env \<Rightarrow> uuid \<Rightarrow> db \<Rightarrow> db" where
  "TouchSession e sid d = d\<lparr>sessions := update_where (\<lambda>s. se_ID s = sid)
     (\<lambda>s. s\<lparr>se_LastUsedAt := db_now e\<rparr>) (sessions d)\<rparr>"

definition RevokeSession :: "env \<Rightarrow> uuid \<Rightarrow> uuid \<Rightarrow> db \<Rightarrow> unit result" where
  "RevokeSession e u sid d =
    (let P = (\<lambda>s. se_ID s = sid \<and> se_UserID s = u \<and> se_RevokedAt s = None) in
     if affected P (sessions d) = 0 then Inl ErrNotFound
     else Inr ((), d\<lparr>sessions := update_where P (\<lambda>s. s\<lparr>se_RevokedAt := Some (db_now e)\<rparr>) (sessions d)\<rparr>))"

definition ListSessions :: "env \<Rightarrow> uuid \<Rightarrow> db \<Rightarrow> Session list" where
  "ListSessions e u d = map Session.truncate (sort_key (\<lambda>s. - se_LastUsedAt s)
     (filter (\<lambda>s. se_UserID s = u \<and> se_RevokedAt s = None \<and> Now e < se_ExpiresAt s) (sessions d)))"

section \<open>OAuth flows\<close>

definition oauth_purposes :: "string list" where
  "oauth_purposes = [''web_login'', ''cli_approval'', ''import'']"

definition CreateOAuthFlow ::
  "env \<Rightarrow> uuid \<Rightarrow> string \<Rightarrow> string \<Rightarrow> string \<Rightarrow> string \<Rightarrow> string \<Rightarrow> uuid option \<Rightarrow> duration \<Rightarrow> db \<Rightarrow> unit result" where
  "CreateOAuthFlow e nid stateHash verifier redirectURI purpose returnTo pendingLoginID ttl d =
    (if purpose \<notin> set oauth_purposes then Inl (ErrDB Check_violation)
     else if list_ex (\<lambda>f. of_state_hash f = stateHash) (oauth_flows d) then Inl (ErrDB Unique_violation)
     else Inr ((), d\<lparr>oauth_flows := oauth_flows d @ [\<lparr>of_id = nid, of_state_hash = stateHash,
       of_code_verifier = verifier, of_redirect_uri = redirectURI, of_purpose = purpose, of_return_to = returnTo,
       of_pending_login_id = pendingLoginID, of_expires_at = Now e + ttl, of_consumed_at = None\<rparr>]\<rparr>))"

record OAuthFlow =
  fl_ID :: uuid
  fl_CodeVerifier :: string
  fl_RedirectURI :: string
  fl_Purpose :: string
  fl_ReturnTo :: string
  fl_PendingLoginID :: "uuid option"

definition ConsumeOAuthFlow :: "env \<Rightarrow> string \<Rightarrow> db \<Rightarrow> OAuthFlow result" where
  "ConsumeOAuthFlow e stateHash d =
    (let P = (\<lambda>f. of_state_hash f = stateHash \<and> of_consumed_at f = None \<and> Now e < of_expires_at f) in
     case find P (oauth_flows d) of
       None \<Rightarrow> Inl ErrNotFound
     | Some f \<Rightarrow> Inr (\<lparr>fl_ID = of_id f, fl_CodeVerifier = of_code_verifier f, fl_RedirectURI = of_redirect_uri f,
           fl_Purpose = of_purpose f, fl_ReturnTo = of_return_to f, fl_PendingLoginID = of_pending_login_id f\<rparr>,
         d\<lparr>oauth_flows := update_where P (\<lambda>f. f\<lparr>of_consumed_at := Some (db_now e)\<rparr>) (oauth_flows d)\<rparr>))"

section \<open>Pending CLI authorization\<close>

record PendingLogin =
  pg_ID :: uuid
  pg_UserCode :: string
  pg_ClientKind :: ClientKind
  pg_ClientLabel :: string
  pg_State :: LoginState
  pg_ExpiresAt :: time
  pg_ApprovedBy :: "uuid option"

definition scanPendingLogin :: "pending_login_row \<Rightarrow> PendingLogin" where
  "scanPendingLogin p = \<lparr>pg_ID = pl_id p, pg_UserCode = pl_user_code p, pg_ClientKind = pl_client_kind p,
    pg_ClientLabel = pl_client_label p, pg_State = pl_state p, pg_ExpiresAt = pl_expires_at p,
    pg_ApprovedBy = pl_approved_user_id p\<rparr>"

definition new_pending :: "env \<Rightarrow> uuid \<Rightarrow> string \<Rightarrow> string \<Rightarrow> ClientKind \<Rightarrow> string \<Rightarrow> duration \<Rightarrow> pending_login_row" where
  "new_pending e nid secretHash userCode kind label ttl = \<lparr>
    pl_id = nid, pl_secret_hash = secretHash, pl_user_code = userCode, pl_client_kind = kind,
    pl_client_label = label, pl_state = LPending, pl_approved_user_id = None, pl_issued_session_id = None,
    pl_issued_token = None, pl_expires_at = Now e + ttl, pl_poll_count = 0, pl_last_poll_at = None\<rparr>"

definition CreatePendingLogin ::
  "env \<Rightarrow> uuid \<Rightarrow> string \<Rightarrow> string \<Rightarrow> ClientKind \<Rightarrow> string \<Rightarrow> duration \<Rightarrow> db \<Rightarrow> PendingLogin result" where
  "CreatePendingLogin e nid secretHash userCode kind label ttl d =
    (if list_ex (\<lambda>p. pl_secret_hash p = secretHash \<or> pl_user_code p = userCode) (pending_logins d)
     then Inl (ErrDB Unique_violation)
     else let row = new_pending e nid secretHash userCode kind label ttl in
       Inr (scanPendingLogin row, d\<lparr>pending_logins := pending_logins d @ [row]\<rparr>))"

definition PendingLogin_get :: "uuid \<Rightarrow> db \<Rightarrow> store_error + PendingLogin" where
  "PendingLogin_get lid d =
    row_or_notfound (map_option scanPendingLogin (find (\<lambda>p. pl_id p = lid) (pending_logins d)))"

definition ApprovePendingLogin :: "env \<Rightarrow> uuid \<Rightarrow> uuid \<Rightarrow> uuid \<Rightarrow> string \<Rightarrow> db \<Rightarrow> unit result" where
  "ApprovePendingLogin e lid u sessionID token d =
    (let P = (\<lambda>p. pl_id p = lid \<and> pl_state p = LPending \<and> Now e < pl_expires_at p) in
     if affected P (pending_logins d) = 0 then Inl ErrNotFound
     else if \<not> user_exists d u \<or> \<not> list_ex (\<lambda>s. se_ID s = sessionID) (sessions d)
     then Inl (ErrDB Foreign_key_violation)
     else Inr ((), d\<lparr>pending_logins := update_where P
       (\<lambda>p. p\<lparr>pl_state := LApproved, pl_approved_user_id := Some u, pl_issued_session_id := Some sessionID,
         pl_issued_token := Some token\<rparr>) (pending_logins d)\<rparr>))"

definition DenyPendingLogin :: "uuid \<Rightarrow> db \<Rightarrow> db" where
  "DenyPendingLogin lid d = d\<lparr>pending_logins := update_where (\<lambda>p. pl_id p = lid \<and> pl_state p = LPending)
     (\<lambda>p. p\<lparr>pl_state := LDenied\<rparr>) (pending_logins d)\<rparr>"

record PollResult =
  pr_Status :: string
  pr_Token :: string
  pr_UserID :: "uuid option"

definition poll_status :: "string \<Rightarrow> PollResult" where
  "poll_status s = \<lparr>pr_Status = s, pr_Token = '''', pr_UserID = None\<rparr>"

definition set_pending :: "uuid \<Rightarrow> (pending_login_row \<Rightarrow> pending_login_row) \<Rightarrow> db \<Rightarrow> db" where
  "set_pending lid f d = d\<lparr>pending_logins := update_where (\<lambda>p. pl_id p = lid) f (pending_logins d)\<rparr>"

definition PollPendingLogin :: "env \<Rightarrow> uuid \<Rightarrow> string \<Rightarrow> int \<Rightarrow> db \<Rightarrow> PollResult result" where
  "PollPendingLogin e lid secretHash maxPolls d =
    bind_res (row_or_notfound (find (\<lambda>p. pl_id p = lid \<and> pl_secret_hash p = secretHash) (pending_logins d))) (\<lambda>p.
      if maxPolls \<le> pl_poll_count p then
        Inr (poll_status ''expired'', set_pending lid (\<lambda>p. p\<lparr>pl_state := LExpired\<rparr>) d)
      else
        (let d1 = set_pending lid (\<lambda>p. p\<lparr>pl_poll_count := pl_poll_count p + 1, pl_last_poll_at := Some (Now e)\<rparr>) d in
         if \<not> Now e < pl_expires_at p \<and> pl_state p = LPending then
           Inr (poll_status ''expired'', set_pending lid (\<lambda>p. p\<lparr>pl_state := LExpired\<rparr>) d1)
         else
           (case pl_state p of
              LApproved \<Rightarrow>
                (case pl_issued_token p of
                   None \<Rightarrow> Inr (poll_status ''expired'', d1)
                 | Some token \<Rightarrow> Inr (\<lparr>pr_Status = ''approved'', pr_Token = token, pr_UserID = pl_approved_user_id p\<rparr>,
                     set_pending lid (\<lambda>p. p\<lparr>pl_state := LConsumed, pl_issued_token := None\<rparr>) d1))
            | LPending \<Rightarrow> Inr (poll_status ''pending'', d1)
            | LDenied \<Rightarrow> Inr (poll_status ''denied'', d1)
            | _ \<Rightarrow> Inr (poll_status ''expired'', d1))))"

text \<open>\<open>upper(replace(code, '-', ''))\<close> of ASCII codes.\<close>

definition upper_char :: "char \<Rightarrow> char" where
  "upper_char c = (let n = (of_char c :: nat) in if 97 \<le> n \<and> n \<le> 122 then char_of (n - 32) else c)"

definition code_norm :: "string \<Rightarrow> string" where
  "code_norm code = map upper_char (filter (\<lambda>c. c \<noteq> CHR ''-'') code)"

definition PendingLoginByCode :: "env \<Rightarrow> string \<Rightarrow> db \<Rightarrow> store_error + PendingLogin" where
  "PendingLoginByCode e code d =
    row_or_notfound (map_option scanPendingLogin (find (\<lambda>p. code_norm (pl_user_code p) = code_norm code
      \<and> pl_state p = LPending \<and> Now e < pl_expires_at p) (pending_logins d)))"

section \<open>Device logins\<close>

record DeviceLogin =
  dv_ID :: uuid
  dv_DeviceCode :: string
  dv_ClientKind :: ClientKind
  dv_ClientLabel :: string
  dv_State :: LoginState
  dv_UserID :: "uuid option"
  dv_ExpiresAt :: time

definition new_device :: "uuid \<Rightarrow> string \<Rightarrow> ClientKind \<Rightarrow> string \<Rightarrow> time \<Rightarrow> device_login_row" where
  "new_device nid deviceCode kind label expiresAt = \<lparr>dl_id = nid, dl_device_code = deviceCode,
    dl_client_kind = kind, dl_client_label = label, dl_state = LPending, dl_user_id = None,
    dl_issued_token = None, dl_expires_at = expiresAt, dl_poll_count = 0, dl_last_poll_at = None\<rparr>"

definition CreateDeviceLogin :: "uuid \<Rightarrow> string \<Rightarrow> ClientKind \<Rightarrow> string \<Rightarrow> time \<Rightarrow> db \<Rightarrow> DeviceLogin result" where
  "CreateDeviceLogin nid deviceCode kind label expiresAt d =
    Inr (\<lparr>dv_ID = nid, dv_DeviceCode = deviceCode, dv_ClientKind = kind, dv_ClientLabel = label,
        dv_State = LPending, dv_UserID = None, dv_ExpiresAt = expiresAt\<rparr>,
      d\<lparr>device_logins := device_logins d @ [new_device nid deviceCode kind label expiresAt]\<rparr>)"

definition set_device :: "uuid \<Rightarrow> (device_login_row \<Rightarrow> device_login_row) \<Rightarrow> db \<Rightarrow> db" where
  "set_device lid f d = d\<lparr>device_logins := update_where (\<lambda>p. dl_id p = lid) f (device_logins d)\<rparr>"

definition PollDeviceLogin :: "env \<Rightarrow> uuid \<Rightarrow> db \<Rightarrow> (DeviceLogin \<times> string) result" where
  "PollDeviceLogin e lid d =
    bind_res (row_or_notfound (find (\<lambda>p. dl_id p = lid) (device_logins d))) (\<lambda>p.
      let expired = (dl_state p = LPending \<and> \<not> Now e < dl_expires_at p);
          st = (if expired then LExpired else dl_state p);
          d1 = (if expired then set_device lid (\<lambda>p. p\<lparr>dl_state := LExpired\<rparr>) d else d);
          d2 = set_device lid (\<lambda>p. p\<lparr>dl_poll_count := dl_poll_count p + 1, dl_last_poll_at := Some (Now e)\<rparr>) d1;
          consume = (st = LApproved \<and> dl_issued_token p \<noteq> None);
          st' = (if consume then LConsumed else st);
          d3 = (if consume then set_device lid (\<lambda>p. p\<lparr>dl_state := LConsumed, dl_issued_token := None\<rparr>) d2 else d2);
          row = \<lparr>dv_ID = lid, dv_DeviceCode = dl_device_code p, dv_ClientKind = dl_client_kind p,
            dv_ClientLabel = dl_client_label p, dv_State = st', dv_UserID = dl_user_id p,
            dv_ExpiresAt = dl_expires_at p\<rparr> in
      case dl_issued_token p of
        None \<Rightarrow> Inr ((row, ''''), d3)
      | Some token \<Rightarrow> Inr ((row, if st' = LConsumed then token else ''''), d3))"

definition ApproveDeviceLogin :: "env \<Rightarrow> uuid \<Rightarrow> uuid \<Rightarrow> string \<Rightarrow> db \<Rightarrow> bool result" where
  "ApproveDeviceLogin e lid u token d =
    (let P = (\<lambda>p. dl_id p = lid \<and> dl_state p = LPending \<and> Now e < dl_expires_at p) in
     if 0 < affected P (device_logins d) \<and> \<not> user_exists d u then Inl (ErrDB Foreign_key_violation)
     else Inr (affected P (device_logins d) = 1, d\<lparr>device_logins := update_where P
       (\<lambda>p. p\<lparr>dl_state := LApproved, dl_user_id := Some u, dl_issued_token := Some token\<rparr>) (device_logins d)\<rparr>))"

definition ExpireDeviceLogin :: "uuid \<Rightarrow> db \<Rightarrow> db" where
  "ExpireDeviceLogin lid d = d\<lparr>device_logins := update_where (\<lambda>p. dl_id p = lid \<and> dl_state p = LPending)
     (\<lambda>p. p\<lparr>dl_state := LExpired, dl_issued_token := None\<rparr>) (device_logins d)\<rparr>"

section \<open>The contract of a one-shot token\<close>

text \<open>A poll sequence: the tokens handed out, one entry per poll (the empty text is none).\<close>

fun poll_run :: "(env \<Rightarrow> db \<Rightarrow> string \<times> db) \<Rightarrow> env list \<Rightarrow> db \<Rightarrow> string list" where
  "poll_run poll [] d = []"
| "poll_run poll (e # es) d = (case poll e d of (t, d') \<Rightarrow> t # poll_run poll es d')"

locale one_shot_token =
  fixes poll :: "env \<Rightarrow> db \<Rightarrow> string \<times> db"
    and held :: "db \<Rightarrow> string option"
    and ok :: "db \<Rightarrow> bool"
  assumes hand_over: "ok d \<Longrightarrow> poll e d = (t, d') \<Longrightarrow> t \<noteq> '''' \<Longrightarrow> held d = Some t \<and> held d' = None"
    and stays_gone: "ok d \<Longrightarrow> poll e d = (t, d') \<Longrightarrow> held d = None \<Longrightarrow> held d' = None"
    and stays_ok: "ok d \<Longrightarrow> poll e d = (t, d') \<Longrightarrow> ok d'"
begin

lemma none_after: "ok d \<Longrightarrow> held d = None \<Longrightarrow> filter (\<lambda>t. t \<noteq> '''') (poll_run poll es d) = []"
proof (induction es arbitrary: d)
  case (Cons e es)
  obtain t d' where p: "poll e d = (t, d')" by (cases "poll e d")
  with hand_over[OF _ p] stays_gone[OF _ p] stays_ok[OF _ p] Cons show ?case by auto
qed simp

lemma at_most_once: "ok d \<Longrightarrow> length (filter (\<lambda>t. t \<noteq> '''') (poll_run poll es d)) \<le> 1"
proof (induction es arbitrary: d)
  case (Cons e es)
  obtain t d' where p: "poll e d = (t, d')" by (cases "poll e d")
  show ?case
  proof (cases "t = ''''")
    case True
    with p Cons stays_ok[OF _ p] show ?thesis by simp
  next
    case False
    with hand_over[OF _ p] none_after[of d' es] stays_ok[OF _ p] p Cons.prems show ?thesis by simp
  qed
qed simp

end

definition pending_poll :: "uuid \<Rightarrow> string \<Rightarrow> int \<Rightarrow> env \<Rightarrow> db \<Rightarrow> string \<times> db" where
  "pending_poll lid secretHash maxPolls e d =
    (case PollPendingLogin e lid secretHash maxPolls d of Inl _ \<Rightarrow> ('''', d) | Inr (r, d') \<Rightarrow> (pr_Token r, d'))"

definition pending_held :: "uuid \<Rightarrow> string \<Rightarrow> db \<Rightarrow> string option" where
  "pending_held lid secretHash d =
    (case find (\<lambda>p. pl_id p = lid \<and> pl_secret_hash p = secretHash) (pending_logins d) of
       None \<Rightarrow> None
     | Some p \<Rightarrow> if pl_state p = LApproved then pl_issued_token p else None)"

definition device_poll :: "uuid \<Rightarrow> env \<Rightarrow> db \<Rightarrow> string \<times> db" where
  "device_poll lid e d =
    (case PollDeviceLogin e lid d of Inl _ \<Rightarrow> ('''', d) | Inr ((r, t), d') \<Rightarrow> (t, d'))"

definition device_held :: "uuid \<Rightarrow> db \<Rightarrow> string option" where
  "device_held lid d =
    (case find (\<lambda>p. dl_id p = lid) (device_logins d) of
       None \<Rightarrow> None
     | Some p \<Rightarrow> if dl_state p = LApproved \<or> dl_state p = LConsumed then dl_issued_token p else None)"

lemma find_set_pending:
  assumes "\<And>p. pl_id (f p) = pl_id p \<and> pl_secret_hash (f p) = pl_secret_hash p"
  shows "find (\<lambda>p. pl_id p = lid \<and> pl_secret_hash p = h) (pending_logins (set_pending lid f d))
    = map_option f (find (\<lambda>p. pl_id p = lid \<and> pl_secret_hash p = h) (pending_logins d))"
proof -
  have "find (\<lambda>p. pl_id p = lid \<and> pl_secret_hash p = h) (update_where (\<lambda>p. pl_id p = lid) f rs)
      = map_option f (find (\<lambda>p. pl_id p = lid \<and> pl_secret_hash p = h) rs)" for rs
    by (induction rs) (auto simp: assms)
  then show ?thesis by (simp add: set_pending_def)
qed

lemma find_set_device:
  assumes "\<And>p. dl_id (f p) = dl_id p"
  shows "find (\<lambda>p. dl_id p = lid) (device_logins (set_device lid f d))
    = map_option f (find (\<lambda>p. dl_id p = lid) (device_logins d))"
proof -
  have "find (\<lambda>p. dl_id p = lid) (update_where (\<lambda>p. dl_id p = lid) f rs)
      = map_option f (find (\<lambda>p. dl_id p = lid) rs)" for rs
    by (induction rs) (auto simp: assms)
  then show ?thesis by (simp add: set_device_def)
qed

text \<open>A consumed device login holds no token.\<close>

definition device_ok :: "db \<Rightarrow> bool" where
  "device_ok d = list_all (\<lambda>p. dl_state p = LConsumed \<longrightarrow> dl_issued_token p = None) (device_logins d)"

lemma device_ok_set:
  assumes "device_ok d" and "\<And>p. dl_state (f p) = LConsumed \<Longrightarrow> dl_issued_token (f p) = None \<or> (dl_state p = LConsumed \<and> dl_issued_token (f p) = dl_issued_token p)"
  shows "device_ok (set_device lid f d)"
proof -
  have "list_all (\<lambda>p. dl_state p = LConsumed \<longrightarrow> dl_issued_token p = None) (update_where (\<lambda>p. dl_id p = lid) f rs)"
    if "list_all (\<lambda>p. dl_state p = LConsumed \<longrightarrow> dl_issued_token p = None) rs" for rs
    using that by (induction rs) (auto dest!: assms(2))
  with assms(1) show ?thesis by (simp add: device_ok_def set_device_def)
qed

interpretation pending_once: one_shot_token "pending_poll lid h n" "pending_held lid h" "\<lambda>_. True" for lid h n
proof unfold_locales
  fix e d t d'
  assume "pending_poll lid h n e d = (t, d')" "t \<noteq> ''''"
  then show "pending_held lid h d = Some t \<and> pending_held lid h d' = None"
    by (auto simp: pending_poll_def PollPendingLogin_def Let_def pending_held_def find_set_pending
        poll_status_def row_or_notfound_def split: option.splits if_splits LoginState.splits)
next
  fix e d t d'
  assume "pending_poll lid h n e d = (t, d')" "pending_held lid h d = None"
  then show "pending_held lid h d' = None"
    by (auto simp: pending_poll_def PollPendingLogin_def Let_def pending_held_def find_set_pending
        poll_status_def row_or_notfound_def split: option.splits if_splits LoginState.splits)
qed simp

interpretation device_once: one_shot_token "device_poll lid" "device_held lid" device_ok for lid
proof unfold_locales
  fix e d t d'
  assume "device_ok d" "device_poll lid e d = (t, d')" "t \<noteq> ''''"
  then show "device_held lid d = Some t \<and> device_held lid d' = None"
    using \<open>device_ok d\<close>
    by (auto simp: device_poll_def PollDeviceLogin_def Let_def device_held_def find_set_device device_ok_def
        list_all_iff row_or_notfound_def dest: find_Some_in split: option.splits if_splits)
next
  fix e d t d'
  assume "device_poll lid e d = (t, d')" "device_held lid d = None"
  then show "device_held lid d' = None"
    by (auto simp: device_poll_def PollDeviceLogin_def Let_def device_held_def find_set_device
        row_or_notfound_def split: option.splits if_splits)
next
  fix e d t d'
  assume "device_ok d" "device_poll lid e d = (t, d')"
  then show "device_ok d'"
    by (auto simp: device_poll_def PollDeviceLogin_def Let_def row_or_notfound_def
        split: option.splits if_splits intro!: device_ok_set)
qed

section \<open>Facts about sessions and codes\<close>

lemma session_join_in:
  "(se, u, gi) \<in> set (session_join d) \<longleftrightarrow> se \<in> set (sessions d) \<and> u \<in> set (users d) \<and> gi \<in> set (identities d)
    \<and> us_id u = se_UserID se \<and> gi_GitHubID gi = us_github_user_id u"
  by (auto simp: session_join_def)

lemma SessionByToken_Inl:
  "SessionByToken sha e token d = Inl err \<longleftrightarrow> err = ErrNotFound \<and>
    (\<forall>se u gi. (se, u, gi) \<in> set (session_join d) \<longrightarrow> se_token_hash se = HashToken sha token \<longrightarrow>
      se_RevokedAt se = None \<longrightarrow> Now e < se_ExpiresAt se \<longrightarrow> us_deleted_at u \<noteq> None)"
  by (auto simp: SessionByToken_def find_None_iff) fastforce

lemma upper_lower_char: "upper_char (lower_char c) = upper_char c"
proof -
  have "(of_char c :: nat) < 256" by simp
  then show ?thesis by (auto simp: upper_char_def lower_char_def Let_def)
qed

lemma lower_char_dash: "lower_char c = CHR ''-'' \<longleftrightarrow> c = CHR ''-''"
proof
  assume l: "lower_char c = CHR ''-''"
  then have "(of_char (lower_char c) :: nat) = 45" by simp
  moreover have "(of_char c :: nat) < 256" by simp
  ultimately have "lower_char c = c" by (auto simp: lower_char_def Let_def split: if_splits)
  with l show "c = CHR ''-''" by simp
qed (simp add: lower_char_def)

lemma code_norm_lower: "code_norm (lower (filter (\<lambda>c. c \<noteq> CHR ''-'') code)) = code_norm code"
  by (simp add: code_norm_def lower_def filter_map comp_def lower_char_dash upper_lower_char)

section \<open>Properties\<close>

definition wit_login_db :: db where
  "wit_login_db = wit_author_db\<lparr>
    sessions := [new_session id wit_env 4 3 ''tok'' ClientCLI ''l'' ''ua'' 1000],
    pending_logins := [(new_pending wit_env 8 ''h'' ''AB-CD'' ClientCLI ''l'' 600)\<lparr>pl_state := LApproved,
      pl_issued_token := Some ''t''\<rparr>],
    device_logins := [(new_device 9 ''dc'' ClientCLI ''l'' 600)\<lparr>dl_state := LApproved, dl_issued_token := Some ''t''\<rparr>],
    oauth_flows := [\<lparr>of_id = 5, of_state_hash = ''st'', of_code_verifier = ''v'', of_redirect_uri = ''r'',
      of_purpose = ''web_login'', of_return_to = ''/'', of_pending_login_id = None, of_expires_at = 600,
      of_consumed_at = None\<rparr>]\<rparr>"

text \<open>C14. A login token is collected at most once: whatever the sequence of polls, of a pending
  CLI authorization or of a device login, at whatever times, at most one poll carries a token.\<close>

theorem login_token_once:
  assumes "device_ok d"
  shows "length (filter (\<lambda>t. t \<noteq> '''') (poll_run (pending_poll lid h n) es d)) \<le> 1
    \<and> length (filter (\<lambda>t. t \<noteq> '''') (poll_run (device_poll did) es d)) \<le> 1"
  using pending_once.at_most_once[OF TrueI] device_once.at_most_once[OF assms] by blast

theorem login_token_once_witness:
  "poll_run (pending_poll 8 ''h'' 10) [wit_env, wit_env] wit_login_db = [''t'', '''']
    \<and> length (filter (\<lambda>t. t \<noteq> '''') (poll_run (device_poll 9) [wit_env, wit_env] wit_login_db)) \<le> 1"
proof -
  have "device_ok wit_login_db" by (simp add: device_ok_def wit_login_db_def)
  moreover have "poll_run (pending_poll 8 ''h'' 10) [wit_env, wit_env] wit_login_db = [''t'', '''']"
    by (simp add: pending_poll_def PollPendingLogin_def Let_def set_pending_def poll_status_def
        wit_login_db_def new_pending_def wit_env_def)
  ultimately show ?thesis using login_token_once by blast
qed

text \<open>The polls of a CLI authorization are bounded: once the poll budget is spent no further
  poll carries a token, not even of an authorization that has been approved; and a poll with the
  wrong secret finds nothing and changes nothing.\<close>

theorem PollPendingLogin_budget:
  assumes "find (\<lambda>p. pl_id p = lid \<and> pl_secret_hash p = h) (pending_logins d) = Some p" and "n \<le> pl_poll_count p"
    and "\<not> list_ex (\<lambda>p. pl_id p = lid \<and> pl_secret_hash p = wrong) (pending_logins d)"
  shows "filter (\<lambda>t. t \<noteq> '''') (poll_run (pending_poll lid h n) es d) = []
    \<and> PollPendingLogin e lid wrong n d = Inl ErrNotFound"
proof
  show "filter (\<lambda>t. t \<noteq> '''') (poll_run (pending_poll lid h n) es d) = []"
  proof (cases es)
    case (Cons e0 es')
    have poll: "pending_poll lid h n e0 d = ('''', set_pending lid (\<lambda>p. p\<lparr>pl_state := LExpired\<rparr>) d)"
      using assms(1,2) by (simp add: pending_poll_def PollPendingLogin_def poll_status_def)
    have "pending_held lid h (set_pending lid (\<lambda>p. p\<lparr>pl_state := LExpired\<rparr>) d) = None"
      using assms(1) by (simp add: pending_held_def find_set_pending)
    from pending_once.none_after[OF TrueI this] poll Cons show ?thesis by simp
  qed simp
  have "find (\<lambda>p. pl_id p = lid \<and> pl_secret_hash p = wrong) (pending_logins d) = None"
    using assms(3) by (simp add: find_None_ex)
  then show "PollPendingLogin e lid wrong n d = Inl ErrNotFound" by (simp add: PollPendingLogin_def)
qed

theorem PollPendingLogin_budget_witness:
  "filter (\<lambda>t. t \<noteq> '''') (poll_run (pending_poll 8 ''h'' 0) [wit_env, wit_env, wit_env] wit_login_db) = []"
proof -
  let ?p = "hd (pending_logins wit_login_db)"
  have "find (\<lambda>p. pl_id p = 8 \<and> pl_secret_hash p = ''h'') (pending_logins wit_login_db) = Some ?p"
    "0 \<le> pl_poll_count ?p" "\<not> list_ex (\<lambda>p. pl_id p = 8 \<and> pl_secret_hash p = ''x'') (pending_logins wit_login_db)"
    by (simp_all add: wit_login_db_def new_pending_def)
  from PollPendingLogin_budget[OF this] show ?thesis by blast
qed

text \<open>C15. A session token resolves only to a session that is neither revoked nor expired, of an
  account that is not deleted; after its owner revokes a session its token resolves to nothing,
  while every other token resolves as before.\<close>

theorem RevokeSession_effective:
  assumes "keyed se_ID (sessions d)" and "keyed se_token_hash (sessions d)"
    and "s \<in> set (sessions d)" and "se_token_hash s = HashToken sha token"
    and "RevokeSession e u (se_ID s) d = Inr ((), d')"
  shows "SessionByToken sha e2 token d' = Inl ErrNotFound
    \<and> (SessionByToken sha e2 token2 d = Inr (s2, u2) \<longrightarrow> Session_Valid (Some s2) (Now e2) \<and> u_DeletedAt u2 = None)
    \<and> (HashToken sha token2 \<noteq> HashToken sha token \<longrightarrow> SessionByToken sha e2 token2 d' = SessionByToken sha e2 token2 d)"
proof -
  let ?P = "\<lambda>q. se_ID q = se_ID s \<and> se_UserID q = u \<and> se_RevokedAt q = None"
  let ?f = "\<lambda>q. q\<lparr>se_RevokedAt := Some (db_now e)\<rparr>"
  from assms(5) have d': "d' = d\<lparr>sessions := update_where ?P ?f (sessions d)\<rparr>"
    and ex: "\<exists>q\<in>set (sessions d). ?P q" by (auto simp: RevokeSession_def Let_def affected_pos split: if_splits)
  have only: "q = s" if "q \<in> set (sessions d)" "se_ID q = se_ID s" for q
    using keyed_unique[OF assms(1) that(1) assms(3) that(2)] .
  from ex only have Ps: "?P s" by blast
  have "SessionByToken sha e2 token d' = Inl ErrNotFound"
    unfolding SessionByToken_Inl
  proof (intro conjI allI impI refl)
    fix se u gi
    assume j: "(se, u, gi) \<in> set (session_join d')" and h: "se_token_hash se = HashToken sha token"
      and live: "se_RevokedAt se = None"
    from j d' have "se \<in> set (update_where ?P ?f (sessions d))" by (simp add: session_join_in)
    from in_update_where[OF this] live obtain "se \<in> set (sessions d)" "\<not> ?P se" by auto
    moreover from this keyed_unique[OF assms(2) _ assms(3), of se] h assms(4) have "se = s" by simp
    ultimately show "us_deleted_at u \<noteq> None" using Ps by simp
  qed
  moreover have "Session_Valid (Some s2) (Now e2) \<and> u_DeletedAt u2 = None" if "SessionByToken sha e2 token2 d = Inr (s2, u2)"
    using that by (auto simp: SessionByToken_def Session_Valid_def Session.defs scanUser_def dest!: find_Some_in)
  moreover have "SessionByToken sha e2 token2 d' = SessionByToken sha e2 token2 d"
    if "HashToken sha token2 \<noteq> HashToken sha token"
  proof -
    let ?J = "\<lambda>se. [(se, u, gi). u \<leftarrow> filter (\<lambda>u. us_id u = se_UserID se) (users d),
      gi \<leftarrow> filter (\<lambda>gi. gi_GitHubID gi = us_github_user_id u) (identities d)]"
    let ?Q = "\<lambda>(se, u, gi). se_token_hash se = HashToken sha token2 \<and> se_RevokedAt se = None
        \<and> Now e2 < se_ExpiresAt se \<and> us_deleted_at u = None"
    have none: "find ?Q (?J q) = None \<and> find ?Q (?J (?f q)) = None" if "q \<in> set (sessions d)" "?P q" for q
    proof -
      from that only[of q] have "q = s" by blast
      with assms(4) \<open>HashToken sha token2 \<noteq> HashToken sha token\<close> show ?thesis by (auto simp: find_None_iff)
    qed
    have "find ?Q (concat (map ?J (update_where ?P ?f (sessions d)))) = find ?Q (concat (map ?J (sessions d)))"
      by (rule find_join_frame) (rule none)
    then show ?thesis by (simp add: SessionByToken_def session_join_def d')
  qed
  ultimately show ?thesis by blast
qed

theorem RevokeSession_effective_witness:
  "\<exists>d'. RevokeSession wit_env 3 4 wit_login_db = Inr ((), d') \<and> SessionByToken id wit_env ''tok'' d' = Inl ErrNotFound
    \<and> (\<exists>p. SessionByToken id wit_env ''tok'' wit_login_db = Inr p)"
proof -
  let ?s = "new_session id wit_env 4 3 ''tok'' ClientCLI ''l'' ''ua'' 1000"
  have k: "keyed se_ID (sessions wit_login_db)" "keyed se_token_hash (sessions wit_login_db)" "?s \<in> set (sessions wit_login_db)"
    by (simp_all add: keyed_def wit_login_db_def)
  have h: "se_token_hash ?s = HashToken id ''tok''" by (simp add: new_session_def)
  obtain d' where r: "RevokeSession wit_env 3 (se_ID ?s) wit_login_db = Inr ((), d')"
    by (simp add: RevokeSession_def Let_def affected_def wit_login_db_def new_session_def)
  have "\<exists>p. SessionByToken id wit_env ''tok'' wit_login_db = Inr p"
    by (simp add: SessionByToken_def session_join_def wit_login_db_def new_session_def HashToken_def wit_story_defs)
  with RevokeSession_effective[OF k h r] r show ?thesis by (auto simp: new_session_def)
qed

text \<open>An OAuth state is claimed exactly once: after a successful claim the same state is
  refused at any later or earlier time.\<close>

theorem ConsumeOAuthFlow_once:
  assumes "keyed of_state_hash (oauth_flows d)" and "ConsumeOAuthFlow e st d = Inr (fl, d')"
  shows "ConsumeOAuthFlow e2 st d' = Inl ErrNotFound"
proof -
  let ?P = "\<lambda>e f. of_state_hash f = st \<and> of_consumed_at f = None \<and> Now e < of_expires_at f"
  let ?f = "\<lambda>f. f\<lparr>of_consumed_at := Some (db_now e)\<rparr>"
  from assms(2) obtain r where r: "find (?P e) (oauth_flows d) = Some r"
    and d': "oauth_flows d' = update_where (?P e) ?f (oauth_flows d)"
    by (auto simp: ConsumeOAuthFlow_def Let_def split: option.splits)
  have "\<not> ?P e2 q" if q: "q \<in> set (oauth_flows d')" for q
  proof
    assume p: "?P e2 q"
    have "q \<noteq> ?f x" for x
    proof
      assume "q = ?f x"
      then have "of_consumed_at q = Some (db_now e)" by simp
      with p show False by simp
    qed
    with in_update_where[OF q[unfolded d']] have "q \<in> set (oauth_flows d) \<and> \<not> ?P e q" by blast
    then have old: "q \<in> set (oauth_flows d)" "\<not> ?P e q" by blast+
    from find_Some_in[OF r] have r': "r \<in> set (oauth_flows d)" "?P e r" by blast+
    have "of_state_hash q = of_state_hash r" using p r'(2) by simp
    with keyed_unique[OF assms(1) old(1) r'(1)] have "q = r" by blast
    with old(2) r'(2) show False by blast
  qed
  then have "find (?P e2) (oauth_flows d') = None" by (simp add: find_None_iff)
  then show ?thesis by (simp add: ConsumeOAuthFlow_def)
qed

theorem ConsumeOAuthFlow_once_witness:
  "\<exists>fl d'. ConsumeOAuthFlow wit_env ''st'' wit_login_db = Inr (fl, d')
    \<and> ConsumeOAuthFlow (wit_env\<lparr>Now := 120\<rparr>) ''st'' d' = Inl ErrNotFound"
proof -
  have k: "keyed of_state_hash (oauth_flows wit_login_db)" by (simp add: keyed_def wit_login_db_def)
  have "\<exists>p. ConsumeOAuthFlow wit_env ''st'' wit_login_db = Inr p"
    by (simp add: ConsumeOAuthFlow_def Let_def wit_login_db_def wit_env_def)
  then obtain fl d' where c: "ConsumeOAuthFlow wit_env ''st'' wit_login_db = Inr (fl, d')" by auto
  from ConsumeOAuthFlow_once[OF k c] c show ?thesis by blast
qed

text \<open>A suspended account keeps its sessions: the token of a running session of an account
  that is not deleted resolves even when the account is suspended.\<close>

theorem SessionByToken_suspended:
  assumes "(se, u, gi) \<in> set (session_join d)" and "se_token_hash se = HashToken sha token"
    and "Session_Valid (Some se) (Now e)" and "us_deleted_at u = None" and "us_suspended_at u \<noteq> None"
  shows "\<exists>p. SessionByToken sha e token d = Inr p"
proof (cases "SessionByToken sha e token d")
  case (Inl err)
  have "se_RevokedAt se = None" "Now e < se_ExpiresAt se" using assms(3) by (auto simp: Session_Valid_def)
  with Inl[unfolded SessionByToken_Inl] assms(1,2,4) show ?thesis by blast
qed simp

theorem SessionByToken_suspended_witness:
  "\<exists>p. SessionByToken id wit_env ''tok'' (wit_login_db\<lparr>users := [(wit_user 3 11)\<lparr>us_suspended_at := Some 50\<rparr>]\<rparr>) = Inr p"
  by (rule SessionByToken_suspended[where se = "new_session id wit_env 4 3 ''tok'' ClientCLI ''l'' ''ua'' 1000"
      and u = "(wit_user 3 11)\<lparr>us_suspended_at := Some 50\<rparr>" and gi = "identity_values wit_env (wit_identity 11 ''ann'')"])
    (simp_all add: session_join_in wit_login_db_def new_session_def Session_Valid_def wit_story_defs)

text \<open>A user code is accepted however it is typed: without its dash and in lower case it
  finds the same authorization, and only one that is still pending and not expired.\<close>

theorem PendingLoginByCode_forgiving:
  "PendingLoginByCode e (lower (filter (\<lambda>c. c \<noteq> CHR ''-'') code)) d = PendingLoginByCode e code d
    \<and> (case PendingLoginByCode e code d of Inl err \<Rightarrow> err = ErrNotFound
       | Inr p \<Rightarrow> pg_State p = LPending \<and> Now e < pg_ExpiresAt p)"
proof
  show "PendingLoginByCode e (lower (filter (\<lambda>c. c \<noteq> CHR ''-'') code)) d = PendingLoginByCode e code d"
    unfolding PendingLoginByCode_def code_norm_lower ..
  show "case PendingLoginByCode e code d of Inl err \<Rightarrow> err = ErrNotFound
       | Inr p \<Rightarrow> pg_State p = LPending \<and> Now e < pg_ExpiresAt p"
    by (auto simp: PendingLoginByCode_def row_or_notfound_def scanPendingLogin_def
        split: option.splits sum.splits dest!: find_Some_in)
qed

end
