(* ===== verification/Utf8.thy ===== *)
theory Utf8
  imports Prelude
begin

text \<open>
  Runes and UTF-8, as Go's \<^verbatim>\<open>unicode/utf8\<close> reads and writes them: a Go string is a list
  of bytes, \<open>decode_rune\<close> is \<^verbatim>\<open>utf8.DecodeRuneInString\<close>, \<open>encode_rune\<close> is
  \<^verbatim>\<open>strings.Builder.WriteRune\<close> and \<open>runes\<close> is what \<^verbatim>\<open>for _, r := range s\<close>
  visits.  The main lemma is the round trip \<open>decode_encode\<close>.
\<close>

abbreviation byte :: "char \<Rightarrow> nat" where "byte c \<equiv> of_char c"

definition RuneError :: nat where "RuneError = 0xFFFD"

definition valid_rune :: "nat \<Rightarrow> bool" where
  "valid_rune r \<longleftrightarrow> r < 0x110000 \<and> \<not> (0xD800 \<le> r \<and> r < 0xE000)"

definition encode_rune :: "nat \<Rightarrow> string" where
  "encode_rune r =
    (if r < 0x80 then [char_of r]
     else if r < 0x800 then [char_of (0xC0 + r div 64), char_of (0x80 + r mod 64)]
     else if \<not> valid_rune r then [CHR 0xEF, CHR 0xBF, CHR 0xBD]
     else if r < 0x10000 then
       [char_of (0xE0 + r div 4096), char_of (0x80 + r div 64 mod 64), char_of (0x80 + r mod 64)]
     else [char_of (0xF0 + r div 262144), char_of (0x80 + r div 4096 mod 64),
       char_of (0x80 + r div 64 mod 64), char_of (0x80 + r mod 64)])"

text \<open>A continuation byte, and the range of the second byte after a given lead byte.\<close>

definition cont :: "char \<Rightarrow> bool" where
  "cont c \<longleftrightarrow> 0x80 \<le> byte c \<and> byte c \<le> 0xBF"

definition second :: "nat \<Rightarrow> char \<Rightarrow> bool" where
  "second b c \<longleftrightarrow>
    (if b = 0xE0 then 0xA0 else if b = 0xF0 then 0x90 else 0x80) \<le> byte c
    \<and> byte c \<le> (if b = 0xED then 0x9F else if b = 0xF4 then 0x8F else 0xBF)"

fun decode_rune :: "string \<Rightarrow> nat \<times> nat" where
  "decode_rune [] = (RuneError, 0)"
| "decode_rune (c # cs) =
    (let b = byte c in
     if b < 0x80 then (b, 1)
     else if 0xC2 \<le> b \<and> b \<le> 0xDF then
       (case cs of
          c1 # _ \<Rightarrow> (if cont c1 then ((b - 0xC0) * 64 + (byte c1 - 0x80), 2) else (RuneError, 1))
        | _ \<Rightarrow> (RuneError, 1))
     else if 0xE0 \<le> b \<and> b \<le> 0xEF then
       (case cs of
          c1 # c2 # _ \<Rightarrow>
            (if second b c1 \<and> cont c2
             then ((b - 0xE0) * 4096 + (byte c1 - 0x80) * 64 + (byte c2 - 0x80), 3) else (RuneError, 1))
        | _ \<Rightarrow> (RuneError, 1))
     else if 0xF0 \<le> b \<and> b \<le> 0xF4 then
       (case cs of
          c1 # c2 # c3 # _ \<Rightarrow>
            (if second b c1 \<and> cont c2 \<and> cont c3
             then ((b - 0xF0) * 262144 + (byte c1 - 0x80) * 4096 + (byte c2 - 0x80) * 64 + (byte c3 - 0x80), 4)
             else (RuneError, 1))
        | _ \<Rightarrow> (RuneError, 1))
     else (RuneError, 1))"

lemma decode_width: "decode_rune (c # cs) = (r, w) \<Longrightarrow> 1 \<le> w \<and> w \<le> length (c # cs)"
  by (auto simp: Let_def split: if_splits list.splits)

function runes :: "string \<Rightarrow> nat list" where
  "runes [] = []"
| "runes (c # cs) = (let (r, w) = decode_rune (c # cs) in r # runes (drop w (c # cs)))"
  by pat_completeness auto
termination
proof (relation "measure length", goal_cases)
  case (2 c cs x r w)
  then have "1 \<le> w" using decode_width[of c cs r w] by simp
  then show ?case by simp
qed simp

lemma runes_Nil_iff [simp]: "runes s = [] \<longleftrightarrow> s = []"
  by (cases s) (auto split: prod.split)

definition utf8 :: "nat list \<Rightarrow> string" where
  "utf8 rs = concat (map encode_rune rs)"

lemma utf8_simps [simp]: "utf8 [] = []" "utf8 (r # rs) = encode_rune r @ utf8 rs" "utf8 (rs @ qs) = utf8 rs @ utf8 qs"
  by (simp_all add: utf8_def)

lemma encode_nonempty [simp]: "encode_rune r \<noteq> []"
  by (simp add: encode_rune_def)

section \<open>Round trip\<close>

lemma byte_less: "byte c < 256"
  by simp

lemma byte_char_of [simp]: "n < 256 \<Longrightarrow> byte (char_of n) = n"
  by simp

lemma encode_1: "r < 0x80 \<Longrightarrow> encode_rune r = [char_of r]"
  by (simp add: encode_rune_def)

lemma encode_2: "0x80 \<le> r \<Longrightarrow> r < 0x800 \<Longrightarrow> encode_rune r = [char_of (0xC0 + r div 64), char_of (0x80 + r mod 64)]"
  by (simp add: encode_rune_def)

lemma encode_3: "0x800 \<le> r \<Longrightarrow> r < 0x10000 \<Longrightarrow> valid_rune r \<Longrightarrow>
    encode_rune r = [char_of (0xE0 + r div 4096), char_of (0x80 + r div 64 mod 64), char_of (0x80 + r mod 64)]"
  by (simp add: encode_rune_def)

lemma encode_4: "0x10000 \<le> r \<Longrightarrow> valid_rune r \<Longrightarrow>
    encode_rune r = [char_of (0xF0 + r div 262144), char_of (0x80 + r div 4096 mod 64),
      char_of (0x80 + r div 64 mod 64), char_of (0x80 + r mod 64)]"
  by (simp add: encode_rune_def)

lemma split_2:
  fixes r :: nat
  obtains a b where "a = r div 64" "b = r mod 64" "r = a * 64 + b" "b < 64"
proof -
  define a where "a = r div 64"
  define b where "b = r mod 64"
  have sum: "r = a * 64 + b" unfolding a_def b_def by (rule div_mult_mod_eq[symmetric])
  have b: "b < 64" by (simp add: b_def)
  show ?thesis by (rule that[OF a_def b_def sum b])
qed

lemma split_4:
  fixes r :: nat
  obtains a b c d where "a = r div 262144" "b = r div 4096 mod 64" "c = r div 64 mod 64" "d = r mod 64"
    "r = a * 262144 + b * 4096 + c * 64 + d" "b < 64" "c < 64" "d < 64"
proof -
  define s where "s = r div 64"
  define t where "t = s div 64"
  define a where "a = t div 64"
  define b where "b = t mod 64"
  define c where "c = s mod 64"
  define d where "d = r mod 64"
  have "r = s * 64 + d" "s = t * 64 + c" "t = a * 64 + b"
    unfolding a_def b_def c_def d_def s_def t_def by (rule div_mult_mod_eq[symmetric])+
  then have sum: "r = a * 262144 + b * 4096 + c * 64 + d" by linarith
  have at: "a = r div 262144" and t: "t = r div 4096" by (simp_all add: a_def t_def s_def flip: div_mult2_eq)
  show ?thesis
    by (rule that[OF at _ _ d_def sum]) (simp_all add: b_def c_def d_def s_def t[unfolded t_def s_def, symmetric] t_def)
qed

lemma split_3:
  fixes r :: nat
  obtains a b c where "a = r div 4096" "b = r div 64 mod 64" "c = r mod 64" "r = a * 4096 + b * 64 + c" "b < 64" "c < 64"
proof -
  define s where "s = r div 64"
  define a where "a = s div 64"
  define b where "b = s mod 64"
  define c where "c = r mod 64"
  have "r = s * 64 + c" "s = a * 64 + b"
    unfolding a_def b_def c_def s_def by (rule div_mult_mod_eq[symmetric])+
  then have sum: "r = a * 4096 + b * 64 + c" by linarith
  have at: "a = r div 4096" by (simp add: a_def s_def flip: div_mult2_eq)
  show ?thesis
    by (rule that[OF at _ c_def sum]) (simp_all add: b_def c_def s_def)
qed

lemma decode_encode:
  assumes "valid_rune r"
  shows "decode_rune (encode_rune r @ s) = (r, length (encode_rune r))"
proof -
  consider "r < 0x80" | "0x80 \<le> r" "r < 0x800" | "0x800 \<le> r" "r < 0x10000" | "0x10000 \<le> r" by linarith
  then show ?thesis
  proof cases
    case 1
    then show ?thesis by (simp add: encode_1)
  next
    case 2
    obtain a b where ab: "a = r div 64" "b = r mod 64" "r = a * 64 + b" "b < 64" by (rule split_2)
    have "2 \<le> a" "a < 32" using 2 ab(3,4) by linarith+
    then show ?thesis using ab(3,4) unfolding encode_2[OF 2] ab(1,2)[symmetric] by (simp add: Let_def cont_def)
  next
    case 3
    obtain a b c where abc: "a = r div 4096" "b = r div 64 mod 64" "c = r mod 64" "r = a * 4096 + b * 64 + c" "b < 64" "c < 64"
      by (rule split_3)
    have a: "a < 16" "a = 0 \<Longrightarrow> 32 \<le> b" using 3 abc(4-) by linarith+
    have "\<not> (0xD800 \<le> r \<and> r < 0xE000)" using assms by (simp add: valid_rune_def)
    then have "a = 13 \<Longrightarrow> b < 32" using abc(4-) by linarith
    then have "second (0xE0 + a) (char_of (0x80 + b))" using a abc(5) by (auto simp: second_def)
    then show ?thesis using a(1) abc(4-) unfolding encode_3[OF 3 assms] abc(1-3)[symmetric]
      by (simp add: Let_def cont_def)
  next
    case 4
    obtain a b c d where abc: "a = r div 262144" "b = r div 4096 mod 64" "c = r div 64 mod 64" "d = r mod 64"
      "r = a * 262144 + b * 4096 + c * 64 + d" "b < 64" "c < 64" "d < 64"
      by (rule split_4)
    have "r < 0x110000" using assms by (simp add: valid_rune_def)
    then have a: "a \<le> 4" "a = 0 \<Longrightarrow> 16 \<le> b" "a = 4 \<Longrightarrow> b < 16" using 4 abc(5-) by linarith+
    then have "second (0xF0 + a) (char_of (0x80 + b))" using abc(6) by (auto simp: second_def)
    then show ?thesis using a(1) abc(5-) unfolding encode_4[OF 4 assms] abc(1-4)[symmetric]
      by (simp add: Let_def cont_def)
  qed
qed

lemma valid_3:
  assumes "second b c1" "cont c2" "0xE0 \<le> b" "b \<le> 0xEF"
  shows "valid_rune ((b - 0xE0) * 4096 + (byte c1 - 0x80) * 64 + (byte c2 - 0x80))"
proof -
  obtain x y z where xyz: "b = 0xE0 + x" "byte c1 = 0x80 + y" "byte c2 = 0x80 + z"
  proof -
    have "0x80 \<le> byte c1" "0x80 \<le> byte c2" using assms(1,2) by (auto simp: second_def cont_def split: if_splits)
    with assms(3) that[of "b - 0xE0" "byte c1 - 0x80" "byte c2 - 0x80"] show ?thesis by simp
  qed
  have "x \<le> 15" "y < 64" "z < 64" "x = 13 \<Longrightarrow> y < 32"
    using assms unfolding second_def cont_def xyz by (auto split: if_splits)
  then have "x * 4096 + y * 64 + z < 0xD800 \<or> 0xE000 \<le> x * 4096 + y * 64 + z"
    by (cases "x \<le> 12"; cases "x = 13") auto
  moreover have "x * 4096 + y * 64 + z < 0x110000" using \<open>x \<le> 15\<close> \<open>y < 64\<close> \<open>z < 64\<close> by linarith
  ultimately show ?thesis by (auto simp: valid_rune_def xyz)
qed

lemma valid_4:
  assumes "second b c1" "cont c2" "cont c3" "0xF0 \<le> b" "b \<le> 0xF4"
  shows "valid_rune ((b - 0xF0) * 262144 + (byte c1 - 0x80) * 4096 + (byte c2 - 0x80) * 64 + (byte c3 - 0x80))"
proof -
  obtain x y z w where xyz: "b = 0xF0 + x" "byte c1 = 0x80 + y" "byte c2 = 0x80 + z" "byte c3 = 0x80 + w"
  proof -
    have "0x80 \<le> byte c1" "0x80 \<le> byte c2" "0x80 \<le> byte c3"
      using assms(1-3) by (auto simp: second_def cont_def split: if_splits)
    with assms(4) that[of "b - 0xF0" "byte c1 - 0x80" "byte c2 - 0x80" "byte c3 - 0x80"] show ?thesis by simp
  qed
  have "x \<le> 4" "y < 64" "z < 64" "w < 64" "x = 0 \<Longrightarrow> 16 \<le> y" "x = 4 \<Longrightarrow> y < 16"
    using assms unfolding second_def cont_def xyz by (auto split: if_splits)
  then have "0xE000 \<le> x * 262144 + y * 4096 + z * 64 + w \<and> x * 262144 + y * 4096 + z * 64 + w < 0x110000" by linarith
  then show ?thesis by (simp add: valid_rune_def xyz)
qed

lemma valid_2: "cont c1 \<Longrightarrow> b \<le> 0xDF \<Longrightarrow> valid_rune ((b - 0xC0) * 64 + (byte c1 - 0x80))"
  by (auto simp: valid_rune_def cont_def)

lemma decode_valid: "valid_rune (fst (decode_rune s))"
proof (cases s)
  case Nil
  then show ?thesis by (simp add: RuneError_def valid_rune_def)
next
  case (Cons c cs)
  have err: "valid_rune RuneError" by (simp add: RuneError_def valid_rune_def)
  have ascii: "n < 0x80 \<Longrightarrow> valid_rune n" for n by (simp add: valid_rune_def)
  consider "byte c < 0x80" | "0xC2 \<le> byte c" "byte c \<le> 0xDF" | "0xE0 \<le> byte c" "byte c \<le> 0xEF"
    | "0xF0 \<le> byte c" "byte c \<le> 0xF4" | "0x80 \<le> byte c" "byte c < 0xC2" | "0xF4 < byte c" by linarith
  then show ?thesis unfolding Cons
    by cases (auto simp: Let_def err ascii valid_2 valid_3 valid_4 split: list.split)
qed

declare decode_rune.simps(2) [simp del]

lemma runes_utf8: "\<forall>r\<in>set rs. valid_rune r \<Longrightarrow> runes (utf8 rs) = rs"
proof (induction rs)
  case (Cons r rs)
  have "runes (encode_rune r @ utf8 rs) = r # runes (utf8 rs)"
  proof (cases "encode_rune r")
    case (Cons c cs)
    have "decode_rune (c # cs @ utf8 rs) = (r, length (c # cs))"
      using decode_encode[of r "utf8 rs"] \<open>\<forall>r\<in>set (r # rs). valid_rune r\<close> unfolding Cons by simp
    then show ?thesis unfolding Cons by simp
  qed simp
  with Cons show ?case by simp
qed simp

end
