(* ===== verification/Objstore.thy ===== *)
theory Objstore
  imports Utf8
begin

text \<open>
  Object storage: \<^verbatim>\<open>src/internal/objstore\<close> (\<^verbatim>\<open>keys.go\<close>, \<^verbatim>\<open>store.go\<close>,
  \<^verbatim>\<open>memory.go\<close>).  The Go interface \<open>Store\<close> is a record of operations over a state of its
  own; its contract is the locale \<open>object_store\<close>, interpreted on the in-memory backend.  An
  object's bytes are a list of characters; \<open>sha\<close> is the hexadecimal SHA-256 of the
  standard library.
\<close>

section \<open>Keys\<close>

definition safe_rune :: "nat \<Rightarrow> bool" where
  "safe_rune r \<longleftrightarrow> (97 \<le> r \<and> r \<le> 122) \<or> (65 \<le> r \<and> r \<le> 90) \<or> (48 \<le> r \<and> r \<le> 57) \<or> r = 45 \<or> r = 95"

definition sanitizeSegment :: "string \<Rightarrow> string" where
  "sanitizeSegment s =
    (let b = map (\<lambda>r. if safe_rune r then char_of r else CHR ''_'') (runes s) in
     if b = [] then ''_'' else b)"

definition NewObjectKey :: "string \<Rightarrow> string \<Rightarrow> string \<Rightarrow> string" where
  "NewObjectKey newUUID kind ownerID = ''u/'' @ sanitizeSegment ownerID @ ''/'' @ newUUID"

definition VariantKey :: "string \<Rightarrow> string \<Rightarrow> string \<Rightarrow> string" where
  "VariantKey storyID variant ext =
    ''m/'' @ sanitizeSegment storyID @ ''/'' @ sanitizeSegment variant @ ''.'' @ sanitizeSegment ext"

definition safe_char :: "char \<Rightarrow> bool" where "safe_char c \<longleftrightarrow> safe_rune (byte c)"

lemma safe_rune_ascii: "safe_rune r \<Longrightarrow> r < 0x80"
  by (auto simp: safe_rune_def)

lemma sanitizeSegment_safe: "list_all safe_char (sanitizeSegment s) \<and> sanitizeSegment s \<noteq> []"
proof -
  have "safe_char (CHR ''_'')" by (simp add: safe_char_def safe_rune_def)
  moreover have "safe_char (char_of r)" if "safe_rune r" for r
    using that safe_rune_ascii[OF that] by (simp add: safe_char_def)
  ultimately show ?thesis by (auto simp: sanitizeSegment_def Let_def list_all_iff)
qed

lemma runes_ascii: "list_all (\<lambda>c. byte c < 0x80) s \<Longrightarrow> runes s = map of_char s"
  by (induction s) (simp_all add: decode_rune.simps Let_def)

lemma sanitizeSegment_id:
  assumes "list_all safe_char s" and "s \<noteq> []"
  shows "sanitizeSegment s = s"
proof -
  have "list_all (\<lambda>c. byte c < 0x80) s"
    using assms(1) by (auto simp: list_all_iff safe_char_def dest: safe_rune_ascii)
  from runes_ascii[OF this] assms show ?thesis
    by (auto simp: sanitizeSegment_def list_all_iff safe_char_def intro!: map_idI)
qed

lemma safe_no_separator: "safe_char c \<Longrightarrow> c \<noteq> CHR ''/'' \<and> c \<noteq> CHR ''.''"
  by (auto simp: safe_char_def safe_rune_def)

lemma split_at_unique:
  "x \<notin> set s \<Longrightarrow> x \<notin> set t \<Longrightarrow> s @ x # u = t @ x # v \<longleftrightarrow> s = t \<and> u = v"
proof (induction s arbitrary: t)
  case Nil
  then show ?case by (cases t) auto
next
  case (Cons a s)
  then show ?case by (cases t) auto
qed

lemma VariantKey_inject_segments:
  "VariantKey a b c = VariantKey a' b' c' \<longleftrightarrow>
    sanitizeSegment a = sanitizeSegment a' \<and> sanitizeSegment b = sanitizeSegment b' \<and> sanitizeSegment c = sanitizeSegment c'"
proof -
  have "CHR ''/'' \<notin> set (sanitizeSegment s)" "CHR ''.'' \<notin> set (sanitizeSegment s)" for s
    using sanitizeSegment_safe[of s] safe_no_separator by (auto simp: list_all_iff)
  then show ?thesis by (auto simp: VariantKey_def split_at_unique)
qed

section \<open>The interface\<close>

datatype obj_error = ErrNotExist | ErrObject string

record Object =
  ob_Body :: string
  ob_ContentType :: string
  ob_ContentLength :: int
  ob_ContentRange :: string
  ob_ETag :: string
  ob_StatusCode :: int

text \<open>\<open>Put\<close> takes what the reader yields, an error or bytes.  \<open>Put\<close> and \<open>Delete\<close> answer
  an error or nothing with the state they leave, since a failed call may have done part of the work.\<close>

record 'o objstore =
  os_Put :: "string \<Rightarrow> string \<Rightarrow> string + string \<Rightarrow> int \<Rightarrow> 'o \<Rightarrow> obj_error option \<times> 'o"
  os_Get :: "string \<Rightarrow> string \<Rightarrow> 'o \<Rightarrow> obj_error + Object"
  os_Head :: "string \<Rightarrow> 'o \<Rightarrow> obj_error + Object"
  os_Delete :: "string list \<Rightarrow> 'o \<Rightarrow> obj_error option \<times> 'o"

locale object_store =
  fixes S :: "'o objstore"
  assumes put_get: "os_Put S k ct (Inr data) n st = (None, st') \<Longrightarrow> \<exists>ob. os_Get S k '''' st' = Inr ob \<and> ob_Body ob = data"
    and put_other: "os_Put S k ct rd n st = (r, st') \<Longrightarrow> k' \<noteq> k \<Longrightarrow> os_Get S k' rng st' = os_Get S k' rng st"
    and delete_gone: "os_Delete S ks st = (None, st') \<Longrightarrow> k \<in> set ks \<Longrightarrow> os_Get S k rng st' = Inl ErrNotExist"
    and delete_other: "os_Delete S ks st = (r, st') \<Longrightarrow> k \<notin> set ks \<Longrightarrow> os_Get S k rng st' = os_Get S k rng st"
    and delete_kept: "os_Delete S ks st = (r, st') \<Longrightarrow> os_Get S k '''' st = Inl ErrNotExist \<Longrightarrow> os_Get S k '''' st' = Inl ErrNotExist"
    and head_get: "os_Head S k st = Inl ErrNotExist \<longleftrightarrow> os_Get S k '''' st = Inl ErrNotExist"
begin

lemma delete_then_head: "os_Delete S ks st = (None, st') \<Longrightarrow> k \<in> set ks \<Longrightarrow> os_Head S k st' = Inl ErrNotExist"
  by (simp add: head_get delete_gone)

lemma delete_twice:
  assumes "os_Delete S ks st = (None, st1)" and "os_Delete S ks st1 = (r, st2)" and "k \<notin> set ks"
  shows "os_Get S k rng st2 = os_Get S k rng st"
  using delete_other[OF assms(2,3)] delete_other[OF assms(1,3)] by simp

end

section \<open>Byte ranges\<close>

definition is_digit :: "char \<Rightarrow> bool" where
  "is_digit c \<longleftrightarrow> 48 \<le> byte c \<and> byte c \<le> 57"

text \<open>\<^verbatim>\<open>strconv.Atoi\<close> on a 64-bit platform: an optional sign, digits, and the range of int64.\<close>

definition Atoi :: "string \<Rightarrow> int option" where
  "Atoi s =
    (let neg = (take 1 s = ''-'');
         ds = (if take 1 s = ''-'' \<or> take 1 s = ''+'' then drop 1 s else s);
         v = (if neg then - int (undecimal_nat ds) else int (undecimal_nat ds)) in
     if ds = [] \<or> \<not> list_all is_digit ds then None
     else if - (2 ^ 63) \<le> v \<and> v < 2 ^ 63 then Some v else None)"

text \<open>\<^verbatim>\<open>strings.SplitN(spec, "-", 2)\<close>: the parts around the first dash.\<close>

definition split_dash :: "string \<Rightarrow> (string \<times> string) option" where
  "split_dash s =
    (if CHR ''-'' \<in> set s then Some (takeWhile (\<lambda>c. c \<noteq> CHR ''-'') s, drop 1 (dropWhile (\<lambda>c. c \<noteq> CHR ''-'') s))
     else None)"

definition bytes_prefix :: string where "bytes_prefix = ''bytes=''"

definition parseByteRange :: "string \<Rightarrow> int \<Rightarrow> (int \<times> int) option" where
  "parseByteRange header len =
    (if take 6 header \<noteq> bytes_prefix then None
     else (case split_dash (drop 6 header) of
       None \<Rightarrow> None
     | Some (from_part, upto_part) \<Rightarrow>
         (if from_part = '''' then
            (case Atoi upto_part of
               None \<Rightarrow> None
             | Some n \<Rightarrow> (if n \<le> 0 then None
                 else (let m = (if len < n then len else n) in Some (len - m, len - 1))))
          else
            (case Atoi from_part of
               None \<Rightarrow> None
             | Some s \<Rightarrow>
                 (if s < 0 \<or> len \<le> s then None
                  else if upto_part = '''' then Some (s, len - 1)
                  else (case Atoi upto_part of
                    None \<Rightarrow> None
                  | Some e \<Rightarrow> (if e < s then None else Some (s, if len \<le> e then len - 1 else e))))))))"

section \<open>The in-memory backend\<close>

record memObject =
  mo_data :: string
  mo_contentType :: string
  mo_etag :: string

type_synonym memoryStore = "string \<rightharpoonup> memObject"

definition memory_Put ::
  "(string \<Rightarrow> string) \<Rightarrow> string \<Rightarrow> string \<Rightarrow> string + string \<Rightarrow> int \<Rightarrow> memoryStore \<Rightarrow> obj_error option \<times> memoryStore" where
  "memory_Put sha key ct r len m =
    (if key = '''' then (Some (ErrObject ''objstore: key is required''), m)
     else (case r of
       Inl msg \<Rightarrow> (Some (ErrObject msg), m)
     | Inr data \<Rightarrow>
         (if 0 \<le> len \<and> int (length data) \<noteq> len then
            (Some (ErrObject (''objstore: declared size '' @ decimal len @ '' does not match ''
              @ decimal (int (length data)) @ '' bytes written'')), m)
          else (None, m(key \<mapsto> \<lparr>mo_data = data, mo_contentType = ct, mo_etag = sha data\<rparr>)))))"

definition slice :: "int \<Rightarrow> int \<Rightarrow> string \<Rightarrow> string" where
  "slice i j s = take (nat j - nat i) (drop (nat i) s)"

definition memory_Get :: "string \<Rightarrow> string \<Rightarrow> memoryStore \<Rightarrow> obj_error + Object" where
  "memory_Get key rangeHeader m =
    (case m key of
       None \<Rightarrow> Inl ErrNotExist
     | Some mo \<Rightarrow>
         (let len = int (length (mo_data mo));
              full = \<lparr>ob_Body = mo_data mo, ob_ContentType = mo_contentType mo, ob_ContentLength = len,
                ob_ContentRange = '''', ob_ETag = mo_etag mo, ob_StatusCode = 200\<rparr> in
          if rangeHeader = '''' then Inr full
          else (case parseByteRange rangeHeader len of
            None \<Rightarrow> Inr full
          | Some (a, z) \<Rightarrow>
              (let data = slice a (z + 1) (mo_data mo) in
               Inr \<lparr>ob_Body = data, ob_ContentType = mo_contentType mo, ob_ContentLength = int (length data),
                 ob_ContentRange = ''bytes '' @ decimal a @ ''-'' @ decimal z @ ''/'' @ decimal len,
                 ob_ETag = mo_etag mo, ob_StatusCode = 206\<rparr>))))"

definition memory_Head :: "string \<Rightarrow> memoryStore \<Rightarrow> obj_error + Object" where
  "memory_Head key m =
    (case m key of
       None \<Rightarrow> Inl ErrNotExist
     | Some mo \<Rightarrow> Inr \<lparr>ob_Body = '''', ob_ContentType = mo_contentType mo, ob_ContentLength = int (length (mo_data mo)),
         ob_ContentRange = '''', ob_ETag = mo_etag mo, ob_StatusCode = 200\<rparr>)"

definition memory_Delete :: "string list \<Rightarrow> memoryStore \<Rightarrow> obj_error option \<times> memoryStore" where
  "memory_Delete keys m = (None, foldl (\<lambda>m k. m(k := None)) m keys)"

definition memory_PresignPut :: "string \<Rightarrow> string \<Rightarrow> int \<Rightarrow> string \<times> (string \<times> string) list" where
  "memory_PresignPut key ct len =
    (''memory://'' @ key, [(''Content-Type'', ct), (''Content-Length'', decimal len)])"

definition NewMemory :: "(string \<Rightarrow> string) \<Rightarrow> memoryStore objstore" where
  "NewMemory sha = \<lparr>os_Put = memory_Put sha, os_Get = memory_Get, os_Head = memory_Head, os_Delete = memory_Delete\<rparr>"

lemma memory_Delete_apply: "foldl (\<lambda>m k. m(k := None)) m keys k = (if k \<in> set keys then None else m k)"
  by (induction keys arbitrary: m) auto

interpretation memory: object_store "NewMemory sha"
proof (unfold_locales, goal_cases)
  case (1 k ct data n st st')
  then show ?case by (auto simp: NewMemory_def memory_Put_def memory_Get_def split: if_splits)
next
  case (2 k ct rd n st r st' k' rng)
  then have "st' k' = st k'" by (auto simp: NewMemory_def memory_Put_def split: if_splits sum.splits)
  then show ?case by (simp add: NewMemory_def memory_Get_def)
next
  case (3 ks st st' k rng)
  then have "st' k = None" by (auto simp: NewMemory_def memory_Delete_def memory_Delete_apply)
  then show ?case by (simp add: NewMemory_def memory_Get_def)
next
  case (4 ks st r st' k rng)
  then have "st' k = st k" by (auto simp: NewMemory_def memory_Delete_def memory_Delete_apply)
  then show ?case by (simp add: NewMemory_def memory_Get_def)
next
  case (5 ks st r st' k)
  then have "st' k = None" by (auto simp: NewMemory_def memory_Delete_def memory_Delete_apply memory_Get_def Let_def split: option.splits)
  then show ?case by (simp add: NewMemory_def memory_Get_def)
next
  case (6 k st)
  show ?case by (auto simp: NewMemory_def memory_Head_def memory_Get_def split: option.split)
qed

section \<open>Properties\<close>

lemma parseByteRange_bounds:
  assumes "0 \<le> len" and "parseByteRange h len = Some (a, z)"
  shows "0 \<le> a \<and> a \<le> z + 1 \<and> z < len \<and> (0 < len \<longrightarrow> a \<le> z)"
  using assms by (auto simp: parseByteRange_def Let_def split: if_splits option.splits)

text \<open>A range request is served within the object: the accepted bounds are valid slice
  bounds of the stored bytes, the body is that slice, it is not empty unless the object is, and a
  header that is not accepted gets the whole object.\<close>

theorem memory_Get_range:
  assumes "m key = Some mo"
  shows "case parseByteRange h (int (length (mo_data mo))) of
      None \<Rightarrow> (\<exists>ob. memory_Get key h m = Inr ob \<and> ob_Body ob = mo_data mo \<and> ob_StatusCode ob = 200)
    | Some (a, z) \<Rightarrow> 0 \<le> a \<and> a \<le> z + 1 \<and> z < int (length (mo_data mo)) \<and> (mo_data mo \<noteq> [] \<longrightarrow> a \<le> z)
        \<and> (\<exists>ob pre post. memory_Get key h m = Inr ob \<and> mo_data mo = pre @ ob_Body ob @ post
            \<and> int (length pre) = a \<and> int (length (ob_Body ob)) = z + 1 - a \<and> ob_ContentLength ob = z + 1 - a
            \<and> ob_StatusCode ob = 206)"
proof (cases "parseByteRange h (int (length (mo_data mo)))")
  case None
  with assms show ?thesis by (auto simp: memory_Get_def Let_def)
next
  case (Some p)
  obtain a z where p: "p = (a, z)" by (cases p)
  let ?s = "mo_data mo"
  have "h \<noteq> ''''" using Some by (auto simp: parseByteRange_def bytes_prefix_def)
  then obtain ob where ob: "memory_Get key h m = Inr ob" "ob_Body ob = slice a (z + 1) ?s"
    "ob_ContentLength ob = int (length (slice a (z + 1) ?s))" "ob_StatusCode ob = 206"
    using assms Some p by (auto simp: memory_Get_def Let_def)
  from parseByteRange_bounds[OF _ Some[unfolded p]]
  have b: "0 \<le> a" "a \<le> z + 1" "z < int (length ?s)" "?s \<noteq> [] \<longrightarrow> a \<le> z" by auto
  have "\<exists>pre post. ?s = pre @ slice a (z + 1) ?s @ post \<and> int (length pre) = a"
  proof (intro exI conjI)
    show "?s = take (nat a) ?s @ slice a (z + 1) ?s @ drop (nat (z + 1) - nat a) (drop (nat a) ?s)"
      by (simp only: slice_def append_take_drop_id)
    show "int (length (take (nat a) ?s)) = a" using b by (auto simp: min_def)
  qed
  moreover have "int (length (slice a (z + 1) ?s)) = z + 1 - a"
    using b by (auto simp: slice_def min_def)
  ultimately show ?thesis using Some p b ob by auto
qed

theorem memory_Get_range_witness:
  "parseByteRange ''bytes=1-2'' 4 = Some (1, 2) \<and> parseByteRange ''bytes=-9'' 4 = Some (0, 3)
    \<and> (\<exists>ob. memory_Get ''k'' ''bytes=1-2'' [''k'' \<mapsto> \<lparr>mo_data = ''abcd'', mo_contentType = ''t'', mo_etag = ''''\<rparr>] = Inr ob
        \<and> ob_ContentLength ob = 2)"
proof -
  have r: "parseByteRange ''bytes=1-2'' 4 = Some (1, 2)" "parseByteRange ''bytes=-9'' 4 = Some (0, 3)" by code_simp+
  let ?mo = "\<lparr>mo_data = ''abcd'', mo_contentType = ''t'', mo_etag = ''''\<rparr>"
  have "[''k'' \<mapsto> ?mo] ''k'' = Some ?mo" by simp
  from memory_Get_range[where m = "[''k'' \<mapsto> ?mo]" and key = "''k''" and mo = ?mo and h = "''bytes=1-2''", OF this] r
  show ?thesis by auto
qed

text \<open>The keys of published media are unambiguous: two variants share a key only when they
  are the same variant of the same Story with the same extension, a segment cannot leave its place
  in the key, and no variant key is the key of an upload.\<close>

theorem VariantKey_injective:
  assumes "list_all safe_char a" "list_all safe_char b" "list_all safe_char c" "a \<noteq> []" "b \<noteq> []" "c \<noteq> []"
    and "list_all safe_char a'" "list_all safe_char b'" "list_all safe_char c'" "a' \<noteq> []" "b' \<noteq> []" "c' \<noteq> []"
  shows "(VariantKey a b c = VariantKey a' b' c' \<longleftrightarrow> a = a' \<and> b = b' \<and> c = c')
    \<and> VariantKey a b c \<noteq> NewObjectKey u kind owner"
proof
  show "VariantKey a b c = VariantKey a' b' c' \<longleftrightarrow> a = a' \<and> b = b' \<and> c = c'"
    using assms by (simp add: VariantKey_inject_segments sanitizeSegment_id)
qed (simp add: VariantKey_def NewObjectKey_def)

theorem VariantKey_injective_witness:
  "VariantKey ''a-1'' ''image'' ''jpg'' \<noteq> VariantKey ''a-1'' ''thumb'' ''jpg''"
proof -
  have s: "list_all safe_char ''a-1''" "list_all safe_char ''image''" "list_all safe_char ''thumb''" "list_all safe_char ''jpg''"
    by (simp_all add: safe_char_def safe_rune_def)
  from VariantKey_injective[OF s(1) s(2) s(4) _ _ _ s(1) s(3) s(4)] show ?thesis by simp
qed

end
