(* ===== verification/ServiceConfig.thy ===== *)
theory ServiceConfig
  imports Objstore
begin

text \<open>
  The configuration of the service: \<^verbatim>\<open>src/internal/config/config.go\<close>.  The environment is a
  lookup function, \<open>parse\<close> is the parser of \<^verbatim>\<open>net/url\<close>; an error is its message.
\<close>

section \<open>Texts\<close>

definition TrimSuffix :: "string \<Rightarrow> string \<Rightarrow> string" where
  "TrimSuffix s suffix =
    (if suffix = drop (length s - length suffix) s then take (length s - length suffix) s else s)"

definition HasPrefix :: "string \<Rightarrow> string \<Rightarrow> bool" where
  "HasPrefix s p \<longleftrightarrow> take (length p) s = p"

definition HasSuffix :: "string \<Rightarrow> string \<Rightarrow> bool" where
  "HasSuffix s p \<longleftrightarrow> length p \<le> length s \<and> drop (length s - length p) s = p"

fun Contains :: "string \<Rightarrow> string \<Rightarrow> bool" where
  "Contains [] p = (p = [])"
| "Contains (c # s) p = (HasPrefix (c # s) p \<or> Contains s p)"

fun split_on :: "char \<Rightarrow> string \<Rightarrow> string list" where
  "split_on sep [] = [[]]"
| "split_on sep (c # cs) =
    (if c = sep then [] # split_on sep cs
     else (case split_on sep cs of [] \<Rightarrow> [[c]] | w # ws \<Rightarrow> (c # w) # ws))"

fun join :: "string \<Rightarrow> string list \<Rightarrow> string" where
  "join sep [] = []"
| "join sep [w] = w"
| "join sep (w # v # ws) = w @ sep @ join sep (v # ws)"

text \<open>\<^verbatim>\<open>strconv.ParseBool\<close> and \<^verbatim>\<open>strconv.ParseInt\<close> with their errors ignored: the
  latter keeps the nearest value when the number is out of range.\<close>

definition boolOf :: "string \<Rightarrow> bool" where
  "boolOf s \<longleftrightarrow> TrimSpace s \<in> {''1'', ''t'', ''T'', ''TRUE'', ''true'', ''True''}"

definition ParseInt :: "string \<Rightarrow> int option \<times> int" where
  "ParseInt s =
    (let neg = (take 1 s = ''-'');
         ds = (if take 1 s = ''-'' \<or> take 1 s = ''+'' then drop 1 s else s);
         v = (if neg then - int (undecimal_nat ds) else int (undecimal_nat ds)) in
     if ds = [] \<or> \<not> list_all is_digit ds then (None, 0)
     else if v < - (2 ^ 63) then (None, - (2 ^ 63))
     else if 2 ^ 63 \<le> v then (None, 2 ^ 63 - 1)
     else (Some v, v))"

definition int64Of :: "string \<Rightarrow> int" where
  "int64Of s = snd (ParseInt (TrimSpace s))"

section \<open>The configuration\<close>

record url =
  url_Scheme :: string
  url_Host :: string
  url_Hostname :: string
  url_Path :: string
  url_Tail :: string

definition url_String :: "url \<Rightarrow> string" where
  "url_String u = url_Scheme u @ ''://'' @ url_Host u @ url_Path u @ url_Tail u"

record ServiceConfig =
  cf_Env :: string
  cf_HTTPAddr :: string
  cf_PublicURL :: "url option"
  cf_AllowedOrigins :: "string list"
  cf_DatabaseURL :: string
  cf_S3Endpoint :: string
  cf_S3Region :: string
  cf_S3Bucket :: string
  cf_S3AccessKeyID :: string
  cf_S3SecretKey :: string
  cf_S3ForcePathStyle :: bool
  cf_GitHubClientID :: string
  cf_GitHubClientSecret :: string
  cf_SecretKey :: string
  cf_WorkerTriggerURL :: string
  cf_MaxUploadBytes :: int
  cf_MaxVideoSeconds :: int
  cf_MaxImagePixels :: int
  cf_ModeratorGitHubIDs :: "int list"
  cf_TestIdentityProvider :: bool
  cf_TestClock :: bool
  cf_StoryLifetime :: duration
  cf_ReplyRetention :: duration
  cf_ViewRetention :: duration
  cf_UploadIntentTTL :: duration
  cf_SessionTTL :: duration
  cf_PendingLoginTTL :: duration
  cf_PhysicalDeleteTarget :: duration

definition GitHubOAuthConfigured :: "ServiceConfig \<Rightarrow> bool" where
  "GitHubOAuthConfigured c \<longleftrightarrow> cf_GitHubClientID c \<noteq> '''' \<and> cf_GitHubClientSecret c \<noteq> ''''"

definition public_url :: "ServiceConfig \<Rightarrow> string" where
  "public_url c = (case cf_PublicURL c of None \<Rightarrow> '''' | Some u \<Rightarrow> url_String u)"

definition OAuthCallbackURL :: "ServiceConfig \<Rightarrow> string" where
  "OAuthCallbackURL c = public_url c @ ''/v1/auth/github/callback''"

definition OriginAllowed :: "ServiceConfig \<Rightarrow> string \<Rightarrow> bool" where
  "OriginAllowed c origin \<longleftrightarrow> list_ex (\<lambda>o'. o' = TrimSuffix origin ''/'') (cf_AllowedOrigins c)"

definition isLoopback :: "string \<Rightarrow> bool" where
  "isLoopback host \<longleftrightarrow> lower host \<in> {''localhost'', ''127.0.0.1'', ''::1'', ''0.0.0.0''}
    \<or> HasSuffix (lower host) ''.localhost''"

definition isLoopbackOrigin :: "(string \<Rightarrow> url option) \<Rightarrow> string \<Rightarrow> bool" where
  "isLoopbackOrigin parse origin = (case parse origin of None \<Rightarrow> False | Some u \<Rightarrow> isLoopback (url_Hostname u))"

definition production_problems :: "(string \<Rightarrow> url option) \<Rightarrow> ServiceConfig \<Rightarrow> string list" where
  "production_problems parse c =
    (if cf_TestIdentityProvider c then [''GHS_TEST_IDENTITY_PROVIDER must be false in production''] else [])
    @ (if cf_TestClock c then [''GHS_TEST_CLOCK must be false in production''] else [])
    @ (if cf_GitHubClientID c = '''' \<or> cf_GitHubClientSecret c = ''''
       then [''GHS_GITHUB_CLIENT_ID and GHS_GITHUB_CLIENT_SECRET are required in production''] else [])
    @ (case cf_PublicURL c of None \<Rightarrow> []
       | Some u \<Rightarrow> (if url_Scheme u \<noteq> ''https'' then [''GHS_PUBLIC_URL must use https in production''] else [])
           @ (if isLoopback (url_Hostname u) then [''GHS_PUBLIC_URL must not be a loopback address in production''] else []))
    @ (if cf_WorkerTriggerURL c \<noteq> '''' \<and> \<not> HasPrefix (cf_WorkerTriggerURL c) ''https://''
       then [''GHS_WORKER_TRIGGER_URL must use https in production''] else [])
    @ (if Contains (lower (cf_SecretKey c)) ''change-me''
       then [''GHS_SECRET_KEY is still the development placeholder''] else [])
    @ [''GHS_ALLOWED_ORIGINS contains a plaintext origin: '' @ o'. o' \<leftarrow> cf_AllowedOrigins c,
        HasPrefix o' ''http://'' \<and> \<not> isLoopbackOrigin parse o']"

definition validate :: "(string \<Rightarrow> url option) \<Rightarrow> ServiceConfig \<Rightarrow> string option" where
  "validate parse c =
    (if length (cf_SecretKey c) < 32 then Some ''GHS_SECRET_KEY must be at least 32 bytes''
     else if cf_MaxUploadBytes c \<le> 0 \<or> cf_MaxVideoSeconds c \<le> 0 \<or> cf_MaxImagePixels c \<le> 0
     then Some ''upload limits must be positive''
     else if cf_Env c \<noteq> ''production'' then None
     else (case production_problems parse c of
         [] \<Rightarrow> None
       | ps \<Rightarrow> Some (''refusing to start in production:'' @ [CHR 0x0A] @ ''  - '' @ join ([CHR 0x0A] @ ''  - '') ps)))"

section \<open>Loading\<close>

definition get_or :: "(string \<Rightarrow> string option) \<Rightarrow> string \<Rightarrow> string \<Rightarrow> string" where
  "get_or lookup k def =
    (case lookup k of None \<Rightarrow> def | Some v \<Rightarrow> if TrimSpace v \<noteq> '''' then TrimSpace v else def)"

definition required :: "string list" where
  "required = [''GHS_DATABASE_URL'', ''GHS_S3_BUCKET'', ''GHS_S3_ACCESS_KEY_ID'', ''GHS_S3_SECRET_ACCESS_KEY'',
    ''GHS_PUBLIC_URL'', ''GHS_SECRET_KEY'']"

definition missing_names :: "(string \<Rightarrow> string option) \<Rightarrow> string list" where
  "missing_names lookup = filter (\<lambda>k. get_or lookup k '''' = '''') required"

text \<open>The names are sorted in the message.\<close>

definition MissingError_text :: "string list \<Rightarrow> string" where
  "MissingError_text names = ''missing required configuration: ''
    @ join '', '' (sort_key (\<lambda>n. map of_char n :: nat list) names)"

fun moderator_ids :: "string list \<Rightarrow> int list option" where
  "moderator_ids [] = Some []"
| "moderator_ids (raw # raws) =
    (if TrimSpace raw = '''' then moderator_ids raws
     else (case fst (ParseInt (TrimSpace raw)) of
         None \<Rightarrow> None
       | Some i \<Rightarrow> map_option (\<lambda>is. i # is) (moderator_ids raws)))"

definition public_url_of :: "(string \<Rightarrow> url option) \<Rightarrow> string \<Rightarrow> string + url option" where
  "public_url_of parse raw =
    (if raw = '''' then Inr None
     else (case parse raw of
         None \<Rightarrow> Inl ''GHS_PUBLIC_URL must be an absolute URL''
       | Some u \<Rightarrow> if url_Scheme u = '''' \<or> url_Host u = '''' then Inl ''GHS_PUBLIC_URL must be an absolute URL''
           else Inr (Some (u\<lparr>url_Path := TrimSuffix (url_Path u) ''/''\<rparr>))))"

definition origins_of :: "string \<Rightarrow> string list" where
  "origins_of raw = map (\<lambda>w. TrimSuffix w ''/'') (filter (\<lambda>w. w \<noteq> '''') (map TrimSpace (split_on CHR '','' raw)))"

definition Day :: duration where "Day = 24 * Hour"

definition load :: "(string \<Rightarrow> url option) \<Rightarrow> (string \<Rightarrow> string option) \<Rightarrow> string + ServiceConfig" where
  "load parse lookup =
    (let get = get_or lookup; env = get ''GHS_ENV'' ''local'' in
     if env \<notin> {''local'', ''test'', ''production''} then Inl ''GHS_ENV must be one of local, test, production''
     else (case public_url_of parse (get ''GHS_PUBLIC_URL'' '''') of
       Inl e \<Rightarrow> Inl e
     | Inr url \<Rightarrow> (case moderator_ids (split_on CHR '','' (get ''GHS_MODERATOR_GITHUB_IDS'' '''')) of
         None \<Rightarrow> Inl ''GHS_MODERATOR_GITHUB_IDS must be a comma-separated list of GitHub numeric user ids''
       | Some mods \<Rightarrow>
           (let c = \<lparr>cf_Env = env, cf_HTTPAddr = get ''GHS_HTTP_ADDR'' '':8787'', cf_PublicURL = url,
              cf_AllowedOrigins = origins_of (get ''GHS_ALLOWED_ORIGINS'' ''''),
              cf_DatabaseURL = get ''GHS_DATABASE_URL'' '''', cf_S3Endpoint = get ''GHS_S3_ENDPOINT'' '''',
              cf_S3Region = get ''GHS_S3_REGION'' ''us-east-1'', cf_S3Bucket = get ''GHS_S3_BUCKET'' '''',
              cf_S3AccessKeyID = get ''GHS_S3_ACCESS_KEY_ID'' '''', cf_S3SecretKey = get ''GHS_S3_SECRET_ACCESS_KEY'' '''',
              cf_S3ForcePathStyle = boolOf (get ''GHS_S3_FORCE_PATH_STYLE'' ''false''),
              cf_GitHubClientID = get ''GHS_GITHUB_CLIENT_ID'' '''', cf_GitHubClientSecret = get ''GHS_GITHUB_CLIENT_SECRET'' '''',
              cf_SecretKey = get ''GHS_SECRET_KEY'' '''', cf_WorkerTriggerURL = get ''GHS_WORKER_TRIGGER_URL'' '''',
              cf_MaxUploadBytes = int64Of (get ''GHS_MAX_UPLOAD_BYTES'' ''104857600''),
              cf_MaxVideoSeconds = int64Of (get ''GHS_MAX_VIDEO_SECONDS'' ''60''),
              cf_MaxImagePixels = int64Of (get ''GHS_MAX_IMAGE_PIXELS'' ''50000000''),
              cf_ModeratorGitHubIDs = mods,
              cf_TestIdentityProvider = boolOf (get ''GHS_TEST_IDENTITY_PROVIDER'' ''false''),
              cf_TestClock = boolOf (get ''GHS_TEST_CLOCK'' ''false''),
              cf_StoryLifetime = 24 * Hour, cf_ReplyRetention = 30 * Day, cf_ViewRetention = 7 * Day,
              cf_UploadIntentTTL = 30 * Minute, cf_SessionTTL = 90 * Day, cf_PendingLoginTTL = 10 * Minute,
              cf_PhysicalDeleteTarget = 15 * Minute\<rparr> in
            if missing_names lookup \<noteq> [] then Inl (MissingError_text (missing_names lookup))
            else (case validate parse c of Some e \<Rightarrow> Inl e | None \<Rightarrow> Inr c)))))"

section \<open>What a loaded configuration guarantees\<close>

lemma validate_None:
  assumes "validate parse c = None"
  shows "32 \<le> length (cf_SecretKey c) \<and> 0 < cf_MaxUploadBytes c \<and> 0 < cf_MaxVideoSeconds c \<and> 0 < cf_MaxImagePixels c
    \<and> (cf_Env c = ''production'' \<longrightarrow> production_problems parse c = [])"
  using assms by (auto simp: validate_def split: if_splits list.splits)

lemma production_problems_Nil:
  assumes "production_problems parse c = []"
  shows "\<not> cf_TestIdentityProvider c \<and> \<not> cf_TestClock c \<and> GitHubOAuthConfigured c
    \<and> (\<forall>u. cf_PublicURL c = Some u \<longrightarrow> url_Scheme u = ''https'' \<and> \<not> isLoopback (url_Hostname u))
    \<and> (cf_WorkerTriggerURL c = '''' \<or> HasPrefix (cf_WorkerTriggerURL c) ''https://'')
    \<and> \<not> Contains (lower (cf_SecretKey c)) ''change-me''
    \<and> (\<forall>o'\<in>set (cf_AllowedOrigins c). HasPrefix o' ''http://'' \<longrightarrow> isLoopbackOrigin parse o')"
  using assms by (auto simp: production_problems_def GitHubOAuthConfigured_def split: if_splits option.splits)

lemma load_Inr:
  assumes "load parse lookup = Inr c"
  shows "missing_names lookup = [] \<and> validate parse c = None
    \<and> public_url_of parse (get_or lookup ''GHS_PUBLIC_URL'' '''') = Inr (cf_PublicURL c)
    \<and> cf_Env c \<in> {''local'', ''test'', ''production''}"
proof -
  let ?get = "get_or lookup"
  obtain url where u: "public_url_of parse (?get ''GHS_PUBLIC_URL'' '''') = Inr url"
    using assms by (cases "public_url_of parse (?get ''GHS_PUBLIC_URL'' '''')") (auto simp: load_def Let_def split: if_splits)
  obtain mods where m: "moderator_ids (split_on CHR '','' (?get ''GHS_MODERATOR_GITHUB_IDS'' '''')) = Some mods"
    using assms u by (cases "moderator_ids (split_on CHR '','' (?get ''GHS_MODERATOR_GITHUB_IDS'' ''''))")
      (auto simp: load_def Let_def split: if_splits)
  show ?thesis using assms u m by (auto simp: load_def Let_def split: if_splits option.splits)
qed

text \<open>A process that starts is configured safely: no required variable is missing, the limits are
  positive and the secret has at least 32 bytes; in production there is no test identity provider and
  no test clock, GitHub sign-in is configured, the service has a public https URL that is not a
  loopback address, and every plaintext origin that may send credentials is a loopback origin.\<close>

theorem load_production_safe:
  assumes "load parse lookup = Inr c"
  shows "missing_names lookup = [] \<and> 0 < cf_MaxUploadBytes c \<and> 32 \<le> length (cf_SecretKey c)
    \<and> (cf_Env c = ''production'' \<longrightarrow>
        \<not> cf_TestIdentityProvider c \<and> \<not> cf_TestClock c \<and> GitHubOAuthConfigured c
        \<and> (\<exists>u. cf_PublicURL c = Some u \<and> url_Scheme u = ''https'' \<and> \<not> isLoopback (url_Hostname u))
        \<and> (\<forall>origin. OriginAllowed c origin \<longrightarrow> HasPrefix (TrimSuffix origin ''/'') ''http://''
             \<longrightarrow> isLoopbackOrigin parse (TrimSuffix origin ''/'')))"
proof -
  note L = load_Inr[OF assms]
  have "''GHS_PUBLIC_URL'' \<in> set required" by (simp add: required_def)
  then have "get_or lookup ''GHS_PUBLIC_URL'' '''' \<noteq> ''''"
    using L by (simp add: missing_names_def filter_empty_conv)
  then have "\<exists>u. cf_PublicURL c = Some u"
    by (cases "cf_PublicURL c") (use L in \<open>auto simp: public_url_of_def split: if_splits option.splits\<close>)
  moreover have "OriginAllowed c origin \<Longrightarrow> TrimSuffix origin ''/'' \<in> set (cf_AllowedOrigins c)" for origin
    by (auto simp: OriginAllowed_def list_ex_iff)
  ultimately show ?thesis
    using L validate_None[of parse c] production_problems_Nil[of parse c] by blast
qed

definition wit_lookup :: "string \<Rightarrow> string option" where
  "wit_lookup = map_of [(''GHS_ENV'', ''production''), (''GHS_DATABASE_URL'', ''d''), (''GHS_S3_BUCKET'', ''b''),
    (''GHS_S3_ACCESS_KEY_ID'', ''k''), (''GHS_S3_SECRET_ACCESS_KEY'', ''s''), (''GHS_PUBLIC_URL'', ''https://stories.example''),
    (''GHS_SECRET_KEY'', ''0123456789abcdef0123456789abcdef''), (''GHS_GITHUB_CLIENT_ID'', ''i''),
    (''GHS_GITHUB_CLIENT_SECRET'', ''t'')]"

definition wit_parse :: "string \<Rightarrow> url option" where
  "wit_parse s = Some \<lparr>url_Scheme = ''https'', url_Host = ''stories.example'', url_Hostname = ''stories.example'',
    url_Path = '''', url_Tail = ''''\<rparr>"

lemma wit_gets:
  "get_or wit_lookup ''GHS_ENV'' ''local'' = ''production''"
  "get_or wit_lookup ''GHS_HTTP_ADDR'' '':8787'' = '':8787''"
  "get_or wit_lookup ''GHS_PUBLIC_URL'' '''' = ''https://stories.example''"
  "get_or wit_lookup ''GHS_MODERATOR_GITHUB_IDS'' '''' = ''''"
  "get_or wit_lookup ''GHS_ALLOWED_ORIGINS'' '''' = ''''"
  "get_or wit_lookup ''GHS_DATABASE_URL'' '''' = ''d''" "get_or wit_lookup ''GHS_S3_BUCKET'' '''' = ''b''"
  "get_or wit_lookup ''GHS_S3_ENDPOINT'' '''' = ''''" "get_or wit_lookup ''GHS_S3_REGION'' ''us-east-1'' = ''us-east-1''"
  "get_or wit_lookup ''GHS_S3_ACCESS_KEY_ID'' '''' = ''k''" "get_or wit_lookup ''GHS_S3_SECRET_ACCESS_KEY'' '''' = ''s''"
  "get_or wit_lookup ''GHS_S3_FORCE_PATH_STYLE'' ''false'' = ''false''"
  "get_or wit_lookup ''GHS_GITHUB_CLIENT_ID'' '''' = ''i''" "get_or wit_lookup ''GHS_GITHUB_CLIENT_SECRET'' '''' = ''t''"
  "get_or wit_lookup ''GHS_SECRET_KEY'' '''' = ''0123456789abcdef0123456789abcdef''"
  "get_or wit_lookup ''GHS_WORKER_TRIGGER_URL'' '''' = ''''"
  "get_or wit_lookup ''GHS_MAX_UPLOAD_BYTES'' ''104857600'' = ''104857600''"
  "get_or wit_lookup ''GHS_MAX_VIDEO_SECONDS'' ''60'' = ''60''"
  "get_or wit_lookup ''GHS_MAX_IMAGE_PIXELS'' ''50000000'' = ''50000000''"
  "get_or wit_lookup ''GHS_TEST_IDENTITY_PROVIDER'' ''false'' = ''false''"
  "get_or wit_lookup ''GHS_TEST_CLOCK'' ''false'' = ''false''"
  by code_simp+

lemma wit_values:
  "int64Of ''104857600'' = 104857600" "int64Of ''60'' = 60" "int64Of ''50000000'' = 50000000"
  "boolOf ''false'' = False" "moderator_ids (split_on CHR '','' '''') = Some []" "origins_of '''' = []"
  "isLoopback ''stories.example'' = False" "Contains (lower ''0123456789abcdef0123456789abcdef'') ''change-me'' = False"
  by (simp_all add: int64Of_def ParseInt_def TrimSpace_def is_space_def undecimal_nat_def digit_value_def is_digit_def
      boolOf_def origins_of_def isLoopback_def HasSuffix_def HasPrefix_def lower_def lower_char_def)

theorem load_production_safe_witness:
  "\<exists>c. load wit_parse wit_lookup = Inr c \<and> cf_Env c = ''production'' \<and> \<not> cf_TestIdentityProvider c"
proof -
  have "missing_names wit_lookup = []" by (simp add: missing_names_def required_def wit_gets)
  then have "\<exists>c. load wit_parse wit_lookup = Inr c \<and> cf_Env c = ''production''"
    by (simp add: load_def Let_def wit_gets wit_values public_url_of_def wit_parse_def validate_def
        production_problems_def TrimSuffix_def TrimSpace_def)
  then obtain c where "load wit_parse wit_lookup = Inr c" "cf_Env c = ''production''" by auto
  then show ?thesis using load_production_safe by blast
qed

end
