(* ===== verification/Pkce.thy ===== *)
theory Pkce
  imports Utf8
begin

text \<open>
  The random values of \<^verbatim>\<open>src/internal/auth/pkce.go\<close>: verifiers, states, tokens and user codes.
  What \<^verbatim>\<open>crypto/rand\<close> draws is an argument (the bytes, the indices into the alphabet), and so is
  the hash function; \<open>base64url\<close> is the unpadded encoding of \<^verbatim>\<open>encoding/base64\<close> that the
  source uses.
\<close>

section \<open>base64url\<close>

definition b64_alphabet :: string where
  "b64_alphabet = ''ABCDEFGHIJKLMNOPQRSTUVWXYZabcdefghijklmnopqrstuvwxyz0123456789-_''"

definition sextet :: "nat \<Rightarrow> char" where
  "sextet n = b64_alphabet ! n"

fun base64url :: "string \<Rightarrow> string" where
  "base64url [] = []"
| "base64url [a] = [sextet (byte a div 4), sextet (byte a mod 4 * 16)]"
| "base64url [a, b] = [sextet (byte a div 4), sextet (byte a mod 4 * 16 + byte b div 16), sextet (byte b mod 16 * 4)]"
| "base64url (a # b # c # bs) =
    [sextet (byte a div 4), sextet (byte a mod 4 * 16 + byte b div 16),
     sextet (byte b mod 16 * 4 + byte c div 64), sextet (byte c mod 64)] @ base64url bs"

section \<open>The values\<close>

definition verifierBytes :: nat where "verifierBytes = 32"

definition stateBytes :: nat where "stateBytes = 32"

definition tokenBytes :: nat where "tokenBytes = 32"

text \<open>\<open>rand.Read\<close> fills the buffer or fails; \<open>None\<close> is its failure.\<close>

definition NewVerifier :: "string option \<Rightarrow> string option" where
  "NewVerifier rand = map_option base64url (map_option (take verifierBytes) rand)"

definition Challenge :: "(string \<Rightarrow> string) \<Rightarrow> string \<Rightarrow> string" where
  "Challenge sha verifier = base64url (sha verifier)"

definition NewState :: "string option \<Rightarrow> string option" where
  "NewState rand = map_option base64url (map_option (take stateBytes) rand)"

definition sha256Sum :: "(string \<Rightarrow> string) \<Rightarrow> string \<Rightarrow> string" where
  "sha256Sum sha s = sha s"

definition HashState :: "(string \<Rightarrow> string) \<Rightarrow> string \<Rightarrow> string" where
  "HashState sha state = sha256Sum sha state"

definition NewToken :: "string option \<Rightarrow> string option" where
  "NewToken rand = map_option base64url (map_option (take tokenBytes) rand)"

definition userCodeAlphabet :: string where
  "userCodeAlphabet = ''ABCDEFGHJKMNPQRSTUVWXYZ23456789''"

definition userCodeGroupLen :: nat where "userCodeGroupLen = 4"

definition userCodeGroupCount :: nat where "userCodeGroupCount = 2"

text \<open>\<open>rand.Int\<close> draws below the size of the alphabet.\<close>

definition randomAlphabetByte :: "string \<Rightarrow> nat option \<Rightarrow> char option" where
  "randomAlphabetByte alphabet draw = map_option (\<lambda>n. alphabet ! n) draw"

fun user_code_loop :: "nat \<Rightarrow> nat option list \<Rightarrow> string \<Rightarrow> string option" where
  "user_code_loop i [] b = Some b"
| "user_code_loop i (draw # draws) b =
    (let b = (if 0 < i \<and> i mod userCodeGroupLen = 0 then b @ ''-'' else b) in
     case randomAlphabetByte userCodeAlphabet draw of
       None \<Rightarrow> None
     | Some c \<Rightarrow> user_code_loop (i + 1) draws (b @ [c]))"

definition NewUserCode :: "nat option list \<Rightarrow> string option" where
  "NewUserCode draws = user_code_loop 0 (take (userCodeGroupLen * userCodeGroupCount) draws) ''''"

definition constantTimeEqual :: "string \<Rightarrow> string \<Rightarrow> bool" where
  "constantTimeEqual a b \<longleftrightarrow> a = b"

section \<open>Decoding\<close>

definition unsextet :: "char \<Rightarrow> nat" where
  "unsextet c = length (takeWhile (\<lambda>x. x \<noteq> c) b64_alphabet)"

fun decode64 :: "string \<Rightarrow> string" where
  "decode64 [] = []"
| "decode64 [w] = []"
| "decode64 [w, x] = [char_of (unsextet w * 4 + unsextet x div 16)]"
| "decode64 [w, x, y] = [char_of (unsextet w * 4 + unsextet x div 16), char_of (unsextet x mod 16 * 16 + unsextet y div 4)]"
| "decode64 (w # x # y # z # s) =
    [char_of (unsextet w * 4 + unsextet x div 16), char_of (unsextet x mod 16 * 16 + unsextet y div 4),
     char_of (unsextet y mod 4 * 64 + unsextet z)] @ decode64 s"

lemma b64_length: "length b64_alphabet = 64" by (simp add: b64_alphabet_def)

lemma b64_distinct: "distinct b64_alphabet" by (simp add: b64_alphabet_def)

lemma takeWhile_nth: "distinct xs \<Longrightarrow> n < length xs \<Longrightarrow> length (takeWhile (\<lambda>x. x \<noteq> xs ! n) xs) = n"
proof (induction xs arbitrary: n)
  case (Cons a xs)
  then show ?case by (cases n) auto
qed simp

lemma unsextet_sextet [simp]: "n < 64 \<Longrightarrow> unsextet (sextet n) = n"
  unfolding unsextet_def sextet_def using takeWhile_nth[OF b64_distinct, of n] by (simp add: b64_length)

lemma sextets_in_range [simp]:
  "byte a div 4 < 64" "byte a mod 4 * 16 < 64" "byte a mod 4 * 16 + byte b div 16 < 64"
  "byte b mod 16 * 4 < 64" "byte b mod 16 * 4 + byte c div 64 < 64" "byte c mod 64 < 64"
proof -
  have "byte a < 256" "byte b < 256" "byte c < 256" by simp_all
  then have "byte a div 4 < 64" "byte b div 16 < 16" "byte c div 64 < 4" by (simp_all add: less_mult_imp_div_less)
  moreover have "byte a mod 4 < 4" "byte b mod 16 < 16" "byte c mod 64 < 64" by simp_all
  ultimately show "byte a div 4 < 64" "byte a mod 4 * 16 < 64" "byte a mod 4 * 16 + byte b div 16 < 64"
    "byte b mod 16 * 4 < 64" "byte b mod 16 * 4 + byte c div 64 < 64" "byte c mod 64 < 64" by linarith+
qed

lemma regroup:
  "(n :: nat) div 4 * 4 + n mod 4 = n" "(n mod 4 * 16 + m) div 16 = n mod 4 + m div 16"
  "(m :: nat) < 16 \<Longrightarrow> (n mod 4 * 16 + m) mod 16 = m"
  "(k :: nat) < 4 \<Longrightarrow> (n mod 16 * 4 + k) div 4 = n mod 16" "k < 4 \<Longrightarrow> (n mod 16 * 4 + k) mod 4 = k"
  "n div 16 * 16 + n mod 16 = n" "n div 64 * 64 + n mod 64 = n"
  by simp_all

lemma byte_parts [simp]: "byte b div 16 < 16" "byte c div 64 < 4" "byte b div 16 div 16 = 0"
proof -
  have "byte b < 256" "byte c < 256" by simp_all
  then show "byte b div 16 < 16" "byte c div 64 < 4" by (simp_all add: less_mult_imp_div_less)
  then show "byte b div 16 div 16 = 0" by simp
qed

lemma decode64_base64url: "decode64 (base64url bs) = bs"
proof (induction bs rule: base64url.induct)
  case (2 a)
  show ?case by (simp add: regroup)
next
  case (3 a b)
  show ?case by (simp add: regroup)
next
  case (4 a b c bs)
  then show ?case by (simp add: regroup)
qed simp

lemma set_base64url: "set (base64url bs) \<subseteq> set b64_alphabet"
proof -
  have *: "n < 64 \<Longrightarrow> sextet n \<in> set b64_alphabet" for n
    by (simp add: sextet_def b64_length)
  show ?thesis by (induction bs rule: base64url.induct) (auto intro!: *)
qed

lemma length_base64url: "length (base64url bs) = (4 * length bs + 2) div 3"
proof (induction bs rule: base64url.induct)
  case (4 a b c bs)
  have "4 * length (a # b # c # bs) + 2 = (4 * length bs + 2) + 4 * 3" by simp
  then show ?case using 4 by simp
qed simp_all

section \<open>Properties\<close>

definition unreserved :: "char \<Rightarrow> bool" where
  "unreserved c \<longleftrightarrow> 65 \<le> byte c \<and> byte c \<le> 90 \<or> 97 \<le> byte c \<and> byte c \<le> 122 \<or> 48 \<le> byte c \<and> byte c \<le> 57
    \<or> c = CHR ''-'' \<or> c = CHR ''.'' \<or> c = CHR ''_'' \<or> c = CHR ''~''"

lemma alphabet_unreserved: "c \<in> set b64_alphabet \<Longrightarrow> unreserved c"
proof -
  have "list_all unreserved b64_alphabet" by (simp add: b64_alphabet_def unreserved_def)
  then show "c \<in> set b64_alphabet \<Longrightarrow> unreserved c" by (simp add: list_all_iff)
qed

text \<open>A PKCE verifier satisfies RFC 7636 (43 to 128 unreserved characters) and loses nothing of the
  32 random bytes it is made of: they can be decoded from it, so different draws give different
  verifiers, and so do states and tokens.\<close>

theorem verifier_rfc7636:
  assumes "length r = 32"
  shows "\<exists>v. NewVerifier (Some r) = Some v \<and> NewState (Some r) = Some v \<and> NewToken (Some r) = Some v
    \<and> 43 \<le> length v \<and> length v \<le> 128 \<and> (\<forall>c\<in>set v. unreserved c) \<and> decode64 v = r"
  using assms set_base64url[of r] alphabet_unreserved
  by (auto simp: NewVerifier_def NewState_def NewToken_def verifierBytes_def stateBytes_def tokenBytes_def
      length_base64url decode64_base64url)

definition code_letters :: "nat list \<Rightarrow> string" where
  "code_letters ns = map (\<lambda>n. userCodeAlphabet ! n) ns"

lemma NewUserCode_shape:
  assumes "length ns = 8"
  shows "NewUserCode (map Some ns) = Some (take 4 (code_letters ns) @ ''-'' @ drop 4 (code_letters ns))"
proof -
  from assms have "length ns = Suc (Suc (Suc (Suc (Suc (Suc (Suc (Suc 0)))))))" by simp
  then obtain a b c d e f g h where "ns = [a, b, c, d, e, f, g, h]"
    by (simp only: length_Suc_conv length_0_conv) blast
  then show ?thesis
    by (simp add: NewUserCode_def userCodeGroupLen_def userCodeGroupCount_def randomAlphabetByte_def
        code_letters_def Let_def)
qed

lemma alphabet_distinct: "distinct userCodeAlphabet" "length userCodeAlphabet = 31"
  by (simp_all add: userCodeAlphabet_def)

lemma code_letters_inj:
  assumes "\<forall>n\<in>set ns. n < 31" "\<forall>n\<in>set ms. n < 31" "code_letters ns = code_letters ms"
  shows "ns = ms"
proof -
  have "inj_on (\<lambda>n. userCodeAlphabet ! n) {..<31}"
    using alphabet_distinct by (auto simp: inj_on_def nth_eq_iff_index_eq)
  then show ?thesis using assms unfolding code_letters_def
    by (intro map_inj_on[of "\<lambda>n. userCodeAlphabet ! n"]) (auto elim!: inj_on_subset)
qed

text \<open>User codes: eight draws from the alphabet give a code of the form \<open>XXXX-XXXX\<close> without the
  letters and digits that are easily confused, and different draws give different codes.\<close>

theorem NewUserCode_readable:
  assumes "length ns = 8" and "\<forall>n\<in>set ns. n < 31"
  shows "\<exists>code. NewUserCode (map Some ns) = Some code \<and> length code = 9 \<and> code ! 4 = CHR ''-''
    \<and> set code \<inter> set ''01OIL'' = {}
    \<and> (\<forall>ms. length ms = 8 \<longrightarrow> (\<forall>n\<in>set ms. n < 31) \<longrightarrow> NewUserCode (map Some ms) = Some code \<longrightarrow> ms = ns)"
proof -
  let ?l = "code_letters ns"
  have len: "length ?l = 8" using assms by (simp add: code_letters_def)
  have "set ?l \<subseteq> set userCodeAlphabet" using assms alphabet_distinct(2) by (auto simp: code_letters_def)
  moreover have "set userCodeAlphabet \<inter> set ''01OIL'' = {}" by (simp add: userCodeAlphabet_def)
  ultimately have "set (take 4 ?l @ ''-'' @ drop 4 ?l) \<inter> set ''01OIL'' = {}"
    using set_take_subset[of 4 ?l] set_drop_subset[of 4 ?l] by auto
  moreover have "ms = ns" if "length ms = 8" "\<forall>n\<in>set ms. n < 31"
      "take 4 (code_letters ms) @ ''-'' @ drop 4 (code_letters ms) = take 4 ?l @ ''-'' @ drop 4 ?l" for ms
  proof -
    have "length (code_letters ms) = 8" using that by (simp add: code_letters_def)
    with that(3) len have "take 4 (code_letters ms) = take 4 ?l" "drop 4 (code_letters ms) = drop 4 ?l" by auto
    then have "code_letters ms = ?l" by (metis append_take_drop_id)
    then show ?thesis using code_letters_inj[OF that(2) assms(2)] by simp
  qed
  ultimately show ?thesis using assms(1) len NewUserCode_shape by (auto simp: nth_append)
qed

theorem verifier_rfc7636_witness:
  "\<exists>v. NewVerifier (Some (replicate 32 (CHR ''x''))) = Some v \<and> length v \<le> 128 \<and> decode64 v = replicate 32 (CHR ''x'')"
  using verifier_rfc7636[of "replicate 32 (CHR ''x'')"] by auto

theorem NewUserCode_readable_witness:
  "\<exists>code. NewUserCode (map Some [0, 1, 2, 3, 4, 5, 6, 30]) = Some code \<and> length code = 9 \<and> code ! 4 = CHR ''-''"
  using NewUserCode_readable[of "[0, 1, 2, 3, 4, 5, 6, 30]"] by auto

end
