(* ===== verification/Auth.thy ===== *)
theory Auth
  imports Action Sessions Graph ServiceConfig Pkce
begin

text \<open>
  Sign-in: \<^verbatim>\<open>src/internal/auth\<close> (\<^verbatim>\<open>session.go\<close>, \<^verbatim>\<open>oauth.go\<close>,
  \<^verbatim>\<open>pending.go\<close>, \<^verbatim>\<open>device.go\<close>, \<^verbatim>\<open>import.go\<close>) over the operations of
  \<open>Sessions\<close>, \<open>Accounts\<close> and \<open>Graph\<close>.  What GitHub answers is the record \<open>github\<close>; what a call
  reads from outside (the clock at each of its steps, random bytes, ids the database draws) is the
  record \<open>outside\<close>.
\<close>

section \<open>The surroundings\<close>

datatype auth_error = ErrUnauthenticated | ErrPendingLoginNotFound | ErrUserCodeMismatch | ErrInvalidState
  | ErrRedirectMismatch | ErrAccountTypeNotAllowed | ErrGitHubOAuthNotConfigured
  | AuthStore store_error | AuthRandom | AuthUpstream string

record outside =
  ou_env :: "nat \<Rightarrow> env"
  ou_rand :: "nat \<Rightarrow> string option"
  ou_code :: "nat option list"
  ou_id :: "nat \<Rightarrow> uuid"

record DeviceCode =
  dc_DeviceCode :: string
  dc_UserCode :: string
  dc_VerificationURI :: string
  dc_ExpiresIn :: int
  dc_Interval :: int

datatype DeviceStatus = DevicePending | DeviceSlowDown | DeviceDenied | DeviceExpired | DeviceApproved | DeviceOther string

record github =
  gh_ExchangeCode :: "string \<Rightarrow> string \<Rightarrow> string \<Rightarrow> string + string"
  gh_CurrentUser :: "string \<Rightarrow> string + Identity"
  gh_Following :: "string \<Rightarrow> int \<Rightarrow> string + Identity list"
  gh_RequestDeviceCode :: "string + DeviceCode"
  gh_ExchangeDeviceToken :: "string \<Rightarrow> string + DeviceStatus \<times> string"

record service =
  au_cfg :: ServiceConfig
  au_sha :: "string \<Rightarrow> string"
  au_gh :: github

definition upstream :: "string + 'a \<Rightarrow> auth_error + 'a" where
  "upstream r = (case r of Inl m \<Rightarrow> Inl (AuthUpstream m) | Inr x \<Rightarrow> Inr x)"

definition random :: "'a option \<Rightarrow> auth_error + 'a" where
  "random r = (case r of None \<Rightarrow> Inl AuthRandom | Some x \<Rightarrow> Inr x)"

definition not_found_as :: "auth_error \<Rightarrow> store_error \<Rightarrow> auth_error" where
  "not_found_as e s = (if s = ErrNotFound then e else AuthStore s)"

section \<open>Sessions\<close>

text \<open>The id of the session is the \<open>i\<close>-th id drawn, its token the \<open>i\<close>-th random value.\<close>

definition IssueSession ::
  "service \<Rightarrow> outside \<Rightarrow> nat \<Rightarrow> uuid \<Rightarrow> ClientKind \<Rightarrow> string \<Rightarrow> string \<Rightarrow> (auth_error, string \<times> Session) act" where
  "IssueSession s out i userID kind label userAgent =
    andthen (known (random (NewToken (ou_rand out i)))) (\<lambda>token.
    andthen (executes AuthStore (CreateSession (au_sha s) (ou_env out i) (ou_id out i) userID token kind label userAgent
        (cf_SessionTTL (au_cfg s)))) (\<lambda>sess.
    returns (token, sess)))"

definition Authenticate :: "service \<Rightarrow> outside \<Rightarrow> string \<Rightarrow> (auth_error, Session \<times> User) act" where
  "Authenticate s out bearer =
    (let bearer = TrimSpace bearer in
     andthen (reject (bearer = '''') ErrUnauthenticated) (\<lambda>_.
     andthen (queries (not_found_as ErrUnauthenticated) (SessionByToken (au_sha s) (ou_env out 0) bearer)) (\<lambda>(sess, user).
     andthen (reject (\<not> Active (Some user)) ErrUnauthenticated) (\<lambda>_.
     andthen (changes (TouchSession (ou_env out 1) (se_ID sess))) (\<lambda>_.
     returns (sess, user))))))"

definition Logout :: "outside \<Rightarrow> uuid \<Rightarrow> uuid \<Rightarrow> (auth_error, unit) act" where
  "Logout out userID sessionID = executes AuthStore (RevokeSession (ou_env out 0) userID sessionID)"

section \<open>The web flow\<close>

definition PurposeWebLogin :: string where "PurposeWebLogin = ''web_login''"

definition PurposeCLIApproval :: string where "PurposeCLIApproval = ''cli_approval''"

definition PurposeImport :: string where "PurposeImport = ''import''"

definition authorizeBaseURL :: string where "authorizeBaseURL = ''https://github.com/login/oauth/authorize''"

text \<open>The parameters of the URL, before \<open>url.Values.Encode\<close>; the scope is empty and left out.\<close>

record AuthURL =
  ax_base :: string
  ax_params :: "(string \<times> string) list"

definition StartAuthorization ::
  "service \<Rightarrow> outside \<Rightarrow> string \<Rightarrow> string \<Rightarrow> uuid option \<Rightarrow> (auth_error, AuthURL) act" where
  "StartAuthorization s out purpose returnTo pendingLoginID =
    andthen (reject (\<not> GitHubOAuthConfigured (au_cfg s)) ErrGitHubOAuthNotConfigured) (\<lambda>_.
    andthen (known (random (NewVerifier (ou_rand out 0)))) (\<lambda>verifier.
    andthen (known (random (NewState (ou_rand out 1)))) (\<lambda>state.
    let redirectURI = OAuthCallbackURL (au_cfg s) in
    andthen (executes AuthStore (CreateOAuthFlow (ou_env out 0) (ou_id out 0) (HashState (au_sha s) state) verifier
        redirectURI purpose returnTo pendingLoginID (cf_PendingLoginTTL (au_cfg s)))) (\<lambda>_.
    returns \<lparr>ax_base = authorizeBaseURL,
      ax_params = [(''client_id'', cf_GitHubClientID (au_cfg s)), (''redirect_uri'', redirectURI), (''state'', state),
        (''code_challenge'', Challenge (au_sha s) verifier), (''code_challenge_method'', ''S256'')]\<rparr>))))"

record Result =
  rt_User :: User
  rt_Flow :: OAuthFlow
  rt_IsNewAccount :: bool
  rt_UpstreamToken :: string

definition account_type_ok :: "Identity \<Rightarrow> bool" where
  "account_type_ok i \<longleftrightarrow> gi_AccountType i = '''' \<or> gi_AccountType i = ''User''"

definition CompleteAuthorization :: "service \<Rightarrow> outside \<Rightarrow> string \<Rightarrow> string \<Rightarrow> (auth_error, Result) act" where
  "CompleteAuthorization s out code state =
    andthen (reject (\<not> GitHubOAuthConfigured (au_cfg s)) ErrGitHubOAuthNotConfigured) (\<lambda>_.
    andthen (executes (not_found_as ErrInvalidState) (ConsumeOAuthFlow (ou_env out 0) (HashState (au_sha s) state))) (\<lambda>flow.
    andthen (reject (fl_RedirectURI flow \<noteq> OAuthCallbackURL (au_cfg s)) ErrRedirectMismatch) (\<lambda>_.
    andthen (known (upstream (gh_ExchangeCode (au_gh s) code (fl_RedirectURI flow) (fl_CodeVerifier flow)))) (\<lambda>token.
    andthen (known (upstream (gh_CurrentUser (au_gh s) token))) (\<lambda>identity.
    andthen (reject (\<not> account_type_ok identity) ErrAccountTypeNotAllowed) (\<lambda>_.
    andthen (executes AuthStore (EnsureUser False (ou_env out 1) (ou_id out 1) identity)) (\<lambda>(user, isNew).
    returns \<lparr>rt_User = user, rt_Flow = flow, rt_IsNewAccount = isNew, rt_UpstreamToken = token\<rparr>)))))))"

section \<open>Pending logins\<close>

definition pollIntervalSeconds :: int where "pollIntervalSeconds = 5"

text \<open>Division rounds towards zero.\<close>

definition truncated_div :: "int \<Rightarrow> int \<Rightarrow> int" where
  "truncated_div a b = (if 0 \<le> a then a div b else - ((- a) div b))"

definition maxPolls :: "service \<Rightarrow> int" where
  "maxPolls s =
    (let budget = truncated_div (cf_PendingLoginTTL (au_cfg s)) (pollIntervalSeconds * Second) + 12 in
     if budget < 1 then 1 else budget)"

record PendingLoginResult =
  pn_ID :: uuid
  pn_PollingSecret :: string
  pn_UserCode :: string
  pn_VerificationURL :: string
  pn_ExpiresAt :: time
  pn_IntervalSeconds :: int

definition Service_CreatePendingLogin :: "service \<Rightarrow> outside \<Rightarrow> ClientKind \<Rightarrow> string \<Rightarrow> (auth_error, PendingLoginResult) act" where
  "Service_CreatePendingLogin s out kind label =
    andthen (known (random (NewToken (ou_rand out 0)))) (\<lambda>secret.
    andthen (known (random (NewUserCode (ou_code out)))) (\<lambda>userCode.
    andthen (executes AuthStore (CreatePendingLogin (ou_env out 0) (ou_id out 0) (sha256Sum (au_sha s) secret) userCode
        kind label (cf_PendingLoginTTL (au_cfg s)))) (\<lambda>p.
    returns \<lparr>pn_ID = pg_ID p, pn_PollingSecret = secret, pn_UserCode = pg_UserCode p,
      pn_VerificationURL = (case cf_PublicURL (au_cfg s) of None \<Rightarrow> '''' | Some u \<Rightarrow> url_String u @ ''/device''),
      pn_ExpiresAt = pg_ExpiresAt p, pn_IntervalSeconds = pollIntervalSeconds\<rparr>)))"

definition upper :: "string \<Rightarrow> string" where "upper s = map upper_char s"

definition Service_ApprovePendingLogin :: "service \<Rightarrow> outside \<Rightarrow> uuid \<Rightarrow> uuid \<Rightarrow> string \<Rightarrow> (auth_error, unit) act" where
  "Service_ApprovePendingLogin s out pendingID userID userCodeTyped =
    andthen (queries (not_found_as ErrPendingLoginNotFound) (PendingLogin_get pendingID)) (\<lambda>p.
    andthen (reject (pg_State p \<noteq> LPending) ErrPendingLoginNotFound) (\<lambda>_.
    andthen (reject (\<not> constantTimeEqual (upper (TrimSpace userCodeTyped)) (pg_UserCode p)) ErrUserCodeMismatch) (\<lambda>_.
    andthen (IssueSession s out 0 userID (pg_ClientKind p) (pg_ClientLabel p) '''') (\<lambda>(token, sess).
    executes (not_found_as ErrPendingLoginNotFound)
      (ApprovePendingLogin (ou_env out 1) pendingID userID (se_ID sess) token)))))"

definition Service_DenyPendingLogin :: "uuid \<Rightarrow> (auth_error, unit) act" where
  "Service_DenyPendingLogin pendingID = changes (DenyPendingLogin pendingID)"

definition Poll :: "service \<Rightarrow> outside \<Rightarrow> uuid \<Rightarrow> string \<Rightarrow> (auth_error, PollResult) act" where
  "Poll s out pendingID pollingSecret =
    executes AuthStore (PollPendingLogin (ou_env out 0) pendingID (sha256Sum (au_sha s) pollingSecret) (maxPolls s))"

section \<open>Device logins\<close>

record DeviceLoginStart =
  ds_ID :: uuid
  ds_UserCode :: string
  ds_VerificationURI :: string
  ds_ExpiresAt :: time
  ds_IntervalSeconds :: int

definition StartDeviceLogin :: "service \<Rightarrow> outside \<Rightarrow> ClientKind \<Rightarrow> string \<Rightarrow> (auth_error, DeviceLoginStart) act" where
  "StartDeviceLogin s out kind label =
    andthen (reject (\<not> GitHubOAuthConfigured (au_cfg s)) ErrGitHubOAuthNotConfigured) (\<lambda>_.
    andthen (known (upstream (gh_RequestDeviceCode (au_gh s)))) (\<lambda>code.
    andthen (executes AuthStore (CreateDeviceLogin (ou_id out 0) (dc_DeviceCode code) kind label
        (Now (ou_env out 0) + dc_ExpiresIn code * Second))) (\<lambda>dv.
    returns \<lparr>ds_ID = dv_ID dv, ds_UserCode = dc_UserCode code, ds_VerificationURI = dc_VerificationURI code,
      ds_ExpiresAt = dv_ExpiresAt dv, ds_IntervalSeconds = dc_Interval code\<rparr>)))"

text \<open>The source calls itself once the approval is recorded; the first argument bounds how often, the
  clock of the next round starts four steps further.\<close>

fun Service_PollDeviceLogin :: "nat \<Rightarrow> service \<Rightarrow> outside \<Rightarrow> uuid \<Rightarrow> (auth_error, PollResult) act" where
  "Service_PollDeviceLogin 0 s out i = fails (AuthStore Diverges)"
| "Service_PollDeviceLogin (Suc n) s out i =
    andthen (executes AuthStore (PollDeviceLogin (ou_env out 0) i)) (\<lambda>(dv, token).
    if token \<noteq> '''' then returns \<lparr>pr_Status = ''approved'', pr_Token = token, pr_UserID = dv_UserID dv\<rparr>
    else if dv_State dv \<in> {LApproved, LConsumed, LExpired} then returns (poll_status ''expired'')
    else
      andthen (known (upstream (gh_ExchangeDeviceToken (au_gh s) (dv_DeviceCode dv)))) (\<lambda>(status, access).
      case status of
        DevicePending \<Rightarrow> returns (poll_status ''pending'')
      | DeviceSlowDown \<Rightarrow> returns (poll_status ''slow_down'')
      | DeviceDenied \<Rightarrow> andthen (changes (ExpireDeviceLogin i)) (\<lambda>_. returns (poll_status ''denied''))
      | DeviceExpired \<Rightarrow> andthen (changes (ExpireDeviceLogin i)) (\<lambda>_. returns (poll_status ''expired''))
      | DeviceOther _ \<Rightarrow> returns (poll_status ''expired'')
      | DeviceApproved \<Rightarrow>
          andthen (known (upstream (gh_CurrentUser (au_gh s) access))) (\<lambda>identity.
          andthen (reject (\<not> account_type_ok identity) ErrAccountTypeNotAllowed) (\<lambda>_.
          andthen (executes AuthStore (EnsureUser False (ou_env out 1) (ou_id out 0) identity)) (\<lambda>(user, _).
          andthen (IssueSession s out 2 (u_ID user) (dv_ClientKind dv) (dv_ClientLabel dv) '''') (\<lambda>(issued, _).
          andthen (executes AuthStore (ApproveDeviceLogin (ou_env out 3) i (u_ID user) issued)) (\<lambda>ok.
          if \<not> ok then returns (poll_status ''expired'')
          else Service_PollDeviceLogin n s (out\<lparr>ou_env := \<lambda>k. ou_env out (k + 4)\<rparr>) i)))))))"

section \<open>Importing follows\<close>

definition maxImportFollows :: int where "maxImportFollows = 5000"

definition sampleSize :: nat where "sampleSize = 5"

record ImportSummary =
  is_GitHubFollowingCount :: nat
  is_Added :: nat
  is_AlreadyFollowing :: nat
  is_SkippedUnfollowed :: nat
  is_SkippedBlocked :: nat
  is_Sample :: "Identity list"

definition empty_summary :: ImportSummary where
  "empty_summary = \<lparr>is_GitHubFollowingCount = 0, is_Added = 0, is_AlreadyFollowing = 0, is_SkippedUnfollowed = 0,
    is_SkippedBlocked = 0, is_Sample = []\<rparr>"

fun tally :: "ImportSummary \<Rightarrow> Identity \<times> ImportAction \<Rightarrow> ImportSummary" where
  "tally sm (idn, act) =
    (let sm = (if act = Added \<and> length (is_Sample sm) < sampleSize then sm\<lparr>is_Sample := is_Sample sm @ [idn]\<rparr> else sm) in
     case act of
       Added \<Rightarrow> sm\<lparr>is_Added := is_Added sm + 1\<rparr>
     | Already_following \<Rightarrow> sm\<lparr>is_AlreadyFollowing := is_AlreadyFollowing sm + 1\<rparr>
     | Skipped_unfollowed \<Rightarrow> sm\<lparr>is_SkippedUnfollowed := is_SkippedUnfollowed sm + 1\<rparr>
     | Skipped_blocked \<Rightarrow> sm\<lparr>is_SkippedBlocked := is_SkippedBlocked sm + 1\<rparr>)"

definition Service_ImportFollows ::
  "service \<Rightarrow> outside \<Rightarrow> uuid \<Rightarrow> string \<Rightarrow> bool \<Rightarrow> bool \<Rightarrow> (auth_error, ImportSummary) act" where
  "Service_ImportFollows s out userID upstreamToken enabled preview =
    (if \<not> enabled then returns empty_summary
     else
       andthen (known (upstream (gh_Following (au_gh s) upstreamToken maxImportFollows))) (\<lambda>identities.
       andthen (executes AuthStore (ImportFollows (ou_env out 0) userID identities preview)) (\<lambda>chs.
       returns (foldl tally (empty_summary\<lparr>is_GitHubFollowingCount := length identities\<rparr>) chs))))"

section \<open>Authentication\<close>

lemma SessionByToken_Inr:
  assumes "SessionByToken sha e token d = Inr (s, u)"
  obtains se us gi where "(se, us, gi) \<in> set (session_join d)" "se_token_hash se = HashToken sha token"
    "se_RevokedAt se = None" "Now e < se_ExpiresAt se" "us_deleted_at us = None"
    "s = Session.truncate se" "u = scanUser us gi"
proof -
  from assms obtain t where t: "find (\<lambda>(se, u, gi). se_token_hash se = HashToken sha token \<and> se_RevokedAt se = None
      \<and> Now e < se_ExpiresAt se \<and> us_deleted_at u = None) (session_join d) = Some t"
      "(s, u) = (case t of (se, u, gi) \<Rightarrow> (Session.truncate se, scanUser u gi))"
    by (auto simp: SessionByToken_def row_or_notfound_def split: option.splits)
  obtain se us gi where "t = (se, us, gi)" by (cases t)
  then show ?thesis using that find_Some_in[OF t(1)] t(2) by auto
qed

lemma Active_scanUser: "Active (Some (scanUser us gi)) \<longleftrightarrow> us_suspended_at us = None \<and> us_deleted_at us = None"
  by (simp add: Active_def scanUser_def)

text \<open>C34. Authentication is sound and tells nothing apart: it succeeds only for a token whose hash is
  that of a session that is not revoked and not expired, of an account that is neither deleted nor
  suspended; every refusal is the same error and writes nothing; and all that a success writes is
  when a session was last used.\<close>

theorem Authenticate_sound:
  assumes "Authenticate s out bearer d = (r, d')"
  shows "case r of
      Inl e \<Rightarrow> e = ErrUnauthenticated \<and> d' = d
    | Inr (sess, user) \<Rightarrow>
        (\<exists>se\<in>set (sessions d). \<exists>us\<in>set (users d).
           se_token_hash se = HashToken (au_sha s) (TrimSpace bearer) \<and> se_RevokedAt se = None
           \<and> Now (ou_env out 0) < se_ExpiresAt se \<and> us_id us = se_UserID se
           \<and> us_deleted_at us = None \<and> us_suspended_at us = None
           \<and> se_ID sess = se_ID se \<and> u_ID user = us_id us)
        \<and> (\<exists>ss. d' = d\<lparr>sessions := ss\<rparr> \<and> map (\<lambda>se. se\<lparr>se_LastUsedAt := 0\<rparr>) ss = map (\<lambda>se. se\<lparr>se_LastUsedAt := 0\<rparr>) (sessions d))"
proof -
  let ?q = "SessionByToken (au_sha s) (ou_env out 0) (TrimSpace bearer) d"
  show ?thesis
  proof (cases r)
    case (Inl e)
    have "SessionByToken (au_sha s) (ou_env out 0) (TrimSpace bearer) d = Inl e' \<Longrightarrow> e' = ErrNotFound" for e'
      by (simp add: SessionByToken_Inl)
    then show ?thesis using assms Inl
      by (auto simp: Authenticate_def Let_def act_simps not_found_as_def split: if_splits sum.splits prod.splits)
  next
    case (Inr su)
    obtain sess user where su: "su = (sess, user)" by (cases su)
    from assms Inr su have q: "?q = Inr (sess, user)" and a: "Active (Some user)"
      and d': "d' = TouchSession (ou_env out 1) (se_ID sess) d"
      by (auto simp: Authenticate_def Let_def act_simps split: if_splits sum.splits prod.splits)
    from SessionByToken_Inr[OF q] obtain se us gi where j: "(se, us, gi) \<in> set (session_join d)"
      "se_token_hash se = HashToken (au_sha s) (TrimSpace bearer)" "se_RevokedAt se = None"
      "Now (ou_env out 0) < se_ExpiresAt se" "sess = Session.truncate se" "user = scanUser us gi" by blast
    have "us_suspended_at us = None \<and> us_deleted_at us = None" using a j by (simp add: Active_scanUser)
    moreover have "se_ID sess = se_ID se" "u_ID user = us_id us" using j by (simp_all add: Session.defs scanUser_def)
    ultimately have ex: "\<exists>se\<in>set (sessions d). \<exists>us\<in>set (users d).
        se_token_hash se = HashToken (au_sha s) (TrimSpace bearer) \<and> se_RevokedAt se = None
        \<and> Now (ou_env out 0) < se_ExpiresAt se \<and> us_id us = se_UserID se
        \<and> us_deleted_at us = None \<and> us_suspended_at us = None \<and> se_ID sess = se_ID se \<and> u_ID user = us_id us"
      using j by (intro bexI[of _ se] bexI[of _ us]) (simp_all add: session_join_in)
    have "map (\<lambda>se. se\<lparr>se_LastUsedAt := 0\<rparr>) (update_where P (\<lambda>s. s\<lparr>se_LastUsedAt := x\<rparr>) ss) = map (\<lambda>se. se\<lparr>se_LastUsedAt := 0\<rparr>) ss"
      for P x and ss :: "session_row list" by (rule map_update_where) simp
    then show ?thesis using Inr su ex d' by (auto simp: TouchSession_def)
  qed
qed

definition wit_config :: ServiceConfig where
  "wit_config = \<lparr>cf_Env = ''production'', cf_HTTPAddr = '''', cf_PublicURL = Some \<lparr>url_Scheme = ''https'',
    url_Host = ''stories.example'', url_Hostname = ''stories.example'', url_Path = '''', url_Tail = ''''\<rparr>,
    cf_AllowedOrigins = [], cf_DatabaseURL = '''', cf_S3Endpoint = '''', cf_S3Region = '''', cf_S3Bucket = '''',
    cf_S3AccessKeyID = '''', cf_S3SecretKey = '''', cf_S3ForcePathStyle = False, cf_GitHubClientID = ''i'',
    cf_GitHubClientSecret = ''s'', cf_SecretKey = '''', cf_WorkerTriggerURL = '''', cf_MaxUploadBytes = 1000,
    cf_MaxVideoSeconds = 60, cf_MaxImagePixels = 1000, cf_ModeratorGitHubIDs = [], cf_TestIdentityProvider = False,
    cf_TestClock = False, cf_StoryLifetime = 24 * Hour, cf_ReplyRetention = 30 * Day, cf_ViewRetention = 7 * Day,
    cf_UploadIntentTTL = 30 * Minute, cf_SessionTTL = 90 * Day, cf_PendingLoginTTL = 10 * Minute,
    cf_PhysicalDeleteTarget = 15 * Minute\<rparr>"

definition wit_service :: service where
  "wit_service = \<lparr>au_cfg = wit_config, au_sha = id, au_gh = \<lparr>gh_ExchangeCode = (\<lambda>c r v. Inr c),
    gh_CurrentUser = (\<lambda>t. Inr (wit_identity 1 t)), gh_Following = (\<lambda>t m. Inr []),
    gh_RequestDeviceCode = Inl ''no'', gh_ExchangeDeviceToken = (\<lambda>c. Inl ''no'')\<rparr>\<rparr>"

definition wit_outside :: outside where
  "wit_outside = \<lparr>ou_env = (\<lambda>i. wit_env), ou_rand = (\<lambda>i. Some ''random''), ou_code = [], ou_id = (\<lambda>i. 77)\<rparr>"

lemmas wit_auth_defs = wit_service_def wit_config_def wit_outside_def

theorem Authenticate_sound_witness:
  "\<exists>sess user d'. Authenticate wit_service wit_outside '' tok '' wit_login_db = (Inr (sess, user), d') \<and> u_ID user = 3"
proof -
  have t: "TrimSpace '' tok '' = ''tok''" by (simp add: TrimSpace_def is_space_def)
  have q: "\<exists>p. SessionByToken id wit_env ''tok'' wit_login_db = Inr p \<and> Active (Some (snd p))"
    by (simp add: SessionByToken_def session_join_def wit_login_db_def new_session_def HashToken_def wit_story_defs Active_scanUser)
  then have "\<exists>x d'. Authenticate wit_service wit_outside '' tok '' wit_login_db = (Inr x, d')"
    by (auto simp: Authenticate_def Let_def act_simps t wit_auth_defs)
  then obtain sess user d' where a: "Authenticate wit_service wit_outside '' tok '' wit_login_db = (Inr (sess, user), d')" by auto
  have s: "\<forall>se\<in>set (sessions wit_login_db). se_UserID se = 3" by (simp add: wit_login_db_def new_session_def)
  from Authenticate_sound[OF a] s have "u_ID user = 3" by auto
  with a show ?thesis by blast
qed

text \<open>C35. An approval needs the code that the waiting client shows: with any other code, or when the
  login is no longer pending, nothing is approved and no session is issued; an approval that succeeds
  has matched the code of a pending, unexpired login and issued exactly one session, for the approver,
  and that login is the only one it changes.\<close>

theorem approval_needs_code:
  assumes "keyed pl_id (pending_logins d)" and "Service_ApprovePendingLogin s out pid u typed d = (r, d')"
    and "p \<in> set (pending_logins d)" and "pl_id p = pid"
  shows "(pl_state p \<noteq> LPending \<or> upper (TrimSpace typed) \<noteq> pl_user_code p \<longrightarrow> isl r \<and> d' = d)
    \<and> (\<forall>x. r = Inr x \<longrightarrow> pl_state p = LPending \<and> upper (TrimSpace typed) = pl_user_code p
        \<and> Now (ou_env out 1) < pl_expires_at p
        \<and> (\<exists>se. sessions d' = sessions d @ [se] \<and> se_UserID se = u \<and> se_RevokedAt se = None)
        \<and> (\<forall>q\<in>set (pending_logins d). pl_id q \<noteq> pid \<longrightarrow> q \<in> set (pending_logins d')))"
proof -
  have f: "find (\<lambda>p. pl_id p = pid) (pending_logins d) = Some p"
    using keyed_find[OF assms(1,3)] assms(4) by simp
  then have g: "PendingLogin_get pid d = Inr (scanPendingLogin p)"
    by (simp add: PendingLogin_get_def row_or_notfound_def)
  have sc: "pg_State (scanPendingLogin p) = pl_state p" "pg_UserCode (scanPendingLogin p) = pl_user_code p"
    by (simp_all add: scanPendingLogin_def)
  have first: "isl r \<and> d' = d" if "pl_state p \<noteq> LPending \<or> upper (TrimSpace typed) \<noteq> pl_user_code p"
    using assms(2) that by (auto simp: Service_ApprovePendingLogin_def act_simps g sc constantTimeEqual_def split: if_splits)
  have second: "pl_state p = LPending \<and> upper (TrimSpace typed) = pl_user_code p \<and> Now (ou_env out 1) < pl_expires_at p
      \<and> (\<exists>se. sessions d' = sessions d @ [se] \<and> se_UserID se = u \<and> se_RevokedAt se = None)
      \<and> (\<forall>q\<in>set (pending_logins d). pl_id q \<noteq> pid \<longrightarrow> q \<in> set (pending_logins d'))" if r: "r = Inr x" for x
  proof -
    let ?i = "IssueSession s out 0 u (pg_ClientKind (scanPendingLogin p)) (pg_ClientLabel (scanPendingLogin p)) ''''"
    have ok: "pl_state p = LPending" "upper (TrimSpace typed) = pl_user_code p" using first r by auto
    obtain token sess d1 where i: "?i d = (Inr (token, sess), d1)"
      and a: "ApprovePendingLogin (ou_env out 1) pid u (se_ID sess) token d1 = Inr ((), d')"
      using assms(2) r ok
      by (simp add: Service_ApprovePendingLogin_def andthen_queries andthen_simps g sc constantTimeEqual_def andthen_Inr
          executes_Inr) blast
    from i obtain row where d1: "d1 = d\<lparr>sessions := sessions d @ [row]\<rparr>" and row: "se_UserID row = u" "se_RevokedAt row = None"
      by (auto simp: IssueSession_def act_simps andthen_known CreateSession_def Let_def new_session_def
          split: sum.splits if_splits)
    let ?P = "\<lambda>p. pl_id p = pid \<and> pl_state p = LPending \<and> Now (ou_env out 1) < pl_expires_at p"
    from a d1 have aff: "affected ?P (pending_logins d) \<noteq> 0"
      and d': "sessions d' = sessions d @ [row]"
      "pending_logins d' = update_where ?P (\<lambda>p. p\<lparr>pl_state := LApproved, pl_approved_user_id := Some u,
         pl_issued_session_id := Some (se_ID sess), pl_issued_token := Some token\<rparr>) (pending_logins d)"
      by (auto simp: ApprovePendingLogin_def Let_def split: if_splits)
    from aff obtain q where q: "q \<in> set (pending_logins d)" "?P q"
      by (auto simp: affected_def filter_empty_conv)
    with keyed_unique[OF assms(1) q(1) assms(3)] assms(4) have "q = p" by simp
    then show ?thesis using ok q d' row by (force simp: set_update_where)
  qed
  show ?thesis using first second by blast
qed

definition wit_pending_db :: db where
  "wit_pending_db = wit_login_db\<lparr>pending_logins := [new_pending wit_env 8 ''h'' ''AB-CD'' ClientCLI ''l'' 600]\<rparr>"

theorem approval_needs_code_witness:
  "\<exists>d'. Service_ApprovePendingLogin wit_service wit_outside 8 3 '' ab-cd'' wit_pending_db = (Inr (), d')
    \<and> (\<exists>se. sessions d' = sessions wit_pending_db @ [se] \<and> se_UserID se = 3)"
proof -
  let ?p = "new_pending wit_env 8 ''h'' ''AB-CD'' ClientCLI ''l'' 600"
  have k: "keyed pl_id (pending_logins wit_pending_db)" "?p \<in> set (pending_logins wit_pending_db)" "pl_id ?p = 8"
    by (simp_all add: keyed_def wit_pending_db_def new_pending_def)
  have c: "upper (TrimSpace '' ab-cd'') = ''AB-CD''" by code_simp
  have t: "NewToken (Some ''random'') = Some ''cmFuZG9t''"
    by (simp add: NewToken_def tokenBytes_def sextet_def b64_alphabet_def)
  let ?row = "new_session id wit_env 77 3 ''cmFuZG9t'' ClientCLI ''l'' '''' (90 * Day)"
  let ?d1 = "wit_pending_db\<lparr>sessions := sessions wit_pending_db @ [?row]\<rparr>"
  have cs: "CreateSession id wit_env 77 3 ''cmFuZG9t'' ClientCLI ''l'' '''' (90 * Day) wit_pending_db =
      Inr (Session.truncate ?row, ?d1)"
    by (simp add: CreateSession_def Let_def wit_pending_db_def wit_login_db_def HashToken_def new_session_def
        wit_story_defs user_exists_def)
  have g: "PendingLogin_get 8 wit_pending_db = Inr (scanPendingLogin ?p)"
    by (simp add: PendingLogin_get_def row_or_notfound_def wit_pending_db_def new_pending_def)
  have f: "pg_State (scanPendingLogin ?p) = LPending" "pg_UserCode (scanPendingLogin ?p) = ''AB-CD''"
    "pg_ClientKind (scanPendingLogin ?p) = ClientCLI" "pg_ClientLabel (scanPendingLogin ?p) = ''l''"
    by (simp_all add: scanPendingLogin_def new_pending_def)
  have ap: "\<exists>d'. ApprovePendingLogin wit_env 8 3 77 ''cmFuZG9t'' ?d1 = Inr ((), d')"
    by (simp add: ApprovePendingLogin_def Let_def affected_def new_session_def wit_pending_db_def wit_login_db_def
        wit_story_defs user_exists_def new_pending_def)
  have i: "IssueSession wit_service wit_outside 0 3 ClientCLI ''l'' '''' wit_pending_db =
      (Inr (''cmFuZG9t'', Session.truncate ?row), ?d1)"
    unfolding IssueSession_def by (simp add: andthen_known andthen_executes random_def t cs wit_auth_defs returns_def)
  have env1: "ou_env wit_outside n = wit_env" for n by (simp add: wit_outside_def)
  have "se_ID (Session.truncate ?row) = 77" by (simp add: new_session_def Session.defs)
  then have "\<exists>d'. Service_ApprovePendingLogin wit_service wit_outside 8 3 '' ab-cd'' wit_pending_db = (Inr (), d')"
    using ap by (auto simp: Service_ApprovePendingLogin_def andthen_queries andthen_simps g f c constantTimeEqual_def
        andthen_Inr executes_Inr i env1)
  then obtain d' where a: "Service_ApprovePendingLogin wit_service wit_outside 8 3 '' ab-cd'' wit_pending_db = (Inr (), d')" ..
  with approval_needs_code[OF k(1) a k(2) k(3)] show ?thesis by blast
qed

end
