(* ===== verification/Moderation.thy ===== *)
theory Moderation
  imports Sessions
begin

text \<open>
  Reports, moderation actions and idempotent replay: \<^verbatim>\<open>src/internal/store/moderation.go\<close>
  and \<^verbatim>\<open>src/internal/store/idempotency.go\<close>.  A request is represented by its JSON text
  and \<open>sha\<close> is SHA-256; the comparison of two hashes is the code's constant-time fold over
  bytes.
\<close>

section \<open>Reports\<close>

record Report =
  rt_ID :: uuid
  rt_SubjectKind :: SubjectKind
  rt_StoryID :: "uuid option"
  rt_Subject :: "Identity option"
  rt_Reporter :: Identity
  rt_Reason :: string
  rt_Details :: string
  rt_State :: ReportState
  rt_CreatedAt :: time

definition report_reasons :: "string list" where
  "report_reasons = [''spam'', ''harassment'', ''nudity'', ''violence'', ''self_harm'', ''illegal'', ''other'']"

definition CreateReport ::
  "env \<Rightarrow> uuid \<Rightarrow> uuid \<Rightarrow> SubjectKind \<Rightarrow> uuid option \<Rightarrow> uuid option \<Rightarrow> string \<Rightarrow> string \<Rightarrow> db \<Rightarrow> uuid result" where
  "CreateReport e nid reporter kind storyID subject reason details d =
    (if reason \<notin> set report_reasons then Inl (ErrDB Check_violation)
     else if \<not> user_exists d reporter \<or> (case storyID of None \<Rightarrow> False | Some s \<Rightarrow> \<not> story_exists d s)
          \<or> (case subject of None \<Rightarrow> False | Some u \<Rightarrow> \<not> user_exists d u)
     then Inl (ErrDB Foreign_key_violation)
     else Inr (nid, d\<lparr>reports := reports d @ [\<lparr>rep_ID = nid, rep_Reporter = reporter, rep_SubjectKind = kind,
       rep_StoryID = storyID, rep_SubjectUserID = subject, rep_Reason = reason, rep_Details = details,
       rep_State = ReportOpen, rep_CreatedAt = db_now e, rep_ResolvedAt = None, rep_ResolvedBy = None\<rparr>]\<rparr>))"

definition report_limit :: "int \<Rightarrow> nat" where
  "report_limit limit = (if limit \<le> 0 \<or> 200 < limit then 50 else nat limit)"

text \<open>\<open>COALESCE(r.subject_user_id, (SELECT author_user_id FROM story_items ..))\<close>\<close>

definition report_subject :: "db \<Rightarrow> report_row \<Rightarrow> uuid option" where
  "report_subject d r =
    (case rep_SubjectUserID r of
       Some u \<Rightarrow> Some u
     | None \<Rightarrow> (case rep_StoryID r of None \<Rightarrow> None | Some s \<Rightarrow> map_option si_AuthorUserID (story_row_of d s)))"

definition registered_party :: "identity_row \<Rightarrow> GitHubID \<Rightarrow> Identity" where
  "registered_party gi g = (party gi g)\<lparr>gi_Registered := True\<rparr>"

definition subject_identity :: "db \<Rightarrow> report_row \<Rightarrow> Identity option" where
  "subject_identity d r =
    (case report_subject d r of None \<Rightarrow> None
     | Some u \<Rightarrow> (case user_row_of d u of None \<Rightarrow> None
       | Some su \<Rightarrow> (if us_github_user_id su = 0 then None
           else case identity_row_of d (us_github_user_id su) of
             None \<Rightarrow> Some \<lparr>gi_GitHubID = us_github_user_id su, gi_Login = '''', gi_AvatarURL = '''',
               gi_ProfileURL = '''', gi_AccountType = '''', gi_RefreshedAt = 0, gi_Registered = True\<rparr>
           | Some gi \<Rightarrow> Some (registered_party gi (us_github_user_id su)))))"

definition ListReports :: "ReportState \<Rightarrow> int \<Rightarrow> db \<Rightarrow> Report list" where
  "ListReports st limit d =
    map (\<lambda>(r, ru, rgi). \<lparr>rt_ID = rep_ID r, rt_SubjectKind = rep_SubjectKind r, rt_StoryID = rep_StoryID r,
        rt_Subject = subject_identity d r, rt_Reporter = registered_party rgi (us_github_user_id ru),
        rt_Reason = rep_Reason r, rt_Details = rep_Details r, rt_State = rep_State r,
        rt_CreatedAt = rep_CreatedAt r\<rparr>)
      (take (report_limit limit) (sort_key (\<lambda>(r, _). - rep_CreatedAt r)
        [(r, ru, rgi). r \<leftarrow> filter (\<lambda>r. rep_State r = st) (reports d),
          ru \<leftarrow> filter (\<lambda>u. us_id u = rep_Reporter r) (users d),
          rgi \<leftarrow> filter (\<lambda>gi. gi_GitHubID gi = us_github_user_id ru) (identities d)]))"

section \<open>Moderation actions\<close>

definition action_kinds :: "string list" where
  "action_kinds = [''remove_story'', ''suspend_user'', ''unsuspend_user'', ''dismiss_report'']"

definition ref_ok :: "('a \<Rightarrow> bool) \<Rightarrow> 'a option \<Rightarrow> bool" where
  "ref_ok P x = (case x of None \<Rightarrow> True | Some v \<Rightarrow> P v)"

text \<open>The reports an action addresses.\<close>

definition addressed :: "db \<Rightarrow> uuid option \<Rightarrow> uuid option \<Rightarrow> uuid option \<Rightarrow> report_row \<Rightarrow> bool" where
  "addressed d reportID storyID target r \<longleftrightarrow>
    (reportID \<noteq> None \<and> Some (rep_ID r) = reportID)
    \<or> (storyID \<noteq> None \<and> rep_StoryID r = storyID)
    \<or> (target \<noteq> None \<and> rep_SubjectUserID r = target)
    \<or> (target \<noteq> None \<and> list_ex (\<lambda>si. Some (si_AuthorUserID si) = target \<and> rep_StoryID r = Some (si_ID si)) (stories d))"

definition RecordModerationAction ::
  "env \<Rightarrow> uuid \<Rightarrow> string \<Rightarrow> uuid option \<Rightarrow> uuid option \<Rightarrow> uuid option \<Rightarrow> string \<Rightarrow> db \<Rightarrow> unit result" where
  "RecordModerationAction e moderator kind reportID storyID target reason d =
    (if kind \<notin> set action_kinds then Inl (ErrDB Check_violation)
     else if \<not> user_exists d moderator \<or> \<not> ref_ok (\<lambda>r. list_ex (\<lambda>q. rep_ID q = r) (reports d)) reportID
          \<or> \<not> ref_ok (story_exists d) storyID \<or> \<not> ref_ok (user_exists d) target
     then Inl (ErrDB Foreign_key_violation)
     else
       (let d1 = d\<lparr>moderation_actions := moderation_actions d @ [\<lparr>ma_Moderator = moderator, ma_Kind = kind,
             ma_ReportID = reportID, ma_StoryID = storyID, ma_Target = target, ma_Reason = reason,
             ma_CreatedAt = db_now e\<rparr>]\<rparr> in
        if kind = ''dismiss_report'' then
          (case reportID of
             None \<Rightarrow> Inr ((), d1)
           | Some rid \<Rightarrow> Inr ((), d1\<lparr>reports := update_where (\<lambda>r. rep_ID r = rid \<and> rep_State r = ReportOpen)
               (\<lambda>r. r\<lparr>rep_State := ReportDismissed, rep_ResolvedAt := Some (db_now e), rep_ResolvedBy := Some moderator\<rparr>) (reports d1)\<rparr>))
        else Inr ((), d1\<lparr>reports := update_where
          (\<lambda>r. rep_State r = ReportOpen \<and> addressed d1 reportID storyID target r)
          (\<lambda>r. r\<lparr>rep_State := ReportActioned, rep_ResolvedAt := Some (db_now e), rep_ResolvedBy := Some moderator\<rparr>) (reports d1)\<rparr>)))"

section \<open>Idempotency\<close>

definition hashRequest :: "(string \<Rightarrow> string) \<Rightarrow> string \<Rightarrow> string" where
  "hashRequest sha raw = sha raw"

definition byte_xor :: "char \<Rightarrow> char \<Rightarrow> nat" where
  "byte_xor a b = xor (of_char a) (of_char b)"

definition equalBytes :: "string \<Rightarrow> string \<Rightarrow> bool" where
  "equalBytes a b =
    (if length a \<noteq> length b then False
     else foldl (\<lambda>diff (x, y). or diff (byte_xor x y)) 0 (zip a b) = 0)"

definition same_idem :: "uuid \<Rightarrow> string \<Rightarrow> string \<Rightarrow> idempotency_row \<Rightarrow> bool" where
  "same_idem u scope key r \<longleftrightarrow> ik_UserID r = u \<and> ik_Scope r = scope \<and> ik_Key r = key"

text \<open>Found, status, body, conflict.\<close>

definition IdempotentReplay ::
  "(string \<Rightarrow> string) \<Rightarrow> uuid \<Rightarrow> string \<Rightarrow> string \<Rightarrow> string \<Rightarrow> db \<Rightarrow> bool \<times> int \<times> string \<times> bool" where
  "IdempotentReplay sha u scope key request d =
    (if key = '''' then (False, 0, '''', False)
     else (case find (same_idem u scope key) (idempotency_keys d) of
       None \<Rightarrow> (False, 0, '''', False)
     | Some r \<Rightarrow>
         (if \<not> equalBytes (ik_RequestHash r) (hashRequest sha request) then (True, 0, '''', True)
          else (True, ik_Status r, ik_Response r, False))))"

definition RememberIdempotent ::
  "(string \<Rightarrow> string) \<Rightarrow> uuid \<Rightarrow> string \<Rightarrow> string \<Rightarrow> string \<Rightarrow> int \<Rightarrow> string \<Rightarrow> db \<Rightarrow> unit result" where
  "RememberIdempotent sha u scope key request status response d =
    (if key = '''' then Inr ((), d)
     else if \<not> list_ex (same_idem u scope key) (idempotency_keys d) \<and> \<not> user_exists d u
     then Inl (ErrDB Foreign_key_violation)
     else Inr ((), d\<lparr>idempotency_keys := insert_new (same_idem u scope key)
       \<lparr>ik_UserID = u, ik_Scope = scope, ik_Key = key, ik_RequestHash = hashRequest sha request,
        ik_Status = status, ik_Response = response\<rparr> (idempotency_keys d)\<rparr>))"

section \<open>The constant-time comparison\<close>

lemma or_nat_eq_0: "or a b = (0::nat) \<longleftrightarrow> a = 0 \<and> b = 0"
  by (auto simp: bit_eq_iff bit_or_iff)

lemma byte_xor_eq_0: "byte_xor a b = 0 \<longleftrightarrow> a = b"
  by (auto simp: byte_xor_def bit_eq_iff bit_xor_iff of_char_eq_iff [symmetric, where 'a = nat])

lemma fold_diff_eq_0:
  "length a = length b \<Longrightarrow>
    foldl (\<lambda>diff (x, y). or diff (byte_xor x y)) n (zip a b) = 0 \<longleftrightarrow> n = 0 \<and> a = b"
  by (induction a b arbitrary: n rule: list_induct2) (auto simp: or_nat_eq_0 byte_xor_eq_0)

lemma equalBytes_iff: "equalBytes a b \<longleftrightarrow> a = b"
  by (auto simp: equalBytes_def fold_diff_eq_0)

lemma find_insert_new_same:
  assumes "P r"
  shows "find P (insert_new P r rs) = (case find P rs of None \<Rightarrow> Some r | Some q \<Rightarrow> Some q)"
proof (cases "find P rs")
  case None
  then have "\<not> list_ex P rs" by (simp add: find_None_ex)
  with None assms show ?thesis by (simp add: insert_new_def find_append)
next
  case (Some q)
  then show ?thesis by (simp add: insert_new_def find_append)
qed

lemma find_insert_new_other:
  "\<not> Q r \<Longrightarrow> find Q (insert_new P r rs) = find Q rs"
  by (auto simp: insert_new_def find_append split: option.split)

lemma same_idem_trans: "same_idem u scope key r \<Longrightarrow> same_idem u' scope' key' r \<Longrightarrow> u' = u \<and> scope' = scope \<and> key' = key"
  by (simp add: same_idem_def)

text \<open>The first response stored under a key wins: after a response is remembered, a replay of the
  same request returns the response first stored and a request with another hash is a conflict;
  replays under any other account, scope or key are what they were.\<close>

theorem idempotent_first_wins:
  assumes "RememberIdempotent sha u scope key req status resp d = Inr ((), d')" and "key \<noteq> ''''"
  shows "IdempotentReplay sha u scope key req' d' =
      (if fst (IdempotentReplay sha u scope key req' d) then IdempotentReplay sha u scope key req' d
       else if sha req' = sha req then (True, status, resp, False) else (True, 0, '''', True))
    \<and> ((u', scope', key') \<noteq> (u, scope, key) \<longrightarrow>
       IdempotentReplay sha u' scope' key' req' d' = IdempotentReplay sha u' scope' key' req' d)"
proof
  define r where "r = \<lparr>ik_UserID = u, ik_Scope = scope, ik_Key = key, ik_RequestHash = hashRequest sha req,
        ik_Status = status, ik_Response = resp\<rparr>"
  from assms have d': "idempotency_keys d' = insert_new (same_idem u scope key) r (idempotency_keys d)"
    by (auto simp: RememberIdempotent_def r_def split: if_splits)
  have r: "same_idem u scope key r" by (simp add: same_idem_def r_def)
  have stored: "find (same_idem u scope key) (idempotency_keys d') =
      (case find (same_idem u scope key) (idempotency_keys d) of None \<Rightarrow> Some r | Some q \<Rightarrow> Some q)"
    unfolding d' by (rule find_insert_new_same) (rule r)
  have fields: "ik_RequestHash r = sha req" "ik_Status r = status" "ik_Response r = resp"
    by (simp_all add: r_def hashRequest_def)
  show "IdempotentReplay sha u scope key req' d' =
      (if fst (IdempotentReplay sha u scope key req' d) then IdempotentReplay sha u scope key req' d
       else if sha req' = sha req then (True, status, resp, False) else (True, 0, '''', True))"
    using assms(2) fields
    by (cases "find (same_idem u scope key) (idempotency_keys d)")
      (auto simp: IdempotentReplay_def stored equalBytes_iff hashRequest_def)
  show "(u', scope', key') \<noteq> (u, scope, key) \<longrightarrow>
       IdempotentReplay sha u' scope' key' req' d' = IdempotentReplay sha u' scope' key' req' d"
  proof
    assume "(u', scope', key') \<noteq> (u, scope, key)"
    with same_idem_trans[OF r] have "\<not> same_idem u' scope' key' r" by blast
    then have eq: "find (same_idem u' scope' key') (idempotency_keys d') = find (same_idem u' scope' key') (idempotency_keys d)"
      unfolding d' by (rule find_insert_new_other)
    show "IdempotentReplay sha u' scope' key' req' d' = IdempotentReplay sha u' scope' key' req' d"
      unfolding IdempotentReplay_def eq ..
  qed
qed

theorem idempotent_first_wins_witness:
  "\<exists>d'. RememberIdempotent (\<lambda>s. s) 3 ''publish'' ''k'' ''req'' 201 ''ok'' wit_login_db = Inr ((), d')
    \<and> IdempotentReplay (\<lambda>s. s) 3 ''publish'' ''k'' ''req'' d' = (True, 201, ''ok'', False)
    \<and> IdempotentReplay (\<lambda>s. s) 3 ''publish'' ''k'' ''other'' d' = (True, 0, '''', True)"
proof -
  have n: "idempotency_keys wit_login_db = []" "user_exists wit_login_db 3"
    by (simp_all add: wit_login_db_def wit_story_defs user_exists_def)
  then have "\<exists>p. RememberIdempotent (\<lambda>s. s) 3 ''publish'' ''k'' ''req'' 201 ''ok'' wit_login_db = Inr p"
    by (simp add: RememberIdempotent_def)
  then obtain d' where r: "RememberIdempotent (\<lambda>s. s) 3 ''publish'' ''k'' ''req'' 201 ''ok'' wit_login_db = Inr ((), d')"
    by auto
  have f: "\<not> fst (IdempotentReplay (\<lambda>s. s) 3 ''publish'' ''k'' q wit_login_db)" for q
    by (simp add: IdempotentReplay_def n)
  from idempotent_first_wins[OF r, where req' = "''req''"] idempotent_first_wins[OF r, where req' = "''other''"] r f
  show ?thesis by auto
qed

section \<open>Reports\<close>

lemma ListReports_in:
  "rt \<in> set (ListReports st limit d) \<Longrightarrow> \<exists>r\<in>set (reports d). rep_State r = st \<and> rt_ID rt = rep_ID r \<and> rt_StoryID rt = rep_StoryID r"
  unfolding ListReports_def by (fastforce dest!: in_set_takeD simp: set_concat)

text \<open>An action on a Story closes every open report of the Story: none of them is listed as
  open afterwards; a report that was already resolved is not resolved again, and the action is
  added to the end of the log.\<close>

theorem moderation_closes_reports:
  assumes "RecordModerationAction e m kind rid (Some s) target reason d = Inr ((), d')"
    and "kind \<noteq> ''dismiss_report''"
  shows "(\<forall>rt\<in>set (ListReports ReportOpen limit d'). rt_StoryID rt \<noteq> Some s)
    \<and> (\<forall>r\<in>set (reports d). rep_State r \<noteq> ReportOpen \<longrightarrow> r \<in> set (reports d'))
    \<and> (\<exists>a. moderation_actions d' = moderation_actions d @ [a] \<and> ma_Moderator a = m \<and> ma_Kind a = kind)"
proof -
  let ?P = "\<lambda>d r. rep_State r = ReportOpen \<and> addressed d rid (Some s) target r"
  let ?f = "\<lambda>r. r\<lparr>rep_State := ReportActioned, rep_ResolvedAt := Some (db_now e), rep_ResolvedBy := Some m\<rparr>"
  from assms have d': "reports d' = update_where (?P d) ?f (reports d)"
    and log: "\<exists>a. moderation_actions d' = moderation_actions d @ [a] \<and> ma_Moderator a = m \<and> ma_Kind a = kind"
    by (auto simp: RecordModerationAction_def Let_def addressed_def split: if_splits)
  have "rt_StoryID rt \<noteq> Some s" if listed: "rt \<in> set (ListReports ReportOpen limit d')" for rt
  proof -
    from ListReports_in[OF listed] obtain r where r: "r \<in> set (reports d')" "rep_State r = ReportOpen"
      "rt_StoryID rt = rep_StoryID r" by blast
    have "r \<noteq> ?f q" for q
    proof
      assume "r = ?f q"
      then have "rep_State r = ReportActioned" by simp
      with r(2) show False by simp
    qed
    with in_update_where[OF r(1)[unfolded d']] have "\<not> ?P d r" by blast
    with r show ?thesis by (auto simp: addressed_def)
  qed
  moreover have "r \<in> set (reports d')" if "r \<in> set (reports d)" "rep_State r \<noteq> ReportOpen" for r
    using that by (auto simp: d' set_update_where intro!: image_eqI [where x = r])
  ultimately show ?thesis using log by blast
qed

definition wit_report :: report_row where
  "wit_report = \<lparr>rep_ID = 40, rep_Reporter = 3, rep_SubjectKind = SubjectStory, rep_StoryID = Some 7, rep_SubjectUserID = None,
    rep_Reason = ''spam'', rep_Details = '''', rep_State = ReportOpen, rep_CreatedAt = 5, rep_ResolvedAt = None, rep_ResolvedBy = None\<rparr>"

theorem moderation_closes_reports_witness:
  "\<exists>d'. RecordModerationAction wit_env 3 ''remove_story'' None (Some 7) None ''r'' (wit_login_db\<lparr>stories := [wit_story StoryPublished], reports := [wit_report]\<rparr>) = Inr ((), d')
    \<and> (\<forall>rt\<in>set (ListReports ReportOpen 10 d'). rt_StoryID rt \<noteq> Some 7)"
proof -
  let ?d = "wit_login_db\<lparr>stories := [wit_story StoryPublished], reports := [wit_report]\<rparr>"
  have "\<exists>p. RecordModerationAction wit_env 3 ''remove_story'' None (Some 7) None ''r'' ?d = Inr p"
    by (simp add: RecordModerationAction_def Let_def action_kinds_def ref_ok_def user_exists_def story_exists_def
        wit_login_db_def wit_story_defs)
  then obtain d' where r: "RecordModerationAction wit_env 3 ''remove_story'' None (Some 7) None ''r'' ?d = Inr ((), d')"
    by auto
  from moderation_closes_reports[OF r] r show ?thesis by simp
qed

end
