(* ===== verification/Http.thy ===== *)
theory Http
  imports Action Moderation Utf8
begin

text \<open>
  The response side of \<^verbatim>\<open>src/internal/httpx/httpx.go\<close>: stable error codes, structured errors,
  JSON responses, and how a handler that may return an error (an action, see \<open>Action\<close>) is turned
  into a response.  The encoder and the decoder of the JSON package appear as their results.
\<close>

section \<open>Errors\<close>

datatype Code = CodeBadRequest | CodeUnauthorized | CodeForbidden | CodeNotFound | CodeConflict | CodeGone
  | CodePayloadTooLarge | CodeUnsupportedMedia | CodeRateLimited | CodeInternal | CodeUnavailable | CodeProcessing

fun code_text :: "Code \<Rightarrow> string" where
  "code_text CodeBadRequest = ''bad_request''"
| "code_text CodeUnauthorized = ''unauthorized''"
| "code_text CodeForbidden = ''forbidden''"
| "code_text CodeNotFound = ''not_found''"
| "code_text CodeConflict = ''conflict''"
| "code_text CodeGone = ''gone''"
| "code_text CodePayloadTooLarge = ''payload_too_large''"
| "code_text CodeUnsupportedMedia = ''unsupported_media''"
| "code_text CodeRateLimited = ''rate_limited''"
| "code_text CodeInternal = ''internal''"
| "code_text CodeUnavailable = ''unavailable''"
| "code_text CodeProcessing = ''processing''"

record api_Error =
  er_Status :: int
  er_Code :: Code
  er_Message :: string
  er_Field :: string
  er_RetryAfter :: int
  er_Internal :: "store_error option"

definition Err :: "int \<Rightarrow> Code \<Rightarrow> string \<Rightarrow> api_Error" where
  "Err status code msg = \<lparr>er_Status = status, er_Code = code, er_Message = msg, er_Field = '''',
     er_RetryAfter = 0, er_Internal = None\<rparr>"

definition BadRequest :: "string \<Rightarrow> api_Error" where "BadRequest = Err 400 CodeBadRequest"

definition Unauthorized :: "string \<Rightarrow> api_Error" where "Unauthorized = Err 401 CodeUnauthorized"

definition Forbidden :: "string \<Rightarrow> api_Error" where "Forbidden = Err 403 CodeForbidden"

definition NotFound :: api_Error where "NotFound = Err 404 CodeNotFound ''Not found.''"

definition Conflict :: "string \<Rightarrow> api_Error" where "Conflict = Err 409 CodeConflict"

definition TooLarge :: "string \<Rightarrow> api_Error" where "TooLarge = Err 413 CodePayloadTooLarge"

definition Unsupported :: "string \<Rightarrow> api_Error" where "Unsupported = Err 415 CodeUnsupportedMedia"

definition RateLimited :: "int \<Rightarrow> api_Error" where
  "RateLimited retryAfterSeconds =
    (Err 429 CodeRateLimited ''Too many requests. Try again shortly.'')\<lparr>er_RetryAfter := retryAfterSeconds\<rparr>"

definition Internal :: "store_error option \<Rightarrow> api_Error" where
  "Internal err = (Err 500 CodeInternal ''Something went wrong.'')\<lparr>er_Internal := err\<rparr>"

definition FieldError :: "string \<Rightarrow> string \<Rightarrow> api_Error" where
  "FieldError field msg = (Err 400 CodeBadRequest msg)\<lparr>er_Field := field\<rparr>"

section \<open>Responses\<close>

type_synonym headers = "(string \<times> string) list"

definition set_header :: "string \<Rightarrow> string \<Rightarrow> headers \<Rightarrow> headers" where
  "set_header k v hs = filter (\<lambda>h. fst h \<noteq> k) hs @ [(k, v)]"

definition add_header :: "string \<Rightarrow> string \<Rightarrow> headers \<Rightarrow> headers" where
  "add_header k v hs = hs @ [(k, v)]"

definition get_header :: "string \<Rightarrow> headers \<Rightarrow> string" where
  "get_header k hs = (case find (\<lambda>h. fst h = k) hs of None \<Rightarrow> '''' | Some h \<Rightarrow> snd h)"

record errorBody =
  eb_Code :: string
  eb_Message :: string
  eb_Field :: string
  eb_RetryAfter :: int

text \<open>What a response carries: nothing, a JSON document, the JSON document of an error, or bytes.\<close>

datatype 'v body = NoBody | JSON 'v | ErrorJSON errorBody | Bytes string

record 'v response =
  rsp_Status :: int
  rsp_Headers :: headers
  rsp_Body :: "'v body"

definition json_headers :: "headers \<Rightarrow> headers" where
  "json_headers hs =
    (let hs = set_header ''Content-Type'' ''application/json; charset=utf-8'' hs;
         hs = (if get_header ''Cache-Control'' hs = '''' then set_header ''Cache-Control'' ''no-store'' hs else hs)
     in set_header ''X-Content-Type-Options'' ''nosniff'' hs)"

definition WriteJSON :: "headers \<Rightarrow> int \<Rightarrow> 'v body \<Rightarrow> 'v response" where
  "WriteJSON hs status v =
    \<lparr>rsp_Status = status, rsp_Headers = json_headers hs, rsp_Body = (if status = 204 then NoBody else v)\<rparr>"

definition NoContent :: "headers \<Rightarrow> 'v response" where
  "NoContent hs = \<lparr>rsp_Status = 204, rsp_Headers = hs, rsp_Body = NoBody\<rparr>"

definition WriteError :: "headers \<Rightarrow> api_Error \<Rightarrow> 'v response" where
  "WriteError hs err =
    WriteJSON (if 0 < er_RetryAfter err then set_header ''Retry-After'' (decimal (er_RetryAfter err)) hs else hs)
      (er_Status err)
      (ErrorJSON \<lparr>eb_Code = code_text (er_Code err), eb_Message = er_Message err, eb_Field = er_Field err,
        eb_RetryAfter = er_RetryAfter err\<rparr>)"

section \<open>Request bodies\<close>

text \<open>What the decoder of the JSON package finds in the first \<open>n\<close> bytes of a body: a document of the
  expected shape and nothing more, the limit, something else, or a document with more behind it.\<close>

datatype 'q decoded = Decoded 'q | OverLimit | Malformed_JSON | Trailing

definition DecodeJSON :: "(int \<Rightarrow> 'q decoded) \<Rightarrow> int \<Rightarrow> api_Error + 'q" where
  "DecodeJSON body maxBytes =
    (case body (if maxBytes \<le> 0 then 64 * 1024 else maxBytes) of
       Decoded q \<Rightarrow> Inr q
     | OverLimit \<Rightarrow> Inl (TooLarge ''Request body is too large.'')
     | Malformed_JSON \<Rightarrow> Inl (BadRequest ''Request body is not valid JSON for this endpoint.'')
     | Trailing \<Rightarrow> Inl (BadRequest ''Request body must contain exactly one JSON object.''))"

section \<open>Handlers\<close>

text \<open>The three ways the handlers turn an error of the store into an error of the contract.\<close>

definition internal :: "store_error \<Rightarrow> api_Error" where "internal e = Internal (Some e)"

definition missing_or_internal :: "store_error \<Rightarrow> api_Error" where
  "missing_or_internal e = (if e = ErrNotFound then NotFound else internal e)"

definition missing :: "store_error \<Rightarrow> api_Error" where "missing e = NotFound"

definition ServeHTTP :: "headers \<Rightarrow> (api_Error, 'v response) act \<Rightarrow> db \<Rightarrow> 'v response \<times> db" where
  "ServeHTTP hs h d = (case h d of (Inl e, d') \<Rightarrow> (WriteError hs e, d') | (Inr r, d') \<Rightarrow> (r, d'))"

lemma get_set_header [simp]:
  "get_header k (set_header k v hs) = v"
  "k' \<noteq> k \<Longrightarrow> get_header k (set_header k' v hs) = get_header k hs"
proof -
  have "find (\<lambda>h. fst h = k) (filter (\<lambda>h. fst h \<noteq> k) hs) = None" by (auto simp: find_None_iff)
  moreover have "find P (xs @ ys) = (case find P xs of None \<Rightarrow> find P ys | Some x \<Rightarrow> Some x)" for P :: "string \<times> string \<Rightarrow> bool" and xs ys
    by (induction xs) auto
  moreover have "k' \<noteq> k \<Longrightarrow> find (\<lambda>h. fst h = k) (filter (\<lambda>h. fst h \<noteq> k') hs) = find (\<lambda>h. fst h = k) hs"
    by (induction hs) auto
  ultimately show "get_header k (set_header k v hs) = v"
    "k' \<noteq> k \<Longrightarrow> get_header k (set_header k' v hs) = get_header k hs"
    by (simp_all add: get_header_def set_header_def split: option.splits)
qed

lemma WriteError_simps [simp]:
  "rsp_Status (WriteError hs e) = er_Status e"
  by (simp add: WriteError_def WriteJSON_def)

lemma NotFound_simps [simp]: "er_Status NotFound = 404" "er_RetryAfter NotFound = 0" "er_Code NotFound = CodeNotFound"
  by (simp_all add: NotFound_def Err_def)

end
