(* ===== verification/Feed.thy ===== *)
theory Feed
  imports Interact
begin

text \<open>
  The feed, an author's sequence, avatar rings and the change token:
  \<^verbatim>\<open>src/internal/store/feed.go\<close>.  The query's ordering is a lexicographic sort key whose
  provenance component is a type of its own with the order of the \<open>CASE\<close> expression; the loop
  that groups the rows is a fold.  All rows of one author have the same provenance, mute state
  and GitHub id, so the query's per-author minimum of them is the row's own value.
\<close>

section \<open>Provenance and its order\<close>

datatype FeedProvenance = ProvSelf | ProvNative | ProvImport | ProvNone

fun feed_provenance_text :: "FeedProvenance \<Rightarrow> string" where
  "feed_provenance_text ProvSelf = ''self''"
| "feed_provenance_text ProvNative = ''stories_native''"
| "feed_provenance_text ProvImport = ''github_import''"
| "feed_provenance_text ProvNone = ''none''"

fun provenance_rank :: "FeedProvenance \<Rightarrow> nat" where
  "provenance_rank ProvSelf = 0"
| "provenance_rank ProvNative = 1"
| "provenance_rank ProvImport = 2"
| "provenance_rank ProvNone = 3"

lemma provenance_rank_inject: "provenance_rank p = provenance_rank q \<longleftrightarrow> p = q"
  by (cases p; cases q) simp_all

instantiation FeedProvenance :: linorder
begin

definition less_eq_FeedProvenance :: "FeedProvenance \<Rightarrow> FeedProvenance \<Rightarrow> bool" where
  "less_eq_FeedProvenance p q = (provenance_rank p \<le> provenance_rank q)"

definition less_FeedProvenance :: "FeedProvenance \<Rightarrow> FeedProvenance \<Rightarrow> bool" where
  "less_FeedProvenance p q = (provenance_rank p < provenance_rank q)"

instance
  by standard (auto simp: less_eq_FeedProvenance_def less_FeedProvenance_def provenance_rank_inject)

end

section \<open>Rows of the feed query\<close>

record feed_row =
  fr_item :: StoryItem
  fr_author :: uuid
  fr_gh :: GitHubID
  fr_seen :: bool
  fr_prov :: FeedProvenance
  fr_muted :: bool
  fr_published :: time

definition viewer_provenance :: "db \<Rightarrow> uuid \<Rightarrow> uuid \<Rightarrow> GitHubID \<Rightarrow> FeedProvenance" where
  "viewer_provenance d viewer author gh =
    (case find (\<lambda>r. r_FollowerUserID r = viewer \<and> r_FolloweeGitHubID r = gh \<and> r_State r = RelationshipActive)
        (relationships d) of
       Some r \<Rightarrow> (case r_Provenance r of ProvenanceNative \<Rightarrow> ProvNative | ProvenanceGitHubImport \<Rightarrow> ProvImport)
     | None \<Rightarrow> if author = viewer then ProvSelf else ProvNone)"

definition annotate :: "db \<Rightarrow> uuid \<Rightarrow> story_row \<times> user_row \<times> identity_row \<Rightarrow> feed_row" where
  "annotate d viewer = (\<lambda>(si, au, gi). \<lparr>
    fr_item = scanStory si au gi, fr_author = si_AuthorUserID si, fr_gh = us_github_user_id au,
    fr_seen = Seen (si_ID si) viewer d,
    fr_prov = viewer_provenance d viewer (si_AuthorUserID si) (us_github_user_id au),
    fr_muted = list_ex (\<lambda>m. fst m = viewer \<and> snd m = us_github_user_id au) (mutes d),
    fr_published = the (si_PublishedAt si)\<rparr>)"

definition visible_rows :: "env \<Rightarrow> uuid \<Rightarrow> GitHubID \<Rightarrow> db \<Rightarrow> (story_row \<times> user_row \<times> identity_row) list" where
  "visible_rows e viewer gh d =
    filter (\<lambda>(si, au, gi). visibleToViewer d viewer gh (Now e) si au) (story_join d)"

definition author_unseen :: "feed_row list \<Rightarrow> uuid \<Rightarrow> bool" where
  "author_unseen rows a = list_ex (\<lambda>r. fr_author r = a \<and> \<not> fr_seen r) rows"

fun latest_of :: "time list \<Rightarrow> time" where
  "latest_of [] = 0"
| "latest_of (t # ts) = fold max ts t"

definition author_latest :: "feed_row list \<Rightarrow> uuid \<Rightarrow> time" where
  "author_latest rows a = latest_of (map fr_published (filter (\<lambda>r. fr_author r = a) rows))"

definition feed_key ::
  "uuid \<Rightarrow> feed_row list \<Rightarrow> feed_row \<Rightarrow> (bool \<times> bool \<times> FeedProvenance \<times> time \<times> GitHubID) \<times> time" where
  "feed_key viewer rows r =
    ((fr_author r \<noteq> viewer, \<not> author_unseen rows (fr_author r), fr_prov r,
      - author_latest rows (fr_author r), fr_gh r), fr_published r)"

definition feed_rows :: "env \<Rightarrow> uuid \<Rightarrow> GitHubID \<Rightarrow> bool \<Rightarrow> db \<Rightarrow> feed_row list" where
  "feed_rows e viewer gh includeMuted d =
    (let rows = map (annotate d viewer) (visible_rows e viewer gh d) in
     sort_key (feed_key viewer rows)
       (filter (\<lambda>r. includeMuted \<or> \<not> fr_muted r \<or> fr_author r = viewer) rows))"

section \<open>Grouping\<close>

record FeedGroup =
  fg_Author :: Identity
  fg_Items :: "StoryItem list"
  fg_Seen :: "bool list"
  fg_HasUnseen :: bool
  fg_Muted :: bool
  fg_Provenance :: FeedProvenance

definition new_group :: "feed_row \<Rightarrow> FeedGroup" where
  "new_group r = \<lparr>fg_Author = (the (si_Author (fr_item r)))\<lparr>gi_GitHubID := fr_gh r, gi_Registered := True\<rparr>,
     fg_Items = [], fg_Seen = [], fg_HasUnseen = False, fg_Muted = fr_muted r, fg_Provenance = fr_prov r\<rparr>"

definition extend_group :: "FeedGroup \<Rightarrow> feed_row \<Rightarrow> FeedGroup" where
  "extend_group g r = g\<lparr>fg_Items := fg_Items g @ [fr_item r], fg_Seen := fg_Seen g @ [fr_seen r],
    fg_HasUnseen := (fg_HasUnseen g \<or> \<not> fr_seen r)\<rparr>"

fun add_row :: "(uuid \<times> FeedGroup) list \<Rightarrow> feed_row \<Rightarrow> (uuid \<times> FeedGroup) list" where
  "add_row [] r = [(fr_author r, extend_group (new_group r) r)]"
| "add_row ((a, g) # gs) r =
    (if a = fr_author r then (a, extend_group g r) # gs else (a, g) # add_row gs r)"

definition loadVariantsForGroups :: "db \<Rightarrow> FeedGroup \<Rightarrow> FeedGroup" where
  "loadVariantsForGroups d g = g\<lparr>fg_Items := map (loadVariants d) (fg_Items g)\<rparr>"

fun collect_groups ::
  "uuid \<Rightarrow> nat \<Rightarrow> (uuid \<times> FeedGroup) list \<Rightarrow> FeedGroup list \<Rightarrow> FeedGroup option \<Rightarrow> FeedGroup list \<times> FeedGroup option" where
  "collect_groups viewer limit [] out me = (out, me)"
| "collect_groups viewer limit ((a, g) # gs) out me =
    (if a = viewer then collect_groups viewer limit gs out (Some g)
     else if limit \<le> length out then (out, me)
     else collect_groups viewer limit gs (out @ [g]) me)"

definition feed_limit :: "int \<Rightarrow> nat" where
  "feed_limit limit = (if limit \<le> 0 \<or> 50 < limit then 25 else nat limit)"

definition Feed :: "env \<Rightarrow> uuid \<Rightarrow> GitHubID \<Rightarrow> bool \<Rightarrow> int \<Rightarrow> db \<Rightarrow> FeedGroup list \<times> FeedGroup option" where
  "Feed e viewer gh includeMuted limit d =
    collect_groups viewer (feed_limit limit)
      (map (\<lambda>(a, g). (a, loadVariantsForGroups d g))
        (foldl add_row [] (feed_rows e viewer gh includeMuted d))) [] None"

section \<open>Sequences, rings and the change token\<close>

definition AuthorSequence :: "env \<Rightarrow> uuid \<Rightarrow> GitHubID \<Rightarrow> string \<Rightarrow> db \<Rightarrow> store_error + FeedGroup" where
  "AuthorSequence e viewer gh login d =
    bind_res (IdentityByLogin login d) (\<lambda>idn.
      let rows = sort_key fr_published (map (annotate d viewer)
            (filter (\<lambda>(si, au, gi). us_github_user_id au = gi_GitHubID idn) (visible_rows e viewer gh d)));
          g = foldl (\<lambda>g r. (extend_group g r)\<lparr>fg_Muted := fr_muted r, fg_Provenance := fr_prov r\<rparr>)
            \<lparr>fg_Author = idn, fg_Items = [], fg_Seen = [], fg_HasUnseen = False, fg_Muted = False,
             fg_Provenance = ProvNone\<rparr> rows in
      if fg_Items g = [] then Inl ErrNotFound else Inr (loadVariantsForGroups d g))"

definition OwnSequence :: "env \<Rightarrow> uuid \<Rightarrow> db \<Rightarrow> StoryItem list" where
  "OwnSequence e owner d =
    map (\<lambda>(si, au, gi). loadVariants d (scanStory si au gi))
      (sort_key (\<lambda>(si, au, gi). si_CreatedAt si)
        (filter (\<lambda>(si, au, gi). si_AuthorUserID si = owner
          \<and> (si_State si = StoryProcessing \<or> si_State si = StoryPublished \<or> si_State si = StoryFailed)
          \<and> (case si_ExpiresAt si of None \<Rightarrow> True | Some t \<Rightarrow> Now e < t)) (story_join d)))"

record RingStatus =
  rs_GitHubID :: GitHubID
  rs_Login :: string
  rs_HasActive :: bool
  rs_HasUnseen :: bool
  rs_Muted :: bool
  rs_IsSelf :: bool

definition ring_status :: "env \<Rightarrow> uuid \<Rightarrow> GitHubID \<Rightarrow> db \<Rightarrow> GitHubID \<Rightarrow> RingStatus" where
  "ring_status e viewer gh d target =
    (let vis = [(visibleToViewer d viewer gh (Now e) si au, Seen (si_ID si) viewer d).
           si \<leftarrow> stories d, au \<leftarrow> filter (\<lambda>au. us_id au = si_AuthorUserID si \<and> us_github_user_id au = target) (users d)] in
     \<lparr>rs_GitHubID = target,
      rs_Login = (case identity_row_of d target of None \<Rightarrow> '''' | Some gi \<Rightarrow> gi_Login gi),
      rs_HasActive = list_ex fst vis, rs_HasUnseen = list_ex (\<lambda>(v, s). v \<and> \<not> s) vis,
      rs_Muted = list_ex (\<lambda>m. fst m = viewer \<and> snd m = target) (mutes d),
      rs_IsSelf = (target = gh)\<rparr>)"

definition RingStatuses :: "env \<Rightarrow> uuid \<Rightarrow> GitHubID \<Rightarrow> GitHubID list \<Rightarrow> db \<Rightarrow> RingStatus list" where
  "RingStatuses e viewer gh ids d =
    (if ids = [] then [] else map (ring_status e viewer gh d) (remdups ids))"

text \<open>\<open>itoa\<close> fills a 20-byte buffer from the end; the digits it writes are the accumulator.\<close>

fun itoa_loop :: "nat \<Rightarrow> string \<Rightarrow> string" where
  "itoa_loop n buf = (if n = 0 then buf else itoa_loop (n div 10) (digit (n mod 10) # buf))"

declare itoa_loop.simps [simp del]

definition itoa :: "int \<Rightarrow> string" where
  "itoa n = (if n = 0 then ''0'' else itoa_loop (nat n) [])"

text \<open>\<open>fmt\<close> is the RFC 3339 text of an instant.\<close>

definition FeedVersion :: "(time \<Rightarrow> string) \<Rightarrow> env \<Rightarrow> uuid \<Rightarrow> GitHubID \<Rightarrow> db \<Rightarrow> string" where
  "FeedVersion fmt e viewer gh d =
    (let vis = [si. si \<leftarrow> stories d, au \<leftarrow> filter (\<lambda>au. us_id au = si_AuthorUserID si) (users d),
           visibleToViewer d viewer gh (Now e) si au];
         stamp = (\<lambda>si. let p = the (si_PublishedAt si) in
           case si_DeletedAt si of None \<Rightarrow> p | Some t \<Rightarrow> max p t) in
     case map stamp vis of
       [] \<Rightarrow> ''0-0''
     | t # ts \<Rightarrow> fmt (foldl max t ts) @ ''-'' @ itoa (int (length vis)))"

section \<open>Non-interference: reads depend on the visible Stories only\<close>

text \<open>The database without the Stories the viewer may not see at that time.\<close>

definition only_visible :: "env \<Rightarrow> uuid \<Rightarrow> GitHubID \<Rightarrow> db \<Rightarrow> db" where
  "only_visible e viewer gh d = d\<lparr>stories := filter (\<lambda>si. list_ex (\<lambda>au. us_id au = si_AuthorUserID si
     \<and> visibleToViewer d viewer gh (Now e) si au) (users d)) (stories d)\<rparr>"

lemma only_visible_frame [simp]:
  "users (only_visible e viewer gh d) = users d" "identities (only_visible e viewer gh d) = identities d"
  "variants (only_visible e viewer gh d) = variants d" "views (only_visible e viewer gh d) = views d"
  "relationships (only_visible e viewer gh d) = relationships d" "mutes (only_visible e viewer gh d) = mutes d"
  "visibleToViewer (only_visible e viewer gh d) v g t si au = visibleToViewer d v g t si au"
  by (simp_all add: only_visible_def) (rule visibleToViewer_frame, simp_all)

lemma concat_map_filter_empty:
  "(\<And>x. x \<in> set xs \<Longrightarrow> \<not> P x \<Longrightarrow> f x = []) \<Longrightarrow> concat (map f (filter P xs)) = concat (map f xs)"
  by (induction xs) auto

lemma concat_map_guard: "concat (map (\<lambda>x. if P x then [f x] else []) xs) = map f (filter P xs)"
  by (induction xs) auto

lemma visible_rows_only_visible:
  "visible_rows e viewer gh (only_visible e viewer gh d) = visible_rows e viewer gh d"
proof -
  let ?V = "\<lambda>(si, au, gi). visibleToViewer d viewer gh (Now e) si au"
  let ?J = "\<lambda>si. [(si, au, gi). au \<leftarrow> filter (\<lambda>au. us_id au = si_AuthorUserID si) (users d),
      gi \<leftarrow> filter (\<lambda>gi. gi_GitHubID gi = us_github_user_id au) (identities d)]"
  have "filter ?V (?J si) = []" if "\<not> list_ex (\<lambda>au. us_id au = si_AuthorUserID si
      \<and> visibleToViewer d viewer gh (Now e) si au) (users d)" for si
    using that by (auto simp: filter_empty_conv list_ex_iff)
  then have "concat (map (\<lambda>si. filter ?V (?J si)) (stories (only_visible e viewer gh d)))
      = concat (map (\<lambda>si. filter ?V (?J si)) (stories d))"
    unfolding only_visible_def by simp (rule concat_map_filter_empty, blast)
  then show ?thesis
    unfolding visible_rows_def story_join_def only_visible_frame by (simp add: filter_concat comp_def)
qed

lemma find_visible: "find (\<lambda>t. Q t \<and> V t) xs = find Q (filter V xs)"
  by (induction xs) auto

lemma StoryForViewer_visible_rows:
  "StoryForViewer e viewer gh sid d = scan_first d (find (\<lambda>(si, au, gi). si_ID si = sid) (visible_rows e viewer gh d))"
proof -
  have eq: "(\<lambda>(si, au, gi). si_ID si = sid \<and> visibleToViewer d viewer gh (Now e) si au)
      = (\<lambda>t. (\<lambda>(si, au, gi). si_ID si = sid) t \<and> (\<lambda>(si, au, gi). visibleToViewer d viewer gh (Now e) si au) t)"
    by (auto simp: fun_eq_iff)
  show ?thesis unfolding StoryForViewer_def visible_rows_def eq find_visible ..
qed

lemma annotate_only_visible: "annotate (only_visible e viewer gh d) v = annotate d v"
  by (auto simp: annotate_def viewer_provenance_def Seen_def fun_eq_iff)

lemma loadVariants_only_visible: "loadVariants (only_visible e viewer gh d) = loadVariants d"
  by (auto simp: loadVariants_def fun_eq_iff)

lemma feed_only_visible:
  "feed_rows e viewer gh inc (only_visible e viewer gh d) = feed_rows e viewer gh inc d"
  by (simp only: feed_rows_def visible_rows_only_visible annotate_only_visible)

lemma ring_only_visible:
  "ring_status e viewer gh (only_visible e viewer gh d) g = ring_status e viewer gh d g"
proof -
  let ?F = "\<lambda>si. map (\<lambda>au. (visibleToViewer d viewer gh (Now e) si au, Seen (si_ID si) viewer d))
      (filter (\<lambda>au. us_id au = si_AuthorUserID si \<and> us_github_user_id au = g) (users d))"
  have "list_ex Q (concat (map ?F (stories (only_visible e viewer gh d)))) \<longleftrightarrow> list_ex Q (concat (map ?F (stories d)))"
    if "\<And>s. \<not> Q (False, s)" for Q
  proof -
    have "v" if "Q (v, s)" for v s using that \<open>\<And>s. \<not> Q (False, s)\<close> by (cases v) auto
    then show ?thesis by (fastforce simp: only_visible_def list_ex_iff)
  qed
  from this[of fst] this[of "\<lambda>(v, s). v \<and> \<not> s"] show ?thesis
    unfolding ring_status_def Let_def only_visible_frame Seen_def identity_row_of_def
    by (simp add: Seen_def identity_row_of_def)
qed

section \<open>Sorting by pairs\<close>

lemma sorted_map_fst: "sorted (map k xs) \<Longrightarrow> sorted (map (\<lambda>x. fst (k x)) xs)"
  for k :: "'a \<Rightarrow> 'b :: linorder \<times> 'c :: linorder"
  by (induction xs) (auto simp: less_eq_prod_def split: prod.splits)

lemma sorted_map_snd: "sorted (map (\<lambda>x. (c, k x)) xs) \<Longrightarrow> sorted (map k xs)"
  for c :: "'b :: linorder" and k :: "'a \<Rightarrow> 'c :: linorder"
  by (induction xs) auto

lemma sorted_same_fst:
  fixes k :: "'a \<Rightarrow> 'b :: linorder \<times> 'c :: linorder"
  assumes "sorted (map k xs)" and "\<And>x. x \<in> set xs \<Longrightarrow> fst (k x) = c" and "\<And>x. snd (k x) = p x"
  shows "sorted (map p xs)"
proof -
  have "map k xs = map (\<lambda>x. (c, p x)) xs" using assms(2,3) by (auto intro: prod_eqI)
  with assms(1) have "sorted (map (\<lambda>x. (c, p x)) xs)" by simp
  then show ?thesis by (rule sorted_map_snd)
qed

section \<open>Facts about the grouping\<close>

text \<open>First occurrences, in order.\<close>

definition firsts :: "'a list \<Rightarrow> 'a list" where
  "firsts xs = rev (remdups (rev xs))"

lemma firsts_snoc [simp]: "firsts (xs @ [x]) = (if x \<in> set xs then firsts xs else firsts xs @ [x])"
  by (simp add: firsts_def)

lemma firsts_Nil [simp]: "firsts [] = []"
  by (simp add: firsts_def)

lemma set_firsts [simp]: "set (firsts xs) = set xs"
  by (simp add: firsts_def)

lemma distinct_firsts [simp]: "distinct (firsts xs)"
  by (simp add: firsts_def)

lemma sorted_firsts: "sorted (map f xs) \<Longrightarrow> sorted (map f (firsts xs))"
  by (induction xs rule: rev_induct) (auto simp: sorted_append)

definition group_of :: "feed_row list \<Rightarrow> uuid \<Rightarrow> FeedGroup" where
  "group_of rows a = foldl extend_group (new_group (hd (filter (\<lambda>r. fr_author r = a) rows)))
     (filter (\<lambda>r. fr_author r = a) rows)"

lemma add_row_map:
  assumes "distinct as"
  shows "add_row (map (\<lambda>a. (a, G a)) as) r =
    (if fr_author r \<in> set as then map (\<lambda>a. (a, if a = fr_author r then extend_group (G a) r else G a)) as
     else map (\<lambda>a. (a, G a)) as @ [(fr_author r, extend_group (new_group r) r)])"
  using assms by (induction as) auto

lemma group_of_snoc:
  "group_of (rows @ [r]) a =
    (if fr_author r \<noteq> a then group_of rows a
     else if a \<in> fr_author ` set rows then extend_group (group_of rows a) r
     else extend_group (new_group r) r)"
proof -
  have "a \<in> fr_author ` set rows \<longleftrightarrow> filter (\<lambda>r. fr_author r = a) rows \<noteq> []"
    by (auto simp: filter_empty_conv)
  then show ?thesis by (cases "filter (\<lambda>r. fr_author r = a) rows") (simp_all add: group_of_def)
qed

lemma grouping:
  "foldl add_row [] rows = map (\<lambda>a. (a, group_of rows a)) (firsts (map fr_author rows))"
proof (induction rows rule: rev_induct)
  case Nil
  then show ?case by simp
next
  case (snoc r rows)
  then show ?case
    by (simp add: add_row_map group_of_snoc) (auto simp: group_of_snoc)
qed

lemma foldl_extend_group:
  "fg_Items (foldl extend_group g rows) = fg_Items g @ map fr_item rows"
  "fg_Seen (foldl extend_group g rows) = fg_Seen g @ map fr_seen rows"
  "fg_HasUnseen (foldl extend_group g rows) \<longleftrightarrow> fg_HasUnseen g \<or> list_ex (\<lambda>r. \<not> fr_seen r) rows"
  "fg_Author (foldl extend_group g rows) = fg_Author g"
  "fg_Muted (foldl extend_group g rows) = fg_Muted g"
  "fg_Provenance (foldl extend_group g rows) = fg_Provenance g"
  by (induction rows arbitrary: g) (auto simp: extend_group_def)

lemma group_of_simps [simp]:
  "fg_Items (group_of rows a) = map fr_item (filter (\<lambda>r. fr_author r = a) rows)"
  "fg_Seen (group_of rows a) = map fr_seen (filter (\<lambda>r. fr_author r = a) rows)"
  "fg_HasUnseen (group_of rows a) \<longleftrightarrow> author_unseen rows a"
  by (auto simp: group_of_def foldl_extend_group new_group_def author_unseen_def list_ex_iff)

text \<open>The output loop: the viewer's own group apart, the others in order up to the limit.\<close>

lemma collect_groups_out:
  "fst (collect_groups viewer limit gs out me) =
    out @ take (limit - length out) (map snd (filter (\<lambda>(a, g). a \<noteq> viewer) gs))"
  by (induction viewer limit gs out me rule: collect_groups.induct) (auto simp: take_Cons')

lemma collect_groups_me:
  "snd (collect_groups viewer limit gs out me) = Some g \<Longrightarrow> me = Some g \<or> (viewer, g) \<in> set gs"
  by (induction viewer limit gs out me rule: collect_groups.induct) (auto split: if_splits)

section \<open>Facts about the rows\<close>

lemma in_visible_rows:
  "(si, au, gi) \<in> set (visible_rows e viewer gh d) \<longleftrightarrow>
    (si, au, gi) \<in> set (story_join d) \<and> visibleToViewer d viewer gh (Now e) si au"
  by (simp add: visible_rows_def)

lemma annotate_simps [simp]:
  "fr_author (annotate d v (si, au, gi)) = si_AuthorUserID si"
  "fr_item (annotate d v (si, au, gi)) = scanStory si au gi"
  "fr_gh (annotate d v (si, au, gi)) = us_github_user_id au"
  "fr_muted (annotate d v (si, au, gi)) \<longleftrightarrow> (v, us_github_user_id au) \<in> set (mutes d)"
  "fr_published (annotate d v (si, au, gi)) = the (si_PublishedAt si)"
  by (force simp: annotate_def list_ex_iff)+

lemma in_feed_rows:
  assumes "r \<in> set (feed_rows e viewer gh inc d)"
  obtains si au gi where "(si, au, gi) \<in> set (story_join d)" "visibleToViewer d viewer gh (Now e) si au"
    "r = annotate d viewer (si, au, gi)"
    "inc \<or> (viewer, us_github_user_id au) \<notin> set (mutes d) \<or> si_AuthorUserID si = viewer"
proof -
  from assms obtain t where t: "t \<in> set (visible_rows e viewer gh d)" "r = annotate d viewer t"
    "inc \<or> \<not> fr_muted r \<or> fr_author r = viewer"
    by (auto simp: feed_rows_def Let_def)
  obtain si au gi where "t = (si, au, gi)" by (cases t)
  with t show thesis by (intro that) (auto simp: in_visible_rows)
qed

lemma same_author_row:
  assumes "keyed us_id (users d)" and "(si, au, gi) \<in> set (story_join d)" and "(si', au', gi') \<in> set (story_join d)"
    and "si_AuthorUserID si = si_AuthorUserID si'"
  shows "au = au'"
  using assms keyed_unique[OF assms(1)] by (auto simp: story_join_in)

definition all_rows :: "env \<Rightarrow> uuid \<Rightarrow> GitHubID \<Rightarrow> db \<Rightarrow> feed_row list" where
  "all_rows e viewer gh d = map (annotate d viewer) (visible_rows e viewer gh d)"

lemma same_author_fields:
  assumes "keyed us_id (users d)" and "r \<in> set (all_rows e viewer gh d)" and "r' \<in> set (all_rows e viewer gh d)"
    and "fr_author r = fr_author r'"
  shows "fr_muted r = fr_muted r' \<and> fr_gh r = fr_gh r' \<and> fr_prov r = fr_prov r'"
proof -
  from assms(2,3) obtain si au gi si' au' gi' where
    r: "(si, au, gi) \<in> set (story_join d)" "r = annotate d viewer (si, au, gi)"
       "(si', au', gi') \<in> set (story_join d)" "r' = annotate d viewer (si', au', gi')"
    by (auto simp: all_rows_def in_visible_rows)
  with assms(4) same_author_row[OF assms(1) r(1,3)] have "au = au'" "si_AuthorUserID si = si_AuthorUserID si'" by auto
  then show ?thesis by (simp add: r(2,4) annotate_def)
qed

lemma set_feed_rows:
  "set (feed_rows e viewer gh inc d) =
    {r \<in> set (all_rows e viewer gh d). inc \<or> \<not> fr_muted r \<or> fr_author r = viewer}"
  by (auto simp: feed_rows_def all_rows_def Let_def)

text \<open>An author with a row in the feed has all of its rows there.\<close>

lemma author_rows:
  assumes "keyed us_id (users d)" and "a \<in> fr_author ` set (feed_rows e viewer gh inc d)"
  shows "{r \<in> set (feed_rows e viewer gh inc d). fr_author r = a} = {r \<in> set (all_rows e viewer gh d). fr_author r = a}"
proof -
  from assms(2) obtain q where q: "q \<in> set (all_rows e viewer gh d)" "fr_author q = a"
    "inc \<or> \<not> fr_muted q \<or> fr_author q = viewer" by (auto simp: set_feed_rows)
  have "inc \<or> \<not> fr_muted r \<or> fr_author r = viewer" if "r \<in> set (all_rows e viewer gh d)" "fr_author r = a" for r
    using same_author_fields[OF assms(1) that(1) q(1)] that(2) q(2,3) by simp
  then show ?thesis unfolding set_feed_rows by blast
qed

lemma latest_of_Max: "ts \<noteq> [] \<Longrightarrow> latest_of ts = Max (set ts)"
  by (cases ts) (simp_all only: latest_of.simps Max.set_eq_fold simp_thms)

definition group_key :: "FeedGroup \<Rightarrow> bool \<times> FeedProvenance \<times> time \<times> GitHubID" where
  "group_key g = (\<not> fg_HasUnseen g, fg_Provenance g,
    - latest_of (map (\<lambda>it. the (si_PublishedAt it)) (fg_Items g)), gi_GitHubID (fg_Author g))"

lemma loadVariantsForGroups_simps [simp]:
  "group_key (loadVariantsForGroups d g) = group_key g"
  "fg_HasUnseen (loadVariantsForGroups d g) = fg_HasUnseen g"
  "map (\<lambda>it. the (si_PublishedAt it)) (fg_Items (loadVariantsForGroups d g)) = map (\<lambda>it. the (si_PublishedAt it)) (fg_Items g)"
  by (simp_all add: loadVariantsForGroups_def group_key_def comp_def)

lemma published_of_row: "r \<in> set (all_rows e viewer gh d) \<Longrightarrow> the (si_PublishedAt (fr_item r)) = fr_published r"
  by (auto simp: all_rows_def)

lemma group_key_of_row:
  assumes "keyed us_id (users d)" and "r \<in> set (feed_rows e viewer gh inc d)" and "fr_author r \<noteq> viewer"
  shows "fst (feed_key viewer (all_rows e viewer gh d) r) =
    (True, group_key (group_of (feed_rows e viewer gh inc d) (fr_author r)))"
proof -
  let ?rows = "feed_rows e viewer gh inc d" and ?all = "all_rows e viewer gh d" and ?a = "fr_author r"
  let ?mine = "\<lambda>rs. filter (\<lambda>q. fr_author q = ?a) rs"
  have r: "r \<in> set (?mine ?rows)" using assms(2) by simp
  then have ne: "?mine ?rows \<noteq> []" by force
  have same: "set (?mine ?rows) = set (?mine ?all)" using author_rows[OF assms(1), of ?a e viewer gh inc] assms(2) by auto
  let ?h = "hd (?mine ?rows)"
  have h: "?h \<in> set ?all" "fr_author ?h = ?a" using hd_in_set[OF ne] same by auto
  have "r \<in> set ?all" using r same by auto
  from same_author_fields[OF assms(1) h(1) this h(2)] have f: "fr_gh ?h = fr_gh r" "fr_prov ?h = fr_prov r" by auto
  have unseen: "author_unseen ?rows ?a = author_unseen ?all ?a" using same by (auto simp: author_unseen_def list_ex_iff)
  have pub: "map (\<lambda>it. the (si_PublishedAt it)) (fg_Items (group_of ?rows ?a)) = map fr_published (?mine ?rows)"
    using same by (auto intro!: published_of_row)
  have "author_latest ?all ?a = Max (fr_published ` set (?mine ?all))"
  proof -
    have "?mine ?all \<noteq> []" using ne same by (metis set_empty)
    then show ?thesis by (simp add: author_latest_def latest_of_Max del: set_filter)
  qed
  also have "\<dots> = latest_of (map fr_published (?mine ?rows))"
    unfolding same[symmetric] using ne by (simp add: latest_of_Max del: set_filter)
  finally have latest: "author_latest ?all ?a = latest_of (map fr_published (?mine ?rows))" .
  have "gi_GitHubID (fg_Author (group_of ?rows ?a)) = fr_gh r" "fg_Provenance (group_of ?rows ?a) = fr_prov r"
    using f by (simp_all add: group_of_def foldl_extend_group new_group_def)
  then have "group_key (group_of ?rows ?a) = (\<not> author_unseen ?all ?a, fr_prov r, - author_latest ?all ?a, fr_gh r)"
    unfolding group_key_def pub latest by (simp add: unseen)
  then show ?thesis using assms(3) by (simp add: feed_key_def)
qed

lemma Feed_out:
  "fst (Feed e viewer gh inc limit d) = take (feed_limit limit) (map (\<lambda>a. loadVariantsForGroups d
     (group_of (feed_rows e viewer gh inc d) a)) (filter (\<lambda>a. a \<noteq> viewer) (firsts (map fr_author (feed_rows e viewer gh inc d)))))"
  by (simp add: Feed_def collect_groups_out grouping filter_map comp_def)

section \<open>Properties\<close>

lemma wit_feed: "map fg_Provenance (fst (Feed wit_env 2 12 False 25 wit_chat_db)) = [ProvNone]"
proof -
  have v: "visible_rows wit_env 2 12 wit_chat_db =
      [(published_row 100 50 (wit_story StoryProcessing), wit_user 3 11, identity_values wit_env (wit_identity 11 ''ann''))]"
    by (simp add: visible_rows_def story_join_def visibleToViewer_def wit_chat_defs)
  show ?thesis
    by (simp add: Feed_def feed_limit_def feed_rows_def Let_def v annotate_def viewer_provenance_def
        new_group_def extend_group_def loadVariantsForGroups_def) (simp add: wit_chat_defs)
qed



text \<open>The feed's order is the specified one: groups with an unseen item first, then native
  follows before imported ones, then the most recent publication, then the GitHub id, and inside a
  group the items run from the oldest to the newest.\<close>

theorem Feed_ordered:
  assumes "keyed us_id (users d)"
  shows "sorted (map group_key (fst (Feed e viewer gh inc limit d)))
    \<and> list_all (\<lambda>g. sorted (map (\<lambda>it. the (si_PublishedAt it)) (fg_Items g))) (fst (Feed e viewer gh inc limit d))"
proof -
  let ?rows = "feed_rows e viewer gh inc d" and ?all = "all_rows e viewer gh d"
  let ?K = "\<lambda>a. fst (feed_key viewer ?all (hd (filter (\<lambda>r. fr_author r = a) ?rows)))"
  let ?as = "filter (\<lambda>a. a \<noteq> viewer) (firsts (map fr_author ?rows))"
  have rows: "sorted (map (feed_key viewer ?all) ?rows)"
    by (simp add: feed_rows_def all_rows_def Let_def)
  have K: "?K (fr_author r) = fst (feed_key viewer ?all r)" if "r \<in> set ?rows" for r
  proof -
    have ne: "filter (\<lambda>q. fr_author q = fr_author r) ?rows \<noteq> []" using that by (auto simp: filter_empty_conv)
    from hd_in_set[OF ne] have h: "hd (filter (\<lambda>q. fr_author q = fr_author r) ?rows) \<in> set ?all"
      "fr_author (hd (filter (\<lambda>q. fr_author q = fr_author r) ?rows)) = fr_author r" by (auto simp: set_feed_rows)
    moreover have "r \<in> set ?all" using that by (simp add: set_feed_rows)
    ultimately show ?thesis using same_author_fields[OF assms h(1) _ h(2)] by (simp add: feed_key_def)
  qed
  have "sorted (map (\<lambda>r. fst (feed_key viewer ?all r)) ?rows)"
    using rows by (rule sorted_map_fst)
  then have "sorted (map (\<lambda>r. ?K (fr_author r)) ?rows)" using K by (simp cong: map_cong)
  then have "sorted (map ?K (map fr_author ?rows))" by (simp add: comp_def)
  then have sK: "sorted (map ?K ?as)" by (intro sorted_filter sorted_firsts)
  have gK: "?K a = (True, group_key (group_of ?rows a))" if "a \<in> set ?as" for a
  proof -
    from that obtain r where "r \<in> set ?rows" "a = fr_author r" "a \<noteq> viewer" by auto
    with K[of r] group_key_of_row[OF assms, of r e viewer gh inc] show ?thesis by simp
  qed
  have "map ?K ?as = map (\<lambda>a. (True, group_key (group_of ?rows a))) ?as"
    using gK by (intro map_cong refl)
  with sK have "sorted (map (\<lambda>a. (True, group_key (group_of ?rows a))) ?as)" by (simp only:)
  then have "sorted (map (\<lambda>a. group_key (group_of ?rows a)) ?as)" by (rule sorted_map_snd)
  then have "sorted (take (feed_limit limit) (map (\<lambda>a. group_key (group_of ?rows a)) ?as))" by (rule sorted_wrt_take)
  then have keys: "sorted (map group_key (fst (Feed e viewer gh inc limit d)))"
    unfolding Feed_out by (simp add: take_map comp_def)
  have "sorted (map (\<lambda>it. the (si_PublishedAt it)) (fg_Items g))" if "g \<in> set (fst (Feed e viewer gh inc limit d))" for g
  proof -
    from that obtain a where g: "g = loadVariantsForGroups d (group_of ?rows a)"
      unfolding Feed_out by (auto dest!: in_set_takeD)
    have eq: "map (\<lambda>it. the (si_PublishedAt it)) (fg_Items g) = map fr_published (filter (\<lambda>r. fr_author r = a) ?rows)"
      unfolding g loadVariantsForGroups_simps by (auto simp: set_feed_rows intro!: published_of_row)
    have "sorted (map (feed_key viewer ?all) (filter (\<lambda>r. fr_author r = a) ?rows))" using rows by (rule sorted_filter)
    moreover have "fst (feed_key viewer ?all r) = ?K a" if "r \<in> set (filter (\<lambda>r. fr_author r = a) ?rows)" for r
      using K[of r] that by auto
    moreover have "snd (feed_key viewer ?all r) = fr_published r" for r by (simp add: feed_key_def)
    ultimately show ?thesis unfolding eq by (rule sorted_same_fst)
  qed
  with keys show ?thesis by (simp add: list_all_iff)
qed

theorem Feed_ordered_witness:
  "sorted (map group_key (fst (Feed wit_env 2 12 False 25 wit_chat_db)))
    \<and> map fg_Provenance (fst (Feed wit_env 2 12 False 25 wit_chat_db)) = [ProvNone]"
proof -
  have k: "keyed us_id (users wit_chat_db)"
    by (simp add: keyed_def wit_chat_db_def wit_graph_db_def wit_user_def new_user_def)
  from Feed_ordered[OF k, of wit_env 2 12 False 25] wit_feed show ?thesis by blast
qed

text \<open>No read is an oracle for Stories the viewer may not see: the feed, an author's
  sequence, the avatar rings, the single Story read and the change token give exactly the answers
  they would give if those Stories did not exist.\<close>

theorem reads_ignore_invisible:
  "Feed e viewer gh inc limit (only_visible e viewer gh d) = Feed e viewer gh inc limit d
    \<and> AuthorSequence e viewer gh login (only_visible e viewer gh d) = AuthorSequence e viewer gh login d
    \<and> RingStatuses e viewer gh ids (only_visible e viewer gh d) = RingStatuses e viewer gh ids d
    \<and> StoryForViewer e viewer gh sid (only_visible e viewer gh d) = StoryForViewer e viewer gh sid d
    \<and> FeedVersion fmt e viewer gh (only_visible e viewer gh d) = FeedVersion fmt e viewer gh d"
proof (intro conjI)
  have lv: "loadVariantsForGroups (only_visible e viewer gh d) g = loadVariantsForGroups d g" for g
    by (simp add: loadVariantsForGroups_def loadVariants_only_visible)
  show "Feed e viewer gh inc limit (only_visible e viewer gh d) = Feed e viewer gh inc limit d"
    unfolding Feed_def feed_only_visible lv ..
  have "IdentityByLogin login (only_visible e viewer gh d) = IdentityByLogin login d"
    by (auto simp: IdentityByLogin_def scanIdentity_def registered_def map_option_case split: option.splits)
  then show "AuthorSequence e viewer gh login (only_visible e viewer gh d) = AuthorSequence e viewer gh login d"
    by (simp only: AuthorSequence_def visible_rows_only_visible annotate_only_visible lv)
  show "RingStatuses e viewer gh ids (only_visible e viewer gh d) = RingStatuses e viewer gh ids d"
    by (simp add: RingStatuses_def ring_only_visible)
  show "StoryForViewer e viewer gh sid (only_visible e viewer gh d) = StoryForViewer e viewer gh sid d"
    unfolding StoryForViewer_visible_rows visible_rows_only_visible
    by (rule scan_first_frame) simp
  have "concat (map (\<lambda>si. map (\<lambda>au. si) (filter (\<lambda>au. visibleToViewer d viewer gh (Now e) si au)
        (filter (\<lambda>au. us_id au = si_AuthorUserID si) (users d)))) (stories (only_visible e viewer gh d)))
      = concat (map (\<lambda>si. map (\<lambda>au. si) (filter (\<lambda>au. visibleToViewer d viewer gh (Now e) si au)
        (filter (\<lambda>au. us_id au = si_AuthorUserID si) (users d)))) (stories d))"
    unfolding only_visible_def
    by simp (rule concat_map_filter_empty, auto simp: filter_empty_conv list_ex_iff)
  then show "FeedVersion fmt e viewer gh (only_visible e viewer gh d) = FeedVersion fmt e viewer gh d"
    unfolding FeedVersion_def only_visible_frame by (simp only: concat_map_guard)
qed

lemma digit_zero: "digit 0 = CHR ''0''"
proof -
  have "(of_char (CHR ''0'') :: nat) = 48" by simp
  then have "char_of (48 :: nat) = CHR ''0''" by (metis char_of_char)
  then show ?thesis by (simp add: digit_def)
qed

lemma itoa_loop_decimal: "itoa_loop n buf = (if n = 0 then buf else decimal_nat n @ buf)"
proof (induction n buf rule: itoa_loop.induct)
  case (1 n buf)
  show ?case
  proof (cases "n < 10")
    case True
    then show ?thesis by (subst itoa_loop.simps) (simp add: itoa_loop.simps[of 0] decimal_nat.simps[of n])
  next
    case False
    with 1 show ?thesis by (subst itoa_loop.simps) (simp add: decimal_nat.simps[of n])
  qed
qed

lemma length_decimal_nat: "n < 10 ^ k \<Longrightarrow> 0 < k \<Longrightarrow> length (decimal_nat n) \<le> k"
proof (induction k arbitrary: n)
  case (Suc k)
  show ?case
  proof (cases "n < 10")
    case False
    with Suc.prems have "n div 10 < 10 ^ k" "0 < k" by (cases k; simp add: less_mult_imp_div_less)+
    with Suc.IH[of "n div 10"] False show ?thesis by (simp add: decimal_nat.simps[of n])
  qed (simp add: decimal_nat.simps[of n])
qed simp

text \<open>\<open>itoa\<close> is the decimal text of a count, and every count of a 64-bit integer fits its
  20-byte buffer.\<close>

theorem itoa_decimal:
  assumes "0 \<le> n" and "n < 2 ^ 63"
  shows "itoa n = decimal n \<and> length (itoa n) \<le> 20"
proof -
  have "itoa n = decimal n"
    using assms(1) by (auto simp: itoa_def decimal_def itoa_loop_decimal decimal_nat.simps[of 0] digit_zero)
  moreover have "nat n < 10 ^ 20" using assms by (simp add: nat_less_iff)
  then have "length (decimal n) \<le> 20" using assms(1) by (simp add: decimal_def length_decimal_nat)
  ultimately show ?thesis by simp
qed

theorem itoa_decimal_witness: "itoa 9223372036854775807 = decimal 9223372036854775807"
  using itoa_decimal[of 9223372036854775807] by simp

end
