(* ===== verification/Present.thy ===== *)
theory Present
  imports Http Feed
begin

text \<open>
  The JSON shapes of \<^verbatim>\<open>src/internal/api/present.go\<close> as records, and the functions that fill them.
  \<open>S\<close> is the printer of the UUID library; what the JSON encoder leaves out of a record
  (\<open>omitempty\<close>) is not repeated here.
\<close>

section \<open>Enumerations as text\<close>

fun story_state_text :: "StoryState \<Rightarrow> string" where
  "story_state_text StoryProcessing = ''processing''"
| "story_state_text StoryPublished = ''published''"
| "story_state_text StoryFailed = ''failed''"
| "story_state_text StoryDeleted = ''deleted''"
| "story_state_text StoryRemoved = ''removed''"

fun media_kind_text :: "MediaKind \<Rightarrow> string" where
  "media_kind_text MediaImage = ''image''"
| "media_kind_text MediaVideo = ''video''"

fun inbox_kind_text :: "InboxKind \<Rightarrow> string" where
  "inbox_kind_text InboxReply = ''reply''"
| "inbox_kind_text InboxReaction = ''reaction''"
| "inbox_kind_text InboxFollow = ''follow''"

fun provenance_text :: "Provenance \<Rightarrow> string" where
  "provenance_text ProvenanceGitHubImport = ''github_import''"
| "provenance_text ProvenanceNative = ''stories_native''"

section \<open>People\<close>

record publicUser =
  pu_GitHubUserID :: int
  pu_Login :: string
  pu_AvatarURL :: string
  pu_ProfileURL :: string
  pu_HasAccount :: bool

definition no_user :: publicUser where
  "no_user = \<lparr>pu_GitHubUserID = 0, pu_Login = '''', pu_AvatarURL = '''', pu_ProfileURL = '''', pu_HasAccount = False\<rparr>"

definition presentIdentity :: "Identity \<Rightarrow> publicUser" where
  "presentIdentity i = \<lparr>pu_GitHubUserID = gi_GitHubID i, pu_Login = gi_Login i, pu_AvatarURL = gi_AvatarURL i,
     pu_ProfileURL = gi_ProfileURL i, pu_HasAccount = gi_Registered i\<rparr>"

definition presentUser :: "User \<Rightarrow> publicUser" where
  "presentUser u = \<lparr>pu_GitHubUserID = u_GitHubID u, pu_Login = u_Login u, pu_AvatarURL = u_AvatarURL u,
     pu_ProfileURL = u_ProfileURL u, pu_HasAccount = True\<rparr>"

definition presentIdentities :: "Identity list \<Rightarrow> publicUser list" where
  "presentIdentities ids = map presentIdentity ids"

section \<open>Stories\<close>

record mediaVariant =
  pv_Kind :: string
  pv_URL :: string
  pv_MIME :: string
  pv_Width :: int
  pv_Height :: int
  pv_DurationMS :: int
  pv_ByteSize :: int
  pv_HasAudio :: bool

record storyItem =
  ps_ID :: string
  ps_Author :: publicUser
  ps_State :: string
  ps_Caption :: string
  ps_AltText :: string
  ps_Visibility :: string
  ps_AudienceListID :: string
  ps_AudienceLabel :: string
  ps_AllowReplies :: bool
  ps_AllowReactions :: bool
  ps_MediaKind :: string
  ps_Variants :: "mediaVariant list"
  ps_PublishedAt :: "time option"
  ps_ExpiresAt :: "time option"
  ps_Seen :: bool
  ps_IsOwner :: bool
  ps_ViewerCount :: "nat option"
  ps_ReactionCount :: "nat option"
  ps_MyReaction :: string
  ps_FailureCode :: string
  ps_FailureMessage :: string

definition mediaPath :: "(uuid \<Rightarrow> string) \<Rightarrow> uuid \<Rightarrow> VariantKind \<Rightarrow> string" where
  "mediaPath S storyID kind = ''/v1/media/'' @ S storyID @ ''/'' @ variant_kind_text kind"

record presentOpts =
  po_viewer :: "User option"
  po_seen :: bool
  po_myReaction :: string
  po_views :: "nat option"
  po_reactions :: "nat option"

definition no_opts :: presentOpts where
  "no_opts = \<lparr>po_viewer = None, po_seen = False, po_myReaction = '''', po_views = None, po_reactions = None\<rparr>"

definition presentVariant :: "(uuid \<Rightarrow> string) \<Rightarrow> uuid \<Rightarrow> MediaVariant \<Rightarrow> mediaVariant" where
  "presentVariant S story v = \<lparr>pv_Kind = variant_kind_text (mv_Kind v), pv_URL = mediaPath S story (mv_Kind v),
     pv_MIME = mv_MIME v, pv_Width = mv_Width v, pv_Height = mv_Height v, pv_DurationMS = mv_DurationMS v,
     pv_ByteSize = mv_ByteSize v, pv_HasAudio = mv_HasAudio v\<rparr>"

definition presentStory :: "(uuid \<Rightarrow> string) \<Rightarrow> StoryItem \<Rightarrow> presentOpts \<Rightarrow> storyItem" where
  "presentStory S it opts =
    (let isOwner = (case po_viewer opts of None \<Rightarrow> False | Some v \<Rightarrow> u_ID v = si_AuthorUserID it) in
     \<lparr>ps_ID = S (si_ID it),
      ps_Author = (case si_Author it of None \<Rightarrow> no_user | Some a \<Rightarrow> presentIdentity a),
      ps_State = story_state_text (si_State it), ps_Caption = si_Caption it, ps_AltText = si_AltText it,
      ps_Visibility = visibility_text (si_Visibility it),
      ps_AudienceListID = (case si_AudienceListID it of None \<Rightarrow> '''' | Some l \<Rightarrow> S l),
      ps_AudienceLabel = (if isOwner then Label (visibility_text (si_Visibility it)) else ''''),
      ps_AllowReplies = si_AllowReplies it, ps_AllowReactions = si_AllowReactions it,
      ps_MediaKind = (if si_Variants it = [] then '''' else media_kind_text (StoryItem_MediaKind it)),
      ps_Variants = map (presentVariant S (si_ID it)) (si_Variants it),
      ps_PublishedAt = si_PublishedAt it, ps_ExpiresAt = si_ExpiresAt it, ps_Seen = po_seen opts,
      ps_IsOwner = isOwner, ps_ViewerCount = (if isOwner then po_views opts else None),
      ps_ReactionCount = (if isOwner then po_reactions opts else None), ps_MyReaction = po_myReaction opts,
      ps_FailureCode = si_FailureCode it, ps_FailureMessage = si_FailureMessage it\<rparr>)"

section \<open>Groups and the feed\<close>

record authorGroup =
  ag_Author :: publicUser
  ag_Items :: "storyItem list"
  ag_HasUnseen :: bool
  ag_Muted :: bool
  ag_FollowProvenance :: string

definition presentGroup :: "(uuid \<Rightarrow> string) \<Rightarrow> FeedGroup \<Rightarrow> User option \<Rightarrow> (uuid \<rightharpoonup> string) \<Rightarrow> authorGroup" where
  "presentGroup S g viewer mine =
    \<lparr>ag_Author = presentIdentity (fg_Author g),
     ag_Items = map (\<lambda>(i, it). presentStory S it \<lparr>po_viewer = viewer,
         po_seen = (if i < length (fg_Seen g) then fg_Seen g ! i else False),
         po_myReaction = (case mine (si_ID it) of None \<Rightarrow> '''' | Some r \<Rightarrow> r),
         po_views = None, po_reactions = None\<rparr>) (List.enumerate 0 (fg_Items g)),
     ag_HasUnseen = fg_HasUnseen g, ag_Muted = fg_Muted g,
     ag_FollowProvenance = feed_provenance_text (fg_Provenance g)\<rparr>"

record feedResponse =
  fd_Me :: "authorGroup option"
  fd_Groups :: "authorGroup list"
  fd_ServerTime :: time
  fd_Version :: string

record ringStatus =
  st_GitHubUserID :: int
  st_Login :: string
  st_HasActive :: bool
  st_HasUnseen :: bool
  st_Muted :: bool
  st_IsSelf :: bool

section \<open>Sessions, relationships, lists\<close>

record sessionInfo =
  sn_ID :: string
  sn_ClientKind :: string
  sn_ClientLabel :: string
  sn_CreatedAt :: time
  sn_LastUsedAt :: time
  sn_ExpiresAt :: time
  sn_Current :: bool

definition presentSession :: "(uuid \<Rightarrow> string) \<Rightarrow> Session \<Rightarrow> uuid option \<Rightarrow> sessionInfo" where
  "presentSession S s currentID =
    \<lparr>sn_ID = S (se_ID s), sn_ClientKind = client_kind_text (se_ClientKind s), sn_ClientLabel = se_ClientLabel s,
     sn_CreatedAt = se_CreatedAt s, sn_LastUsedAt = se_LastUsedAt s, sn_ExpiresAt = se_ExpiresAt s,
     sn_Current = (currentID = Some (se_ID s))\<rparr>"

record relationship =
  rl_User :: publicUser
  rl_Provenance :: string
  rl_FollowsMe :: bool
  rl_Muted :: bool
  rl_Blocked :: bool
  rl_Hidden :: bool

definition presentRelationship :: "RelationshipRow \<Rightarrow> relationship" where
  "presentRelationship r =
    \<lparr>rl_User = presentIdentity (rr_Identity r), rl_Provenance = provenance_text (rr_Provenance r),
     rl_FollowsMe = rr_FollowsMe r, rl_Muted = rr_Muted r, rl_Blocked = rr_Blocked r, rl_Hidden = rr_Hidden r\<rparr>"

record relationshipPage =
  rg_Relationships :: "relationship list"
  rg_NextCursor :: "time option"

record audienceList =
  an_ID :: string
  an_Name :: string
  an_Members :: "publicUser list"
  an_MemberCount :: nat

definition presentAudienceList :: "(uuid \<Rightarrow> string) \<Rightarrow> AudienceList \<Rightarrow> audienceList" where
  "presentAudienceList S l =
    \<lparr>an_ID = S (AL_ID l), an_Name = AL_Name l, an_Members = map presentIdentity (AL_Members l),
     an_MemberCount = length (AL_Members l)\<rparr>"

record viewerEntry =
  ve_User :: publicUser
  ve_ViewedAt :: time
  ve_Reaction :: string

record viewerList =
  vl_StoryID :: string
  vl_Total :: nat
  vl_Viewers :: "viewerEntry list"

section \<open>Replies, the inbox, the account\<close>

record replyResponse =
  rq_ID :: string
  rq_StoryID :: string
  rq_Sender :: publicUser
  rq_Recipient :: publicUser
  rq_Body :: string
  rq_CreatedAt :: time

record inboxEntry =
  ib_ID :: string
  ib_Kind :: string
  ib_Actor :: publicUser
  ib_StoryID :: string
  ib_StoryExpired :: bool
  ib_StoryThumb :: string
  ib_Body :: string
  ib_Emoji :: string
  ib_CreatedAt :: time
  ib_ReadAt :: "time option"

definition presentInboxEntry :: "(uuid \<Rightarrow> string) \<Rightarrow> InboxEntry \<Rightarrow> inboxEntry" where
  "presentInboxEntry S e =
    \<lparr>ib_ID = S (ie_ID e), ib_Kind = inbox_kind_text (ie_Kind e), ib_Actor = presentIdentity (ie_Actor e),
     ib_StoryID = (case ie_StoryID e of None \<Rightarrow> '''' | Some s \<Rightarrow> S s), ib_StoryExpired = ie_StoryExpired e,
     ib_StoryThumb = (case ie_StoryID e of None \<Rightarrow> ''''
       | Some s \<Rightarrow> if ie_HasThumb e then mediaPath S s VariantThumb else ''''),
     ib_Body = ie_Body e, ib_Emoji = ie_Emoji e, ib_CreatedAt = ie_CreatedAt e, ib_ReadAt = ie_ReadAt e\<rparr>"

record inboxResponse =
  ir_Entries :: "inboxEntry list"
  ir_Unread :: nat
  ir_NextCursor :: "time option"

record meResponse =
  me_User :: publicUser
  me_NeedsOnboarding :: bool
  me_IsModerator :: bool
  me_UnreadInbox :: nat
  me_ServerTime :: time

record settingsResponse =
  sg_DefaultVisibility :: string
  sg_DefaultAudienceListID :: string
  sg_DefaultAllowReplies :: bool
  sg_DefaultAllowReactions :: bool
  sg_AudienceLists :: "audienceList list"
  sg_HiddenFrom :: "publicUser list"
  sg_Muted :: "publicUser list"
  sg_Blocked :: "publicUser list"
  sg_Sessions :: "sessionInfo list"
  sg_ReplyRetentionDays :: int

record healthResponse =
  hl_Status :: string
  hl_Version :: string
  hl_Commit :: string
  hl_Checks :: "(string \<times> string) list"
  hl_MediaJobsBacklog :: nat
  hl_OldestMediaJobAgeSeconds :: int
  hl_CleanupBacklog :: nat

text \<open>An entry of the moderation queue and what an upload authorization answers are written as maps
  in the handlers.\<close>

record reportEntry =
  rn_ID :: string
  rn_SubjectKind :: string
  rn_Reason :: string
  rn_Details :: string
  rn_State :: string
  rn_CreatedAt :: time
  rn_Reporter :: publicUser
  rn_StoryID :: "string option"
  rn_Subject :: "publicUser option"

record uploadGrant =
  ug_UploadID :: string
  ug_URL :: string
  ug_Headers :: headers
  ug_ExpiresAt :: time
  ug_MaxBytes :: int

text \<open>The documents the handlers write.\<close>

datatype payload =
    StoryDoc storyItem
  | ViewersDoc viewerList
  | ReactionDoc string string time
  | ReplyDoc replyResponse
  | InboxDoc inboxResponse
  | FeedDoc feedResponse
  | StatusDoc "ringStatus list"
  | GroupDoc authorGroup
  | UsersDoc "publicUser list"
  | RelationshipDoc relationship
  | PageDoc relationshipPage
  | GrantDoc uploadGrant
  | ReportDoc string string
  | ReportsDoc "reportEntry list"
  | ActionDoc string
  | SettingsDoc settingsResponse
  | ListsDoc "audienceList list"
  | ListDoc audienceList
  | SessionsDoc "sessionInfo list"
  | MeDoc meResponse
  | PollDoc string "string option" "publicUser option"
  | PendingDoc string string string string time int
  | DeviceDoc string string string time int
  | ImportDoc bool publicUser bool string
  | HealthDoc healthResponse

section \<open>What is shown to whom\<close>

text \<open>Only the author is told the audience in plain language and the counts.\<close>

lemma presentStory_owner_only:
  "\<not> ps_IsOwner (presentStory S it opts) \<Longrightarrow>
    ps_AudienceLabel (presentStory S it opts) = '''' \<and> ps_ViewerCount (presentStory S it opts) = None
    \<and> ps_ReactionCount (presentStory S it opts) = None"
  by (simp add: presentStory_def Let_def)

lemma presentStory_simps [simp]:
  "ps_ID (presentStory S it opts) = S (si_ID it)"
  "ps_State (presentStory S it opts) = story_state_text (si_State it)"
  "ps_IsOwner (presentStory S it opts) = (case po_viewer opts of None \<Rightarrow> False | Some v \<Rightarrow> u_ID v = si_AuthorUserID it)"
  by (simp_all add: presentStory_def Let_def)

end
