(* ===== verification/Ratelimit.thy ===== *)
theory Ratelimit
  imports Complex_Main Prelude
begin

text \<open>
  The token buckets of \<^verbatim>\<open>src/internal/ratelimit/ratelimit.go\<close>.  A duration is a number of
  nanoseconds; the \<open>float64\<close> operations are rational operations followed by \<open>rnd\<close>, the rounding of
  the machine, of which the lemmas use only a bound \<open>u\<close> on its relative error.
\<close>

record Rule =
  Burst :: int
  Per :: duration

record bucket =
  tokens :: rat
  bk_last :: time

record Limiter =
  buckets :: "string \<rightharpoonup> bucket"
  lastGC :: time

definition New :: "time \<Rightarrow> Limiter" where
  "New now = \<lparr>buckets = Map.empty, lastGC = now\<rparr>"

definition gcLocked :: "time \<Rightarrow> Limiter \<Rightarrow> Limiter" where
  "gcLocked now l =
    (if now - lastGC l < 5 * Minute then l
     else \<lparr>buckets = (\<lambda>k. case buckets l k of None \<Rightarrow> None
         | Some b \<Rightarrow> if 15 * Minute < now - bk_last b then None else Some b), lastGC = now\<rparr>)"

text \<open>\<open>Duration.Seconds\<close>\<close>

definition Seconds :: "(rat \<Rightarrow> rat) \<Rightarrow> duration \<Rightarrow> rat" where
  "Seconds rnd d = rnd (of_int d / 1000000000)"

definition refillRate :: "(rat \<Rightarrow> rat) \<Rightarrow> Rule \<Rightarrow> rat" where
  "refillRate rnd rule = rnd (of_int (Burst rule) / Seconds rnd (Per rule))"

definition refilled :: "(rat \<Rightarrow> rat) \<Rightarrow> Rule \<Rightarrow> time \<Rightarrow> bucket \<Rightarrow> rat" where
  "refilled rnd rule now b =
    (let t = rnd (tokens b + rnd (Seconds rnd (now - bk_last b) * refillRate rnd rule)) in
     if of_int (Burst rule) < t then of_int (Burst rule) else t)"

definition Allow :: "(rat \<Rightarrow> rat) \<Rightarrow> time \<Rightarrow> string \<Rightarrow> Rule \<Rightarrow> Limiter \<Rightarrow> bool \<times> duration \<times> Limiter" where
  "Allow rnd now key rule l =
    (if Burst rule \<le> 0 \<or> Per rule \<le> 0 then (True, 0, l)
     else
       (let l = gcLocked now l;
            b = (case buckets l key of None \<Rightarrow> \<lparr>tokens = of_int (Burst rule), bk_last = now\<rparr> | Some b \<Rightarrow> b);
            t = refilled rnd rule now b in
        if 1 \<le> t then (True, 0, l\<lparr>buckets := (buckets l)(key \<mapsto> \<lparr>tokens = rnd (t - 1), bk_last = now\<rparr>)\<rparr>)
        else (False, \<lfloor>rnd (rnd (rnd (1 - t) / refillRate rnd rule) * 1000000000)\<rfloor>,
              l\<lparr>buckets := (buckets l)(key \<mapsto> \<lparr>tokens = t, bk_last = now\<rparr>)\<rparr>)))"

definition RuleLoginPoll :: Rule where "RuleLoginPoll = \<lparr>Burst = 30, Per = Minute\<rparr>"

definition RuleLoginStart :: Rule where "RuleLoginStart = \<lparr>Burst = 10, Per = 10 * Minute\<rparr>"

definition RuleUpload :: Rule where "RuleUpload = \<lparr>Burst = 20, Per = Hour\<rparr>"

definition RulePost :: Rule where "RulePost = \<lparr>Burst = 30, Per = Hour\<rparr>"

definition RuleStatus :: Rule where "RuleStatus = \<lparr>Burst = 120, Per = Minute\<rparr>"

definition RuleReply :: Rule where "RuleReply = \<lparr>Burst = 60, Per = 10 * Minute\<rparr>"

definition RuleReaction :: Rule where "RuleReaction = \<lparr>Burst = 120, Per = 10 * Minute\<rparr>"

definition RuleRead :: Rule where "RuleRead = \<lparr>Burst = 600, Per = Minute\<rparr>"

definition RuleMutation :: Rule where "RuleMutation = \<lparr>Burst = 120, Per = Minute\<rparr>"

definition RuleMedia :: Rule where "RuleMedia = \<lparr>Burst = 600, Per = Minute\<rparr>"

definition RuleReport :: Rule where "RuleReport = \<lparr>Burst = 10, Per = Hour\<rparr>"

section \<open>Traces\<close>

text \<open>A trace of requests, each with its key and its time; every key has its own rule.  \<open>admitted\<close>
  counts the requests of one key that are let through.\<close>

fun admitted :: "(rat \<Rightarrow> rat) \<Rightarrow> (string \<Rightarrow> Rule) \<Rightarrow> string \<Rightarrow> (string \<times> time) list \<Rightarrow> Limiter \<Rightarrow> nat" where
  "admitted rnd rule key [] l = 0"
| "admitted rnd rule key ((k, now) # calls) l =
    (case Allow rnd now k (rule k) l of (ok, wait, l') \<Rightarrow>
      (if ok \<and> k = key then 1 else 0) + admitted rnd rule key calls l')"

definition close_to :: "rat \<Rightarrow> (rat \<Rightarrow> rat) \<Rightarrow> bool" where
  "close_to u rnd \<longleftrightarrow> 0 \<le> u \<and> u \<le> 1/2 \<and> (\<forall>x\<ge>0. (1 - u) * x \<le> rnd x \<and> rnd x \<le> (1 + u) * x)"

text \<open>What one request of the key costs: the bucket never exceeds the burst, gains at most what the
  elapsed time refills, up to two rounding errors of the size of the burst, and loses a token.\<close>

lemma close_nonneg: "close_to u rnd \<Longrightarrow> 0 \<le> x \<Longrightarrow> 0 \<le> rnd x"
proof -
  assume c: "close_to u rnd" and x: "0 \<le> x"
  then have "0 \<le> (1 - u) * x" by (auto simp: close_to_def intro!: mult_nonneg_nonneg)
  also have "\<dots> \<le> rnd x" using c x by (auto simp: close_to_def)
  finally show ?thesis .
qed

lemma close_upper: "close_to u rnd \<Longrightarrow> 0 \<le> x \<Longrightarrow> rnd x \<le> (1 + u) * x"
  by (simp add: close_to_def)

lemma close_lower: "close_to u rnd \<Longrightarrow> 0 \<le> x \<Longrightarrow> (1 - u) * x \<le> rnd x"
  by (simp add: close_to_def)

definition gain :: "rat \<Rightarrow> (rat \<Rightarrow> rat) \<Rightarrow> Rule \<Rightarrow> duration \<Rightarrow> rat" where
  "gain u rnd rule d = (1 + u) * ((1 + u) * refillRate rnd rule) * (of_int d / 1000000000)"

lemma refillRate_nonneg:
  assumes c: "close_to u rnd" and B: "0 \<le> Burst rule" "0 \<le> Per rule"
  shows "0 \<le> refillRate rnd rule"
proof -
  have "0 \<le> Seconds rnd (Per rule)" unfolding Seconds_def using B by (intro close_nonneg[OF c]) simp
  then show ?thesis unfolding refillRate_def using B by (intro close_nonneg[OF c]) simp
qed

lemma refilled_bounds:
  assumes c: "close_to u rnd" and B: "0 \<le> Burst rule" "0 \<le> Per rule"
    and t: "0 \<le> tokens b" and d: "bk_last b \<le> now"
  shows "0 \<le> refilled rnd rule now b" and "refilled rnd rule now b \<le> of_int (Burst rule)"
    and "refilled rnd rule now b \<le> tokens b + gain u rnd rule (now - bk_last b) + u * of_int (Burst rule)"
proof -
  let ?B = "of_int (Burst rule) :: rat" and ?s = "of_int (now - bk_last b) / 1000000000 :: rat"
  let ?i = "rnd (Seconds rnd (now - bk_last b) * refillRate rnd rule)" and ?g = "gain u rnd rule (now - bk_last b)"
  have u: "0 \<le> u" using c by (simp add: close_to_def)
  have s: "0 \<le> ?s" using d by simp
  have r: "0 \<le> refillRate rnd rule" by (rule refillRate_nonneg[OF c B])
  have S: "0 \<le> Seconds rnd (now - bk_last b)" "Seconds rnd (now - bk_last b) \<le> (1 + u) * ?s"
    unfolding Seconds_def using close_nonneg[OF c s] close_upper[OF c s] by auto
  have i0: "0 \<le> ?i" using S r by (intro close_nonneg[OF c] mult_nonneg_nonneg)
  have "?i \<le> (1 + u) * (Seconds rnd (now - bk_last b) * refillRate rnd rule)"
    using S r by (intro close_upper[OF c] mult_nonneg_nonneg)
  also have "\<dots> \<le> (1 + u) * ((1 + u) * ?s * refillRate rnd rule)"
    using S r u by (intro mult_left_mono mult_right_mono) auto
  also have "\<dots> = ?g" by (simp add: gain_def)
  finally have i: "?i \<le> ?g" .
  let ?x = "tokens b + ?i"
  have x: "0 \<le> ?x" using t i0 by simp
  have T: "0 \<le> rnd ?x" "rnd ?x \<le> (1 + u) * ?x" using close_nonneg[OF c x] close_upper[OF c x] by auto
  then show "0 \<le> refilled rnd rule now b" "refilled rnd rule now b \<le> ?B"
    using B by (auto simp: refilled_def Let_def)
  have "min ?B (rnd ?x) \<le> ?x + u * ?B"
  proof (cases "?x \<le> ?B")
    case True
    have "u * ?x \<le> u * ?B" using u True by (rule mult_left_mono[rotated])
    then show ?thesis using T by (simp add: distrib_right)
  next
    case False
    have "0 \<le> u * ?B" using u B by simp
    then show ?thesis using False by simp
  qed
  moreover have "refilled rnd rule now b = min ?B (rnd ?x)"
    by (auto simp: refilled_def Let_def min_def)
  ultimately show "refilled rnd rule now b \<le> tokens b + ?g + u * ?B" using i by linarith
qed

section \<open>The bound on a trace\<close>

lemma gain_add: "gain u rnd rule a + gain u rnd rule b = gain u rnd rule (a + b)"
  by (simp add: gain_def add_divide_distrib distrib_left)

lemma gain_mono:
  assumes "close_to u rnd" and "0 \<le> Burst rule" "0 \<le> Per rule" and "a \<le> b"
  shows "gain u rnd rule a \<le> gain u rnd rule b"
  unfolding gain_def using refillRate_nonneg[OF assms(1-3)] assms(1,4)
  by (intro mult_left_mono divide_right_mono mult_nonneg_nonneg) (auto simp: close_to_def)

lemma cubic_margin:
  fixes u :: rat assumes "0 \<le> u" "u \<le> 1/2" shows "1 \<le> (1 + u) * ((1 + u) * (1 - u))"
proof -
  have "u * u \<le> u * (1/2)" using assms by (intro mult_left_mono) auto
  then have "0 \<le> u * (1 - u - u * u)" using assms by (intro mult_nonneg_nonneg) linarith+
  then show ?thesis by (simp add: algebra_simps)
qed

text \<open>A bucket that the collector drops would have been full: its rule refills within the idle time
  after which it is dropped.\<close>

lemma idle_gain:
  assumes c: "close_to u rnd" and B: "0 \<le> Burst rule" and P: "0 < Per rule" "Per rule \<le> d"
    and ex: "rnd (of_int (Per rule) / 1000000000) = of_int (Per rule) / 1000000000"
  shows "of_int (Burst rule) \<le> gain u rnd rule d"
proof -
  let ?B = "of_int (Burst rule) :: rat" and ?p = "of_int (Per rule) / 1000000000 :: rat"
  have u: "0 \<le> u" "u \<le> 1/2" using c by (auto simp: close_to_def)
  have p: "0 < ?p" using P by simp
  have "(1 - u) * (?B / ?p) \<le> refillRate rnd rule"
    unfolding refillRate_def Seconds_def ex using B p by (intro close_lower[OF c]) simp
  then have "(1 - u) * (?B / ?p) * ?p \<le> refillRate rnd rule * ?p" using p by (intro mult_right_mono) auto
  then have r: "(1 - u) * ?B \<le> refillRate rnd rule * ?p" using p by simp
  have "1 * ?B \<le> (1 + u) * ((1 + u) * (1 - u)) * ?B"
    using cubic_margin[OF u] B by (intro mult_right_mono) auto
  also have "\<dots> = (1 + u) * (1 + u) * ((1 - u) * ?B)" by (simp add: mult.assoc)
  also have "\<dots> \<le> (1 + u) * (1 + u) * (refillRate rnd rule * ?p)" using u r by (intro mult_left_mono) auto
  also have "\<dots> = gain u rnd rule (Per rule)" by (simp add: gain_def mult.assoc)
  also have "\<dots> \<le> gain u rnd rule d" using P by (intro gain_mono[OF c B]) auto
  finally show ?thesis by simp
qed

text \<open>What is known of the bucket of a key at time \<open>t\<close> when \<open>c\<close> requests have been let through since
  \<open>t0\<close>, with rounding errors of at most \<open>s\<close>.\<close>

definition accounted :: "rat \<Rightarrow> (rat \<Rightarrow> rat) \<Rightarrow> Rule \<Rightarrow> time \<Rightarrow> rat \<Rightarrow> rat \<Rightarrow> time \<Rightarrow> bucket option \<Rightarrow> bool" where
  "accounted u rnd rule t0 s c t bo \<longleftrightarrow>
    (case bo of
       None \<Rightarrow> c \<le> gain u rnd rule (t - t0) + s
     | Some b \<Rightarrow> 0 \<le> tokens b \<and> bk_last b \<le> t
         \<and> c + tokens b \<le> of_int (Burst rule) + gain u rnd rule (bk_last b - t0) + s)"

lemma accounted_gc:
  assumes c: "close_to u rnd" and B: "0 \<le> Burst rule" and P: "0 < Per rule" "Per rule \<le> 15 * Minute"
    and ex: "rnd (of_int (Per rule) / 1000000000) = of_int (Per rule) / 1000000000"
    and h: "accounted u rnd rule t0 s n t (buckets l key)" and t: "t \<le> now"
  shows "accounted u rnd rule t0 s n now (buckets (gcLocked now l) key)"
proof (cases "buckets l key")
  case None
  then have "buckets (gcLocked now l) key = None" by (simp add: gcLocked_def)
  moreover have "gain u rnd rule (t - t0) \<le> gain u rnd rule (now - t0)"
    using P t by (intro gain_mono[OF c B]) auto
  ultimately show ?thesis using h None by (simp add: accounted_def)
next
  case (Some b)
  show ?thesis
  proof (cases "buckets (gcLocked now l) key")
    case None
    then have "15 * Minute < now - bk_last b" using Some by (auto simp: gcLocked_def split: if_splits)
    then have "of_int (Burst rule) \<le> gain u rnd rule (now - bk_last b)"
      using P by (intro idle_gain[OF c B _ _ ex]) auto
    moreover have "gain u rnd rule (bk_last b - t0) + gain u rnd rule (now - bk_last b) = gain u rnd rule (now - t0)"
      by (simp add: gain_add)
    moreover have "n + tokens b \<le> of_int (Burst rule) + gain u rnd rule (bk_last b - t0) + s" "0 \<le> tokens b"
      using h Some by (simp_all add: accounted_def)
    ultimately have "n \<le> gain u rnd rule (now - t0) + s" by linarith
    then show ?thesis using None by (simp add: accounted_def)
  next
    case (Some b')
    then have "b' = b" using \<open>buckets l key = Some b\<close> by (auto simp: gcLocked_def split: if_splits)
    then show ?thesis using h t Some \<open>buckets l key = Some b\<close> by (simp add: accounted_def)
  qed
qed

lemma accounted_fresh:
  assumes "close_to u rnd" "0 \<le> Burst rule" "accounted u rnd rule t0 s n now bo"
  shows "accounted u rnd rule t0 s n now
    (Some (case bo of None \<Rightarrow> \<lparr>tokens = of_int (Burst rule), bk_last = now\<rparr> | Some b \<Rightarrow> b))"
  using assms by (auto simp: accounted_def split: option.splits)

lemma accounted_take:
  assumes c: "close_to u rnd" and B: "0 \<le> Burst rule" "0 \<le> Per rule"
    and h: "accounted u rnd rule t0 s n now (Some b)" and r: "r = refilled rnd rule now b"
  shows "accounted u rnd rule t0 (s + 2 * u * of_int (Burst rule)) n now (Some \<lparr>tokens = r, bk_last = now\<rparr>)"
    and "1 \<le> r \<Longrightarrow> accounted u rnd rule t0 (s + 2 * u * of_int (Burst rule)) (n + 1) now (Some \<lparr>tokens = rnd (r - 1), bk_last = now\<rparr>)"
proof -
  let ?B = "of_int (Burst rule) :: rat"
  have b: "0 \<le> tokens b" "bk_last b \<le> now" "n + tokens b \<le> ?B + gain u rnd rule (bk_last b - t0) + s"
    using h by (simp_all add: accounted_def)
  note R = refilled_bounds[OF c B b(1,2), folded r]
  have g: "gain u rnd rule (bk_last b - t0) + gain u rnd rule (now - bk_last b) = gain u rnd rule (now - t0)"
    by (simp add: gain_add)
  have u: "0 \<le> u" "0 \<le> u * ?B" using c B by (auto simp: close_to_def)
  have sum: "n + r \<le> ?B + gain u rnd rule (now - t0) + s + u * ?B" using R(3) b(3) g by linarith
  then show "accounted u rnd rule t0 (s + 2 * u * ?B) n now (Some \<lparr>tokens = r, bk_last = now\<rparr>)"
    using R(1) u by (simp add: accounted_def)
  assume "1 \<le> r"
  then have r1: "0 \<le> r - 1" by simp
  have "u * (r - 1) \<le> u * ?B" using R(2) u by (intro mult_left_mono) auto
  moreover have "rnd (r - 1) \<le> (r - 1) + u * (r - 1)"
    using close_upper[OF c r1] by (simp add: distrib_right)
  ultimately have "n + 1 + rnd (r - 1) \<le> ?B + gain u rnd rule (now - t0) + (s + 2 * u * ?B)" using sum by linarith
  then show "accounted u rnd rule t0 (s + 2 * u * ?B) (n + 1) now (Some \<lparr>tokens = rnd (r - 1), bk_last = now\<rparr>)"
    using close_nonneg[OF c r1] by (simp add: accounted_def)
qed

lemma accounted_later:
  assumes c: "close_to u rnd" and B: "0 \<le> Burst rule" "0 \<le> Per rule"
    and h: "accounted u rnd rule t0 s n t bo" and t: "t \<le> now" and s: "s \<le> s'"
  shows "accounted u rnd rule t0 s' n now bo"
proof -
  have "gain u rnd rule (t - t0) \<le> gain u rnd rule (now - t0)" using t by (intro gain_mono[OF c B]) auto
  then show ?thesis using h t s by (auto simp: accounted_def split: option.splits)
qed

lemma Allow_step:
  assumes c: "close_to u rnd" and B: "0 < Burst R" and P: "0 < Per R" "Per R \<le> 15 * Minute"
    and ex: "rnd (of_int (Per R) / 1000000000) = of_int (Per R) / 1000000000"
    and h: "accounted u rnd R t0 s n t (buckets l key)" and t: "t \<le> now" and R: "rule key = R"
    and a: "Allow rnd now k (rule k) l = (ok, wait, l')"
  shows "accounted u rnd R t0 (s + 2 * u * of_int (Burst R)) (n + (if ok \<and> k = key then 1 else 0)) now (buckets l' key)"
proof -
  have B0: "0 \<le> Burst R" "0 \<le> Per R" using B P by auto
  have s: "s \<le> s + 2 * u * of_int (Burst R)" using c B0 by (simp add: close_to_def)
  have G: "accounted u rnd R t0 s n now (buckets (gcLocked now l) key)"
    by (rule accounted_gc[OF c B0(1) P ex h t])
  show ?thesis
  proof (cases "k = key")
    case False
    have "buckets l' key = buckets l key \<or> buckets l' key = buckets (gcLocked now l) key"
      using a False by (auto simp: Allow_def Let_def split: if_splits)
    then show ?thesis
      using accounted_later[OF c B0 h t s] accounted_later[OF c B0 G order.refl s] False by auto
  next
    case True
    define b where "b = (case buckets (gcLocked now l) key of None \<Rightarrow> \<lparr>tokens = of_int (Burst R), bk_last = now\<rparr> | Some b \<Rightarrow> b)"
    define r where "r = refilled rnd R now b"
    have F: "accounted u rnd R t0 s n now (Some b)" unfolding b_def by (rule accounted_fresh[OF c B0(1) G])
    note T = accounted_take[OF c B0 F r_def]
    show ?thesis
    proof (cases "1 \<le> r")
      case True
      then have "ok" "buckets l' key = Some \<lparr>tokens = rnd (r - 1), bk_last = now\<rparr>"
        using a B P \<open>k = key\<close> R by (auto simp: Allow_def Let_def b_def r_def)
      then show ?thesis using T(2)[OF True] \<open>k = key\<close> by simp
    next
      case False
      then have "\<not> ok" "buckets l' key = Some \<lparr>tokens = r, bk_last = now\<rparr>"
        using a B P \<open>k = key\<close> R by (auto simp: Allow_def Let_def b_def r_def)
      then show ?thesis using T(1) by simp
    qed
  qed
qed

lemma admitted_accounted:
  assumes c: "close_to u rnd" and B: "0 < Burst (rule key)" and P: "0 < Per (rule key)" "Per (rule key) \<le> 15 * Minute"
    and ex: "rnd (of_int (Per (rule key)) / 1000000000) = of_int (Per (rule key)) / 1000000000"
  shows "accounted u rnd (rule key) t0 s n t (buckets l key) \<Longrightarrow> sorted (t # map snd calls) \<Longrightarrow>
    \<forall>q\<in>set calls. snd q \<le> T \<Longrightarrow> t \<le> T \<Longrightarrow>
    n + of_nat (admitted rnd rule key calls l)
      \<le> of_int (Burst (rule key)) + gain u rnd (rule key) (T - t0) + s + 2 * u * of_int (Burst (rule key)) * of_nat (length calls)"
proof (induction calls arbitrary: s n t l)
  case Nil
  have B0: "0 \<le> Burst (rule key)" "0 \<le> Per (rule key)" using B P by auto
  from Nil have "accounted u rnd (rule key) t0 s n T (buckets l key)"
    by (intro accounted_later[OF c B0 Nil(1)]) auto
  moreover have "bk_last b \<le> T \<Longrightarrow> gain u rnd (rule key) (bk_last b - t0) \<le> gain u rnd (rule key) (T - t0)" for b
    by (intro gain_mono[OF c B0]) auto
  moreover have "0 \<le> (of_int (Burst (rule key)) :: rat)" using B by simp
  ultimately show ?case by (fastforce simp: accounted_def split: option.splits)
next
  case (Cons q calls)
  obtain k now where q: "q = (k, now)" by (cases q)
  obtain ok wait l' where a: "Allow rnd now k (rule k) l = (ok, wait, l')" by (cases "Allow rnd now k (rule k) l")
  have "t \<le> now" "sorted (now # map snd calls)" "\<forall>q\<in>set calls. snd q \<le> T" "now \<le> T" using Cons.prems q by auto
  from Cons.IH[OF Allow_step[OF c B P ex Cons.prems(1) \<open>t \<le> now\<close> refl a] this(2-4)]
  show ?case using a q by (auto simp: distrib_left split: if_splits)
qed


text \<open>A rule that refills more slowly is not enforced: the collector drops an exhausted bucket after
  15 minutes without requests, so the client starts afresh with a full burst, when its rule has
  refilled only a part of it.\<close>

theorem collector_forgives:
  assumes "buckets l key = Some b" and "15 * Minute < now - bk_last b" and "5 * Minute \<le> now - lastGC l"
    and "0 < Burst rule" and "0 < Per rule" and "\<forall>i. 0 \<le> i \<and> i \<le> Burst rule \<longrightarrow> rnd (of_int i) = of_int i"
    and "Allow rnd now key rule l = (ok, wait, l')"
  shows "ok \<and> buckets l' key = Some \<lparr>tokens = of_int (Burst rule) - 1, bk_last = now\<rparr>"
proof -
  have z: "rnd 0 = 0" using assms(4) assms(6)[rule_format, of 0] by simp
  have "buckets (gcLocked now l) key = None" using assms(1-3) by (simp add: gcLocked_def)
  moreover have "refilled rnd rule now \<lparr>tokens = of_int (Burst rule), bk_last = now\<rparr> = of_int (Burst rule)"
    using assms(4,6) z by (simp add: refilled_def Seconds_def)
  moreover have "rnd (of_int (Burst rule) - 1) = of_int (Burst rule) - 1"
    using assms(4) assms(6)[rule_format, of "Burst rule - 1"] by simp
  ultimately show ?thesis using assms(4,5,7) by (auto simp: Allow_def Let_def)
qed

section \<open>Witnesses\<close>


theorem collector_forgives_witness:
  "\<exists>ok wait l'. Allow id (16 * Minute) ''u:1'' RuleUpload (Limiter.make [''u:1'' \<mapsto> \<lparr>tokens = 0, bk_last = 0\<rparr>] 0) = (ok, wait, l')
    \<and> ok \<and> buckets l' ''u:1'' = Some \<lparr>tokens = 19, bk_last = 16 * Minute\<rparr>"
proof -
  let ?l = "Limiter.make [''u:1'' \<mapsto> \<lparr>tokens = 0, bk_last = 0\<rparr>] 0"
  obtain ok wait l' where a: "Allow id (16 * Minute) ''u:1'' RuleUpload ?l = (ok, wait, l')"
    by (cases "Allow id (16 * Minute) ''u:1'' RuleUpload ?l")
  have "ok \<and> buckets l' ''u:1'' = Some \<lparr>tokens = of_int (Burst RuleUpload) - 1, bk_last = 16 * Minute\<rparr>"
    using a by (intro collector_forgives[where l = ?l and rnd = id]) (auto simp: Limiter.make_def RuleUpload_def)
  then show ?thesis using a by (auto simp: RuleUpload_def)
qed

end
