(* ===== verification/Gate.thy ===== *)
theory Gate
  imports Auth Present Ratelimit
begin

text \<open>
  What every route of \<^verbatim>\<open>src/internal/api\<close> passes through: the server and the request
  (\<^verbatim>\<open>api.go\<close>), the middleware (\<^verbatim>\<open>middleware.go\<close>) and the helpers
  (\<^verbatim>\<open>helpers.go\<close>).  The UUID library, the JSON encoder, the object reader and the presigner
  are fields of the server; the clock, the random source and the ids the database draws are in
  \<open>outside\<close>.
\<close>

section \<open>Server and request\<close>

type_synonym ObjectData = Object

record server =
  sr_Cfg :: ServiceConfig
  sr_Auth :: "service option"
  sr_Get :: "string \<Rightarrow> string \<Rightarrow> obj_error + ObjectData"
  sr_PresignPut :: "string \<Rightarrow> string \<Rightarrow> int \<Rightarrow> duration \<Rightarrow> string + string \<times> headers"
  sr_text :: "uuid \<Rightarrow> string"
  sr_parse :: "string \<Rightarrow> uuid option"
  sr_cursor :: "string \<Rightarrow> time option"
  sr_sha :: "string \<Rightarrow> string"
  sr_reply_request :: "string \<Rightarrow> string \<Rightarrow> string"
  sr_reply_json :: "replyResponse \<Rightarrow> string"
  sr_stamp :: "time \<Rightarrow> string"
  sr_rnd :: "rat \<Rightarrow> rat"
  sr_escape :: "string \<Rightarrow> string"
  sr_url :: "string \<Rightarrow> url option"

record request =
  hr_Method :: string
  hr_Path :: string
  hr_Param :: "string \<Rightarrow> string"
  hr_Query :: "string \<Rightarrow> string"
  hr_Header :: "string \<Rightarrow> string"
  hr_RemoteAddr :: string
  hr_User :: "User option"
  hr_Session :: "Session option"

definition now_at :: "outside \<Rightarrow> nat \<Rightarrow> time" where "now_at out i = Now (ou_env out i)"

section \<open>The caller\<close>

definition caller :: "request \<Rightarrow> User option" where "caller r = hr_User r"

definition callerSession :: "request \<Rightarrow> Session option" where "callerSession r = hr_Session r"

definition mustCaller :: "request \<Rightarrow> api_Error + User" where
  "mustCaller r =
    (case caller r of
       None \<Rightarrow> Inl (Unauthorized ''Sign in to GitHub Stories to do that.'')
     | Some u \<Rightarrow> if Active (Some u) then Inr u else Inl (Forbidden ''This account is suspended.''))"

definition bearerToken :: "request \<Rightarrow> string" where
  "bearerToken r =
    (let h = hr_Header r ''Authorization''; prefix = ''Bearer '' in
     if length h \<le> length prefix \<or> lower (take (length prefix) h) \<noteq> lower prefix then ''''
     else TrimSpace (drop (length prefix) h))"

definition authenticate :: "server \<Rightarrow> outside \<Rightarrow> request \<Rightarrow> db \<Rightarrow> request \<times> db" where
  "authenticate srv out r d =
    (let token = bearerToken r in
     case sr_Auth srv of
       None \<Rightarrow> (r, d)
     | Some s \<Rightarrow>
         if token = '''' then (r, d)
         else (case Authenticate s out token d of
             (Inl e, d') \<Rightarrow> (r, d')
           | (Inr (sess, user), d') \<Rightarrow> (r\<lparr>hr_User := Some user, hr_Session := Some sess\<rparr>, d')))"

definition requireAuth :: "request \<Rightarrow> api_Error + unit" where
  "requireAuth r = (case mustCaller r of Inl e \<Rightarrow> Inl e | Inr u \<Rightarrow> Inr ())"

definition requireModerator :: "request \<Rightarrow> api_Error + unit" where
  "requireModerator r =
    (case mustCaller r of Inl e \<Rightarrow> Inl e | Inr u \<Rightarrow> if \<not> u_IsModerator u then Inl NotFound else Inr ())"

section \<open>Limits\<close>

text \<open>\<^verbatim>\<open>strings.LastIndex\<close> of a character.\<close>

fun LastIndex :: "string \<Rightarrow> char \<Rightarrow> int" where
  "LastIndex [] x = - 1"
| "LastIndex (c # s) x = (if 0 \<le> LastIndex s x then LastIndex s x + 1 else if c = x then 0 else - 1)"

definition clientKey :: "server \<Rightarrow> request \<Rightarrow> string" where
  "clientKey srv r =
    (case caller r of
       Some u \<Rightarrow> ''u:'' @ sr_text srv (u_ID u)
     | None \<Rightarrow>
         (let host = hr_RemoteAddr r; i = LastIndex host CHR '':'' in
          ''ip:'' @ (if 0 < i then take (nat i) host else host)))"

definition limit :: "server \<Rightarrow> time \<Rightarrow> Rule \<Rightarrow> string \<Rightarrow> request \<Rightarrow> Limiter \<Rightarrow> (api_Error + unit) \<times> Limiter" where
  "limit srv now rule scope r l =
    (let key = scope @ ''|'' @ clientKey srv r in
     case Allow (sr_rnd srv) now key rule l of
       (ok, wait, l') \<Rightarrow>
         (if \<not> ok then Inl (RateLimited (truncated_div wait Second + 1)) else Inr (), l'))"

section \<open>Headers\<close>

definition withRequestID :: "string \<Rightarrow> headers \<Rightarrow> headers" where
  "withRequestID newUUID hs = set_header ''X-Request-Id'' newUUID hs"

definition securityHeaders :: "headers \<Rightarrow> headers" where
  "securityHeaders hs =
    set_header ''Cross-Origin-Resource-Policy'' ''same-origin''
    (set_header ''X-Frame-Options'' ''DENY''
    (set_header ''Referrer-Policy'' ''no-referrer''
    (set_header ''X-Content-Type-Options'' ''nosniff'' hs)))"

text \<open>The headers, and whether the request ends here.\<close>

definition cors :: "server \<Rightarrow> request \<Rightarrow> headers \<Rightarrow> headers \<times> bool" where
  "cors srv r hs =
    (let origin = hr_Header r ''Origin'';
         hs = (if origin \<noteq> '''' \<and> OriginAllowed (sr_Cfg srv) origin then
             set_header ''Access-Control-Max-Age'' ''600''
             (set_header ''Access-Control-Expose-Headers'' ''X-Request-Id, Retry-After, Content-Range, Accept-Ranges''
             (set_header ''Access-Control-Allow-Methods'' ''GET, POST, PUT, PATCH, DELETE, OPTIONS''
             (set_header ''Access-Control-Allow-Headers'' ''Authorization, Content-Type, Idempotency-Key, X-Stories-Client''
             (set_header ''Access-Control-Allow-Credentials'' ''true''
             (set_header ''Access-Control-Allow-Origin'' origin hs)))))
           else hs)
     in (add_header ''Vary'' ''Origin'' hs, hr_Method r = ''OPTIONS''))"

section \<open>Helpers\<close>

definition pathUUID :: "server \<Rightarrow> request \<Rightarrow> string \<Rightarrow> api_Error + uuid" where
  "pathUUID srv r name = (case sr_parse srv (hr_Param r name) of None \<Rightarrow> Inl NotFound | Some i \<Rightarrow> Inr i)"

definition idempotencyKey :: "request \<Rightarrow> string" where
  "idempotencyKey r = (let k = hr_Header r ''Idempotency-Key'' in if 128 < length k then take 128 k else k)"

definition atoiDefault :: "string \<Rightarrow> int \<Rightarrow> int" where
  "atoiDefault s def = (if s = '''' then def else (case Atoi s of None \<Rightarrow> def | Some v \<Rightarrow> v))"

text \<open>The cursor of a page is compared by the database, which refuses one that is not a time.\<close>

definition page_cursor :: "server \<Rightarrow> request \<Rightarrow> api_Error + time option" where
  "page_cursor srv r =
    (let s = hr_Query r ''cursor'' in
     if s = '''' then Inr None
     else (case sr_cursor srv s of None \<Rightarrow> Inl (internal (ErrDB Invalid_text)) | Some t \<Rightarrow> Inr (Some t)))"

definition writeRaw :: "headers \<Rightarrow> int \<Rightarrow> string \<Rightarrow> 'v response" where
  "writeRaw hs status raw =
    \<lparr>rsp_Status = (if status = 0 then 200 else status),
     rsp_Headers = set_header ''Idempotent-Replay'' ''true'' (set_header ''Cache-Control'' ''no-store''
       (set_header ''Content-Type'' ''application/json; charset=utf-8'' hs)),
     rsp_Body = Bytes raw\<rparr>"

text \<open>A handler, after the middleware has set its headers.\<close>

type_synonym handler = "server \<Rightarrow> outside \<Rightarrow> headers \<Rightarrow> request \<Rightarrow> (api_Error, payload response) act"

definition ok_json :: "headers \<Rightarrow> payload \<Rightarrow> (api_Error, payload response) act" where
  "ok_json hs v = returns (WriteJSON hs 200 (JSON v))"

definition no_content :: "headers \<Rightarrow> (api_Error, payload response) act" where
  "no_content hs = returns (NoContent hs)"

lemma mustCaller_simps:
  "hr_User r = None \<Longrightarrow> mustCaller r = Inl (Unauthorized ''Sign in to GitHub Stories to do that.'')"
  "hr_User r = Some u \<Longrightarrow> Active (Some u) \<Longrightarrow> mustCaller r = Inr u"
  "hr_User r = Some u \<Longrightarrow> \<not> Active (Some u) \<Longrightarrow> mustCaller r = Inl (Forbidden ''This account is suspended.'')"
  by (simp_all add: mustCaller_def caller_def)

lemma mustCaller_Inr: "mustCaller r = Inr u \<longleftrightarrow> hr_User r = Some u \<and> Active (Some u)"
  by (auto simp: mustCaller_def caller_def split: option.splits)

end
