(* ===== verification/ApiMedia.thy ===== *)
theory ApiMedia
  imports Gate
begin

text \<open>
  The media gateway, \<^verbatim>\<open>src/internal/api/handlers_media.go\<close>, and its safety: bytes leave only
  under the visibility predicate evaluated in the same request.
\<close>

section \<open>The handlers\<close>

definition firstNonEmpty :: "string list \<Rightarrow> string" where
  "firstNonEmpty vals = (case find (\<lambda>v. v \<noteq> '''') vals of None \<Rightarrow> ''application/octet-stream'' | Some v \<Rightarrow> v)"

definition asked_variant :: "string \<Rightarrow> VariantKind option" where
  "asked_variant s = find (\<lambda>k. variant_kind_text k = s) [VariantImage, VariantVideo, VariantPoster, VariantThumb, VariantTerminal]"

text \<open>Status and body of what the object store returned; \<open>HEAD\<close> sends no body.\<close>

definition stream :: "headers \<Rightarrow> request \<Rightarrow> ObjectData \<Rightarrow> payload response" where
  "stream hs r obj =
    \<lparr>rsp_Status = (if ob_StatusCode obj = 0 then 200 else ob_StatusCode obj),
     rsp_Headers =
       (let hs = (if ob_ContentRange obj \<noteq> '''' then set_header ''Content-Range'' (ob_ContentRange obj) hs else hs)
        in (if 0 < ob_ContentLength obj then set_header ''Content-Length'' (decimal (ob_ContentLength obj)) hs else hs)),
     rsp_Body = (if hr_Method r = ''HEAD'' then NoBody else Bytes (ob_Body obj))\<rparr>"

definition private_media_headers :: "ObjectData \<Rightarrow> MediaVariant \<Rightarrow> headers \<Rightarrow> headers" where
  "private_media_headers obj v hs =
    set_header ''Content-Security-Policy'' ''default-src 'none'; sandbox''
    (set_header ''Content-Disposition'' ''inline''
    (set_header ''X-Content-Type-Options'' ''nosniff''
    (set_header ''Accept-Ranges'' ''bytes''
    (set_header ''Cache-Control'' ''private, no-store, max-age=0''
    (set_header ''Content-Type'' (firstNonEmpty [ob_ContentType obj, mv_MIME v]) hs)))))"

definition public_media_headers :: "ObjectData \<Rightarrow> MediaVariant \<Rightarrow> headers \<Rightarrow> headers" where
  "public_media_headers obj v hs =
    (let hs = set_header ''Content-Security-Policy'' ''default-src 'none'; sandbox''
        (set_header ''Content-Disposition'' ''inline''
        (set_header ''X-Content-Type-Options'' ''nosniff''
        (set_header ''Accept-Ranges'' ''bytes''
        (add_header ''Vary'' ''Authorization''
        (set_header ''Cache-Control'' ''public, max-age=60, s-maxage=300''
        (set_header ''Content-Type'' (firstNonEmpty [ob_ContentType obj, mv_MIME v]) hs))))))
     in (if ob_ETag obj \<noteq> '''' then set_header ''ETag'' (ob_ETag obj) hs else hs))"

definition missing_object :: "obj_error + ObjectData \<Rightarrow> api_Error + ObjectData" where
  "missing_object r = (case r of Inl e \<Rightarrow> Inl NotFound | Inr obj \<Rightarrow> Inr obj)"

definition servePrivateMedia ::
  "server \<Rightarrow> outside \<Rightarrow> headers \<Rightarrow> request \<Rightarrow> User \<Rightarrow> uuid \<Rightarrow> VariantKind \<Rightarrow> (api_Error, payload response) act" where
  "servePrivateMedia srv out hs r u storyID kind =
    andthen (queries missing_or_internal (StoryForViewer (ou_env out 0) (u_ID u) (u_GitHubID u) storyID)) (\<lambda>item.
    case StoryItem_Variant item kind of
      None \<Rightarrow> fails NotFound
    | Some variant \<Rightarrow>
        andthen (known (missing_object (sr_Get srv (mv_ObjectKey variant) (hr_Header r ''Range'')))) (\<lambda>obj.
        andthen (if ContentBearing kind \<and> si_AuthorUserID item \<noteq> u_ID u
            then attempts (RecordView (ou_env out 1) storyID (u_ID u)) else returns ()) (\<lambda>_.
        returns (stream (private_media_headers obj variant hs) r obj))))"

definition servePublicMedia ::
  "server \<Rightarrow> outside \<Rightarrow> headers \<Rightarrow> request \<Rightarrow> uuid \<Rightarrow> VariantKind \<Rightarrow> (api_Error, payload response) act" where
  "servePublicMedia srv out hs r storyID kind =
    andthen (queries missing_or_internal (PublicStory (ou_env out 0) storyID)) (\<lambda>item.
    case StoryItem_Variant item kind of
      None \<Rightarrow> fails NotFound
    | Some variant \<Rightarrow>
        andthen (known (missing_object (sr_Get srv (mv_ObjectKey variant) (hr_Header r ''Range'')))) (\<lambda>obj.
        andthen (if ContentBearing kind then attempts (RecordAnonymousView (ou_env out 1) storyID) else returns ()) (\<lambda>_.
        returns (stream (public_media_headers obj variant hs) r obj))))"

definition getMedia :: handler where
  "getMedia srv out hs r =
    andthen (known (pathUUID srv r ''storyId'')) (\<lambda>storyID.
    case asked_variant (hr_Param r ''variant'') of
      None \<Rightarrow> fails NotFound
    | Some kind \<Rightarrow>
        (case caller r of
           None \<Rightarrow> servePublicMedia srv out hs r storyID kind
         | Some u \<Rightarrow> if Active (Some u) then servePrivateMedia srv out hs r u storyID kind
             else servePublicMedia srv out hs r storyID kind))"

end
