(* ===== verification/ApiStories.thy ===== *)
theory ApiStories
  imports Gate
begin

text \<open>
  The handlers of \<^verbatim>\<open>src/internal/api/handlers_stories.go\<close>.  A request body is what the
  decoder finds in it (\<open>decoded\<close>); the \<open>i\<close>-th read of the clock of a handler is \<open>ou_env out i\<close>.
\<close>

section \<open>Reading and editing a Story\<close>

definition storyForCaller :: "outside \<Rightarrow> User \<Rightarrow> uuid \<Rightarrow> (api_Error, StoryItem) act" where
  "storyForCaller out u sid d =
    (case StoryForViewer (ou_env out 0) (u_ID u) (u_GitHubID u) sid d of
       Inr it \<Rightarrow> (Inr it, d)
     | Inl e \<Rightarrow> if e \<noteq> ErrNotFound then (Inl (internal e), d)
         else queries missing_or_internal (OwnStory (u_ID u) sid) d)"

definition getStory :: handler where
  "getStory srv out hs r =
    andthen (known (pathUUID srv r ''storyId'')) (\<lambda>sid.
      if (case caller r of None \<Rightarrow> False | Some u \<Rightarrow> Active (Some u)) then
        (let u = the (caller r) in
         andthen (storyForCaller out u sid) (\<lambda>it.
         andthen (reads (Seen sid (u_ID u))) (\<lambda>seen.
         andthen (reads (MyReaction sid (u_ID u))) (\<lambda>reaction.
         let opts = \<lparr>po_viewer = Some u, po_seen = seen, po_myReaction = reaction, po_views = None, po_reactions = None\<rparr> in
         andthen (if si_AuthorUserID it = u_ID u then
             andthen (reads (Counts sid)) (\<lambda>(nviews, nreacts).
             andthen (reads (AnonymousViewCount sid)) (\<lambda>anon.
             returns (opts\<lparr>po_views := Some (case anon of Inl e \<Rightarrow> nviews | Inr n \<Rightarrow> nviews + nat n),
               po_reactions := Some nreacts\<rparr>)))
           else returns opts) (\<lambda>opts.
         ok_json hs (StoryDoc (presentStory (sr_text srv) it opts)))))))
      else
        andthen (queries missing_or_internal (PublicStory (ou_env out 0) sid)) (\<lambda>it.
        ok_json hs (StoryDoc (presentStory (sr_text srv) it no_opts))))"

record storyUpdateRequest =
  su_Caption :: "string option"
  su_AltText :: "string option"
  su_Visibility :: "string option"
  su_AudienceListID :: "string option"
  su_AllowReplies :: "bool option"
  su_AllowReactions :: "bool option"

definition resolveAudienceList ::
  "server \<Rightarrow> User \<Rightarrow> Visibility option \<Rightarrow> string option \<Rightarrow> (api_Error, uuid option) act" where
  "resolveAudienceList srv u vis raw =
    (if vis \<noteq> Some CustomList then returns None
     else if raw = None \<or> raw = Some '''' then
       fails (FieldError ''audience_list_id'' ''Choose a list for a custom audience.'')
     else (case sr_parse srv (the raw) of
         None \<Rightarrow> fails (FieldError ''audience_list_id'' ''Not a valid list.'')
       | Some i \<Rightarrow>
           andthen (queries (\<lambda>_. FieldError ''audience_list_id'' ''Not a valid list.'') (AudienceList_get (u_ID u) i)) (\<lambda>_.
           returns (Some i))))"

text \<open>A visibility in a request: absent, unknown, or one of the five.\<close>

definition asked_visibility :: "string \<Rightarrow> string option \<Rightarrow> api_Error + Visibility option" where
  "asked_visibility field raw =
    (case raw of
       None \<Rightarrow> Inr None
     | Some s \<Rightarrow> (case parse_visibility s of
         None \<Rightarrow> Inl (FieldError field ''Unknown audience.'')
       | Some v \<Rightarrow> Inr (Some v)))"

definition patchStory :: "(int \<Rightarrow> storyUpdateRequest decoded) \<Rightarrow> handler" where
  "patchStory body srv out hs r =
    andthen (known (mustCaller r)) (\<lambda>u.
    andthen (known (pathUUID srv r ''storyId'')) (\<lambda>sid.
    andthen (known (DecodeJSON body (8 * 1024))) (\<lambda>req.
    andthen (reject (case su_Caption req of None \<Rightarrow> False | Some c \<Rightarrow> 500 < length c)
        (FieldError ''caption'' ''Captions are limited to 500 characters.'')) (\<lambda>_.
    andthen (reject (case su_AltText req of None \<Rightarrow> False | Some c \<Rightarrow> 500 < length c)
        (FieldError ''alt_text'' ''Descriptions are limited to 500 characters.'')) (\<lambda>_.
    andthen (known (asked_visibility ''visibility'' (su_Visibility req))) (\<lambda>vis.
    andthen (resolveAudienceList srv u vis (su_AudienceListID req)) (\<lambda>listID.
    andthen (executes missing_or_internal (UpdateStory (u_ID u) sid (su_Caption req) (su_AltText req) vis listID
        (su_AllowReplies req) (su_AllowReactions req))) (\<lambda>_.
    getStory srv out hs r))))))))"

definition deleteStory :: handler where
  "deleteStory srv out hs r =
    andthen (known (mustCaller r)) (\<lambda>u.
    andthen (known (pathUUID srv r ''storyId'')) (\<lambda>sid.
    andthen (executes missing_or_internal (DeleteStory (ou_env out 0) (ou_id out 0) (u_ID u) sid False '''')) (\<lambda>_.
    no_content hs)))"

section \<open>Viewers, views, reactions\<close>

definition getViewers :: handler where
  "getViewers srv out hs r =
    andthen (known (mustCaller r)) (\<lambda>u.
    andthen (known (pathUUID srv r ''storyId'')) (\<lambda>sid.
    andthen (queries missing_or_internal (Viewers (u_ID u) sid)) (\<lambda>viewers.
    ok_json hs (ViewersDoc \<lparr>vl_StoryID = sr_text srv sid, vl_Total = length viewers,
      vl_Viewers = map (\<lambda>v. \<lparr>ve_User = presentIdentity (vw_Identity v), ve_ViewedAt = vw_ViewedAt v,
        ve_Reaction = vw_Reaction v\<rparr>) viewers\<rparr>))))"

definition postView :: handler where
  "postView srv out hs r =
    andthen (known (pathUUID srv r ''storyId'')) (\<lambda>sid.
      case caller r of
        None \<Rightarrow> andthen (queries missing (PublicStory (ou_env out 0) sid)) (\<lambda>_. no_content hs)
      | Some u \<Rightarrow>
          andthen (reject (\<not> Active (Some u)) (Forbidden ''This account is suspended.'')) (\<lambda>_.
          andthen (queries missing (StoryForViewer (ou_env out 0) (u_ID u) (u_GitHubID u) sid)) (\<lambda>it.
          if si_AuthorUserID it = u_ID u then no_content hs
          else andthen (executes internal (AcknowledgeView (ou_env out 1) sid (u_ID u))) (\<lambda>_. no_content hs))))"

definition putReaction :: "(int \<Rightarrow> string decoded) \<Rightarrow> handler" where
  "putReaction body srv out hs r =
    andthen (known (mustCaller r)) (\<lambda>u.
    andthen (known (pathUUID srv r ''storyId'')) (\<lambda>sid.
    andthen (known (DecodeJSON body 1024)) (\<lambda>emoji.
    andthen (reject (\<not> ValidReaction emoji) (FieldError ''emoji'' ''That reaction is not available.'')) (\<lambda>_.
    andthen (queries missing (StoryForViewer (ou_env out 0) (u_ID u) (u_GitHubID u) sid)) (\<lambda>it.
    andthen (reject (\<not> si_AllowReactions it) (Forbidden ''Reactions are turned off for this Story.'')) (\<lambda>_.
    andthen (executes internal (SetReaction (ou_env out 1) (ou_id out 0) sid (u_ID u) (si_AuthorUserID it) emoji)) (\<lambda>_.
    ok_json hs (ReactionDoc (sr_text srv sid) emoji (now_at out 2)))))))))"

definition deleteReaction :: handler where
  "deleteReaction srv out hs r =
    andthen (known (mustCaller r)) (\<lambda>u.
    andthen (known (pathUUID srv r ''storyId'')) (\<lambda>sid.
    andthen (executes internal (ClearReaction sid (u_ID u))) (\<lambda>_.
    no_content hs)))"

section \<open>Replies and the inbox\<close>

definition postReply :: "(int \<Rightarrow> string decoded) \<Rightarrow> handler" where
  "postReply body srv out hs r =
    andthen (known (mustCaller r)) (\<lambda>u.
    andthen (known (pathUUID srv r ''storyId'')) (\<lambda>sid.
    andthen (known (DecodeJSON body (4 * 1024))) (\<lambda>raw.
    let reply = TrimSpace raw; key = idempotencyKey r;
        req = sr_reply_request srv (sr_text srv sid) reply in
    andthen (reject (reply = '''') (FieldError ''body'' ''Write something first.'')) (\<lambda>_.
    andthen (reject (500 < length (runes reply)) (FieldError ''body'' ''Replies are limited to 500 characters.'')) (\<lambda>_.
    andthen (reads (IdempotentReplay (sr_sha srv) (u_ID u) ''reply'' key req)) (\<lambda>(found, status, stored, conflict).
    andthen (reject conflict (Conflict ''That idempotency key was used for a different request.'')) (\<lambda>_.
    if found then returns (writeRaw hs status stored)
    else
      andthen (queries missing (StoryForViewer (ou_env out 0) (u_ID u) (u_GitHubID u) sid)) (\<lambda>it.
      andthen (reject (si_AuthorUserID it = u_ID u) (Forbidden ''You cannot reply to your own Story.'')) (\<lambda>_.
      andthen (reject (\<not> si_AllowReplies it) (Forbidden ''Replies are turned off for this Story.'')) (\<lambda>_.
      andthen (executes internal (CreateReply (ou_env out 1) (ou_id out 0) (ou_id out 1) sid (u_ID u) (si_AuthorUserID it)
          reply (cf_ReplyRetention (sr_Cfg srv)))) (\<lambda>replyID.
      let doc = \<lparr>rq_ID = sr_text srv replyID, rq_StoryID = sr_text srv sid, rq_Sender = presentUser u,
          rq_Recipient = (case si_Author it of None \<Rightarrow> no_user | Some a \<Rightarrow> presentIdentity a),
          rq_Body = reply, rq_CreatedAt = now_at out 2\<rparr> in
      andthen (attempts (RememberIdempotent (sr_sha srv) (u_ID u) ''reply'' key req 201 (sr_reply_json srv doc))) (\<lambda>_.
      returns (WriteJSON hs 201 (JSON (ReplyDoc doc)))))))))))))))"

definition getInbox :: handler where
  "getInbox srv out hs r =
    andthen (known (mustCaller r)) (\<lambda>u.
    andthen (known (page_cursor srv r)) (\<lambda>before.
    andthen (reads (Inbox (ou_env out 0) (u_ID u) (atoiDefault (hr_Query r ''limit'') 30) before)) (\<lambda>(entries, unread, next).
    ok_json hs (InboxDoc \<lparr>ir_Entries = map (presentInboxEntry (sr_text srv)) entries, ir_Unread = unread,
      ir_NextCursor = next\<rparr>))))"

text \<open>The ids of a request, all of them valid or none.\<close>

fun parse_all :: "server \<Rightarrow> string list \<Rightarrow> uuid list option" where
  "parse_all srv [] = Some []"
| "parse_all srv (s # ss) =
    (case sr_parse srv s of None \<Rightarrow> None | Some i \<Rightarrow> map_option (\<lambda>is. i # is) (parse_all srv ss))"

definition postInboxRead :: "(int \<Rightarrow> (string list \<times> bool) decoded) \<Rightarrow> handler" where
  "postInboxRead body srv out hs r =
    andthen (known (mustCaller r)) (\<lambda>u.
    andthen (known (DecodeJSON body (16 * 1024))) (\<lambda>(eventIDs, all_events).
    andthen (reject (200 < length eventIDs) (BadRequest ''Mark at most 200 entries at a time.'')) (\<lambda>_.
    andthen (known (case parse_all srv eventIDs of None \<Rightarrow> Inl (BadRequest ''Not a valid inbox entry id.'')
        | Some ids \<Rightarrow> Inr ids)) (\<lambda>ids.
    andthen (changes (MarkInboxRead (ou_env out 0) (u_ID u) ids all_events)) (\<lambda>_.
    no_content hs)))))"

end
