(* ===== verification/ApiUploads.thy ===== *)
theory ApiUploads
  imports ApiStories
begin

text \<open>
  Uploads: \<^verbatim>\<open>src/internal/api/handlers_upload.go\<close>, and when the worker is asked to run,
  \<^verbatim>\<open>src/internal/api/trigger.go\<close>.
\<close>

section \<open>Values\<close>

definition acceptedInputs :: "string list" where
  "acceptedInputs = [''image/jpeg'', ''image/png'', ''image/webp'', ''image/gif'', ''video/mp4'', ''video/webm'', ''video/quicktime'']"

definition checksumPattern :: "string \<Rightarrow> bool" where
  "checksumPattern s \<longleftrightarrow> length s = 64 \<and> list_all (\<lambda>c. is_digit c \<or> (97 \<le> byte c \<and> byte c \<le> 102)) s"

record uploadIntentRequest =
  uq_MIME :: string
  uq_ByteSize :: int
  uq_Filename :: string
  uq_Caption :: string
  uq_AltText :: string
  uq_Visibility :: "string option"
  uq_AudienceListID :: "string option"
  uq_AllowReplies :: "bool option"
  uq_AllowReactions :: "bool option"

definition newUploadKey :: "string \<Rightarrow> string \<Rightarrow> string" where
  "newUploadKey newUUID ownerID = ''u/'' @ ownerID @ ''/'' @ newUUID"

fun plain_runes :: "nat list \<Rightarrow> string \<Rightarrow> string" where
  "plain_runes [] b = b"
| "plain_runes (r # rs) b =
    (if r < 0x20 \<or> r = 0x7f then plain_runes rs b
     else (let b = b @ encode_rune r in if 200 < length b then b else plain_runes rs b))"

definition sanitizeFilename :: "string \<Rightarrow> string" where
  "sanitizeFilename name =
    (let name = TrimSpace name in
     if name = '''' then ''''
     else plain_runes (runes (map (\<lambda>c. if c = CHR ''/'' \<or> c = CHR 0x5C then CHR ''_'' else c)
       (filter (\<lambda>c. c \<noteq> CHR 0x00) name))) '''')"

section \<open>Asking the worker to run\<close>

definition minTriggerGap :: duration where "minTriggerGap = 10 * Second"

text \<open>Whether a run is requested, and the time of the last request.\<close>

definition Trigger :: "time \<Rightarrow> time option \<Rightarrow> bool \<times> time option" where
  "Trigger now last_run =
    (case last_run of
       None \<Rightarrow> (True, Some now)
     | Some t \<Rightarrow> if now - t < minTriggerGap then (False, Some t) else (True, Some now))"

section \<open>The handlers\<close>

text \<open>The draft of a Story: the defaults of the account, then what the request asks for.\<close>

definition upload_draft :: "server \<Rightarrow> User \<Rightarrow> uploadIntentRequest \<Rightarrow> (api_Error, StoryDraft) act" where
  "upload_draft srv u req =
    (let draft = \<lparr>d_Caption = uq_Caption req, d_AltText = uq_AltText req, d_Visibility = u_DefaultVisibility u,
       d_AudienceListID = u_DefaultAudienceListID u, d_AllowReplies = u_DefaultAllowReplies u,
       d_AllowReactions = u_DefaultAllowReactions u\<rparr> in
     andthen (known (asked_visibility ''visibility'' (uq_Visibility req))) (\<lambda>vis.
     andthen (case vis of
         None \<Rightarrow> returns draft
       | Some v \<Rightarrow> andthen (resolveAudienceList srv u (Some v) (uq_AudienceListID req)) (\<lambda>listID.
           returns (draft\<lparr>d_Visibility := v, d_AudienceListID := listID\<rparr>))) (\<lambda>draft.
     andthen (reject (d_Visibility draft = CustomList \<and> d_AudienceListID draft = None)
       (FieldError ''audience_list_id'' ''Choose a list for a custom audience.'')) (\<lambda>_.
     returns (draft\<lparr>d_AllowReplies := (case uq_AllowReplies req of None \<Rightarrow> d_AllowReplies draft | Some b \<Rightarrow> b),
       d_AllowReactions := (case uq_AllowReactions req of None \<Rightarrow> d_AllowReactions draft | Some b \<Rightarrow> b)\<rparr>)))))"

definition postUpload :: "string \<Rightarrow> (int \<Rightarrow> uploadIntentRequest decoded) \<Rightarrow> handler" where
  "postUpload newUUID body srv out hs r =
    andthen (known (mustCaller r)) (\<lambda>u.
    andthen (known (DecodeJSON body (16 * 1024))) (\<lambda>req.
    let mime = lower (TrimSpace (uq_MIME req)) in
    andthen (reject (mime \<notin> set acceptedInputs)
        (Unsupported ''That file type is not supported. Use JPEG, PNG, WebP, GIF, MP4 or WebM.'')) (\<lambda>_.
    andthen (reject (uq_ByteSize req \<le> 0) (FieldError ''byte_size'' ''The file appears to be empty.'')) (\<lambda>_.
    andthen (reject (cf_MaxUploadBytes (sr_Cfg srv) < uq_ByteSize req) (TooLarge ''Files are limited to 100 MB.'')) (\<lambda>_.
    andthen (reject (500 < length (runes (uq_Caption req)))
        (FieldError ''caption'' ''Captions are limited to 500 characters.'')) (\<lambda>_.
    andthen (reject (500 < length (runes (uq_AltText req)))
        (FieldError ''alt_text'' ''Descriptions are limited to 500 characters.'')) (\<lambda>_.
    andthen (upload_draft srv u req) (\<lambda>draft.
    let key = newUploadKey newUUID (sr_text srv (u_ID u)) in
    andthen (executes internal (CreateUploadIntent (ou_env out 0) (ou_id out 0) (u_ID u) key mime (uq_ByteSize req)
        (cf_UploadIntentTTL (sr_Cfg srv)))) (\<lambda>intent.
    andthen (executes internal (StashDraft (sr_text srv) (ui_ID intent) draft (sanitizeFilename (uq_Filename req)))) (\<lambda>_.
    andthen (known (case sr_PresignPut srv key mime (uq_ByteSize req) (cf_UploadIntentTTL (sr_Cfg srv)) of
        Inl e \<Rightarrow> Inl (Internal None) | Inr grant \<Rightarrow> Inr grant)) (\<lambda>(url, hdrs).
    returns (WriteJSON hs 201 (JSON (GrantDoc \<lparr>ug_UploadID = sr_text srv (ui_ID intent), ug_URL = url,
      ug_Headers = hdrs, ug_ExpiresAt = ui_ExpiresAt intent, ug_MaxBytes = uq_ByteSize req\<rparr>))))))))))))))"

text \<open>A request of finalization is a size and a checksum.\<close>

definition postFinalize :: "(int \<Rightarrow> (int \<times> string) decoded) \<Rightarrow> handler" where
  "postFinalize body srv out hs r =
    andthen (known (mustCaller r)) (\<lambda>u.
    andthen (known (pathUUID srv r ''uploadId'')) (\<lambda>uploadID.
    andthen (known (DecodeJSON body (4 * 1024))) (\<lambda>(nbytes, checksum).
    andthen (reject (\<not> checksumPattern (lower checksum))
        (FieldError ''checksum_sha256'' ''Expected a lowercase hex SHA-256.'')) (\<lambda>_.
    andthen (reject (nbytes \<le> 0 \<or> cf_MaxUploadBytes (sr_Cfg srv) < nbytes)
        (FieldError ''byte_size'' ''That size is not acceptable.'')) (\<lambda>_.
    andthen (queries missing_or_internal (LoadDraft (sr_parse srv) uploadID)) (\<lambda>(draft, filename).
    andthen (executes missing_or_internal (FinalizeUpload (sr_text srv) (ou_env out 0) (ou_id out 0) (ou_id out 1)
        (u_ID u) uploadID nbytes (lower checksum) draft filename)) (\<lambda>(storyID, created).
    andthen (queries internal (OwnStory (u_ID u) storyID)) (\<lambda>item.
    returns (WriteJSON hs 202 (JSON (StoryDoc (presentStory (sr_text srv) item (no_opts\<lparr>po_viewer := Some u\<rparr>)))))))))))))"

end
