(* ===== verification/ApiSocial.thy ===== *)
theory ApiSocial
  imports Gate
begin

text \<open>
  The feed, lookups and relationships: \<^verbatim>\<open>src/internal/api/handlers_feed.go\<close> and
  \<^verbatim>\<open>src/internal/api/handlers_graph.go\<close>.  The order in which Go visits a map is not
  specified; here it is the order of the request.
\<close>

section \<open>The feed\<close>

definition reactionsFor :: "User \<Rightarrow> FeedGroup list \<Rightarrow> FeedGroup option \<Rightarrow> db \<Rightarrow> uuid \<rightharpoonup> string" where
  "reactionsFor u groups me d =
    MyReactions (u_ID u) (concat (map (\<lambda>g. map si_ID (fg_Items g)) groups)
      @ (case me of None \<Rightarrow> [] | Some g \<Rightarrow> map si_ID (fg_Items g))) d"

definition attachOwnerCounts :: "server \<Rightarrow> storyItem list \<Rightarrow> db \<Rightarrow> storyItem list" where
  "attachOwnerCounts srv its d =
    map (\<lambda>it. case sr_parse srv (ps_ID it) of
        None \<Rightarrow> it
      | Some sid \<Rightarrow> (case Counts sid d of (v, rc) \<Rightarrow> it\<lparr>ps_ViewerCount := Some v, ps_ReactionCount := Some rc\<rparr>)) its"

definition getFeed :: handler where
  "getFeed srv out hs r =
    andthen (known (mustCaller r)) (\<lambda>u.
    let lim = snd (ParseInt (hr_Query r ''limit'')); includeMuted = (hr_Query r ''include_muted'' = ''true'') in
    andthen (reads (Feed (ou_env out 0) (u_ID u) (u_GitHubID u) includeMuted lim)) (\<lambda>(groups, me).
    andthen (reads (FeedVersion (sr_stamp srv) (ou_env out 1) (u_ID u) (u_GitHubID u))) (\<lambda>version.
    andthen (reads (reactionsFor u groups me)) (\<lambda>mine.
    let shown = map (\<lambda>g. presentGroup (sr_text srv) g (Some u) mine) groups in
    andthen (case me of
        None \<Rightarrow> returns None
      | Some m \<Rightarrow>
          (let g = presentGroup (sr_text srv) m (Some u) mine in
           andthen (reads (attachOwnerCounts srv (ag_Items g))) (\<lambda>its. returns (Some (g\<lparr>ag_Items := its\<rparr>))))) (\<lambda>me.
    ok_json hs (FeedDoc \<lparr>fd_Me = me, fd_Groups = shown, fd_ServerTime = now_at out 2, fd_Version = version\<rparr>))))))"

definition maxBatch :: nat where "maxBatch = 100"

text \<open>What is looked up: the positive ids of the request once each, then the accounts of its logins.\<close>

definition add_target :: "GitHubID list \<Rightarrow> GitHubID \<Rightarrow> GitHubID list" where
  "add_target ids i = (if i \<in> set ids then ids else ids @ [i])"

definition status_targets :: "int list \<Rightarrow> string list \<Rightarrow> db \<Rightarrow> GitHubID list" where
  "status_targets raws logins d =
    (let ids = foldl add_target [] (filter (\<lambda>i. 0 < i) raws);
         found = (if logins = [] then [] else
           map gi_GitHubID (List.map_filter (IdentitiesByLogins logins d) (map (\<lambda>l. lower (trim_at l)) logins)))
     in foldl add_target ids found)"

definition postStatus :: "(int \<Rightarrow> (int list \<times> string list) decoded) \<Rightarrow> handler" where
  "postStatus body srv out hs r =
    andthen (known (mustCaller r)) (\<lambda>u.
    andthen (known (DecodeJSON body (16 * 1024))) (\<lambda>(raws, logins).
    andthen (reject (maxBatch < length raws \<or> maxBatch < length logins)
        (BadRequest ''Look up at most 100 accounts per request.'')) (\<lambda>_.
    if raws = [] \<and> logins = [] then ok_json hs (StatusDoc [])
    else
      andthen (reads (status_targets raws logins)) (\<lambda>ids.
      andthen (reads (RingStatuses (ou_env out 0) (u_ID u) (u_GitHubID u) ids)) (\<lambda>statuses.
      ok_json hs (StatusDoc (map (\<lambda>st. \<lparr>st_GitHubUserID = rs_GitHubID st, st_Login = rs_Login st,
        st_HasActive = rs_HasActive st, st_HasUnseen = rs_HasUnseen st, st_Muted = rs_Muted st,
        st_IsSelf = rs_IsSelf st\<rparr>) statuses)))))))"

definition TrimPrefix :: "string \<Rightarrow> string \<Rightarrow> string" where
  "TrimPrefix s p = (if HasPrefix s p then drop (length p) s else s)"

definition getAuthorStories :: handler where
  "getAuthorStories srv out hs r =
    andthen (known (mustCaller r)) (\<lambda>u.
    andthen (queries missing_or_internal (AuthorSequence (ou_env out 0) (u_ID u) (u_GitHubID u)
        (TrimPrefix (hr_Param r ''login'') ''@''))) (\<lambda>group.
    andthen (reads (reactionsFor u [group] None)) (\<lambda>mine.
    let g = presentGroup (sr_text srv) group (Some u) mine in
    andthen (if gi_GitHubID (fg_Author group) = u_GitHubID u then reads (attachOwnerCounts srv (ag_Items g))
        else returns (ag_Items g)) (\<lambda>its.
    ok_json hs (GroupDoc (g\<lparr>ag_Items := its\<rparr>))))))"

definition getOwnStories :: handler where
  "getOwnStories srv out hs r =
    andthen (known (mustCaller r)) (\<lambda>u.
    andthen (reads (OwnSequence (ou_env out 0) (u_ID u))) (\<lambda>its.
    andthen (reads (attachOwnerCounts srv (map (\<lambda>it. presentStory (sr_text srv) it (no_opts\<lparr>po_viewer := Some u\<rparr>)) its))) (\<lambda>its.
    ok_json hs (GroupDoc \<lparr>ag_Author = presentUser u, ag_Items = its, ag_HasUnseen = False, ag_Muted = False,
      ag_FollowProvenance = ''''\<rparr>))))"

definition getUserLookup :: handler where
  "getUserLookup srv out hs r =
    andthen (known (mustCaller r)) (\<lambda>_.
    andthen (reject (64 < length (hr_Query r ''q'')) (BadRequest ''Search term is too long.'')) (\<lambda>_.
    andthen (reads (SearchIdentities (hr_Query r ''q'') 10)) (\<lambda>ids.
    ok_json hs (UsersDoc (presentIdentities ids)))))"

section \<open>Relationships\<close>

definition resolveTarget :: "request \<Rightarrow> (api_Error, Identity) act" where
  "resolveTarget r =
    (let login = TrimPrefix (hr_Param r ''login'') ''@'' in
     andthen (reject (login = '''' \<or> 64 < length login) NotFound) (\<lambda>_.
     queries missing_or_internal (IdentityByLogin login)))"

text \<open>\<^verbatim>\<open>uuid.Nil\<close>, the id of no account.\<close>

definition Nil_uuid :: uuid where "Nil_uuid = 0"

definition bare_relationship :: "Identity \<Rightarrow> string \<Rightarrow> relationship" where
  "bare_relationship target provenance =
    \<lparr>rl_User = presentIdentity target, rl_Provenance = provenance, rl_FollowsMe = False, rl_Muted = False,
     rl_Blocked = False, rl_Hidden = False\<rparr>"

definition putFollow :: handler where
  "putFollow srv out hs r =
    andthen (known (mustCaller r)) (\<lambda>u.
    andthen (resolveTarget r) (\<lambda>target.
    andthen (reject (gi_GitHubID target = u_GitHubID u) (BadRequest ''You cannot follow yourself.'')) (\<lambda>_.
    andthen (reads (BlockedEitherWay (u_ID u) (u_GitHubID u) Nil_uuid (gi_GitHubID target))) (\<lambda>blocked.
    andthen (reject blocked (Forbidden ''You cannot follow this account.'')) (\<lambda>_.
    andthen (executes missing_or_internal (Follow (ou_env out 0) (u_ID u) (gi_GitHubID target) ProvenanceNative)) (\<lambda>_.
    andthen (reads (UserByGitHubID (gi_GitHubID target))) (\<lambda>followee.
    andthen (case followee of
        Inl e \<Rightarrow> returns ()
      | Inr f \<Rightarrow> attempts (NotifyFollow (ou_env out 1) (ou_id out 0) (u_ID f) (u_ID u))) (\<lambda>_.
    ok_json hs (RelationshipDoc (bare_relationship target (provenance_text ProvenanceNative)))))))))))"

definition deleteFollow :: handler where
  "deleteFollow srv out hs r =
    andthen (known (mustCaller r)) (\<lambda>u.
    andthen (resolveTarget r) (\<lambda>target.
    andthen (executes internal (Unfollow (ou_env out 0) (u_ID u) (gi_GitHubID target))) (\<lambda>_.
    no_content hs)))"

definition serve_relationships :: "bool \<Rightarrow> handler" where
  "serve_relationships following srv out hs r =
    andthen (known (mustCaller r)) (\<lambda>u.
    let lim = atoiDefault (hr_Query r ''limit'') 50 in
    andthen (known (page_cursor srv r)) (\<lambda>cursor.
    andthen (reads (if following then ListFollowing (u_ID u) (u_GitHubID u) lim cursor
        else ListFollowers (u_ID u) (u_GitHubID u) lim cursor)) (\<lambda>(rows, next).
    ok_json hs (PageDoc \<lparr>rg_Relationships = map presentRelationship rows, rg_NextCursor = next\<rparr>))))"

definition listFollowing :: handler where "listFollowing = serve_relationships True"

definition listFollowers :: handler where "listFollowers = serve_relationships False"

datatype toggle_kind = ToggleMute | ToggleBlock | ToggleHide

definition toggleRelation :: "toggle_kind \<Rightarrow> bool \<Rightarrow> handler" where
  "toggleRelation kind on srv out hs r =
    andthen (known (mustCaller r)) (\<lambda>u.
    andthen (resolveTarget r) (\<lambda>target.
    andthen (reject (gi_GitHubID target = u_GitHubID u) (BadRequest ''You cannot do that to yourself.'')) (\<lambda>_.
    andthen (executes missing_or_internal
      (case kind of
         ToggleMute \<Rightarrow> SetMute (u_ID u) (gi_GitHubID target) on
       | ToggleBlock \<Rightarrow> SetBlock (ou_env out 0) (u_ID u) (gi_GitHubID target) on
       | ToggleHide \<Rightarrow> SetHide (u_ID u) (gi_GitHubID target) on)) (\<lambda>_.
    no_content hs))))"

definition listSimple :: "(db \<Rightarrow> pair_row list) \<Rightarrow> handler" where
  "listSimple table srv out hs r =
    andthen (known (mustCaller r)) (\<lambda>u.
    andthen (reads (ListSimple table (u_ID u))) (\<lambda>ids.
    ok_json hs (PageDoc \<lparr>rg_Relationships = map (\<lambda>i. bare_relationship i '''') ids, rg_NextCursor = None\<rparr>)))"

end
