(* ===== verification/ApiModeration.thy ===== *)
theory ApiModeration
  imports ApiSocial
begin

text \<open>
  Reports and moderation: \<^verbatim>\<open>src/internal/api/handlers_moderation.go\<close>.
\<close>

section \<open>Reports\<close>

definition reportReasons :: "string list" where
  "reportReasons = [''spam'', ''harassment'', ''nudity'', ''violence'', ''self_harm'', ''illegal'', ''other'']"

record reportRequest =
  rx_SubjectKind :: string
  rx_Story :: string
  rx_Login :: string
  rx_Reason :: string
  rx_Details :: string

fun subject_kind_text :: "SubjectKind \<Rightarrow> string" where
  "subject_kind_text SubjectStory = ''story''"
| "subject_kind_text SubjectUser = ''user''"

fun report_state_text :: "ReportState \<Rightarrow> string" where
  "report_state_text ReportOpen = ''open''"
| "report_state_text ReportActioned = ''actioned''"
| "report_state_text ReportDismissed = ''dismissed''"

text \<open>What is reported: its kind, the Story, the account.\<close>

definition report_target ::
  "server \<Rightarrow> outside \<Rightarrow> User \<Rightarrow> reportRequest \<Rightarrow> (api_Error, SubjectKind \<times> uuid option \<times> uuid option) act" where
  "report_target srv out u req =
    (if rx_SubjectKind req = ''story'' then
       andthen (known (case sr_parse srv (rx_Story req) of
           None \<Rightarrow> Inl (FieldError ''story_id'' ''Not a valid Story.'') | Some i \<Rightarrow> Inr i)) (\<lambda>sid.
       andthen (queries missing (StoryForViewer (ou_env out 0) (u_ID u) (u_GitHubID u) sid)) (\<lambda>_.
       returns (SubjectStory, Some sid, None)))
     else if rx_SubjectKind req = ''user'' then
       andthen (queries missing (UserByLogin (TrimPrefix (rx_Login req) ''@''))) (\<lambda>target.
       returns (SubjectUser, None, Some (u_ID target)))
     else fails (FieldError ''subject_kind'' ''Report a Story or a person.''))"

definition postReport :: "(int \<Rightarrow> reportRequest decoded) \<Rightarrow> handler" where
  "postReport body srv out hs r =
    andthen (known (mustCaller r)) (\<lambda>u.
    andthen (known (DecodeJSON body (8 * 1024))) (\<lambda>req.
    andthen (reject (rx_Reason req \<notin> set reportReasons) (FieldError ''reason'' ''Choose a reason.'')) (\<lambda>_.
    andthen (reject (1000 < length (runes (rx_Details req)))
        (FieldError ''details'' ''Details are limited to 1000 characters.'')) (\<lambda>_.
    andthen (report_target srv out u req) (\<lambda>(kind, storyID, subjectID).
    andthen (executes internal (CreateReport (ou_env out 1) (ou_id out 0) (u_ID u) kind storyID subjectID
        (rx_Reason req) (rx_Details req))) (\<lambda>rid.
    returns (WriteJSON hs 201 (JSON (ReportDoc (sr_text srv rid) (rx_Reason req)))))))))) "

definition report_entry :: "server \<Rightarrow> Report \<Rightarrow> reportEntry" where
  "report_entry srv rep =
    \<lparr>rn_ID = sr_text srv (rt_ID rep), rn_SubjectKind = subject_kind_text (rt_SubjectKind rep), rn_Reason = rt_Reason rep,
     rn_Details = rt_Details rep, rn_State = report_state_text (rt_State rep), rn_CreatedAt = rt_CreatedAt rep,
     rn_Reporter = presentIdentity (rt_Reporter rep), rn_StoryID = map_option (sr_text srv) (rt_StoryID rep),
     rn_Subject = map_option presentIdentity (rt_Subject rep)\<rparr>"

definition listReports :: handler where
  "listReports srv out hs r =
    (let state = (if hr_Query r ''state'' = '''' then ''open'' else hr_Query r ''state'') in
     andthen (known (case find (\<lambda>s. report_state_text s = state) [ReportOpen, ReportActioned, ReportDismissed] of
         None \<Rightarrow> Inl (BadRequest ''Unknown report state.'') | Some s \<Rightarrow> Inr s)) (\<lambda>st.
     andthen (reads (ListReports st 50)) (\<lambda>reps.
     ok_json hs (ReportsDoc (map (report_entry srv) reps)))))"

section \<open>Actions\<close>

record actionRequest =
  mq_Kind :: string
  mq_ReportID :: string
  mq_StoryID :: string
  mq_Login :: string
  mq_Reason :: string

text \<open>An optional id of a request.\<close>

definition optional_id :: "server \<Rightarrow> string \<Rightarrow> string \<Rightarrow> string \<Rightarrow> api_Error + uuid option" where
  "optional_id srv field msg s =
    (if s = '''' then Inr None
     else (case sr_parse srv s of None \<Rightarrow> Inl (FieldError field msg) | Some i \<Rightarrow> Inr (Some i)))"

definition apply_action ::
  "outside \<Rightarrow> User \<Rightarrow> actionRequest \<Rightarrow> uuid option \<Rightarrow> uuid option \<Rightarrow> uuid option \<Rightarrow> (api_Error, unit) act" where
  "apply_action out u req reportID storyID targetID =
    (if mq_Kind req = ''remove_story'' then
       (case storyID of
          None \<Rightarrow> fails (FieldError ''story_id'' ''Which Story?'')
        | Some s \<Rightarrow> executes missing_or_internal (DeleteStory (ou_env out 0) (ou_id out 0) (u_ID u) s True (mq_Reason req)))
     else if mq_Kind req = ''suspend_user'' then
       (case targetID of
          None \<Rightarrow> fails (FieldError ''login'' ''Which account?'')
        | Some t \<Rightarrow> executes internal (SuspendUser (ou_env out 0) t (mq_Reason req)))
     else if mq_Kind req = ''unsuspend_user'' then
       (case targetID of
          None \<Rightarrow> fails (FieldError ''login'' ''Which account?'')
        | Some t \<Rightarrow> executes internal (UnsuspendUser t))
     else if mq_Kind req = ''dismiss_report'' then
       (case reportID of
          None \<Rightarrow> fails (FieldError ''report_id'' ''Which report?'')
        | Some _ \<Rightarrow> returns ())
     else fails (FieldError ''kind'' ''Unknown moderation action.''))"

definition postModerationAction :: "(int \<Rightarrow> actionRequest decoded) \<Rightarrow> handler" where
  "postModerationAction body srv out hs r =
    andthen (known (mustCaller r)) (\<lambda>u.
    andthen (known (DecodeJSON body (8 * 1024))) (\<lambda>req.
    andthen (reject (500 < length (runes (mq_Reason req))) (FieldError ''reason'' ''Reason is limited to 500 characters.'')) (\<lambda>_.
    andthen (known (optional_id srv ''report_id'' ''Not a valid report.'' (mq_ReportID req))) (\<lambda>reportID.
    andthen (known (optional_id srv ''story_id'' ''Not a valid Story.'' (mq_StoryID req))) (\<lambda>storyID.
    andthen (if mq_Login req = '''' then returns None
        else andthen (queries missing (UserByLogin (TrimPrefix (mq_Login req) ''@''))) (\<lambda>t. returns (Some (u_ID t)))) (\<lambda>targetID.
    andthen (apply_action out u req reportID storyID targetID) (\<lambda>_.
    andthen (executes internal (RecordModerationAction (ou_env out 1) (u_ID u) (mq_Kind req) reportID storyID targetID
        (mq_Reason req))) (\<lambda>_.
    returns (WriteJSON hs 201 (JSON (ActionDoc (mq_Kind req)))))))))))) "

end
