(* ===== verification/Erasure.thy ===== *)
theory Erasure
  imports Moderation
begin

text \<open>
  Account deletion: \<open>DeleteAccount\<close> of \<^verbatim>\<open>src/internal/store/identity.go\<close>.  One statement
  schedules the removal of the account's objects, a second deletes its row in \<open>users\<close>; everything
  else is what the foreign keys of \<^verbatim>\<open>src/infra/migrations\<close> make of that second statement
  (\<open>CASCADE\<close>, \<open>SET NULL\<close>, \<open>RESTRICT\<close>), which \<open>delete_user_row\<close> writes out
  table by table.
\<close>

section \<open>The cascade\<close>

definition list_gone :: "db \<Rightarrow> uuid \<Rightarrow> uuid \<Rightarrow> bool" where
  "list_gone d u l \<longleftrightarrow> list_ex (\<lambda>al. al_id al = l \<and> al_owner_user_id al = u) (audience_lists d)"

definition story_gone_with :: "db \<Rightarrow> uuid \<Rightarrow> uuid \<Rightarrow> bool" where
  "story_gone_with d u s \<longleftrightarrow> list_ex (\<lambda>si. si_ID si = s \<and> si_AuthorUserID si = u) (stories d)"

definition upload_gone :: "db \<Rightarrow> uuid \<Rightarrow> uuid \<Rightarrow> bool" where
  "upload_gone d u i \<longleftrightarrow> list_ex (\<lambda>ui. ui_ID ui = i \<and> ui_UserID ui = u) (uploads d)"

definition job_gone :: "db \<Rightarrow> uuid \<Rightarrow> media_job_row \<Rightarrow> bool" where
  "job_gone d u mj \<longleftrightarrow> mj_UserID mj = u \<or> upload_gone d u (mj_UploadIntentID mj)"

definition reply_gone :: "db \<Rightarrow> uuid \<Rightarrow> reply_row \<Rightarrow> bool" where
  "reply_gone d u r \<longleftrightarrow> rp_Sender r = u \<or> rp_Recipient r = u \<or> story_gone_with d u (rp_StoryID r)"

definition session_gone :: "db \<Rightarrow> uuid \<Rightarrow> uuid \<Rightarrow> bool" where
  "session_gone d u s \<longleftrightarrow> list_ex (\<lambda>se. se_ID se = s \<and> se_UserID se = u) (sessions d)"

definition event_gone :: "db \<Rightarrow> uuid \<Rightarrow> inbox_row \<Rightarrow> bool" where
  "event_gone d u ev \<longleftrightarrow> e_UserID ev = u \<or> e_Actor ev = u
    \<or> (case e_StoryID ev of None \<Rightarrow> False | Some s \<Rightarrow> story_gone_with d u s)
    \<or> (case e_ReplyID ev of None \<Rightarrow> False | Some r \<Rightarrow> list_ex (\<lambda>rp. rp_ID rp = r \<and> reply_gone d u rp) (replies d))"

text \<open>\<open>ON DELETE SET NULL\<close>\<close>

definition null_if :: "('a \<Rightarrow> bool) \<Rightarrow> 'a option \<Rightarrow> 'a option" where
  "null_if P x = (case x of None \<Rightarrow> None | Some v \<Rightarrow> (if P v then None else Some v))"

definition delete_user_row :: "uuid \<Rightarrow> db \<Rightarrow> unit result" where
  "delete_user_row u d =
    (if \<not> user_exists d u then Inr ((), d)
     else if list_ex (\<lambda>ma. ma_Moderator ma = u) (moderation_actions d) then Inl (ErrDB Not_null_violation)
     else if list_ex (\<lambda>si. si_AuthorUserID si \<noteq> u \<and> list_ex (\<lambda>mj. mj_ID mj = si_MediaJobID si \<and> job_gone d u mj) (media_jobs d))
       (stories d) then Inl (ErrDB Foreign_key_violation)
     else if list_ex (\<lambda>si. si_AuthorUserID si \<noteq> u \<and> si_Visibility si = CustomList
         \<and> (case si_AudienceListID si of None \<Rightarrow> False | Some l \<Rightarrow> list_gone d u l)) (stories d)
     then Inl (ErrDB Check_violation)
     else Inr ((), d\<lparr>
       users := map (\<lambda>us. us\<lparr>us_default_audience_list_id := null_if (list_gone d u) (us_default_audience_list_id us)\<rparr>)
         (delete_where (\<lambda>us. us_id us = u) (users d)),
       sessions := delete_where (\<lambda>se. se_UserID se = u) (sessions d),
       pending_logins := map (\<lambda>p. p\<lparr>pl_issued_session_id := null_if (session_gone d u) (pl_issued_session_id p)\<rparr>)
         (delete_where (\<lambda>p. pl_approved_user_id p = Some u) (pending_logins d)),
       device_logins := map (\<lambda>p. p\<lparr>dl_user_id := null_if (\<lambda>v. v = u) (dl_user_id p)\<rparr>) (device_logins d),
       relationships := delete_where (\<lambda>r. r_FollowerUserID r = u) (relationships d),
       mutes := delete_where (\<lambda>p. fst p = u) (mutes d),
       blocks := delete_where (\<lambda>p. fst p = u) (blocks d),
       hide_rules := delete_where (\<lambda>p. fst p = u) (hide_rules d),
       audience_lists := delete_where (\<lambda>al. al_owner_user_id al = u) (audience_lists d),
       audience_members := delete_where (\<lambda>m. list_gone d u (fst m)) (audience_members d),
       uploads := delete_where (\<lambda>ui. ui_UserID ui = u) (uploads d),
       media_jobs := delete_where (job_gone d u) (media_jobs d),
       stories := map (\<lambda>si. si\<lparr>si_AudienceListID := null_if (list_gone d u) (si_AudienceListID si),
           si_removed_by_user_id := null_if (\<lambda>v. v = u) (si_removed_by_user_id si)\<rparr>)
         (delete_where (\<lambda>si. si_AuthorUserID si = u) (stories d)),
       variants := delete_where (\<lambda>v. story_gone_with d u (mv_StoryID v)) (variants d),
       views := delete_where (\<lambda>v. sv_Viewer v = u \<or> story_gone_with d u (sv_StoryID v)) (views d),
       reactions := delete_where (\<lambda>r. rx_UserID r = u \<or> story_gone_with d u (rx_StoryID r)) (reactions d),
       replies := delete_where (reply_gone d u) (replies d),
       inbox := delete_where (event_gone d u) (inbox d),
       reports := map (\<lambda>r. r\<lparr>rep_StoryID := null_if (story_gone_with d u) (rep_StoryID r),
           rep_SubjectUserID := null_if (\<lambda>v. v = u) (rep_SubjectUserID r),
           rep_ResolvedBy := null_if (\<lambda>v. v = u) (rep_ResolvedBy r)\<rparr>)
         (delete_where (\<lambda>r. rep_Reporter r = u) (reports d)),
       moderation_actions := map (\<lambda>ma. ma\<lparr>ma_StoryID := null_if (story_gone_with d u) (ma_StoryID ma),
           ma_Target := null_if (\<lambda>v. v = u) (ma_Target ma),
           ma_ReportID := null_if (\<lambda>i. list_ex (\<lambda>r. rep_ID r = i \<and> rep_Reporter r = u) (reports d)) (ma_ReportID ma)\<rparr>)
         (moderation_actions d),
       idempotency_keys := delete_where (\<lambda>k. ik_UserID k = u) (idempotency_keys d)\<rparr>))"

definition account_keys :: "uuid \<Rightarrow> db \<Rightarrow> string list" where
  "account_keys u d =
    [mv_ObjectKey v. v \<leftarrow> variants d, si \<leftarrow> filter (\<lambda>si. si_ID si = mv_StoryID v \<and> si_AuthorUserID si = u) (stories d)]
    @ map ui_ObjectKey (filter (\<lambda>ui. ui_UserID ui = u) (uploads d))"

definition DeleteAccount :: "env \<Rightarrow> uuid \<Rightarrow> uuid \<Rightarrow> db \<Rightarrow> unit result" where
  "DeleteAccount e nid u d =
    (let d1 = d\<lparr>cleanup_jobs := cleanup_jobs d @
        [new_cleanup nid ''delete_objects'' (ObjectKeys (account_keys u d) None) (Now e)]\<rparr> in
     delete_user_row u d1)"

section \<open>Properties\<close>

lemma gone_cleanup [simp]:
  "list_gone (d\<lparr>cleanup_jobs := x\<rparr>) = list_gone d"
  "story_gone_with (d\<lparr>cleanup_jobs := x\<rparr>) = story_gone_with d"
  "upload_gone (d\<lparr>cleanup_jobs := x\<rparr>) = upload_gone d"
  "job_gone (d\<lparr>cleanup_jobs := x\<rparr>) = job_gone d"
  "reply_gone (d\<lparr>cleanup_jobs := x\<rparr>) = reply_gone d"
  "session_gone (d\<lparr>cleanup_jobs := x\<rparr>) = session_gone d"
  "event_gone (d\<lparr>cleanup_jobs := x\<rparr>) = event_gone d"
  "user_exists (d\<lparr>cleanup_jobs := x\<rparr>) = user_exists d"
  by (auto simp: fun_eq_iff list_gone_def story_gone_with_def upload_gone_def job_gone_def reply_gone_def session_gone_def
      event_gone_def user_exists_def split: option.splits)

lemma DeleteAccount_Inr:
  assumes "DeleteAccount e nid u d = Inr ((), d')" and "user_exists d u"
  shows "users d' = map (\<lambda>us. us\<lparr>us_default_audience_list_id := null_if (list_gone d u) (us_default_audience_list_id us)\<rparr>)
      (delete_where (\<lambda>us. us_id us = u) (users d))
    \<and> sessions d' = delete_where (\<lambda>se. se_UserID se = u) (sessions d)
    \<and> relationships d' = delete_where (\<lambda>r. r_FollowerUserID r = u) (relationships d)
    \<and> blocks d' = delete_where (\<lambda>p. fst p = u) (blocks d) \<and> hide_rules d' = delete_where (\<lambda>p. fst p = u) (hide_rules d)
    \<and> audience_lists d' = delete_where (\<lambda>al. al_owner_user_id al = u) (audience_lists d)
    \<and> audience_members d' = delete_where (\<lambda>m. list_gone d u (fst m)) (audience_members d)
    \<and> stories d' = map (\<lambda>si. si\<lparr>si_AudienceListID := null_if (list_gone d u) (si_AudienceListID si),
           si_removed_by_user_id := null_if (\<lambda>v. v = u) (si_removed_by_user_id si)\<rparr>)
         (delete_where (\<lambda>si. si_AuthorUserID si = u) (stories d))
    \<and> replies d' = delete_where (reply_gone d u) (replies d)
    \<and> identities d' = identities d
    \<and> cleanup_jobs d' = cleanup_jobs d @ [new_cleanup nid ''delete_objects'' (ObjectKeys (account_keys u d) None) (Now e)]
    \<and> \<not> list_ex (\<lambda>si. si_AuthorUserID si \<noteq> u \<and> si_Visibility si = CustomList
         \<and> (case si_AudienceListID si of None \<Rightarrow> False | Some l \<Rightarrow> list_gone d u l)) (stories d)"
  using assms
  by (auto simp: DeleteAccount_def delete_user_row_def Let_def split: if_splits cong: option.case_cong)

lemma delete_user_row_moderator:
  "user_exists d u \<Longrightarrow> ma \<in> set (moderation_actions d) \<Longrightarrow> ma_Moderator ma = u \<Longrightarrow>
    delete_user_row u d = Inl (ErrDB Not_null_violation)"
  by (auto simp: delete_user_row_def list_ex_iff)

text \<open>What the cascade leaves of another account's Stories decides visibility as before.\<close>

lemma list_gone_kept:
  "\<not> list_gone d u l \<Longrightarrow> audience_lists d' = delete_where (\<lambda>al. al_owner_user_id al = u) (audience_lists d) \<Longrightarrow>
    audience_members d' = delete_where (\<lambda>m. list_gone d u (fst m)) (audience_members d) \<Longrightarrow> a \<noteq> u \<Longrightarrow>
    list_member d' a l g = list_member d a l g"
  by (auto simp: list_member_def set_delete_where)

lemma active_follow_kept:
  "relationships d' = delete_where (\<lambda>r. r_FollowerUserID r = u) (relationships d) \<Longrightarrow> a \<noteq> u \<Longrightarrow>
    active_follow d' a g = active_follow d a g"
  by (auto simp: active_follow_def list_ex_delete_where intro!: list.pred_cong arg_cong[where f = "\<lambda>P. list_ex P (relationships d)"])

lemma may_see_kept:
  assumes del: "DeleteAccount e nid u d = Inr ((), d')" and ex: "user_exists d u"
    and si: "si \<in> set (stories d)" "si_AuthorUserID si \<noteq> u" and v: "viewer \<noteq> u"
    and r: "si' = si\<lparr>si_AudienceListID := null_if (list_gone d u) (si_AudienceListID si),
           si_removed_by_user_id := null_if (\<lambda>v. v = u) (si_removed_by_user_id si)\<rparr>"
    and au: "au' = au\<lparr>us_default_audience_list_id := x\<rparr>"
  shows "visibleToViewer d' viewer gh now si' au' = visibleToViewer d viewer gh now si au"
proof -
  note D = DeleteAccount_Inr[OF del ex]
  from D si have nl: "si_Visibility si = CustomList \<Longrightarrow> si_AudienceListID si = Some l \<Longrightarrow> \<not> list_gone d u l" for l
    by (force simp: list_ex_iff)
  have "audience_admits d' si' ga viewer gh (si_Visibility si) = audience_admits d si ga viewer gh (si_Visibility si)" for ga
  proof (cases "si_Visibility si")
    case CustomList
    then show ?thesis using nl D si list_gone_kept[of d u _ d' "si_AuthorUserID si" gh]
      by (auto simp: r null_if_def split: option.splits)
  qed (use D si v in \<open>simp_all add: r active_follow_kept[of d' u d]\<close>)
  moreover have "blocked_pair d' viewer gh (si_AuthorUserID si) g = blocked_pair d viewer gh (si_AuthorUserID si) g" for g
    using D si v by (auto simp: blocked_pair_def set_delete_where)
  moreover have "((si_AuthorUserID si, gh) \<in> set (hide_rules d')) = ((si_AuthorUserID si, gh) \<in> set (hide_rules d))"
    using D si by (auto simp: set_delete_where)
  ultimately show ?thesis by (simp add: visibleToViewer_eq_may_see may_see_def r au Live_Some)
qed

lemma isl_StoryForViewer:
  "isl (StoryForViewer e w g sid d) \<longleftrightarrow>
    (\<forall>si au gi. (si, au, gi) \<in> set (story_join d) \<longrightarrow> si_ID si = sid \<longrightarrow> \<not> visibleToViewer d w g (Now e) si au)"
  using StoryForViewer_Inl[of e w g sid d] by (cases "StoryForViewer e w g sid d") auto

lemma stories_of_others_kept:
  assumes del: "DeleteAccount e nid u d = Inr ((), d')" and ex: "user_exists d u"
    and w: "w \<noteq> u" and other: "\<forall>si\<in>set (stories d). si_ID si = sid \<longrightarrow> si_AuthorUserID si \<noteq> u"
  shows "isl (StoryForViewer e' w g sid d') = isl (StoryForViewer e' w g sid d)"
proof -
  note D = DeleteAccount_Inr[OF del ex]
  let ?fs = "\<lambda>si. si\<lparr>si_AudienceListID := null_if (list_gone d u) (si_AudienceListID si),
      si_removed_by_user_id := null_if (\<lambda>v. v = u) (si_removed_by_user_id si)\<rparr>"
  let ?fu = "\<lambda>us. us\<lparr>us_default_audience_list_id := null_if (list_gone d u) (us_default_audience_list_id us)\<rparr>"
  have S: "set (stories d') = ?fs ` {si \<in> set (stories d). si_AuthorUserID si \<noteq> u}"
    and U: "set (users d') = ?fu ` {us \<in> set (users d). us_id us \<noteq> u}"
    and I: "identities d' = identities d" using D by (simp_all add: set_delete_where)
  have vis: "visibleToViewer d' w g (Now e') (?fs si) (?fu au) = visibleToViewer d w g (Now e') si au"
    if "si \<in> set (stories d)" "si_AuthorUserID si \<noteq> u" for si au
    by (rule may_see_kept[OF del ex that w refl refl])
  have up: "(?fs si, ?fu au, gi) \<in> set (story_join d')"
    if "(si, au, gi) \<in> set (story_join d)" "si_AuthorUserID si \<noteq> u" for si au gi
  proof -
    from that have "?fs si \<in> set (stories d')" "?fu au \<in> set (users d')" unfolding S U story_join_in
      by (auto simp only: image_iff mem_Collect_eq bex_simps)
    then show ?thesis using that by (simp add: story_join_in I)
  qed
  have down: "\<exists>si0 au0. (si0, au0, gi) \<in> set (story_join d) \<and> si_AuthorUserID si0 \<noteq> u \<and> si = ?fs si0 \<and> au = ?fu au0"
    if j: "(si, au, gi) \<in> set (story_join d')" for si au gi
  proof -
    from j S U obtain si0 au0 where "si0 \<in> set (stories d)" "si_AuthorUserID si0 \<noteq> u" "si = ?fs si0"
      "au0 \<in> set (users d)" "au = ?fu au0" unfolding story_join_in by auto
    then show ?thesis using j by (intro exI[of _ si0] exI[of _ au0]) (simp add: story_join_in I)
  qed
  show ?thesis unfolding isl_StoryForViewer
  proof (intro iffI allI impI)
    fix si au gi
    assume h: "\<forall>si au gi. (si, au, gi) \<in> set (story_join d') \<longrightarrow> si_ID si = sid \<longrightarrow> \<not> visibleToViewer d' w g (Now e') si au"
      and j: "(si, au, gi) \<in> set (story_join d)" and i: "si_ID si = sid"
    from other j i have n: "si_AuthorUserID si \<noteq> u" and m: "si \<in> set (stories d)" by (auto simp: story_join_in)
    have "si_ID (?fs si) = sid" using i by simp
    with h up[OF j n] have "\<not> visibleToViewer d' w g (Now e') (?fs si) (?fu au)" by blast
    then show "\<not> visibleToViewer d w g (Now e') si au" using vis[OF m n] by simp
  next
    fix si au gi
    assume h: "\<forall>si au gi. (si, au, gi) \<in> set (story_join d) \<longrightarrow> si_ID si = sid \<longrightarrow> \<not> visibleToViewer d w g (Now e') si au"
      and j: "(si, au, gi) \<in> set (story_join d')" and i: "si_ID si = sid"
    from down[OF j] obtain si0 au0 where o: "(si0, au0, gi) \<in> set (story_join d)" "si_AuthorUserID si0 \<noteq> u"
      and s: "si = ?fs si0" "au = ?fu au0" by blast
    have "si_ID si0 = sid" using i s by simp
    with h o have "\<not> visibleToViewer d w g (Now e') si0 au0" by blast
    moreover have "si0 \<in> set (stories d)" using o by (simp add: story_join_in)
    ultimately show "\<not> visibleToViewer d' w g (Now e') si au" unfolding s using vis o(2) by blast
  qed
qed


text \<open>An account that ever took a moderation action cannot be deleted: the column of the
  moderator is \<open>NOT NULL\<close>, its foreign key says \<open>ON DELETE SET NULL\<close>, so the deletion fails and
  changes nothing.\<close>

theorem moderator_cannot_be_deleted:
  assumes "user_exists d u" and "ma \<in> set (moderation_actions d)" and "ma_Moderator ma = u"
  shows "DeleteAccount e nid u d = Inl (ErrDB Not_null_violation)"
proof -
  let ?d = "d\<lparr>cleanup_jobs := cleanup_jobs d @ [new_cleanup nid ''delete_objects'' (ObjectKeys (account_keys u d) None) (Now e)]\<rparr>"
  have "user_exists ?d u" "ma \<in> set (moderation_actions ?d)" using assms by simp_all
  from delete_user_row_moderator[OF this assms(3)] show ?thesis by (simp add: DeleteAccount_def Let_def)
qed

section \<open>Witnesses\<close>


theorem moderator_cannot_be_deleted_witness:
  "DeleteAccount wit_env 4 3 (wit_login_db\<lparr>moderation_actions := [\<lparr>ma_Moderator = 3, ma_Kind = ''dismiss_report'',
      ma_ReportID = None, ma_StoryID = None, ma_Target = None, ma_Reason = ''r'', ma_CreatedAt = 5\<rparr>]\<rparr>)
    = Inl (ErrDB Not_null_violation)" (is "DeleteAccount _ _ _ ?d = _")
proof -
  have "user_exists ?d 3" by (simp add: user_exists_def wit_login_db_def wit_story_defs)
  from moderator_cannot_be_deleted[OF this, of _ wit_env 4] show ?thesis by simp
qed

end
