(* ===== verification/ApiSettings.thy ===== *)
theory ApiSettings
  imports ApiStories ApiSocial Erasure
begin

text \<open>
  Settings, audience lists, the account and the health checks:
  \<^verbatim>\<open>src/internal/api/handlers_settings.go\<close> and \<^verbatim>\<open>src/internal/api/handlers_health.go\<close>.
\<close>

section \<open>Settings\<close>

definition current_session :: "request \<Rightarrow> uuid option" where
  "current_session r = map_option se_ID (callerSession r)"

definition getSettings :: handler where
  "getSettings srv out hs r =
    andthen (known (mustCaller r)) (\<lambda>u.
    andthen (queries internal (ListAudienceLists (u_ID u))) (\<lambda>lists.
    andthen (reads (ListSimple hide_rules (u_ID u))) (\<lambda>hidden.
    andthen (reads (ListSimple mutes (u_ID u))) (\<lambda>muted.
    andthen (reads (ListSimple blocks (u_ID u))) (\<lambda>blocked.
    andthen (reads (ListSessions (ou_env out 0) (u_ID u))) (\<lambda>ss.
    ok_json hs (SettingsDoc \<lparr>sg_DefaultVisibility = visibility_text (u_DefaultVisibility u),
      sg_DefaultAudienceListID = (case u_DefaultAudienceListID u of None \<Rightarrow> '''' | Some l \<Rightarrow> sr_text srv l),
      sg_DefaultAllowReplies = u_DefaultAllowReplies u, sg_DefaultAllowReactions = u_DefaultAllowReactions u,
      sg_AudienceLists = map (presentAudienceList (sr_text srv)) lists, sg_HiddenFrom = presentIdentities hidden,
      sg_Muted = presentIdentities muted, sg_Blocked = presentIdentities blocked,
      sg_Sessions = map (\<lambda>s. presentSession (sr_text srv) s (current_session r)) ss,
      sg_ReplyRetentionDays = truncated_div (cf_ReplyRetention (sr_Cfg srv)) Day\<rparr>)))))))"

record settingsRequest =
  sq_Visibility :: "string option"
  sq_AudienceListID :: "string option"
  sq_AllowReplies :: "bool option"
  sq_AllowReactions :: "bool option"

definition patchSettings :: "(int \<Rightarrow> settingsRequest decoded) \<Rightarrow> handler" where
  "patchSettings body srv out hs r =
    andthen (known (mustCaller r)) (\<lambda>u.
    andthen (known (DecodeJSON body (4 * 1024))) (\<lambda>req.
    andthen (known (asked_visibility ''default_visibility'' (sq_Visibility req))) (\<lambda>vis.
    andthen (resolveAudienceList srv u vis (sq_AudienceListID req)) (\<lambda>listID.
    andthen (executes internal (UpdateSettings (u_ID u) vis listID (vis \<noteq> None \<and> vis \<noteq> Some CustomList)
        (sq_AllowReplies req) (sq_AllowReactions req))) (\<lambda>_.
    getSettings srv out hs r)))))"

section \<open>Audience lists\<close>

definition listAudienceLists :: handler where
  "listAudienceLists srv out hs r =
    andthen (known (mustCaller r)) (\<lambda>u.
    andthen (queries internal (ListAudienceLists (u_ID u))) (\<lambda>lists.
    ok_json hs (ListsDoc (map (presentAudienceList (sr_text srv)) lists))))"

definition list_conflict :: "store_error \<Rightarrow> api_Error" where
  "list_conflict e = (if e = ErrNotFound then Conflict ''You already have a list with that name.'' else internal e)"

definition createAudienceList :: "(int \<Rightarrow> (string \<times> string list) decoded) \<Rightarrow> handler" where
  "createAudienceList body srv out hs r =
    andthen (known (mustCaller r)) (\<lambda>u.
    andthen (known (DecodeJSON body (64 * 1024))) (\<lambda>(raw, logins).
    let name = TrimSpace raw in
    andthen (reject (name = '''' \<or> 60 < length name)
        (FieldError ''name'' ''Give the list a name of up to 60 characters.'')) (\<lambda>_.
    andthen (reject (500 < length logins) (FieldError ''logins'' ''A list holds at most 500 people.'')) (\<lambda>_.
    andthen (executes list_conflict (CreateAudienceList (ou_id out 0) (u_ID u) name logins)) (\<lambda>l.
    returns (WriteJSON hs 201 (JSON (ListDoc (presentAudienceList (sr_text srv) l)))))))))"

definition patchAudienceList :: "(int \<Rightarrow> (string option \<times> string list option) decoded) \<Rightarrow> handler" where
  "patchAudienceList body srv out hs r =
    andthen (known (mustCaller r)) (\<lambda>u.
    andthen (known (pathUUID srv r ''listId'')) (\<lambda>lid.
    andthen (known (DecodeJSON body (64 * 1024))) (\<lambda>(name, members).
    let logins = (case members of None \<Rightarrow> [] | Some ls \<Rightarrow> ls) in
    andthen (reject (500 < length logins) (FieldError ''logins'' ''A list holds at most 500 people.'')) (\<lambda>_.
    andthen (executes missing_or_internal (UpdateAudienceList (u_ID u) lid name logins (members \<noteq> None))) (\<lambda>l.
    ok_json hs (ListDoc (presentAudienceList (sr_text srv) l)))))))"

definition deleteAudienceList :: handler where
  "deleteAudienceList srv out hs r =
    andthen (known (mustCaller r)) (\<lambda>u.
    andthen (known (pathUUID srv r ''listId'')) (\<lambda>lid.
    andthen (executes internal (DeleteAudienceList (ou_env out 0) (u_ID u) lid)) (\<lambda>_.
    no_content hs)))"

definition deleteAccount :: handler where
  "deleteAccount srv out hs r =
    andthen (known (mustCaller r)) (\<lambda>u.
    andthen (executes internal (DeleteAccount (ou_env out 0) (ou_id out 0) (u_ID u))) (\<lambda>_.
    no_content hs))"

section \<open>Health\<close>

definition getLive :: "string \<Rightarrow> string \<Rightarrow> handler" where
  "getLive version commit srv out hs r =
    ok_json hs (HealthDoc \<lparr>hl_Status = ''ok'', hl_Version = version, hl_Commit = commit, hl_Checks = [],
      hl_MediaJobsBacklog = 0, hl_OldestMediaJobAgeSeconds = 0, hl_CleanupBacklog = 0\<rparr>)"

text \<open>\<open>ping\<close> and \<open>stored\<close> say whether the database and the object store answer; a server without
  an object store has \<open>stored = None\<close>.\<close>

definition getReady :: "string \<Rightarrow> string \<Rightarrow> bool \<Rightarrow> bool option \<Rightarrow> handler" where
  "getReady version commit ping stored srv out hs r d =
    (let configured = (case sr_Auth srv of None \<Rightarrow> False | Some s \<Rightarrow> GitHubOAuthConfigured (au_cfg s));
         down = (\<not> ping \<or> stored = Some False);
         ops = Ops (ou_env out 0) d
     in (Inr (WriteJSON hs (if down then 503 else 200) (JSON (HealthDoc
         \<lparr>hl_Status = (if down then ''down'' else if configured then ''ok'' else ''degraded''),
          hl_Version = version, hl_Commit = commit,
          hl_Checks = [(''database'', if ping then ''ok'' else ''unreachable'')]
            @ (case stored of None \<Rightarrow> [] | Some b \<Rightarrow> [(''object_storage'', if b then ''ok'' else ''unreachable'')])
            @ [(''github_oauth'', if configured then ''configured'' else ''not_configured'')]
            @ (if ping \<and> 0 < ops_MediaFailures ops then [(''media_failures'', ''present'')] else [])
            @ (if ping \<and> 0 < ops_CleanupFailures ops then [(''cleanup_failures'', ''present'')] else []),
          hl_MediaJobsBacklog = (if ping then ops_MediaBacklog ops else 0),
          hl_OldestMediaJobAgeSeconds = (if ping then truncated_div (ops_OldestMediaJobAge ops) Second else 0),
          hl_CleanupBacklog = (if ping then ops_CleanupBacklog ops else 0)\<rparr>))), d))"

end
