(* ===== verification/ApiAuth.thy ===== *)
theory ApiAuth
  imports Gate
begin

text \<open>
  Sign-in over HTTP: \<^verbatim>\<open>src/internal/api/handlers_auth.go\<close>.  A reference as \<^verbatim>\<open>net/url\<close>
  parses it is the record \<open>reference\<close>; query escaping and the body of a redirect follow the
  standard library.
\<close>

section \<open>Texts\<close>

record reference =
  rf_IsAbs :: bool
  rf_Host :: string
  rf_Path :: string
  rf_String :: string

definition hex_digit :: "nat \<Rightarrow> char" where
  "hex_digit n = ''0123456789ABCDEF'' ! n"

text \<open>\<^verbatim>\<open>url.QueryEscape\<close>\<close>

definition QueryEscape :: "string \<Rightarrow> string" where
  "QueryEscape s = concat (map (\<lambda>c.
     if unreserved c then [c] else if c = CHR '' '' then ''+''
     else [CHR ''%'', hex_digit (byte c div 16), hex_digit (byte c mod 16)]) s)"

text \<open>\<^verbatim>\<open>Values.Encode\<close>: the parameters in the order of their names.\<close>

definition AuthURL_text :: "AuthURL \<Rightarrow> string" where
  "AuthURL_text a = ax_base a @ ''?'' @ join ''&'' (map (\<lambda>p. QueryEscape (fst p) @ ''='' @ QueryEscape (snd p))
     (sort_key (\<lambda>p. map of_char (fst p) :: nat list) (ax_params a)))"

definition html_escape :: "string \<Rightarrow> string" where
  "html_escape s = concat (map (\<lambda>c.
     if c = CHR ''&'' then ''&amp;'' else if c = CHR ''<'' then ''&lt;'' else if c = CHR ''>'' then ''&gt;''
     else if c = CHR 0x22 then ''&#34;'' else if c = CHR 0x27 then ''&#39;'' else [c]) s)"

text \<open>\<^verbatim>\<open>http.Redirect\<close> to an absolute ASCII URL.\<close>

definition Redirect :: "headers \<Rightarrow> string \<Rightarrow> 'v response" where
  "Redirect hs dest =
    \<lparr>rsp_Status = 302,
     rsp_Headers = set_header ''Content-Type'' ''text/html; charset=utf-8'' (set_header ''Location'' dest hs),
     rsp_Body = Bytes (''<a href='' @ [CHR 0x22] @ html_escape dest @ [CHR 0x22] @ ''>Found</a>.'' @ [CHR 0x0A, CHR 0x0A])\<rparr>"

definition safeReturnTo :: "(string \<Rightarrow> reference option) \<Rightarrow> string \<Rightarrow> string" where
  "safeReturnTo parse raw =
    (if raw = '''' then ''''
     else if HasPrefix raw ''//'' \<or> Contains raw '':'' then ''''
     else (case parse raw of
         None \<Rightarrow> ''''
       | Some u \<Rightarrow> if rf_IsAbs u \<or> rf_Host u \<noteq> '''' then ''''
           else if \<not> HasPrefix (rf_Path u) ''/'' then '''' else rf_String u))"

fun login_chars :: "char \<Rightarrow> string \<Rightarrow> bool" where
  "login_chars before [] = True"
| "login_chars before (c # s) =
    (((97 \<le> byte c \<and> byte c \<le> 122) \<or> (65 \<le> byte c \<and> byte c \<le> 90) \<or> is_digit c
       \<or> (c = CHR ''-'' \<and> before \<noteq> CHR ''-'')) \<and> login_chars c s)"

text \<open>A leading hyphen is excluded first, so the character before the first never matters.\<close>

definition isGitHubLogin :: "string \<Rightarrow> bool" where
  "isGitHubLogin s \<longleftrightarrow> s \<noteq> '''' \<and> length s \<le> 39 \<and> hd s \<noteq> CHR ''-'' \<and> last s \<noteq> CHR ''-'' \<and> login_chars (CHR ''-'') s"

definition sampleLogins :: "Identity list \<Rightarrow> string" where
  "sampleLogins ids = join '','' (filter isGitHubLogin (map gi_Login ids))"

section \<open>The session cookie\<close>

definition sessionCookieName :: string where "sessionCookieName = ''ghs_session''"

record cookie =
  ck_Name :: string
  ck_Value :: string
  ck_Path :: string
  ck_HttpOnly :: bool
  ck_Secure :: bool
  ck_SameSite :: string
  ck_MaxAge :: int

definition served_over_https :: "ServiceConfig \<Rightarrow> bool" where
  "served_over_https c = (case cf_PublicURL c of None \<Rightarrow> False | Some u \<Rightarrow> url_Scheme u = ''https'')"

definition setSessionCookie :: "ServiceConfig \<Rightarrow> string \<Rightarrow> cookie" where
  "setSessionCookie c token =
    \<lparr>ck_Name = sessionCookieName, ck_Value = token, ck_Path = ''/'', ck_HttpOnly = True,
     ck_Secure = served_over_https c, ck_SameSite = ''Lax'', ck_MaxAge = truncated_div (cf_SessionTTL c) Second\<rparr>"

definition clearSessionCookie :: "ServiceConfig \<Rightarrow> cookie" where
  "clearSessionCookie c =
    \<lparr>ck_Name = sessionCookieName, ck_Value = '''', ck_Path = ''/'', ck_HttpOnly = True,
     ck_Secure = served_over_https c, ck_SameSite = ''Lax'', ck_MaxAge = - 1\<rparr>"

text \<open>\<^verbatim>\<open>Cookie.String\<close>; the value is a token, which needs no quoting.\<close>

definition cookie_text :: "cookie \<Rightarrow> string" where
  "cookie_text c = ck_Name c @ ''='' @ ck_Value c @ ''; Path='' @ ck_Path c
     @ (if 0 < ck_MaxAge c then ''; Max-Age='' @ decimal (ck_MaxAge c) else if ck_MaxAge c < 0 then ''; Max-Age=0'' else '''')
     @ (if ck_HttpOnly c then ''; HttpOnly'' else '''') @ (if ck_Secure c then ''; Secure'' else '''')
     @ ''; SameSite='' @ ck_SameSite c"

definition SetCookie :: "cookie \<Rightarrow> headers \<Rightarrow> headers" where
  "SetCookie c hs = add_header ''Set-Cookie'' (cookie_text c) hs"

section \<open>The web flow\<close>

text \<open>The rest of what is read from outside, for a step that follows \<open>n\<close> reads.\<close>

definition later :: "nat \<Rightarrow> outside \<Rightarrow> outside" where
  "later n out = out\<lparr>ou_env := \<lambda>k. ou_env out (k + n), ou_rand := \<lambda>k. ou_rand out (k + n), ou_id := \<lambda>k. ou_id out (k + n)\<rparr>"

definition unlogged :: "auth_error \<Rightarrow> api_Error" where
  "unlogged e = Internal (case e of AuthStore s \<Rightarrow> Some s | _ \<Rightarrow> None)"

definition sign_in_unconfigured :: api_Error where
  "sign_in_unconfigured = Err 503 CodeUnavailable ''GitHub sign-in is not configured on this service.''"

definition configured :: "server \<Rightarrow> service option" where
  "configured srv = (case sr_Auth srv of None \<Rightarrow> None | Some s \<Rightarrow> if GitHubOAuthConfigured (au_cfg s) then Some s else None)"

definition getAuthStart :: "(string \<Rightarrow> reference option) \<Rightarrow> handler" where
  "getAuthStart parse srv out hs r =
    (case configured srv of
       None \<Rightarrow> fails sign_in_unconfigured
     | Some s \<Rightarrow>
         (let raw = hr_Query r ''pending_login_id'' in
          andthen (known (if raw = '''' then Inr None
            else (case sr_parse srv raw of None \<Rightarrow> Inl (BadRequest ''Not a valid authorization request.'')
              | Some i \<Rightarrow> Inr (Some i)))) (\<lambda>pendingID.
          let purpose = (if pendingID \<noteq> None then PurposeCLIApproval
            else if hr_Query r ''purpose'' = ''import'' then PurposeImport else PurposeWebLogin) in
          andthen (maps unlogged (StartAuthorization s out purpose (safeReturnTo parse (hr_Query r ''return_to'')) pendingID)) (\<lambda>authURL.
          returns (Redirect hs (AuthURL_text authURL))))))"

definition import_result_url :: "string \<Rightarrow> ImportSummary \<Rightarrow> string" where
  "import_result_url base sm =
    base @ ''/account?import=done&added='' @ decimal_nat (is_Added sm) @ ''&already='' @ decimal_nat (is_AlreadyFollowing sm)
    @ ''&unfollowed='' @ decimal_nat (is_SkippedUnfollowed sm) @ ''&blocked='' @ decimal_nat (is_SkippedBlocked sm)
    @ (let names = sampleLogins (is_Sample sm) in if names = '''' then '''' else ''&sample='' @ QueryEscape names)"

text \<open>Where the browser goes next.\<close>

definition callback_destination :: "server \<Rightarrow> service \<Rightarrow> outside \<Rightarrow> Result \<Rightarrow> (api_Error, string) act" where
  "callback_destination srv s out res =
    (let base = public_url (sr_Cfg srv); flow = rt_Flow res; u = rt_User res in
     if fl_Purpose flow = PurposeImport then
       andthen (tries (Service_ImportFollows s out (u_ID u) (rt_UpstreamToken res) True False)) (\<lambda>summary.
       case summary of
         Inl e \<Rightarrow> returns (base @ ''/account?import=failed'')
       | Inr sm \<Rightarrow> andthen (executes internal (MarkOnboarded (ou_env out 1) (u_ID u))) (\<lambda>_.
           returns (import_result_url base sm)))
     else if fl_Purpose flow = PurposeCLIApproval \<and> fl_PendingLoginID flow \<noteq> None then
       returns (base @ ''/account/authorize?request='' @ sr_text srv (the (fl_PendingLoginID flow)))
     else if fl_ReturnTo flow \<noteq> '''' then returns (base @ fl_ReturnTo flow)
     else if rt_IsNewAccount res \<or> u_OnboardedAt u = None then returns (base @ ''/account/onboarding'')
     else returns (base @ ''/account''))"

definition getAuthCallback :: handler where
  "getAuthCallback srv out hs r =
    (case sr_Auth srv of
       None \<Rightarrow> fails NotFound
     | Some s \<Rightarrow>
         (let code = hr_Query r ''code''; state = hr_Query r ''state'' in
          andthen (reject (code = '''' \<or> state = '''') (BadRequest ''That sign-in link is incomplete.'')) (\<lambda>_.
          andthen (maps (\<lambda>_. BadRequest ''That sign-in link is no longer valid. Start again.'')
            (CompleteAuthorization s out code state)) (\<lambda>res.
          andthen (callback_destination srv s (later 2 out) res) (\<lambda>dest.
          andthen (maps unlogged (IssueSession s out 4 (u_ID (rt_User res)) ClientWeb ''Account page'' (hr_Header r ''User-Agent''))) (\<lambda>(token, _).
          returns (Redirect (SetCookie (setSessionCookie (sr_Cfg srv) token) hs) dest)))))))"

section \<open>Logins of clients\<close>

record loginRequest =
  lq_ClientKind :: string
  lq_ClientLabel :: string

definition asked_client :: "string \<Rightarrow> api_Error + ClientKind" where
  "asked_client s =
    (case find (\<lambda>k. client_kind_text k = s) [ClientCLI, ClientBrowserExtension] of
       None \<Rightarrow> Inl (FieldError ''client_kind'' ''Unknown client.'') | Some k \<Rightarrow> Inr k)"

definition short_label :: "string \<Rightarrow> string" where
  "short_label label = (if 120 < length (runes label) then concat (map encode_rune (take 120 (runes label))) else label)"

definition postPendingLogin :: "(int \<Rightarrow> loginRequest decoded) \<Rightarrow> handler" where
  "postPendingLogin body srv out hs r =
    (case sr_Auth srv of
       None \<Rightarrow> fails NotFound
     | Some s \<Rightarrow>
         andthen (known (DecodeJSON body (4 * 1024))) (\<lambda>req.
         andthen (known (asked_client (lq_ClientKind req))) (\<lambda>kind.
         andthen (maps unlogged (Service_CreatePendingLogin s out kind (short_label (lq_ClientLabel req)))) (\<lambda>res.
         returns (WriteJSON hs 201 (JSON (PendingDoc (sr_text srv (pn_ID res)) (pn_PollingSecret res) (pn_UserCode res)
           (pn_VerificationURL res) (pn_ExpiresAt res) (pn_IntervalSeconds res))))))))"

text \<open>The answer to a poll: its status, and the token and its account once it is approved.\<close>

definition poll_answer :: "PollResult \<Rightarrow> db \<Rightarrow> payload" where
  "poll_answer res d =
    (if pr_Status res = ''approved'' \<and> pr_Token res \<noteq> '''' then
       PollDoc (pr_Status res) (Some (pr_Token res))
         (case pr_UserID res of None \<Rightarrow> None
          | Some uid \<Rightarrow> (case UserByID uid d of Inl e \<Rightarrow> None | Inr u \<Rightarrow> Some (presentUser u)))
     else PollDoc (pr_Status res) None None)"

definition postPollLogin :: "(int \<Rightarrow> (string \<times> string) decoded) \<Rightarrow> handler" where
  "postPollLogin body srv out hs r =
    (case sr_Auth srv of
       None \<Rightarrow> fails NotFound
     | Some s \<Rightarrow>
         andthen (known (DecodeJSON body (4 * 1024))) (\<lambda>(pendingLoginID, secret).
         andthen (known (case sr_parse srv pendingLoginID of None \<Rightarrow> Inl NotFound | Some i \<Rightarrow> Inr i)) (\<lambda>i.
         andthen (reject (secret = '''') NotFound) (\<lambda>_.
         andthen (maps (\<lambda>_. NotFound) (Poll s out i secret)) (\<lambda>res.
         andthen (reads (poll_answer res)) (\<lambda>doc. ok_json hs doc))))))"

definition postDeviceLoginStart :: "(int \<Rightarrow> loginRequest decoded) \<Rightarrow> handler" where
  "postDeviceLoginStart body srv out hs r =
    (case configured srv of
       None \<Rightarrow> fails NotFound
     | Some s \<Rightarrow>
         andthen (known (DecodeJSON body (4 * 1024))) (\<lambda>req.
         andthen (known (asked_client (lq_ClientKind req))) (\<lambda>kind.
         andthen (maps unlogged (StartDeviceLogin s out kind (short_label (lq_ClientLabel req)))) (\<lambda>res.
         returns (WriteJSON hs 201 (JSON (DeviceDoc (sr_text srv (ds_ID res)) (ds_UserCode res)
           (ds_VerificationURI res) (ds_ExpiresAt res) (ds_IntervalSeconds res))))))))"

text \<open>Two rounds are enough: the second collects the token the first one approved.\<close>

definition postDeviceLoginPoll :: "(int \<Rightarrow> string decoded) \<Rightarrow> handler" where
  "postDeviceLoginPoll body srv out hs r =
    (case sr_Auth srv of
       None \<Rightarrow> fails NotFound
     | Some s \<Rightarrow>
         andthen (known (DecodeJSON body (4 * 1024))) (\<lambda>deviceLoginID.
         andthen (known (case sr_parse srv deviceLoginID of None \<Rightarrow> Inl NotFound | Some i \<Rightarrow> Inr i)) (\<lambda>i.
         andthen (maps (\<lambda>_. NotFound) (Service_PollDeviceLogin 2 s out i)) (\<lambda>res.
         andthen (reads (poll_answer res)) (\<lambda>doc. ok_json hs doc)))))"

section \<open>Sessions and the account\<close>

definition postLogout :: handler where
  "postLogout srv out hs r =
    andthen (known (mustCaller r)) (\<lambda>u.
    andthen (if callerSession r \<noteq> None \<and> sr_Auth srv \<noteq> None
        then maps unlogged (Logout out (u_ID u) (se_ID (the (callerSession r)))) else returns ()) (\<lambda>_.
    no_content (SetCookie (clearSessionCookie (sr_Cfg srv)) hs)))"

definition listAuthSessions :: handler where
  "listAuthSessions srv out hs r =
    andthen (known (mustCaller r)) (\<lambda>u.
    andthen (reads (ListSessions (ou_env out 0) (u_ID u))) (\<lambda>ss.
    ok_json hs (SessionsDoc (map (\<lambda>s. presentSession (sr_text srv) s (map_option se_ID (callerSession r))) ss))))"

definition revokeSession :: handler where
  "revokeSession srv out hs r =
    andthen (known (mustCaller r)) (\<lambda>u.
    andthen (known (pathUUID srv r ''sessionId'')) (\<lambda>sid.
    andthen (executes missing (RevokeSession (ou_env out 0) (u_ID u) sid)) (\<lambda>_.
    no_content hs)))"

definition getMe :: handler where
  "getMe srv out hs r =
    andthen (known (mustCaller r)) (\<lambda>u.
    andthen (reads (UnreadCount (u_ID u))) (\<lambda>unread.
    ok_json hs (MeDoc \<lparr>me_User = presentUser u, me_NeedsOnboarding = (u_OnboardedAt u = None),
      me_IsModerator = u_IsModerator u, me_UnreadInbox = unread, me_ServerTime = now_at out 0\<rparr>)))"

definition postImportFollows :: "(int \<Rightarrow> bool option decoded) \<Rightarrow> handler" where
  "postImportFollows body srv out hs r =
    andthen (known (mustCaller r)) (\<lambda>u.
    andthen (known (DecodeJSON body (4 * 1024))) (\<lambda>asked.
    let enabled = (case asked of None \<Rightarrow> True | Some b \<Rightarrow> b) in
    andthen (reject (configured srv = None) (Err 503 CodeUnavailable ''Importing is unavailable on this service.'')) (\<lambda>_.
    if \<not> enabled then
      andthen (executes internal (MarkOnboarded (ou_env out 0) (u_ID u))) (\<lambda>_.
      ok_json hs (ImportDoc False (presentUser u) False ''''))
    else ok_json hs (ImportDoc True (presentUser u) True
      (public_url (sr_Cfg srv) @ ''/v1/auth/github/start?purpose=import'')))))"

end
