(* ===== verification/Router.thy ===== *)
theory Router
  imports ApiMedia ApiUploads ApiModeration ApiSettings ApiAuth
begin

text \<open>
  The routes of \<^verbatim>\<open>src/internal/api/routes.go\<close> with the access and the limit of their group,
  and what a request passes on its way to a handler.  Matching a path is the rule of the router
  package: the segments of a pattern are literals or parameters, and a literal wins over a parameter.
  A panic and the time-out of a request are not modelled.
\<close>

section \<open>Routes\<close>

datatype segment = Lit string | Param string

datatype access = Anonymous | SignedIn | Moderators

text \<open>What a request brings to the handlers: its body as each decoder sees it, a fresh UUID, and how
  the dependencies of the health check answer.\<close>

record incoming =
  bo_newUUID :: string
  bo_version :: string
  bo_commit :: string
  bo_ping :: bool
  bo_stored :: "bool option"
  bo_reference :: "string \<Rightarrow> reference option"
  bo_login :: "int \<Rightarrow> loginRequest decoded"
  bo_poll :: "int \<Rightarrow> (string \<times> string) decoded"
  bo_device :: "int \<Rightarrow> string decoded"
  bo_status :: "int \<Rightarrow> (int list \<times> string list) decoded"
  bo_upload :: "int \<Rightarrow> uploadIntentRequest decoded"
  bo_finalize :: "int \<Rightarrow> (int \<times> string) decoded"
  bo_reply :: "int \<Rightarrow> string decoded"
  bo_reaction :: "int \<Rightarrow> string decoded"
  bo_report :: "int \<Rightarrow> reportRequest decoded"
  bo_update :: "int \<Rightarrow> storyUpdateRequest decoded"
  bo_inbox :: "int \<Rightarrow> (string list \<times> bool) decoded"
  bo_import :: "int \<Rightarrow> bool option decoded"
  bo_settings :: "int \<Rightarrow> settingsRequest decoded"
  bo_list :: "int \<Rightarrow> (string \<times> string list) decoded"
  bo_list_patch :: "int \<Rightarrow> (string option \<times> string list option) decoded"
  bo_action :: "int \<Rightarrow> actionRequest decoded"

record route =
  ro_Method :: string
  ro_Pattern :: "segment list"
  ro_Access :: access
  ro_Limit :: "(Rule \<times> string) option"
  ro_Handler :: "incoming \<Rightarrow> handler"

text \<open>A route of one group; all patterns start at \<^verbatim>\<open>/v1\<close>.\<close>

definition on ::
  "access \<Rightarrow> (Rule \<times> string) option \<Rightarrow> string \<Rightarrow> segment list \<Rightarrow> (incoming \<Rightarrow> handler) \<Rightarrow> route" where
  "on acc budget meth pat h = \<lparr>ro_Method = meth, ro_Pattern = Lit ''v1'' # pat, ro_Access = acc, ro_Limit = budget, ro_Handler = h\<rparr>"

definition anonymous_routes :: "route list" where
  "anonymous_routes = [
    on Anonymous None ''GET'' [Lit ''health'', Lit ''live''] (\<lambda>b. getLive (bo_version b) (bo_commit b)),
    on Anonymous None ''GET'' [Lit ''health'', Lit ''ready'']
      (\<lambda>b. getReady (bo_version b) (bo_commit b) (bo_ping b) (bo_stored b)),
    on Anonymous (Some (RuleLoginStart, ''login-start'')) ''GET'' [Lit ''auth'', Lit ''github'', Lit ''start'']
      (\<lambda>b. getAuthStart (bo_reference b)),
    on Anonymous (Some (RuleLoginStart, ''login-start'')) ''GET'' [Lit ''auth'', Lit ''github'', Lit ''callback'']
      (\<lambda>b. getAuthCallback),
    on Anonymous (Some (RuleLoginStart, ''login-start'')) ''POST'' [Lit ''auth'', Lit ''cli'', Lit ''pending'']
      (\<lambda>b. postPendingLogin (bo_login b)),
    on Anonymous (Some (RuleLoginStart, ''login-start'')) ''POST'' [Lit ''auth'', Lit ''device'', Lit ''start'']
      (\<lambda>b. postDeviceLoginStart (bo_login b)),
    on Anonymous (Some (RuleLoginPoll, ''login-poll'')) ''POST'' [Lit ''auth'', Lit ''cli'', Lit ''poll'']
      (\<lambda>b. postPollLogin (bo_poll b)),
    on Anonymous (Some (RuleLoginPoll, ''login-poll'')) ''POST'' [Lit ''auth'', Lit ''device'', Lit ''poll'']
      (\<lambda>b. postDeviceLoginPoll (bo_device b)),
    on Anonymous (Some (RuleRead, ''read-public'')) ''GET'' [Lit ''stories'', Param ''storyId''] (\<lambda>b. getStory),
    on Anonymous (Some (RuleMedia, ''media-public'')) ''GET'' [Lit ''media'', Param ''storyId'', Param ''variant''] (\<lambda>b. getMedia),
    on Anonymous (Some (RuleMedia, ''media-public'')) ''HEAD'' [Lit ''media'', Param ''storyId'', Param ''variant''] (\<lambda>b. getMedia),
    on Anonymous (Some (RuleMutation, ''view-public'')) ''POST'' [Lit ''stories'', Param ''storyId'', Lit ''view''] (\<lambda>b. postView)]"

definition reading :: "string \<Rightarrow> segment list \<Rightarrow> (incoming \<Rightarrow> handler) \<Rightarrow> route" where
  "reading = on SignedIn (Some (RuleRead, ''read''))"

definition mutation :: "string \<Rightarrow> segment list \<Rightarrow> (incoming \<Rightarrow> handler) \<Rightarrow> route" where
  "mutation = on SignedIn (Some (RuleMutation, ''mutation''))"

definition signed_in_routes :: "route list" where
  "signed_in_routes = [
    reading ''GET'' [Lit ''me''] (\<lambda>b. getMe),
    reading ''GET'' [Lit ''feed''] (\<lambda>b. getFeed),
    reading ''GET'' [Lit ''stories'', Lit ''mine''] (\<lambda>b. getOwnStories),
    reading ''GET'' [Lit ''users'', Lit ''lookup''] (\<lambda>b. getUserLookup),
    reading ''GET'' [Lit ''users'', Param ''login'', Lit ''stories''] (\<lambda>b. getAuthorStories),
    reading ''GET'' [Lit ''stories'', Param ''storyId'', Lit ''viewers''] (\<lambda>b. getViewers),
    reading ''GET'' [Lit ''inbox''] (\<lambda>b. getInbox),
    reading ''GET'' [Lit ''following''] (\<lambda>b. listFollowing),
    reading ''GET'' [Lit ''followers''] (\<lambda>b. listFollowers),
    reading ''GET'' [Lit ''mutes''] (\<lambda>b. listSimple mutes),
    reading ''GET'' [Lit ''blocks''] (\<lambda>b. listSimple blocks),
    reading ''GET'' [Lit ''hides''] (\<lambda>b. listSimple hide_rules),
    reading ''GET'' [Lit ''settings''] (\<lambda>b. getSettings),
    reading ''GET'' [Lit ''audience-lists''] (\<lambda>b. listAudienceLists),
    reading ''GET'' [Lit ''auth'', Lit ''sessions''] (\<lambda>b. listAuthSessions),
    on SignedIn (Some (RuleStatus, ''status'')) ''POST'' [Lit ''stories'', Lit ''status''] (\<lambda>b. postStatus (bo_status b)),
    on SignedIn (Some (RuleUpload, ''upload'')) ''POST'' [Lit ''uploads''] (\<lambda>b. postUpload (bo_newUUID b) (bo_upload b)),
    on SignedIn (Some (RuleUpload, ''upload'')) ''POST'' [Lit ''uploads'', Param ''uploadId'', Lit ''finalize'']
      (\<lambda>b. postFinalize (bo_finalize b)),
    on SignedIn (Some (RuleReply, ''reply'')) ''POST'' [Lit ''stories'', Param ''storyId'', Lit ''replies'']
      (\<lambda>b. postReply (bo_reply b)),
    on SignedIn (Some (RuleReaction, ''reaction'')) ''PUT'' [Lit ''stories'', Param ''storyId'', Lit ''reaction'']
      (\<lambda>b. putReaction (bo_reaction b)),
    on SignedIn (Some (RuleReaction, ''reaction'')) ''DELETE'' [Lit ''stories'', Param ''storyId'', Lit ''reaction'']
      (\<lambda>b. deleteReaction),
    on SignedIn (Some (RuleReport, ''report'')) ''POST'' [Lit ''reports''] (\<lambda>b. postReport (bo_report b)),
    mutation ''PATCH'' [Lit ''stories'', Param ''storyId''] (\<lambda>b. patchStory (bo_update b)),
    mutation ''DELETE'' [Lit ''stories'', Param ''storyId''] (\<lambda>b. deleteStory),
    mutation ''POST'' [Lit ''inbox'', Lit ''read''] (\<lambda>b. postInboxRead (bo_inbox b)),
    mutation ''POST'' [Lit ''onboarding'', Lit ''import-follows''] (\<lambda>b. postImportFollows (bo_import b)),
    mutation ''PUT'' [Lit ''following'', Param ''login''] (\<lambda>b. putFollow),
    mutation ''DELETE'' [Lit ''following'', Param ''login''] (\<lambda>b. deleteFollow),
    mutation ''PUT'' [Lit ''mutes'', Param ''login''] (\<lambda>b. toggleRelation ToggleMute True),
    mutation ''DELETE'' [Lit ''mutes'', Param ''login''] (\<lambda>b. toggleRelation ToggleMute False),
    mutation ''PUT'' [Lit ''blocks'', Param ''login''] (\<lambda>b. toggleRelation ToggleBlock True),
    mutation ''DELETE'' [Lit ''blocks'', Param ''login''] (\<lambda>b. toggleRelation ToggleBlock False),
    mutation ''PUT'' [Lit ''hides'', Param ''login''] (\<lambda>b. toggleRelation ToggleHide True),
    mutation ''DELETE'' [Lit ''hides'', Param ''login''] (\<lambda>b. toggleRelation ToggleHide False),
    mutation ''PATCH'' [Lit ''settings''] (\<lambda>b. patchSettings (bo_settings b)),
    mutation ''DELETE'' [Lit ''settings'', Lit ''account''] (\<lambda>b. deleteAccount),
    mutation ''POST'' [Lit ''audience-lists''] (\<lambda>b. createAudienceList (bo_list b)),
    mutation ''PATCH'' [Lit ''audience-lists'', Param ''listId''] (\<lambda>b. patchAudienceList (bo_list_patch b)),
    mutation ''DELETE'' [Lit ''audience-lists'', Param ''listId''] (\<lambda>b. deleteAudienceList),
    mutation ''POST'' [Lit ''auth'', Lit ''logout''] (\<lambda>b. postLogout),
    mutation ''DELETE'' [Lit ''auth'', Lit ''sessions'', Param ''sessionId''] (\<lambda>b. revokeSession)]"

definition moderator_routes :: "route list" where
  "moderator_routes = [
    on Moderators None ''GET'' [Lit ''moderation'', Lit ''reports''] (\<lambda>b. listReports),
    on Moderators None ''POST'' [Lit ''moderation'', Lit ''actions''] (\<lambda>b. postModerationAction (bo_action b))]"

definition routes :: "route list" where
  "routes = anonymous_routes @ signed_in_routes @ moderator_routes"

section \<open>Matching\<close>

definition path_segments :: "string \<Rightarrow> string list" where
  "path_segments path = split_on CHR ''/'' (TrimPrefix path ''/'')"

fun match_path :: "segment list \<Rightarrow> string list \<Rightarrow> (string \<times> string) list option" where
  "match_path [] [] = Some []"
| "match_path (Lit w # ps) (s # ss) = (if w = s then match_path ps ss else None)"
| "match_path (Param n # ps) (s # ss) =
    (if s = '''' then None else map_option (\<lambda>bs. (n, s) # bs) (match_path ps ss))"
| "match_path _ _ = None"

definition literal :: "segment list \<Rightarrow> bool" where
  "literal ps = list_all (\<lambda>p. case p of Lit _ \<Rightarrow> True | Param _ \<Rightarrow> False) ps"

definition serves :: "string list \<Rightarrow> route \<Rightarrow> bool" where
  "serves segs ro \<longleftrightarrow> match_path (ro_Pattern ro) segs \<noteq> None"

definition find_route :: "request \<Rightarrow> route option" where
  "find_route r =
    (let segs = path_segments (hr_Path r); P = (\<lambda>ro. ro_Method ro = hr_Method r \<and> serves segs ro) in
     case find (\<lambda>ro. P ro \<and> literal (ro_Pattern ro)) routes of
       Some ro \<Rightarrow> Some ro
     | None \<Rightarrow> find P routes)"

definition bind_params :: "route \<Rightarrow> request \<Rightarrow> request" where
  "bind_params ro r =
    r\<lparr>hr_Param := \<lambda>n. case match_path (ro_Pattern ro) (path_segments (hr_Path r)) of
        None \<Rightarrow> ''''
      | Some bs \<Rightarrow> (case map_of bs n of None \<Rightarrow> '''' | Some s \<Rightarrow> s)\<rparr>"

section \<open>Serving a request\<close>

definition admit :: "access \<Rightarrow> request \<Rightarrow> api_Error + unit" where
  "admit acc r =
    (case acc of
       Anonymous \<Rightarrow> Inr ()
     | SignedIn \<Rightarrow> requireAuth r
     | Moderators \<Rightarrow> (case requireAuth r of Inl e \<Rightarrow> Inl e | Inr _ \<Rightarrow> requireModerator r))"

definition no_route :: "request \<Rightarrow> api_Error" where
  "no_route r =
    (if list_ex (serves (path_segments (hr_Path r))) routes
     then Err 405 CodeBadRequest ''That method is not allowed here.'' else NotFound)"

definition dispatch ::
  "server \<Rightarrow> outside \<Rightarrow> incoming \<Rightarrow> headers \<Rightarrow> request \<Rightarrow> Limiter \<times> db \<Rightarrow> payload response \<times> Limiter \<times> db" where
  "dispatch srv out b hs r = (\<lambda>(l, d).
    case find_route r of
      None \<Rightarrow> (WriteError hs (no_route r), l, d)
    | Some ro \<Rightarrow>
        (case admit (ro_Access ro) r of
           Inl e \<Rightarrow> (WriteError hs e, l, d)
         | Inr _ \<Rightarrow>
             (case (case ro_Limit ro of None \<Rightarrow> (Inr (), l)
                    | Some (rule, scope) \<Rightarrow> limit srv (now_at out 2) rule scope r l) of
                (Inl e, l') \<Rightarrow> (WriteError hs e, l', d)
              | (Inr _, l') \<Rightarrow>
                  (case ServeHTTP hs (ro_Handler ro b srv (later 3 out) hs (bind_params ro r)) d of
                     (rsp, d') \<Rightarrow> (rsp, l', d')))))"

definition handle ::
  "server \<Rightarrow> outside \<Rightarrow> string \<Rightarrow> incoming \<Rightarrow> request \<Rightarrow> Limiter \<times> db \<Rightarrow> payload response \<times> Limiter \<times> db" where
  "handle srv out requestID b r = (\<lambda>(l, d).
    case cors srv r (securityHeaders (withRequestID requestID [])) of
      (hs, True) \<Rightarrow> (\<lparr>rsp_Status = 204, rsp_Headers = hs, rsp_Body = NoBody\<rparr>, l, d)
    | (hs, False) \<Rightarrow>
        (case authenticate srv out (r\<lparr>hr_User := None, hr_Session := None\<rparr>) d of
           (r, d) \<Rightarrow> dispatch srv out b hs r (l, d)))"

end
