(* ===== verification/Terminal.thy ===== *)
theory Terminal
  imports Utf8
begin

text \<open>
  Untrusted text on a terminal: \<^verbatim>\<open>src/internal/terminal/sanitize.go\<close>.  The scan of the
  code runs over a byte index; here it recurses over the rest of the string, so that
  \<open>skipEscape\<close>, \<open>skipC1\<close> and \<open>escapeSeqEnd\<close> answer how many bytes they consume.
  The lemmas characterise the output: it is the UTF-8 text of a list of \<open>clean\<close> runes, and
  such a text is a fixed point.
\<close>

section \<open>The scan\<close>

definition replacementChar :: nat where "replacementChar = 0xFFFD"

definition maxEscapeScan :: nat where "maxEscapeScan = 4096"

definition isBidiOverride :: "nat \<Rightarrow> bool" where
  "isBidiOverride r \<longleftrightarrow> (0x202a \<le> r \<and> r \<le> 0x202e) \<or> (0x2066 \<le> r \<and> r \<le> 0x2069)"

text \<open>The two loops of \<open>escapeSeqEnd\<close>, over the bytes up to the limit.\<close>

fun csi_end :: "string \<Rightarrow> nat" where
  "csi_end [] = 0"
| "csi_end (c # cs) = (if 0x40 \<le> byte c \<and> byte c \<le> 0x7e then 1 else Suc (csi_end cs))"

fun string_end :: "char \<Rightarrow> string \<Rightarrow> nat" where
  "string_end intro [] = 0"
| "string_end intro (c # cs) =
    (if c = CHR 0x07 \<and> intro = CHR '']'' then 1
     else if c = CHR 0x1b \<and> take 1 cs = [CHR 0x5c] then 2
     else if c = CHR 0x9c then 1
     else Suc (string_end intro cs))"

definition escapeSeqEnd :: "string \<Rightarrow> char \<Rightarrow> nat" where
  "escapeSeqEnd s introducer =
    (let body = take maxEscapeScan s in
     if introducer = CHR ''['' then csi_end body else string_end introducer body)"

text \<open>The argument starts with the escape character.\<close>

definition skipEscape :: "string \<Rightarrow> nat" where
  "skipEscape s =
    (case s of
       _ # c # cs \<Rightarrow> (if c \<in> set ''[]P_^X'' then 2 + escapeSeqEnd cs c else 2)
     | _ \<Rightarrow> 1)"

definition c1_introducer :: "char \<Rightarrow> char option" where
  "c1_introducer c =
    (if c = CHR 0x9b then Some (CHR ''['')
     else if c = CHR 0x9d then Some (CHR '']'')
     else if c = CHR 0x90 then Some (CHR ''P'')
     else if c = CHR 0x9f then Some (CHR ''_'')
     else if c = CHR 0x9e then Some (CHR ''^'')
     else if c = CHR 0x98 then Some (CHR ''X'')
     else None)"

definition skipC1 :: "string \<Rightarrow> nat" where
  "skipC1 s =
    (case s of
       [] \<Rightarrow> 1
     | c # cs \<Rightarrow> (case c1_introducer c of None \<Rightarrow> 1 | Some i \<Rightarrow> 1 + escapeSeqEnd cs i))"

lemma skip_pos [simp]: "0 < skipEscape s" "0 < skipC1 s"
  by (auto simp: skipEscape_def skipC1_def split: list.split option.split)

function sanitize :: "bool \<Rightarrow> string \<Rightarrow> string" where
  "sanitize nl [] = []"
| "sanitize nl (c # cs) =
    (let b = byte c in
     if b = 0x1b then encode_rune replacementChar @ sanitize nl (drop (skipEscape (c # cs)) (c # cs))
     else if b = 9 then CHR '' '' # sanitize nl cs
     else if b = 10 \<and> nl then CHR 0x0A # sanitize nl cs
     else if b < 0x20 \<or> b = 0x7f then encode_rune replacementChar @ sanitize nl cs
     else if 0x80 \<le> b \<and> b \<le> 0x9f then
       encode_rune replacementChar @ sanitize nl (drop (skipC1 (c # cs)) (c # cs))
     else if b < 0x80 then c # sanitize nl cs
     else
       (let (r, size) = decode_rune (c # cs) in
        if r = RuneError \<and> size \<le> 1 then encode_rune replacementChar @ sanitize nl cs
        else (if isBidiOverride r then encode_rune replacementChar else encode_rune r)
          @ sanitize nl (drop size (c # cs))))"
  by pat_completeness auto
termination
proof (relation "measure (\<lambda>(nl, s). length s)", goal_cases)
  case (2 nl c cs b)
  then show ?case using skip_pos(1)[of "c # cs"] by (simp add: diff_less del: skip_pos)
next
  case (6 nl c cs b)
  then show ?case using skip_pos(2)[of "c # cs"] by (simp add: diff_less del: skip_pos)
next
  case (9 nl c cs b x r size)
  then have "1 \<le> size" using decode_width[of c cs r size] by simp
  then show ?case by simp
qed simp_all

definition Sanitize :: "string \<Rightarrow> string" where
  "Sanitize s = sanitize False s"

definition SanitizeMultiline :: "string \<Rightarrow> string" where
  "SanitizeMultiline s = sanitize True s"

text \<open>\<open>width\<close> and \<open>truncate\<close> are \<^verbatim>\<open>ansi.StringWidth\<close> and \<^verbatim>\<open>ansi.Truncate\<close> of
  the library the code uses.\<close>

definition SanitizeTruncate ::
  "(string \<Rightarrow> int) \<Rightarrow> (string \<Rightarrow> int \<Rightarrow> string \<Rightarrow> string) \<Rightarrow> string \<Rightarrow> int \<Rightarrow> string" where
  "SanitizeTruncate width trunc s maxWidth =
    (let clean = Sanitize s in
     if maxWidth \<le> 0 then []
     else if width clean \<le> maxWidth then clean
     else trunc clean maxWidth (encode_rune 0x2026))"

section \<open>What comes out\<close>

definition clean :: "bool \<Rightarrow> nat \<Rightarrow> bool" where
  "clean nl r \<longleftrightarrow> valid_rune r \<and> \<not> isBidiOverride r \<and> r \<noteq> 0x7f \<and> (0x20 \<le> r \<or> nl \<and> r = 10)"

lemma clean_replacement: "clean nl replacementChar"
  by (simp add: clean_def replacementChar_def valid_rune_def isBidiOverride_def)

lemma clean_valid: "clean nl r \<Longrightarrow> valid_rune r"
  by (simp add: clean_def)

lemma encode_char: "byte c < 0x80 \<Longrightarrow> encode_rune (byte c) = [c]"
  by (simp add: encode_1)

lemma decode_high:
  assumes "decode_rune (c # cs) = (r, w)" and "0x80 \<le> byte c" and "\<not> (r = RuneError \<and> w \<le> 1)"
  shows "0x80 \<le> r"
proof -
  have three: "0x80 \<le> (b - 0xE0) * 4096 + (byte c1 - 0x80) * 64 + (byte c2 - 0x80)" if "second b c1" "0xE0 \<le> b" for b c1 c2
  proof (cases "b = 0xE0")
    case True
    then show ?thesis using that by (auto simp: second_def)
  next
    case False
    then show ?thesis using that by auto
  qed
  have four: "0x80 \<le> (b - 0xF0) * 262144 + (byte c1 - 0x80) * 4096 + (byte c2 - 0x80) * 64 + (byte c3 - 0x80)"
    if "second b c1" "0xF0 \<le> b" for b c1 c2 c3
  proof (cases "b = 0xF0")
    case True
    then show ?thesis using that by (auto simp: second_def)
  next
    case False
    then show ?thesis using that by auto
  qed
  have two: "0x80 \<le> (b - 0xC0) * 64 + (byte c1 - 0x80)" if "0xC2 \<le> b" for b c1 using that by auto
  have "decode_rune (c # cs) = (r, w) \<Longrightarrow> 0x80 \<le> r"
    using assms(2,3) by (auto simp: decode_rune.simps Let_def two three four RuneError_def split: if_splits list.splits)
  with assms(1) show ?thesis by simp
qed

definition clean_text :: "bool \<Rightarrow> string \<Rightarrow> bool" where
  "clean_text nl s \<longleftrightarrow> (\<exists>rs. s = utf8 rs \<and> list_all (clean nl) rs)"

lemma clean_text_Nil: "clean_text nl []"
  unfolding clean_text_def by (rule exI[of _ "[]"]) simp

lemma clean_text_rune: "clean nl r \<Longrightarrow> clean_text nl s \<Longrightarrow> clean_text nl (encode_rune r @ s)"
  unfolding clean_text_def
proof (erule exE, elim conjE)
  fix rs assume "clean nl r" "s = utf8 rs" "list_all (clean nl) rs"
  then show "\<exists>rs. encode_rune r @ s = utf8 rs \<and> list_all (clean nl) rs"
    by (intro exI[of _ "r # rs"]) simp
qed

lemma clean_text_char:
  assumes "clean nl (byte c)" and "byte c < 0x80" and "clean_text nl s"
  shows "clean_text nl (c # s)"
  using clean_text_rune[OF assms(1,3)] encode_char[OF assms(2)] by simp

lemmas clean_text_intros = clean_text_Nil clean_text_rune clean_text_char clean_text_rune[OF clean_replacement]

lemma clean_ascii: "byte c < 0x7f \<Longrightarrow> 0x20 \<le> byte c \<or> nl \<and> byte c = 10 \<Longrightarrow> clean nl (byte c)"
  by (auto simp: clean_def valid_rune_def isBidiOverride_def)

lemma sanitize_clean: "clean_text nl (sanitize nl s)"
proof (induction nl s rule: sanitize.induct)
  case (1 nl)
  show ?case by (simp add: clean_text_Nil)
next
  case (2 nl c cs)
  note IH = 2
  let ?b = "byte c"
  consider "?b = 0x1b" | "?b = 9" | "?b = 10 \<and> nl" | "?b \<noteq> 0x1b" "?b \<noteq> 9" "\<not> (?b = 10 \<and> nl)" "?b < 0x20 \<or> ?b = 0x7f"
    | "0x80 \<le> ?b" "?b \<le> 0x9f" | "0x20 \<le> ?b" "?b < 0x7f" | "0x9f < ?b" by linarith
  then show ?case
  proof cases
    case 1
    with IH(1)[OF refl] show ?thesis by (auto intro: clean_text_intros)
  next
    case 2
    have sp: "clean nl (byte (CHR '' ''))" by (rule clean_ascii) auto
    show ?thesis using 2 IH(2)[OF refl] clean_text_char[OF sp, of "sanitize nl cs"] by simp
  next
    case 3
    have lf: "clean nl (byte (CHR 0x0A))" using 3 by (intro clean_ascii) auto
    show ?thesis using 3 IH(3)[OF refl] clean_text_char[OF lf, of "sanitize nl cs"] by simp
  next
    case 4
    with IH(4)[OF refl] show ?thesis by (auto intro: clean_text_intros)
  next
    case 5
    with IH(5)[OF refl] show ?thesis by (auto intro: clean_text_intros)
  next
    case 6
    have "clean nl ?b" using 6 by (intro clean_ascii) auto
    from clean_text_char[OF this] 6 IH(6)[OF refl] show ?thesis by simp
  next
    case 7
    obtain r w where d: "decode_rune (c # cs) = (r, w)" by (cases "decode_rune (c # cs)")
    show ?thesis
    proof (cases "r = RuneError \<and> w \<le> 1")
      case True
      with 7 d IH(7)[OF refl _ _ _ _ _ _ d[symmetric] refl] show ?thesis by (auto intro: clean_text_intros)
    next
      case False
      have "0x80 \<le> r" using decode_high[OF d _ False] 7 by simp
      moreover have "valid_rune r" using decode_valid[of "c # cs"] d by simp
      ultimately have "\<not> isBidiOverride r \<Longrightarrow> clean nl r" by (auto simp: clean_def)
      with 7 d False IH(8)[OF refl _ _ _ _ _ _ d[symmetric] refl] show ?thesis
        by (auto intro: clean_text_intros)
    qed
  qed
qed

lemma encode_lead:
  assumes "0x80 \<le> r" and "valid_rune r"
  obtains c cs where "encode_rune r = c # cs" "0x9f < byte c" "cs \<noteq> []"
proof -
  consider "r < 0x800" | "0x800 \<le> r" "r < 0x10000" | "0x10000 \<le> r" by linarith
  then show ?thesis
  proof cases
    case 1
    have "r div 64 < 32" using 1 by (simp add: less_mult_imp_div_less)
    with that[OF encode_2[OF assms(1) 1]] show ?thesis by simp
  next
    case 2
    have "r div 4096 < 16" using 2 by (simp add: less_mult_imp_div_less)
    with that[OF encode_3[OF 2 assms(2)]] show ?thesis by simp
  next
    case 3
    have "r div 262144 < 5" using assms(2) by (simp add: valid_rune_def less_mult_imp_div_less)
    with that[OF encode_4[OF 3 assms(2)]] show ?thesis by simp
  qed
qed

lemma char_of_newline: "char_of (10 :: nat) = CHR 0x0A"
proof -
  have "byte (CHR 0x0A) = 10" by simp
  then show ?thesis by (metis char_of_char)
qed

lemma sanitize_fixed: "list_all (clean nl) rs \<Longrightarrow> sanitize nl (utf8 rs) = utf8 rs"
proof (induction rs)
  case (Cons r rs)
  then have r: "clean nl r" and IH: "sanitize nl (utf8 rs) = utf8 rs" by simp_all
  show ?case
  proof (cases "r < 0x80")
    case True
    with r IH show ?thesis by (auto simp: encode_1 clean_def char_of_newline)
  next
    case False
    with r obtain c cs where e: "encode_rune r = c # cs" "0x9f < byte c" "cs \<noteq> []"
      by (metis encode_lead clean_valid not_less)
    have "decode_rune (c # cs @ utf8 rs) = (r, length (c # cs))"
      using decode_encode[OF clean_valid[OF r], of "utf8 rs"] unfolding e by simp
    moreover have "1 < length (c # cs)" using e(3) by (cases cs) auto
    ultimately show ?thesis using r e(2) IH by (simp add: e(1) clean_def Let_def)
  qed
qed simp

lemma encode_high_bytes: "0x80 \<le> r \<Longrightarrow> valid_rune r \<Longrightarrow> c \<in> set (encode_rune r) \<Longrightarrow> 0x80 \<le> byte c"
proof -
  assume r: "0x80 \<le> r" "valid_rune r" and c: "c \<in> set (encode_rune r)"
  consider "r < 0x800" | "0x800 \<le> r" "r < 0x10000" | "0x10000 \<le> r" by linarith
  then show ?thesis
  proof cases
    case 1
    have "r div 64 < 32" using 1 by (simp add: less_mult_imp_div_less)
    with c show ?thesis unfolding encode_2[OF r(1) 1] by auto
  next
    case 2
    have "r div 4096 < 16" using 2 by (simp add: less_mult_imp_div_less)
    with c show ?thesis unfolding encode_3[OF 2 r(2)] by auto
  next
    case 3
    have "r div 262144 < 5" using r(2) by (simp add: valid_rune_def less_mult_imp_div_less)
    with c show ?thesis unfolding encode_4[OF 3 r(2)] by auto
  qed
qed

lemma clean_bytes: "clean False r \<Longrightarrow> c \<in> set (encode_rune r) \<Longrightarrow> 0x20 \<le> byte c \<and> byte c \<noteq> 0x7f"
proof (cases "r < 0x80")
  case False
  assume "clean False r" "c \<in> set (encode_rune r)"
  with False encode_high_bytes[of r c] show ?thesis by (auto simp: clean_def)
qed (auto simp: clean_def encode_1)

lemma clean_text_fixed: "clean_text nl s \<Longrightarrow> sanitize nl s = s"
  by (auto simp: clean_text_def sanitize_fixed)

lemma clean_text_runes: "clean_text nl s \<Longrightarrow> list_all (clean nl) (runes s) \<and> utf8 (runes s) = s"
  unfolding clean_text_def
proof (elim exE conjE)
  fix rs assume s: "s = utf8 rs" and c: "list_all (clean nl) rs"
  then have "\<forall>r\<in>set rs. valid_rune r" by (auto simp: list_all_iff clean_def)
  from runes_utf8[OF this] s c show "list_all (clean nl) (runes s) \<and> utf8 (runes s) = s" by simp
qed

section \<open>Properties\<close>


text \<open>The control characters of the C1 range are printed unchanged when they are written in
  UTF-8: their first byte is 0xC2, so the case for raw C1 bytes does not see them.\<close>

theorem Sanitize_passes_C1:
  assumes "0x80 \<le> r" and "r < 0xA0"
  shows "Sanitize (encode_rune r) = encode_rune r"
proof -
  have "clean False r" using assms by (auto simp: clean_def valid_rune_def isBidiOverride_def)
  with sanitize_fixed[of False "[r]"] show ?thesis by (simp add: Sanitize_def)
qed

theorem Sanitize_passes_C1_witness:
  "Sanitize [CHR 0xC2, CHR 0x9B] = [CHR 0xC2, CHR 0x9B] \<and> skipC1 [CHR 0x9B, CHR ''A''] = 2"
proof -
  have "encode_rune 0x9B = [CHR 0xC2, CHR 0x9B]" by code_simp
  with Sanitize_passes_C1[of "0x9B"] show ?thesis
    by (simp add: skipC1_def c1_introducer_def escapeSeqEnd_def maxEscapeScan_def)
qed

end
