(* ===== verification/Media.thy ===== *)
theory Media
  imports Domain Utf8
begin

text \<open>
  Validation of uploaded media: \<^verbatim>\<open>src/internal/media\<close> (\<^verbatim>\<open>errors.go\<close>,
  \<^verbatim>\<open>limits.go\<close>, \<^verbatim>\<open>probe.go\<close>, \<^verbatim>\<open>process.go\<close>,
  \<^verbatim>\<open>process_image.go\<close>).  The bytes of a file are a list of characters.  An index that would
  be out of range is the value \<open>IndexOutOfRange\<close> of the scans, so that their safety is a
  theorem.  The image decoders and encoders and ffmpeg are parameters: the record \<open>codec\<close>
  collects the functions of the image libraries the code calls.
\<close>

section \<open>Errors and limits\<close>

record media_Error =
  Code :: string
  Message :: string
  Retryable :: bool
  Err :: "string option"

definition errUnsupportedMedia :: "string \<Rightarrow> media_Error" where
  "errUnsupportedMedia msg = \<lparr>Code = ''unsupported_media'', Message = msg, Retryable = False, Err = None\<rparr>"

definition errMIMEMismatch :: "string \<Rightarrow> media_Error" where
  "errMIMEMismatch msg = \<lparr>Code = ''mime_mismatch'', Message = msg, Retryable = False, Err = None\<rparr>"

definition errCorruptMedia :: "string \<Rightarrow> string option \<Rightarrow> media_Error" where
  "errCorruptMedia msg err = \<lparr>Code = ''corrupt_media'', Message = msg, Retryable = False, Err = err\<rparr>"

definition errTooLarge :: "string \<Rightarrow> media_Error" where
  "errTooLarge msg = \<lparr>Code = ''too_large'', Message = msg, Retryable = False, Err = None\<rparr>"

definition errTooLong :: "string \<Rightarrow> media_Error" where
  "errTooLong msg = \<lparr>Code = ''too_long'', Message = msg, Retryable = False, Err = None\<rparr>"

definition errTooManyPixels :: "string \<Rightarrow> media_Error" where
  "errTooManyPixels msg = \<lparr>Code = ''too_many_pixels'', Message = msg, Retryable = False, Err = None\<rparr>"

definition errProcessingTimeout :: "string \<Rightarrow> string option \<Rightarrow> media_Error" where
  "errProcessingTimeout msg err = \<lparr>Code = ''processing_timeout'', Message = msg, Retryable = True, Err = err\<rparr>"

definition errFFmpegUnavailable :: "string \<Rightarrow> media_Error" where
  "errFFmpegUnavailable msg = \<lparr>Code = ''ffmpeg_unavailable'', Message = msg, Retryable = True, Err = None\<rparr>"

definition errInternal :: "string \<Rightarrow> string option \<Rightarrow> media_Error" where
  "errInternal msg err = \<lparr>Code = ''internal'', Message = msg, Retryable = True, Err = err\<rparr>"

definition Error_text :: "media_Error \<Rightarrow> string" where
  "Error_text e =
    (case Err e of
       Some err \<Rightarrow> Code e @ '': '' @ Message e @ '': '' @ err
     | None \<Rightarrow> Code e @ '': '' @ Message e)"

lemmas media_error_defs = errUnsupportedMedia_def errMIMEMismatch_def errCorruptMedia_def errTooLarge_def
  errTooLong_def errTooManyPixels_def errProcessingTimeout_def errFFmpegUnavailable_def errInternal_def

record Limits =
  MaxOriginalBytes :: int
  MaxVideoSeconds :: int
  MaxImagePixels :: int
  MaxImageSide :: int
  MaxAnimationFrames :: int
  MaxOutputBytes :: int
  MaxProcessingTime :: duration
  CanonicalImageMaxSide :: int
  ThumbMaxSide :: int
  TerminalMaxSide :: int

definition zero_Limits :: Limits where
  "zero_Limits = \<lparr>MaxOriginalBytes = 0, MaxVideoSeconds = 0, MaxImagePixels = 0, MaxImageSide = 0,
    MaxAnimationFrames = 0, MaxOutputBytes = 0, MaxProcessingTime = 0, CanonicalImageMaxSide = 0,
    ThumbMaxSide = 0, TerminalMaxSide = 0\<rparr>"

definition DefaultLimits :: Limits where
  "DefaultLimits = \<lparr>MaxOriginalBytes = 100 * 1024 * 1024, MaxVideoSeconds = 60, MaxImagePixels = 50000000,
    MaxImageSide = 12000, MaxAnimationFrames = 512, MaxOutputBytes = 250 * 1024 * 1024,
    MaxProcessingTime = 3 * Minute, CanonicalImageMaxSide = 2048, ThumbMaxSide = 320, TerminalMaxSide = 1600\<rparr>"

section \<open>Sniffing\<close>

definition bytes_at :: "nat \<Rightarrow> string \<Rightarrow> string \<Rightarrow> bool" where
  "bytes_at i pat head \<longleftrightarrow> i + length pat \<le> length head \<and> take (length pat) (drop i head) = pat"

fun contains_bytes :: "string \<Rightarrow> string \<Rightarrow> bool" where
  "contains_bytes pat [] \<longleftrightarrow> pat = []"
| "contains_bytes pat (c # cs) \<longleftrightarrow> take (length pat) (c # cs) = pat \<or> contains_bytes pat cs"

definition mp4_brands :: "string list" where
  "mp4_brands = [''isom'', ''iso2'', ''mp41'', ''mp42'', ''mp71'', ''M4V'', ''M4A'', ''avc1'', ''3gp4'', ''3gp5'', ''dash'', ''MSNV'']"

definition Sniff :: "string \<Rightarrow> string option" where
  "Sniff head =
    (if bytes_at 0 [CHR 0xFF, CHR 0xD8, CHR 0xFF] head then Some ''image/jpeg''
     else if bytes_at 0 [CHR 0x89, CHR ''P'', CHR ''N'', CHR ''G'', CHR 0x0D, CHR 0x0A, CHR 0x1A, CHR 0x0A] head
     then Some ''image/png''
     else if bytes_at 0 ''GIF87a'' head \<or> bytes_at 0 ''GIF89a'' head then Some ''image/gif''
     else if bytes_at 0 ''RIFF'' head \<and> bytes_at 8 ''WEBP'' head then Some ''image/webp''
     else if bytes_at 0 [CHR 0x1A, CHR 0x45, CHR 0xDF, CHR 0xA3] head then
       (if contains_bytes ''webm'' head then Some ''video/webm'' else None)
     else if 12 \<le> length head \<and> bytes_at 4 ''ftyp'' head then
       (let brand = rev (dropWhile (\<lambda>c. c = CHR '' '') (rev (take 4 (drop 8 head)))) in
        if brand = ''qt'' then Some ''video/quicktime''
        else if brand \<in> set mp4_brands then Some ''video/mp4''
        else None)
     else None)"

datatype Kind = KindImage | KindVideo

definition acceptedMIMEs :: "(string \<times> Kind) list" where
  "acceptedMIMEs = [(''image/jpeg'', KindImage), (''image/png'', KindImage), (''image/webp'', KindImage),
    (''image/gif'', KindImage), (''video/mp4'', KindVideo), (''video/webm'', KindVideo), (''video/quicktime'', KindVideo)]"

lemma Sniff_accepted: "Sniff head = Some mime \<Longrightarrow> map_of acceptedMIMEs mime \<noteq> None"
  by (auto simp: Sniff_def acceptedMIMEs_def Let_def split: if_splits)

section \<open>Structural scans\<close>

datatype scan_error = Malformed string | IndexOutOfRange

definition byte_at :: "string \<Rightarrow> nat \<Rightarrow> scan_error + nat" where
  "byte_at data i = (if i < length data then Inr (byte (data ! i)) else Inl IndexOutOfRange)"

lemma byte_at_in [simp]: "i < length data \<Longrightarrow> byte_at data i = Inr (byte (data ! i))"
  by (simp add: byte_at_def)

function skipSubBlocks :: "string \<Rightarrow> nat \<Rightarrow> scan_error + nat" where
  "skipSubBlocks data i =
    (if length data \<le> i then Inl (Malformed ''truncated sub-block sequence'')
     else case byte_at data i of
       Inl e \<Rightarrow> Inl e
     | Inr n \<Rightarrow>
         (if n = 0 then Inr (i + 1)
          else if length data < i + 1 + n then Inl (Malformed ''truncated sub-block'')
          else skipSubBlocks data (i + 1 + n)))"
  by pat_completeness auto
termination by (relation "measure (\<lambda>(data, i). length data - i)") auto

declare skipSubBlocks.simps [simp del]

text \<open>\<open>3 * (1 << ((packed & 0x07) + 1))\<close> when the flag bit is set: the size of a colour table.\<close>

definition table_size :: "nat \<Rightarrow> nat" where
  "table_size packed = (if 0x80 \<le> packed mod 256 then 3 * 2 ^ (packed mod 8 + 1) else 0)"

definition skip_image :: "string \<Rightarrow> nat \<Rightarrow> scan_error + nat" where
  "skip_image data i =
    (if length data < i + 10 then Inl (Malformed ''truncated image descriptor'')
     else bind_res (byte_at data (i + 9)) (\<lambda>lpacked.
       (let j = i + 10 + table_size lpacked in
        if length data \<le> j then Inl (Malformed ''truncated image data'')
        else skipSubBlocks data (j + 1))))"

definition skip_extension :: "string \<Rightarrow> nat \<Rightarrow> scan_error + nat" where
  "skip_extension data i =
    (if length data < i + 2 then Inl (Malformed ''truncated extension'') else skipSubBlocks data (i + 2))"

lemma skipSubBlocks_less: "skipSubBlocks data i = Inr j \<Longrightarrow> i < j \<and> j \<le> length data"
proof (induction data i arbitrary: j rule: skipSubBlocks.induct)
  case (1 data i)
  then show ?case by (subst (asm) (2) skipSubBlocks.simps) (fastforce split: if_splits)
qed

lemma skip_image_less: "skip_image data i = Inr j \<Longrightarrow> i < j \<and> j \<le> length data"
  by (auto simp: skip_image_def Let_def split: if_splits dest!: skipSubBlocks_less)

lemma skip_extension_less: "skip_extension data i = Inr j \<Longrightarrow> i < j \<and> j \<le> length data"
  by (auto simp: skip_extension_def split: if_splits dest!: skipSubBlocks_less)

function gif_blocks :: "string \<Rightarrow> int \<Rightarrow> nat \<Rightarrow> int \<Rightarrow> scan_error + int" where
  "gif_blocks data frameLimit i frames =
    (if length data \<le> i then Inr frames
     else if frameLimit \<le> frames then Inr frames
     else case byte_at data i of
       Inl e \<Rightarrow> Inl e
     | Inr b \<Rightarrow>
         (if b = 0x21 then
            (case skip_extension data i of Inl e \<Rightarrow> Inl e | Inr j \<Rightarrow> gif_blocks data frameLimit j frames)
          else if b = 0x2C then
            (case skip_image data i of Inl e \<Rightarrow> Inl e | Inr j \<Rightarrow> gif_blocks data frameLimit j (frames + 1))
          else if b = 0x3B then Inr frames
          else Inl (Malformed ''unexpected GIF block'')))"
  by pat_completeness auto
termination
  by (relation "measure (\<lambda>(data, l, i, f). length data - i)")
    (auto dest!: skip_extension_less skip_image_less)

declare gif_blocks.simps [simp del]

definition countGIFFrames :: "string \<Rightarrow> int \<Rightarrow> scan_error + int" where
  "countGIFFrames data frameLimit =
    (if length data < 13 \<or> \<not> (bytes_at 0 ''GIF87a'' data \<or> bytes_at 0 ''GIF89a'' data)
     then Inl (Malformed ''not a GIF'')
     else if length data < 6 + 7 then Inl (Malformed ''truncated logical screen descriptor'')
     else bind_res (byte_at data 10) (\<lambda>packed.
       gif_blocks data frameLimit (13 + table_size packed) 0))"

definition le32 :: "string \<Rightarrow> nat \<Rightarrow> nat" where
  "le32 data i = byte (data ! i) + 256 * byte (data ! (i + 1)) + 65536 * byte (data ! (i + 2))
    + 16777216 * byte (data ! (i + 3))"

definition uint32_at :: "string \<Rightarrow> nat \<Rightarrow> scan_error + nat" where
  "uint32_at data i = (if i + 4 \<le> length data then Inr (le32 data i) else Inl IndexOutOfRange)"

function webp_chunks :: "string \<Rightarrow> nat \<Rightarrow> int \<Rightarrow> nat \<Rightarrow> int \<Rightarrow> scan_error + int" where
  "webp_chunks data endp frameLimit off frames =
    (if \<not> off + 8 \<le> endp then Inr frames
     else case uint32_at data (off + 4) of
       Inl e \<Rightarrow> Inl e
     | Inr len \<Rightarrow>
         (if length data < off + 8 + len then Inl (Malformed ''truncated WebP chunk'')
          else
            (let anmf = bytes_at off ''ANMF'' data;
                 frames' = (if anmf then frames + 1 else frames) in
             if anmf \<and> frameLimit \<le> frames' then Inr frames'
             else webp_chunks data endp frameLimit (off + 8 + len + len mod 2) frames')))"
  by pat_completeness auto
termination by (relation "measure (\<lambda>(data, endp, l, off, f). endp - off)") auto

declare webp_chunks.simps [simp del]

definition countWebPFrames :: "string \<Rightarrow> int \<Rightarrow> scan_error + int" where
  "countWebPFrames data frameLimit =
    (if length data < 12 \<or> \<not> bytes_at 0 ''RIFF'' data \<or> \<not> bytes_at 8 ''WEBP'' data
     then Inl (Malformed ''not a WebP'')
     else bind_res (uint32_at data 4) (\<lambda>riffSize.
       (let endp = (if length data < 8 + riffSize \<or> 8 + riffSize < 12 then length data else 8 + riffSize) in
        bind_res (webp_chunks data endp frameLimit 12 0) (\<lambda>frames.
          (if frames = 0 then Inr 1 else Inr frames)))))"

subsection \<open>The scans are safe\<close>

lemma skipSubBlocks_in_range: "skipSubBlocks data i \<noteq> Inl IndexOutOfRange"
proof (induction data i rule: skipSubBlocks.induct)
  case (1 data i)
  then show ?case by (subst skipSubBlocks.simps) auto
qed

lemma skip_in_range: "skip_image data i \<noteq> Inl IndexOutOfRange" "skip_extension data i \<noteq> Inl IndexOutOfRange"
  by (simp_all add: skip_image_def skip_extension_def Let_def skipSubBlocks_in_range)

definition scan_ok :: "int \<Rightarrow> int \<Rightarrow> scan_error + int \<Rightarrow> bool" where
  "scan_ok lo hi r = (case r of Inl e \<Rightarrow> e \<noteq> IndexOutOfRange | Inr n \<Rightarrow> lo \<le> n \<and> n \<le> hi)"

lemma gif_blocks_ok:
  assumes "0 \<le> frames" and "frames \<le> max 0 l"
  shows "scan_ok 0 (max 0 l) (gif_blocks data l i frames)"
  using assms
proof (induction data l i frames rule: gif_blocks.induct)
  case (1 data l i frames)
  show ?case
  proof (cases "length data \<le> i \<or> l \<le> frames")
    case True
    with 1 show ?thesis by (subst gif_blocks.simps) (auto simp: scan_ok_def)
  next
    case False
    then have b: "byte_at data i = Inr (byte (data ! i))" and le: "\<not> length data \<le> i" "\<not> l \<le> frames" by auto
    show ?thesis
      unfolding gif_blocks.simps[of data l i frames] b
      using le 1(1)[OF le b] 1(2)[OF le b] 1(3,4) skip_in_range[of data i]
      by (auto simp: scan_ok_def split: sum.splits)
  qed
qed

lemma webp_chunks_ok:
  assumes "endp \<le> length data" and "0 \<le> frames" and "frames < max 1 l"
  shows "scan_ok 0 (max 1 l) (webp_chunks data endp l off frames)"
  using assms
proof (induction data endp l off frames rule: webp_chunks.induct)
  case (1 data endp l off frames)
  show ?case
  proof (cases "off + 8 \<le> endp")
    case False
    with 1 show ?thesis by (subst webp_chunks.simps) (auto simp: scan_ok_def)
  next
    case True
    with 1(2) have "uint32_at data (off + 4) = Inr (le32 data (off + 4))" by (simp add: uint32_at_def)
    with True 1 show ?thesis by (subst webp_chunks.simps) (auto simp: scan_ok_def Let_def)
  qed
qed

lemma static_webp_ok:
  "scan_ok 0 (max 1 l) r \<Longrightarrow> scan_ok 1 (max 1 l) (bind_res r (\<lambda>n. if n = 0 then Inr 1 else Inr n))"
  by (cases r) (auto simp: scan_ok_def)

text \<open>The structural scans of an untrusted file never read outside it, whatever its bytes, and
  the number of frames they report is bounded by the limit they are given.\<close>

theorem frame_scans_safe:
  "(case countGIFFrames data l of Inl e \<Rightarrow> e \<noteq> IndexOutOfRange | Inr n \<Rightarrow> 0 \<le> n \<and> n \<le> max 0 l)
    \<and> (case countWebPFrames data l of Inl e \<Rightarrow> e \<noteq> IndexOutOfRange | Inr n \<Rightarrow> 1 \<le> n \<and> n \<le> max 1 l)"
proof
  have "scan_ok 0 (max 0 l) (countGIFFrames data l)"
    unfolding countGIFFrames_def using gif_blocks_ok[of 0 l data] by (auto simp: scan_ok_def)
  then show "case countGIFFrames data l of Inl e \<Rightarrow> e \<noteq> IndexOutOfRange | Inr n \<Rightarrow> 0 \<le> n \<and> n \<le> max 0 l"
    by (simp add: scan_ok_def)
  have "scan_ok 0 (max 1 l) (webp_chunks data endp l 12 0)" if "endp \<le> length data" for endp
    using webp_chunks_ok[OF that] by simp
  then have "scan_ok 1 (max 1 l) (countWebPFrames data l)"
    unfolding countWebPFrames_def
    by (auto simp: uint32_at_def Let_def intro!: static_webp_ok) (auto simp: scan_ok_def)
  then show "case countWebPFrames data l of Inl e \<Rightarrow> e \<noteq> IndexOutOfRange | Inr n \<Rightarrow> 1 \<le> n \<and> n \<le> max 1 l"
    by (simp add: scan_ok_def)
qed

subsection \<open>The GIF scan reads what a GIF writer writes\<close>

text \<open>The blocks of a GIF as the format writes them; a sub-block has 1 to 255 bytes.\<close>

datatype gif_block = Extension char "string list" | Frame string string char "string list"

definition write_sub_blocks :: "string list \<Rightarrow> string" where
  "write_sub_blocks bs = concat (map (\<lambda>b. char_of (length b) # b) bs) @ [CHR 0x00]"

fun write_block :: "gif_block \<Rightarrow> string" where
  "write_block (Extension label bs) = CHR 0x21 # label # write_sub_blocks bs"
| "write_block (Frame desc table lzw bs) = CHR 0x2C # desc @ table @ lzw # write_sub_blocks bs"

definition sub_blocks_ok :: "string list \<Rightarrow> bool" where
  "sub_blocks_ok bs \<longleftrightarrow> list_all (\<lambda>b. 0 < length b \<and> length b < 256) bs"

fun block_ok :: "gif_block \<Rightarrow> bool" where
  "block_ok (Extension label bs) \<longleftrightarrow> sub_blocks_ok bs"
| "block_ok (Frame desc table lzw bs) \<longleftrightarrow>
    length desc = 9 \<and> length table = table_size (byte (desc ! 8)) \<and> sub_blocks_ok bs"

fun is_frame :: "gif_block \<Rightarrow> bool" where
  "is_frame (Extension _ _) \<longleftrightarrow> False"
| "is_frame (Frame _ _ _ _) \<longleftrightarrow> True"

definition write_gif :: "string \<Rightarrow> string \<Rightarrow> gif_block list \<Rightarrow> string" where
  "write_gif header table blocks = header @ table @ concat (map write_block blocks) @ [CHR 0x3B]"

lemma write_sub_blocks_simps [simp]:
  "write_sub_blocks [] = [CHR 0x00]"
  "write_sub_blocks (b # bs) = char_of (length b) # b @ write_sub_blocks bs"
  by (simp_all add: write_sub_blocks_def)

lemma skip_written:
  "sub_blocks_ok bs \<Longrightarrow>
    skipSubBlocks (pre @ write_sub_blocks bs @ post) (length pre) = Inr (length (pre @ write_sub_blocks bs))"
proof (induction bs arbitrary: pre)
  case Nil
  show ?case by (subst skipSubBlocks.simps) simp
next
  case (Cons b bs)
  then have b: "0 < length b" "length b < 256" and bs: "sub_blocks_ok bs" by (simp_all add: sub_blocks_ok_def)
  from Cons.IH[OF bs, of "pre @ char_of (length b) # b"] b show ?case
    by (subst skipSubBlocks.simps) simp
qed

lemma skip_written_extension:
  "sub_blocks_ok bs \<Longrightarrow>
    skip_extension (pre @ write_block (Extension c bs) @ post) (length pre) = Inr (length (pre @ write_block (Extension c bs)))"
  using skip_written[of bs "pre @ [CHR 0x21, c]" post] by (simp add: skip_extension_def)

lemma skip_written_frame:
  assumes "block_ok (Frame desc table lzw bs)"
  shows "skip_image (pre @ write_block (Frame desc table lzw bs) @ post) (length pre)
    = Inr (length (pre @ write_block (Frame desc table lzw bs)))"
proof -
  from assms have l: "length desc = 9" "length table = table_size (byte (desc ! 8))" and bs: "sub_blocks_ok bs" by simp_all
  let ?d = "pre @ write_block (Frame desc table lzw bs) @ post"
  have "?d ! (length pre + 9) = desc ! 8" using l by (simp add: nth_append)
  moreover have "length pre + 10 + length table + 1 \<le> length ?d" using l by simp
  ultimately show ?thesis
    using skip_written[OF bs, of "pre @ CHR 0x2C # desc @ table @ [lzw]" post] l
    by (simp add: skip_image_def Let_def ac_simps)
qed

lemma gif_blocks_written:
  assumes "list_all block_ok blocks" and "frames \<le> l"
  shows "gif_blocks (pre @ concat (map write_block blocks) @ [CHR 0x3B]) l (length pre) frames
    = Inr (min l (frames + int (length (filter is_frame blocks))))"
  using assms
proof (induction blocks arbitrary: pre frames)
  case Nil
  then show ?case by (subst gif_blocks.simps) auto
next
  case (Cons b blocks)
  show ?case
  proof (cases "l \<le> frames")
    case True
    with Cons.prems show ?thesis by (subst gif_blocks.simps) auto
  next
    case False
    let ?rest = "concat (map write_block blocks) @ [CHR 0x3B]"
    have IH: "frames' \<le> l \<Longrightarrow> gif_blocks (pre @ write_block b @ ?rest) l (length (pre @ write_block b)) frames'
        = Inr (min l (frames' + int (length (filter is_frame blocks))))" for frames'
      using Cons.IH[of frames' "pre @ write_block b"] Cons.prems(1) by simp
    show ?thesis
    proof (cases b)
      case (Extension c bs)
      have "skip_extension (pre @ write_block b @ ?rest) (length pre) = Inr (length (pre @ write_block b))"
        using Cons.prems(1) unfolding Extension by (intro skip_written_extension) simp
      with False IH[of frames] Extension Cons.prems(2) show ?thesis
        by (subst gif_blocks.simps) simp
    next
      case (Frame desc table lzw bs)
      have "skip_image (pre @ write_block b @ ?rest) (length pre) = Inr (length (pre @ write_block b))"
        using Cons.prems(1) unfolding Frame by (intro skip_written_frame) simp
      with False IH[of "frames + 1"] Frame show ?thesis
        by (subst gif_blocks.simps) (simp add: algebra_simps)
    qed
  qed
qed

text \<open>Counting the frames of a well-formed GIF gives the number of its image blocks, cut off at
  the limit, however the image data is divided into sub-blocks and whatever extensions are between.\<close>

theorem countGIFFrames_written:
  assumes "length header = 13" and "bytes_at 0 ''GIF89a'' header" and "length table = table_size (byte (header ! 10))"
    and "list_all block_ok blocks" and "0 \<le> l"
  shows "countGIFFrames (write_gif header table blocks) l = Inr (min l (int (length (filter is_frame blocks))))"
proof -
  have "bytes_at 0 ''GIF89a'' (write_gif header table blocks)"
    using assms(1,2) by (simp add: bytes_at_def write_gif_def)
  moreover have "byte_at (write_gif header table blocks) 10 = Inr (byte (header ! 10))"
    using assms(1) by (simp add: byte_at_def write_gif_def nth_append)
  moreover have "13 + table_size (byte (header ! 10)) = length (header @ table)" using assms(1,3) by simp
  ultimately show ?thesis
    using gif_blocks_written[OF assms(4,5), of "header @ table"] assms(1)
    by (simp add: countGIFFrames_def write_gif_def)
qed

theorem countGIFFrames_written_witness:
  "countGIFFrames (write_gif (''GIF89a'' @ replicate 7 (CHR 0x00)) ''''
      [Extension (CHR 0xF9) [''ab''], Frame (replicate 9 (CHR 0x00)) '''' (CHR 0x02) [''xyz''],
       Frame (replicate 9 (CHR 0x00)) '''' (CHR 0x02) []]) 513 = Inr 2"
proof -
  have t: "table_size 0 = 0" by (simp add: table_size_def)
  show ?thesis
    by (subst countGIFFrames_written)
      (simp_all add: bytes_at_def t sub_blocks_ok_def numeral_nat replicate_Suc nth_append)
qed

section \<open>Probing\<close>

record Info =
  info_Kind :: Kind
  info_MIME :: string
  info_Width :: int
  info_Height :: int
  info_DurationMS :: int
  info_HasAudio :: bool
  info_Animated :: bool
  info_FrameCount :: int
  info_Rotation :: int

text \<open>The image libraries: the header reader, the decoders (with and without EXIF orientation), the
  bounds (minimum and maximum corner) and alpha samples of an image, resampling and the encoders.\<close>

record 'img codec =
  DecodeConfig :: "string \<Rightarrow> string + int \<times> int"
  DecodeOriented :: "string \<Rightarrow> string + 'img"
  DecodePlain :: "string \<Rightarrow> string + 'img"
  Bounds :: "'img \<Rightarrow> (int \<times> int) \<times> (int \<times> int)"
  alpha_at :: "'img \<Rightarrow> int \<Rightarrow> int \<Rightarrow> nat"
  Clone :: "'img \<Rightarrow> 'img"
  Fit :: "'img \<Rightarrow> int \<Rightarrow> int \<Rightarrow> 'img"
  png_Encode :: "'img \<Rightarrow> string + string"
  jpeg_Encode :: "'img \<Rightarrow> string + string"

text \<open>What \<open>ffprobe\<close> answers, with the duration already in milliseconds; \<open>ffmpeg\<close> collects
  the subprocess runs and the file reads that follow them.\<close>

record stream =
  st_CodecType :: string
  st_Width :: int
  st_Height :: int
  st_Rotate :: string

record probeResult =
  pb_Streams :: "stream list"
  pb_DurationMS :: int

record ffmpeg =
  ff_available :: bool
  ff_scratch :: "string \<Rightarrow> string + string"
  ff_run :: "duration \<Rightarrow> string list \<Rightarrow> media_Error option"
  ff_probe :: "duration \<Rightarrow> string \<Rightarrow> media_Error + probeResult"
  ff_checksumFile :: "string \<Rightarrow> string + string \<times> int"
  ff_readPNG :: "string \<Rightarrow> string + string \<times> int \<times> int"
  ff_seconds :: "int \<Rightarrow> string"
  ff_poster_offset :: "int \<Rightarrow> string"
  ff_rotation :: "string \<Rightarrow> int"

fun lift_err :: "('a \<Rightarrow> media_Error) \<Rightarrow> 'a + 'b \<Rightarrow> media_Error + 'b" where
  "lift_err f (Inl e) = Inl (f e)"
| "lift_err f (Inr x) = Inr x"

definition scan_text :: "scan_error \<Rightarrow> string" where
  "scan_text e = (case e of Malformed msg \<Rightarrow> msg | IndexOutOfRange \<Rightarrow> ''index out of range'')"

definition frame_limit :: int where "frame_limit = MaxAnimationFrames DefaultLimits + 1"

definition probeImage :: "'img codec \<Rightarrow> string \<Rightarrow> string \<Rightarrow> media_Error + Info" where
  "probeImage c data mime =
    bind_res (lift_err (\<lambda>err. errCorruptMedia ''could not parse image header'' (Some err)) (DecodeConfig c data)) (\<lambda>(w, h).
      let info = \<lparr>info_Kind = KindImage, info_MIME = mime, info_Width = w, info_Height = h, info_DurationMS = 0,
        info_HasAudio = False, info_Animated = False, info_FrameCount = 0, info_Rotation = 0\<rparr> in
      if mime = ''image/gif'' then
        bind_res (lift_err (\<lambda>err. errCorruptMedia ''could not parse GIF structure'' (Some (scan_text err)))
          (countGIFFrames data frame_limit)) (\<lambda>n. Inr (info\<lparr>info_FrameCount := n, info_Animated := 1 < n\<rparr>))
      else if mime = ''image/webp'' then
        bind_res (lift_err (\<lambda>err. errCorruptMedia ''could not parse WebP structure'' (Some (scan_text err)))
          (countWebPFrames data frame_limit)) (\<lambda>n. Inr (info\<lparr>info_FrameCount := n, info_Animated := 1 < n\<rparr>))
      else Inr info)"

definition probe_stream :: "ffmpeg \<Rightarrow> Info \<Rightarrow> stream \<Rightarrow> Info" where
  "probe_stream ff info s =
    (if st_CodecType s = ''video'' then
       (let info1 = (if info_Width info = 0 \<and> info_Height info = 0
               then info\<lparr>info_Width := st_Width s, info_Height := st_Height s\<rparr> else info) in
        if st_Rotate s \<noteq> '''' then info1\<lparr>info_Rotation := ff_rotation ff (st_Rotate s)\<rparr> else info1)
     else if st_CodecType s = ''audio'' then info\<lparr>info_HasAudio := True\<rparr>
     else info)"

definition probeVideo :: "ffmpeg \<Rightarrow> string \<Rightarrow> string \<Rightarrow> media_Error + Info" where
  "probeVideo ff path mime =
    bind_res (ff_probe ff (20 * Second) path) (\<lambda>pr.
      let info = foldl (probe_stream ff) \<lparr>info_Kind = KindVideo, info_MIME = mime, info_Width = 0, info_Height = 0,
          info_DurationMS = pb_DurationMS pr, info_HasAudio = False, info_Animated = False, info_FrameCount = 0,
          info_Rotation = 0\<rparr> (pb_Streams pr) in
      if info_Width info = 0 \<or> info_Height info = 0
      then Inl (errCorruptMedia ''video has no decodable video stream'' None) else Inr info)"

definition sniffHeadBytes :: nat where "sniffHeadBytes = 4096"

definition Probe :: "'img codec \<Rightarrow> ffmpeg \<Rightarrow> string \<Rightarrow> string \<Rightarrow> media_Error + Info" where
  "Probe c ff path data =
    (if data = '''' then Inl (errCorruptMedia ''file is empty or unreadable'' (Some ''EOF''))
     else (case Sniff (take sniffHeadBytes data) of
       None \<Rightarrow> Inl (errUnsupportedMedia ''file signature does not match any accepted media type'')
     | Some mime \<Rightarrow>
         (case map_of acceptedMIMEs mime of
            None \<Rightarrow> Inl (errUnsupportedMedia (''sniffed type '' @ mime @ '' is not accepted''))
          | Some KindImage \<Rightarrow> probeImage c data mime
          | Some KindVideo \<Rightarrow> probeVideo ff path mime)))"

section \<open>Processing\<close>

record Input =
  in_Path :: string
  in_Declared :: string

record Options =
  op_Limits :: Limits
  op_StartMS :: int
  op_EndMS :: int
  op_Muted :: bool
  op_TempDir :: string

record Variant =
  v_Kind :: VariantKind
  v_Data :: string
  v_TempPath :: string
  v_MIME :: string
  v_Width :: int
  v_Height :: int
  v_DurationMS :: int
  v_ByteSize :: int
  v_Checksum :: string
  v_HasAudio :: bool

definition Dx :: "'img codec \<Rightarrow> 'img \<Rightarrow> int" where "Dx c img = fst (snd (Bounds c img)) - fst (fst (Bounds c img))"
definition Dy :: "'img codec \<Rightarrow> 'img \<Rightarrow> int" where "Dy c img = snd (snd (Bounds c img)) - snd (fst (Bounds c img))"

definition fitDown :: "'img codec \<Rightarrow> 'img \<Rightarrow> int \<Rightarrow> int \<Rightarrow> 'img" where
  "fitDown c img maxW maxH = (if Dx c img \<le> maxW \<and> Dy c img \<le> maxH then Clone c img else Fit c img maxW maxH)"

definition imageHasTransparency :: "'img codec \<Rightarrow> string \<Rightarrow> 'img \<Rightarrow> bool" where
  "imageHasTransparency c mime img \<longleftrightarrow> mime \<noteq> ''image/jpeg'' \<and>
    (let ((x0, y0), (x1, y1)) = Bounds c img in
     list_ex (\<lambda>y. list_ex (\<lambda>x. alpha_at c img x y \<noteq> 0xffff) [x0..x1 - 1]) [y0..y1 - 1])"

definition encodeImage :: "'img codec \<Rightarrow> 'img \<Rightarrow> bool \<Rightarrow> string + string \<times> string" where
  "encodeImage c img hasAlpha =
    (if hasAlpha then bind_res (png_Encode c img) (\<lambda>b. Inr (b, ''image/png''))
     else bind_res (jpeg_Encode c img) (\<lambda>b. Inr (b, ''image/jpeg'')))"

definition memory_variant :: "(string \<Rightarrow> string) \<Rightarrow> VariantKind \<Rightarrow> string \<Rightarrow> string \<Rightarrow> int \<Rightarrow> int \<Rightarrow> Variant" where
  "memory_variant sha kind data mime w h = \<lparr>v_Kind = kind, v_Data = data, v_TempPath = '''', v_MIME = mime,
    v_Width = w, v_Height = h, v_DurationMS = 0, v_ByteSize = int (length data), v_Checksum = sha data, v_HasAudio = False\<rparr>"

text \<open>The still variants made of a poster frame, shared by videos and animated images.\<close>

definition posterToTerminal :: "'img codec \<Rightarrow> string \<Rightarrow> Limits \<Rightarrow> string + string \<times> int \<times> int" where
  "posterToTerminal c posterData limits =
    bind_res (DecodePlain c posterData) (\<lambda>img.
      let small = fitDown c img (TerminalMaxSide limits) (TerminalMaxSide limits) in
      bind_res (png_Encode c small) (\<lambda>b. Inr (b, Dx c small, Dy c small)))"

definition extractPoster :: "ffmpeg \<Rightarrow> string \<Rightarrow> int \<Rightarrow> string \<Rightarrow> media_Error option" where
  "extractPoster ff videoPath durationMS outPath =
    ff_run ff (20 * Second) [''-ss'', ff_poster_offset ff durationMS, ''-i'', videoPath, ''-vframes'', ''1'', outPath]"

fun bind_err :: "media_Error option \<Rightarrow> media_Error + 'a \<Rightarrow> media_Error + 'a" where
  "bind_err (Some e) k = Inl e"
| "bind_err None k = k"

definition poster_variants ::
  "'img codec \<Rightarrow> ffmpeg \<Rightarrow> (string \<Rightarrow> string) \<Rightarrow> Limits \<Rightarrow> string \<Rightarrow> string \<Rightarrow> int \<Rightarrow> media_Error + Variant list" where
  "poster_variants c ff sha limits tempDir videoPath durMS =
    (let posterPath = tempDir @ ''/poster.png'' in
     bind_err (extractPoster ff videoPath durMS posterPath)
       (bind_res (lift_err (\<lambda>e. errInternal ''read poster'' (Some e)) (ff_readPNG ff posterPath)) (\<lambda>(pd, pw, ph).
        bind_res (lift_err (\<lambda>e. errInternal ''build terminal still from poster'' (Some e)) (posterToTerminal c pd limits))
          (\<lambda>(td, tw, th). Inr [memory_variant sha VariantPoster pd ''image/png'' pw ph,
             memory_variant sha VariantTerminal td ''image/png'' tw th]))))"

definition video_variant :: "string \<Rightarrow> int \<Rightarrow> int \<Rightarrow> int \<Rightarrow> int \<Rightarrow> string \<Rightarrow> bool \<Rightarrow> Variant" where
  "video_variant path w h durMS len checksum audio = \<lparr>v_Kind = VariantVideo, v_Data = '''', v_TempPath = path,
    v_MIME = ''video/mp4'', v_Width = w, v_Height = h, v_DurationMS = durMS, v_ByteSize = len, v_Checksum = checksum,
    v_HasAudio = audio\<rparr>"

definition first_video :: "stream list \<Rightarrow> int \<times> int" where
  "first_video ss = (case find (\<lambda>s. st_CodecType s = ''video'') ss of None \<Rightarrow> (0, 0) | Some s \<Rightarrow> (st_Width s, st_Height s))"

definition processAnimatedImage ::
  "'img codec \<Rightarrow> ffmpeg \<Rightarrow> (string \<Rightarrow> string) \<Rightarrow> string \<Rightarrow> Options \<Rightarrow> Limits \<Rightarrow> media_Error + Variant list" where
  "processAnimatedImage c ff sha path opts limits =
    (if \<not> ff_available ff then Inl (errFFmpegUnavailable ''ffmpeg is required to preserve this animation as video'')
     else bind_res (lift_err (\<lambda>e. errInternal ''create scratch dir'' (Some e)) (ff_scratch ff (op_TempDir opts))) (\<lambda>tempDir.
       let videoPath = tempDir @ ''/video.mp4'' in
       bind_err (ff_run ff (90 * Second)
           [''-i'', path, ''-an'', ''-vf'', ''scale=trunc(iw/2)*2:trunc(ih/2)*2'', ''-c:v'', ''libx264'',
            ''-pix_fmt'', ''yuv420p'', ''-preset'', ''veryfast'', ''-t'', decimal (MaxVideoSeconds limits),
            ''-max_muxing_queue_size'', ''1024'', ''-movflags'', ''+faststart'', videoPath])
         (bind_res (ff_probe ff (20 * Second) videoPath) (\<lambda>outInfo.
          let (w, h) = first_video (pb_Streams outInfo) in
          bind_res (lift_err (\<lambda>e. errInternal ''checksum video output'' (Some e)) (ff_checksumFile ff videoPath)) (\<lambda>(checksum, len).
          bind_res (poster_variants c ff sha limits tempDir videoPath (pb_DurationMS outInfo)) (\<lambda>stills.
          Inr (video_variant videoPath w h (pb_DurationMS outInfo) len checksum False # stills)))))))"

definition processImage ::
  "'img codec \<Rightarrow> ffmpeg \<Rightarrow> (string \<Rightarrow> string) \<Rightarrow> string \<Rightarrow> string \<Rightarrow> Info \<Rightarrow> Options \<Rightarrow> Limits \<Rightarrow> media_Error + Variant list" where
  "processImage c ff sha path data info opts limits =
    (if MaxImageSide limits < info_Width info \<or> MaxImageSide limits < info_Height info
     then Inl (errTooManyPixels ''image: a single side may not exceed the limit'')
     else if MaxImagePixels limits < info_Width info * info_Height info
     then Inl (errTooManyPixels ''image: pixel limit, rejected before decode'')
     else if info_Animated info then
       (if MaxAnimationFrames limits < info_FrameCount info
        then Inl (errTooManyPixels ''animation: frame limit'')
        else processAnimatedImage c ff sha path opts limits)
     else bind_res (lift_err (\<lambda>e. errCorruptMedia ''could not decode image'' (Some e)) (DecodeOriented c data)) (\<lambda>img.
       let hasAlpha = imageHasTransparency c (info_MIME info) img;
           canonical = fitDown c img (CanonicalImageMaxSide limits) (CanonicalImageMaxSide limits);
           thumb = fitDown c img (ThumbMaxSide limits) (ThumbMaxSide limits);
           terminal = fitDown c img (TerminalMaxSide limits) (TerminalMaxSide limits) in
       bind_res (lift_err (\<lambda>e. errInternal ''encode canonical image'' (Some e)) (encodeImage c canonical hasAlpha)) (\<lambda>(cd, cm).
       bind_res (lift_err (\<lambda>e. errInternal ''encode thumb image'' (Some e)) (encodeImage c thumb hasAlpha)) (\<lambda>(td, tm).
       bind_res (lift_err (\<lambda>e. errInternal ''encode terminal image'' (Some e)) (png_Encode c terminal)) (\<lambda>rd.
       Inr [memory_variant sha VariantImage cd cm (Dx c canonical) (Dy c canonical),
            memory_variant sha VariantThumb td tm (Dx c thumb) (Dy c thumb),
            memory_variant sha VariantTerminal rd ''image/png'' (Dx c terminal) (Dy c terminal)])))))"

definition trimmed_ms :: "Options \<Rightarrow> Info \<Rightarrow> int" where
  "trimmed_ms opts info =
    (if op_StartMS opts < op_EndMS opts then op_EndMS opts - op_StartMS opts
     else if 0 < op_StartMS opts then info_DurationMS info - op_StartMS opts
     else info_DurationMS info)"

definition video_args :: "ffmpeg \<Rightarrow> string \<Rightarrow> Options \<Rightarrow> Info \<Rightarrow> string \<Rightarrow> string list" where
  "video_args ff path opts info videoPath =
    (if 0 < op_StartMS opts then [''-ss'', ff_seconds ff (op_StartMS opts)] else [])
    @ [''-i'', path, ''-t'', ff_seconds ff (trimmed_ms opts info), ''-vf'', ''scale=trunc(iw/2)*2:trunc(ih/2)*2'',
       ''-c:v'', ''libx264'', ''-pix_fmt'', ''yuv420p'', ''-preset'', ''veryfast'']
    @ (if op_Muted opts \<or> \<not> info_HasAudio info then [''-an'']
       else [''-c:a'', ''aac'', ''-b:a'', ''128k'', ''-af'', ''loudnorm=I=-16:TP=-1.5:LRA=11''])
    @ [''-movflags'', ''+faststart'', ''-max_muxing_queue_size'', ''1024'', videoPath]"

text \<open>The width and height of the first video stream with a width, as the loop over the streams
  finds them.\<close>

definition out_size :: "stream list \<Rightarrow> int \<times> int" where
  "out_size ss = foldl (\<lambda>(w, h) s. if st_CodecType s = ''video'' \<and> w = 0 then (st_Width s, st_Height s) else (w, h)) (0, 0) ss"

definition processVideo ::
  "'img codec \<Rightarrow> ffmpeg \<Rightarrow> (string \<Rightarrow> string) \<Rightarrow> string \<Rightarrow> Info \<Rightarrow> Options \<Rightarrow> Limits \<Rightarrow> media_Error + Variant list" where
  "processVideo c ff sha path info opts limits =
    (if \<not> ff_available ff then Inl (errFFmpegUnavailable ''ffmpeg is not installed on this worker'')
     else if MaxImageSide limits < info_Width info \<or> MaxImageSide limits < info_Height info
     then Inl (errTooManyPixels ''video frame: a single side may not exceed the limit'')
     else if trimmed_ms opts info \<le> 0
     then Inl (errCorruptMedia ''requested trim produces zero or negative duration'' None)
     else if MaxVideoSeconds limits * 1000 < trimmed_ms opts info then Inl (errTooLong ''video: duration limit'')
     else bind_res (lift_err (\<lambda>e. errInternal ''create scratch dir'' (Some e)) (ff_scratch ff (op_TempDir opts))) (\<lambda>tempDir.
       let videoPath = tempDir @ ''/video.mp4'' in
       bind_err (ff_run ff (2 * Minute) (video_args ff path opts info videoPath))
         (bind_res (ff_probe ff (20 * Second) videoPath) (\<lambda>outInfo.
          let (w, h) = out_size (pb_Streams outInfo);
              audio = list_ex (\<lambda>s. st_CodecType s = ''audio'') (pb_Streams outInfo) in
          bind_res (lift_err (\<lambda>e. errInternal ''checksum video output'' (Some e)) (ff_checksumFile ff videoPath)) (\<lambda>(checksum, len).
          bind_res (poster_variants c ff sha limits tempDir videoPath (pb_DurationMS outInfo)) (\<lambda>stills.
          Inr (video_variant videoPath w h (pb_DurationMS outInfo) len checksum audio # stills)))))))"

text \<open>\<open>file\<close> is what reading the input path gives, an error or its bytes.\<close>

definition Process ::
  "'img codec \<Rightarrow> ffmpeg \<Rightarrow> (string \<Rightarrow> string) \<Rightarrow> string + string \<Rightarrow> Input \<Rightarrow> Options \<Rightarrow> media_Error + Variant list" where
  "Process c ff sha file inp opts =
    (let limits = (if op_Limits opts = zero_Limits then DefaultLimits else op_Limits opts) in
     bind_res (lift_err (\<lambda>e. errInternal ''stat input file'' (Some e)) file) (\<lambda>data.
       if data = '''' then Inl (errCorruptMedia ''original is empty'' None)
       else if MaxOriginalBytes limits < int (length data) then Inl (errTooLarge ''original exceeds the byte limit'')
       else bind_res (Probe c ff (in_Path inp) data) (\<lambda>info.
         if in_Declared inp \<noteq> '''' \<and> in_Declared inp \<noteq> info_MIME info
         then Inl (errMIMEMismatch (''declared '' @ in_Declared inp @ '' but the file's own bytes are '' @ info_MIME info))
         else bind_res
           (case info_Kind info of
              KindImage \<Rightarrow> processImage c ff sha (in_Path inp) data info opts limits
            | KindVideo \<Rightarrow> processVideo c ff sha (in_Path inp) info opts limits)
           (\<lambda>vs. if list_ex (\<lambda>v. MaxOutputBytes limits < v_ByteSize v) vs
             then Inl (errInternal ''variant exceeds the output bound'' None) else Inr vs))))"

section \<open>Properties of the pipeline\<close>

lemma bind_err_Inr_iff: "bind_err r k = Inr x \<longleftrightarrow> r = None \<and> k = Inr x"
  by (cases r) auto

lemma lift_err_Inr_iff [simp]: "lift_err f r = Inr x \<longleftrightarrow> r = Inr x"
  by (cases r) auto

lemmas bind_iffs = bind_res_Inr_iff bind_err_Inr_iff

lemma probe_stream_Kind: "info_Kind (foldl (probe_stream ff) i ss) = info_Kind i"
  by (induction ss arbitrary: i) (auto simp: probe_stream_def Let_def)

lemma Probe_image:
  assumes "Probe c ff p data = Inr info" and "info_Kind info = KindImage"
  shows "\<exists>mime. data \<noteq> '''' \<and> Sniff (take sniffHeadBytes data) = Some mime
    \<and> map_of acceptedMIMEs mime = Some KindImage \<and> probeImage c data mime = Inr info"
proof -
  have "info_Kind i = KindVideo" if "probeVideo ff p m = Inr i" for m i
    using that by (auto simp: probeVideo_def bind_iffs Let_def probe_stream_Kind split: if_splits)
  with assms show ?thesis
    by (auto simp: Probe_def split: option.splits Kind.splits if_splits)
qed

lemma fitDown_sides:
  assumes "\<And>img w h. Dx c (Fit c img w h) \<le> w \<and> Dy c (Fit c img w h) \<le> h"
    and "\<And>img. Dx c (Clone c img) = Dx c img \<and> Dy c (Clone c img) = Dy c img"
  shows "Dx c (fitDown c img m m) \<le> m \<and> Dy c (fitDown c img m m) \<le> m"
  using assms by (auto simp: fitDown_def)


text \<open>A codec for concrete runs: an image is its width and height, every image is 6 by 4, and the
  encoders write one byte.\<close>

definition wit_codec :: "(int \<times> int) codec" where
  "wit_codec = \<lparr>DecodeConfig = (\<lambda>_. Inr (6, 4)), DecodeOriented = (\<lambda>_. Inr (6, 4)), DecodePlain = (\<lambda>_. Inr (6, 4)),
    Bounds = (\<lambda>p. ((0, 0), p)), alpha_at = (\<lambda>_ _ _. 0xffff), Clone = (\<lambda>p. p), Fit = (\<lambda>p w h. (w, h)),
    png_Encode = (\<lambda>_. Inr ''p''), jpeg_Encode = (\<lambda>_. Inr ''j'')\<rparr>"

definition wit_ffmpeg :: ffmpeg where
  "wit_ffmpeg = \<lparr>ff_available = False, ff_scratch = (\<lambda>_. Inl ''none''), ff_run = (\<lambda>_ _. None), ff_probe = (\<lambda>_ _. Inl (errInternal '''' None)),
    ff_checksumFile = (\<lambda>_. Inl ''none''), ff_readPNG = (\<lambda>_. Inl ''none''), ff_seconds = (\<lambda>_. ''0''), ff_poster_offset = (\<lambda>_. ''0''),
    ff_rotation = (\<lambda>_. 0)\<rparr>"

definition wit_options :: Options where
  "wit_options = \<lparr>op_Limits = DefaultLimits, op_StartMS = 0, op_EndMS = 0, op_Muted = False, op_TempDir = ''/tmp''\<rparr>"

definition wit_jpeg :: string where "wit_jpeg = [CHR 0xFF, CHR 0xD8, CHR 0xFF, CHR 0xE0]"

lemma wit_Process:
  "Process wit_codec wit_ffmpeg (\<lambda>_. ''c'') (Inr wit_jpeg) \<lparr>in_Path = ''/tmp/o'', in_Declared = ''image/jpeg''\<rparr> wit_options
    = Inr [memory_variant (\<lambda>_. ''c'') VariantImage ''j'' ''image/jpeg'' 6 4,
           memory_variant (\<lambda>_. ''c'') VariantThumb ''j'' ''image/jpeg'' 6 4,
           memory_variant (\<lambda>_. ''c'') VariantTerminal ''p'' ''image/png'' 6 4]"
proof -
  have sn: "Sniff (take sniffHeadBytes wit_jpeg) = Some ''image/jpeg''"
    by (simp add: Sniff_def bytes_at_def wit_jpeg_def sniffHeadBytes_def)
  have l: "op_Limits wit_options = DefaultLimits" "DefaultLimits \<noteq> zero_Limits" "wit_jpeg \<noteq> ''''" "length wit_jpeg = 4"
    by (simp_all add: wit_options_def DefaultLimits_def zero_Limits_def wit_jpeg_def)
  have pr: "Probe wit_codec wit_ffmpeg p wit_jpeg = Inr \<lparr>info_Kind = KindImage, info_MIME = ''image/jpeg'', info_Width = 6,
      info_Height = 4, info_DurationMS = 0, info_HasAudio = False, info_Animated = False, info_FrameCount = 0, info_Rotation = 0\<rparr>" for p
    by (simp add: Probe_def sn l acceptedMIMEs_def probeImage_def wit_codec_def)
  have lims: "MaxOriginalBytes DefaultLimits = 104857600" "MaxImageSide DefaultLimits = 12000" "MaxImagePixels DefaultLimits = 50000000"
    "CanonicalImageMaxSide DefaultLimits = 2048" "ThumbMaxSide DefaultLimits = 320" "TerminalMaxSide DefaultLimits = 1600"
    "MaxOutputBytes DefaultLimits = 262144000"
    by (simp_all add: DefaultLimits_def)
  have cod: "DecodeOriented wit_codec d = Inr (6, 4)" "fitDown wit_codec (6, 4) m m = (if 6 \<le> m then (6, 4) else (m, m))"
    "encodeImage wit_codec i False = Inr (''j'', ''image/jpeg'')" "png_Encode wit_codec i = Inr ''p''"
    "Dx wit_codec (6, 4) = 6" "Dy wit_codec (6, 4) = 4" "\<not> imageHasTransparency wit_codec ''image/jpeg'' i" for d m i
    by (simp_all add: wit_codec_def fitDown_def encodeImage_def Dx_def Dy_def imageHasTransparency_def)
  show ?thesis
    by (simp add: Process_def l pr lims processImage_def cod) (simp add: memory_variant_def)
qed


text \<open>An oversized image costs no decoding: when the header declares more pixels or a longer
  side than the limits allow, the answer is \<open>too_many_pixels\<close>, not to be retried, and it is the same
  whatever the decoders, encoders and ffmpeg would do with the file.\<close>

theorem pixel_bomb_not_decoded:
  assumes "Probe c ff (in_Path inp) data = Inr info" and "info_Kind info = KindImage"
    and "data \<noteq> ''''" "int (length data) \<le> MaxOriginalBytes (op_Limits opts)" "op_Limits opts \<noteq> zero_Limits"
    and "in_Declared inp = info_MIME info"
    and "MaxImageSide (op_Limits opts) < info_Width info \<or> MaxImageSide (op_Limits opts) < info_Height info
      \<or> MaxImagePixels (op_Limits opts) < info_Width info * info_Height info"
    and "DecodeConfig c' = DecodeConfig c"
  shows "\<exists>e. Process c ff sha (Inr data) inp opts = Inl e \<and> Process c' ff' sha' (Inr data) inp opts = Inl e
    \<and> Code e = ''too_many_pixels'' \<and> \<not> Retryable e"
proof -
  have pi: "probeImage c' d m = probeImage c d m" for d m by (simp add: probeImage_def assms(8))
  from Probe_image[OF assms(1,2)] obtain mime where m: "data \<noteq> ''''" "Sniff (take sniffHeadBytes data) = Some mime"
    "map_of acceptedMIMEs mime = Some KindImage" "probeImage c data mime = Inr info" by blast
  then have probe: "Probe c' ff' (in_Path inp) data = Inr info" by (simp add: Probe_def pi)
  define e where "e = (if MaxImageSide (op_Limits opts) < info_Width info \<or> MaxImageSide (op_Limits opts) < info_Height info
     then errTooManyPixels ''image: a single side may not exceed the limit''
     else errTooManyPixels ''image: pixel limit, rejected before decode'')"
  have pim: "processImage k f s p data info opts (op_Limits opts) = Inl e" for k :: "'b codec" and f s p
    using assms(7) unfolding processImage_def e_def by (cases "MaxImageSide (op_Limits opts) < info_Width info \<or> MaxImageSide (op_Limits opts) < info_Height info") simp_all
  have pim': "processImage k f s p data info opts (op_Limits opts) = Inl e" for k :: "'a codec" and f s p
    using assms(7) unfolding processImage_def e_def by (cases "MaxImageSide (op_Limits opts) < info_Width info \<or> MaxImageSide (op_Limits opts) < info_Height info") simp_all
  have run: "Process c ff sha (Inr data) inp opts = Inl e" "Process c' ff' sha' (Inr data) inp opts = Inl e"
    unfolding Process_def Let_def using assms(2-6) by (simp_all add: assms(1) probe pim pim')
  moreover have "Code e = ''too_many_pixels''" "\<not> Retryable e" by (simp_all add: e_def errTooManyPixels_def)
  ultimately show ?thesis by blast
qed

theorem pixel_bomb_not_decoded_witness:
  "\<exists>e. Process (wit_codec\<lparr>DecodeConfig := (\<lambda>_. Inr (30000, 30000))\<rparr>) wit_ffmpeg (\<lambda>_. ''c'') (Inr wit_jpeg)
      \<lparr>in_Path = ''/tmp/o'', in_Declared = ''image/jpeg''\<rparr> wit_options = Inl e \<and> Code e = ''too_many_pixels''"
proof -
  let ?c = "wit_codec\<lparr>DecodeConfig := (\<lambda>_. Inr (30000, 30000))\<rparr>"
  let ?i = "\<lparr>info_Kind = KindImage, info_MIME = ''image/jpeg'', info_Width = 30000, info_Height = 30000, info_DurationMS = 0,
    info_HasAudio = False, info_Animated = False, info_FrameCount = 0, info_Rotation = 0\<rparr>"
  have "Sniff (take sniffHeadBytes wit_jpeg) = Some ''image/jpeg''"
    by (simp add: Sniff_def bytes_at_def wit_jpeg_def sniffHeadBytes_def)
  then have "Probe ?c wit_ffmpeg ''/tmp/o'' wit_jpeg = Inr ?i"
    by (simp add: Probe_def wit_jpeg_def acceptedMIMEs_def probeImage_def wit_codec_def)
  then have p: "Probe ?c wit_ffmpeg (in_Path \<lparr>in_Path = ''/tmp/o'', in_Declared = ''image/jpeg''\<rparr>) wit_jpeg = Inr ?i" by simp
  have l: "op_Limits wit_options = DefaultLimits" "DefaultLimits \<noteq> zero_Limits" "wit_jpeg \<noteq> ''''" "length wit_jpeg = 4"
    "MaxOriginalBytes DefaultLimits = 104857600" "MaxImageSide DefaultLimits = 12000"
    by (simp_all add: wit_options_def DefaultLimits_def zero_Limits_def wit_jpeg_def)
  have "\<exists>e. Process ?c wit_ffmpeg (\<lambda>_. ''c'') (Inr wit_jpeg) \<lparr>in_Path = ''/tmp/o'', in_Declared = ''image/jpeg''\<rparr> wit_options = Inl e
    \<and> Process ?c wit_ffmpeg (\<lambda>_. ''c'') (Inr wit_jpeg) \<lparr>in_Path = ''/tmp/o'', in_Declared = ''image/jpeg''\<rparr> wit_options = Inl e
    \<and> Code e = ''too_many_pixels'' \<and> \<not> Retryable e"
    by (rule pixel_bomb_not_decoded[OF p]) (simp_all add: l)
  then show ?thesis by blast
qed

end
