(* ===== verification/Worker.thy ===== *)
theory Worker
  imports Jobs Objstore Media
begin

text \<open>
  The worker: \<^verbatim>\<open>src/internal/worker\<close> (\<^verbatim>\<open>worker.go\<close>,
  \<^verbatim>\<open>media_loop.go\<close>, \<^verbatim>\<open>cleanup_loop.go\<close>).  Its state is the pair of the database and the
  object store; the store is any implementation of the operations of \<open>objstore\<close>.  What a run
  reads from outside (clocks, rows locked by others, ids the database draws, whether the context is
  done, the file system and the result of \<open>media.Process\<close>) is a record per step, and a loop runs
  over the list of these records: a list that runs out before the loop has returned yields
  \<open>None\<close>.  Logging is not modelled.
\<close>

section \<open>Configuration\<close>

record Config =
  Role :: string
  WorkerID :: string
  MediaLeaseDuration :: duration
  MediaPollInterval :: duration
  MediaLimits :: Limits
  CleanupInterval :: duration
  CleanupLeaseDuration :: duration
  CleanupBatchSize :: int
  StoryLifetime :: duration
  ViewRetention :: duration
  MaxJobs :: int
  MaxDuration :: duration

definition positive_or :: "int \<Rightarrow> int \<Rightarrow> int" where
  "positive_or v def = (if v \<le> 0 then def else v)"

definition setDefaults :: "string \<Rightarrow> int \<Rightarrow> Config \<Rightarrow> Config" where
  "setDefaults hostname pid c = c\<lparr>
     Role := (if Role c = '''' then ''both'' else Role c),
     WorkerID := (if WorkerID c = '''' then (if hostname = '''' then ''worker'' else hostname) @ ''-'' @ decimal pid
       else WorkerID c),
     MediaLeaseDuration := positive_or (MediaLeaseDuration c) (5 * Minute),
     MediaPollInterval := positive_or (MediaPollInterval c) (2 * Second),
     MediaLimits := (if MediaLimits c = zero_Limits then DefaultLimits else MediaLimits c),
     CleanupInterval := positive_or (CleanupInterval c) (30 * Second),
     CleanupLeaseDuration := positive_or (CleanupLeaseDuration c) (2 * Minute),
     CleanupBatchSize := positive_or (CleanupBatchSize c) 200,
     StoryLifetime := positive_or (StoryLifetime c) (24 * Hour),
     ViewRetention := positive_or (ViewRetention c) (7 * 24 * Hour)\<rparr>"

section \<open>One media job\<close>

text \<open>How \<open>media.Process\<close> ends: its variants, an error (with its \<open>media.Error\<close>, when it is one),
  or a panic of the handler.\<close>

datatype process_result = Produced "Variant list" | ProcessError "media_Error option" string | Panics string

record media_step =
  ms_env :: env
  ms_nid :: uuid
  ms_draw :: "VariantKind \<Rightarrow> uuid"
  ms_tempdir_err :: "string option"
  ms_open_err :: "string option"
  ms_copy_err :: "string option"
  ms_files :: "string \<Rightarrow> string option"
  ms_process :: "string \<Rightarrow> MediaJobInput \<Rightarrow> process_result"

definition failMediaJob ::
  "media_step \<Rightarrow> MediaJob \<Rightarrow> uuid \<Rightarrow> string \<Rightarrow> string \<Rightarrow> bool \<Rightarrow> db \<Rightarrow> db" where
  "failMediaJob ms job story code msg retryable d =
    (case FailMediaJob (ms_env ms) (ms_nid ms) (mj_ID job) story code msg retryable d of
       Inl _ \<Rightarrow> d
     | Inr (_, d') \<Rightarrow> d')"

datatype download_error = DownloadTooLarge | DownloadMissing | DownloadFailed string

text \<open>\<open>io.Copy\<close> of a reader limited to one byte more than the limit.\<close>

definition downloadOriginal ::
  "'o objstore \<Rightarrow> Config \<Rightarrow> media_step \<Rightarrow> string \<Rightarrow> 'o \<Rightarrow> download_error + string" where
  "downloadOriginal S cfg ms key st =
    (case os_Get S key '''' st of
       Inl ErrNotExist \<Rightarrow> Inl DownloadMissing
     | Inl (ErrObject msg) \<Rightarrow> Inl (DownloadFailed msg)
     | Inr ob \<Rightarrow>
         (let limit = (if MaxOriginalBytes (MediaLimits cfg) \<le> 0 then MaxOriginalBytes DefaultLimits
              else MaxOriginalBytes (MediaLimits cfg)) in
          case ms_open_err ms of
            Some msg \<Rightarrow> Inl (DownloadFailed msg)
          | None \<Rightarrow>
              (case ms_copy_err ms of
                 Some msg \<Rightarrow> Inl (DownloadFailed (''write original to temp file: '' @ msg))
               | None \<Rightarrow>
                   (let data = take (nat (limit + 1)) (ob_Body ob) in
                    if limit < int (length data) then Inl DownloadTooLarge else Inr data))))"

definition mimeExtensions :: "(string \<times> string) list" where
  "mimeExtensions = [(''image/jpeg'', ''jpg''), (''image/png'', ''png''), (''image/webp'', ''webp''), (''video/mp4'', ''mp4'')]"

definition extForMIME :: "string \<Rightarrow> string" where
  "extForMIME mime = (case map_of mimeExtensions mime of Some ext \<Rightarrow> ext | None \<Rightarrow> ''bin'')"

definition uploadVariant ::
  "'o objstore \<Rightarrow> media_step \<Rightarrow> string \<Rightarrow> Variant \<Rightarrow> 'o \<Rightarrow> obj_error option \<times> 'o" where
  "uploadVariant S ms key v st =
    (if v_TempPath v \<noteq> '''' then
       (case ms_files ms (v_TempPath v) of
          None \<Rightarrow> (Some (ErrObject ''open variant''), st)
        | Some data \<Rightarrow> os_Put S key (v_MIME v) (Inr data) (v_ByteSize v) st)
     else os_Put S key (v_MIME v) (Inr (v_Data v)) (int (length (v_Data v))) st)"

definition media_variant :: "uuid \<Rightarrow> string \<Rightarrow> Variant \<Rightarrow> MediaVariant" where
  "media_variant story key v = \<lparr>mv_ID = 0, mv_StoryID = story, mv_Kind = v_Kind v, mv_ObjectKey = key,
    mv_MIME = v_MIME v, mv_Width = v_Width v, mv_Height = v_Height v, mv_DurationMS = v_DurationMS v,
    mv_ByteSize = v_ByteSize v, mv_Checksum = v_Checksum v, mv_HasAudio = v_HasAudio v\<rparr>"

definition variant_key :: "(uuid \<Rightarrow> string) \<Rightarrow> uuid \<Rightarrow> Variant \<Rightarrow> string" where
  "variant_key uuid_str story v =
    VariantKey (uuid_str story) (variant_kind_text (v_Kind v)) (extForMIME (v_MIME v))"

fun upload_variants ::
  "'o objstore \<Rightarrow> (uuid \<Rightarrow> string) \<Rightarrow> media_step \<Rightarrow> uuid \<Rightarrow> Variant list \<Rightarrow> 'o \<Rightarrow> (string + MediaVariant list) \<times> 'o" where
  "upload_variants S uuid_str ms story [] st = (Inr [], st)"
| "upload_variants S uuid_str ms story (v # vs) st =
    (let key = variant_key uuid_str story v in
     case uploadVariant S ms key v st of
       (Some e, st1) \<Rightarrow> (Inl (''upload variant '' @ variant_kind_text (v_Kind v)), st1)
     | (None, st1) \<Rightarrow>
         (case upload_variants S uuid_str ms story vs st1 of
            (Inl msg, st2) \<Rightarrow> (Inl msg, st2)
          | (Inr mvs, st2) \<Rightarrow> (Inr (media_variant story key v # mvs), st2)))"

text \<open>\<open>parse_uuid\<close> and \<open>uuid_str\<close> are \<^verbatim>\<open>uuid.Parse\<close> and \<^verbatim>\<open>uuid.UUID.String\<close>; the nil
  UUID is 0.\<close>

definition handleMediaJob ::
  "'o objstore \<Rightarrow> (string \<Rightarrow> uuid option) \<Rightarrow> (uuid \<Rightarrow> string) \<Rightarrow> Config \<Rightarrow> media_step \<Rightarrow> MediaJob \<Rightarrow> db \<times> 'o \<Rightarrow> db \<times> 'o" where
  "handleMediaJob S parse_uuid uuid_str cfg ms job = (\<lambda>(d, st).
    let parsed = parse_uuid (in_StoryItemID (mj_Input job));
        story = (case parsed of None \<Rightarrow> 0 | Some s \<Rightarrow> s) in
    case ms_tempdir_err ms of
      Some msg \<Rightarrow> (failMediaJob ms job story ''internal'' (''create temp dir: '' @ msg) True d, st)
    | None \<Rightarrow>
      if parsed = None then (failMediaJob ms job 0 ''internal'' ''invalid story_item_id in job input'' False d, st)
      else
        (case downloadOriginal S cfg ms (in_ObjectKey (mj_Input job)) st of
           Inl DownloadTooLarge \<Rightarrow> (failMediaJob ms job story ''too_large''
             ''worker: downloaded original exceeds the configured size limit'' False d, st)
         | Inl DownloadMissing \<Rightarrow> (failMediaJob ms job story ''internal'' ''original object not found'' False d, st)
         | Inl (DownloadFailed msg) \<Rightarrow> (failMediaJob ms job story ''internal'' (''download original: '' @ msg) True d, st)
         | Inr original \<Rightarrow>
             (case ms_process ms original (mj_Input job) of
                Panics msg \<Rightarrow> (failMediaJob ms job story ''internal'' (''panic: '' @ msg) True d, st)
              | ProcessError me msg \<Rightarrow>
                  (let (code, retryable) = (case me of None \<Rightarrow> (''internal'', True) | Some e \<Rightarrow> (Code e, Retryable e)) in
                   (failMediaJob ms job story code msg retryable d, st))
              | Produced vs \<Rightarrow>
                  (case upload_variants S uuid_str ms story vs st of
                     (Inl msg, st1) \<Rightarrow> (failMediaJob ms job story ''internal'' msg True d, st1)
                   | (Inr mvs, st1) \<Rightarrow>
                       (case PublishStory (ms_env ms) (ms_draw ms) (ms_nid ms)
                           \<lparr>pr_JobID = mj_ID job, pr_StoryID = story, pr_Variants = mvs\<rparr> (StoryLifetime cfg) d of
                          Inl _ \<Rightarrow> (d, st1)
                        | Inr (_, d1) \<Rightarrow> (d1, st1))))))"

definition ProcessOneMediaJob ::
  "'o objstore \<Rightarrow> (string \<Rightarrow> uuid option) \<Rightarrow> (uuid \<Rightarrow> string) \<Rightarrow> Config \<Rightarrow> env \<Rightarrow> (uuid \<Rightarrow> bool) \<Rightarrow> media_step
    \<Rightarrow> db \<times> 'o \<Rightarrow> (store_error + bool) \<times> db \<times> 'o" where
  "ProcessOneMediaJob S parse_uuid uuid_str cfg e locked ms = (\<lambda>(d, st).
    case ClaimMediaJob e locked (WorkerID cfg) (MediaLeaseDuration cfg) d of
      Inl ErrNotFound \<Rightarrow> (Inr False, d, st)
    | Inl err \<Rightarrow> (Inl err, d, st)
    | Inr (job, d1) \<Rightarrow> (Inr True, handleMediaJob S parse_uuid uuid_str cfg ms job (d1, st)))"

section \<open>Cleanup\<close>

record cleanup_step =
  cs_done :: bool
  cs_claim_env :: env
  cs_env :: env
  cs_locked :: "uuid \<Rightarrow> bool"

definition failCleanupJob :: "env \<Rightarrow> CleanupJob \<Rightarrow> string \<Rightarrow> db \<Rightarrow> db" where
  "failCleanupJob e job msg d =
    (case FailCleanupJob e (cl_ID job) (cl_Attempts job) (cl_Max job) msg d of Inl _ \<Rightarrow> d | Inr (_, d') \<Rightarrow> d')"

definition handleCleanupJob :: "'o objstore \<Rightarrow> env \<Rightarrow> CleanupJob \<Rightarrow> db \<times> 'o \<Rightarrow> db \<times> 'o" where
  "handleCleanupJob S e job = (\<lambda>(d, st).
    if cl_Kind job = ''delete_objects'' then
      (case cl_Payload job of
         OtherPayload _ \<Rightarrow> (failCleanupJob e job ''unparseable payload'' d, st)
       | ObjectKeys keys _ \<Rightarrow>
           (case os_Delete S keys st of
              (Some err, st1) \<Rightarrow> (failCleanupJob e job ''delete objects failed'' d, st1)
            | (None, st1) \<Rightarrow>
                (case CompleteCleanupJob (cl_ID job) d of Inl _ \<Rightarrow> (d, st1) | Inr (_, d1) \<Rightarrow> (d1, st1))))
    else (failCleanupJob e job (''unknown cleanup job kind: '' @ cl_Kind job) d, st))"

fun drainCleanupJobs :: "'o objstore \<Rightarrow> Config \<Rightarrow> cleanup_step list \<Rightarrow> db \<times> 'o \<Rightarrow> (db \<times> 'o) option" where
  "drainCleanupJobs S cfg [] s = None"
| "drainCleanupJobs S cfg (c # cs) s =
    (if cs_done c then Some s
     else (case ClaimCleanupJob (cs_claim_env c) (cs_locked c) (WorkerID cfg) (CleanupLeaseDuration cfg) (fst s) of
       Inl _ \<Rightarrow> Some s
     | Inr (job, d1) \<Rightarrow> drainCleanupJobs S cfg cs (handleCleanupJob S (cs_env c) job (d1, snd s))))"

text \<open>The sweeps of one pass, each at its own clock reading, then the drain.\<close>

record pass_step =
  ps_reap :: env
  ps_expire :: env
  ps_gc :: env
  ps_replies :: env
  ps_views :: env
  ps_auth :: env
  ps_locked :: "uuid \<Rightarrow> bool"
  ps_draw :: "uuid \<Rightarrow> uuid"
  ps_nid :: uuid

definition sweep :: "Config \<Rightarrow> pass_step \<Rightarrow> db \<Rightarrow> db" where
  "sweep cfg p d =
    (let d1 = ReapExpiredLeases (ps_reap p) d;
         d2 = snd (ExpireStories (ps_expire p) (ps_locked p) (ps_draw p) (CleanupBatchSize cfg) d1);
         d3 = snd (GCAbandonedUploads (ps_gc p) (ps_locked p) (ps_nid p) (CleanupBatchSize cfg) d2);
         d4 = snd (PurgeReplies (ps_replies p) d3);
         d5 = snd (PurgeViews (ps_views p) (ViewRetention cfg) d4) in
     PurgeExpiredAuth (ps_auth p) d5)"

definition runCleanupPass ::
  "'o objstore \<Rightarrow> Config \<Rightarrow> pass_step \<Rightarrow> cleanup_step list \<Rightarrow> db \<times> 'o \<Rightarrow> (db \<times> 'o) option" where
  "runCleanupPass S cfg p cs = (\<lambda>(d, st). drainCleanupJobs S cfg cs (sweep cfg p d, st))"

section \<open>Run to completion\<close>

record once_step =
  on_ctx :: "store_error option"
  on_wall :: time
  on_env :: env
  on_locked :: "uuid \<Rightarrow> bool"
  on_media :: media_step

fun media_drain ::
  "'o objstore \<Rightarrow> (string \<Rightarrow> uuid option) \<Rightarrow> (uuid \<Rightarrow> string) \<Rightarrow> Config \<Rightarrow> time option \<Rightarrow> once_step list \<Rightarrow> int
    \<Rightarrow> db \<times> 'o \<Rightarrow> ((int \<times> store_error option) \<times> db \<times> 'o) option" where
  "media_drain S parse_uuid uuid_str cfg deadline steps processed s =
    (if \<not> (MaxJobs cfg \<le> 0 \<or> processed < MaxJobs cfg) then Some ((processed, None), s)
     else (case steps of
       [] \<Rightarrow> None
     | o1 # os \<Rightarrow>
         (if on_ctx o1 \<noteq> None then Some ((processed, on_ctx o1), s)
          else if (case deadline of None \<Rightarrow> False | Some t \<Rightarrow> \<not> on_wall o1 < t) then Some ((processed, None), s)
          else (case ProcessOneMediaJob S parse_uuid uuid_str cfg (on_env o1) (on_locked o1) (on_media o1) s of
            (Inl err, s1) \<Rightarrow> Some ((processed, Some err), s1)
          | (Inr found, s1) \<Rightarrow>
              (if \<not> found then Some ((processed, None), s1)
               else media_drain S parse_uuid uuid_str cfg deadline os (processed + 1) s1)))))"

declare media_drain.simps [simp del]

definition RunOnce ::
  "'o objstore \<Rightarrow> (string \<Rightarrow> uuid option) \<Rightarrow> (uuid \<Rightarrow> string) \<Rightarrow> Config \<Rightarrow> time \<Rightarrow> store_error option \<Rightarrow> pass_step \<Rightarrow> cleanup_step list
    \<Rightarrow> once_step list \<Rightarrow> db \<times> 'o \<Rightarrow> ((int \<times> store_error option) \<times> db \<times> 'o) option" where
  "RunOnce S parse_uuid uuid_str cfg start ctx p cs os s =
    (let deadline = (if 0 < MaxDuration cfg then Some (start + MaxDuration cfg) else None);
         swept = (if Role cfg = ''cleanup'' \<or> Role cfg = ''both'' then runCleanupPass S cfg p cs s else Some s) in
     case swept of
       None \<Rightarrow> None
     | Some s1 \<Rightarrow>
         (if Role cfg \<noteq> ''media'' \<and> Role cfg \<noteq> ''both'' then Some ((0, ctx), s1)
          else media_drain S parse_uuid uuid_str cfg deadline os 0 s1))"

section \<open>The drain comes to an end\<close>

text \<open>The work left in the cleanup queue: a job that is not finished counts one for the claim that
  ends it and one for every retry its budget still has.\<close>

definition job_work :: "cleanup_row \<Rightarrow> nat" where
  "job_work j = (if cj_State j = JobQueued \<or> cj_State j = JobLeased then Suc (nat (cj_Max j - cj_Attempts j)) else 0)"

definition cleanup_work :: "db \<Rightarrow> nat" where
  "cleanup_work d = sum_list (map job_work (cleanup_jobs d))"

lemma update_where_key_twice:
  assumes "\<And>x. key (f x) = key x"
  shows "update_where (\<lambda>x. key x = k) g (update_where (\<lambda>x. key x = k) f rs) = update_where (\<lambda>x. key x = k) (\<lambda>x. g (f x)) rs"
  using assms by (simp add: update_where_def)

lemma sum_update_one:
  assumes "keyed key rs" and "r \<in> set rs" and "w (f r) < (w r :: nat)"
  shows "sum_list (map w (update_where (\<lambda>x. key x = key r) f rs)) < sum_list (map w rs)"
proof -
  from assms(2) obtain xs ys where rs: "rs = xs @ r # ys" by (auto dest: split_list)
  with assms(1) have "distinct (map key (xs @ r # ys))" by (simp add: keyed_def)
  then have "\<forall>q\<in>set (xs @ ys). key q \<noteq> key r" by (auto simp: image_iff)
  then have "update_where (\<lambda>x. key x = key r) f rs = xs @ f r # ys" by (simp add: rs)
  then show ?thesis using assms(3) by (simp add: rs)
qed

lemma ClaimCleanupJob_row:
  assumes "ClaimCleanupJob e locked owner lease d = Inr (job, d1)"
  obtains r where "r \<in> set (cleanup_jobs d)" "cleanup_due (Now e) r" "\<not> locked (cj_ID r)"
    "job = \<lparr>cl_ID = cj_ID r, cl_Kind = cj_Kind r, cl_Payload = cj_Payload r, cl_Attempts = cj_Attempts r + 1, cl_Max = cj_Max r\<rparr>"
    "d1 = d\<lparr>cleanup_jobs := update_where (\<lambda>q. cj_ID q = cj_ID r) (lease_cleanup e owner lease) (cleanup_jobs d)\<rparr>"
  using assms by (auto simp: ClaimCleanupJob_def split: list.splits dest!: sort_key_Cons_in)

lemma lease_cleanup_ID [simp]: "cj_ID (lease_cleanup e owner lease j) = cj_ID j"
  by (simp add: lease_cleanup_def)

text \<open>What handling a claimed job leaves of its row: it is finished, or queued again while its
  attempts are below the budget.\<close>

definition settled :: "CleanupJob \<Rightarrow> (cleanup_row \<Rightarrow> cleanup_row) \<Rightarrow> bool" where
  "settled job g \<longleftrightarrow> (\<forall>q. cj_ID (g q) = cj_ID q \<and> cj_Max (g q) = cj_Max q \<and> cj_Attempts (g q) = cj_Attempts q
    \<and> (cj_State (g q) = JobSucceeded \<or> cj_State (g q) = JobFailed
       \<or> (cj_State (g q) = JobQueued \<and> cl_Attempts job < cl_Max job)))"

lemma handleCleanupJob_settles:
  "\<exists>g st'. settled job g \<and> handleCleanupJob S e job (d, st)
    = (d\<lparr>cleanup_jobs := update_where (\<lambda>q. cj_ID q = cl_ID job) g (cleanup_jobs d)\<rparr>, st')"
proof -
  let ?ok = "\<lambda>x st'. \<exists>g. settled job g \<and> (x :: db \<times> 'a) = (d\<lparr>cleanup_jobs := update_where (\<lambda>q. cj_ID q = cl_ID job) g (cleanup_jobs d)\<rparr>, st')"
  have fail: "?ok (failCleanupJob e job msg d, st') st'" for msg and st' :: 'a
  proof (cases "cl_Max job \<le> cl_Attempts job")
    case True
    then show ?thesis
      by (intro exI[of _ "\<lambda>r. r\<lparr>cj_State := JobFailed, cj_ErrorMessage := Some msg, cj_LeaseOwner := None,
           cj_LeaseExpiresAt := None\<rparr>"])
        (simp add: failCleanupJob_def FailCleanupJob_def settled_def)
  next
    case False
    then show ?thesis
      by (intro exI[of _ "\<lambda>r. r\<lparr>cj_State := JobQueued, cj_RunAfter := Now e + backoff 30 (cl_Attempts job),
           cj_ErrorMessage := Some msg, cj_LeaseOwner := None, cj_LeaseExpiresAt := None\<rparr>"])
        (simp add: failCleanupJob_def FailCleanupJob_def settled_def)
  qed
  have complete: "?ok (snd (projr (CompleteCleanupJob (cl_ID job) d)), st') st'" for st' :: 'a
    by (intro exI[of _ "\<lambda>r. r\<lparr>cj_State := JobSucceeded, cj_LeaseOwner := None, cj_LeaseExpiresAt := None\<rparr>"])
      (simp add: CompleteCleanupJob_def settled_def)
  show ?thesis
    using fail complete unfolding handleCleanupJob_def
    by (fastforce simp: CompleteCleanupJob_def split: cleanup_payload.split prod.split option.split)
qed

lemma drain_step:
  assumes "keyed cj_ID (cleanup_jobs d)" and "ClaimCleanupJob e locked owner lease d = Inr (job, d1)"
  shows "keyed cj_ID (cleanup_jobs (fst (handleCleanupJob S e2 job (d1, st))))
    \<and> cleanup_work (fst (handleCleanupJob S e2 job (d1, st))) < cleanup_work d"
proof -
  from assms(2) obtain r where r: "r \<in> set (cleanup_jobs d)" "cleanup_due (Now e) r"
    and job: "job = \<lparr>cl_ID = cj_ID r, cl_Kind = cj_Kind r, cl_Payload = cj_Payload r, cl_Attempts = cj_Attempts r + 1, cl_Max = cj_Max r\<rparr>"
    and d1: "d1 = d\<lparr>cleanup_jobs := update_where (\<lambda>q. cj_ID q = cj_ID r) (lease_cleanup e owner lease) (cleanup_jobs d)\<rparr>"
    by (rule ClaimCleanupJob_row)
  from handleCleanupJob_settles[of job S e2 d1 st] obtain g st' where g: "settled job g"
    and h: "handleCleanupJob S e2 job (d1, st) = (d1\<lparr>cleanup_jobs := update_where (\<lambda>q. cj_ID q = cl_ID job) g (cleanup_jobs d1)\<rparr>, st')"
    by blast
  let ?f = "lease_cleanup e owner lease"
  have rows: "cleanup_jobs (fst (handleCleanupJob S e2 job (d1, st)))
      = update_where (\<lambda>q. cj_ID q = cj_ID r) (\<lambda>q. g (?f q)) (cleanup_jobs d)"
    unfolding h fst_conv by (simp add: d1 job update_where_key_twice[where key = cj_ID])
  have "job_work (g (?f r)) < job_work r"
  proof -
    from g have g1: "cj_Max (g (?f r)) = cj_Max r" "cj_Attempts (g (?f r)) = cj_Attempts r + 1"
      and g2: "cj_State (g (?f r)) = JobSucceeded \<or> cj_State (g (?f r)) = JobFailed
        \<or> (cj_State (g (?f r)) = JobQueued \<and> cj_Attempts r + 1 < cj_Max r)"
      by (simp_all add: settled_def job lease_cleanup_def)
    have "cj_State r = JobQueued \<or> cj_State r = JobLeased" using r(2) by (auto simp: cleanup_due_def due_def)
    with g2 show ?thesis by (auto simp: job_work_def g1)
  qed
  with sum_update_one[OF assms(1) r(1), where w = job_work and f = "\<lambda>q. g (?f q)"] have "cleanup_work (fst (handleCleanupJob S e2 job (d1, st))) < cleanup_work d"
    unfolding cleanup_work_def rows by blast
  moreover have "keyed cj_ID (cleanup_jobs (fst (handleCleanupJob S e2 job (d1, st))))"
    unfolding rows using assms(1) g by (intro keyed_update_where) (simp_all add: settled_def lease_cleanup_def)
  ultimately show ?thesis by blast
qed

lemma drain_returns:
  assumes "keyed cj_ID (cleanup_jobs (fst s))" and "cleanup_work (fst s) < length cs"
  shows "\<exists>s'. drainCleanupJobs S cfg cs s = Some s'"
  using assms
proof (induction cs arbitrary: s)
  case (Cons c cs)
  show ?case
  proof (cases "ClaimCleanupJob (cs_claim_env c) (cs_locked c) (WorkerID cfg) (CleanupLeaseDuration cfg) (fst s)")
    case (Inr p)
    obtain job d1 where p: "p = (job, d1)" by (cases p)
    from drain_step[OF Cons.prems(1) Inr[unfolded p], of S "cs_env c" "snd s"] Cons.prems(2)
    have "\<exists>s'. drainCleanupJobs S cfg cs (handleCleanupJob S (cs_env c) job (d1, snd s)) = Some s'"
      by (intro Cons.IH) simp_all
    then show ?thesis by (simp add: Inr p)
  qed simp
qed simp

lemma media_drain_returns:
  assumes "0 < MaxJobs cfg" and "nat (MaxJobs cfg - n) \<le> length os" and "n \<le> MaxJobs cfg"
  shows "\<exists>k r s'. media_drain S parse_uuid uuid_str cfg deadline os n s = Some ((k, r), s') \<and> n \<le> k \<and> k \<le> MaxJobs cfg"
  using assms
proof (induction os arbitrary: n s)
  case Nil
  then show ?case by (subst media_drain.simps) auto
next
  case (Cons o1 os)
  show ?case
  proof (cases "n < MaxJobs cfg")
    case True
    obtain f s1 where step: "ProcessOneMediaJob S parse_uuid uuid_str cfg (on_env o1) (on_locked o1) (on_media o1) s = (f, s1)"
      by (cases "ProcessOneMediaJob S parse_uuid uuid_str cfg (on_env o1) (on_locked o1) (on_media o1) s")
    have "\<exists>k r s'. media_drain S parse_uuid uuid_str cfg deadline os (n + 1) s1 = Some ((k, r), s') \<and> n + 1 \<le> k \<and> k \<le> MaxJobs cfg"
      using Cons.prems True by (intro Cons.IH) auto
    then obtain k r s' where "media_drain S parse_uuid uuid_str cfg deadline os (n + 1) s1 = Some ((k, r), s')"
      "n + 1 \<le> k" "k \<le> MaxJobs cfg" by blast
    then show ?thesis using True Cons.prems by (subst media_drain.simps) (auto simp: step split: sum.split option.split)
  next
    case False
    with Cons.prems show ?thesis by (subst media_drain.simps) auto
  qed
qed

section \<open>What reaches the object store\<close>

definition gone :: "'o objstore \<Rightarrow> string \<Rightarrow> 'o \<Rightarrow> bool" where
  "gone S k st \<longleftrightarrow> os_Get S k '''' st = Inl ErrNotExist"

definition variant_bytes :: "media_step \<Rightarrow> Variant \<Rightarrow> string option" where
  "variant_bytes ms v = (if v_TempPath v \<noteq> '''' then ms_files ms (v_TempPath v) else Some (v_Data v))"

definition holds :: "'o objstore \<Rightarrow> string \<Rightarrow> string option \<Rightarrow> 'o \<Rightarrow> bool" where
  "holds S k data st \<longleftrightarrow> (\<exists>ob. os_Get S k '''' st = Inr ob \<and> Some (ob_Body ob) = data)"

context object_store
begin

lemma cleanup_keeps_gone: "gone S k (snd s) \<Longrightarrow> gone S k (snd (handleCleanupJob S e job s))"
proof -
  assume g: "gone S k (snd s)"
  obtain d st where s: "s = (d, st)" by (cases s)
  have "gone S k st'" if "os_Delete S ks st = (r, st')" for ks r st'
  proof (cases "k \<in> set ks \<and> r = None")
    case True
    with that show ?thesis by (auto simp: gone_def dest: delete_gone)
  next
    case False
    then show ?thesis
      using that g delete_other[of ks st r st' k "''''"] delete_kept[of ks st r st' k] by (auto simp: gone_def s)
  qed
  with g show ?thesis
    by (auto simp: handleCleanupJob_def s CompleteCleanupJob_def split: cleanup_payload.split prod.split option.split)
qed

lemma drain_keeps_gone:
  "drainCleanupJobs S cfg cs s = Some s' \<Longrightarrow> gone S k (snd s) \<Longrightarrow> gone S k (snd s')"
proof (induction cs arbitrary: s)
  case (Cons c cs)
  show ?case
  proof (cases "ClaimCleanupJob (cs_claim_env c) (cs_locked c) (WorkerID cfg) (CleanupLeaseDuration cfg) (fst s)")
    case (Inl err)
    with Cons.prems show ?thesis by (auto split: if_splits)
  next
    case (Inr p)
    obtain job d1 where p: "p = (job, d1)" by (cases p)
    show ?thesis
    proof (cases "cs_done c")
      case True
      with Cons.prems show ?thesis by simp
    next
      case False
      with Cons.prems(1) have "drainCleanupJobs S cfg cs (handleCleanupJob S (cs_env c) job (d1, snd s)) = Some s'"
        by (simp add: Inr p)
      moreover have "gone S k (snd (handleCleanupJob S (cs_env c) job (d1, snd s)))"
        by (rule cleanup_keeps_gone) (simp add: Cons.prems(2))
      ultimately show ?thesis by (rule Cons.IH)
    qed
  qed
qed simp

text \<open>A drain that is not interrupted leaves no object behind that a due job names, when the
  store's deletions succeed.\<close>

lemma drain_deletes:
  assumes "drainCleanupJobs S cfg cs s = Some s'"
    and "\<And>ks st. fst (os_Delete S ks st) = None"
    and "\<forall>c\<in>set cs. \<not> cs_done c \<and> Now (cs_claim_env c) = now \<and> (\<forall>j. \<not> cs_locked c j)"
    and "keyed cj_ID (cleanup_jobs (fst s))" and "r \<in> set (cleanup_jobs (fst s))" and "cleanup_due now r"
    and "cj_Kind r = ''delete_objects''" and "cj_Payload r = ObjectKeys ks sid" and "k \<in> set ks"
  shows "gone S k (snd s')"
  using assms(1,3-9)
proof (induction cs arbitrary: s r ks sid)
  case (Cons c cs)
  note prems = Cons.prems
  have c: "\<not> cs_done c" "Now (cs_claim_env c) = now" "\<And>j. \<not> cs_locked c j" using prems(2) by auto
  show ?case
  proof (cases "ClaimCleanupJob (cs_claim_env c) (cs_locked c) (WorkerID cfg) (CleanupLeaseDuration cfg) (fst s)")
    case (Inl err)
    then have "\<not> list_ex (\<lambda>q. cleanup_due now q) (cleanup_jobs (fst s))"
      using cleanup_queue.claim_none[of "cs_claim_env c" "cs_locked c"] c by simp
    with prems(4,5) show ?thesis by (auto simp: list_ex_iff)
  next
    case (Inr p)
    obtain job d1 where p: "p = (job, d1)" by (cases p)
    note claim = Inr[unfolded p]
    let ?s1 = "handleCleanupJob S (cs_env c) job (d1, snd s)"
    have run: "drainCleanupJobs S cfg cs ?s1 = Some s'" using prems(1) c by (simp add: Inr p)
    from claim obtain q where q: "q \<in> set (cleanup_jobs (fst s))" "cleanup_due (Now (cs_claim_env c)) q"
      and job: "job = \<lparr>cl_ID = cj_ID q, cl_Kind = cj_Kind q, cl_Payload = cj_Payload q, cl_Attempts = cj_Attempts q + 1, cl_Max = cj_Max q\<rparr>"
      and d1: "d1 = (fst s)\<lparr>cleanup_jobs := update_where (\<lambda>x. cj_ID x = cj_ID q)
        (lease_cleanup (cs_claim_env c) (WorkerID cfg) (CleanupLeaseDuration cfg)) (cleanup_jobs (fst s))\<rparr>"
      by (rule ClaimCleanupJob_row)
    show ?thesis
    proof (cases "cj_ID r = cj_ID q")
      case True
      with keyed_unique[OF prems(3,4) q(1)] have "r = q" by blast
      obtain st1 where del: "os_Delete S ks (snd s) = (None, st1)"
        using assms(2)[of ks "snd s"] by (cases "os_Delete S ks (snd s)") auto
      then have "gone S k (snd ?s1)"
        using prems(6,7,8) delete_gone[OF del, of k "''''"] \<open>r = q\<close>
        by (simp add: handleCleanupJob_def job CompleteCleanupJob_def gone_def)
      with run show ?thesis by (rule drain_keeps_gone)
    next
      case False
      from handleCleanupJob_settles[of job S "cs_env c" d1 "snd s"] obtain g st' where
        h: "?s1 = (d1\<lparr>cleanup_jobs := update_where (\<lambda>x. cj_ID x = cl_ID job) g (cleanup_jobs d1)\<rparr>, st')" by blast
      have rin: "r \<in> set (cleanup_jobs (fst ?s1))"
        using prems(4) False unfolding h by (force simp: d1 job set_update_where)
      have kd: "keyed cj_ID (cleanup_jobs (fst ?s1))" using drain_step[OF prems(3) claim, of S "cs_env c" "snd s"] by blast
      have rest: "\<forall>c\<in>set cs. \<not> cs_done c \<and> Now (cs_claim_env c) = now \<and> (\<forall>j. \<not> cs_locked c j)"
        using prems(2) by simp
      show ?thesis by (rule Cons.IH[OF run rest kd rin prems(5,6,7,8)])
    qed
  qed
qed simp

lemma upload_variants_stored:
  assumes "upload_variants S us ms story vs st = (Inr mvs, st')"
    and "distinct (map (variant_key us story) vs)"
  shows "(\<forall>v\<in>set vs. holds S (variant_key us story v) (variant_bytes ms v) st')
    \<and> (\<forall>k r. k \<notin> variant_key us story ` set vs \<longrightarrow> os_Get S k r st' = os_Get S k r st)"
  using assms
proof (induction vs arbitrary: st mvs)
  case (Cons v vs)
  let ?k = "variant_key us story v"
  from Cons.prems(1) obtain st1 mvs1 where up: "uploadVariant S ms ?k v st = (None, st1)"
    and rest: "upload_variants S us ms story vs st1 = (Inr mvs1, st')"
    by (auto simp: Let_def split: prod.splits option.splits sum.splits)
  from Cons.IH[OF rest] Cons.prems(2)
  have IH: "\<forall>v\<in>set vs. holds S (variant_key us story v) (variant_bytes ms v) st'"
    "\<And>k r. k \<notin> variant_key us story ` set vs \<Longrightarrow> os_Get S k r st' = os_Get S k r st1" by auto
  from up obtain data n where put: "os_Put S ?k (v_MIME v) (Inr data) n st = (None, st1)" and "variant_bytes ms v = Some data"
    by (auto simp: uploadVariant_def variant_bytes_def split: if_splits option.splits)
  with put_get[OF put] have "holds S ?k (variant_bytes ms v) st1" by (auto simp: holds_def)
  moreover have "?k \<notin> variant_key us story ` set vs" using Cons.prems(2) by auto
  ultimately have "holds S ?k (variant_bytes ms v) st'" using IH(2)[of ?k "''''"] by (simp add: holds_def)
  with IH put_other[OF put] show ?case by auto
qed simp

end

section \<open>Properties\<close>

definition wit_cfg :: Config where
  "wit_cfg = setDefaults ''h'' 1 \<lparr>Role = '''', WorkerID = '''', MediaLeaseDuration = 0, MediaPollInterval = 0,
    MediaLimits = zero_Limits, CleanupInterval = 0, CleanupLeaseDuration = 0, CleanupBatchSize = 0, StoryLifetime = 0,
    ViewRetention = 0, MaxJobs = 1, MaxDuration = 0\<rparr>"

definition wit_clean :: cleanup_step where
  "wit_clean = \<lparr>cs_done = False, cs_claim_env = wit_env, cs_env = wit_env, cs_locked = (\<lambda>_. False)\<rparr>"

definition wit_pass :: pass_step where
  "wit_pass = \<lparr>ps_reap = wit_env, ps_expire = wit_env, ps_gc = wit_env, ps_replies = wit_env, ps_views = wit_env,
    ps_auth = wit_env, ps_locked = (\<lambda>_. False), ps_draw = id, ps_nid = 50\<rparr>"

definition wit_image :: Variant where
  "wit_image = memory_variant (\<lambda>_. ''c'') VariantImage ''j'' ''image/jpeg'' 6 4"

definition wit_media :: media_step where
  "wit_media = \<lparr>ms_env = wit_env, ms_nid = 60, ms_draw = (\<lambda>_. 61), ms_tempdir_err = None, ms_open_err = None,
    ms_copy_err = None, ms_files = (\<lambda>_. None), ms_process = (\<lambda>_ _. Produced [wit_image])\<rparr>"

definition wit_once :: once_step where
  "wit_once = \<lparr>on_ctx = None, on_wall = 0, on_env = wit_env, on_locked = (\<lambda>_. False), on_media = wit_media\<rparr>"

definition wit_objects :: memoryStore where
  "wit_objects = [''k'' \<mapsto> \<lparr>mo_data = ''raw'', mo_contentType = ''image/png'', mo_etag = ''''\<rparr>]"



lemma new_cleanup_due: "t \<le> now \<Longrightarrow> cleanup_due now (new_cleanup nid kind payload t)"
  by (simp add: cleanup_due_def new_cleanup_def)

lemma memory_delete_succeeds: "fst (os_Delete (NewMemory sha) ks st) = None"
  by (simp add: NewMemory_def memory_Delete_def)



lemma failMediaJob_published:
  assumes "si \<in> set (stories (failMediaJob ms job story code msg retryable d))" and "si_State si = StoryPublished"
  shows "si \<in> set (stories d)"
proof -
  let ?P = "\<lambda>si. si_ID si = story \<and> si_State si = StoryProcessing"
  let ?f = "\<lambda>si. si\<lparr>si_State := StoryFailed, si_failure_code := Some code, si_failure_message := Some msg\<rparr>"
  have "stories (failMediaJob ms job story code msg retryable d) \<in> {stories d, update_where ?P ?f (stories d)}"
  proof (cases "find (\<lambda>j. mj_ID j = mj_ID job) (media_jobs d)")
    case None
    then show ?thesis by (simp add: failMediaJob_def FailMediaJob_def)
  next
    case (Some j)
    then show ?thesis
      by (cases "retryable \<and> mj_Attempts j < mj_MaxAttempts j")
        (simp_all add: failMediaJob_def FailMediaJob_def Let_def schedule_original_cleanup_def)
  qed
  moreover have "si \<noteq> ?f q" for q
  proof
    assume "si = ?f q"
    then have "si_State si = StoryFailed" by simp
    with assms(2) show False by simp
  qed
  ultimately show ?thesis using assms(1) in_update_where[of si ?P ?f "stories d"] by fastforce
qed

lemma safe_segments:
  "list_all safe_char (variant_kind_text k) \<and> variant_kind_text k \<noteq> []"
  "list_all safe_char (extForMIME m) \<and> extForMIME m \<noteq> []"
proof -
  show "list_all safe_char (variant_kind_text k) \<and> variant_kind_text k \<noteq> []"
    by (cases k) (simp_all add: safe_char_def safe_rune_def)
  have "extForMIME m \<in> {''jpg'', ''png'', ''webp'', ''mp4'', ''bin''}"
    by (auto simp: extForMIME_def mimeExtensions_def split: if_splits)
  then show "list_all safe_char (extForMIME m) \<and> extForMIME m \<noteq> []"
    by (auto simp: safe_char_def safe_rune_def)
qed

lemma variant_key_kind: "variant_key us story v = variant_key us story w \<Longrightarrow> v_Kind v = v_Kind w"
  unfolding variant_key_def VariantKey_inject_segments by (simp add: sanitizeSegment_id safe_segments)

lemma distinct_variant_keys: "distinct (map v_Kind vs) \<Longrightarrow> distinct (map (variant_key us story) vs)"
  by (induction vs) (auto dest: variant_key_kind)

text \<open>The steps of a handled job up to the publication.\<close>

lemma handleMediaJob_published:
  assumes "handleMediaJob S pu us cfg ms job (d, st) = (d', st')"
    and "si' \<in> set (stories d')" "si_State si' = StoryPublished" "si' \<notin> set (stories d)"
  obtains s original vs mvs r where "pu (in_StoryItemID (mj_Input job)) = Some s"
    "downloadOriginal S cfg ms (in_ObjectKey (mj_Input job)) st = Inr original"
    "ms_process ms original (mj_Input job) = Produced vs" "upload_variants S us ms s vs st = (Inr mvs, st')"
    "PublishStory (ms_env ms) (ms_draw ms) (ms_nid ms) \<lparr>pr_JobID = mj_ID job, pr_StoryID = s, pr_Variants = mvs\<rparr> (StoryLifetime cfg) d = Inr (r, d')"
proof -
  have nf: "d' \<noteq> failMediaJob ms job story code msg rt d" for story code msg rt
    using failMediaJob_published[of si' ms job story code msg rt d] assms(2-4) by auto
  have "d' \<noteq> d" using assms(2,4) by auto
  note run = assms(1)[unfolded handleMediaJob_def Let_def prod.case]
  have t: "ms_tempdir_err ms = None" using run nf by (cases "ms_tempdir_err ms") auto
  obtain s where s: "pu (in_StoryItemID (mj_Input job)) = Some s"
    using run nf t by (cases "pu (in_StoryItemID (mj_Input job))") auto
  obtain original where o1: "downloadOriginal S cfg ms (in_ObjectKey (mj_Input job)) st = Inr original"
    using run nf t s by (cases "downloadOriginal S cfg ms (in_ObjectKey (mj_Input job)) st") (auto split: download_error.splits)
  obtain vs where vs: "ms_process ms original (mj_Input job) = Produced vs"
    using run nf t s o1 by (cases "ms_process ms original (mj_Input job)") (auto split: option.splits)
  obtain up st1 where up: "upload_variants S us ms s vs st = (up, st1)" by (cases "upload_variants S us ms s vs st")
  obtain mvs where mvs: "up = Inr mvs" using run nf t s o1 vs up by (cases up) auto
  let ?pub = "PublishStory (ms_env ms) (ms_draw ms) (ms_nid ms) \<lparr>pr_JobID = mj_ID job, pr_StoryID = s, pr_Variants = mvs\<rparr> (StoryLifetime cfg) d"
  obtain r d1 where pub: "?pub = Inr (r, d1)" using run \<open>d' \<noteq> d\<close> t s o1 vs up mvs by (cases ?pub) auto
  have "d1 = d'" "st1 = st'" using run t s o1 vs up mvs pub by simp_all
  with that[OF s o1 vs, of mvs r] up mvs pub show ?thesis by simp
qed


text \<open>A Story that is deleted while its job runs leaves its media behind: the handler stores
  every variant, the publication is refused, and the database is left as it was, so the job stays
  leased to be tried again and no cleanup job names the stored objects.\<close>

theorem deleted_while_processing_leaks:
  assumes "ms_tempdir_err ms = None" and "pu (in_StoryItemID (mj_Input job)) = Some s"
    and "downloadOriginal (NewMemory sha) cfg ms (in_ObjectKey (mj_Input job)) st = Inr original"
    and "ms_process ms original (mj_Input job) = Produced vs" and "distinct (map v_Kind vs)"
    and "upload_variants (NewMemory sha) us ms s vs st = (Inr mvs, st1)"
    and "\<not> list_ex (\<lambda>si. si_ID si = s \<and> si_State si = StoryProcessing) (stories d)"
  shows "handleMediaJob (NewMemory sha) pu us cfg ms job (d, st) = (d, st1)
    \<and> (\<forall>v\<in>set vs. \<exists>ob. memory_Get (variant_key us s v) '''' st1 = Inr ob \<and> Some (ob_Body ob) = variant_bytes ms v)"
proof
  let ?res = "\<lparr>pr_JobID = mj_ID job, pr_StoryID = s, pr_Variants = mvs\<rparr>"
  have "PublishStory (ms_env ms) (ms_draw ms) (ms_nid ms) ?res (StoryLifetime cfg) d \<noteq> Inr x" for x
  proof
    assume p: "PublishStory (ms_env ms) (ms_draw ms) (ms_nid ms) ?res (StoryLifetime cfg) d = Inr x"
    obtain r d' where x: "x = (r, d')" by (cases x)
    from PublishStory_Inr[OF p[unfolded x]] assms(7) show False by simp
  qed
  then obtain err where "PublishStory (ms_env ms) (ms_draw ms) (ms_nid ms) ?res (StoryLifetime cfg) d = Inl err"
    by (cases "PublishStory (ms_env ms) (ms_draw ms) (ms_nid ms) ?res (StoryLifetime cfg) d") auto
  with assms(1-4,6) show "handleMediaJob (NewMemory sha) pu us cfg ms job (d, st) = (d, st1)"
    by (simp add: handleMediaJob_def)
  show "\<forall>v\<in>set vs. \<exists>ob. memory_Get (variant_key us s v) '''' st1 = Inr ob \<and> Some (ob_Body ob) = variant_bytes ms v"
    using memory.upload_variants_stored[OF assms(6) distinct_variant_keys[OF assms(5)]]
    by (simp add: holds_def NewMemory_def)
qed

definition wit_job :: MediaJob where
  "wit_job = \<lparr>mj_ID = 6, mj_UploadIntentID = 5, mj_UserID = 3, mj_State = JobLeased,
    mj_Input = \<lparr>in_ObjectKey = ''k'', in_DeclaredMIME = ''image/png'', in_ByteSize = 3, in_Checksum = ''c'',
      in_StoryItemID = ''7'', in_Filename = ''f''\<rparr>,
    mj_Attempts = 1, mj_MaxAttempts = 5, mj_CreatedAt = 100, mj_UpdatedAt = 100\<rparr>"

lemma wit_download: "downloadOriginal (NewMemory id) wit_cfg wit_media ''k'' wit_objects = Inr ''raw''"
  by (simp add: downloadOriginal_def NewMemory_def memory_Get_def wit_objects_def wit_cfg_def setDefaults_def
      DefaultLimits_def wit_media_def Let_def)

lemma wit_image_fields: "v_TempPath wit_image = ''''" "v_Data wit_image = ''j''" "v_MIME wit_image = ''image/jpeg''"
  by (simp_all add: wit_image_def memory_variant_def)

abbreviation "wit_key \<equiv> variant_key (\<lambda>_. ''u'') 7 wit_image"

lemma wit_upload:
  "upload_variants (NewMemory id) (\<lambda>_. ''u'') wit_media 7 [wit_image] wit_objects
    = (Inr [media_variant 7 wit_key wit_image],
       wit_objects(wit_key \<mapsto> \<lparr>mo_data = ''j'', mo_contentType = ''image/jpeg'', mo_etag = ''j''\<rparr>))"
proof -
  have "wit_key \<noteq> ''''" by (simp add: variant_key_def VariantKey_def)
  then show ?thesis
    using wit_image_fields by (simp add: uploadVariant_def NewMemory_def memory_Put_def Let_def)
qed


theorem deleted_while_processing_leaks_witness:
  "\<exists>ob st1. handleMediaJob (NewMemory id) (\<lambda>_. Some 7) (\<lambda>_. ''u'') wit_cfg wit_media wit_job
        (wit_story_db StoryDeleted, wit_objects) = (wit_story_db StoryDeleted, st1)
    \<and> memory_Get wit_key '''' st1 = Inr ob \<and> ob_Body ob = ''j'' \<and> cleanup_jobs (wit_story_db StoryDeleted) = []"
proof -
  have wm: "ms_tempdir_err wit_media = None" "ms_process wit_media original (mj_Input wit_job) = Produced [wit_image]" for original
    by (simp_all add: wit_media_def)
  have job: "in_ObjectKey (mj_Input wit_job) = ''k''" by (simp add: wit_job_def)
  have none: "\<not> list_ex (\<lambda>si. si_ID si = 7 \<and> si_State si = StoryProcessing) (stories (wit_story_db StoryDeleted))"
    "cleanup_jobs (wit_story_db StoryDeleted) = []"
    by (simp_all add: wit_story_defs)
  have b: "variant_bytes wit_media wit_image = Some ''j''"
    by (simp add: variant_bytes_def wit_image_def memory_variant_def)
  from deleted_while_processing_leaks[OF wm(1) refl wit_download[folded job] wm(2) _ wit_upload none(1)] b none(2)
  show ?thesis by auto
qed

end
