(* ===== verification/Findings.thy ===== *)
theory Findings
  imports Router
begin

text \<open>
  Where the handlers do something other than what they are for: a follow that does not meet a block,
  a settings change answered with the old settings, a moderation action that is applied and not
  logged, a listing that ends too early.  Each is a fact about the composed handlers.
\<close>

lemma passes_ok_json: "passes f (ok_json hs doc)"
  by (simp add: ok_json_def passes_steps)

section \<open>A follow and the block it meets\<close>

lemma add_block_reads [simp]:
  "registered (d\<lparr>blocks := bs\<rparr>) g = registered d g"
  "UserByGitHubID g (d\<lparr>blocks := bs\<rparr>) = UserByGitHubID g d"
  "IdentityByLogin l (d\<lparr>blocks := bs\<rparr>) = IdentityByLogin l d"
  "user_exists (d\<lparr>blocks := bs\<rparr>) i = user_exists d i" "identity_exists (d\<lparr>blocks := bs\<rparr>) g = identity_exists d g"
proof -
  show r: "registered (d\<lparr>blocks := bs\<rparr>) g = registered d g" for g by (simp add: registered_def)
  show "IdentityByLogin l (d\<lparr>blocks := bs\<rparr>) = IdentityByLogin l d"
    by (simp add: IdentityByLogin_def scanIdentity_def r cong: option.map_cong_simp)
qed (simp_all add: UserByGitHubID_def user_join_def user_exists_def identity_exists_def)

text \<open>The block the caller meets is one of the target's account against the caller.  The handler asks
  with \<^verbatim>\<open>uuid.Nil\<close> in place of that account, so a block by anybody but the caller changes neither the
  answer nor the follow.\<close>

theorem follow_ignores_block:
  assumes "hr_User r = Some u" and "fst b \<noteq> u_ID u" and "fst b \<noteq> Nil_uuid"
  shows "putFollow srv out hs r (d\<lparr>blocks := blocks d @ [b]\<rparr>)
    = apsnd (\<lambda>d. d\<lparr>blocks := blocks d @ [b]\<rparr>) (putFollow srv out hs r d)"
proof -
  let ?f = "\<lambda>d. d\<lparr>blocks := blocks d @ [b]\<rparr>"
  have known_caller: "passes ?f (andthen (known (mustCaller r)) k)" if "passes ?f (k u)" for k
    using that assms(1) by (cases "mustCaller r"; cases "Active (Some u)")
      (simp_all add: passes_def andthen_def known_def mustCaller_simps)
  have "passes ?f (putFollow srv out hs r)"
    unfolding putFollow_def resolveTarget_def Let_def using assms(2,3)
    by (intro known_caller passes_andthen passes_steps passes_ok_json passes_writes)
      (auto simp: BlockedEitherWay_def Follow_def NotifyFollow_def passes_steps split: sum.split intro!: passes_writes)
  then show ?thesis by (simp add: passes_def)
qed

section \<open>A settings change and its answer\<close>

text \<open>The answer to a settings change is read from the caller's account as it was authenticated, before
  the change: it shows the old settings, whatever was asked for.\<close>

theorem settings_answer_stale:
  assumes "patchSettings body srv out hs r d = (Inr rsp, d')" and "hr_User r = Some u"
  shows "\<exists>doc. rsp = WriteJSON hs 200 (JSON (SettingsDoc doc))
    \<and> sg_DefaultVisibility doc = visibility_text (u_DefaultVisibility u)
    \<and> sg_DefaultAllowReplies doc = u_DefaultAllowReplies u \<and> sg_DefaultAllowReactions doc = u_DefaultAllowReactions u"
proof -
  obtain d1 where g: "getSettings srv out hs r d1 = (Inr rsp, d')"
    using assms(1) by (auto simp: patchSettings_def andthen_Inr)
  then obtain v where v: "mustCaller r = Inr v"
    by (cases "mustCaller r") (auto simp: getSettings_def act_simps)
  with assms(2) have m: "mustCaller r = Inr u" by (simp add: mustCaller_Inr)
  from g obtain lists where "ListAudienceLists (u_ID u) d1 = Inr lists"
    by (cases "ListAudienceLists (u_ID u) d1") (auto simp: getSettings_def m act_simps)
  with g show ?thesis by (auto simp: getSettings_def m act_simps ok_json_def)
qed

section \<open>A moderation action and its log\<close>

lemma DeleteStory_logs:
  "DeleteStory e nid owner sid m reason d = Inr ((), d') \<Longrightarrow> moderation_actions d' = moderation_actions d
    \<and> reports d' = reports d"
  by (auto simp: DeleteStory_def scheduleStoryObjectCleanup_def EnqueueCleanup_def Let_def split: if_splits)

text \<open>The action and its record are two transactions.  Removing a Story with the id of a report that
  does not exist removes the Story, answers an internal error, and leaves no record of who did it.\<close>

theorem removal_unlogged:
  assumes "mustCaller r = Inr u" and "DecodeJSON body (8 * 1024) = Inr req" and "length (runes (mq_Reason req)) \<le> 500"
    and "mq_Kind req = ''remove_story''" and "mq_Login req = ''''" and "mq_ReportID req \<noteq> ''''" and "mq_StoryID req \<noteq> ''''"
    and "sr_parse srv (mq_ReportID req) = Some rid" and "sr_parse srv (mq_StoryID req) = Some sid"
    and "\<not> list_ex (\<lambda>q. rep_ID q = rid) (reports d)"
    and "DeleteStory (ou_env out 0) (ou_id out 0) (u_ID u) sid True (mq_Reason req) d = Inr ((), d')"
  shows "postModerationAction body srv out hs r d = (Inl (internal (ErrDB Foreign_key_violation)), d')
    \<and> moderation_actions d' = moderation_actions d"
proof -
  note D = DeleteStory_logs[OF assms(11)]
  have "RecordModerationAction (ou_env out 1) (u_ID u) ''remove_story'' (Some rid) (Some sid) None (mq_Reason req) d'
      = Inl (ErrDB Foreign_key_violation)"
    using D assms(10) by (simp add: RecordModerationAction_def action_kinds_def ref_ok_def)
  then show ?thesis
    using assms D by (simp add: postModerationAction_def act_simps optional_id_def apply_action_def)
qed

section \<open>A page of follows of the same instant\<close>

lemma listRelationships_cursor:
  assumes "listRelationships n xs = (rows, Some c)"
  shows "\<exists>x\<in>set xs. snd x = c"
proof -
  let ?out = "take (page_limit 50 200 n) (sort_key (\<lambda>r. - snd r) xs)"
  from assms have ne: "?out \<noteq> []" and l: "c = snd (last ?out)"
    unfolding listRelationships_def Let_def by (cases ?out; auto split: if_splits)+
  from last_in_set[OF ne] have "last ?out \<in> set xs" by (metis in_set_takeD set_sort)
  with l show ?thesis by blast
qed

text \<open>An import writes all its follows in one transaction, so they carry one creation time.  A page of
  them that is full names that time as the cursor, and the next page is empty, however many follows
  there are.\<close>

theorem following_pages_lose_imports:
  assumes "\<forall>r\<in>set (relationships d). r_FollowerUserID r = u \<and> r_State r = RelationshipActive \<longrightarrow> r_CreatedAt r = t"
    and "ListFollowing u gid n None d = (rows, Some cursor)"
  shows "cursor = t \<and> ListFollowing u gid n (Some cursor) d = ([], None)"
proof -
  let ?rows = "\<lambda>after. [relationship_flags d u gi
         (list_ex (\<lambda>rb. list_ex (\<lambda>ub. us_id ub = r_FollowerUserID rb \<and> us_github_user_id ub = gi_GitHubID gi) (users d)
            \<and> r_FolloweeGitHubID rb = gid \<and> r_State rb = RelationshipActive) (relationships d)) r.
        r \<leftarrow> filter (\<lambda>r. r_FollowerUserID r = u \<and> r_State r = RelationshipActive
               \<and> before_cursor after (r_CreatedAt r)) (relationships d),
        gi \<leftarrow> filter (\<lambda>gi. gi_GitHubID gi = r_FolloweeGitHubID r) (identities d)]"
  from assms(2) have "\<exists>x\<in>set (?rows None). snd x = cursor"
    unfolding ListFollowing_def by (rule listRelationships_cursor)
  with assms(1) have c: "cursor = t" by (auto simp: relationship_flags_def)
  have "filter (\<lambda>r. r_FollowerUserID r = u \<and> r_State r = RelationshipActive \<and> before_cursor (Some t) (r_CreatedAt r)) (relationships d) = []"
    using assms(1) by (auto simp: filter_empty_conv before_cursor_def)
  then have "ListFollowing u gid n (Some t) d = ([], None)"
    unfolding ListFollowing_def listRelationships_def Let_def by simp
  with c show ?thesis by simp
qed

end
