(* ===== verification/Account.thy ===== *)
theory Account
  imports Router
begin

text \<open>
  \<^verbatim>\<open>src/internal/account/account.go\<close>: the server-rendered pages.  A page is the name of its template
  and the data the template is given; the template engine and the cookie, form and query parsers of
  \<^verbatim>\<open>net/http\<close> are outside.  A handler ends with an answer; answering early is the left side of a step.
\<close>

section \<open>Requests and pages\<close>

record web_request =
  wq_Path :: string
  wq_Param :: "string \<Rightarrow> string"
  wq_Query :: "string \<Rightarrow> string"
  wq_Form :: "(string \<Rightarrow> string) option"
  wq_Cookie :: "string \<Rightarrow> string option"

record home_data =
  hd_Items :: "StoryItem list"
  hd_Unread :: nat
  hd_ImportState :: string
  hd_ImportAdded :: string
  hd_ImportAlready :: string
  hd_ImportUnfollowed :: string
  hd_ImportBlocked :: string
  hd_ImportSample :: "string list"
  hd_NeedsOnboarding :: bool

record settings_data =
  sd_Sessions :: "Session list"
  sd_Blocked :: "Identity list"
  sd_Muted :: "Identity list"
  sd_Hidden :: "Identity list"
  sd_ReplyRetentionDays :: int

record story_data =
  yd_Item :: StoryItem
  yd_IsVideo :: bool
  yd_MediaURL :: string
  yd_Poster :: string
  yd_Expires :: "time option"

datatype page_payload =
    NoData
  | HomeData home_data
  | PendingData PendingLogin string
  | ApprovedData bool
  | CodeData string
  | SettingsData settings_data
  | ReportsData "Report list"
  | StoryData story_data

record pageData =
  pd_Title :: string
  pd_User :: "User option"
  pd_Version :: string
  pd_PublicURL :: string
  pd_Data :: page_payload
  pd_Error :: string
  pd_SignedIn :: bool
  pd_OAuthReady :: bool

datatype web_answer =
    Page headers string pageData
  | RedirectTo int string
  | HttpError int string

type_synonym web_handler = "server \<Rightarrow> string \<Rightarrow> outside \<Rightarrow> web_request \<Rightarrow> (web_answer, web_answer) act"

definition page_of :: "string \<Rightarrow> User option \<Rightarrow> page_payload \<Rightarrow> string \<Rightarrow> pageData" where
  "page_of title u x err =
    \<lparr>pd_Title = title, pd_User = u, pd_Version = '''', pd_PublicURL = '''', pd_Data = x, pd_Error = err,
     pd_SignedIn = False, pd_OAuthReady = False\<rparr>"

definition quote :: "string \<Rightarrow> string" where "quote s = [CHR 0x27] @ s @ [CHR 0x27]"

definition page :: "server \<Rightarrow> string \<Rightarrow> string \<Rightarrow> pageData \<Rightarrow> (web_answer, web_answer) act" where
  "page srv version name pd =
    returns (Page
      (set_header ''Content-Security-Policy'' (''default-src '' @ quote ''none'' @ ''; img-src '' @ quote ''self'' @ ''; media-src '' @ quote ''self''
          @ ''; style-src '' @ quote ''self'' @ '' '' @ quote ''unsafe-inline'' @ ''; form-action '' @ quote ''self''
          @ ''; frame-ancestors '' @ quote ''none'' @ ''; base-uri '' @ quote ''none'')
        (set_header ''X-Frame-Options'' ''DENY''
        (set_header ''Cache-Control'' ''no-store''
        (set_header ''Content-Type'' ''text/html; charset=utf-8'' []))))
      name
      (pd\<lparr>pd_Version := version, pd_PublicURL := public_url (sr_Cfg srv), pd_SignedIn := pd_User pd \<noteq> None,
          pd_OAuthReady := GitHubOAuthConfigured (sr_Cfg srv)\<rparr>))"

section \<open>The visitor\<close>

definition web_cookie :: string where "web_cookie = ''ghs_session''"

text \<open>\<^verbatim>\<open>caller\<close> and \<^verbatim>\<open>requireUser\<close>.  A use of the session is recorded even when the page is then refused.\<close>

definition web_caller :: "server \<Rightarrow> outside \<Rightarrow> web_request \<Rightarrow> (web_answer, User option) act" where
  "web_caller srv out r =
    (case (wq_Cookie r web_cookie, sr_Auth srv) of
       (Some v, Some s) \<Rightarrow>
         if v = '''' then returns None
         else andthen (tries (Authenticate s out v)) (\<lambda>x. returns (case x of Inl e \<Rightarrow> None | Inr (sess, u) \<Rightarrow> Some u))
     | _ \<Rightarrow> returns None)"

definition login_redirect :: "web_request \<Rightarrow> web_answer" where
  "login_redirect r = RedirectTo 302 (''/login?return_to='' @ QueryEscape (wq_Path r))"

definition requireUser :: "server \<Rightarrow> outside \<Rightarrow> web_request \<Rightarrow> (web_answer, User) act" where
  "requireUser srv out r =
    andthen (web_caller srv out r) (\<lambda>u.
    case u of None \<Rightarrow> fails (login_redirect r) | Some u \<Rightarrow> returns u)"

section \<open>Pages\<close>

definition getLogin :: web_handler where
  "getLogin srv ver out r =
    (let rt = wq_Query r ''return_to''; dest = ''/v1/auth/github/start'' in
     returns (RedirectTo 302
       (if rt \<noteq> '''' \<and> HasPrefix rt ''/'' \<and> \<not> HasPrefix rt ''//'' then dest @ ''?return_to='' @ QueryEscape rt else dest)))"

text \<open>\<^verbatim>\<open>importSample\<close>: the test of one name is that of the API's \<^verbatim>\<open>isGitHubLogin\<close>.\<close>

fun import_names :: "string list \<Rightarrow> string list \<Rightarrow> string list" where
  "import_names out [] = out"
| "import_names out (name # names) =
    (if name = '''' \<or> 39 < length name \<or> 5 \<le> length out \<or> hd name = CHR ''-'' \<or> last name = CHR ''-'' then import_names out names
     else if login_chars CHR '' '' name then import_names (out @ [name]) names
     else import_names out names)"

definition importSample :: "string \<Rightarrow> string list" where
  "importSample raw = (if raw = '''' then [] else import_names [] (split_on CHR '','' raw))"

definition getHome :: web_handler where
  "getHome srv ver out r =
    andthen (requireUser srv out r) (\<lambda>u.
    andthen (reads (OwnSequence (ou_env out 2) (u_ID u))) (\<lambda>items.
    andthen (reads (UnreadCount (u_ID u))) (\<lambda>unread.
    page srv ver ''home.html'' (page_of ''Your Stories'' (Some u) (HomeData
      \<lparr>hd_Items = items, hd_Unread = unread, hd_ImportState = wq_Query r ''import'', hd_ImportAdded = wq_Query r ''added'',
       hd_ImportAlready = wq_Query r ''already'', hd_ImportUnfollowed = wq_Query r ''unfollowed'',
       hd_ImportBlocked = wq_Query r ''blocked'', hd_ImportSample = importSample (wq_Query r ''sample''),
       hd_NeedsOnboarding = (u_OnboardedAt u = None)\<rparr>) ''''))))"

definition getOnboarding :: web_handler where
  "getOnboarding srv ver out r =
    andthen (requireUser srv out r) (\<lambda>u.
    if u_OnboardedAt u \<noteq> None then returns (RedirectTo 302 ''/account'')
    else page srv ver ''onboarding.html'' (page_of ''Welcome'' (Some u) NoData ''''))"

definition postSkipOnboarding :: web_handler where
  "postSkipOnboarding srv ver out r =
    andthen (requireUser srv out r) (\<lambda>u.
    andthen (executes (\<lambda>e. HttpError 500 ''could not save that'') (MarkOnboarded (ou_env out 2) (u_ID u))) (\<lambda>_.
    returns (RedirectTo 303 ''/account'')))"


section \<open>Authorizing a device\<close>

definition authorize_error :: "server \<Rightarrow> string \<Rightarrow> User \<Rightarrow> string \<Rightarrow> (web_answer, web_answer) act" where
  "authorize_error srv ver u msg = page srv ver ''authorize.html'' (page_of ''Authorize'' (Some u) NoData msg)"

definition getAuthorize :: web_handler where
  "getAuthorize srv ver out r =
    andthen (requireUser srv out r) (\<lambda>u.
    case sr_parse srv (wq_Query r ''request'') of
      None \<Rightarrow> authorize_error srv ver u ''That authorization request is not valid.''
    | Some i \<Rightarrow>
        andthen (reads (PendingLogin_get i)) (\<lambda>found.
        case found of
          Inl e \<Rightarrow> authorize_error srv ver u ''That authorization request has expired or was already used.''
        | Inr pending \<Rightarrow>
            if pg_State pending \<noteq> LPending
            then authorize_error srv ver u ''That authorization request has expired or was already used.''
            else page srv ver ''authorize.html''
              (page_of ''Authorize a device'' (Some u) (PendingData pending (sr_text srv i)) '''')))"

definition postAuthorize :: "service \<Rightarrow> web_handler" where
  "postAuthorize s srv ver out r =
    andthen (requireUser srv out r) (\<lambda>u.
    case wq_Form r of
      None \<Rightarrow> returns (HttpError 400 ''bad form'')
    | Some form \<Rightarrow>
        (case sr_parse srv (form ''request'') of
           None \<Rightarrow> returns (HttpError 400 ''bad request id'')
         | Some i \<Rightarrow>
             if form ''action'' = ''deny'' then
               andthen (tries (Service_DenyPendingLogin i)) (\<lambda>_.
               page srv ver ''authorized.html'' (page_of ''Denied'' (Some u) (ApprovedData False) ''''))
             else
               (let code = TrimSpace (form ''user_code'') in
                andthen (tries (Service_ApprovePendingLogin s (later 2 out) i (u_ID u) code)) (\<lambda>res.
                case res of
                  Inl e \<Rightarrow> authorize_error srv ver u
                    ''That code does not match the request. Check your terminal and try again.''
                | Inr _ \<Rightarrow> page srv ver ''authorized.html'' (page_of ''Authorized'' (Some u) (ApprovedData True) '''')))))"

definition getDevice :: web_handler where
  "getDevice srv ver out r =
    andthen (requireUser srv out r) (\<lambda>u.
    page srv ver ''device.html'' (page_of ''Authorize a device'' (Some u) (CodeData (TrimSpace (wq_Query r ''code''))) ''''))"

definition postDevice :: web_handler where
  "postDevice srv ver out r =
    andthen (requireUser srv out r) (\<lambda>u.
    case wq_Form r of
      None \<Rightarrow> returns (HttpError 400 ''bad form'')
    | Some form \<Rightarrow>
        andthen (reads (PendingLoginByCode (ou_env out 2) (TrimSpace (form ''user_code'')))) (\<lambda>found.
        case found of
          Inl e \<Rightarrow> page srv ver ''device.html'' (page_of ''Authorize a device'' (Some u) (CodeData '''')
            ''That code is not valid, or it has already been used or expired.'')
        | Inr pending \<Rightarrow> returns (RedirectTo 303 (''/account/authorize?request='' @ sr_text srv (pg_ID pending)))))"

section \<open>Settings and moderation\<close>

definition web_getSettings :: web_handler where
  "web_getSettings srv ver out r =
    andthen (requireUser srv out r) (\<lambda>u.
    andthen (reads (ListSessions (ou_env out 2) (u_ID u))) (\<lambda>ss.
    andthen (reads (ListSimple blocks (u_ID u))) (\<lambda>blocked.
    andthen (reads (ListSimple mutes (u_ID u))) (\<lambda>muted.
    andthen (reads (ListSimple hide_rules (u_ID u))) (\<lambda>hidden.
    page srv ver ''settings.html'' (page_of ''Settings'' (Some u) (SettingsData
      \<lparr>sd_Sessions = ss, sd_Blocked = blocked, sd_Muted = muted, sd_Hidden = hidden,
       sd_ReplyRetentionDays = truncated_div (cf_ReplyRetention (sr_Cfg srv)) Day\<rparr>) ''''))))))"

definition not_found_page :: web_answer where "not_found_page = HttpError 404 ''404 page not found''"

definition getModeration :: web_handler where
  "getModeration srv ver out r =
    andthen (requireUser srv out r) (\<lambda>u.
    if \<not> u_IsModerator u then returns not_found_page
    else andthen (reads (ListReports ReportOpen 50)) (\<lambda>reps.
      page srv ver ''moderation.html'' (page_of ''Moderation'' (Some u) (ReportsData reps) '''')))"

section \<open>The shared link\<close>

definition story_page :: "server \<Rightarrow> StoryItem \<Rightarrow> story_data" where
  "story_page srv item =
    (let video = StoryItem_MediaKind item = MediaVideo;
         kind = (if video then VariantVideo else VariantImage);
         media = ''/v1/media/'' @ sr_text srv (si_ID item) in
     \<lparr>yd_Item = item, yd_IsVideo = video, yd_MediaURL = media @ ''/'' @ variant_kind_text kind,
      yd_Poster = media @ ''/poster'', yd_Expires = si_ExpiresAt item\<rparr>)"

definition author_login :: "StoryItem \<Rightarrow> string" where
  "author_login item = (case si_Author item of None \<Rightarrow> '''' | Some a \<Rightarrow> gi_Login a)"

definition getExternalViewer :: web_handler where
  "getExternalViewer srv ver out r =
    (case sr_parse srv (wq_Param r ''storyId'') of
       None \<Rightarrow> returns not_found_page
     | Some i \<Rightarrow>
         andthen (web_caller srv out r) (\<lambda>u.
         case u of
           None \<Rightarrow>
             andthen (reads (PublicStory (ou_env out 2) i)) (\<lambda>found.
             case found of
               Inl e \<Rightarrow> returns (if e = ErrNotFound then login_redirect r else HttpError 500 ''error'')
             | Inr item \<Rightarrow> page srv ver ''story.html''
                 (page_of (''Story by '' @ author_login item) None (StoryData (story_page srv item)) ''''))
         | Some u \<Rightarrow>
             if \<not> Active (Some u) then returns (HttpError 403 ''suspended'')
             else
               andthen (reads (StoryForViewer (ou_env out 2) (u_ID u) (u_GitHubID u) i)) (\<lambda>found.
               case found of
                 Inl e \<Rightarrow>
                   if e = ErrNotFound then page srv ver ''gone.html'' (page_of ''Story expired'' (Some u) NoData '''')
                   else returns (HttpError 500 ''error'')
               | Inr item \<Rightarrow> page srv ver ''story.html'' (page_of ''Story'' (Some u) (StoryData (story_page srv item)) ''''))))"

text \<open>The ages a page shows.  The floating-point hours and minutes of \<^verbatim>\<open>time.Duration\<close> are exact below the
  bounds they are used under.\<close>

definition web_itoa :: "int \<Rightarrow> string" where
  "web_itoa n = (if n = 0 then ''0'' else (if n < 0 then ''-'' else '''') @ itoa_loop (nat \<bar>n\<bar>) [])"

definition relativeTime :: "time \<Rightarrow> time option \<Rightarrow> string" where
  "relativeTime now t =
    (case t of
       None \<Rightarrow> ''''
     | Some t \<Rightarrow>
         (let d = now - t in
          if d < Minute then ''just now''
          else if d < Hour then web_itoa (truncated_div d Minute) @ ''m''
          else if d < 24 * Hour then web_itoa (truncated_div d Hour) @ ''h''
          else web_itoa (truncated_div d Hour div 24) @ ''d''))"

section \<open>The routes\<close>

definition web_routes :: "service \<Rightarrow> (string \<times> segment list \<times> web_handler) list" where
  "web_routes s = [
    (''GET'', [Lit ''login''], getLogin),
    (''GET'', [Lit ''account''], getHome),
    (''GET'', [Lit ''account'', Lit ''onboarding''], getOnboarding),
    (''POST'', [Lit ''account'', Lit ''onboarding'', Lit ''skip''], postSkipOnboarding),
    (''GET'', [Lit ''device''], getDevice),
    (''POST'', [Lit ''device''], postDevice),
    (''GET'', [Lit ''account'', Lit ''authorize''], getAuthorize),
    (''POST'', [Lit ''account'', Lit ''authorize''], postAuthorize s),
    (''GET'', [Lit ''account'', Lit ''settings''], web_getSettings),
    (''GET'', [Lit ''account'', Lit ''moderation''], getModeration),
    (''GET'', [Lit ''s'', Param ''storyId''], getExternalViewer)]"

definition web_answered :: "(web_answer, web_answer) act \<Rightarrow> db \<Rightarrow> web_answer \<times> db" where
  "web_answered m d = (case m d of (Inl a, d') \<Rightarrow> (a, d') | (Inr a, d') \<Rightarrow> (a, d'))"

definition serve_web :: "service \<Rightarrow> server \<Rightarrow> string \<Rightarrow> outside \<Rightarrow> string \<Rightarrow> web_request \<Rightarrow> db \<Rightarrow> web_answer \<times> db" where
  "serve_web s srv ver out method r d =
    (let segs = path_segments (wq_Path r) in
     case find (\<lambda>(m, p, h). m = method \<and> match_path p segs \<noteq> None) (web_routes s) of
       Some (m, p, h) \<Rightarrow>
         web_answered (h srv ver out (r\<lparr>wq_Param := \<lambda>n. case match_path p segs of
             None \<Rightarrow> '''' | Some bs \<Rightarrow> (case map_of bs n of None \<Rightarrow> '''' | Some v \<Rightarrow> v)\<rparr>)) d
     | None \<Rightarrow>
         (if list_ex (\<lambda>(m, p, h). match_path p segs \<noteq> None) (web_routes s) then HttpError 405 '''' else not_found_page, d))"

end
