(* ===== verification/Gateway.thy ===== *)
theory Gateway
  imports Router
begin

text \<open>
  What the media gateway lets through: bytes leave only under the visibility predicate evaluated in
  the same request.
\<close>

section \<open>The gateway\<close>

lemma get_add_header [simp]: "k' \<noteq> k \<Longrightarrow> get_header k (add_header k' v hs) = get_header k hs"
  by (induction hs) (auto simp: get_header_def add_header_def)

lemma stream_simps [simp]:
  "rsp_Body (stream hs r obj) = (if hr_Method r = ''HEAD'' then NoBody else Bytes (ob_Body obj))"
  "get_header ''Cache-Control'' (rsp_Headers (stream hs r obj)) = get_header ''Cache-Control'' hs"
  by (simp_all add: stream_def Let_def)

lemma private_media_no_store [simp]:
  "get_header ''Cache-Control'' (private_media_headers obj v hs) = ''private, no-store, max-age=0''"
  by (simp add: private_media_headers_def)

lemma variant_of_item:
  assumes "StoryItem_Variant (loadVariants d (scanStory si au gi)) kind = Some v"
  shows "v \<in> set (variants d) \<and> mv_StoryID v = si_ID si \<and> mv_Kind v = kind"
  using find_Some_in[OF assms[unfolded StoryItem_Variant_def]] by (auto simp: loadVariants_def)

text \<open>The response carries an object of a variant of the Story, or nothing.\<close>

definition serves_variant :: "server \<Rightarrow> request \<Rightarrow> db \<Rightarrow> uuid \<Rightarrow> VariantKind \<Rightarrow> payload response \<Rightarrow> bool" where
  "serves_variant srv r d sid kind rsp \<longleftrightarrow>
    (\<exists>v obj. v \<in> set (variants d) \<and> mv_StoryID v = sid \<and> mv_Kind v = kind
       \<and> sr_Get srv (mv_ObjectKey v) (hr_Header r ''Range'') = Inr obj
       \<and> rsp_Body rsp \<in> {NoBody, Bytes (ob_Body obj)})"

lemma servePrivate_Inl:
  assumes "servePrivateMedia srv out hs r u sid kind d = (Inl e, d')"
  shows "e = NotFound \<and> d' = d"
  using assms
  by (auto simp: servePrivateMedia_def act_simps missing_or_internal_def missing_object_def StoryForViewer_Inl andthen_known
      split: sum.splits option.splits if_splits)

lemma servePublic_Inl:
  assumes "servePublicMedia srv out hs r sid kind d = (Inl e, d')"
  shows "e = NotFound \<and> d' = d"
proof -
  have "PublicStory (ou_env out 0) sid d = Inl x \<Longrightarrow> x = ErrNotFound" for x
    by (auto simp: PublicStory_def scan_first_def split: option.splits)
  then show ?thesis using assms
    by (auto simp: servePublicMedia_def act_simps missing_or_internal_def missing_object_def andthen_known
        split: sum.splits option.splits if_splits)
qed

lemma RecordView_effect:
  "\<exists>vs. (case RecordView e sid u d of Inl x \<Rightarrow> d | Inr (y, d1) \<Rightarrow> d1) = d\<lparr>views := vs\<rparr>"
  "story_exists d sid \<Longrightarrow> user_exists d u \<Longrightarrow> Seen sid u (case RecordView e sid u d of Inl x \<Rightarrow> d | Inr (y, d1) \<Rightarrow> d1)"
proof -
  have w: "RecordView e sid u d = Inr (y, d1) \<Longrightarrow> \<exists>vs. d1 = d\<lparr>views := vs\<rparr>" for y d1
    by (auto simp: RecordView_def split: if_splits intro: exI[of _ "views d"])
  show "\<exists>vs. (case RecordView e sid u d of Inl x \<Rightarrow> d | Inr (y, d1) \<Rightarrow> d1) = d\<lparr>views := vs\<rparr>"
  proof (cases "RecordView e sid u d")
    case (Inl x)
    then show ?thesis by (simp add: exI[of _ "views d"])
  next
    case (Inr p)
    obtain d1 where "p = ((), d1)" by (cases p) simp
    with Inr w[of "()" d1] show ?thesis by simp
  qed
  show "story_exists d sid \<Longrightarrow> user_exists d u \<Longrightarrow> Seen sid u (case RecordView e sid u d of Inl x \<Rightarrow> d | Inr (y, d1) \<Rightarrow> d1)"
    unfolding RecordView_def Seen_def same_view_def new_view_def by (simp add: list_ex_insert_new split: if_splits)
qed

lemma servePrivate_Inr:
  assumes "servePrivateMedia srv out hs r u sid kind d = (Inr rsp, d')"
  shows "serves_variant srv r d sid kind rsp
    \<and> get_header ''Cache-Control'' (rsp_Headers rsp) = ''private, no-store, max-age=0''
    \<and> (\<exists>vs. d' = d\<lparr>views := vs\<rparr>)
    \<and> (\<exists>si\<in>set (stories d). \<exists>au\<in>set (users d). si_ID si = sid \<and> us_id au = si_AuthorUserID si
        \<and> may_see d (u_ID u) (u_GitHubID u) (now_at out 0) si au
        \<and> (if ContentBearing kind \<and> si_AuthorUserID si \<noteq> u_ID u then user_exists d (u_ID u) \<longrightarrow> Seen sid (u_ID u) d' else d' = d))"
proof -
  from assms obtain item where i: "StoryForViewer (ou_env out 0) (u_ID u) (u_GitHubID u) sid d = Inr item"
    by (auto simp: servePrivateMedia_def act_simps split: sum.splits)
  from StoryForViewer_Inr[OF i] obtain si au gi where s: "si \<in> set (stories d)" "au \<in> set (users d)" "si_ID si = sid"
    "us_id au = si_AuthorUserID si" "visibleToViewer d (u_ID u) (u_GitHubID u) (Now (ou_env out 0)) si au"
    "item = loadVariants d (scanStory si au gi)" by blast
  from assms i obtain v obj where v: "StoryItem_Variant item kind = Some v"
    "sr_Get srv (mv_ObjectKey v) (hr_Header r ''Range'') = Inr obj"
    and rsp: "rsp = stream (private_media_headers obj v hs) r obj"
    and d': "d' = (if ContentBearing kind \<and> si_AuthorUserID item \<noteq> u_ID u
      then (case RecordView (ou_env out 1) sid (u_ID u) d of Inl x \<Rightarrow> d | Inr (y, d1) \<Rightarrow> d1) else d)"
    by (auto simp: servePrivateMedia_def act_simps andthen_known missing_object_def split: sum.splits option.splits if_splits)
  have "story_exists d sid" using s by (auto simp: story_exists_def list_ex_iff)
  moreover have "serves_variant srv r d sid kind rsp"
    using variant_of_item[of d si au gi kind v] v s rsp by (auto simp: serves_variant_def)
  moreover have "\<exists>vs. d' = d\<lparr>views := vs\<rparr>"
    unfolding d' using RecordView_effect(1)[where d = d] by (auto intro: exI[of _ "views d"])
  moreover have "if ContentBearing kind \<and> si_AuthorUserID si \<noteq> u_ID u then user_exists d (u_ID u) \<longrightarrow> Seen sid (u_ID u) d' else d' = d"
    unfolding d' s(6) using RecordView_effect(2)[where d = d] calculation(1) by simp
  ultimately show ?thesis
    using s(1-5) rsp by (intro conjI bexI[of _ si] bexI[of _ au]) (simp_all add: now_at_def visibleToViewer_eq_may_see)
qed

text \<open>What an anonymous delivery writes: the aggregate count of one Story.\<close>

lemma servePublic_Inr:
  assumes "servePublicMedia srv out hs r sid kind d = (Inr rsp, d')"
  shows "serves_variant srv r d sid kind rsp
    \<and> (\<exists>ss. d' = d\<lparr>stories := ss\<rparr>
        \<and> map (si_anonymous_view_count_update (\<lambda>_. 0)) ss = map (si_anonymous_view_count_update (\<lambda>_. 0)) (stories d))
    \<and> (\<exists>si\<in>set (stories d). \<exists>au\<in>set (users d). si_ID si = sid \<and> us_id au = si_AuthorUserID si
        \<and> si_Visibility si = Public \<and> Live (Some si) (now_at out 0) \<and> us_suspended_at au = None \<and> us_deleted_at au = None)"
proof -
  from assms obtain item where i: "PublicStory (ou_env out 0) sid d = Inr item"
    by (auto simp: servePublicMedia_def act_simps split: sum.splits)
  from PublicStory_Inr[OF i] obtain si au gi where s: "(si, au, gi) \<in> set (story_join d)" "si_ID si = sid"
    "Live (Some si) (Now (ou_env out 0))" "us_suspended_at au = None" "us_deleted_at au = None" "si_Visibility si = Public"
    "item = loadVariants d (scanStory si au gi)" by blast
  from assms i obtain v obj where v: "StoryItem_Variant item kind = Some v"
    "sr_Get srv (mv_ObjectKey v) (hr_Header r ''Range'') = Inr obj"
    and rsp: "rsp = stream (public_media_headers obj v hs) r obj"
    and d': "d' = (if ContentBearing kind
      then (case RecordAnonymousView (ou_env out 1) sid d of Inl x \<Rightarrow> d | Inr (y, d1) \<Rightarrow> d1) else d)"
    by (auto simp: servePublicMedia_def act_simps andthen_known missing_object_def split: sum.splits option.splits if_splits)
  have "map (si_anonymous_view_count_update (\<lambda>_. 0)) (update_where P (\<lambda>si. si\<lparr>si_anonymous_view_count := f si\<rparr>) ss)
      = map (si_anonymous_view_count_update (\<lambda>_. 0)) ss" for P f and ss :: "story_row list"
    by (rule map_update_where) simp
  then have "\<exists>ss. d' = d\<lparr>stories := ss\<rparr>
      \<and> map (si_anonymous_view_count_update (\<lambda>_. 0)) ss = map (si_anonymous_view_count_update (\<lambda>_. 0)) (stories d)"
    unfolding d' RecordAnonymousView_def by (cases "ContentBearing kind") (auto intro: exI[of _ "stories d"])
  moreover have "serves_variant srv r d sid kind rsp"
    using variant_of_item[of d si au gi kind v] v s rsp by (auto simp: serves_variant_def)
  ultimately show ?thesis
    using s by (auto simp: now_at_def story_join_in intro!: bexI[of _ si] bexI[of _ au])
qed


section \<open>A server\<close>

definition wit_server :: server where
  "wit_server = \<lparr>sr_Cfg = wit_config, sr_Auth = Some wit_service,
    sr_Get = (\<lambda>k range. Inr \<lparr>ob_Body = ''png'', ob_ContentType = ''image/png'', ob_ContentLength = 3, ob_ContentRange = '''',
      ob_ETag = '''', ob_StatusCode = 0\<rparr>),
    sr_PresignPut = (\<lambda>k m n t. Inr (''url'', [])), sr_text = (\<lambda>u. replicate u CHR ''x''), sr_parse = (\<lambda>s. map_of [(''xxxxxxx'', 7), (''xxxxxxxx'', 8)] s),
    sr_cursor = (\<lambda>s. None), sr_sha = id, sr_reply_request = (\<lambda>s b. s @ b), sr_reply_json = rq_Body,
    sr_stamp = (\<lambda>t. ''t''), sr_rnd = id, sr_escape = id, sr_url = (\<lambda>s. None)\<rparr>"

definition wit_request :: request where
  "wit_request = \<lparr>hr_Method = ''GET'', hr_Path = '''', hr_Param = (\<lambda>n. if n = ''storyId'' then ''xxxxxxx'' else ''image''),
    hr_Query = (\<lambda>n. ''''), hr_Header = (\<lambda>n. ''''), hr_RemoteAddr = '''', hr_User = None, hr_Session = None\<rparr>"

definition wit_media_db :: db where
  "wit_media_db = wit_live_db\<lparr>variants := [\<lparr>mv_ID = 1, mv_StoryID = 7, mv_Kind = VariantImage, mv_ObjectKey = ''k'', mv_MIME = ''image/png'',
    mv_Width = 1, mv_Height = 1, mv_DurationMS = 0, mv_ByteSize = 3, mv_Checksum = '''', mv_HasAudio = False\<rparr>]\<rparr>"

lemma wit_server_fields [simp]:
  "sr_Cfg wit_server = wit_config" "sr_Auth wit_server = Some wit_service" "sr_text wit_server u = replicate u CHR ''x''"
  "sr_parse wit_server ''xxxxxxx'' = Some 7" "sr_sha wit_server = id" "sr_reply_request wit_server sid b = sid @ b"
  "sr_reply_json wit_server = rq_Body" "sr_rnd wit_server = id"
  "sr_Get wit_server k rng = Inr \<lparr>ob_Body = ''png'', ob_ContentType = ''image/png'', ob_ContentLength = 3,
     ob_ContentRange = '''', ob_ETag = '''', ob_StatusCode = 0\<rparr>"
  by (simp_all add: wit_server_def)

lemma wit_request_fields [simp]:
  "hr_Method wit_request = ''GET''" "hr_Param wit_request ''storyId'' = ''xxxxxxx''" "hr_Param wit_request ''variant'' = ''image''"
  "hr_User wit_request = None" "hr_Query wit_request n = ''''" "hr_Header wit_request n = ''''"
  by (simp_all add: wit_request_def)

lemma wit_outside_fields [simp]: "ou_env wit_outside i = wit_env" "ou_id wit_outside i = 77"
  by (simp_all add: wit_outside_def)


end
