(* ===== verification/Secrecy.thy ===== *)
theory Secrecy
  imports Gateway
begin

text \<open>
  What the handlers tell about a Story its caller may not see: nothing.
\<close>

definition without :: "uuid \<Rightarrow> db \<Rightarrow> db" where
  "without sid d = d\<lparr>stories := filter (\<lambda>si. si_ID si \<noteq> sid) (stories d)\<rparr>"

text \<open>Not the caller's Story, and not one the visibility rule admits the caller to.\<close>

definition unseen :: "db \<Rightarrow> time \<Rightarrow> User \<Rightarrow> uuid \<Rightarrow> bool" where
  "unseen d now u sid \<longleftrightarrow>
    (\<forall>si\<in>set (stories d). si_ID si = sid \<longrightarrow> si_AuthorUserID si \<noteq> u_ID u
       \<and> (\<forall>au\<in>set (users d). us_id au = si_AuthorUserID si \<longrightarrow> \<not> may_see d (u_ID u) (u_GitHubID u) now si au))"

lemma unseen_without [simp]: "unseen (without sid d) now u sid"
  by (simp add: unseen_def without_def)

lemma scanIdentity_stories [simp]: "scanIdentity (d\<lparr>stories := x\<rparr>) = scanIdentity d"
  by (simp add: fun_eq_iff scanIdentity_def registered_def)

lemma without_same [simp]:
  "IdempotentReplay sha v scope key req (without sid d) = IdempotentReplay sha v scope key req d"
  "AudienceList_get v l (without sid d) = AudienceList_get v l d"
  "list_row_exists (without sid d) l2 = list_row_exists d l2"
  by (simp_all add: without_def IdempotentReplay_def AudienceList_get_def list_row_exists_def members_of_def
      cong: option.case_cong)

lemma unseen_StoryForViewer:
  "unseen d (Now e) u sid \<Longrightarrow> StoryForViewer e (u_ID u) (u_GitHubID u) sid d = Inl ErrNotFound"
  by (auto simp: StoryForViewer_Inl unseen_def story_join_in visibleToViewer_eq_may_see)

lemma unseen_not_mine: "unseen d now u sid \<Longrightarrow> si \<in> set (stories d) \<Longrightarrow> si_ID si = sid \<Longrightarrow> si_AuthorUserID si \<noteq> u_ID u"
  by (simp add: unseen_def)

lemma unseen_reads:
  assumes "unseen d now u sid"
  shows "OwnStory (u_ID u) sid d = Inl ErrNotFound" "Viewers (u_ID u) sid d = Inl ErrNotFound"
    "DeleteStory e nid (u_ID u) sid False why d = Inl ErrNotFound"
    "UpdateStory (u_ID u) sid c a vis l ar ax d = Inl ErrNotFound"
proof -
  note n = unseen_not_mine[OF assms]
  show "OwnStory (u_ID u) sid d = Inl ErrNotFound"
    unfolding OwnStory_def scan_first_find_Inl using n by (auto simp: story_join_in)
  show "Viewers (u_ID u) sid d = Inl ErrNotFound" using n by (auto simp: Viewers_def list_ex_iff)
  show "DeleteStory e nid (u_ID u) sid False why d = Inl ErrNotFound"
    using n by (auto simp: DeleteStory_def Let_def affected_zero)
  show "UpdateStory (u_ID u) sid c a vis l ar ax d = Inl ErrNotFound"
    using n by (auto simp: UpdateStory_def Let_def affected_zero list_ex_iff)
qed

lemma unseen_media:
  assumes "unseen d (now_at out 0) u sid"
  shows "servePrivateMedia srv out hs r u sid kind d = (Inl NotFound, d)"
  using unseen_StoryForViewer[OF assms[unfolded now_at_def]] by (simp add: servePrivateMedia_def act_simps missing_or_internal_def)

text \<open>C2. No route is an oracle for private Stories: whatever a signed-in caller asks of a Story that is
  not the caller's and that the visibility rule does not admit the caller to (its metadata, its media,
  a view, its viewers, an edit, a deletion, a reaction, a reply), the answer is the one the caller
  would get if the Story did not exist, and nothing is written.\<close>

theorem unseen_is_absent:
  assumes "hr_User r = Some u" and "Active (Some u)" and "sr_parse srv (hr_Param r ''storyId'') = Some sid"
    and "unseen d (now_at out 0) u sid"
    and "h \<in> {getStory, getMedia, postView, getViewers, deleteStory, patchStory b1, putReaction b2, postReply b3}"
  shows "snd (h srv out hs r d) = d \<and> fst (h srv out hs r d) = fst (h srv out hs r (without sid d))"
proof -
  have m: "mustCaller r = Inr u" using assms(1,2) by (simp add: mustCaller_Inr)
  have p: "pathUUID srv r ''storyId'' = Inr sid" using assms(3) by (simp add: pathUUID_def)
  have v: "StoryForViewer (ou_env out 0) (u_ID u) (u_GitHubID u) sid d = Inl ErrNotFound"
    "StoryForViewer (ou_env out 0) (u_ID u) (u_GitHubID u) sid (without sid d) = Inl ErrNotFound"
    using assms(4) by (simp_all add: unseen_StoryForViewer now_at_def)
  note q = unseen_reads[OF assms(4)] unseen_reads[OF unseen_without[of sid d "now_at out 0" u]]
  note media = unseen_media[OF assms(4)] unseen_media[OF unseen_without[of sid d "now_at out 0" u]]
  note base = act_simps m p v q assms(1,2) caller_def missing_or_internal_def missing_def
  from assms(5) consider "h = getStory" | "h = getMedia" | "h = postView" | "h = getViewers" | "h = deleteStory"
    | "h = patchStory b1" | "h = putReaction b2" | "h = postReply b3" by blast
  then show ?thesis
  proof cases
    case 1
    then show ?thesis by (simp add: getStory_def storyForCaller_def queries_def andthen_def[of "storyForCaller out u sid"] base)
  next
    case 2
    then show ?thesis by (simp add: getMedia_def base media split: option.split)
  next
    case 3
    then show ?thesis by (simp add: postView_def base)
  next
    case 4
    then show ?thesis by (simp add: getViewers_def base)
  next
    case 5
    then show ?thesis by (simp add: deleteStory_def base)
  next
    case 6
    then show ?thesis
      by (cases "DecodeJSON b1 (8 * 1024)")
        (simp_all add: patchStory_def base andthen_known resolveAudienceList_def andthen_assoc split: sum.split option.split)
  next
    case 7
    then show ?thesis by (cases "DecodeJSON b2 1024") (simp_all add: putReaction_def base)
  next
    case 8
    then show ?thesis by (cases "DecodeJSON b3 (4 * 1024)") (simp_all add: postReply_def base Let_def split: prod.split)
  qed
qed

definition wit_bob :: User where
  "wit_bob = scanUser (wit_user 2 12) (identity_values wit_env (wit_identity 12 ''bob''))"

lemma wit_bob_fields [simp]: "u_ID wit_bob = 2" "u_GitHubID wit_bob = 12" "Active (Some wit_bob)"
  by (simp_all add: wit_bob_def scanUser_def Active_def wit_user_def new_user_def)

theorem unseen_is_absent_witness:
  "getMedia wit_server wit_outside [] (wit_request\<lparr>hr_User := Some wit_bob\<rparr>) (wit_story_db StoryProcessing)
     = (Inl NotFound, wit_story_db StoryProcessing)
   \<and> fst (getMedia wit_server wit_outside [] (wit_request\<lparr>hr_User := Some wit_bob\<rparr>) (wit_story_db StoryProcessing))
     = fst (getMedia wit_server wit_outside [] (wit_request\<lparr>hr_User := Some wit_bob\<rparr>) (without 7 (wit_story_db StoryProcessing)))"
proof -
  let ?r = "wit_request\<lparr>hr_User := Some wit_bob\<rparr>"
  have u: "unseen (wit_story_db StoryProcessing) (now_at wit_outside 0) wit_bob 7"
    by (simp add: unseen_def may_see_def Live_def wit_story_defs wit_bob_def scanUser_def)
  have p: "sr_parse wit_server (hr_Param ?r ''storyId'') = Some 7" by simp
  have A: "fst (getMedia wit_server wit_outside [] ?r (wit_story_db StoryProcessing))
      = fst (getMedia wit_server wit_outside [] ?r (without 7 (wit_story_db StoryProcessing)))"
    by (rule unseen_is_absent[where u = wit_bob, OF _ _ p u, THEN conjunct2]) simp_all
  have "asked_variant ''image'' = Some VariantImage" by (simp add: asked_variant_def)
  then have "getMedia wit_server wit_outside [] ?r (wit_story_db StoryProcessing) = (Inl NotFound, wit_story_db StoryProcessing)"
    by (simp add: getMedia_def act_simps pathUUID_def caller_def unseen_media[OF u])
  with A show ?thesis by simp
qed

end
