(* ===== verification/Doors.thy ===== *)
theory Doors
  imports Gateway
begin

text \<open>
  Who reaches which route: the groups of \<^verbatim>\<open>routes.go\<close> as they work in front of every handler.
\<close>

section \<open>Routes and access\<close>

lemma find_route_in:
  assumes "find_route r = Some ro"
  shows "ro \<in> set routes \<and> ro_Method ro = hr_Method r \<and> serves (path_segments (hr_Path r)) ro"
  using assms by (auto simp: find_route_def Let_def dest: find_Some_in split: option.splits)

lemma admit_anonymous:
  "hr_User r = None \<Longrightarrow> acc \<noteq> Anonymous \<Longrightarrow> admit acc r = Inl (Unauthorized ''Sign in to GitHub Stories to do that.'')"
  by (cases acc) (simp_all add: admit_def requireAuth_def mustCaller_simps)

lemma admit_moderators:
  "hr_User r = Some u \<Longrightarrow> Active (Some u) \<Longrightarrow> \<not> u_IsModerator u \<Longrightarrow> admit Moderators r = Inl NotFound"
  by (simp add: admit_def requireAuth_def requireModerator_def mustCaller_simps)

text \<open>Authentication adds the caller to the request and leaves the rest alone.\<close>

lemma Authenticate_Inl: "Authenticate s out token d = (Inl e, d') \<Longrightarrow> d' = d"
  by (auto simp: Authenticate_def Let_def act_simps split: if_splits sum.splits prod.splits)

lemma authenticate_effect:
  assumes "authenticate srv out (r\<lparr>hr_User := None, hr_Session := None\<rparr>) d = (r0, d0)"
  shows "(\<exists>u s. r0 = r\<lparr>hr_User := u, hr_Session := s\<rparr>) \<and> hr_Method r0 = hr_Method r \<and> hr_Path r0 = hr_Path r
    \<and> (hr_User r0 = None \<longrightarrow> d0 = d)"
  using assms by (auto simp: authenticate_def Let_def dest: Authenticate_Inl split: option.splits if_splits prod.splits sum.splits)

text \<open>What an anonymous caller may ask for.\<close>

definition open_doors :: "(string \<times> segment list) list" where
  "open_doors = map (\<lambda>(m, p). (m, Lit ''v1'' # p)) [
    (''GET'', [Lit ''health'', Lit ''live'']), (''GET'', [Lit ''health'', Lit ''ready'']),
    (''GET'', [Lit ''auth'', Lit ''github'', Lit ''start'']), (''GET'', [Lit ''auth'', Lit ''github'', Lit ''callback'']),
    (''POST'', [Lit ''auth'', Lit ''cli'', Lit ''pending'']), (''POST'', [Lit ''auth'', Lit ''device'', Lit ''start'']),
    (''POST'', [Lit ''auth'', Lit ''cli'', Lit ''poll'']), (''POST'', [Lit ''auth'', Lit ''device'', Lit ''poll'']),
    (''GET'', [Lit ''stories'', Param ''storyId'']), (''GET'', [Lit ''media'', Param ''storyId'', Param ''variant'']),
    (''HEAD'', [Lit ''media'', Param ''storyId'', Param ''variant'']), (''POST'', [Lit ''stories'', Param ''storyId'', Lit ''view''])]"

lemma anonymous_open:
  "ro \<in> set routes \<Longrightarrow> ro_Access ro = Anonymous \<Longrightarrow> (ro_Method ro, ro_Pattern ro) \<in> set open_doors"
proof -
  have "list_all (\<lambda>ro. ro_Access ro = Anonymous \<longrightarrow> (ro_Method ro, ro_Pattern ro) \<in> set open_doors) routes"
    unfolding routes_def list_all_append
  proof (intro conjI)
    show "list_all (\<lambda>ro. ro_Access ro = Anonymous \<longrightarrow> (ro_Method ro, ro_Pattern ro) \<in> set open_doors) anonymous_routes"
      by (simp add: anonymous_routes_def on_def open_doors_def)
    show "list_all (\<lambda>ro. ro_Access ro = Anonymous \<longrightarrow> (ro_Method ro, ro_Pattern ro) \<in> set open_doors) signed_in_routes"
      by (simp add: signed_in_routes_def on_def reading_def mutation_def)
    show "list_all (\<lambda>ro. ro_Access ro = Anonymous \<longrightarrow> (ro_Method ro, ro_Pattern ro) \<in> set open_doors) moderator_routes"
      by (simp add: moderator_routes_def on_def)
  qed
  then show "ro \<in> set routes \<Longrightarrow> ro_Access ro = Anonymous \<Longrightarrow> (ro_Method ro, ro_Pattern ro) \<in> set open_doors"
    by (auto simp: list_all_iff)
qed

section \<open>The two doors\<close>


text \<open>A moderation route and a path that no route serves.\<close>

definition nowhere :: string where "nowhere = ''/v1/nothing''"

lemma nowhere_unserved: "list_ex (serves (path_segments nowhere)) routes = False"
proof -
  have p: "path_segments nowhere = [''v1'', ''nothing'']"
    by (simp add: path_segments_def nowhere_def TrimPrefix_def HasPrefix_def)
  show ?thesis
    unfolding routes_def list_ex_append p
    by (simp add: anonymous_routes_def signed_in_routes_def moderator_routes_def on_def reading_def mutation_def serves_def)
qed

lemma nowhere_route: "find_route (r\<lparr>hr_Path := nowhere\<rparr>) = None" "no_route (r\<lparr>hr_Path := nowhere\<rparr>) = NotFound"
proof -
  have "\<not> serves (path_segments nowhere) ro" if "ro \<in> set routes" for ro
    using nowhere_unserved that by (auto simp: list_ex_iff)
  then show "find_route (r\<lparr>hr_Path := nowhere\<rparr>) = None"
    by (auto simp: find_route_def Let_def find_None_iff split: option.split)
  show "no_route (r\<lparr>hr_Path := nowhere\<rparr>) = NotFound" by (simp add: no_route_def nowhere_unserved)
qed

text \<open>The moderation queue is not advertised: to a signed-in account that is no moderator the
  answer to a moderation route is, headers included, the answer to a path that does not exist, and
  the state is the same afterwards.\<close>

theorem moderation_hidden:
  assumes "authenticate srv out (r\<lparr>hr_User := None, hr_Session := None\<rparr>) d = (r0, d0)"
    and "hr_User r0 = Some u" and "Active (Some u)" and "\<not> u_IsModerator u"
    and "find_route r = Some ro" and "ro_Access ro = Moderators"
  shows "handle srv out rid b r (l, d) = handle srv out rid b (r\<lparr>hr_Path := nowhere\<rparr>) (l, d)
    \<and> snd (handle srv out rid b r (l, d)) \<in> {(l, d), (l, d0)}"
proof -
  let ?q = "\<lambda>r. r\<lparr>hr_Path := nowhere\<rparr>"
  have a: "authenticate srv out (?q r\<lparr>hr_User := None, hr_Session := None\<rparr>) d = (?q r0, d0)"
    using assms(1)
    by (auto simp: authenticate_def Let_def bearerToken_def split: option.splits if_splits prod.splits sum.splits)
  have f: "find_route r0 = Some ro"
    using authenticate_effect[OF assms(1)] assms(5) by (simp add: find_route_def)
  have c: "cors srv (?q r) hs = cors srv r hs" for hs by (simp add: cors_def)
  have d1: "dispatch srv out b hs r0 (l, d0) = (WriteError hs NotFound, l, d0)" for hs
    using f assms(6) admit_moderators[OF assms(2-4)] by (simp add: dispatch_def)
  have d2: "dispatch srv out b hs (?q r0) (l, d0) = (WriteError hs NotFound, l, d0)" for hs
    by (simp add: dispatch_def nowhere_route)
  show ?thesis
    unfolding handle_def prod.case c assms(1) a d1 d2 by (simp split: prod.split bool.split)
qed

section \<open>Instances\<close>

definition wit_incoming :: incoming where
  "wit_incoming = \<lparr>bo_newUUID = ''n'', bo_version = ''v'', bo_commit = ''c'', bo_ping = True, bo_stored = None,
    bo_reference = (\<lambda>s. None), bo_login = (\<lambda>n. Malformed_JSON), bo_poll = (\<lambda>n. Malformed_JSON), bo_device = (\<lambda>n. Malformed_JSON),
    bo_status = (\<lambda>n. Malformed_JSON), bo_upload = (\<lambda>n. Malformed_JSON), bo_finalize = (\<lambda>n. Malformed_JSON),
    bo_reply = (\<lambda>n. Decoded ''hi''), bo_reaction = (\<lambda>n. Malformed_JSON), bo_report = (\<lambda>n. Malformed_JSON),
    bo_update = (\<lambda>n. Malformed_JSON), bo_inbox = (\<lambda>n. Malformed_JSON), bo_import = (\<lambda>n. Malformed_JSON),
    bo_settings = (\<lambda>n. Malformed_JSON), bo_list = (\<lambda>n. Malformed_JSON), bo_list_patch = (\<lambda>n. Malformed_JSON),
    bo_action = (\<lambda>n. Malformed_JSON)\<rparr>"


definition wit_moderation_request :: request where
  "wit_moderation_request = wit_request\<lparr>hr_Path := ''/v1/moderation/reports'',
    hr_Header := (\<lambda>n. if n = ''Authorization'' then ''Bearer tok'' else '''')\<rparr>"

theorem moderation_hidden_witness:
  "handle wit_server wit_outside ''id'' wit_incoming wit_moderation_request (New 0, wit_login_db)
    = handle wit_server wit_outside ''id'' wit_incoming (wit_moderation_request\<lparr>hr_Path := nowhere\<rparr>) (New 0, wit_login_db)"
proof -
  let ?r = "wit_moderation_request"
  have t: "bearerToken (?r\<lparr>hr_User := None, hr_Session := None\<rparr>) = ''tok''"
    by (simp add: wit_moderation_request_def bearerToken_def TrimSpace_def is_space_def)
  have s: "TrimSpace ''tok'' = ''tok''" by (simp add: TrimSpace_def is_space_def)
  have "\<exists>p. SessionByToken id wit_env ''tok'' wit_login_db = Inr p \<and> Active (Some (snd p)) \<and> \<not> u_IsModerator (snd p)"
    by (simp add: SessionByToken_def session_join_def wit_login_db_def new_session_def HashToken_def wit_story_defs
        Active_def scanUser_def)
  then obtain se u where q: "SessionByToken id wit_env ''tok'' wit_login_db = Inr (se, u)" "Active (Some u)" "\<not> u_IsModerator u"
    by auto
  have w: "au_sha wit_service = id" by (simp add: wit_service_def)
  obtain r0 d0 where a: "authenticate wit_server wit_outside (?r\<lparr>hr_User := None, hr_Session := None\<rparr>) wit_login_db = (r0, d0)"
    by (cases "authenticate wit_server wit_outside (?r\<lparr>hr_User := None, hr_Session := None\<rparr>) wit_login_db")
  then have u: "hr_User r0 = Some u"
    using q by (auto simp: authenticate_def t Authenticate_def s Let_def act_simps w)
  have "path_segments ''/v1/moderation/reports'' = [''v1'', ''moderation'', ''reports'']"
    by (simp add: path_segments_def TrimPrefix_def HasPrefix_def)
  then have "\<exists>ro. find_route ?r = Some ro \<and> ro_Access ro = Moderators"
    by (simp add: find_route_def routes_def anonymous_routes_def signed_in_routes_def moderator_routes_def on_def reading_def
        mutation_def serves_def literal_def wit_moderation_request_def find_append)
  then obtain ro where "find_route ?r = Some ro" "ro_Access ro = Moderators" by auto
  from moderation_hidden[OF a u q(2,3) this] show ?thesis by blast
qed

end
