(* ===== verification/Pages.thy ===== *)
theory Pages
  imports Account Findings Secrecy Doors
begin

text \<open>
  What the account pages show and to whom: nothing but the sign-in page and a shared public Story
  without a session, nothing about a Story the visitor may not see, no approval without the code.
\<close>

section \<open>The visitor\<close>

lemma web_caller_Inr:
  assumes "web_caller srv out r d = (x, d')"
  obtains v where "x = Inr v" and "v = None \<Longrightarrow> d' = d"
proof -
  have "\<exists>v. x = Inr v \<and> (v = None \<longrightarrow> d' = d)"
    using assms by (auto simp: web_caller_def act_simps dest: Authenticate_Inl split: option.splits if_splits prod.splits sum.splits)
  with that show thesis by blast
qed

lemma web_caller_param [simp]:
  "web_caller srv out (r\<lparr>wq_Param := p\<rparr>) = web_caller srv out r" "login_redirect (r\<lparr>wq_Param := p\<rparr>) = login_redirect r"
  by (simp_all add: web_caller_def login_redirect_def cong: option.case_cong)

lemma requireUser_stranger:
  "web_caller srv out r d = (Inr None, d0) \<Longrightarrow> andthen (requireUser srv out r) k d = (Inl (login_redirect r), d)"
  using web_caller_Inr[of srv out r d "Inr None" d0] by (auto simp: requireUser_def andthen_def fails_def)

text \<open>C29. Deny by default on the web: a visitor without a valid session who asks for any page but the
  sign-in page and a shared Story is sent to sign in (or told that nothing is served there), and
  nothing is written.\<close>

theorem web_strangers_sign_in:
  assumes "serve_web s srv ver out meth r d = (a, d')" and "web_caller srv out r d = (Inr None, d0)"
    and "match_path [Lit ''login''] (path_segments (wq_Path r)) = None"
    and "match_path [Lit ''s'', Param ''storyId''] (path_segments (wq_Path r)) = None"
  shows "d' = d \<and> a \<in> {login_redirect r, not_found_page, HttpError 405 ''''}"
proof -
  let ?segs = "path_segments (wq_Path r)"
  let ?P = "\<lambda>(m, p, h :: web_handler). m = meth \<and> match_path p ?segs \<noteq> None"
  show ?thesis
  proof (cases "find ?P (web_routes s)")
    case None
    with assms(1) show ?thesis by (auto simp: serve_web_def Let_def split: if_splits)
  next
    case (Some x)
    obtain m p h where x: "x = (m, p, h)" by (cases x)
    with Some have i: "(m, p, h) \<in> set (web_routes s)" and mp: "match_path p ?segs \<noteq> None"
      by (auto dest!: find_Some_in)
    have "h \<in> {getHome, getOnboarding, postSkipOnboarding, getDevice, postDevice, getAuthorize, postAuthorize s,
        web_getSettings, getModeration}"
      using i mp assms(3,4) unfolding web_routes_def by auto
    then have "h srv ver out (r\<lparr>wq_Param := q\<rparr>) d = (Inl (login_redirect r), d)" for q
      using assms(2)
      by (auto simp: getHome_def getOnboarding_def postSkipOnboarding_def getDevice_def postDevice_def getAuthorize_def
          postAuthorize_def web_getSettings_def getModeration_def requireUser_stranger)
    with assms(1) Some x show ?thesis by (simp add: serve_web_def Let_def web_answered_def)
  qed
qed


section \<open>The shared link\<close>

lemma passes_without_caller: "passes (without sid) (web_caller srv out r)"
proof -
  have j: "SessionByToken sha e v (without sid d) = SessionByToken sha e v d" for sha e v d
    by (simp add: SessionByToken_def session_join_def without_def)
  have touch: "TouchSession e i (without sid d) = without sid (TouchSession e i d)" for e i d
    by (simp add: TouchSession_def without_def)
  have a: "passes (without sid) (Authenticate s out v)" for s v
    unfolding Authenticate_def Let_def
    by (intro passes_andthen passes_steps)
      (auto simp: j touch split: prod.split intro!: passes_andthen passes_steps passes_changes)
  show ?thesis
    unfolding web_caller_def
    by (auto intro!: passes_andthen passes_steps passes_tries a split: option.split)
qed

lemma web_caller_writes:
  assumes "web_caller srv out r d = (x, d')"
  shows "\<exists>ss. d' = d\<lparr>sessions := ss\<rparr>"
proof -
  have id: "d = d\<lparr>sessions := sessions d\<rparr>" by simp
  have "(\<exists>ss. d' = d\<lparr>sessions := ss\<rparr>) \<or> d' = d"
    using assms by (auto simp: web_caller_def act_simps Authenticate_def Let_def TouchSession_def
        split: option.splits if_splits prod.splits sum.splits)
  with id show ?thesis by metis
qed

lemma sessions_not_seen [simp]:
  "may_see (d\<lparr>sessions := ss\<rparr>) v g now si au = may_see d v g now si au"
  "unseen (d\<lparr>sessions := ss\<rparr>) now u sid = unseen d now u sid"
proof -
  show m: "may_see (d\<lparr>sessions := ss\<rparr>) v g now si au = may_see d v g now si au" for v g now si au
    by (cases "si_Visibility si")
      (simp_all add: may_see_def blocked_pair_def list_member_def active_follow_def)
  show "unseen (d\<lparr>sessions := ss\<rparr>) now u sid = unseen d now u sid" by (simp add: unseen_def m)
qed

lemma PublicStory_sessions [simp]: "PublicStory e i (d\<lparr>sessions := ss\<rparr>) = PublicStory e i d"
  by (simp add: PublicStory_def scan_first_def story_join_def loadVariants_def cong: option.case_cong)

lemma PublicStory_Inl: "PublicStory e i d = Inl err \<Longrightarrow> err = ErrNotFound"
  unfolding PublicStory_def scan_first_find_Inl by simp

text \<open>C30. A shared link is no oracle: for a Story the visitor may not see (without a session, one that
  is not public and live; with one, one that the visibility rule does not admit the account to) the
  page is, to the last character, the page for a Story that does not exist.\<close>

theorem shared_link_no_oracle:
  assumes "sr_parse srv (wq_Param r ''storyId'') = Some sid" and "web_caller srv out r d = (Inr v, d0)"
    and "case v of None \<Rightarrow> isl (PublicStory (ou_env out 2) sid d) | Some u \<Rightarrow> unseen d (now_at out 2) u sid"
  shows "fst (web_answered (getExternalViewer srv ver out r) d)
    = fst (web_answered (getExternalViewer srv ver out r) (without sid d))"
proof -
  obtain ss where d0: "d0 = d\<lparr>sessions := ss\<rparr>" using web_caller_writes[OF assms(2)] by blast
  have w: "web_caller srv out r (without sid d) = (Inr v, without sid d0)"
    using passes_without_caller[of sid srv out r] assms(2) by (simp add: passes_def)
  have pw: "PublicStory e sid (without sid d0) = Inl ErrNotFound" for e
    unfolding PublicStory_def scan_first_find_Inl by (auto simp: story_join_in without_def)
  show ?thesis
  proof (cases v)
    case None
    have "PublicStory (ou_env out 2) sid d0 = Inl ErrNotFound"
      using assms(3) None by (cases "PublicStory (ou_env out 2) sid d") (simp_all add: d0 PublicStory_Inl)
    with None assms(1,2) w pw show ?thesis
      by (simp add: getExternalViewer_def andthen_def act_simps_rules web_answered_def)
  next
    case (Some u)
    have u: "unseen d0 (now_at out 2) u sid" using assms(3) Some by (simp add: d0)
    have "StoryForViewer (ou_env out 2) (u_ID u) (u_GitHubID u) sid d0 = Inl ErrNotFound"
      "StoryForViewer (ou_env out 2) (u_ID u) (u_GitHubID u) sid (without sid d0) = Inl ErrNotFound"
      using unseen_StoryForViewer u unseen_without by (auto simp: now_at_def)
    with Some assms(1,2) w show ?thesis
      by (simp add: getExternalViewer_def andthen_def act_simps_rules web_answered_def page_def)
  qed
qed

section \<open>The names of an import\<close>

lemma split_on_none: "c \<notin> set s \<Longrightarrow> split_on c s = [s]"
  by (induction s) auto

lemma split_on_append: "c \<notin> set s \<Longrightarrow> split_on c (s @ c # t) = s # split_on c t"
  by (induction s) auto

lemma split_on_join:
  "\<forall>x\<in>set xs. c \<notin> set x \<Longrightarrow> xs \<noteq> [] \<Longrightarrow> split_on c (join [c] xs) = xs"
proof (induction xs)
  case (Cons x xs)
  then show ?case by (cases xs) (simp_all add: split_on_append split_on_none)
qed simp

lemma login_chars_first: "s \<noteq> '''' \<Longrightarrow> hd s \<noteq> CHR ''-'' \<Longrightarrow> login_chars b s = login_chars b' s"
  by (cases s) auto

lemma import_names_filter:
  "import_names out names = out @ take (5 - length out) (filter isGitHubLogin names)"
proof (induction out names rule: import_names.induct)
  case (2 out name names)
  then show ?case
    using login_chars_first[of name "CHR '' ''" "CHR ''-''"] by (auto simp: isGitHubLogin_def take_Cons')
qed simp

lemma login_no_comma: "isGitHubLogin s \<Longrightarrow> CHR '','' \<notin> set s"
proof -
  have "login_chars b s \<Longrightarrow> CHR '','' \<notin> set s" for b
    by (induction b s rule: login_chars.induct) (auto simp: is_digit_def)
  then show "isGitHubLogin s \<Longrightarrow> CHR '','' \<notin> set s" by (auto simp: isGitHubLogin_def)
qed

text \<open>The names an import hands to the account page arrive there: of at most five sampled accounts
  the page shows exactly those whose login has the shape of a GitHub login, in order, and whatever
  else somebody puts into the address, it shows only such names.\<close>

theorem import_sample_roundtrip:
  "(length ids \<le> 5 \<longrightarrow> importSample (sampleLogins ids) = filter isGitHubLogin (map gi_Login ids))
    \<and> (\<forall>name\<in>set (importSample raw). isGitHubLogin name) \<and> length (importSample raw) \<le> 5"
proof -
  let ?l = "filter isGitHubLogin (map gi_Login ids)"
  have nc: "\<forall>x\<in>set ?l. CHR '','' \<notin> set x" using login_no_comma by auto
  have "importSample (sampleLogins ids) = ?l" if "length ids \<le> 5"
  proof (cases "?l")
    case Nil
    then show ?thesis by (simp add: sampleLogins_def importSample_def)
  next
    case (Cons x xs)
    have "split_on CHR '','' (join '','' ?l) = ?l"
      by (rule split_on_join[OF nc]) (simp add: Cons)
    moreover have "length ?l \<le> 5" using that by (metis le_trans length_filter_le length_map)
    moreover have "join '','' ?l \<noteq> ''''"
      using Cons by (cases xs) (auto simp: isGitHubLogin_def dest!: filter_eq_ConsD)
    ultimately show ?thesis by (simp add: sampleLogins_def importSample_def import_names_filter)
  qed
  then show ?thesis by (auto simp: importSample_def import_names_filter dest: in_set_takeD)
qed


section \<open>Instances\<close>

definition wit_web_request :: web_request where
  "wit_web_request = \<lparr>wq_Path = ''/account'', wq_Param = (\<lambda>n. ''xxxxxxx''), wq_Query = (\<lambda>n. ''''), wq_Form = None,
    wq_Cookie = (\<lambda>n. None)\<rparr>"

lemma wit_stranger: "web_caller srv out wit_web_request d = (Inr None, d)"
  by (simp add: web_caller_def wit_web_request_def act_simps)

lemma wit_account_path: "path_segments ''/account'' = [''account'']"
  by (simp add: path_segments_def TrimPrefix_def HasPrefix_def)

theorem web_strangers_sign_in_witness:
  "\<exists>a. serve_web wit_service wit_server ''v'' wit_outside ''GET'' wit_web_request empty_db = (a, empty_db)
    \<and> a \<in> {login_redirect wit_web_request, not_found_page, HttpError 405 ''''}"
proof -
  let ?x = "serve_web wit_service wit_server ''v'' wit_outside ''GET'' wit_web_request empty_db"
  obtain a d' where s: "?x = (a, d')" by (cases ?x)
  have p: "wq_Path wit_web_request = ''/account''" by (simp add: wit_web_request_def)
  have "d' = empty_db \<and> a \<in> {login_redirect wit_web_request, not_found_page, HttpError 405 ''''}"
    by (rule web_strangers_sign_in[OF s wit_stranger]) (simp_all add: p wit_account_path)
  with s show ?thesis by simp
qed

theorem shared_link_no_oracle_witness:
  "fst (web_answered (getExternalViewer wit_server ''v'' wit_outside wit_web_request) (wit_story_db StoryProcessing))
   = fst (web_answered (getExternalViewer wit_server ''v'' wit_outside wit_web_request) (without 7 (wit_story_db StoryProcessing)))"
proof (rule shared_link_no_oracle[OF _ wit_stranger])
  show "sr_parse wit_server (wq_Param wit_web_request ''storyId'') = Some 7" by (simp add: wit_web_request_def)
  show "case None of None \<Rightarrow> isl (PublicStory (ou_env wit_outside 2) 7 (wit_story_db StoryProcessing))
      | Some u \<Rightarrow> unseen (wit_story_db StoryProcessing) (now_at wit_outside 2) u 7"
    by (simp add: PublicStory_def story_join_def wit_story_defs scan_first_def)
qed

theorem import_sample_roundtrip_witness:
  "importSample (sampleLogins [wit_identity 1 ''ann'', wit_identity 2 ''a--b'', wit_identity 3 ''bob'']) = [''ann'', ''bob'']"
proof -
  let ?ids = "[wit_identity 1 ''ann'', wit_identity 2 ''a--b'', wit_identity 3 ''bob'']"
  have "importSample (sampleLogins ?ids) = filter isGitHubLogin (map gi_Login ?ids)"
    using import_sample_roundtrip[of ?ids "''''"] by simp
  also have "\<dots> = [''ann'', ''bob'']"
    by (simp add: wit_identity_def isGitHubLogin_def is_digit_def)
  finally show ?thesis .
qed

end
