(* ===== verification/Graphics.thy ===== *)
theory Graphics
  imports Complex_Main Terminal Pkce ServiceConfig
begin

text \<open>
  Drawing in a terminal: \<^verbatim>\<open>src/internal/terminal\<close>, the files \<^verbatim>\<open>scale.go\<close>,
  \<^verbatim>\<open>renderer.go\<close>, \<^verbatim>\<open>tmux.go\<close>, \<^verbatim>\<open>kitty.go\<close>, \<^verbatim>\<open>iterm.go\<close>,
  \<^verbatim>\<open>external.go\<close>, \<^verbatim>\<open>ascii.go\<close> and \<^verbatim>\<open>animate.go\<close>.  The image library, the PNG encoder, the
  display width of text and \<^verbatim>\<open>fmt\<close>'s floating-point verb are fields of \<open>media_lib\<close>; a \<open>float64\<close>
  operation is a rational one followed by \<open>rnd\<close>, the rounding.
\<close>

section \<open>Images, capabilities, placements\<close>

text \<open>What \<^verbatim>\<open>image.Image\<close> offers: its bounds and the colour of a point, 16 bits a channel.\<close>

record picture =
  im_MinX :: int
  im_MinY :: int
  im_MaxX :: int
  im_MaxY :: int
  im_At :: "int \<Rightarrow> int \<Rightarrow> nat \<times> nat \<times> nat"

definition Dx :: "picture \<Rightarrow> int" where "Dx m = im_MaxX m - im_MinX m"

definition Dy :: "picture \<Rightarrow> int" where "Dy m = im_MaxY m - im_MinY m"

text \<open>\<^verbatim>\<open>image.NRGBA\<close>, what the image library returns.\<close>

record nrgba =
  px_W :: int
  px_H :: int
  px_Stride :: int
  px_Pix :: string
  px_At :: "int \<Rightarrow> int \<Rightarrow> nat \<times> nat \<times> nat"

record media_lib =
  ml_Fit :: "picture \<Rightarrow> int \<Rightarrow> int \<Rightarrow> nrgba"
  ml_Resize :: "picture \<Rightarrow> int \<Rightarrow> int \<Rightarrow> nrgba"
  ml_PNG :: "nrgba \<Rightarrow> string option"
  ml_Width :: "string \<Rightarrow> int"
  ml_Truncate :: "string \<Rightarrow> int \<Rightarrow> string \<Rightarrow> string"
  ml_Fmt1 :: "rat \<Rightarrow> string"
  ml_rnd :: "rat \<Rightarrow> rat"

type_synonym Protocol = string

definition ProtocolKitty :: Protocol where "ProtocolKitty = ''kitty''"

definition ProtocolITerm2 :: Protocol where "ProtocolITerm2 = ''iterm''"

definition ProtocolExternal :: Protocol where "ProtocolExternal = ''external''"

record Capabilities =
  cp_Protocol :: Protocol
  cp_CellWidthPx :: int
  cp_CellHeightPx :: int
  cp_ColsCells :: int
  cp_RowsCells :: int
  cp_TruecolorOK :: bool
  cp_InTmux :: bool
  cp_InScreen :: bool
  cp_TmuxPassthroughOK :: bool
  cp_OverSSH :: bool
  cp_Reason :: string

definition no_caps :: Capabilities where
  "no_caps = \<lparr>cp_Protocol = '''', cp_CellWidthPx = 0, cp_CellHeightPx = 0, cp_ColsCells = 0, cp_RowsCells = 0,
    cp_TruecolorOK = False, cp_InTmux = False, cp_InScreen = False, cp_TmuxPassthroughOK = False, cp_OverSSH = False,
    cp_Reason = ''''\<rparr>"

record Placement =
  pc_Col :: int
  pc_Row :: int
  pc_WidthCells :: int
  pc_HeightCells :: int

section \<open>Scaling\<close>

definition clampPositive :: "int \<Rightarrow> int" where "clampPositive v = (if v < 1 then 1 else v)"

text \<open>The division is of non-negative numbers.\<close>

definition ceilDiv :: "int \<Rightarrow> int \<Rightarrow> int" where
  "ceilDiv a b = (if b \<le> 0 then a else (a + b - 1) div b)"

definition cell_size :: "Capabilities \<Rightarrow> int \<times> int" where
  "cell_size c = (if cp_CellWidthPx c \<le> 0 \<or> cp_CellHeightPx c \<le> 0 then (1, 2) else (cp_CellWidthPx c, cp_CellHeightPx c))"

text \<open>The conversion of a \<^verbatim>\<open>float64\<close> to an \<^verbatim>\<open>int\<close> drops the fraction.\<close>

definition to_int :: "rat \<Rightarrow> int" where "to_int x = (if 0 \<le> x then \<lfloor>x\<rfloor> else \<lceil>x\<rceil>)"

definition FitCells :: "(rat \<Rightarrow> rat) \<Rightarrow> int \<Rightarrow> int \<Rightarrow> Placement \<Rightarrow> Capabilities \<Rightarrow> int \<times> int \<times> int \<times> int" where
  "FitCells rnd imgW imgH box caps =
    (let imgW = (if imgW \<le> 0 then 1 else imgW);
         imgH = (if imgH \<le> 0 then 1 else imgH);
         boxCols = clampPositive (pc_WidthCells box);
         boxRows = clampPositive (pc_HeightCells box);
         (cellW, cellH) = cell_size caps;
         boxPxW = boxCols * cellW;
         boxPxH = boxRows * cellH;
         scaleW = rnd (of_int boxPxW / of_int imgW);
         scaleH = rnd (of_int boxPxH / of_int imgH);
         scale = (if scaleH < scaleW then scaleH else scaleW);
         pxW = clampPositive (to_int (rnd (rnd (of_int imgW * scale) + 1 / 2)));
         pxH = clampPositive (to_int (rnd (rnd (of_int imgH * scale) + 1 / 2)));
         pxW = clampPositive (if boxPxW < pxW then boxPxW else pxW);
         pxH = clampPositive (if boxPxH < pxH then boxPxH else pxH);
         cols = clampPositive (ceilDiv pxW cellW);
         rows = clampPositive (ceilDiv pxH cellH)
     in (if boxCols < cols then boxCols else cols, if boxRows < rows then boxRows else rows, pxW, pxH))"

section \<open>tmux\<close>

definition ESC :: char where "ESC = CHR 0x1B"

text \<open>\<^verbatim>\<open>bytes.ReplaceAll\<close> of one byte.\<close>

definition double_escapes :: "string \<Rightarrow> string" where
  "double_escapes s = concat (map (\<lambda>c. if c = ESC then [ESC, ESC] else [c]) s)"

definition tmuxPassthrough :: "string \<Rightarrow> string" where
  "tmuxPassthrough payload = [ESC, CHR ''P''] @ ''tmux;'' @ double_escapes payload @ [ESC, CHR 0x5C]"

definition through :: "Capabilities \<Rightarrow> string \<Rightarrow> string" where
  "through c s = (if cp_InTmux c \<and> cp_TmuxPassthroughOK c then tmuxPassthrough s else s)"

section \<open>kitty\<close>

text \<open>\<^verbatim>\<open>base64.StdEncoding\<close>: the other two characters of the alphabet, and padding.\<close>

definition base64std :: "string \<Rightarrow> string" where
  "base64std s =
    (let t = map (\<lambda>c. if c = CHR ''-'' then CHR ''+'' else if c = CHR ''_'' then CHR ''/'' else c) (base64url s)
     in t @ replicate (if length t mod 4 = 0 then 0 else 4 - length t mod 4) CHR ''='')"

definition kittyChunkSize :: nat where "kittyChunkSize = 4096"

function chunk_loop :: "nat \<Rightarrow> string \<Rightarrow> string list" where
  "chunk_loop n s = (if 0 < n \<and> n < length s then take n s # chunk_loop n (drop n s) else [s])"
  by auto
termination by (relation "measure (length \<circ> snd)") auto

declare chunk_loop.simps [simp del]

definition chunkString :: "string \<Rightarrow> nat \<Rightarrow> string list" where
  "chunkString s n = (if s = '''' then [''''] else chunk_loop n s)"

definition apc :: "string \<Rightarrow> string" where "apc body = [ESC] @ ''_G'' @ body @ [ESC, CHR 0x5C]"

definition transmit_control :: "int \<Rightarrow> int \<Rightarrow> int \<Rightarrow> int \<Rightarrow> int \<Rightarrow> nat \<Rightarrow> bool \<Rightarrow> string" where
  "transmit_control i width height cols rows k further =
    (let m = (if further then ''1'' else ''0'') in
     if k = 0 then ''a=T,f=32,s='' @ decimal width @ '',v='' @ decimal height @ '',i='' @ decimal i @ '',c='' @ decimal cols
       @ '',r='' @ decimal rows @ '',q=2,m='' @ m
     else ''m='' @ m)"

definition buildKittyTransmit :: "int \<Rightarrow> int \<Rightarrow> int \<Rightarrow> int \<Rightarrow> int \<Rightarrow> string \<Rightarrow> string" where
  "buildKittyTransmit i width height cols rows b64 =
    (let chunks = chunkString b64 kittyChunkSize in
     concat (map (\<lambda>(k, chunk). apc (transmit_control i width height cols rows k (k < length chunks - 1) @ '';'' @ chunk))
       (enumerate 0 chunks)))"

text \<open>The rows of an image without the padding of their stride.\<close>

definition rgbaPixels :: "nrgba \<Rightarrow> string" where
  "rgbaPixels m = concat (map (\<lambda>y. take (nat (px_W m) * 4) (drop (y * nat (px_Stride m)) (px_Pix m))) [0..<nat (px_H m)])"

definition Kitty_Supported :: "Capabilities \<Rightarrow> bool" where
  "Kitty_Supported c \<longleftrightarrow> cp_Protocol c = ProtocolKitty \<and> \<not> (cp_InTmux c \<and> \<not> cp_TmuxPassthroughOK c)"

definition Kitty_Render :: "media_lib \<Rightarrow> int \<Rightarrow> picture option \<Rightarrow> Placement \<Rightarrow> Capabilities \<Rightarrow> string option" where
  "Kitty_Render ml i img p caps =
    (case img of
       None \<Rightarrow> None
     | Some img \<Rightarrow>
         (case FitCells (ml_rnd ml) (Dx img) (Dy img) p caps of
            (cols, rows, pxW, pxH) \<Rightarrow>
              (let resized = ml_Fit ml img pxW pxH in
               if px_W resized \<le> 0 \<or> px_H resized \<le> 0 then None
               else Some (through caps
                 (buildKittyTransmit i (px_W resized) (px_H resized) cols rows (base64std (rgbaPixels resized)))))))"

definition Kitty_Clear :: "Capabilities \<Rightarrow> int \<Rightarrow> string" where
  "Kitty_Clear own i =
    through own (apc (if i = 0 then ''a=d,d=A,q=2'' else ''a=d,d=i,i='' @ decimal i @ '',q=2''))"


section \<open>iTerm2\<close>

definition itermMultipartThreshold :: nat where "itermMultipartThreshold = 2 ^ 20"

definition itermChunkSize :: nat where "itermChunkSize = 200 * 1024"

record ITerm2 =
  it_caps :: Capabilities
  it_placements :: "(int \<times> Placement) list"

definition ITerm2_Supported :: "Capabilities \<Rightarrow> bool" where
  "ITerm2_Supported c \<longleftrightarrow> cp_Protocol c = ProtocolITerm2 \<and> \<not> (cp_InTmux c \<and> \<not> cp_TmuxPassthroughOK c)"

definition osc1337 :: "string \<Rightarrow> string" where "osc1337 body = [ESC] @ '']1337;'' @ body"

definition BEL :: string where "BEL = [CHR 0x07]"

definition iterm_size :: "string \<Rightarrow> int \<Rightarrow> int \<Rightarrow> string" where
  "iterm_size raw cols rows = ''inline=1;size='' @ decimal (int (length raw)) @ '';width='' @ decimal cols @ '';height=''
     @ decimal rows @ '';preserveAspectRatio=1''"

definition buildITermInline :: "string \<Rightarrow> int \<Rightarrow> int \<Rightarrow> string" where
  "buildITermInline raw cols rows = osc1337 (''File='' @ iterm_size raw cols rows @ '':'' @ base64std raw @ BEL)"

function iterm_parts :: "string \<Rightarrow> string list" where
  "iterm_parts raw = (if raw = '''' then [] else take itermChunkSize raw # iterm_parts (drop itermChunkSize raw))"
  by auto
termination by (relation "measure length") (auto simp: itermChunkSize_def)

declare iterm_parts.simps [simp del]

definition buildITermMultipart :: "string \<Rightarrow> int \<Rightarrow> int \<Rightarrow> string" where
  "buildITermMultipart raw cols rows =
    osc1337 (''MultipartFile='' @ iterm_size raw cols rows @ BEL)
    @ concat (map (\<lambda>part. osc1337 (''FilePart='' @ base64std part @ BEL)) (iterm_parts raw))
    @ osc1337 (''FileEnd'' @ BEL)"

definition ITerm2_Render ::
  "media_lib \<Rightarrow> int \<Rightarrow> picture option \<Rightarrow> Placement \<Rightarrow> Capabilities \<Rightarrow> ITerm2 \<Rightarrow> string option \<times> ITerm2" where
  "ITerm2_Render ml i img p caps t =
    (case img of
       None \<Rightarrow> (None, t)
     | Some img \<Rightarrow>
         (case FitCells (ml_rnd ml) (Dx img) (Dy img) p caps of
            (cols, rows, pxW, pxH) \<Rightarrow>
              (case ml_PNG ml (ml_Fit ml img pxW pxH) of
                 None \<Rightarrow> (None, t)
               | Some raw \<Rightarrow>
                   (Some (through caps (if itermMultipartThreshold < length raw then buildITermMultipart raw cols rows
                      else buildITermInline raw cols rows)),
                    if i = 0 then t
                    else t\<lparr>it_placements := (i, p) # filter (\<lambda>q. fst q \<noteq> i) (it_placements t)\<rparr>))))"

definition csi :: "string \<Rightarrow> string" where "csi s = [ESC, CHR ''[''] @ s"

text \<open>The cursor is moved to the row and column and the rest of the line is erased.\<close>

definition erase_row :: "int \<times> int \<Rightarrow> string" where
  "erase_row rc = csi (decimal (fst rc) @ '';'' @ decimal (snd rc) @ ''H'') @ csi ''K''"

definition erased_rows :: "Placement \<Rightarrow> (int \<times> int) list" where
  "erased_rows p = map (\<lambda>k. (pc_Row p + k + 1, pc_Col p + 1)) [0..pc_HeightCells p - 1]"

definition iterm_regions :: "int \<Rightarrow> ITerm2 \<Rightarrow> Placement list" where
  "iterm_regions i t =
    (if i = 0 then map snd (it_placements t)
     else (case map_of (it_placements t) i of None \<Rightarrow> [] | Some p \<Rightarrow> [p]))"

definition ITerm2_Clear :: "int \<Rightarrow> ITerm2 \<Rightarrow> string \<times> ITerm2" where
  "ITerm2_Clear i t =
    (let regions = iterm_regions i t;
         t' = t\<lparr>it_placements := (if i = 0 then [] else filter (\<lambda>q. fst q \<noteq> i) (it_placements t))\<rparr> in
     (if regions = [] then '''' else through (it_caps t) (concat (map (\<lambda>p. concat (map erase_row (erased_rows p))) regions)), t'))"

section \<open>Half-block art\<close>

definition halfBlock :: string where "halfBlock = encode_rune 0x2580"

type_synonym rgb = "nat \<times> nat \<times> nat"

definition sampleRGB :: "picture \<Rightarrow> int \<Rightarrow> int \<Rightarrow> rgb" where
  "sampleRGB m x y =
    (let x = (if x < im_MinX m then im_MinX m else x);
         x = (if im_MaxX m \<le> x then im_MaxX m - 1 else x);
         y = (if y < im_MinY m then im_MinY m else y);
         y = (if im_MaxY m \<le> y then im_MaxY m - 1 else y)
     in im_At m x y)"

definition to256 :: "rgb \<Rightarrow> nat" where
  "to256 c = (case c of (r, g, b) \<Rightarrow> 16 + 36 * (r div 256 * 5 div 255) + 6 * (g div 256 * 5 div 255) + b div 256 * 5 div 255)"

definition rgb_text :: "rgb \<Rightarrow> string" where
  "rgb_text c = (case c of (r, g, b) \<Rightarrow>
     decimal (int (r div 256)) @ '';'' @ decimal (int (g div 256)) @ '';'' @ decimal (int (b div 256)) @ ''m'')"

definition colorCell :: "rgb \<Rightarrow> rgb \<Rightarrow> bool \<Rightarrow> string" where
  "colorCell up dn truecolor =
    (if truecolor then csi (''38;2;'' @ rgb_text up) @ csi (''48;2;'' @ rgb_text dn) @ halfBlock
     else csi (''38;5;'' @ decimal (int (to256 up)) @ ''m'') @ csi (''48;5;'' @ decimal (int (to256 dn)) @ ''m'') @ halfBlock)"

definition art_rows :: "(rat \<Rightarrow> rat) \<Rightarrow> int \<Rightarrow> int \<Rightarrow> int \<Rightarrow> int" where
  "art_rows rnd sw sh cols =
    (let rows = to_int (rnd (rnd (rnd (of_int sh * of_int cols) / of_int sw) / 2)) in if rows < 1 then 1 else rows)"

definition RenderHalfBlock :: "(rat \<Rightarrow> rat) \<Rightarrow> picture option \<Rightarrow> int \<Rightarrow> bool \<Rightarrow> string option" where
  "RenderHalfBlock rnd img cols truecolor =
    (case img of
       None \<Rightarrow> None
     | Some m \<Rightarrow>
         (let cols = (if cols < 2 then 2 else cols); sw = Dx m; sh = Dy m in
          if sw \<le> 0 \<or> sh \<le> 0 then None
          else
            (let rows = art_rows rnd sw sh cols in
             Some (concat (map (\<lambda>r.
               concat (map (\<lambda>c.
                 (let x = (c * sw + sw div 2) div cols;
                      y0 = (r * 2 * sh) div (rows * 2);
                      y1 = ((r * 2 + 1) * sh) div (rows * 2) in
                  colorCell (sampleRGB m (im_MinX m + x) (im_MinY m + y0)) (sampleRGB m (im_MinX m + x) (im_MinY m + y1)) truecolor))
                 [0..cols - 1])
               @ csi ''0m'' @ [CHR 0x0A]) [0..rows - 1])))))"

definition artOK :: "(string \<Rightarrow> string) \<Rightarrow> Capabilities \<Rightarrow> bool" where
  "artOK getenv caps =
    (if cp_TruecolorOK caps then True
     else (let t = getenv ''TERM'' in if t = '''' \<or> t = ''dumb'' then False else Contains t ''256color''))"


section \<open>The placeholder\<close>

record PlaceholderMeta =
  pm_Kind :: string
  pm_Width :: int
  pm_Height :: int
  pm_ByteSize :: int
  pm_DurationMS :: int
  pm_Description :: string
  pm_Instruction :: string
  pm_Reason :: string

function unit_loop :: "int \<Rightarrow> int \<Rightarrow> nat \<Rightarrow> int \<times> nat" where
  "unit_loop x dv ex = (if 1024 \<le> x then unit_loop (x div 1024) (dv * 1024) (ex + 1) else (dv, ex))"
  by auto
termination by (relation "measure (\<lambda>(x, dv, ex). nat x)") auto

declare unit_loop.simps [simp del]

definition formatBytes :: "media_lib \<Rightarrow> int \<Rightarrow> string" where
  "formatBytes ml n =
    (if n < 1024 then decimal n @ '' B''
     else (case unit_loop (n div 1024) 1024 0 of
        (dv, ex) \<Rightarrow> ml_Fmt1 ml (of_int n / of_int dv) @ '' '' @ [''KMGTPE'' ! ex] @ ''B''))"

definition dot :: string where "dot = '' '' @ encode_rune 0xB7 @ '' ''"

definition placeholder_summary :: "media_lib \<Rightarrow> PlaceholderMeta \<Rightarrow> string" where
  "placeholder_summary ml m =
    ''['' @ (if pm_Kind m = '''' then ''image'' else pm_Kind m) @ '']''
    @ (if 0 < pm_Width m \<or> 0 < pm_Height m then '' '' @ decimal (pm_Width m) @ ''x'' @ decimal (pm_Height m) else '''')
    @ (if 0 < pm_ByteSize m then dot @ formatBytes ml (pm_ByteSize m) else '''')
    @ (if 0 < pm_DurationMS m then dot @ ml_Fmt1 ml (of_int (pm_DurationMS m) / 1000) @ ''s'' else '''')"

definition shown :: "media_lib \<Rightarrow> string \<Rightarrow> int \<Rightarrow> string" where
  "shown ml s w = SanitizeTruncate (ml_Width ml) (ml_Truncate ml) s w"

definition placeholderLines :: "media_lib \<Rightarrow> PlaceholderMeta \<Rightarrow> int \<Rightarrow> string list" where
  "placeholderLines ml m width =
    map (\<lambda>s. shown ml s width)
      (placeholder_summary ml m # filter (\<lambda>s. s \<noteq> '''') [pm_Description m, pm_Reason m, pm_Instruction m])"

definition padCells :: "media_lib \<Rightarrow> string \<Rightarrow> int \<Rightarrow> string" where
  "padCells ml s width =
    (let w = ml_Width ml s in if width \<le> w then s else s @ replicate (nat (width - w)) CHR '' '')"

definition rule_line :: "nat \<Rightarrow> int \<Rightarrow> nat \<Rightarrow> string" where
  "rule_line l inner r = encode_rune l @ concat (replicate (nat inner) (encode_rune 0x2500)) @ encode_rune r @ [CHR 0x0A]"

definition RenderPlaceholder :: "media_lib \<Rightarrow> Placement \<Rightarrow> PlaceholderMeta \<Rightarrow> string" where
  "RenderPlaceholder ml p m =
    (let width = (if pc_WidthCells p < 3 then 3 else pc_WidthCells p);
         height = (if pc_HeightCells p < 2 then 2 else pc_HeightCells p);
         inner = width - 2;
         lns = placeholderLines ml m inner in
     rule_line 0x250C inner 0x2510
     @ concat (map (\<lambda>i. encode_rune 0x2502 @ padCells ml (if i < length lns then lns ! i else '''') inner @ encode_rune 0x2502 @ [CHR 0x0A])
         [0..<nat (height - 2)])
     @ rule_line 0x2514 inner 0x2518)"

definition no_meta :: PlaceholderMeta where
  "no_meta = \<lparr>pm_Kind = ''image'', pm_Width = 0, pm_Height = 0, pm_ByteSize = 0, pm_DurationMS = 0, pm_Description = '''',
    pm_Instruction = '''', pm_Reason = ''''\<rparr>"

definition External_Render ::
  "media_lib \<Rightarrow> (string \<Rightarrow> string) \<Rightarrow> picture option \<Rightarrow> Placement \<Rightarrow> Capabilities \<Rightarrow> string" where
  "External_Render ml getenv img p caps =
    (let cols = (if pc_WidthCells p < 2 then 2 else pc_WidthCells p);
         meta = (case img of None \<Rightarrow> no_meta | Some m \<Rightarrow> no_meta\<lparr>pm_Width := Dx m, pm_Height := Dy m\<rparr>) in
     if img \<noteq> None \<and> artOK getenv caps
     then (case RenderHalfBlock (ml_rnd ml) img cols (cp_TruecolorOK caps) of
         Some out \<Rightarrow> out
       | None \<Rightarrow> RenderPlaceholder ml p meta)
     else RenderPlaceholder ml p meta)"

section \<open>One renderer\<close>

datatype Renderer = RKitty Capabilities | RITerm2 ITerm2 | RExternal Capabilities

definition New_renderer :: "Capabilities \<Rightarrow> Renderer" where
  "New_renderer caps =
    (if cp_Protocol caps = ProtocolKitty then RKitty caps
     else if cp_Protocol caps = ProtocolITerm2 then RITerm2 \<lparr>it_caps = caps, it_placements = []\<rparr>
     else RExternal caps)"

fun Renderer_Name :: "Renderer \<Rightarrow> Protocol" where
  "Renderer_Name (RKitty c) = ProtocolKitty"
| "Renderer_Name (RITerm2 t) = ProtocolITerm2"
| "Renderer_Name (RExternal c) = ProtocolExternal"

fun Renderer_Supported :: "Renderer \<Rightarrow> Capabilities \<Rightarrow> bool" where
  "Renderer_Supported (RKitty _) c = Kitty_Supported c"
| "Renderer_Supported (RITerm2 _) c = ITerm2_Supported c"
| "Renderer_Supported (RExternal _) c = True"

fun Renderer_Render ::
  "media_lib \<Rightarrow> (string \<Rightarrow> string) \<Rightarrow> int \<Rightarrow> picture option \<Rightarrow> Placement \<Rightarrow> Capabilities \<Rightarrow> Renderer
     \<Rightarrow> string option \<times> Renderer" where
  "Renderer_Render ml getenv i img p caps (RKitty c) = (Kitty_Render ml i img p caps, RKitty c)"
| "Renderer_Render ml getenv i img p caps (RITerm2 t) = (case ITerm2_Render ml i img p caps t of (out, t') \<Rightarrow> (out, RITerm2 t'))"
| "Renderer_Render ml getenv i img p caps (RExternal c) = (Some (External_Render ml getenv img p caps), RExternal c)"

fun Renderer_Clear :: "int \<Rightarrow> Renderer \<Rightarrow> string \<times> Renderer" where
  "Renderer_Clear i (RKitty c) = (Kitty_Clear c i, RKitty c)"
| "Renderer_Clear i (RITerm2 t) = (case ITerm2_Clear i t of (out, t') \<Rightarrow> (out, RITerm2 t'))"
| "Renderer_Clear i (RExternal c) = ('''', RExternal c)"


section \<open>Animation\<close>

record Frame =
  fr_Image :: "picture option"
  fr_GapMS :: int

record Animation =
  an_Number :: nat
  an_tempDir :: string

definition MaxAnimationFrames :: nat where "MaxAnimationFrames = 150"

definition MaxAnimationWidth :: int where "MaxAnimationWidth = 720"

definition MaxAnimationHeight :: int where "MaxAnimationHeight = 720"

definition DefaultGapMS :: int where "DefaultGapMS = 100"

definition animationQuiet :: "(string \<Rightarrow> string) \<Rightarrow> string" where
  "animationQuiet getenv = (if getenv ''GHS_DEBUG_ANIMATION'' \<noteq> '''' then ''q=0'' else ''q=2'')"

text \<open>The counter is an unsigned 32-bit word.\<close>

definition nextAnimationNumber :: "nat \<Rightarrow> nat \<times> nat" where
  "nextAnimationNumber counter = (let n = (counter + 1) mod 2 ^ 32 in ((2000000 + n) mod 2 ^ 32, n))"

definition Kitty_SupportsAnimation :: "Capabilities \<Rightarrow> bool" where
  "Kitty_SupportsAnimation c \<longleftrightarrow> Kitty_Supported c \<and> \<not> cp_OverSSH c"

definition rgbPixels :: "picture \<Rightarrow> string" where
  "rgbPixels m = concat (map (\<lambda>y. concat (map (\<lambda>x. case im_At m x y of
     (r, g, b) \<Rightarrow> [char_of (r div 256), char_of (g div 256), char_of (b div 256)])
       [im_MinX m..im_MaxX m - 1])) [im_MinY m..im_MaxY m - 1])"

definition as_picture :: "nrgba \<Rightarrow> picture" where
  "as_picture m = \<lparr>im_MinX = 0, im_MinY = 0, im_MaxX = px_W m, im_MaxY = px_H m, im_At = px_At m\<rparr>"

definition gapOf :: "Frame \<Rightarrow> int" where
  "gapOf f = (if 0 < fr_GapMS f then fr_GapMS f else DefaultGapMS)"

text \<open>What the animation does to the outside, in order: a frame file, an escape.\<close>

datatype anim_step = WriteFrame nat string | Emit string

definition four_digits :: "nat \<Rightarrow> string" where
  "four_digits n = (let s = decimal (int n) in replicate (4 - length s) CHR ''0'' @ s)"

definition frame_path :: "string \<Rightarrow> nat \<Rightarrow> string" where
  "frame_path dir k = dir @ ''/f'' @ four_digits k @ ''.rgb''"

definition anim_emit :: "Capabilities \<Rightarrow> string \<Rightarrow> string \<Rightarrow> anim_step" where
  "anim_emit caps ctrl pl = Emit (through caps (apc (ctrl @ '';'' @ pl)))"

definition append_frame ::
  "media_lib \<Rightarrow> Capabilities \<Rightarrow> string \<Rightarrow> string \<Rightarrow> nat \<Rightarrow> int \<Rightarrow> int \<Rightarrow> int \<Rightarrow> nat \<times> Frame \<Rightarrow> anim_step list" where
  "append_frame ml caps q dir number width height gap0 kf =
    (case kf of (k, f) \<Rightarrow>
       (case fr_Image f of
          None \<Rightarrow> []
        | Some m \<Rightarrow>
            [WriteFrame (k + 1) (rgbPixels (as_picture (ml_Resize ml m width height))),
             anim_emit caps (''a=f,f=24,t=f,s='' @ decimal width @ '',v='' @ decimal height @ '',c='' @ decimal (int k)
               @ '',I='' @ decimal (int number) @ '',z='' @ decimal (gapOf f) @ '','' @ q) (base64std (frame_path dir (k + 1)))]
            @ (if k = 1 then [anim_emit caps (''a=a,s=2,v=1,r=1,I='' @ decimal (int number) @ '',z='' @ decimal gap0 @ '','' @ q) '''']
               else [])))"

definition anim_steps ::
  "media_lib \<Rightarrow> Capabilities \<Rightarrow> string \<Rightarrow> string \<Rightarrow> nat \<Rightarrow> int \<Rightarrow> int \<Rightarrow> nrgba \<Rightarrow> Frame list \<Rightarrow> anim_step list" where
  "anim_steps ml caps q dir number cols rows base frames =
    (let width = px_W base; height = px_H base; gap0 = gapOf (hd frames) in
     [WriteFrame 1 (rgbPixels (as_picture base)),
      anim_emit caps (''a=T,f=24,t=f,s='' @ decimal width @ '',v='' @ decimal height @ '',c='' @ decimal cols @ '',r='' @ decimal rows
        @ '',I='' @ decimal (int number) @ '',C=1,'' @ q) (base64std (frame_path dir 1)),
      anim_emit caps (''a=a,v=1,r=1,I='' @ decimal (int number) @ '',z='' @ decimal gap0 @ '','' @ q) '''']
     @ concat (map (append_frame ml caps q dir number width height gap0) (enumerate 1 (tl frames)))
     @ [anim_emit caps (''a=a,s=3,v=0,I='' @ decimal (int number) @ '','' @ q) ''''])"

text \<open>The steps done before the first that fails; the \<open>k\<close>-th of them fails if \<open>failing k\<close>.\<close>

fun run_steps :: "(nat \<Rightarrow> bool) \<Rightarrow> nat \<Rightarrow> anim_step list \<Rightarrow> anim_step list \<times> bool" where
  "run_steps failing k [] = ([], True)"
| "run_steps failing k (s # ss) =
    (if failing k then ([], False) else (case run_steps failing (k + 1) ss of (done', ok) \<Rightarrow> (s # done', ok)))"

record animated =
  at_Animation :: "Animation option"
  at_Output :: string
  at_Files :: "(string \<times> string) list"

definition emitted :: "anim_step list \<Rightarrow> string" where
  "emitted steps = concat (map (\<lambda>s. case s of Emit e \<Rightarrow> e | WriteFrame k b \<Rightarrow> '''') steps)"

definition written :: "string \<Rightarrow> anim_step list \<Rightarrow> (string \<times> string) list" where
  "written dir steps = concat (map (\<lambda>s. case s of Emit e \<Rightarrow> [] | WriteFrame k b \<Rightarrow> [(frame_path dir k, b)]) steps)"

text \<open>\<open>tempdir\<close> is what \<^verbatim>\<open>os.MkdirTemp\<close> returns; the files are those left in it.\<close>

definition Kitty_Animate ::
  "media_lib \<Rightarrow> (string \<Rightarrow> string) \<Rightarrow> string option \<Rightarrow> (nat \<Rightarrow> bool) \<Rightarrow> Frame list \<Rightarrow> Placement \<Rightarrow> Capabilities \<Rightarrow> nat
     \<Rightarrow> animated \<times> nat" where
  "Kitty_Animate ml getenv tempdir failing frames p caps counter =
    (let nothing = \<lparr>at_Animation = None, at_Output = '''', at_Files = []\<rparr> in
     case frames of
       [] \<Rightarrow> (nothing, counter)
     | f # fs \<Rightarrow>
         (case fr_Image f of
            None \<Rightarrow> (nothing, counter)
          | Some m \<Rightarrow>
              (case FitCells (ml_rnd ml) (Dx m) (Dy m) p caps of
                 (cols, rows, pxW, pxH) \<Rightarrow>
                   (let base = ml_Fit ml m (if MaxAnimationWidth < pxW then MaxAnimationWidth else pxW)
                          (if MaxAnimationHeight < pxH then MaxAnimationHeight else pxH) in
                    if px_W base \<le> 0 \<or> px_H base \<le> 0 then (nothing, counter)
                    else
                      (case tempdir of
                         None \<Rightarrow> (nothing, counter)
                       | Some dir \<Rightarrow>
                           (case nextAnimationNumber counter of
                              (number, counter') \<Rightarrow>
                                (case run_steps failing 0 (anim_steps ml caps (animationQuiet getenv) dir number cols rows base
                                     (take MaxAnimationFrames frames)) of
                                   (did, True) \<Rightarrow>
                                     (\<lparr>at_Animation = Some \<lparr>an_Number = number, an_tempDir = dir\<rparr>, at_Output = emitted did,
                                       at_Files = written dir did\<rparr>, counter')
                                 | (did, False) \<Rightarrow> (\<lparr>at_Animation = None, at_Output = emitted did, at_Files = []\<rparr>, counter'))))))))"

text \<open>\<^verbatim>\<open>Animation.Stop\<close>: the escapes; the directory is removed with its files.\<close>

definition Animation_Stop :: "Animation \<Rightarrow> Capabilities \<Rightarrow> string" where
  "Animation_Stop a caps =
    through caps (apc (''a=a,s=1,I='' @ decimal (int (an_Number a)) @ '',q=2'') @ apc (''a=d,d=I,I='' @ decimal (int (an_Number a)) @ '',q=2''))"

fun Renderer_SupportsAnimation :: "Renderer \<Rightarrow> Capabilities \<Rightarrow> bool" where
  "Renderer_SupportsAnimation (RKitty _) c = Kitty_SupportsAnimation c"
| "Renderer_SupportsAnimation (RITerm2 _) c = False"
| "Renderer_SupportsAnimation (RExternal _) c = False"

definition AnimatorFor :: "Capabilities \<Rightarrow> Renderer option" where
  "AnimatorFor caps = (let a = New_renderer caps in if Renderer_SupportsAnimation a caps then Some a else None)"

end
