(* ===== verification/Drawing.thy ===== *)
theory Drawing
  imports Graphics
begin

text \<open>
  What the terminal gets to see: pictures stay inside their box, the pixels arrive through chunks,
  base64 and tmux, animations leave a bounded number of bounded files and none when they fail.
\<close>

section \<open>Scaling\<close>

lemma clampPositive_pos [simp]: "1 \<le> clampPositive v"
  by (simp add: clampPositive_def)

lemma clampPositive_le: "1 \<le> b \<Longrightarrow> v \<le> b \<Longrightarrow> clampPositive v \<le> b"
  by (simp add: clampPositive_def)

lemma cell_size_pos: "cell_size c = (w, h) \<Longrightarrow> 1 \<le> w \<and> 1 \<le> h"
  by (auto simp: cell_size_def split: if_splits)

lemma to_int_nat: "to_int (of_int n + 1 / 2) = n" if "0 \<le> n"
proof -
  have "\<lfloor>of_int n + 1 / 2 :: rat\<rfloor> = n" by (simp add: floor_eq_iff)
  with that show ?thesis by (simp add: to_int_def)
qed

text \<open>C0. A picture fits its box however the floating-point unit rounds: its cells lie between one and
  the box in both directions, its pixels between one and the pixels of the box.  With exact
  arithmetic it also fills the box in at least one direction.\<close>

lemma clamp_inside:
  fixes b v :: int
  assumes "1 \<le> b"
  shows "1 \<le> max 1 (min b (max 1 v)) \<and> max 1 (min b (max 1 v)) \<le> b" "1 \<le> min b (max 1 v) \<and> min b (max 1 v) \<le> b"
    "max 1 (min b (max 1 b)) = b"
  using assms by auto

theorem FitCells_inside:
  assumes "FitCells rnd w h box caps = (cols, rows, pxW, pxH)" and "cell_size caps = (cw, ch)"
  shows "1 \<le> cols \<and> cols \<le> max 1 (pc_WidthCells box) \<and> 1 \<le> rows \<and> rows \<le> max 1 (pc_HeightCells box)
    \<and> 1 \<le> pxW \<and> pxW \<le> max 1 (pc_WidthCells box) * cw \<and> 1 \<le> pxH \<and> pxH \<le> max 1 (pc_HeightCells box) * ch
    \<and> ((\<forall>x. rnd x = x) \<longrightarrow> pxW = max 1 (pc_WidthCells box) * cw \<or> pxH = max 1 (pc_HeightCells box) * ch)"
proof -
  note c = cell_size_pos[OF assms(2)]
  let ?W = "max 1 (pc_WidthCells box) * cw" and ?H = "max 1 (pc_HeightCells box) * ch"
  have m: "clampPositive v = max 1 v" and mn: "(if b < v then b else v) = min b v" for b v :: int
    by (auto simp: clampPositive_def)
  have W: "1 \<le> ?W" and H: "1 \<le> ?H" using c mult_mono[of 1 "max 1 (pc_WidthCells box)" 1 cw]
      mult_mono[of 1 "max 1 (pc_HeightCells box)" 1 ch] by auto
  define iw ih where i: "iw = (if w \<le> 0 then 1 else w)" "ih = (if h \<le> 0 then 1 else h)"
  define sW sH where s: "sW = rnd (of_int ?W / of_int iw)" "sH = rnd (of_int ?H / of_int ih)"
  define sc where sc: "sc = (if sH < sW then sH else sW)"
  define A B where AB: "A = to_int (rnd (rnd (of_int iw * sc) + 1 / 2))" "B = to_int (rnd (rnd (of_int ih * sc) + 1 / 2))"
  let ?pW = "max 1 (min ?W (max 1 A))" and ?pH = "max 1 (min ?H (max 1 B))"
  have fit: "FitCells rnd w h box caps = (min (max 1 (pc_WidthCells box)) (max 1 (ceilDiv ?pW cw)),
      min (max 1 (pc_HeightCells box)) (max 1 (ceilDiv ?pH ch)), ?pW, ?pH)"
    by (simp only: FitCells_def Let_def assms(2) prod.case m mn AB sc s i)
  have eq: "pxW = ?pW" "pxH = ?pH" and cells: "cols = min (max 1 (pc_WidthCells box)) (max 1 (ceilDiv ?pW cw))"
    "rows = min (max 1 (pc_HeightCells box)) (max 1 (ceilDiv ?pH ch))"
    using trans[OF assms(1)[symmetric] fit] unfolding prod.inject by blast+
  have "pxW = ?W \<or> pxH = ?H" if id: "\<forall>x. rnd x = x"
  proof (cases "sH < sW")
    case True
    then have "of_int ih * sc = (of_int ?H :: rat)" by (auto simp: sc s id i)
    then have "B = ?H" using to_int_nat[of ?H] H by (simp add: AB id)
    then show ?thesis using eq(2) clamp_inside(3)[OF H] by simp
  next
    case False
    then have "of_int iw * sc = (of_int ?W :: rat)" by (auto simp: sc s id i)
    then have "A = ?W" using to_int_nat[of ?W] W by (simp add: AB id)
    then show ?thesis using eq(1) clamp_inside(3)[OF W] by simp
  qed
  moreover have "1 \<le> cols \<and> cols \<le> max 1 (pc_WidthCells box)" unfolding cells by (rule clamp_inside(2)) simp
  moreover have "1 \<le> rows \<and> rows \<le> max 1 (pc_HeightCells box)" unfolding cells by (rule clamp_inside(2)) simp
  ultimately show ?thesis
    using clamp_inside(1)[OF W, of A] clamp_inside(1)[OF H, of B]
    unfolding eq(1)[symmetric] eq(2)[symmetric] by simp
qed

section \<open>Through tmux\<close>

text \<open>What tmux forwards of a passthrough sequence: the body up to an escape that is not doubled, with
  the doubled ones single again.\<close>

fun tmux_body :: "string \<Rightarrow> string" where
  "tmux_body (c # d # s) = (if c = ESC then (if d = ESC then ESC # tmux_body s else []) else c # tmux_body (d # s))"
| "tmux_body s = []"

definition tmux_forward :: "string \<Rightarrow> string" where
  "tmux_forward s = tmux_body (drop (length (ESC # ''Ptmux;'')) s)"

lemma tmux_body_doubled: "tmux_body (double_escapes s @ [ESC, CHR 0x5C]) = s"
proof (induction s)
  case (Cons c s)
  have "tmux_body (c # t) = c # tmux_body t" if "c \<noteq> ESC" "t \<noteq> []" for t using that by (cases t) auto
  with Cons show ?case by (auto simp: double_escapes_def)
qed (simp add: double_escapes_def ESC_def)

lemma tmux_forward_passthrough: "tmux_forward (tmuxPassthrough s) = s"
  using tmux_body_doubled[of s] by (simp add: tmux_forward_def tmuxPassthrough_def ESC_def)


section \<open>Pixels through the protocol\<close>

text \<open>A terminal reads graphics commands one after the other: what is before the semicolon is the control
  data, what is after it the payload.  It undoes base64 on the payloads put together.\<close>

fun kitty_read :: "nat \<Rightarrow> string \<Rightarrow> (string \<times> string) list" where
  "kitty_read 0 s = []"
| "kitty_read (Suc n) s =
    (if take 3 s = ESC # ''_G'' then
       (let body = takeWhile (\<lambda>c. c \<noteq> ESC) (drop 3 s) in
        (takeWhile (\<lambda>c. c \<noteq> CHR '';'') body, drop 1 (dropWhile (\<lambda>c. c \<noteq> CHR '';'') body))
        # kitty_read n (drop (length body + 5) s))
     else [])"

definition base64_read :: "string \<Rightarrow> string" where
  "base64_read s = decode64 (map (\<lambda>c. if c = CHR ''+'' then CHR ''-'' else if c = CHR ''/'' then CHR ''_'' else c)
     (takeWhile (\<lambda>c. c \<noteq> CHR ''='') s))"

definition outer_terminal :: "Capabilities \<Rightarrow> string \<Rightarrow> string" where
  "outer_terminal c s = (if cp_InTmux c \<and> cp_TmuxPassthroughOK c then tmux_forward s else s)"

lemma outer_through: "outer_terminal c (through c s) = s"
  by (simp add: outer_terminal_def through_def tmux_forward_passthrough)

lemma up_to_char:
  assumes "x \<notin> set xs"
  shows "takeWhile (\<lambda>c. c \<noteq> x) (xs @ x # ys) = xs" "dropWhile (\<lambda>c. c \<noteq> x) (xs @ x # ys) = x # ys"
    "takeWhile (\<lambda>c. c \<noteq> x) xs = xs"
  using assms by (induction xs) auto

lemma alphabet_plain: "CHR ''+'' \<notin> set b64_alphabet" "CHR ''/'' \<notin> set b64_alphabet" "CHR ''='' \<notin> set b64_alphabet"
  "CHR '';'' \<notin> set b64_alphabet" "ESC \<notin> set b64_alphabet"
  by (simp_all add: b64_alphabet_def ESC_def)

lemma base64_read_std: "base64_read (base64std s) = s"
proof -
  let ?f = "\<lambda>c. if c = CHR ''-'' then CHR ''+'' else if c = CHR ''_'' then CHR ''/'' else c"
  let ?g = "\<lambda>c. if c = CHR ''+'' then CHR ''-'' else if c = CHR ''/'' then CHR ''_'' else c"
  have plain: "c \<in> set b64_alphabet" if "c \<in> set (base64url s)" for c using set_base64url that by blast
  have noeq: "CHR ''='' \<notin> set (map ?f (base64url s))" using plain alphabet_plain(3) by auto
  have "takeWhile (\<lambda>c. c \<noteq> CHR ''='') (map ?f (base64url s) @ replicate n CHR ''='') = map ?f (base64url s)" for n
    by (cases n) (simp_all only: replicate_0 replicate_Suc append_Nil2 up_to_char[OF noeq])
  moreover have "map ?g (map ?f (base64url s)) = base64url s"
    using plain alphabet_plain(1,2) by (auto intro!: map_idI)
  ultimately show ?thesis by (simp add: base64_read_def base64std_def Let_def decode64_base64url)
qed

lemma base64std_plain: "ESC \<notin> set (base64std s)" "CHR '';'' \<notin> set (base64std s)"
proof -
  have plain: "c \<in> set b64_alphabet" if "c \<in> set (base64url s)" for c using set_base64url that by blast
  have "set (base64std s) \<subseteq> set b64_alphabet \<union> {CHR ''+'', CHR ''/'', CHR ''=''}"
    using plain by (auto simp: base64std_def Let_def)
  with alphabet_plain(4,5) show "ESC \<notin> set (base64std s)" "CHR '';'' \<notin> set (base64std s)" by (auto simp: ESC_def)
qed

lemma chunk_loop_pieces:
  "0 < n \<Longrightarrow> concat (chunk_loop n s) = s \<and> (\<forall>c\<in>set (chunk_loop n s). length c \<le> n)"
proof (induction n s rule: chunk_loop.induct)
  case (1 n s)
  show ?case
  proof (cases "n < length s")
    case True
    with 1 show ?thesis by (subst (1 2) chunk_loop.simps) auto
  next
    case False
    then show ?thesis by (subst (1 2) chunk_loop.simps) auto
  qed
qed

lemma chunkString_pieces:
  "0 < n \<Longrightarrow> concat (chunkString s n) = s \<and> (\<forall>c\<in>set (chunkString s n). length c \<le> n)"
  using chunk_loop_pieces[of n s] by (auto simp: chunkString_def)

lemma apc_parts:
  "take 3 (apc b @ r) = ESC # ''_G''" "drop 3 (apc b @ r) = b @ ESC # CHR 0x5C # r" "drop (length b + 5) (apc b @ r) = r"
proof -
  have "length b + 5 = length (apc b)" by (simp add: apc_def)
  then show "drop (length b + 5) (apc b @ r) = r" by simp
qed (simp_all add: apc_def)

lemma kitty_read_apc:
  assumes "ESC \<notin> set ctrl" and "CHR '';'' \<notin> set ctrl" and "ESC \<notin> set chunk"
  shows "kitty_read (Suc n) (apc (ctrl @ '';'' @ chunk) @ rest) = (ctrl, chunk) # kitty_read n rest"
proof -
  let ?body = "ctrl @ '';'' @ chunk"
  have e: "CHR '';'' \<noteq> ESC" by (simp add: ESC_def)
  have b: "takeWhile (\<lambda>c. c \<noteq> ESC) (?body @ ESC # t) = ?body" for t
    using assms e by (intro up_to_char) auto
  have p: "takeWhile (\<lambda>c. c \<noteq> CHR '';'') ?body = ctrl" "dropWhile (\<lambda>c. c \<noteq> CHR '';'') ?body = '';'' @ chunk"
    using up_to_char(1,2)[OF assms(2)] by simp_all
  show ?thesis by (simp only: kitty_read.simps apc_parts b Let_def p) simp
qed

lemma kitty_read_apcs:
  "\<forall>(ctrl, chunk)\<in>set cs. ESC \<notin> set ctrl \<and> CHR '';'' \<notin> set ctrl \<and> ESC \<notin> set chunk \<Longrightarrow> length cs \<le> n
    \<Longrightarrow> kitty_read n (concat (map (\<lambda>(ctrl, chunk). apc (ctrl @ '';'' @ chunk)) cs)) = cs"
proof (induction cs arbitrary: n)
  case Nil
  then show ?case by (cases n) auto
next
  case (Cons c cs)
  then obtain m where n: "n = Suc m" "length cs \<le> m" by (cases n) auto
  obtain ctrl chunk where c: "c = (ctrl, chunk)" by (cases c)
  have "kitty_read (Suc m) (apc (ctrl @ '';'' @ chunk) @ concat (map (\<lambda>(ctrl, chunk). apc (ctrl @ '';'' @ chunk)) cs))
      = (ctrl, chunk) # cs"
    using Cons.prems n Cons.IH[of m] c by (subst kitty_read_apc) auto
  then show ?case by (simp add: n c del: kitty_read.simps)
qed


lemma set_decimal: "c \<in> set (decimal n) \<Longrightarrow> is_digit c \<or> c = CHR ''-''"
proof -
  have d: "is_digit (digit k)" if "k < 10" for k using that by (simp add: is_digit_def digit_def)
  have "c \<in> set (decimal_nat k) \<Longrightarrow> is_digit c" for k
  proof (induction k rule: decimal_nat.induct)
    case (1 k)
    then show ?case using d[of k] d[of "k mod 10"] by (subst (asm) (2) decimal_nat.simps) (auto split: if_splits)
  qed
  then show "c \<in> set (decimal n) \<Longrightarrow> is_digit c \<or> c = CHR ''-''" by (auto simp: decimal_def split: if_splits)
qed

lemma transmit_control_plain:
  "ESC \<notin> set (transmit_control i w h c r k further) \<and> CHR '';'' \<notin> set (transmit_control i w h c r k further)"
proof -
  have d: "x \<in> set (decimal n) \<Longrightarrow> is_digit x \<or> x = CHR ''-''" for x n
    using set_decimal by blast
  have "ESC \<notin> set (decimal n)" "CHR '';'' \<notin> set (decimal n)" for n
    using d[of ESC n] d[of "CHR '';''" n] by (auto simp: is_digit_def ESC_def)
  then show ?thesis by (simp add: transmit_control_def Let_def ESC_def)
qed

lemma list_all_snd: "map snd cs = ys \<Longrightarrow> \<forall>y\<in>set ys. P y \<Longrightarrow> list_all (\<lambda>c. P (snd c)) cs"
  unfolding list_all_iff by (metis (no_types) image_eqI list.set_map)

text \<open>C31. Pixels arrive: what a terminal reads from a rendered picture, through tmux or not, is one
  command for each chunk, the payloads at most 4096 characters, the first with the whole control
  data, all but the last announcing more; put together and decoded they are the pixels of the
  resized picture, byte for byte.\<close>

theorem kitty_transports_pixels:
  assumes "Kitty_Render ml i (Some m) p caps = Some out"
  shows "\<exists>cols rows pxW pxH. FitCells (ml_rnd ml) (Dx m) (Dy m) p caps = (cols, rows, pxW, pxH)
    \<and> (let px = ml_Fit ml m pxW pxH;
           seen = kitty_read (length (chunkString (base64std (rgbaPixels px)) kittyChunkSize) + k) (outer_terminal caps out) in
       base64_read (concat (map snd seen)) = rgbaPixels px \<and> list_all (\<lambda>c. length (snd c) \<le> 4096) seen
       \<and> map fst seen = map (\<lambda>j. transmit_control i (px_W px) (px_H px) cols rows j (j < length seen - 1)) [0..<length seen])"
proof -
  obtain cols rows pxW pxH where f: "FitCells (ml_rnd ml) (Dx m) (Dy m) p caps = (cols, rows, pxW, pxH)"
    by (metis prod_cases4)
  let ?px = "ml_Fit ml m pxW pxH"
  let ?chunks = "chunkString (base64std (rgbaPixels ?px)) kittyChunkSize"
  let ?ctrl = "\<lambda>j. transmit_control i (px_W ?px) (px_H ?px) cols rows j (j < length ?chunks - 1)"
  let ?cs = "map (\<lambda>(j, chunk). (?ctrl j, chunk)) (enumerate 0 ?chunks)"
  have out: "out = through caps (concat (map (\<lambda>(ctrl, chunk). apc (ctrl @ '';'' @ chunk)) ?cs))"
    using assms f by (simp add: Kitty_Render_def buildKittyTransmit_def Let_def comp_def case_prod_unfold split: if_splits)
  have pieces: "concat ?chunks = base64std (rgbaPixels ?px)" "\<forall>c\<in>set ?chunks. length c \<le> kittyChunkSize"
    using chunkString_pieces[of kittyChunkSize] by (simp_all add: kittyChunkSize_def)
  have snds: "map snd ?cs = ?chunks" by (simp add: comp_def case_prod_unfold)
  have fsts: "map fst ?cs = map ?ctrl [0..<length ?chunks]"
    by (rule nth_equalityI) (simp_all add: nth_enumerate_eq)
  have plain: "ESC \<notin> set c" if "c \<in> set ?chunks" for c
    using that pieces(1) base64std_plain(1)[of "rgbaPixels ?px"] by (metis UN_I set_concat)
  have "kitty_read (length ?chunks + k) (concat (map (\<lambda>(ctrl, chunk). apc (ctrl @ '';'' @ chunk)) ?cs)) = ?cs"
    by (rule kitty_read_apcs) (auto simp: transmit_control_plain dest!: plain in_set_enumerate_eq[THEN iffD1] nth_mem)
  then have seen: "kitty_read (length ?chunks + k) (outer_terminal caps out) = ?cs" by (simp add: out outer_through)
  have short: "list_all (\<lambda>c. length (snd c) \<le> 4096) ?cs"
    using list_all_snd[OF snds, of "\<lambda>c. length c \<le> 4096"] pieces(2) unfolding kittyChunkSize_def by blast
  have l: "length ?cs = length ?chunks" by simp
  show ?thesis
    by (rule exI[of _ cols], rule exI[of _ rows], rule exI[of _ pxW], rule exI[of _ pxH])
      (simp only: Let_def seen snds fsts pieces(1) base64_read_std short f l simp_thms)
qed


section \<open>Animations\<close>

lemma run_steps_all: "run_steps failing k steps = (did, True) \<Longrightarrow> did = steps"
  by (induction steps arbitrary: k did) (auto split: if_splits prod.splits)

lemma undecimal_zeros: "undecimal_nat (replicate j CHR ''0'' @ s) = undecimal_nat s"
  by (induction j) (simp_all add: undecimal_nat_def digit_value_def)

lemma frame_path_inj: "frame_path dir j = frame_path dir k \<longleftrightarrow> j = k"
proof -
  have "undecimal_nat (four_digits n) = n" for n
    by (simp add: four_digits_def Let_def undecimal_zeros decimal_def)
  then have "four_digits j = four_digits k \<longleftrightarrow> j = k" by metis
  then show ?thesis by (simp add: frame_path_def)
qed

lemma length_rgbPixels: "length (rgbPixels m) = 3 * (nat (Dx m) * nat (Dy m))"
proof -
  have row: "length (concat (map (\<lambda>x. case im_At m x y of (r, g, b) \<Rightarrow>
      [char_of (r div 256), char_of (g div 256), char_of (b div 256) :: char]) xs)) = 3 * length xs" for y xs
    by (induction xs) (auto split: prod.split)
  have "length (concat (map (\<lambda>y. concat (map (\<lambda>x. case im_At m x y of (r, g, b) \<Rightarrow>
      [char_of (r div 256), char_of (g div 256), char_of (b div 256) :: char]) [im_MinX m..im_MaxX m - 1])) ys))
      = 3 * nat (Dx m) * length ys" for ys
    by (induction ys) (simp_all add: row Dx_def algebra_simps)
  then show ?thesis by (simp add: rgbPixels_def Dy_def mult.assoc)
qed

text \<open>The frames that are written: the first, and those of the rest that have a picture.\<close>

lemma written_simps:
  "written dir [] = []" "written dir (WriteFrame j b # s) = (frame_path dir j, b) # written dir s"
  "written dir (anim_emit caps x y # s) = written dir s" "written dir (s @ t) = written dir s @ written dir t"
  by (simp_all add: written_def anim_emit_def)

lemma written_frames:
  "\<exists>ks. map fst (written dir (concat (map (append_frame ml caps q dir number w h g) (enumerate k fs)))) = map (frame_path dir) ks
    \<and> length ks \<le> length fs \<and> distinct ks \<and> (\<forall>j\<in>set ks. k < j)
    \<and> (\<forall>f\<in>set (written dir (concat (map (append_frame ml caps q dir number w h g) (enumerate k fs)))).
        \<exists>m. snd f = rgbPixels (as_picture (ml_Resize ml m w h)))"
proof (induction fs arbitrary: k)
  case Nil
  then show ?case by (simp add: written_def)
next
  case (Cons f fs)
  obtain ks where ks: "map fst (written dir (concat (map (append_frame ml caps q dir number w h g) (enumerate (Suc k) fs)))) = map (frame_path dir) ks"
    "length ks \<le> length fs" "distinct ks" "\<forall>j\<in>set ks. Suc k < j"
    "\<forall>f\<in>set (written dir (concat (map (append_frame ml caps q dir number w h g) (enumerate (Suc k) fs)))).
        \<exists>m. snd f = rgbPixels (as_picture (ml_Resize ml m w h))"
    using Cons.IH[of "Suc k"] by blast
  show ?case
  proof (cases "fr_Image f")
    case None
    then have "append_frame ml caps q dir number w h g (k, f) = []" by (simp add: append_frame_def)
    with ks show ?thesis by (intro exI[of _ ks]) (auto dest: Suc_lessD)
  next
    case (Some m)
    have "written dir (append_frame ml caps q dir number w h g (k, f))
        = [(frame_path dir (Suc k), rgbPixels (as_picture (ml_Resize ml m w h)))]"
      by (simp add: append_frame_def Some written_simps)
    with ks show ?thesis
      by (intro exI[of _ "Suc k # ks"]) (auto simp: written_simps dest: Suc_lessD)
  qed
qed

text \<open>An animation of a private Story leaves little behind and, when it fails, nothing: whatever step
  fails, no frame file remains; when it succeeds, at most 150 files remain, each under its own name,
  none larger than 720 by 720 pixels.  (The image library is assumed to fit a picture into the box it is
  given and to resize to the size it is given.)\<close>

theorem animation_bounded:
  assumes "Kitty_Animate ml getenv (Some dir) failing frames p caps n = (a, n')"
    and "\<And>m w h. px_W (ml_Fit ml m w h) \<le> w \<and> px_H (ml_Fit ml m w h) \<le> h"
    and "\<And>m w h. px_W (ml_Resize ml m w h) = w \<and> px_H (ml_Resize ml m w h) = h"
  shows "(at_Animation a = None \<longrightarrow> at_Files a = []) \<and> length (at_Files a) \<le> 150 \<and> distinct (map fst (at_Files a))
    \<and> (\<forall>f\<in>set (at_Files a). length (snd f) \<le> 3 * (720 * 720))"
proof (cases "at_Files a = []")
  case False
  with assms(1) obtain f fs where fs: "frames = f # fs" by (cases frames) (auto simp: Kitty_Animate_def)
  with assms(1) False obtain m where m: "fr_Image f = Some m" by (cases "fr_Image f") (auto simp: Kitty_Animate_def)
  note fr = fs m
  obtain cols rows pxW pxH where F: "FitCells (ml_rnd ml) (Dx m) (Dy m) p caps = (cols, rows, pxW, pxH)"
    by (metis prod_cases4)
  define base where base: "base = ml_Fit ml m (if MaxAnimationWidth < pxW then MaxAnimationWidth else pxW)
        (if MaxAnimationHeight < pxH then MaxAnimationHeight else pxH)"
  obtain number n2 where N: "nextAnimationNumber n = (number, n2)" by (cases "nextAnimationNumber n")
  let ?steps = "anim_steps ml caps (animationQuiet getenv) dir number cols rows base (take MaxAnimationFrames (f # fs))"
  obtain did ok where R: "run_steps failing 0 ?steps = (did, ok)" by (cases "run_steps failing 0 ?steps")
  have b: "0 < px_W base" "0 < px_H base" "ok" and written: "at_Files a = written dir did" and an: "at_Animation a \<noteq> None"
    using assms(1) False
    by (auto simp: Kitty_Animate_def fr F base[symmetric] Let_def N R split: if_splits bool.splits)
  from R b(3) have "did = ?steps" by (intro run_steps_all) simp
  with written have fl: "at_Files a = written dir ?steps" by simp
  let ?rest = "concat (map (append_frame ml caps (animationQuiet getenv) dir number (px_W base) (px_H base) (gapOf f))
      (enumerate 1 (take 149 fs)))"
  have files: "at_Files a = (frame_path dir 1, rgbPixels (as_picture base)) # written dir ?rest"
    by (simp add: fl anim_steps_def Let_def MaxAnimationFrames_def written_simps)
  obtain ks where ks: "map fst (written dir ?rest) = map (frame_path dir) ks" "length ks \<le> length (take 149 fs)"
    "distinct ks" "\<forall>j\<in>set ks. 1 < j"
    "\<forall>g\<in>set (written dir ?rest). \<exists>m. snd g = rgbPixels (as_picture (ml_Resize ml m (px_W base) (px_H base)))"
    using written_frames[of dir ml caps "animationQuiet getenv" number "px_W base" "px_H base" "gapOf f" 1 "take 149 fs"] by blast
  have dims: "nat (px_W base) \<le> 720" "nat (px_H base) \<le> 720"
    using assms(2)[of m "if MaxAnimationWidth < pxW then MaxAnimationWidth else pxW"
        "if MaxAnimationHeight < pxH then MaxAnimationHeight else pxH"]
    unfolding base[symmetric] by (auto simp: MaxAnimationWidth_def MaxAnimationHeight_def split: if_splits)
  have len: "length (rgbPixels (as_picture q)) \<le> 3 * (720 * 720)" if "px_W q = px_W base" "px_H q = px_H base" for q
    using mult_le_mono[OF dims] that by (simp add: length_rgbPixels as_picture_def Dx_def Dy_def mult.commute)
  have "length (written dir ?rest) = length ks" by (metis ks(1) length_map)
  then have "length (at_Files a) \<le> 150" using ks(2) by (simp add: files)
  moreover have "distinct (map fst (at_Files a))"
    using ks(1,3,4) by (auto simp: files distinct_map frame_path_inj inj_on_def)
  moreover have "\<forall>g\<in>set (at_Files a). length (snd g) \<le> 3 * (720 * 720)"
    using ks(5) len assms(3) by (fastforce simp: files)
  ultimately show ?thesis using an by auto
qed simp


section \<open>Sizes and colours as text\<close>

lemma unit_loop_bound:
  "unit_loop x dv ex = (dv', ex') \<Longrightarrow> 1 \<le> x \<Longrightarrow> x < 1024 ^ (k + 1) \<Longrightarrow> ex' \<le> ex + k \<and> dv' = dv * 1024 ^ (ex' - ex) \<and> ex \<le> ex'
    \<and> 1024 ^ (ex' - ex) \<le> x"
proof (induction x dv ex arbitrary: dv' ex' k rule: unit_loop.induct)
  case (1 x dv ex)
  show ?case
  proof (cases "1024 \<le> x")
    case True
    then obtain j where k: "k = Suc j" using "1.prems"(3) by (cases k) auto
    from True "1.prems"(1) have u: "unit_loop (x div 1024) (dv * 1024) (ex + 1) = (dv', ex')" by (simp add: unit_loop.simps[of x])
    have "x div 1024 < 1024 ^ (j + 1)" using "1.prems"(3) by (simp add: k div_less_iff_less_mult)
    then have r: "ex' \<le> ex + 1 + j" "dv' = dv * 1024 * 1024 ^ (ex' - (ex + 1))" "ex + 1 \<le> ex'"
      "1024 ^ (ex' - (ex + 1)) \<le> x div 1024"
      using "1.IH"[OF True u, of j] True by auto
    have e: "ex' - ex = Suc (ex' - (ex + 1))" using r(3) by simp
    have "1024 * 1024 ^ (ex' - (ex + 1)) \<le> x" using r(4) by linarith
    then show ?thesis using r(1-3) by (simp add: k e)
  next
    case False
    with "1.prems" show ?thesis by (auto simp: unit_loop.simps[of x])
  qed
qed

text \<open>A byte count is shown with a unit that exists: for every 64-bit count the index into the six
  unit letters is in range, the divisor does not overflow, and the number shown is at least one.\<close>

theorem formatBytes_in_range:
  assumes "1024 \<le> n" and "n < 2 ^ 63"
  shows "\<exists>dv ex. unit_loop (n div 1024) 1024 0 = (dv, ex) \<and> ex < length ''KMGTPE'' \<and> dv = 1024 ^ (ex + 1) \<and> dv \<le> n
    \<and> formatBytes ml n = ml_Fmt1 ml (of_int n / of_int dv) @ '' '' @ [''KMGTPE'' ! ex] @ ''B''"
proof -
  obtain dv ex where u: "unit_loop (n div 1024) 1024 0 = (dv, ex)" by (cases "unit_loop (n div 1024) 1024 0")
  have "n div 1024 < 1024 ^ (5 + 1)" using assms(2) by (simp add: div_less_iff_less_mult)
  moreover have "1 \<le> n div 1024" using assms(1) by simp
  ultimately have b: "ex \<le> 5" "dv = 1024 * 1024 ^ ex" "1024 ^ ex \<le> n div 1024"
    using unit_loop_bound[OF u, of 5] by auto
  have "1024 * 1024 ^ ex \<le> n" using b(3) by linarith
  with b u assms(1) show ?thesis by (intro exI[of _ dv] exI[of _ ex]) (simp add: formatBytes_def)
qed

text \<open>Half-block art asks the picture only for points inside its bounds and the terminal only for
  colours of the cube: rounding can neither read outside the picture nor name another colour.\<close>

theorem art_in_bounds:
  assumes "im_MinX m < im_MaxX m" and "im_MinY m < im_MaxY m"
    and "\<And>x y. im_MinX m \<le> x \<Longrightarrow> x < im_MaxX m \<Longrightarrow> im_MinY m \<le> y \<Longrightarrow> y < im_MaxY m \<Longrightarrow>
      (case im_At m x y of (r, g, b) \<Rightarrow> r < 2 ^ 16 \<and> g < 2 ^ 16 \<and> b < 2 ^ 16)"
  shows "(\<exists>x' y'. im_MinX m \<le> x' \<and> x' < im_MaxX m \<and> im_MinY m \<le> y' \<and> y' < im_MaxY m \<and> sampleRGB m x y = im_At m x' y')
    \<and> 16 \<le> to256 (sampleRGB m x y) \<and> to256 (sampleRGB m x y) \<le> 231"
proof -
  have s: "\<exists>x' y'. im_MinX m \<le> x' \<and> x' < im_MaxX m \<and> im_MinY m \<le> y' \<and> y' < im_MaxY m \<and> sampleRGB m x y = im_At m x' y'"
    using assms(1,2) unfolding sampleRGB_def Let_def by (intro exI conjI; (rule refl)?) auto
  then obtain r g b where c: "sampleRGB m x y = (r, g, b)" "r < 2 ^ 16" "g < 2 ^ 16" "b < 2 ^ 16"
    using assms(3) by (metis (no_types, lifting) case_prodE)
  have "v div 256 * 5 div 255 \<le> 5" if "v < 2 ^ 16" for v :: nat
  proof -
    have "v div 256 \<le> 255" using that by simp
    then show ?thesis by simp
  qed
  from this[OF c(2)] this[OF c(3)] this[OF c(4)] s c(1) show ?thesis by (simp add: to256_def)
qed


section \<open>Instances\<close>

definition wit_lib :: media_lib where
  "wit_lib = \<lparr>ml_Fit = (\<lambda>m w h. \<lparr>px_W = min 1 w, px_H = min 1 h, px_Stride = 4, px_Pix = ''abcd'', px_At = (\<lambda>x y. (0, 0, 0))\<rparr>),
    ml_Resize = (\<lambda>m w h. \<lparr>px_W = w, px_H = h, px_Stride = 4 * w, px_Pix = '''', px_At = (\<lambda>x y. (0, 0, 0))\<rparr>),
    ml_PNG = (\<lambda>m. Some (px_Pix m)), ml_Width = (\<lambda>s. int (length s)), ml_Truncate = (\<lambda>s n t. take (nat n) s),
    ml_Fmt1 = (\<lambda>x. decimal \<lfloor>x\<rfloor>), ml_rnd = id\<rparr>"

definition wit_picture :: picture where
  "wit_picture = \<lparr>im_MinX = 0, im_MinY = 0, im_MaxX = 4, im_MaxY = 2, im_At = (\<lambda>x y. (256, 0, 65535))\<rparr>"

definition wit_box :: Placement where
  "wit_box = \<lparr>pc_Col = 1, pc_Row = 3, pc_WidthCells = 10, pc_HeightCells = 5\<rparr>"

lemma wit_fit: "FitCells id 4 2 wit_box no_caps = (10, 3, 10, 5)"
proof -
  have "\<lfloor>11 / 2 :: rat\<rfloor> = 5" "\<lfloor>21 / 2 :: rat\<rfloor> = 10" by (simp_all add: floor_eq_iff)
  then show ?thesis
    by (simp add: FitCells_def Let_def wit_box_def no_caps_def cell_size_def clampPositive_def to_int_def ceilDiv_def)
qed

theorem FitCells_inside_witness: "(10::int) \<le> max 1 (pc_WidthCells wit_box) \<and> (5::int) \<le> max 1 (pc_HeightCells wit_box) * 2"
proof -
  have "cell_size no_caps = (1, 2)" by (simp add: cell_size_def no_caps_def)
  from FitCells_inside[OF wit_fit this] show ?thesis by simp
qed

theorem kitty_transports_pixels_witness:
  "\<exists>out. Kitty_Render wit_lib 7 (Some wit_picture) wit_box no_caps = Some out
    \<and> base64_read (concat (map snd (kitty_read (length (chunkString (base64std ''abcd'') kittyChunkSize)) (outer_terminal no_caps out)))) = ''abcd''"
proof -
  have f: "FitCells (ml_rnd wit_lib) (Dx wit_picture) (Dy wit_picture) wit_box no_caps = (10, 3, 10, 5)"
    using wit_fit by (simp add: wit_lib_def wit_picture_def Dx_def Dy_def)
  have p: "rgbaPixels (ml_Fit wit_lib wit_picture 10 5) = ''abcd''" "0 < px_W (ml_Fit wit_lib wit_picture 10 5)"
    "0 < px_H (ml_Fit wit_lib wit_picture 10 5)"
    by (simp_all add: rgbaPixels_def wit_lib_def)
  have "\<exists>out. Kitty_Render wit_lib 7 (Some wit_picture) wit_box no_caps = Some out"
    using p(2,3) by (simp add: Kitty_Render_def f Let_def)
  then obtain out where out: "Kitty_Render wit_lib 7 (Some wit_picture) wit_box no_caps = Some out" by blast
  from kitty_transports_pixels[OF out, where k = 0] show ?thesis by (auto simp: f Let_def p(1) out)
qed

theorem animation_bounded_witness:
  "distinct (map fst (at_Files (fst (Kitty_Animate wit_lib (\<lambda>n. '''') (Some ''d'') (\<lambda>k. False)
      [\<lparr>fr_Image = Some wit_picture, fr_GapMS = 0\<rparr>] wit_box no_caps 0))))"
proof -
  let ?x = "Kitty_Animate wit_lib (\<lambda>n. '''') (Some ''d'') (\<lambda>k. False) [\<lparr>fr_Image = Some wit_picture, fr_GapMS = 0\<rparr>] wit_box no_caps 0"
  obtain a n where a: "?x = (a, n)" by (cases ?x)
  show ?thesis unfolding a using animation_bounded[OF a] by (simp add: wit_lib_def)
qed

end
