(* ===== verification/Capability.thy ===== *)
theory Capability
  imports Graphics
begin

text \<open>
  Which protocol a terminal speaks: \<^verbatim>\<open>src/internal/terminal/capability.go\<close> and
  \<^verbatim>\<open>capcache.go\<close>.  What the terminal answers to the probe, the environment, the window size and the
  cache file are arguments; the file is its decoded content, and a new content is part of the result.
\<close>

section \<open>Reading the answer\<close>

type_synonym environment = "string \<Rightarrow> string"

text \<open>The three regular expressions, at the start of a text and then at every position.\<close>

definition da_here :: "string \<Rightarrow> bool" where
  "da_here s \<longleftrightarrow> take 3 s = csi ''?'' \<and> take 1 (dropWhile (\<lambda>c. is_digit c \<or> c = CHR '';'') (drop 3 s)) = ''c''"

definition size_here :: "char \<Rightarrow> string \<Rightarrow> (string \<times> string) option" where
  "size_here d s =
    (let r1 = drop 4 s; h = takeWhile is_digit r1; r2 = dropWhile is_digit r1;
         r3 = drop 1 r2; w = takeWhile is_digit r3; r4 = dropWhile is_digit r3 in
     if take 4 s = csi [d, CHR '';''] \<and> h \<noteq> '''' \<and> take 1 r2 = '';'' \<and> w \<noteq> '''' \<and> take 1 r4 = ''t'' then Some (h, w) else None)"

fun reDA :: "string \<Rightarrow> bool" where
  "reDA [] = da_here []"
| "reDA (c # s) = (da_here (c # s) \<or> reDA s)"

fun reSize :: "char \<Rightarrow> string \<Rightarrow> (string \<times> string) option" where
  "reSize d [] = size_here d []"
| "reSize d (c # s) = (case size_here d (c # s) of Some m \<Rightarrow> Some m | None \<Rightarrow> reSize d s)"

text \<open>\<^verbatim>\<open>strconv.Atoi\<close> of digits with its error ignored: the largest \<^verbatim>\<open>int\<close> when out of range.\<close>

definition atoi_value :: "string \<Rightarrow> int" where
  "atoi_value ds = min (2 ^ 63 - 1) (int (undecimal_nat ds))"

record probeResult =
  pb_kittyOK :: bool
  pb_cellW :: int
  pb_cellH :: int
  pb_winW :: int
  pb_winH :: int
  pb_daSeen :: bool

definition size_of :: "(string \<times> string) option \<Rightarrow> int \<times> int" where
  "size_of m = (case m of None \<Rightarrow> (0, 0) | Some (h, w) \<Rightarrow> (atoi_value w, atoi_value h))"

definition parseProbe :: "string \<Rightarrow> probeResult" where
  "parseProbe buf =
    \<lparr>pb_kittyOK = Contains buf ''_Gi=31;OK'',
     pb_cellW = fst (size_of (reSize CHR ''6'' buf)), pb_cellH = snd (size_of (reSize CHR ''6'' buf)),
     pb_winW = fst (size_of (reSize CHR ''4'' buf)), pb_winH = snd (size_of (reSize CHR ''4'' buf)),
     pb_daSeen = reDA buf\<rparr>"

section \<open>Deciding\<close>

definition populateEnvHints :: "environment \<Rightarrow> Capabilities \<Rightarrow> Capabilities" where
  "populateEnvHints env c =
    c\<lparr>cp_InTmux := (env ''TMUX'' \<noteq> ''''), cp_InScreen := (env ''STY'' \<noteq> ''''),
      cp_OverSSH := (env ''SSH_CONNECTION'' \<noteq> '''' \<or> env ''SSH_TTY'' \<noteq> ''''),
      cp_TruecolorOK := (if env ''COLORTERM'' = ''truecolor'' \<or> env ''COLORTERM'' = ''24bit'' then True else cp_TruecolorOK c)\<rparr>"

definition resolveCellGeometry :: "probeResult \<Rightarrow> Capabilities \<Rightarrow> Capabilities" where
  "resolveCellGeometry pr c =
    (if 0 < pb_cellW pr \<and> 0 < pb_cellH pr then c\<lparr>cp_CellWidthPx := pb_cellW pr, cp_CellHeightPx := pb_cellH pr\<rparr>
     else if 0 < pb_winW pr \<and> 0 < pb_winH pr \<and> 0 < cp_ColsCells c \<and> 0 < cp_RowsCells c
     then c\<lparr>cp_CellWidthPx := pb_winW pr div cp_ColsCells c, cp_CellHeightPx := pb_winH pr div cp_RowsCells c\<rparr>
     else c)"

definition isITermLikeEnv :: "environment \<Rightarrow> bool" where
  "isITermLikeEnv env \<longleftrightarrow> env ''TERM_PROGRAM'' \<in> {''iTerm.app'', ''WezTerm''} \<or> env ''LC_TERMINAL'' = ''iTerm2''"

definition chosen :: "Protocol \<Rightarrow> string \<Rightarrow> Capabilities \<Rightarrow> Capabilities" where
  "chosen p why c = c\<lparr>cp_Protocol := p, cp_Reason := why\<rparr>"

definition decideProtocol :: "environment \<Rightarrow> probeResult \<Rightarrow> Capabilities \<Rightarrow> Capabilities" where
  "decideProtocol env pr c =
    (if cp_InTmux c then
       (let c = c\<lparr>cp_TmuxPassthroughOK := pb_daSeen pr\<rparr> in
        if \<not> cp_TmuxPassthroughOK c then
          chosen ProtocolExternal ''tmux detected but graphics passthrough is not enabled (run: tmux set -g allow-passthrough on)'' c
        else if pb_kittyOK pr then
          chosen ProtocolKitty ''kitty graphics protocol confirmed through verified tmux passthrough'' c
        else if isITermLikeEnv env then
          chosen ProtocolITerm2 ''iTerm2 inline image protocol assumed from TERM_PROGRAM/LC_TERMINAL, through verified tmux passthrough'' c
        else chosen ProtocolExternal ''tmux passthrough verified but neither kitty graphics nor a known iTerm2-protocol terminal was detected'' c)
     else if \<not> pb_daSeen pr then chosen ProtocolExternal ''terminal did not answer the capability probe in time'' c
     else if pb_kittyOK pr then chosen ProtocolKitty ''kitty graphics protocol query succeeded'' c
     else if env ''TERM_PROGRAM'' = ''ghostty'' then
       chosen ProtocolKitty ''Ghostty implements the kitty graphics protocol; probe channel verified live via device-attributes fence'' c
     else if isITermLikeEnv env then
       chosen ProtocolITerm2 ''kitty graphics unsupported; falling back to iTerm2 inline images based on TERM_PROGRAM/LC_TERMINAL'' c
     else chosen ProtocolExternal ''no supported inline image protocol detected'' c)"

section \<open>The cache\<close>

definition capCacheTTL :: duration where "capCacheTTL = 7 * 24 * Hour"

record capCache =
  cc_Protocol :: Protocol
  cc_Reason :: string
  cc_CellW :: int
  cc_CellH :: int
  cc_StoredAt :: time
  cc_Fingerprint :: string

definition tmuxPresence :: "environment \<Rightarrow> string" where
  "tmuxPresence env = (if env ''TMUX'' \<noteq> '''' then ''1'' else ''0'')"

definition sshPresence :: "environment \<Rightarrow> string" where
  "sshPresence env = (if env ''SSH_CONNECTION'' \<noteq> '''' \<or> env ''SSH_TTY'' \<noteq> '''' then ''1'' else ''0'')"

definition capFingerprint :: "environment \<Rightarrow> string" where
  "capFingerprint env = ''TERM='' @ env ''TERM'' @ ''|TERM_PROGRAM='' @ env ''TERM_PROGRAM'' @ ''|LC_TERMINAL='' @ env ''LC_TERMINAL''
     @ ''|COLORTERM='' @ env ''COLORTERM'' @ ''|TMUX='' @ tmuxPresence env @ ''|STY='' @ env ''STY'' @ ''|SSH='' @ sshPresence env"

text \<open>\<open>home\<close> is \<^verbatim>\<open>os.UserHomeDir\<close>; the joined path is given without cleaning.\<close>

definition capCachePath :: "environment \<Rightarrow> string option \<Rightarrow> string option" where
  "capCachePath env home =
    (let dir = (if env ''XDG_CONFIG_HOME'' \<noteq> '''' then env ''XDG_CONFIG_HOME'' @ ''/gh-stories''
        else (case home of None \<Rightarrow> '''' | Some h \<Rightarrow> if h \<noteq> '''' then h @ ''/.config/gh-stories'' else '''')) in
     if dir = '''' then None else Some (dir @ ''/terminal-caps.json''))"

text \<open>\<open>file\<close> is the decoded content at the path, if it could be read and decoded.\<close>

definition loadCapCache :: "environment \<Rightarrow> string option \<Rightarrow> time \<Rightarrow> (string \<Rightarrow> capCache option) \<Rightarrow> Capabilities option" where
  "loadCapCache env home now file =
    (case capCachePath env home of
       None \<Rightarrow> None
     | Some path \<Rightarrow>
         (case file path of
            None \<Rightarrow> None
          | Some c \<Rightarrow>
              if cc_Protocol c \<noteq> ProtocolKitty \<and> cc_Protocol c \<noteq> ProtocolITerm2 then None
              else if cc_Fingerprint c \<noteq> capFingerprint env then None
              else if capCacheTTL < now - cc_StoredAt c then None
              else
                (let caps = populateEnvHints env (no_caps\<lparr>cp_Protocol := cc_Protocol c, cp_Reason := cc_Reason c @ '' (cached)''\<rparr>) in
                 Some (caps\<lparr>cp_CellWidthPx := cc_CellW c, cp_CellHeightPx := cc_CellH c\<rparr>))))"

definition storeCapCache ::
  "environment \<Rightarrow> string option \<Rightarrow> time \<Rightarrow> Capabilities \<Rightarrow> probeResult \<Rightarrow> (string \<Rightarrow> capCache option) \<Rightarrow> string \<Rightarrow> capCache option" where
  "storeCapCache env home now caps pr file =
    (if \<not> pb_daSeen pr then file
     else if cp_Protocol caps \<noteq> ProtocolKitty \<and> cp_Protocol caps \<noteq> ProtocolITerm2 then file
     else (case capCachePath env home of
         None \<Rightarrow> file
       | Some path \<Rightarrow> file(path \<mapsto> \<lparr>cc_Protocol = cp_Protocol caps, cc_Reason = cp_Reason caps, cc_CellW = cp_CellWidthPx caps,
           cc_CellH = cp_CellHeightPx caps, cc_StoredAt = now, cc_Fingerprint = capFingerprint env\<rparr>)))"

section \<open>Detection\<close>

text \<open>The window size and whether the two ends are terminals, the answer to the probe or its failure.\<close>

record surroundings =
  sx_env :: environment
  sx_home :: "string option"
  sx_now :: time
  sx_size :: "(int \<times> int) option"
  sx_out :: bool
  sx_in :: bool
  sx_probe :: "bool \<Rightarrow> string + string"

definition Detect :: "surroundings \<Rightarrow> Protocol \<Rightarrow> (string \<Rightarrow> capCache option) \<Rightarrow> Capabilities \<times> (string \<Rightarrow> capCache option)" where
  "Detect sx override file =
    (let env = sx_env sx;
         caps = populateEnvHints env no_caps;
         caps = (case sx_size sx of None \<Rightarrow> caps | Some (w, h) \<Rightarrow> caps\<lparr>cp_ColsCells := w, cp_RowsCells := h\<rparr>) in
     if override \<in> {ProtocolKitty, ProtocolITerm2, ProtocolExternal}
     then (chosen override (''renderer forced via override (--renderer='' @ override @ '')'') caps, file)
     else if \<not> sx_out sx then (chosen ProtocolExternal ''stdout is not a terminal'' caps, file)
     else if \<not> sx_in sx then (chosen ProtocolExternal ''stdin is not a terminal, cannot query graphics support'' caps, file)
     else
       (case loadCapCache env (sx_home sx) (sx_now sx) file of
          Some hit \<Rightarrow> (hit\<lparr>cp_ColsCells := cp_ColsCells caps, cp_RowsCells := cp_RowsCells caps\<rparr>, file)
        | None \<Rightarrow>
            (case sx_probe sx (cp_InTmux caps) of
               Inl err \<Rightarrow> (chosen ProtocolExternal (''capability probe failed: '' @ err) caps, file)
             | Inr buf \<Rightarrow>
                 (let pr = parseProbe buf;
                      caps = decideProtocol env pr (resolveCellGeometry pr caps) in
                  (caps, storeCapCache env (sx_home sx) (sx_now sx) caps pr file)))))"

end
