(* ===== verification/Detection.thy ===== *)
theory Detection
  imports Capability
begin

text \<open>
  What a detection promises: it names a graphics protocol only when the terminal can be drawn on with
  it.  The cache keeps the promise outside tmux and breaks it inside.
\<close>

lemmas protocol_defs = ProtocolKitty_def ProtocolITerm2_def ProtocolExternal_def

lemma size_caps [simp]:
  "cp_InTmux (c\<lparr>cp_ColsCells := w, cp_RowsCells := h\<rparr>) = cp_InTmux c"
  by simp

lemma resolve_keeps [simp]:
  "cp_InTmux (resolveCellGeometry pr c) = cp_InTmux c" "cp_TmuxPassthroughOK (resolveCellGeometry pr c) = cp_TmuxPassthroughOK c"
  by (simp_all add: resolveCellGeometry_def)

lemma decide_supported:
  "Renderer_Supported (New_renderer (decideProtocol env pr c)) (decideProtocol env pr c)
    \<and> (cp_Protocol (decideProtocol env pr c) \<noteq> ProtocolExternal \<longrightarrow> pb_daSeen pr)
    \<and> cp_InTmux (decideProtocol env pr c) = cp_InTmux c"
  by (auto simp: decideProtocol_def chosen_def Let_def New_renderer_def Kitty_Supported_def ITerm2_Supported_def protocol_defs)

text \<open>C32. A detection is honest: unless the protocol was forced or comes from the cache, the renderer for
  the detected capabilities can draw under them, a graphics protocol is named only after the
  terminal has answered the fence of the probe, and inside tmux only with verified passthrough.\<close>

theorem Detect_honest:
  assumes "Detect sx override file = (caps, file')" and "override \<notin> {ProtocolKitty, ProtocolITerm2, ProtocolExternal}"
    and "loadCapCache (sx_env sx) (sx_home sx) (sx_now sx) file = None"
  shows "Renderer_Supported (New_renderer caps) caps
    \<and> (cp_Protocol caps \<noteq> ProtocolExternal \<longrightarrow>
        (\<exists>buf. sx_probe sx (cp_InTmux caps) = Inr buf \<and> reDA buf) \<and> (cp_InTmux caps \<longrightarrow> cp_TmuxPassthroughOK caps))"
proof -
  define c0 where "c0 = (let caps = populateEnvHints (sx_env sx) no_caps in
    case sx_size sx of None \<Rightarrow> caps | Some (w, h) \<Rightarrow> caps\<lparr>cp_ColsCells := w, cp_RowsCells := h\<rparr>)"
  have ext: "Renderer_Supported (New_renderer (chosen ProtocolExternal why c)) (chosen ProtocolExternal why c)" for why c
    by (simp add: New_renderer_def chosen_def protocol_defs)
  show ?thesis
  proof (cases "sx_out sx \<and> sx_in sx \<and> \<not> isl (sx_probe sx (cp_InTmux c0))")
    case False
    then have "\<exists>why. caps = chosen ProtocolExternal why c0"
      using assms unfolding Detect_def c0_def[unfolded Let_def, symmetric] Let_def
      by (auto split: if_splits sum.splits)
    with ext show ?thesis by (auto simp: chosen_def)
  next
    case True
    then obtain buf where b: "sx_probe sx (cp_InTmux c0) = Inr buf" by (cases "sx_probe sx (cp_InTmux c0)") auto
    let ?pr = "parseProbe buf"
    have caps: "caps = decideProtocol (sx_env sx) ?pr (resolveCellGeometry ?pr c0)"
      using assms True b unfolding Detect_def c0_def[unfolded Let_def, symmetric] Let_def by simp
    note D = decide_supported[of "sx_env sx" ?pr "resolveCellGeometry ?pr c0", folded caps]
    have da: "pb_daSeen ?pr = reDA buf" by (simp add: parseProbe_def)
    from D b da have "cp_Protocol caps \<noteq> ProtocolExternal \<longrightarrow> (\<exists>buf. sx_probe sx (cp_InTmux caps) = Inr buf \<and> reDA buf)" by simp
    moreover have "cp_Protocol caps \<noteq> ProtocolExternal \<and> cp_InTmux caps \<longrightarrow> cp_TmuxPassthroughOK caps"
      unfolding caps by (simp add: decideProtocol_def chosen_def Let_def protocol_defs)
    ultimately show ?thesis using D by blast
  qed
qed

section \<open>The cached verdict\<close>

lemma loadCapCache_stored:
  assumes "capCachePath env home = Some path" and "pb_daSeen pr" and "cp_Protocol caps \<in> {ProtocolKitty, ProtocolITerm2}"
    and "now' - now \<le> capCacheTTL"
  shows "loadCapCache env home now' (storeCapCache env home now caps pr file)
    = Some ((populateEnvHints env (no_caps\<lparr>cp_Protocol := cp_Protocol caps, cp_Reason := cp_Reason caps @ '' (cached)''\<rparr>))
        \<lparr>cp_CellWidthPx := cp_CellWidthPx caps, cp_CellHeightPx := cp_CellHeightPx caps\<rparr>)"
  using assms by (auto simp: loadCapCache_def storeCapCache_def Let_def)

text \<open>Outside tmux the cache is faithful: a detection within a week of one that found a graphics
  protocol, in the same environment, finds the same protocol and the same size of a cell, without
  asking the terminal, and its renderer can draw.\<close>

theorem cached_detection_agrees:
  assumes "Detect sx override file = (caps, file')" and "cp_Protocol caps \<in> {ProtocolKitty, ProtocolITerm2}"
    and "override \<notin> {ProtocolKitty, ProtocolITerm2, ProtocolExternal}"
    and "loadCapCache (sx_env sx) (sx_home sx) (sx_now sx) file = None" and "capCachePath (sx_env sx) (sx_home sx) = Some path"
    and "sx' = sx\<lparr>sx_now := t, sx_probe := p\<rparr>" and "t - sx_now sx \<le> capCacheTTL" and "sx_env sx ''TMUX'' = ''''"
  shows "\<exists>caps'. Detect sx' override file' = (caps', file') \<and> cp_Protocol caps' = cp_Protocol caps
    \<and> cell_size caps' = cell_size caps \<and> Renderer_Supported (New_renderer caps') caps'"
proof -
  define c0 where "c0 = (let caps = populateEnvHints (sx_env sx) no_caps in
    case sx_size sx of None \<Rightarrow> caps | Some (w, h) \<Rightarrow> caps\<lparr>cp_ColsCells := w, cp_RowsCells := h\<rparr>)"
  have io: "sx_out sx" "sx_in sx" and nl: "\<not> isl (sx_probe sx (cp_InTmux c0))"
    using assms(1-4) unfolding Detect_def c0_def[unfolded Let_def, symmetric] Let_def
    by (auto simp: chosen_def protocol_defs split: if_splits sum.splits)
  then obtain buf where b: "sx_probe sx (cp_InTmux c0) = Inr buf" by (cases "sx_probe sx (cp_InTmux c0)") auto
  let ?pr = "parseProbe buf"
  have caps: "caps = decideProtocol (sx_env sx) ?pr (resolveCellGeometry ?pr c0)"
    and file': "file' = storeCapCache (sx_env sx) (sx_home sx) (sx_now sx) caps ?pr file"
    using assms io b unfolding Detect_def c0_def[unfolded Let_def, symmetric] Let_def by auto
  have da: "pb_daSeen ?pr"
    using assms(2) decide_supported[of "sx_env sx" ?pr "resolveCellGeometry ?pr c0"] unfolding caps[symmetric]
    by (auto simp: protocol_defs)
  have hit: "loadCapCache (sx_env sx) (sx_home sx) t file'
    = Some ((populateEnvHints (sx_env sx) (no_caps\<lparr>cp_Protocol := cp_Protocol caps, cp_Reason := cp_Reason caps @ '' (cached)''\<rparr>))
        \<lparr>cp_CellWidthPx := cp_CellWidthPx caps, cp_CellHeightPx := cp_CellHeightPx caps\<rparr>)"
    unfolding file' by (rule loadCapCache_stored[OF assms(5) da assms(2,7)])
  show ?thesis
    using assms(2,3,6,8) io hit
    by (auto simp: Detect_def Let_def populateEnvHints_def no_caps_def cell_size_def New_renderer_def Kitty_Supported_def
        ITerm2_Supported_def protocol_defs)
qed

text \<open>Inside tmux it is not: the verdict is cached without the passthrough it rests on.  The next run
  takes kitty graphics from the cache, with passthrough unverified; no renderer can draw under those
  capabilities, and what is drawn goes out without the envelope that tmux needs.\<close>

theorem cached_detection_in_tmux:
  assumes "capCachePath env home = Some path" and "pb_daSeen pr" and "pb_kittyOK pr" and "env ''TMUX'' \<noteq> ''''"
    and "caps = decideProtocol env pr (populateEnvHints env no_caps)" and "now' - now \<le> capCacheTTL"
  shows "Kitty_Supported caps \<and> through caps s = tmuxPassthrough s
    \<and> (\<exists>hit. loadCapCache env home now' (storeCapCache env home now caps pr file) = Some hit
        \<and> cp_Protocol hit = ProtocolKitty \<and> \<not> Kitty_Supported hit \<and> through hit s = s)"
proof -
  have c: "cp_Protocol caps = ProtocolKitty" "cp_InTmux caps" "cp_TmuxPassthroughOK caps"
    unfolding assms(5) using assms(2-4) by (simp_all add: decideProtocol_def populateEnvHints_def chosen_def Let_def)
  then have k: "cp_Protocol caps \<in> {ProtocolKitty, ProtocolITerm2}" by simp
  show ?thesis
    using c assms(4) by (simp add: loadCapCache_stored[OF assms(1,2) k assms(6)] Kitty_Supported_def through_def
        populateEnvHints_def no_caps_def)
qed


section \<open>Instances\<close>

definition wit_answer :: string where
  "wit_answer = ESC # ''_Gi=31;OK'' @ [ESC, CHR 0x5C] @ csi ''6;20;10t'' @ csi ''?62c''"

definition wit_terminal :: surroundings where
  "wit_terminal = \<lparr>sx_env = (\<lambda>n. ''''), sx_home = Some ''/home/ann'', sx_now = 100, sx_size = Some (80, 24), sx_out = True, sx_in = True,
    sx_probe = (\<lambda>tmux. Inr wit_answer)\<rparr>"

lemma wit_probe: "parseProbe wit_answer = \<lparr>pb_kittyOK = True, pb_cellW = 10, pb_cellH = 20, pb_winW = 0, pb_winH = 0, pb_daSeen = True\<rparr>"
  by code_simp

lemma wit_detect:
  "\<exists>caps file'. Detect wit_terminal '''' (\<lambda>p. None) = (caps, file') \<and> cp_Protocol caps = ProtocolKitty
    \<and> loadCapCache (sx_env wit_terminal) (sx_home wit_terminal) (sx_now wit_terminal) (\<lambda>p. None) = None"
  by (simp add: Detect_def wit_terminal_def Let_def wit_probe loadCapCache_def capCachePath_def decideProtocol_def
      resolveCellGeometry_def populateEnvHints_def no_caps_def chosen_def protocol_defs)

theorem Detect_honest_witness:
  "Renderer_Supported (New_renderer (fst (Detect wit_terminal '''' (\<lambda>p. None)))) (fst (Detect wit_terminal '''' (\<lambda>p. None)))"
proof -
  obtain caps file' where d: "Detect wit_terminal '''' (\<lambda>p. None) = (caps, file')"
    "loadCapCache (sx_env wit_terminal) (sx_home wit_terminal) (sx_now wit_terminal) (\<lambda>p. None) = None"
    using wit_detect by blast
  from Detect_honest[OF d(1) _ d(2)] d(1) show ?thesis by (simp add: protocol_defs)
qed

theorem cached_detection_agrees_witness:
  "\<exists>caps file' caps'. Detect wit_terminal '''' (\<lambda>p. None) = (caps, file')
    \<and> Detect (wit_terminal\<lparr>sx_now := 101, sx_probe := (\<lambda>b. Inl ''no answer'')\<rparr>) '''' file' = (caps', file')
    \<and> cp_Protocol caps' = ProtocolKitty"
proof -
  obtain caps file' where d: "Detect wit_terminal '''' (\<lambda>p. None) = (caps, file')" and p: "cp_Protocol caps = ProtocolKitty"
    and l: "loadCapCache (sx_env wit_terminal) (sx_home wit_terminal) (sx_now wit_terminal) (\<lambda>p. None) = None"
    using wit_detect by blast
  have path: "capCachePath (sx_env wit_terminal) (sx_home wit_terminal) = Some ''/home/ann/.config/gh-stories/terminal-caps.json''"
    by (simp add: capCachePath_def wit_terminal_def)
  have "\<exists>caps'. Detect (wit_terminal\<lparr>sx_now := 101, sx_probe := (\<lambda>b. Inl ''no answer'')\<rparr>) '''' file' = (caps', file')
      \<and> cp_Protocol caps' = cp_Protocol caps \<and> cell_size caps' = cell_size caps
      \<and> Renderer_Supported (New_renderer caps') caps'"
    by (rule cached_detection_agrees[OF d _ _ l path refl]) (simp_all add: p protocol_defs wit_terminal_def capCacheTTL_def)
  with d p show ?thesis by auto
qed

end
