(* ===== verification/ClientTypes.thy ===== *)
theory ClientTypes
  imports Prelude
begin

text \<open>
  What the command-line client receives and sends: the types of \<^verbatim>\<open>src/internal/cliapi/types.go\<close>,
  \<^verbatim>\<open>endpoints_auth.go\<close>, \<^verbatim>\<open>media.go\<close>, \<^verbatim>\<open>upload.go\<close> and \<^verbatim>\<open>errors.go\<close>.
  Optional JSON fields that the source holds as pointers are options; the rest default to their zero.
\<close>

record cliUser =
  cu_GitHubID :: int
  cu_Login :: string
  cu_AvatarURL :: string
  cu_ProfileURL :: string
  cu_HasAccount :: bool

record cliMe =
  me_User :: cliUser
  me_NeedsOnboarding :: bool
  me_IsModerator :: bool
  me_UnreadInbox :: int
  me_ServerTime :: time

record cliSession =
  cs_ID :: string
  cs_ClientKind :: string
  cs_ClientLabel :: string
  cs_CreatedAt :: time
  cs_LastUsedAt :: time
  cs_ExpiresAt :: time
  cs_Current :: bool

record cliPendingLogin =
  cp_PendingLoginID :: string
  cp_PollingSecret :: string
  cp_UserCode :: string
  cp_VerificationURL :: string
  cp_ExpiresAt :: time
  cp_IntervalSeconds :: int

record cliLoginPoll =
  ck_Status :: string
  ck_Token :: string
  ck_User :: "cliUser option"

record cliDeviceLogin =
  cd_DeviceLoginID :: string
  cd_UserCode :: string
  cd_VerificationURI :: string
  cd_ExpiresAt :: time
  cd_IntervalSeconds :: int

record cliVariant =
  cv_Kind :: string
  cv_URL :: string
  cv_MIME :: string
  cv_Width :: int
  cv_Height :: int
  cv_DurationMS :: int
  cv_ByteSize :: int
  cv_HasAudio :: bool

record cliStory =
  ci_ID :: string
  ci_Author :: cliUser
  ci_State :: string
  ci_Caption :: string
  ci_AltText :: string
  ci_Visibility :: string
  ci_AudienceListID :: string
  ci_AudienceLabel :: string
  ci_AllowReplies :: bool
  ci_AllowReactions :: bool
  ci_MediaKind :: string
  ci_Variants :: "cliVariant list"
  ci_PublishedAt :: "time option"
  ci_ExpiresAt :: "time option"
  ci_Seen :: bool
  ci_IsOwner :: bool
  ci_ViewerCount :: int
  ci_ReactionCount :: int
  ci_MyReaction :: string
  ci_FailureCode :: string
  ci_FailureMessage :: string

definition cliStory_Variant :: "cliStory \<Rightarrow> string \<Rightarrow> cliVariant option" where
  "cliStory_Variant s kind = find (\<lambda>v. cv_Kind v = kind) (ci_Variants s)"

definition cliStory_Expired :: "cliStory \<Rightarrow> time \<Rightarrow> bool" where
  "cliStory_Expired s now = (case ci_ExpiresAt s of None \<Rightarrow> False | Some t \<Rightarrow> \<not> now < t)"

record cliGroup =
  cg_Author :: cliUser
  cg_Items :: "cliStory list"
  cg_HasUnseen :: bool
  cg_Muted :: bool
  cg_FollowProvenance :: string

record cliFeed =
  cf_Me :: "cliGroup option"
  cf_Groups :: "cliGroup list"
  cf_NextCursor :: string
  cf_ServerTime :: time
  cf_Version :: string

record cliUploadIntentRequest =
  cr_MIME :: string
  cr_ByteSize :: int
  cr_Filename :: string
  cr_Caption :: string
  cr_AltText :: string
  cr_Visibility :: string
  cr_AudienceListID :: string
  cr_AllowReplies :: "bool option"
  cr_AllowReactions :: "bool option"

record cliUploadIntent =
  ct_UploadID :: string
  ct_Method :: string
  ct_URL :: string
  ct_Headers :: "(string \<times> string) list"
  ct_ExpiresAt :: time
  ct_MaxBytes :: int

record cliStoryUpdate =
  cx_Caption :: "string option"
  cx_AltText :: "string option"
  cx_Visibility :: "string option"
  cx_AudienceListID :: "string option"
  cx_AllowReplies :: "bool option"
  cx_AllowReactions :: "bool option"

record cliViewer =
  cw_User :: cliUser
  cw_ViewedAt :: time
  cw_Reaction :: string

record cliViewerList =
  cl_StoryID :: string
  cl_Total :: int
  cl_Viewers :: "cliViewer list"

record cliInboxEntry =
  ce_ID :: string
  ce_Kind :: string
  ce_Actor :: cliUser
  ce_StoryID :: string
  ce_StoryExpired :: bool
  ce_StoryThumbURL :: string
  ce_Body :: string
  ce_Emoji :: string
  ce_CreatedAt :: time
  ce_ReadAt :: "time option"
  ce_Outgoing :: bool

record cliInbox =
  cb_Entries :: "cliInboxEntry list"
  cb_Unread :: int
  cb_NextCursor :: string

record cliRelationship =
  ch_User :: cliUser
  ch_Provenance :: string
  ch_CreatedAt :: time
  ch_FollowsMe :: bool
  ch_Muted :: bool
  ch_Blocked :: bool
  ch_Hidden :: bool

record cliRelationshipPage =
  cj_Relationships :: "cliRelationship list"
  cj_NextCursor :: string
  cj_Total :: int

record cliAudienceList =
  co_ID :: string
  co_Name :: string
  co_Members :: "cliUser list"
  co_MemberCount :: int

record cliReportRequest =
  cq_SubjectKind :: string
  cq_StoryID :: string
  cq_Login :: string
  cq_Reason :: string
  cq_Details :: string

record cliImportSummary =
  cm_Enabled :: bool
  cm_Account :: cliUser
  cm_NeedsGitHubAuthorization :: bool
  cm_AuthorizationURL :: string
  cm_Added :: int
  cm_AlreadyFollowing :: int
  cm_SkippedUnfollowed :: int
  cm_SkippedBlocked :: int
  cm_Sample :: "cliUser list"

record cliReaction =
  cz_StoryID :: string
  cz_Emoji :: string
  cz_CreatedAt :: time

record cliReply =
  cy_ID :: string
  cy_StoryID :: string
  cy_Sender :: cliUser
  cy_Recipient :: cliUser
  cy_Body :: string
  cy_CreatedAt :: time
  cy_ReadAt :: "time option"
  cy_StoryExpired :: bool

record cliSettings =
  cn_DefaultVisibility :: string
  cn_DefaultAudienceListID :: string
  cn_DefaultAllowReplies :: bool
  cn_DefaultAllowReactions :: bool
  cn_AudienceLists :: "cliAudienceList list"
  cn_HiddenFrom :: "cliUser list"
  cn_Muted :: "cliUser list"
  cn_Blocked :: "cliUser list"
  cn_Sessions :: "cliSession list"
  cn_ReplyRetentionDays :: int

record cliSettingsUpdate =
  dn_DefaultVisibility :: "string option"
  dn_DefaultAudienceListID :: "string option"
  dn_DefaultAllowReplies :: "bool option"
  dn_DefaultAllowReactions :: "bool option"

record cliReport =
  dq_ID :: string
  dq_SubjectKind :: string
  dq_StoryID :: string
  dq_Subject :: cliUser
  dq_Reporter :: cliUser
  dq_Reason :: string
  dq_Details :: string
  dq_State :: string
  dq_CreatedAt :: time

record cliRingStatus =
  dr_GitHubID :: int
  dr_Login :: string
  dr_HasActive :: bool
  dr_HasUnseen :: bool
  dr_Muted :: bool
  dr_IsSelf :: bool

section \<open>Errors\<close>

record APIError =
  ae_Status :: int
  ae_Code :: string
  ae_Message :: string
  ae_Field :: string
  ae_RetryAfter :: int

text \<open>What a call can fail with: an answer that is an error, no answer, an answer that is no JSON, the end
  of the context.\<close>

datatype client_error = Api APIError | NetworkError string | BadAnswer string | Cancelled string

definition APIError_text :: "APIError \<Rightarrow> string" where
  "APIError_text e =
    (if ae_Field e \<noteq> '''' then ae_Message e @ '' ('' @ ae_Code e @ '': '' @ ae_Field e @ '')''
     else ae_Message e @ '' ('' @ ae_Code e @ '')'')"

fun client_error_text :: "client_error \<Rightarrow> string" where
  "client_error_text (Api e) = APIError_text e"
| "client_error_text (NetworkError s) = ''network error: '' @ s"
| "client_error_text (BadAnswer s) = s"
| "client_error_text (Cancelled s) = s"

end
