(* ===== verification/Viewer.thy ===== *)
theory Viewer
  imports ClientTypes Graphics Domain
begin

text \<open>
  The full-screen viewer: \<^verbatim>\<open>src/internal/tui/model.go\<close> and \<^verbatim>\<open>update.go\<close>.  The state is a
  record, a message of the event loop changes it and asks for commands, a command is data that the loop
  runs against the \<^verbatim>\<open>Fetcher\<close>.  An index out of range is the panic of the source, \<open>None\<close>.  The
  event loop itself, the key names of a key press and the decoding of a video are outside.
\<close>

section \<open>The state\<close>

type_synonym VideoMode = string

definition VideoAuto :: VideoMode where "VideoAuto = ''auto''"

definition VideoInline :: VideoMode where "VideoInline = ''inline''"

definition VideoPoster :: VideoMode where "VideoPoster = ''poster''"

record MediaMeta =
  mm_Kind :: string
  mm_Width :: int
  mm_Height :: int
  mm_ByteSize :: int
  mm_DurationMS :: int
  mm_Description :: string
  mm_IsVideo :: bool

definition no_media_meta :: MediaMeta where
  "no_media_meta = \<lparr>mm_Kind = '''', mm_Width = 0, mm_Height = 0, mm_ByteSize = 0, mm_DurationMS = 0, mm_Description = '''',
    mm_IsVideo = False\<rparr>"

text \<open>A fetched picture with the identity that its pointer gives it.\<close>

type_synonym fetched = "nat \<times> picture"

record imageSignature =
  sg_img :: nat
  sg_col :: int
  sg_row :: int
  sg_cols :: int
  sg_rows :: int

datatype mode = ModeViewing | ModeReplying | ModeReacting | ModeViewers | ModeHelp

text \<open>\<open>vw_released\<close> lists the frame directories whose \<^verbatim>\<open>framesCleanup\<close> has been called.\<close>

record Model =
  vw_groups :: "cliGroup list"
  vw_group :: nat
  vw_item :: nat
  vw_renderer :: "Renderer option"
  vw_caps :: Capabilities
  vw_animator :: "Renderer option"
  vw_video :: VideoMode
  vw_externalURL :: "(string \<Rightarrow> string) option"
  vw_openURL :: "(string \<Rightarrow> bool) option"
  vw_width :: int
  vw_height :: int
  vw_mode :: mode
  vw_replyInput :: "nat list"
  vw_statusMsg :: string
  vw_errMsg :: string
  vw_loading :: bool
  vw_paused :: bool
  vw_current :: "fetched option"
  vw_meta :: MediaMeta
  vw_imageID :: nat
  vw_placedID :: nat
  vw_placedSig :: "imageSignature option"
  vw_pendingClear :: "nat list"
  vw_frames :: "Frame list"
  vw_framesCleanup :: "nat option"
  vw_framesFor :: string
  vw_animation :: "Animation option"
  vw_animatedFor :: string
  vw_videoNote :: string
  vw_elapsed :: duration
  vw_viewers :: "cliViewerList option"
  vw_pendingRaw :: string
  vw_quitting :: bool
  vw_released :: "nat list"

definition New_Model ::
  "cliGroup list \<Rightarrow> int \<Rightarrow> Renderer option \<Rightarrow> Capabilities \<Rightarrow> VideoMode \<Rightarrow> (string \<Rightarrow> string) option
     \<Rightarrow> (string \<Rightarrow> bool) option \<Rightarrow> Model" where
  "New_Model groups start rend caps video external opener =
    (let video = (if video = '''' then VideoAuto else video) in
     \<lparr>vw_groups = groups, vw_group = (if start < 0 \<or> int (length groups) \<le> start then 0 else nat start), vw_item = 0,
      vw_renderer = rend, vw_caps = caps, vw_animator = (if video \<noteq> VideoPoster then AnimatorFor caps else None),
      vw_video = video, vw_externalURL = external, vw_openURL = opener, vw_width = 0, vw_height = 0, vw_mode = ModeViewing,
      vw_replyInput = [], vw_statusMsg = '''', vw_errMsg = '''', vw_loading = False, vw_paused = False, vw_current = None,
      vw_meta = no_media_meta, vw_imageID = 1000, vw_placedID = 0, vw_placedSig = None, vw_pendingClear = [],
      vw_frames = [], vw_framesCleanup = None, vw_framesFor = '''', vw_animation = None, vw_animatedFor = '''',
      vw_videoNote = '''', vw_elapsed = 0, vw_viewers = None, vw_pendingRaw = '''', vw_quitting = False, vw_released = []\<rparr>)"

section \<open>Commands and messages\<close>

datatype media_failure = NoGraphics | Failed string

datatype cmd =
    Tick
  | ShowNothing string MediaMeta
  | FetchMedia string string
  | FetchFrames string
  | PlayFrames string nat "Frame list" Placement
  | SendReply string string
  | SendReaction string string
  | FetchViewers string
  | Quit

datatype key_type = KeyRunes | KeySpace | KeyEsc | KeyEnter | KeyBackspace | KeyOther

text \<open>\<open>k_Name\<close> is what \<^verbatim>\<open>KeyMsg.String\<close> gives.\<close>

record key =
  k_Type :: key_type
  k_Runes :: "nat list"
  k_Name :: string

datatype msg =
    WindowSizeMsg int int
  | KeyMsg key
  | MediaMsg string "media_failure + fetched" MediaMeta
  | FramesMsg string "string + nat \<times> Frame list"
  | AnimationMsg string "string + Animation"
  | ActionMsg "string + string"
  | ViewersMsg "string + cliViewerList"
  | RawWriteMsg string
  | TickMsg

section \<open>Items\<close>

definition currentItem :: "Model \<Rightarrow> cliStory option" where
  "currentItem m =
    (if vw_group m < length (vw_groups m) then
       (let g = vw_groups m ! vw_group m in
        if vw_item m < length (cg_Items g) then Some (cg_Items g ! vw_item m) else None)
     else None)"

definition metaFor :: "cliStory \<Rightarrow> MediaMeta" where
  "metaFor it =
    foldl (\<lambda>meta v. if cv_Kind v \<in> {''image'', ''video'', ''poster''}
        then meta\<lparr>mm_Width := cv_Width v, mm_Height := cv_Height v, mm_ByteSize := cv_ByteSize v, mm_DurationMS := cv_DurationMS v\<rparr>
        else meta)
      (no_media_meta\<lparr>mm_Kind := ci_MediaKind it, mm_Description := ci_AltText it, mm_IsVideo := (ci_MediaKind it = ''video'')\<rparr>)
      (ci_Variants it)"

text \<open>\<open>expired\<close> at the server's time \<open>now\<close>.\<close>

definition item_expired :: "time \<Rightarrow> cliStory option \<Rightarrow> bool" where
  "item_expired now it = (case it of None \<Rightarrow> False | Some it \<Rightarrow> cliStory_Expired it now)"

definition itemDuration :: "cliStory option \<Rightarrow> duration" where
  "itemDuration it =
    (case it of
       None \<Rightarrow> 5 * Second
     | Some it \<Rightarrow>
         if ci_MediaKind it = ''video'' then
           (case find (\<lambda>v. cv_Kind v = ''video'' \<and> 0 < cv_DurationMS v) (ci_Variants it) of
              Some v \<Rightarrow> cv_DurationMS v * 1000000
            | None \<Rightarrow> 5 * Second)
         else 5 * Second)"

definition loadCurrent :: "Model \<Rightarrow> Model \<times> cmd list" where
  "loadCurrent m =
    (case currentItem m of
       None \<Rightarrow> (m, [])
     | Some it \<Rightarrow>
         (let m = m\<lparr>vw_loading := True, vw_current := None, vw_elapsed := 0\<rparr>;
              video = (ci_MediaKind it = ''video'') in
          if video \<and> vw_animator m \<noteq> None then (m, [FetchMedia (ci_ID it) ''poster'', FetchFrames (ci_ID it)])
          else if cp_Protocol (vw_caps m) = ProtocolExternal then (m, [ShowNothing (ci_ID it) (metaFor it)])
          else (m, [FetchMedia (ci_ID it) (if video then ''poster'' else ''image'')])))"

definition Init :: "Model \<Rightarrow> Model \<times> cmd list" where
  "Init m = (case loadCurrent m of (m, cs) \<Rightarrow> (m, cs @ [Tick]))"

definition advance :: "Model \<Rightarrow> (Model \<times> cmd list) option" where
  "advance m =
    (if vw_group m < length (vw_groups m) then
       Some (if vw_item m + 1 < length (cg_Items (vw_groups m ! vw_group m)) then loadCurrent (m\<lparr>vw_item := vw_item m + 1\<rparr>)
         else if vw_group m + 1 < length (vw_groups m) then loadCurrent (m\<lparr>vw_group := vw_group m + 1, vw_item := 0\<rparr>)
         else (m\<lparr>vw_quitting := True\<rparr>, [Quit]))
     else None)"

definition back_item :: "Model \<Rightarrow> (Model \<times> cmd list) option" where
  "back_item m =
    (if 0 < vw_item m then Some (loadCurrent (m\<lparr>vw_item := vw_item m - 1\<rparr>))
     else if 0 < vw_group m then
       (if vw_group m - 1 < length (vw_groups m) then
          (let n = length (cg_Items (vw_groups m ! (vw_group m - 1))) in
           Some (loadCurrent (m\<lparr>vw_group := vw_group m - 1, vw_item := (if 0 < n then n - 1 else 0)\<rparr>)))
        else None)
     else Some (m, []))"

section \<open>Placed pictures and running animations\<close>

definition clearImage :: "Model \<Rightarrow> Model" where
  "clearImage m =
    (if vw_renderer m = None \<or> vw_placedID m = 0 then m
     else m\<lparr>vw_pendingClear := vw_pendingClear m @ [vw_placedID m], vw_placedID := 0\<rparr>)"

definition stopAnimation :: "Model \<Rightarrow> Model" where
  "stopAnimation m =
    (case vw_animation m of
       None \<Rightarrow> m
     | Some a \<Rightarrow> m\<lparr>vw_pendingRaw := vw_pendingRaw m @ Animation_Stop a (vw_caps m), vw_animation := None, vw_animatedFor := ''''\<rparr>)"

definition imageTop :: int where "imageTop = 3"

definition centred :: "(rat \<Rightarrow> rat) \<Rightarrow> Model \<Rightarrow> picture \<Rightarrow> int \<Rightarrow> Placement" where
  "centred rnd m p rows =
    (case FitCells rnd (Dx p) (Dy p) \<lparr>pc_Col = 1, pc_Row = imageTop, pc_WidthCells = vw_width m, pc_HeightCells = rows\<rparr> (vw_caps m) of
       (cols, fitRows, _, _) \<Rightarrow>
         \<lparr>pc_Col = 1 + max 0 ((vw_width m - cols) div 2), pc_Row = imageTop + max 0 ((rows - fitRows) div 2),
          pc_WidthCells = cols, pc_HeightCells = fitRows\<rparr>)"

definition image_rows :: "Model \<Rightarrow> int" where
  "image_rows m = (if vw_height m - 6 < 1 then 1 else vw_height m - 6)"

definition animationGeometry :: "(rat \<Rightarrow> rat) \<Rightarrow> Model \<Rightarrow> Placement option" where
  "animationGeometry rnd m =
    (case vw_frames m of
       [] \<Rightarrow> None
     | f # _ \<Rightarrow>
         (case fr_Image f of
            None \<Rightarrow> None
          | Some p \<Rightarrow> if vw_width m = 0 \<or> vw_height m = 0 then None else Some (centred rnd m p (image_rows m))))"

definition startAnimation :: "(rat \<Rightarrow> rat) \<Rightarrow> Model \<Rightarrow> Model \<times> cmd list" where
  "startAnimation rnd m =
    (case currentItem m of
       None \<Rightarrow> (m, [])
     | Some it \<Rightarrow>
         if vw_animator m = None then (m, [])
         else (case animationGeometry rnd m of
             None \<Rightarrow> (m, [])
           | Some place \<Rightarrow>
               (m\<lparr>vw_placedID := 0, vw_placedSig := None\<rparr>, [PlayFrames (ci_ID it) (vw_placedID m) (vw_frames m) place])))"

definition firstLine :: "string \<Rightarrow> string" where
  "firstLine s = takeWhile (\<lambda>c. c \<noteq> CHR 0x0A) s"


section \<open>Keys\<close>

definition idle :: "Model \<Rightarrow> (Model \<times> cmd list) option" where "idle m = Some (m, [])"

definition reply_key :: "key \<Rightarrow> Model \<Rightarrow> (Model \<times> cmd list) option" where
  "reply_key k m =
    (case k_Type k of
       KeyEsc \<Rightarrow> idle (m\<lparr>vw_mode := ModeViewing, vw_replyInput := []\<rparr>)
     | KeyEnter \<Rightarrow>
         (let body = TrimSpace (utf8 (vw_replyInput m)); m = m\<lparr>vw_replyInput := [], vw_mode := ModeViewing\<rparr> in
          if body = '''' then idle m
          else (case currentItem m of None \<Rightarrow> idle m | Some it \<Rightarrow> Some (m, [SendReply (ci_ID it) body])))
     | KeyBackspace \<Rightarrow> idle (m\<lparr>vw_replyInput := butlast (vw_replyInput m)\<rparr>)
     | KeyOther \<Rightarrow> idle m
     | _ \<Rightarrow>
         idle (if length (vw_replyInput m) < 500
           then m\<lparr>vw_replyInput := vw_replyInput m @ k_Runes k @ (if k_Type k = KeySpace then [32] else [])\<rparr> else m))"

definition react_key :: "key \<Rightarrow> Model \<Rightarrow> (Model \<times> cmd list) option" where
  "react_key k m =
    (if k_Type k = KeyEsc then idle (m\<lparr>vw_mode := ModeViewing\<rparr>)
     else (case (k_Type k, k_Runes k) of
         (KeyRunes, [r]) \<Rightarrow>
           (if 49 \<le> r \<and> r - 49 < length Reactions then
              (let emoji = Reactions ! (r - 49); it = currentItem m; m = m\<lparr>vw_mode := ModeViewing\<rparr> in
               case it of None \<Rightarrow> idle m | Some it \<Rightarrow> Some (m, [SendReaction (ci_ID it) emoji]))
            else idle m)
       | _ \<Rightarrow> idle m))"

definition to_group :: "nat \<Rightarrow> Model \<Rightarrow> (Model \<times> cmd list) option" where
  "to_group g m = Some (loadCurrent (clearImage (stopAnimation (m\<lparr>vw_group := g, vw_item := 0\<rparr>))))"

definition status :: "string \<Rightarrow> Model \<Rightarrow> (Model \<times> cmd list) option" where
  "status s m = idle (m\<lparr>vw_statusMsg := s\<rparr>)"

definition open_external :: "Model \<Rightarrow> (Model \<times> cmd list) option" where
  "open_external m =
    (case (currentItem m, vw_externalURL m) of
       (Some it, Some external) \<Rightarrow>
         (let url = external (ci_ID it) in
          if cp_OverSSH (vw_caps m) then status (''Open on your machine: '' @ url) m
          else (case vw_openURL m of
              None \<Rightarrow> status (''Open on your machine: '' @ url) m
            | Some opens \<Rightarrow> if opens url then status ''Opened in your browser.'' m else status (''Open this URL: '' @ url) m))
     | _ \<Rightarrow> idle m)"

definition view_key :: "key \<Rightarrow> Model \<Rightarrow> (Model \<times> cmd list) option" where
  "view_key k m =
    (let s = k_Name k; it = currentItem m in
     if s \<in> {''q'', ''esc'', ''ctrl+c''} then Some (clearImage (stopAnimation (m\<lparr>vw_quitting := True\<rparr>)), [Quit])
     else if s \<in> {''right'', ''n'', ''l''} then advance (clearImage (stopAnimation m))
     else if s \<in> {''left'', ''p'', ''h''} then back_item (clearImage (stopAnimation m))
     else if s \<in> {''down'', ''j''} then (if vw_group m + 1 < length (vw_groups m) then to_group (vw_group m + 1) m else idle m)
     else if s \<in> {''up'', ''k''} then (if 0 < vw_group m then to_group (vw_group m - 1) m else idle m)
     else if s = '' '' then idle (m\<lparr>vw_paused := \<not> vw_paused m\<rparr>)
     else if s = ''r'' then
       (case it of
          Some it \<Rightarrow>
            if ci_AllowReplies it \<and> \<not> ci_IsOwner it then idle (m\<lparr>vw_mode := ModeReplying, vw_statusMsg := ''''\<rparr>)
            else if ci_IsOwner it then status ''You cannot reply to your own Story.'' m
            else status ''Replies are turned off for this Story.'' m
        | None \<Rightarrow> status ''Replies are turned off for this Story.'' m)
     else if s = ''e'' then
       (case it of
          Some it \<Rightarrow>
            if ci_AllowReactions it \<and> \<not> ci_IsOwner it then idle (m\<lparr>vw_mode := ModeReacting\<rparr>)
            else status ''Reactions are turned off for this Story.'' m
        | None \<Rightarrow> status ''Reactions are turned off for this Story.'' m)
     else if s = ''v'' then
       (case it of
          Some it \<Rightarrow>
            if \<not> ci_IsOwner it then status ''Only the author can see who viewed a Story.'' m
            else Some (m, [FetchViewers (ci_ID it)])
        | None \<Rightarrow> status ''Only the author can see who viewed a Story.'' m)
     else if s = ''enter'' then open_external m
     else if s = ''?'' then idle (m\<lparr>vw_mode := ModeHelp\<rparr>)
     else idle m)"

definition handleKey :: "key \<Rightarrow> Model \<Rightarrow> (Model \<times> cmd list) option" where
  "handleKey k m =
    (if vw_mode m = ModeReplying then reply_key k m
     else if vw_mode m = ModeReacting then react_key k m
     else if vw_mode m = ModeViewers \<or> vw_mode m = ModeHelp then idle (m\<lparr>vw_mode := ModeViewing\<rparr>)
     else view_key k m)"

section \<open>The clock\<close>

definition with_tick :: "(Model \<times> cmd list) option \<Rightarrow> (Model \<times> cmd list) option" where
  "with_tick x = map_option (\<lambda>(m, cs). (m, cs @ [Tick])) x"

definition handleTick :: "time \<Rightarrow> Model \<Rightarrow> (Model \<times> cmd list) option" where
  "handleTick now m =
    (let it = currentItem m in
     if item_expired now it then
       with_tick (advance (clearImage (stopAnimation (m\<lparr>vw_current := None, vw_statusMsg := ''This Story expired.''\<rparr>))))
     else if vw_paused m \<or> vw_mode m \<noteq> ModeViewing \<or> vw_loading m then Some (m, [Tick])
     else
       (let m = m\<lparr>vw_elapsed := vw_elapsed m + 250000000\<rparr> in
        if itemDuration it \<le> vw_elapsed m then with_tick (advance (clearImage (stopAnimation m)))
        else Some (m, [Tick])))"

section \<open>Messages\<close>

definition showing :: "Model \<Rightarrow> string \<Rightarrow> bool" where
  "showing m i = (case currentItem m of None \<Rightarrow> False | Some it \<Rightarrow> ci_ID it = i)"

definition release :: "nat option \<Rightarrow> Model \<Rightarrow> Model" where
  "release h m = (case h of None \<Rightarrow> m | Some h \<Rightarrow> m\<lparr>vw_released := vw_released m @ [h]\<rparr>)"

fun Update :: "(rat \<Rightarrow> rat) \<Rightarrow> time \<Rightarrow> msg \<Rightarrow> Model \<Rightarrow> (Model \<times> cmd list) option" where
  "Update rnd now (WindowSizeMsg w h) m = Some (loadCurrent (clearImage (stopAnimation (m\<lparr>vw_width := w, vw_height := h\<rparr>))))"
| "Update rnd now (KeyMsg k) m = handleKey k m"
| "Update rnd now (MediaMsg i res meta) m =
    (let m = m\<lparr>vw_loading := False\<rparr> in
     if \<not> showing m i then idle m
     else
       (let m = m\<lparr>vw_meta := meta\<rparr> in
        case res of
          Inl NoGraphics \<Rightarrow> idle (m\<lparr>vw_current := None\<rparr>)
        | Inl (Failed e) \<Rightarrow> idle (m\<lparr>vw_current := None, vw_errMsg := e\<rparr>)
        | Inr img \<Rightarrow> idle (m\<lparr>vw_current := Some img, vw_errMsg := ''''\<rparr>)))"
| "Update rnd now (FramesMsg i res) m =
    (if \<not> showing m i then idle (case res of Inl e \<Rightarrow> m | Inr (h, fs) \<Rightarrow> release (Some h) m)
     else
       (case res of
          Inl e \<Rightarrow> idle (if vw_video m = VideoInline then m\<lparr>vw_videoNote := ''inline video unavailable: '' @ firstLine e\<rparr> else m)
        | Inr (h, fs) \<Rightarrow>
            Some (startAnimation rnd ((release (vw_framesCleanup m) m)\<lparr>vw_frames := fs, vw_framesCleanup := Some h, vw_framesFor := i\<rparr>))))"
| "Update rnd now (AnimationMsg i res) m =
    (if \<not> showing m i then idle m
     else
       (case res of
          Inl e \<Rightarrow> idle (if vw_video m = VideoInline then m\<lparr>vw_videoNote := ''inline video failed: '' @ firstLine e\<rparr> else m)
        | Inr a \<Rightarrow> idle (m\<lparr>vw_animation := Some a, vw_animatedFor := i, vw_elapsed := 0\<rparr>)))"
| "Update rnd now (ActionMsg res) m =
    idle (case res of Inl e \<Rightarrow> m\<lparr>vw_errMsg := e\<rparr> | Inr s \<Rightarrow> m\<lparr>vw_statusMsg := s\<rparr>)"
| "Update rnd now (ViewersMsg res) m =
    idle (case res of Inl e \<Rightarrow> m\<lparr>vw_errMsg := e, vw_mode := ModeViewing\<rparr>
      | Inr l \<Rightarrow> m\<lparr>vw_viewers := Some l, vw_mode := ModeViewers\<rparr>)"
| "Update rnd now (RawWriteMsg s) m = idle (m\<lparr>vw_pendingRaw := vw_pendingRaw m @ s\<rparr>)"
| "Update rnd now TickMsg m = handleTick now m"

section \<open>Running a command\<close>

text \<open>The \<^verbatim>\<open>Fetcher\<close> and the animator of the outside.  The result is the message the command yields and
  the Stories whose view it acknowledged.\<close>

record Fetcher =
  ft_Media :: "string \<Rightarrow> string \<Rightarrow> string + fetched \<times> MediaMeta"
  ft_Frames :: "string \<Rightarrow> string + nat \<times> Frame list"
  ft_Reply :: "string \<Rightarrow> string \<Rightarrow> string option"
  ft_React :: "string \<Rightarrow> string \<Rightarrow> string option"
  ft_Viewers :: "string \<Rightarrow> string + cliViewerList"
  ft_Play :: "nat \<Rightarrow> Frame list \<Rightarrow> Placement \<Rightarrow> string + Animation"

fun run_cmd :: "Fetcher \<Rightarrow> cmd \<Rightarrow> msg option \<times> string list" where
  "run_cmd f Tick = (Some TickMsg, [])"
| "run_cmd f (ShowNothing i meta) = (Some (MediaMsg i (Inl NoGraphics) meta), [])"
| "run_cmd f (FetchMedia i variant) =
    (case ft_Media f i variant of
       Inl e \<Rightarrow> (Some (MediaMsg i (Inl (Failed e)) no_media_meta), [])
     | Inr (img, meta) \<Rightarrow> (Some (MediaMsg i (Inr img) meta), [i]))"
| "run_cmd f (FetchFrames i) = (Some (FramesMsg i (ft_Frames f i)), [])"
| "run_cmd f (PlayFrames i stale fs place) = (Some (AnimationMsg i (ft_Play f stale fs place)), [])"
| "run_cmd f (SendReply i body) =
    (Some (ActionMsg (case ft_Reply f i body of Some e \<Rightarrow> Inl e | None \<Rightarrow> Inr ''Reply sent.'')), [])"
| "run_cmd f (SendReaction i emoji) =
    (Some (ActionMsg (case ft_React f i emoji of Some e \<Rightarrow> Inl e | None \<Rightarrow> Inr (''Reacted '' @ emoji))), [])"
| "run_cmd f (FetchViewers i) = (Some (ViewersMsg (ft_Viewers f i)), [])"
| "run_cmd f Quit = (None, [])"

text \<open>The viewer in its loop: a message arrives, is handled, and the commands it asks for may each yield
  the next.  Messages can arrive in any order and at any time; \<open>ok\<close> says which can arrive at all.\<close>

inductive steps_to :: "(msg \<Rightarrow> bool) \<Rightarrow> (rat \<Rightarrow> rat) \<Rightarrow> Model \<Rightarrow> Model \<Rightarrow> bool" for ok rnd m where
  start: "steps_to ok rnd m (fst (Init m))"
| step: "steps_to ok rnd m m1 \<Longrightarrow> ok x \<Longrightarrow> Update rnd now x m1 = Some (m2, cs) \<Longrightarrow> steps_to ok rnd m m2"

end
