(* ===== verification/ViewerScreen.thy ===== *)
theory ViewerScreen
  imports Viewer Auth
begin

text \<open>
  What the viewer writes: \<^verbatim>\<open>src/internal/tui/view.go\<close>, the text helpers of \<^verbatim>\<open>model.go\<close> and the
  restoring of the terminal in \<^verbatim>\<open>run.go\<close>.  The styling and layout library is a parameter; strings
  are the bytes that reach the terminal.
\<close>

section \<open>The layout library\<close>

datatype style = Dim | Author | Accent | Err | Status | SegOn | SegOff | Reply | KeyHint

record layout =
  ly_Render :: "style \<Rightarrow> string \<Rightarrow> string"
  ly_Width :: "string \<Rightarrow> int"
  ly_Place :: "int \<Rightarrow> int \<Rightarrow> string \<Rightarrow> string"
  ly_Box :: "int \<Rightarrow> int \<Rightarrow> bool \<Rightarrow> string \<Rightarrow> string"

definition newline :: string where "newline = [CHR 0x0A]"

definition ellipsis :: string where "ellipsis = encode_rune 0x2026"

definition Repeat :: "string \<Rightarrow> int \<Rightarrow> string" where "Repeat s n = concat (replicate (nat n) s)"

section \<open>Text helpers\<close>

definition truncate_runes :: "string \<Rightarrow> int \<Rightarrow> string" where
  "truncate_runes s n =
    (let r = runes s in
     if int (length r) \<le> n then s else if n \<le> 1 then ellipsis else utf8 (take (nat (n - 1)) r) @ ellipsis)"

definition relative_age :: "time option \<Rightarrow> time \<Rightarrow> string" where
  "relative_age t now =
    (case t of
       None \<Rightarrow> ''''
     | Some t \<Rightarrow>
         (let d = now - t in
          if d < Minute then ''now''
          else if d < Hour then decimal (truncated_div d Minute) @ ''m''
          else if d < 24 * Hour then decimal (truncated_div d Hour) @ ''h''
          else decimal (truncated_div d (24 * Hour)) @ ''d''))"

definition pad_runes :: "string \<Rightarrow> int \<Rightarrow> string" where
  "pad_runes s n = (let w = int (length (runes s)) in if n \<le> w then s else s @ Repeat '' '' (n - w))"

section \<open>The queue of pictures to remove\<close>

fun clear_all :: "nat list \<Rightarrow> Renderer \<Rightarrow> string \<times> Renderer" where
  "clear_all [] rend = ('''', rend)"
| "clear_all (i # ids) rend =
    (case Renderer_Clear (int i) rend of (s, rend) \<Rightarrow> (case clear_all ids rend of (t, rend) \<Rightarrow> (s @ t, rend)))"

definition flushClears :: "Model \<Rightarrow> string \<times> Model" where
  "flushClears m =
    (case vw_renderer m of
       None \<Rightarrow> ('''', m)
     | Some rend \<Rightarrow>
         if vw_pendingClear m = [] then ('''', m)
         else (case clear_all (vw_pendingClear m) rend of (s, rend) \<Rightarrow> (s, m\<lparr>vw_renderer := Some rend, vw_pendingClear := []\<rparr>)))"

section \<open>The picture\<close>

definition hasInlineVideo :: "Model \<Rightarrow> bool" where
  "hasInlineVideo m =
    (case currentItem m of None \<Rightarrow> False | Some it \<Rightarrow> vw_animator m \<noteq> None \<and> vw_framesFor m = ci_ID it \<and> vw_frames m \<noteq> [])"

text \<open>A picture whose number and place are those on the screen is not sent again.  If the renderer fails,
  what was written is dropped, and the number is used up.\<close>

definition place_picture :: "media_lib \<Rightarrow> (string \<Rightarrow> string) \<Rightarrow> Renderer \<Rightarrow> fetched \<Rightarrow> Placement \<Rightarrow> Model \<Rightarrow> string \<times> Model" where
  "place_picture ml getenv rend img p m =
    (let sig = \<lparr>sg_img = fst img, sg_col = pc_Col p, sg_row = pc_Row p, sg_cols = pc_WidthCells p, sg_rows = pc_HeightCells p\<rparr>;
         start = [ESC, CHR ''7''] @ csi (decimal (pc_Row p) @ '';'' @ decimal (pc_Col p) @ ''H'') in
     if vw_placedID m \<noteq> 0 \<and> vw_placedSig m = Some sig then ('''', m)
     else
       (case (if vw_placedID m \<noteq> 0 then Renderer_Clear (int (vw_placedID m)) rend else ('''', rend)) of
          (gone, rend) \<Rightarrow>
            (let n = (vw_imageID m + 1) mod 2 ^ 32 in
             case Renderer_Render ml getenv (int n) (Some (snd img)) p (vw_caps m) rend of
               (None, rend) \<Rightarrow> ('''', m\<lparr>vw_renderer := Some rend, vw_imageID := n\<rparr>)
             | (Some out, rend) \<Rightarrow>
                 (start @ gone @ out @ [ESC, CHR ''8''],
                  m\<lparr>vw_renderer := Some rend, vw_imageID := n, vw_placedID := n, vw_placedSig := Some sig\<rparr>))))"

definition imagePlacement :: "media_lib \<Rightarrow> (string \<Rightarrow> string) \<Rightarrow> int \<Rightarrow> Model \<Rightarrow> string \<times> Model" where
  "imagePlacement ml getenv rows m =
    (case (vw_renderer m, vw_current m) of
       (Some rend, Some img) \<Rightarrow> place_picture ml getenv rend img (centred (ml_rnd ml) m (snd img) rows) m
     | _ \<Rightarrow> ('''', m))"

section \<open>The lines\<close>

definition emptyView :: "layout \<Rightarrow> Model \<Rightarrow> string" where
  "emptyView ly m =
    ly_Place ly (vw_width m) (vw_height m) (ly_Render ly Dim
      (''No Stories right now.'' @ newline @ newline @ ''People you follow will show up here.'' @ newline @ newline @ ''q to quit''))"

text \<open>The part of the segment that is filled; \<open>rnd\<close> rounds a \<open>float64\<close> operation.\<close>

definition filled_cells :: "(rat \<Rightarrow> rat) \<Rightarrow> int \<Rightarrow> Model \<Rightarrow> cliStory \<Rightarrow> int" where
  "filled_cells rnd seg m it =
    (let d = itemDuration (Some it);
         filled = (if 0 < d then to_int (rnd (rnd (of_int seg * rnd (of_int (vw_elapsed m))) / rnd (of_int d))) else 0) in
     if seg < filled then seg else filled)"

definition bar :: "layout \<Rightarrow> style \<Rightarrow> int \<Rightarrow> string" where
  "bar ly s n = ly_Render ly s (Repeat (encode_rune 0x2501) n)"

definition progressBar :: "layout \<Rightarrow> (rat \<Rightarrow> rat) \<Rightarrow> int \<Rightarrow> int \<Rightarrow> cliStory \<Rightarrow> Model \<Rightarrow> string" where
  "progressBar ly rnd n active it m =
    (if n \<le> 0 then ''''
     else
       (let seg = truncated_div (vw_width m - 2 - (n - 1)) n; seg = (if seg < 1 then 1 else seg) in
        '' '' @ concat (map (\<lambda>i.
          (if i < active then bar ly SegOn seg
           else if i = active then bar ly SegOn (filled_cells rnd seg m it) @ bar ly SegOff (seg - filled_cells rnd seg m it)
           else bar ly SegOff seg)
          @ (if i < n - 1 then '' '' else '''')) [0..n - 1])))"

definition headerLine :: "layout \<Rightarrow> media_lib \<Rightarrow> time \<Rightarrow> cliGroup \<Rightarrow> cliStory \<Rightarrow> Model \<Rightarrow> string" where
  "headerLine ly ml now g it m =
    (let age = relative_age (ci_PublishedAt it) now;
         left = '' '' @ ly_Render ly Accent (encode_rune 0x25CF) @ '' '' @ ly_Render ly Author (shown ml (cu_Login (cg_Author g)) 32)
           @ (if age \<noteq> '''' then ly_Render ly Dim (dot @ age) else '''')
           @ (if ci_IsOwner it \<and> ci_AudienceLabel it \<noteq> '''' then ly_Render ly Dim (dot @ shown ml (ci_AudienceLabel it) 28) else '''')
           @ (if vw_paused m then ly_Render ly Dim (dot @ ''paused'') else '''');
         right = ly_Render ly Dim (decimal (int (vw_group m) + 1) @ ''/'' @ decimal (int (length (vw_groups m))) @ '' '');
         spacing = vw_width m - ly_Width ly left - ly_Width ly right in
     left @ Repeat '' '' (if spacing < 1 then 1 else spacing) @ right)"

definition captionLine :: "layout \<Rightarrow> media_lib \<Rightarrow> cliStory \<Rightarrow> Model \<Rightarrow> string" where
  "captionLine ly ml it m =
    (if ci_Caption it = '''' then
       (if ci_AltText it \<noteq> '''' then '' '' @ ly_Render ly Dim (shown ml (ci_AltText it) (vw_width m - 3)) else '''')
     else '' '' @ shown ml (ci_Caption it) (vw_width m - 3))"

definition reaction_choices :: "string list" where
  "reaction_choices = map (\<lambda>i. decimal (int i + 1) @ '' '' @ Reactions ! i) [0..<length Reactions]"

definition statusLine :: "layout \<Rightarrow> media_lib \<Rightarrow> Model \<Rightarrow> string" where
  "statusLine ly ml m =
    (if vw_mode m = ModeReplying then
       (let prompt = '' reply '' @ encode_rune 0x203A @ '' '' in
        ly_Render ly Accent prompt
        @ ly_Render ly Reply (shown ml (utf8 (vw_replyInput m)) (max 1 (vw_width m - int (length prompt) - 3)))
        @ ly_Render ly Accent (encode_rune 0x258C))
     else if vw_mode m = ModeReacting then
       '' '' @ ly_Render ly Dim ''react: '' @ join ''  '' reaction_choices @ ly_Render ly Dim ''   esc to cancel''
     else if vw_errMsg m \<noteq> '''' then '' '' @ ly_Render ly Err (shown ml (vw_errMsg m) (vw_width m - 3))
     else if vw_videoNote m \<noteq> '''' then '' '' @ ly_Render ly Dim (shown ml (vw_videoNote m) (vw_width m - 3))
     else if vw_statusMsg m \<noteq> '''' then '' '' @ ly_Render ly Status (shown ml (vw_statusMsg m) (vw_width m - 3))
     else if vw_loading m then '' '' @ ly_Render ly Dim (''loading'' @ ellipsis)
     else '''')"

definition hints :: "cliStory \<Rightarrow> string list" where
  "hints it =
    [encode_rune 0x2190 @ ''/'' @ encode_rune 0x2192 @ '' move'', ''space pause'']
    @ (if ci_IsOwner it then [''v viewers'']
       else (if ci_AllowReplies it then [''r reply''] else []) @ (if ci_AllowReactions it then [''e react''] else []))
    @ [''enter open'', ''q quit'']"

definition hintLine :: "layout \<Rightarrow> cliStory \<Rightarrow> Model \<Rightarrow> string" where
  "hintLine ly it m =
    '' '' @ ly_Render ly KeyHint (truncate_runes (join ('' '' @ dot @ '' '') (hints it)) (max 1 (vw_width m - 2)))"

section \<open>The panes\<close>

definition placeholder_head :: "media_lib \<Rightarrow> MediaMeta \<Rightarrow> string" where
  "placeholder_head ml meta =
    ''['' @ (if mm_IsVideo meta then ''video'' else ''image'') @ '']''
    @ (if 0 < mm_Width meta \<and> 0 < mm_Height meta
       then dot @ decimal (mm_Width meta) @ encode_rune 0xD7 @ decimal (mm_Height meta) else '''')
    @ (if 0 < mm_ByteSize meta then dot @ ml_Fmt1 ml (of_int (mm_ByteSize meta) / 1048576) @ '' MB'' else '''')
    @ (if mm_IsVideo meta \<and> 0 < mm_DurationMS meta then dot @ ml_Fmt1 ml (of_int (mm_DurationMS meta) / 1000) @ ''s'' else '''')"

definition placeholderPane :: "layout \<Rightarrow> media_lib \<Rightarrow> int \<Rightarrow> cliStory \<Rightarrow> Model \<Rightarrow> string" where
  "placeholderPane ly ml rows it m =
    (let meta = (if mm_Width (vw_meta m) = 0 then metaFor it else vw_meta m);
         inner = [placeholder_head ml meta]
           @ (if ci_AltText it \<noteq> '''' then ['''', shown ml (ci_AltText it) (min 60 (vw_width m - 8))] else [])
           @ ['''']
           @ (if vw_errMsg m \<noteq> '''' then [''Could not load the media.'']
              else if cp_Protocol (vw_caps m) = ProtocolExternal then
                [''This terminal cannot display images inline.'', shown ml (cp_Reason (vw_caps m)) (min 60 (vw_width m - 8)), '''',
                 ''Press Enter to open it in your browser.'']
              else if mm_IsVideo meta then [''Press Enter to play it in your browser.'']
              else [''Loading'' @ ellipsis]) in
     ly_Place ly (vw_width m) rows (ly_Box ly 1 3 True (join newline inner)))"

text \<open>The list stops at the limit with a count of the rest; the loop counts from \<open>i\<close>.\<close>

fun viewer_lines :: "layout \<Rightarrow> media_lib \<Rightarrow> int \<Rightarrow> int \<Rightarrow> cliViewer list \<Rightarrow> string list" where
  "viewer_lines ly ml limit i [] = []"
| "viewer_lines ly ml limit i (v # vs) =
    (if limit \<le> i then [ly_Render ly Dim (ellipsis @ ''and '' @ decimal (int (length (v # vs))) @ '' more'')]
     else (shown ml (cu_Login (cw_User v)) 24 @ (if cw_Reaction v \<noteq> '''' then ''  '' @ cw_Reaction v else ''''))
       # viewer_lines ly ml limit (i + 1) vs)"

definition viewersPane :: "layout \<Rightarrow> media_lib \<Rightarrow> int \<Rightarrow> Model \<Rightarrow> string" where
  "viewersPane ly ml rows m =
    (case vw_viewers m of
       None \<Rightarrow> ly_Place ly (vw_width m) rows (ly_Render ly Dim (''loading viewers'' @ ellipsis))
     | Some l \<Rightarrow>
         ly_Place ly (vw_width m) rows (ly_Box ly 1 4 False (join newline
           ([ly_Render ly Author (decimal (cl_Total l) @ '' viewer(s)''), '''']
            @ viewer_lines ly ml (rows - 4) 0 (cl_Viewers l)
            @ ['''', ly_Render ly Dim ''any key to go back'']))))"

definition helpPane :: "layout \<Rightarrow> media_lib \<Rightarrow> int \<Rightarrow> Model \<Rightarrow> string" where
  "helpPane ly ml rows m =
    ly_Place ly (vw_width m) rows (ly_Box ly 1 4 False (join newline
      [ly_Render ly Author ''gh stories'', '''',
       encode_rune 0x2190 @ ''  '' @ encode_rune 0x2192 @ ''      previous / next item'',
       encode_rune 0x2191 @ ''  '' @ encode_rune 0x2193 @ ''      previous / next person'',
       ''space     pause and resume'',
       ''r         reply privately'',
       ''e         react'',
       ''v         who viewed (your own Stories)'',
       ''enter     open in your browser'',
       ''q         quit'', '''',
       ly_Render ly Dim (''renderer: '' @ cp_Protocol (vw_caps m) @ '' '' @ encode_rune 0x2014 @ '' '' @ shown ml (cp_Reason (vw_caps m)) 40),
       '''', ly_Render ly Dim ''any key to go back'']))"

section \<open>The frame\<close>

definition pane :: "layout \<Rightarrow> media_lib \<Rightarrow> cliStory \<Rightarrow> Model \<Rightarrow> string" where
  "pane ly ml it m =
    (if hasInlineVideo m then Repeat newline (image_rows m)
     else if vw_mode m = ModeViewers then viewersPane ly ml (image_rows m) m
     else if vw_mode m = ModeHelp then helpPane ly ml (image_rows m) m
     else if vw_current m \<noteq> None then Repeat newline (image_rows m)
     else placeholderPane ly ml (image_rows m) it m)"

definition text_frame :: "layout \<Rightarrow> media_lib \<Rightarrow> time \<Rightarrow> cliGroup \<Rightarrow> cliStory \<Rightarrow> Model \<Rightarrow> string" where
  "text_frame ly ml now g it m =
    progressBar ly (ml_rnd ml) (int (length (cg_Items g))) (int (vw_item m)) it m @ newline @ headerLine ly ml now g it m @ newline
    @ pane ly ml it m @ newline @ captionLine ly ml it m @ newline @ statusLine ly ml m @ newline @ hintLine ly it m"

definition View :: "layout \<Rightarrow> media_lib \<Rightarrow> (string \<Rightarrow> string) \<Rightarrow> time \<Rightarrow> Model \<Rightarrow> string \<times> Model" where
  "View ly ml getenv now m =
    (if vw_quitting m then ('''', m)
     else if vw_width m = 0 \<or> vw_height m = 0 then (''Loading'' @ ellipsis, m)
     else if vw_groups m = [] then (emptyView ly m, m)
     else
       (case currentItem m of
          None \<Rightarrow> (emptyView ly m, m)
        | Some it \<Rightarrow>
            (let frame = text_frame ly ml now (vw_groups m ! vw_group m) it m in
             case flushClears m of
               (clears, m) \<Rightarrow>
                 (let frame = vw_pendingRaw m @ clears @ frame; m = m\<lparr>vw_pendingRaw := ''''\<rparr> in
                  if vw_current m \<noteq> None \<and> vw_mode m = ModeViewing \<and> \<not> hasInlineVideo m
                  then (case imagePlacement ml getenv (image_rows m) m of (out, m) \<Rightarrow> (frame @ out, m))
                  else (frame, m)))))"

section \<open>Leaving\<close>

text \<open>The deferred function of \<^verbatim>\<open>Run\<close>: what is written when the loop has ended.\<close>

definition restore_terminal :: "Model \<Rightarrow> string" where
  "restore_terminal m =
    (case vw_renderer m of
       None \<Rightarrow> ''''
     | Some rend \<Rightarrow> if vw_placedID m \<noteq> 0 then fst (Renderer_Clear (int (vw_placedID m)) rend) else '''')
    @ csi ''?25h'' @ csi ''?1000l'' @ csi ''?1002l'' @ csi ''?1003l'' @ csi ''?1006l''"

end
