(* ===== verification/ViewerFacts.thy ===== *)
theory ViewerFacts
  imports ViewerScreen
begin

text \<open>
  What the viewer guarantees in every order of messages: it never indexes out of range, the picture on
  the screen is that of the Story it names, what has expired is dropped at the next tick, and its two
  indices step through the play list of all Stories.  And two things it gets wrong.
\<close>

section \<open>Staying and moving\<close>

definition in_range :: "cliGroup list \<Rightarrow> Model \<Rightarrow> bool" where
  "in_range gs m \<longleftrightarrow> vw_groups m = gs \<and> vw_group m < length gs
    \<and> (vw_item m = 0 \<or> vw_item m < length (cg_Items (gs ! vw_group m)))"

text \<open>An update stays when it keeps the position and shows nothing new.\<close>

definition stays :: "Model \<Rightarrow> Model \<Rightarrow> bool" where
  "stays m m' \<longleftrightarrow> vw_groups m' = vw_groups m \<and> vw_group m' = vw_group m \<and> vw_item m' = vw_item m
    \<and> (vw_current m' = None \<or> vw_current m' = vw_current m)
    \<and> (vw_animation m' = None \<or> vw_animation m' = vw_animation m \<and> vw_animatedFor m' = vw_animatedFor m)"

definition picture_of :: "(nat \<Rightarrow> string \<Rightarrow> bool) \<Rightarrow> Model \<Rightarrow> bool" where
  "picture_of own m \<longleftrightarrow>
    (\<forall>it. currentItem m = Some it \<longrightarrow>
      (\<forall>img. vw_current m = Some img \<longrightarrow> own (fst img) (ci_ID it)) \<and> (vw_animation m \<noteq> None \<longrightarrow> vw_animatedFor m = ci_ID it))"

lemma stays_refl [simp]: "stays m m"
  by (simp add: stays_def)

lemma stays_trans: "stays a b \<Longrightarrow> stays b c \<Longrightarrow> stays a c"
  by (auto simp: stays_def)

lemma currentItem_eq: "vw_groups m' = vw_groups m \<Longrightarrow> vw_group m' = vw_group m \<Longrightarrow> vw_item m' = vw_item m \<Longrightarrow> currentItem m' = currentItem m"
  by (simp add: currentItem_def Let_def)

lemma currentItem_stays: "stays m m' \<Longrightarrow> currentItem m' = currentItem m"
  by (simp add: stays_def currentItem_def Let_def)

lemma stays_in_range: "stays m m' \<Longrightarrow> in_range gs m \<Longrightarrow> in_range gs m'"
  by (auto simp: in_range_def stays_def)

lemma stays_picture: "stays m m' \<Longrightarrow> picture_of own m \<Longrightarrow> picture_of own m'"
  using currentItem_stays[of m m'] by (auto simp: picture_of_def stays_def) metis+

lemma stays_steps [simp]:
  "stays m (clearImage m)" "stays m (stopAnimation m)" "stays m (fst (startAnimation rnd m))" "stays m (release h m)"
  "stays m (fst (loadCurrent m))"
  by (simp_all add: stays_def clearImage_def stopAnimation_def startAnimation_def release_def loadCurrent_def Let_def split: option.split)

lemma stopped [simp]:
  "vw_animation (stopAnimation m) = None" "vw_animation (clearImage m) = vw_animation m"
  "vw_animation (fst (loadCurrent m)) = vw_animation m"
  by (simp_all add: stopAnimation_def clearImage_def loadCurrent_def Let_def split: option.split)

lemma stays_cleared: "stays m (clearImage (stopAnimation m))"
  by (rule stays_trans[OF stays_steps(2,1)])

text \<open>Loading drops the picture of what was there before.\<close>

lemma loadCurrent_picture: "vw_animation m = None \<Longrightarrow> picture_of own (fst (loadCurrent m))"
  using currentItem_stays[OF stays_steps(5)[of m]]
  by (auto simp: picture_of_def loadCurrent_def Let_def split: option.splits if_splits)

lemma loadCurrent_in_range: "in_range gs (fst (loadCurrent m)) = in_range gs m"
  using stays_steps(5)[of m] by (auto simp: stays_def in_range_def)

definition arrived :: "(nat \<Rightarrow> string \<Rightarrow> bool) \<Rightarrow> cliGroup list \<Rightarrow> Model \<Rightarrow> Model \<Rightarrow> bool" where
  "arrived own gs m m' \<longleftrightarrow> stays m m' \<or> in_range gs m' \<and> picture_of own m'"

lemma arrived_ok:
  "arrived own gs m m' \<Longrightarrow> in_range gs m \<Longrightarrow> picture_of own m \<Longrightarrow> in_range gs m' \<and> picture_of own m'"
  unfolding arrived_def using stays_in_range stays_picture by blast

lemma arrived_from: "arrived own gs m1 m2 \<Longrightarrow> stays m m1 \<Longrightarrow> arrived own gs m m2"
  unfolding arrived_def using stays_trans by blast

text \<open>Moving to a position in range after stopping the animation.\<close>

lemma load_arrived: "vw_animation m1 = None \<Longrightarrow> in_range gs m1 \<Longrightarrow> arrived own gs m (fst (loadCurrent m1))"
  by (simp add: arrived_def loadCurrent_picture loadCurrent_in_range)

lemma advance_arrives:
  assumes "in_range gs m" and "vw_animation m = None"
  shows "\<exists>m' cs. advance m = Some (m', cs) \<and> arrived own gs m m'"
proof -
  have "arrived own gs m (m\<lparr>vw_quitting := True\<rparr>)" by (simp add: arrived_def stays_def)
  moreover have "arrived own gs m (fst (loadCurrent (m\<lparr>vw_item := vw_item m + 1\<rparr>)))"
    if "vw_item m + 1 < length (cg_Items (vw_groups m ! vw_group m))"
    using assms that by (intro load_arrived) (auto simp: in_range_def)
  moreover have "arrived own gs m (fst (loadCurrent (m\<lparr>vw_group := vw_group m + 1, vw_item := 0\<rparr>)))"
    if "vw_group m + 1 < length (vw_groups m)"
    using assms that by (intro load_arrived) (auto simp: in_range_def)
  ultimately show ?thesis using assms(1)
    by (auto simp: advance_def in_range_def split: prod.split intro: exI[of _ "snd (loadCurrent _)"] simp: prod_eq_iff)
qed

lemma back_arrives:
  assumes "in_range gs m" and "vw_animation m = None"
  shows "\<exists>m' cs. back_item m = Some (m', cs) \<and> arrived own gs m m'"
proof -
  have "arrived own gs m m" by (simp add: arrived_def)
  moreover have "arrived own gs m (fst (loadCurrent (m\<lparr>vw_item := vw_item m - 1\<rparr>)))"
    using assms by (intro load_arrived) (auto simp: in_range_def)
  moreover have "arrived own gs m (fst (loadCurrent (m\<lparr>vw_group := vw_group m - 1,
      vw_item := (let n = length (cg_Items (vw_groups m ! (vw_group m - 1))) in if 0 < n then n - 1 else 0)\<rparr>)))"
    using assms by (intro load_arrived) (auto simp: in_range_def Let_def)
  ultimately show ?thesis using assms(1)
    by (auto simp: back_item_def in_range_def Let_def prod_eq_iff)
qed


section \<open>Every message\<close>

definition fine :: "(nat \<Rightarrow> string \<Rightarrow> bool) \<Rightarrow> cliGroup list \<Rightarrow> Model \<Rightarrow> (Model \<times> cmd list) option \<Rightarrow> bool" where
  "fine own gs m r \<longleftrightarrow> (\<exists>m' cs. r = Some (m', cs) \<and> arrived own gs m m')"

lemma stays_fields [simp]:
  "stays m (m\<lparr>vw_mode := a\<rparr>)" "stays m (m\<lparr>vw_mode := a, vw_replyInput := b\<rparr>)" "stays m (m\<lparr>vw_replyInput := b, vw_mode := a\<rparr>)"
  "stays m (m\<lparr>vw_replyInput := b\<rparr>)" "stays m (m\<lparr>vw_statusMsg := s\<rparr>)" "stays m (m\<lparr>vw_mode := a, vw_statusMsg := s\<rparr>)"
  "stays m (m\<lparr>vw_paused := p\<rparr>)" "stays m (m\<lparr>vw_quitting := p\<rparr>)" "stays m (m\<lparr>vw_elapsed := n\<rparr>)" "stays m (m\<lparr>vw_errMsg := s\<rparr>)"
  "stays m (m\<lparr>vw_errMsg := s, vw_mode := a\<rparr>)" "stays m (m\<lparr>vw_viewers := v, vw_mode := a\<rparr>)" "stays m (m\<lparr>vw_pendingRaw := s\<rparr>)"
  "stays m (m\<lparr>vw_videoNote := s\<rparr>)" "stays m (m\<lparr>vw_loading := p\<rparr>)" "stays m (m\<lparr>vw_current := None, vw_statusMsg := s\<rparr>)"
  "stays m (m\<lparr>vw_width := w, vw_height := h\<rparr>)"
  by (simp_all add: stays_def)

lemma fine_stays [intro]: "stays m m' \<Longrightarrow> fine own gs m (idle m')" "stays m m' \<Longrightarrow> fine own gs m (Some (m', cs))"
  "stays m m' \<Longrightarrow> fine own gs m (Some (m', cs))"
  by (auto simp: fine_def idle_def arrived_def)

lemma fine_from: "fine own gs m1 r \<Longrightarrow> stays m m1 \<Longrightarrow> fine own gs m r"
  unfolding fine_def using arrived_from by blast

lemma fine_status [intro]: "fine own gs m (status s m)"
  unfolding status_def by (rule fine_stays) simp

lemma fine_with_tick [intro]: "fine own gs m r \<Longrightarrow> fine own gs m (with_tick r)"
  by (auto simp: fine_def with_tick_def)

lemma cleared_in_range: "in_range gs m \<Longrightarrow> in_range gs (clearImage (stopAnimation m))"
  by (rule stays_in_range[OF stays_cleared])

lemma fine_leave [intro]:
  assumes "in_range gs m"
  shows "fine own gs m (advance (clearImage (stopAnimation m)))" "fine own gs m (back_item (clearImage (stopAnimation m)))"
proof -
  let ?m = "clearImage (stopAnimation m)"
  have r: "in_range gs ?m" and a: "vw_animation ?m = None" using assms by (simp_all add: cleared_in_range)
  show "fine own gs m (advance ?m)"
    using advance_arrives[OF r a] arrived_from[OF _ stays_cleared] unfolding fine_def by blast
  show "fine own gs m (back_item ?m)"
    using back_arrives[OF r a] arrived_from[OF _ stays_cleared] unfolding fine_def by blast
qed

lemma fine_to_group [intro]:
  assumes "in_range gs m" and "g < length gs"
  shows "fine own gs m (to_group g m)"
proof -
  let ?m = "clearImage (stopAnimation (m\<lparr>vw_group := g, vw_item := 0\<rparr>))"
  have "in_range gs ?m" using assms by (intro cleared_in_range) (simp add: in_range_def)
  then have "arrived own gs m (fst (loadCurrent ?m))" by (intro load_arrived) simp_all
  then show ?thesis by (simp add: fine_def to_group_def prod_eq_iff)
qed


text \<open>Branches, so that a handler is proved by following its text.\<close>

lemma fine_branch:
  "(c \<Longrightarrow> fine own gs m a) \<Longrightarrow> (\<not> c \<Longrightarrow> fine own gs m b) \<Longrightarrow> fine own gs m (if c then a else b)"
  "(x = None \<Longrightarrow> fine own gs m a) \<Longrightarrow> (\<And>v. x = Some v \<Longrightarrow> fine own gs m (f v))
     \<Longrightarrow> fine own gs m (case x of None \<Rightarrow> a | Some v \<Rightarrow> f v)"
  by (auto split: option.split)

lemma stays_quit [simp]: "stays m (clearImage (stopAnimation (m\<lparr>vw_quitting := p\<rparr>)))"
  by (rule stays_trans[OF stays_fields(8) stays_cleared])

lemma fine_open_external: "fine own gs m (open_external m)"
  unfolding open_external_def Let_def by (auto split: option.split)

lemma fine_view_key:
  assumes "in_range gs m"
  shows "fine own gs m (view_key k m)"
  unfolding view_key_def Let_def
  by (intro fine_branch fine_status fine_stays fine_open_external fine_leave[OF assms] fine_to_group[OF assms] stays_quit stays_fields stays_refl)
    (use assms in \<open>auto simp: in_range_def\<close>)

lemma fine_reply_key: "fine own gs m (reply_key k m)"
  unfolding reply_key_def Let_def by (cases "k_Type k"; simp) (auto intro!: fine_branch fine_stays)

lemma fine_react_key: "fine own gs m (react_key k m)"
  unfolding react_key_def Let_def
  by (cases "k_Type k"; cases "k_Runes k"; simp add: fine_stays)
    (auto intro!: fine_branch fine_stays split: list.split)

lemma fine_handleKey: "in_range gs m \<Longrightarrow> fine own gs m (handleKey k m)"
  unfolding handleKey_def by (intro fine_branch fine_reply_key fine_react_key fine_view_key fine_stays stays_fields)

lemma fine_handleTick:
  assumes "in_range gs m"
  shows "fine own gs m (handleTick now m)"
proof -
  have 1: "fine own gs m (advance (clearImage (stopAnimation m1)))" if "stays m m1" for m1
    using fine_leave(1)[OF stays_in_range[OF that assms]] that by (rule fine_from)
  show ?thesis
    unfolding handleTick_def Let_def by (intro fine_branch fine_with_tick 1 fine_stays stays_fields stays_refl)
qed

lemma fine_Update:
  assumes "in_range gs m" and "picture_of own m"
    and "\<And>i img meta. x = MediaMsg i (Inr img) meta \<Longrightarrow> own (fst img) i"
  shows "fine own gs m (Update rnd now x m)"
proof (cases x)
  case (WindowSizeMsg w h)
  let ?m = "clearImage (stopAnimation (m\<lparr>vw_width := w, vw_height := h\<rparr>))"
  have "in_range gs ?m" using assms(1) by (intro cleared_in_range) (simp add: in_range_def)
  then show ?thesis using load_arrived[of ?m gs own m] by (simp add: WindowSizeMsg fine_def prod_eq_iff)
next
  case (MediaMsg i res meta)
  show ?thesis
  proof (cases "showing (m\<lparr>vw_loading := False\<rparr>) i")
    case False
    then show ?thesis by (simp add: MediaMsg fine_stays Let_def)
  next
    case True
    then have cur: "\<exists>it. currentItem m = Some it \<and> ci_ID it = i"
      by (auto simp: showing_def currentItem_def Let_def split: option.splits if_splits)
    have gone: "stays m (m\<lparr>vw_loading := False, vw_meta := meta, vw_current := None\<rparr>)"
      "stays m (m\<lparr>vw_loading := False, vw_meta := meta, vw_current := None, vw_errMsg := e\<rparr>)" for e
      by (simp_all add: stays_def)
    show ?thesis
    proof (cases res)
      case (Inl e)
      with True gone show ?thesis by (cases e) (simp_all add: MediaMsg fine_stays Let_def)
    next
      case (Inr img)
      let ?m = "m\<lparr>vw_loading := False, vw_meta := meta, vw_current := Some img, vw_errMsg := ''''\<rparr>"
      have "currentItem ?m = currentItem m" by (simp add: currentItem_def Let_def)
      then have "picture_of own ?m" "in_range gs ?m"
        using cur assms(1,2) assms(3)[of i img meta] by (auto simp: picture_of_def in_range_def MediaMsg Inr)
      with True show ?thesis by (simp add: MediaMsg Inr fine_def idle_def arrived_def Let_def)
    qed
  qed
next
  case (FramesMsg i res)
  have "stays m (fst (startAnimation rnd ((release (vw_framesCleanup m) m)\<lparr>vw_frames := fs, vw_framesCleanup := h, vw_framesFor := i\<rparr>)))"
    for fs h
    by (rule stays_trans[OF _ stays_steps(3)], rule stays_trans[OF stays_steps(4)[where h = "vw_framesCleanup m"]]) (simp add: stays_def)
  then show ?thesis
    by (cases res) (auto simp: FramesMsg fine_stays fine_def arrived_def prod_eq_iff idle_def split: prod.split)
next
  case (AnimationMsg i res)
  show ?thesis
  proof (cases "showing m i \<and> \<not> isl res")
    case False
    then show ?thesis by (cases res) (auto simp: AnimationMsg intro!: fine_stays)
  next
    case True
    then obtain a where a: "res = Inr a" by (cases res) auto
    let ?m = "m\<lparr>vw_animation := Some a, vw_animatedFor := i, vw_elapsed := 0\<rparr>"
    have "currentItem ?m = currentItem m" by (simp add: currentItem_def Let_def)
    then have "picture_of own ?m" "in_range gs ?m"
      using True assms(1,2) by (auto simp: picture_of_def in_range_def showing_def split: option.splits)
    with True a show ?thesis by (simp add: AnimationMsg fine_def idle_def arrived_def)
  qed
qed (use assms(1) in \<open>auto intro!: fine_handleKey fine_handleTick fine_stays split: sum.split\<close>)


lemma Init_model: "fst (Init m) = fst (loadCurrent m)"
  by (simp add: Init_def split: prod.split)

lemma New_Model_fields:
  "vw_groups (New_Model gs start rend caps video ext opener) = gs" "vw_item (New_Model gs start rend caps video ext opener) = 0"
  "vw_group (New_Model gs start rend caps video ext opener) = (if start < 0 \<or> int (length gs) \<le> start then 0 else nat start)"
  "vw_animation (New_Model gs start rend caps video ext opener) = None"
  "\<not> vw_quitting (New_Model gs start rend caps video ext opener)"
  by (simp_all add: New_Model_def Let_def)

lemma started: "gs \<noteq> [] \<Longrightarrow> in_range gs (fst (Init (New_Model gs start rend caps video ext opener)))
    \<and> picture_of own (fst (Init (New_Model gs start rend caps video ext opener)))"
  unfolding Init_model loadCurrent_in_range
  using loadCurrent_picture[OF New_Model_fields(4)] by (auto simp: in_range_def New_Model_fields nat_less_iff)

lemma reached_ok:
  assumes "steps_to ok rnd (New_Model gs start rend caps video ext opener) m" and "gs \<noteq> []"
    and "\<And>i img meta. ok (MediaMsg i (Inr img) meta) \<Longrightarrow> own (fst img) i"
  shows "in_range gs m \<and> picture_of own m"
  using assms(1)
proof induction
  case start
  show ?case using started[OF assms(2)] .
next
  case (step m1 x now m2 cs)
  then have "fine own gs m1 (Update rnd now x m1)" using assms(3) by (intro fine_Update) auto
  with step show ?case using arrived_ok unfolding fine_def by force
qed

section \<open>What the viewer guarantees\<close>


text \<open>A message is true to \<open>source\<close> when the picture it brings is one of the Story it was fetched for.\<close>

fun true_to :: "(nat \<Rightarrow> string) \<Rightarrow> msg \<Rightarrow> bool" where
  "true_to source (MediaMsg i (Inr img) meta) \<longleftrightarrow> source (fst img) = i"
| "true_to source _ \<longleftrightarrow> True"


definition dark :: "Model \<Rightarrow> bool" where
  "dark m \<longleftrightarrow> vw_current m = None \<and> vw_animation m = None \<and> (vw_renderer m = None \<or> vw_placedID m = 0)"

lemma dark_load:
  assumes "dark m"
  shows "dark (fst (loadCurrent m)) \<and> (vw_loading (fst (loadCurrent m)) \<or> currentItem (fst (loadCurrent m)) = None)"
  using assms currentItem_stays[OF stays_steps(5)[of m]]
  by (auto simp: dark_def loadCurrent_def Let_def split: option.split)

lemma dark_advance:
  assumes "advance m = Some (m', cs)" and "dark m"
  shows "dark m' \<and> (vw_quitting m' \<or> vw_loading m' \<or> currentItem m' = None)"
proof -
  have d: "dark (m\<lparr>vw_item := i\<rparr>)" "dark (m\<lparr>vw_group := g, vw_item := i\<rparr>)" "dark (m\<lparr>vw_quitting := q\<rparr>)" for i g q
    using assms(2) by (simp_all add: dark_def)
  from assms(1) have "m' = fst (loadCurrent (m\<lparr>vw_item := vw_item m + 1\<rparr>))
      \<or> m' = fst (loadCurrent (m\<lparr>vw_group := vw_group m + 1, vw_item := 0\<rparr>)) \<or> m' = m\<lparr>vw_quitting := True\<rparr>"
    by (auto simp: advance_def split: if_splits)
  then show ?thesis
    using dark_load[OF d(1)[of "vw_item m + 1"]] dark_load[OF d(2)[of 0 "vw_group m + 1"]] d(3)[of True]
    by (elim disjE) simp_all
qed

lemma dark_cleared: "vw_current m = None \<Longrightarrow> dark (clearImage (stopAnimation m))"
  by (auto simp: dark_def clearImage_def stopAnimation_def split: option.split)

text \<open>Media whose time is up leave the screen at the next tick, also while the viewer is paused, a reply is
  typed or a list is open: the picture and the animation are dropped, the place on the screen is given up,
  and nothing is shown again until the next Story is loaded.\<close>

theorem expired_leaves_screen:
  assumes "steps_to (\<lambda>x. True) rnd (New_Model gs start rend caps video ext opener) m" and "gs \<noteq> []"
    and "item_expired now (currentItem m)" and "Update rnd now TickMsg m = Some (m', cs)"
  shows "vw_current m' = None \<and> vw_animation m' = None \<and> (vw_renderer m' = None \<or> vw_placedID m' = 0)
    \<and> (vw_quitting m' \<or> vw_loading m' \<or> currentItem m' = None)"
proof -
  let ?n = "m\<lparr>vw_current := None, vw_statusMsg := ''This Story expired.''\<rparr>"
  obtain cs1 where "advance (clearImage (stopAnimation ?n)) = Some (m', cs1)"
    using assms(3,4) by (auto simp: handleTick_def with_tick_def)
  from dark_advance[OF this dark_cleared] show ?thesis unfolding dark_def by simp
qed


section \<open>The viewer as a player of a list\<close>

text \<open>The abstract viewer: a place in the list of all Stories, and five things that can happen to it.\<close>

datatype player = Playing nat | Ended

datatype play_event = PStay | PNext | PPrev | PDown | PUp | PQuit

definition playlist :: "cliGroup list \<Rightarrow> cliStory list" where
  "playlist gs = concat (map cg_Items gs)"

definition start_of :: "cliGroup list \<Rightarrow> nat \<Rightarrow> nat" where
  "start_of gs g = length (playlist (take g gs))"

definition starts :: "cliGroup list \<Rightarrow> nat list" where
  "starts gs = map (start_of gs) [0..<length gs]"

fun play :: "cliGroup list \<Rightarrow> play_event \<Rightarrow> player \<Rightarrow> player" where
  "play gs e Ended = Ended"
| "play gs PStay (Playing k) = Playing k"
| "play gs PNext (Playing k) = (if k + 1 < length (playlist gs) then Playing (k + 1) else Ended)"
| "play gs PPrev (Playing k) = Playing (k - 1)"
| "play gs PDown (Playing k) = (case filter (\<lambda>s. k < s) (starts gs) of [] \<Rightarrow> Playing k | s # _ \<Rightarrow> Playing s)"
| "play gs PUp (Playing k) = (case rev (filter (\<lambda>s. s \<le> k) (starts gs)) of _ # s # _ \<Rightarrow> Playing s | _ \<Rightarrow> Playing k)"
| "play gs PQuit (Playing k) = Ended"

definition player :: "Model \<Rightarrow> player" where
  "player m = (if vw_quitting m then Ended else Playing (start_of (vw_groups m) (vw_group m) + vw_item m))"

text \<open>What the abstract viewer hears of a message.\<close>

definition heard_key :: "string \<Rightarrow> play_event" where
  "heard_key s =
    (if s \<in> {''q'', ''esc'', ''ctrl+c''} then PQuit
     else if s \<in> {''right'', ''n'', ''l''} then PNext
     else if s \<in> {''left'', ''p'', ''h''} then PPrev
     else if s \<in> {''down'', ''j''} then PDown
     else if s \<in> {''up'', ''k''} then PUp
     else PStay)"

fun heard :: "time \<Rightarrow> msg \<Rightarrow> Model \<Rightarrow> play_event" where
  "heard now (KeyMsg k) m = (if vw_mode m = ModeViewing then heard_key (k_Name k) else PStay)"
| "heard now TickMsg m =
    (let it = currentItem m in
     if item_expired now it then PNext
     else if vw_paused m \<or> vw_mode m \<noteq> ModeViewing \<or> vw_loading m then PStay
     else if itemDuration it \<le> vw_elapsed m + 250000000 then PNext else PStay)"
| "heard now _ m = PStay"

lemma start_Suc: "g < length gs \<Longrightarrow> start_of gs (Suc g) = start_of gs g + length (cg_Items (gs ! g))"
  by (simp add: start_of_def playlist_def take_Suc_conv_app_nth)

lemma start_zero [simp]: "start_of gs 0 = 0"
  by (simp add: start_of_def playlist_def)

lemma start_length: "start_of gs (length gs) = length (playlist gs)"
  by (simp add: start_of_def)

lemma playlist_nth:
  assumes "g < length gs" and "i < length (cg_Items (gs ! g))"
  shows "start_of gs g + i < length (playlist gs) \<and> playlist gs ! (start_of gs g + i) = cg_Items (gs ! g) ! i"
proof -
  have "playlist gs = playlist (take g gs) @ cg_Items (gs ! g) @ playlist (drop (Suc g) gs)"
    using id_take_nth_drop[OF assms(1)] by (metis concat.simps(2) concat_append list.map(2) map_append playlist_def)
  then show ?thesis using assms(2) by (simp add: start_of_def nth_append)
qed

lemma start_strict: "\<forall>g\<in>set gs. cg_Items g \<noteq> [] \<Longrightarrow> a < b \<Longrightarrow> b \<le> length gs \<Longrightarrow> start_of gs a < start_of gs b"
proof (induction b)
  case (Suc b)
  then have "0 < length (cg_Items (gs ! b))" by auto
  with Suc show ?case by (cases "a = b") (auto simp: start_Suc)
qed simp

lemma starts_around:
  assumes "\<forall>g\<in>set gs. cg_Items g \<noteq> []" and "g < length gs" and "i < length (cg_Items (gs ! g))"
  shows "filter (\<lambda>s. s \<le> start_of gs g + i) (starts gs) = map (start_of gs) [0..<Suc g]"
    and "filter (\<lambda>s. start_of gs g + i < s) (starts gs) = map (start_of gs) [Suc g..<length gs]"
proof -
  have le: "start_of gs a \<le> start_of gs g + i" if "a \<le> g" for a
    using start_strict[OF assms(1), of a g] that assms(2) by (cases "a = g") auto
  have gt: "start_of gs g + i < start_of gs a" if "Suc g \<le> a" "a < length gs" for a
    using start_strict[OF assms(1), of "Suc g" a] that start_Suc[OF assms(2)] assms(3) by (cases "a = Suc g") auto
  obtain n where n: "length gs = Suc g + n" using assms(2) by (metis Suc_leI le_Suc_ex)
  have "starts gs = map (start_of gs) [0..<Suc g] @ map (start_of gs) [Suc g..<length gs]"
    unfolding starts_def map_append[symmetric] n by (simp only: upt_add_eq_append[OF le0])
  moreover have "filter (\<lambda>s. s \<le> start_of gs g + i) (map (start_of gs) [0..<Suc g]) = map (start_of gs) [0..<Suc g]"
    "filter (\<lambda>s. s \<le> start_of gs g + i) (map (start_of gs) [Suc g..<length gs]) = []"
    "filter (\<lambda>s. start_of gs g + i < s) (map (start_of gs) [0..<Suc g]) = []"
    "filter (\<lambda>s. start_of gs g + i < s) (map (start_of gs) [Suc g..<length gs]) = map (start_of gs) [Suc g..<length gs]"
    using le gt by (auto simp: filter_id_conv filter_empty_conv not_less not_le less_Suc_eq_le simp del: upt_Suc)
  ultimately show "filter (\<lambda>s. s \<le> start_of gs g + i) (starts gs) = map (start_of gs) [0..<Suc g]"
    and "filter (\<lambda>s. start_of gs g + i < s) (starts gs) = map (start_of gs) [Suc g..<length gs]"
    by (simp_all del: upt_Suc)
qed


definition same_play :: "Model \<Rightarrow> Model \<Rightarrow> bool" where
  "same_play m m' \<longleftrightarrow> vw_groups m' = vw_groups m \<and> vw_group m' = vw_group m \<and> vw_item m' = vw_item m \<and> vw_quitting m' = vw_quitting m"

lemma same_play_steps [simp]:
  "same_play m m" "same_play m (clearImage m)" "same_play m (stopAnimation m)" "same_play m (fst (startAnimation rnd m))"
  "same_play m (release h m)" "same_play m (fst (loadCurrent m))"
  by (simp_all add: same_play_def clearImage_def stopAnimation_def startAnimation_def release_def loadCurrent_def Let_def split: option.split)

lemma same_play_trans: "same_play a b \<Longrightarrow> same_play b c \<Longrightarrow> same_play a c"
  by (simp add: same_play_def)

lemma same_play_cleared: "same_play m (clearImage (stopAnimation m))"
  by (rule same_play_trans[OF same_play_steps(3,2)])

lemma player_same: "same_play m m' \<Longrightarrow> player m' = player m"
  by (simp add: player_def same_play_def)

lemma player_load [simp]: "player (fst (loadCurrent m)) = player m"
  by (rule player_same) simp

text \<open>\<open>plays e m r\<close>: the result \<open>r\<close> does to the abstract viewer what \<open>e\<close> says.\<close>

definition plays :: "play_event \<Rightarrow> Model \<Rightarrow> (Model \<times> cmd list) option \<Rightarrow> bool" where
  "plays e m r \<longleftrightarrow> (\<forall>m' cs. r = Some (m', cs) \<longrightarrow> player m' = play (vw_groups m) e (player m))"

definition on_story :: "Model \<Rightarrow> bool" where
  "on_story m \<longleftrightarrow> \<not> vw_quitting m \<and> (\<forall>g\<in>set (vw_groups m). cg_Items g \<noteq> []) \<and> vw_group m < length (vw_groups m)
    \<and> vw_item m < length (cg_Items (vw_groups m ! vw_group m))"

lemma on_story_same: "same_play m m' \<Longrightarrow> on_story m \<Longrightarrow> on_story m'"
  by (simp add: on_story_def same_play_def)

lemma plays_from: "plays e m1 r \<Longrightarrow> same_play m m1 \<Longrightarrow> plays e m r"
  unfolding plays_def by (simp add: player_same) (simp add: same_play_def)

lemma plays_stay: "same_play m m' \<Longrightarrow> plays PStay m (idle m')" "same_play m m' \<Longrightarrow> plays PStay m (Some (m', cs))"
  by (cases "player m"; simp add: plays_def idle_def player_same)+

lemma plays_load: "player m1 = play (vw_groups m) e (player m) \<Longrightarrow> plays e m (Some (loadCurrent m1))"
  unfolding plays_def by (metis fst_conv option.inject player_load)

lemma plays_advance:
  assumes "on_story m"
  shows "plays PNext m (advance m)"
proof -
  let ?gs = "vw_groups m" and ?g = "vw_group m" and ?i = "vw_item m"
  have k: "player m = Playing (start_of ?gs ?g + ?i)" using assms by (simp add: player_def on_story_def)
  have lt: "start_of ?gs ?g + ?i < length (playlist ?gs)" using assms playlist_nth by (simp add: on_story_def)
  consider (item) "?i + 1 < length (cg_Items (?gs ! ?g))"
    | (group) "?i + 1 = length (cg_Items (?gs ! ?g))" "?g + 1 < length ?gs" | (stop) "?i + 1 = length (cg_Items (?gs ! ?g))" "?g + 1 = length ?gs"
    using assms by (force simp: on_story_def)
  then show ?thesis
  proof cases
    case item
    then have "player (m\<lparr>vw_item := ?i + 1\<rparr>) = Playing (start_of ?gs ?g + ?i + 1)" using assms by (simp add: player_def on_story_def)
    moreover have "start_of ?gs ?g + ?i + 1 < length (playlist ?gs)" using playlist_nth[of ?g ?gs "?i + 1"] item assms by (simp add: on_story_def)
    ultimately have "plays PNext m (Some (loadCurrent (m\<lparr>vw_item := ?i + 1\<rparr>)))" using k by (intro plays_load) simp
    then show ?thesis using item assms by (simp add: advance_def on_story_def)
  next
    case group
    have s: "start_of ?gs (?g + 1) = start_of ?gs ?g + ?i + 1" using start_Suc[of ?g ?gs] group assms by (simp add: on_story_def)
    have "?gs ! (?g + 1) \<in> set ?gs" using group by simp
    then have "0 < length (cg_Items (?gs ! (?g + 1)))" using assms by (auto simp: on_story_def)
    then have "start_of ?gs ?g + ?i + 1 < length (playlist ?gs)" using playlist_nth[of "?g + 1" ?gs 0] group s by simp
    moreover have "player (m\<lparr>vw_group := ?g + 1, vw_item := 0\<rparr>) = Playing (start_of ?gs ?g + ?i + 1)"
      using s assms by (simp add: player_def on_story_def)
    ultimately have "plays PNext m (Some (loadCurrent (m\<lparr>vw_group := ?g + 1, vw_item := 0\<rparr>)))" using k by (intro plays_load) simp
    then show ?thesis using group assms by (simp add: advance_def on_story_def)
  next
    case stop
    have "start_of ?gs ?g + ?i + 1 = length (playlist ?gs)"
      using start_Suc[of ?g ?gs] start_length[of ?gs] stop assms by (simp add: on_story_def)
    then show ?thesis using stop assms k by (simp add: plays_def advance_def on_story_def) (simp add: player_def)
  qed
qed

lemma plays_back:
  assumes "on_story m"
  shows "plays PPrev m (back_item m)"
proof -
  let ?gs = "vw_groups m" and ?g = "vw_group m" and ?i = "vw_item m"
  have k: "player m = Playing (start_of ?gs ?g + ?i)" using assms by (simp add: player_def on_story_def)
  consider (item) "0 < ?i" | (group) "?i = 0" "0 < ?g" | (stop) "?i = 0" "?g = 0" by auto
  then show ?thesis
  proof cases
    case item
    then have "player (m\<lparr>vw_item := ?i - 1\<rparr>) = Playing (start_of ?gs ?g + ?i - 1)" using assms by (simp add: player_def on_story_def)
    then have "plays PPrev m (Some (loadCurrent (m\<lparr>vw_item := ?i - 1\<rparr>)))" using k by (intro plays_load) simp
    then show ?thesis using item by (simp add: back_item_def)
  next
    case group
    have "?gs ! (?g - 1) \<in> set ?gs" using assms by (simp add: on_story_def less_imp_diff_less)
    then have "0 < length (cg_Items (?gs ! (?g - 1)))" using assms by (auto simp: on_story_def)
    moreover have "start_of ?gs ?g = start_of ?gs (?g - 1) + length (cg_Items (?gs ! (?g - 1)))"
      using start_Suc[of "?g - 1" ?gs] group assms by (simp add: on_story_def less_imp_diff_less)
    ultimately have "player (m\<lparr>vw_group := ?g - 1, vw_item := length (cg_Items (?gs ! (?g - 1))) - 1\<rparr>) = Playing (start_of ?gs ?g - 1)"
      using assms by (auto simp: player_def on_story_def neq_Nil_conv)
    then have "plays PPrev m (Some (loadCurrent (m\<lparr>vw_group := ?g - 1, vw_item := length (cg_Items (?gs ! (?g - 1))) - 1\<rparr>)))"
      using k group by (intro plays_load) simp
    then show ?thesis using group assms \<open>?gs ! (?g - 1) \<in> set ?gs\<close> by (auto simp: back_item_def on_story_def Let_def)
  next
    case stop
    then show ?thesis using k by (simp add: plays_def back_item_def)
  qed
qed


lemma plays_jump:
  assumes "on_story m" and "vw_groups m = gs" and "play gs e (player m) = Playing (start_of gs g)"
  shows "plays e m (to_group g m)"
proof -
  have "player (clearImage (stopAnimation (m\<lparr>vw_group := g, vw_item := 0\<rparr>))) = play gs e (player m)"
    unfolding player_same[OF same_play_cleared] using assms by (simp add: player_def on_story_def)
  then show ?thesis unfolding to_group_def using plays_load assms(2) by blast
qed

lemma plays_down:
  assumes "on_story m"
  shows "plays PDown m (if vw_group m + 1 < length (vw_groups m) then to_group (vw_group m + 1) m else idle m)"
proof -
  let ?gs = "vw_groups m" and ?g = "vw_group m"
  have k: "player m = Playing (start_of ?gs ?g + vw_item m)" using assms by (simp add: player_def on_story_def)
  have f: "filter (\<lambda>s. start_of ?gs ?g + vw_item m < s) (starts ?gs) = map (start_of ?gs) [Suc ?g..<length ?gs]"
    by (rule starts_around(2)) (use assms in \<open>simp_all add: on_story_def\<close>)
  show ?thesis
  proof (cases "?g + 1 < length ?gs")
    case True
    then have "[Suc ?g..<length ?gs] = Suc ?g # [Suc (Suc ?g)..<length ?gs]" by (simp add: upt_conv_Cons)
    then have "play ?gs PDown (player m) = Playing (start_of ?gs (?g + 1))" by (simp add: k f)
    from plays_jump[OF assms refl this] True show ?thesis by simp
  next
    case False
    with k f show ?thesis by (simp add: plays_def idle_def)
  qed
qed

lemma plays_up:
  assumes "on_story m"
  shows "plays PUp m (if 0 < vw_group m then to_group (vw_group m - 1) m else idle m)"
proof -
  let ?gs = "vw_groups m" and ?g = "vw_group m"
  have k: "player m = Playing (start_of ?gs ?g + vw_item m)" using assms by (simp add: player_def on_story_def)
  have f: "filter (\<lambda>s. s \<le> start_of ?gs ?g + vw_item m) (starts ?gs) = map (start_of ?gs) [0..<Suc ?g]"
    by (rule starts_around(1)) (use assms in \<open>simp_all add: on_story_def\<close>)
  show ?thesis
  proof (cases ?g)
    case 0
    with k f show ?thesis by (simp add: plays_def idle_def)
  next
    case (Suc n)
    then have "play ?gs PUp (player m) = Playing (start_of ?gs (?g - 1))" using k f by simp
    from plays_jump[OF assms refl this] Suc show ?thesis by simp
  qed
qed

lemma plays_branch:
  "(c \<Longrightarrow> plays e m a) \<Longrightarrow> (\<not> c \<Longrightarrow> plays e m b) \<Longrightarrow> plays e m (if c then a else b)"
  "(x = None \<Longrightarrow> plays e m a) \<Longrightarrow> (\<And>v. x = Some v \<Longrightarrow> plays e m (f v))
     \<Longrightarrow> plays e m (case x of None \<Rightarrow> a | Some v \<Rightarrow> f v)"
  by (auto split: option.split)

lemma same_play_fields [simp]:
  "same_play m (m\<lparr>vw_mode := a\<rparr>)" "same_play m (m\<lparr>vw_mode := a, vw_replyInput := b\<rparr>)" "same_play m (m\<lparr>vw_replyInput := b, vw_mode := a\<rparr>)"
  "same_play m (m\<lparr>vw_replyInput := b\<rparr>)" "same_play m (m\<lparr>vw_statusMsg := s\<rparr>)" "same_play m (m\<lparr>vw_mode := a, vw_statusMsg := s\<rparr>)"
  "same_play m (m\<lparr>vw_paused := p\<rparr>)" "same_play m (m\<lparr>vw_elapsed := n\<rparr>)" "same_play m (m\<lparr>vw_current := None, vw_statusMsg := s\<rparr>)"
  "same_play m (m\<lparr>vw_width := w, vw_height := h\<rparr>)"
  by (simp_all add: same_play_def)

lemma plays_status: "plays PStay m (status s m)"
  unfolding status_def by (rule plays_stay) simp

lemma plays_open_external: "plays PStay m (open_external m)"
  unfolding open_external_def Let_def by (auto split: option.split intro!: plays_status plays_stay)

lemma plays_leave: "on_story m \<Longrightarrow> plays PNext m (advance (clearImage (stopAnimation m)))"
  "on_story m \<Longrightarrow> plays PPrev m (back_item (clearImage (stopAnimation m)))"
  by (rule plays_from[OF _ same_play_cleared], erule plays_advance[OF on_story_same[OF same_play_cleared]])
    (rule plays_from[OF _ same_play_cleared], erule plays_back[OF on_story_same[OF same_play_cleared]])

lemma plays_quit: "on_story m \<Longrightarrow> plays PQuit m (Some (clearImage (stopAnimation (m\<lparr>vw_quitting := True\<rparr>)), cs))"
  using player_same[OF same_play_cleared[of "m\<lparr>vw_quitting := True\<rparr>"]] by (cases "player m") (simp_all add: plays_def, simp_all add: player_def)

lemma plays_move:
  assumes "on_story m"
  shows "Suc (vw_group m) < length (vw_groups m) \<Longrightarrow> plays PDown m (to_group (Suc (vw_group m)) m)"
    and "\<not> Suc (vw_group m) < length (vw_groups m) \<Longrightarrow> plays PDown m (idle m)"
    and "0 < vw_group m \<Longrightarrow> plays PUp m (to_group (vw_group m - Suc 0) m)" and "vw_group m = 0 \<Longrightarrow> plays PUp m (idle m)"
  using plays_down[OF assms] plays_up[OF assms] by simp_all

lemma plays_view_key: "on_story m \<Longrightarrow> plays (heard_key (k_Name k)) m (view_key k m)"
  unfolding view_key_def heard_key_def Let_def
  by (intro plays_branch; simp)
    (auto intro!: plays_branch plays_status plays_stay plays_open_external plays_leave plays_quit plays_move)


lemma plays_other_keys: "plays PStay m (reply_key k m)" "plays PStay m (react_key k m)"
  unfolding reply_key_def react_key_def Let_def
  by (auto intro!: plays_branch plays_stay split: key_type.split option.split list.split)

lemma heard_handleKey: "on_story m \<Longrightarrow> plays (heard now (KeyMsg k) m) m (handleKey k m)"
  using plays_view_key[of m k] plays_other_keys[of m k]
  by (cases "vw_mode m") (auto simp: handleKey_def intro!: plays_stay)

lemma plays_with_tick: "plays e m r \<Longrightarrow> plays e m (with_tick r)"
  by (auto simp: plays_def with_tick_def)

lemma heard_handleTick:
  assumes "on_story m"
  shows "plays (heard now TickMsg m) m (handleTick now m)"
proof -
  have 1: "plays PNext m (advance (clearImage (stopAnimation m1)))" if "same_play m m1" for m1
    using plays_leave(1)[OF on_story_same[OF that assms]] that by (rule plays_from)
  have e: "itemDuration (currentItem (m\<lparr>vw_elapsed := n\<rparr>)) = itemDuration (currentItem m)" for n
    by (simp add: currentItem_def Let_def)
  show ?thesis
    unfolding handleTick_def heard.simps Let_def
    by (intro plays_branch; simp add: e) (intro conjI impI plays_branch plays_with_tick 1 plays_stay same_play_fields same_play_steps)+
qed


lemma heard_Update:
  assumes "on_story m"
  shows "plays (heard now x m) m (Update rnd now x m)"
proof (cases x)
  case (WindowSizeMsg w h)
  have "player (clearImage (stopAnimation (m\<lparr>vw_width := w, vw_height := h\<rparr>))) = player m"
    unfolding player_same[OF same_play_cleared] by (rule player_same) simp
  then have "plays PStay m (Some (loadCurrent (clearImage (stopAnimation (m\<lparr>vw_width := w, vw_height := h\<rparr>)))))"
    by (intro plays_load) (cases "player m"; simp)
  then show ?thesis by (simp add: WindowSizeMsg)
next
  case (MediaMsg i res meta)
  show ?thesis unfolding MediaMsg
    by (auto simp: Let_def same_play_def intro!: plays_branch plays_stay split: sum.split media_failure.split)
next
  case (FramesMsg i res)
  have "same_play m (fst (startAnimation rnd ((release (vw_framesCleanup m) m)\<lparr>vw_frames := fs, vw_framesCleanup := h, vw_framesFor := i\<rparr>)))"
    for fs h
    by (rule same_play_trans[OF _ same_play_steps(4)], rule same_play_trans[OF same_play_steps(5)[where h = "vw_framesCleanup m"]])
      (simp add: same_play_def)
  then have "plays PStay m (Some (startAnimation rnd ((release (vw_framesCleanup m) m)\<lparr>vw_frames := fs, vw_framesCleanup := h, vw_framesFor := i\<rparr>)))"
    for fs h using plays_stay(2) by (metis prod.collapse)
  then show ?thesis
    by (cases res) (auto simp: FramesMsg same_play_def release_def intro!: plays_stay split: prod.split)
next
  case (AnimationMsg i res)
  then show ?thesis by (cases res) (auto simp: same_play_def intro!: plays_stay)
next
  case (KeyMsg k)
  with heard_handleKey[OF assms] show ?thesis by simp
next
  case TickMsg
  with heard_handleTick[OF assms] show ?thesis by simp
qed (auto simp: same_play_def intro!: plays_stay split: sum.split)

lemma reached_on_story:
  assumes "steps_to ok rnd (New_Model gs start rend caps video ext opener) m" and "gs \<noteq> []" and "\<forall>g\<in>set gs. cg_Items g \<noteq> []"
    and "\<not> vw_quitting m"
  shows "on_story m \<and> vw_groups m = gs"
proof -
  have "in_range gs m" using reached_ok[OF assms(1,2), where own = "\<lambda>_ _. True"] by simp
  with assms(3,4) show ?thesis by (auto simp: in_range_def on_story_def)
qed

text \<open>C16. The viewer implements a player of one list: it stands at a place of the list of all Stories, shows
  the Story at that place, and every message moves it as the abstract player moves: to the next Story,
  to the one before, to the first of the next or the previous author, or not at all; past the last Story
  it ends.  The clock moves it only when the Story has expired or has been on the screen for its time.\<close>

theorem viewer_refines_player:
  assumes "steps_to (\<lambda>x. True) rnd (New_Model gs start rend caps video ext opener) m" and "gs \<noteq> []"
    and "\<forall>g\<in>set gs. cg_Items g \<noteq> []" and "\<not> vw_quitting m"
  shows "(\<exists>k < length (playlist gs). player m = Playing k \<and> currentItem m = Some (playlist gs ! k))
    \<and> (\<exists>m' cs. Update rnd now x m = Some (m', cs) \<and> player m' = play gs (heard now x m) (player m))"
proof -
  have s: "on_story m" and gs: "vw_groups m = gs" using reached_on_story[OF assms] by auto
  have ok: "in_range gs m \<and> picture_of (\<lambda>_ _. True) m" using reached_ok[OF assms(1,2), where own = "\<lambda>_ _. True"] by simp
  then have "fine (\<lambda>_ _. True) gs m (Update rnd now x m)" by (intro fine_Update) auto
  then obtain m' cs where u: "Update rnd now x m = Some (m', cs)" unfolding fine_def by blast
  with heard_Update[OF s, of now x rnd] gs have "player m' = play gs (heard now x m) (player m)" by (simp add: plays_def)
  moreover have "player m = Playing (start_of gs (vw_group m) + vw_item m)" using s gs by (simp add: player_def on_story_def)
  moreover have "currentItem m = Some (playlist gs ! (start_of gs (vw_group m) + vw_item m))"
    and "start_of gs (vw_group m) + vw_item m < length (playlist gs)"
    using s gs playlist_nth[of "vw_group m" gs "vw_item m"] by (simp_all add: on_story_def currentItem_def Let_def)
  ultimately show ?thesis using u by blast
qed

section \<open>What it gets wrong\<close>

lemma kept_typing [simp]:
  "vw_mode (fst (loadCurrent m)) = vw_mode m" "vw_replyInput (fst (loadCurrent m)) = vw_replyInput m"
  "vw_mode (clearImage m) = vw_mode m" "vw_replyInput (clearImage m) = vw_replyInput m"
  "vw_mode (stopAnimation m) = vw_mode m" "vw_replyInput (stopAnimation m) = vw_replyInput m"
  by (simp_all add: loadCurrent_def clearImage_def stopAnimation_def Let_def split: option.split)

lemma advance_typing: "advance m = Some (m', cs) \<Longrightarrow> vw_mode m' = vw_mode m \<and> vw_replyInput m' = vw_replyInput m"
  by (auto simp: advance_def split: if_splits dest!: arg_cong[of "loadCurrent _" _ fst])

text \<open>The clock takes the Story away under a reply that is being typed, and the reply then goes to the next
  Story, which may be another author's.\<close>

theorem reply_follows_the_clock:
  assumes "vw_mode m = ModeReplying" and "item_expired now (currentItem m)" and "Update rnd now TickMsg m = Some (m1, cs)"
    and "currentItem m1 = Some it" and "TrimSpace (utf8 (vw_replyInput m)) \<noteq> ''''" and "k_Type k = KeyEnter"
  shows "\<exists>m2. Update rnd now' (KeyMsg k) m1 = Some (m2, [SendReply (ci_ID it) (TrimSpace (utf8 (vw_replyInput m)))])"
proof -
  have "vw_mode m1 = ModeReplying \<and> vw_replyInput m1 = vw_replyInput m"
    using assms(1-3) advance_typing by (fastforce simp: handleTick_def with_tick_def)
  moreover have "currentItem (m1\<lparr>vw_replyInput := [], vw_mode := ModeViewing\<rparr>) = Some it"
    using assms(4) currentItem_stays[OF stays_fields(3)[of m1]] by simp
  ultimately show ?thesis using assms(5,6) by (simp add: handleKey_def reply_key_def)
qed

text \<open>Leaving with a picture on the screen: the key handler moves its number to the queue that only a frame
  empties, the last frame is empty, and the deferred function of \<^verbatim>\<open>Run\<close> finds no picture to remove.
  Neither the escape that deletes the picture nor the one that stops an animation is ever written.\<close>

theorem quit_leaves_picture:
  assumes "vw_mode m = ModeViewing" and "k_Name k = ''q''" and "vw_renderer m = Some rend" and "vw_placedID m = n" and "n \<noteq> 0"
    and "Update rnd now (KeyMsg k) m = Some (m', cs)"
  shows "View ly ml getenv now' m' = ('''', m') \<and> n \<in> set (vw_pendingClear m')
    \<and> restore_terminal m' = csi ''?25h'' @ csi ''?1000l'' @ csi ''?1002l'' @ csi ''?1003l'' @ csi ''?1006l''"
proof -
  have "m' = clearImage (stopAnimation (m\<lparr>vw_quitting := True\<rparr>))"
    using assms(1,2,6) by (simp add: handleKey_def view_key_def)
  moreover have "vw_quitting (stopAnimation (m\<lparr>vw_quitting := True\<rparr>))" "vw_placedID (stopAnimation (m\<lparr>vw_quitting := True\<rparr>)) = n"
    "vw_renderer (stopAnimation (m\<lparr>vw_quitting := True\<rparr>)) = Some rend"
    using assms(3,4) by (simp_all add: stopAnimation_def split: option.split)
  ultimately show ?thesis using assms(5) by (simp add: View_def clearImage_def restore_terminal_def split: option.split)
qed


section \<open>Instances\<close>

definition wit_author :: cliUser where
  "wit_author = \<lparr>cu_GitHubID = 7, cu_Login = ''octocat'', cu_AvatarURL = '''', cu_ProfileURL = '''', cu_HasAccount = True\<rparr>"

definition wit_tale :: "string \<Rightarrow> time option \<Rightarrow> cliStory" where
  "wit_tale i t = \<lparr>ci_ID = i, ci_Author = wit_author, ci_State = ''published'', ci_Caption = '''', ci_AltText = '''',
    ci_Visibility = ''public'', ci_AudienceListID = '''', ci_AudienceLabel = '''', ci_AllowReplies = True, ci_AllowReactions = True,
    ci_MediaKind = ''image'', ci_Variants = [], ci_PublishedAt = None, ci_ExpiresAt = t, ci_Seen = False, ci_IsOwner = False,
    ci_ViewerCount = 0, ci_ReactionCount = 0, ci_MyReaction = '''', ci_FailureCode = '''', ci_FailureMessage = ''''\<rparr>"

definition wit_group :: "cliStory list \<Rightarrow> cliGroup" where
  "wit_group items = \<lparr>cg_Author = wit_author, cg_Items = items, cg_HasUnseen = True, cg_Muted = False, cg_FollowProvenance = ''''\<rparr>"

definition wit_groups :: "cliGroup list" where
  "wit_groups = [wit_group [wit_tale ''s1'' (Some 5), wit_tale ''s2'' None], wit_group [wit_tale ''s3'' None]]"

definition wit_viewer :: Model where
  "wit_viewer = New_Model wit_groups 0 None (no_caps\<lparr>cp_Protocol := ProtocolITerm2\<rparr>) '''' None None"

definition wit_shown :: picture where
  "wit_shown = \<lparr>im_MinX = 0, im_MinY = 0, im_MaxX = 1, im_MaxY = 1, im_At = \<lambda>x y. (0, 0, 0)\<rparr>"

lemmas wit_viewer_simps = wit_viewer_def wit_groups_def wit_group_def wit_tale_def New_Model_def Init_def loadCurrent_def
  currentItem_def no_caps_def Let_def

lemma wit_started: "steps_to ok rnd wit_viewer (fst (Init wit_viewer))"
  by (rule steps_to.start)

lemma wit_started_fields: "currentItem (fst (Init wit_viewer)) = Some (wit_tale ''s1'' (Some 5))"
    "vw_quitting (fst (Init wit_viewer)) = False" "vw_mode (fst (Init wit_viewer)) = ModeViewing"
  by (simp_all add: wit_viewer_simps)



theorem expired_leaves_screen_witness:
  "\<exists>m' cs. Update (\<lambda>x. x) 9 TickMsg (fst (Init wit_viewer)) = Some (m', cs) \<and> vw_current m' = None"
proof -
  have e: "item_expired 9 (currentItem (fst (Init wit_viewer)))"
    unfolding wit_started_fields by (simp add: item_expired_def cliStory_Expired_def wit_tale_def)
  have "Update (\<lambda>x. x) 9 TickMsg (fst (Init wit_viewer)) \<noteq> None"
    by (simp add: handleTick_def e with_tick_def Let_def) (simp add: advance_def clearImage_def stopAnimation_def wit_viewer_simps)
  then obtain m' cs where u: "Update (\<lambda>x. x) 9 TickMsg (fst (Init wit_viewer)) = Some (m', cs)" by auto
  from expired_leaves_screen[OF wit_started[unfolded wit_viewer_def] _ e[unfolded wit_viewer_def] u[unfolded wit_viewer_def]]
  have "vw_current m' = None" by (simp add: wit_groups_def)
  with u show ?thesis by blast
qed

theorem viewer_refines_player_witness:
  "\<exists>m' cs. Update (\<lambda>x. x) 0 (KeyMsg \<lparr>k_Type = KeyRunes, k_Runes = [106], k_Name = ''j''\<rparr>) (fst (Init wit_viewer)) = Some (m', cs)
    \<and> player m' = Playing 2"
proof -
  let ?x = "KeyMsg \<lparr>k_Type = KeyRunes, k_Runes = [106], k_Name = ''j''\<rparr>"
  have h: "heard 0 ?x (fst (Init wit_viewer)) = PDown" by (simp add: wit_started_fields heard_key_def)
  have p: "play wit_groups PDown (player (fst (Init wit_viewer))) = Playing 2"
    unfolding Init_model player_load
    by (simp add: player_def starts_def start_of_def playlist_def wit_viewer_simps upt_rec)
  have "wit_groups \<noteq> []" "\<forall>g\<in>set wit_groups. cg_Items g \<noteq> []" by (simp_all add: wit_groups_def wit_group_def)
  from viewer_refines_player[OF wit_started[unfolded wit_viewer_def] this, folded wit_viewer_def, of "\<lambda>x. x" 0 ?x]
  show ?thesis unfolding h p by (auto simp: wit_started_fields)
qed

end
