(* ===== verification/Client.thy ===== *)
theory Client
  imports ClientTypes Http ApiAuth
begin

text \<open>
  The HTTP client of the command line: \<^verbatim>\<open>src/internal/cliapi/client.go\<close>, \<^verbatim>\<open>util.go\<close>,
  \<^verbatim>\<open>media.go\<close> and \<^verbatim>\<open>upload.go\<close>.  A call reads and extends the history of what went over
  the wire and how long was waited; the network, the clock and the cancelling of a context answer as
  functions of that history, and the JSON codec is a parameter.
\<close>

section \<open>The wire\<close>

record wire =
  wr_Method :: string
  wr_URL :: string
  wr_Headers :: headers
  wr_Body :: "string option"

text \<open>\<open>an_Body\<close> is \<open>None\<close> when reading the body failed.\<close>

record answer =
  an_Status :: int
  an_Headers :: headers
  an_Body :: "string option"

datatype event = Sent wire | Slept duration

text \<open>How many requests went out.\<close>

fun is_sent :: "event \<Rightarrow> bool" where
  "is_sent (Sent w) = True"
| "is_sent (Slept d) = False"

definition sends :: "event list \<Rightarrow> nat" where "sends es = length (filter is_sent es)"

lemma sends_simps [simp]: "sends [] = 0" "sends (Sent w # es) = Suc (sends es)" "sends (Slept d # es) = sends es"
  "sends (xs @ ys) = sends xs + sends ys"
  by (simp_all add: sends_def)

record network =
  nw_send :: "event list \<Rightarrow> wire \<Rightarrow> string + answer"
  nw_sleep :: "event list \<Rightarrow> duration \<Rightarrow> string option"
  nw_ctx :: "event list \<Rightarrow> string option"

record Client =
  cl_baseURL :: string
  cl_token :: string
  cl_userAgent :: string
  cl_maxRetries :: int
  cl_backoff :: duration

definition ResolveServiceURL :: "(string \<Rightarrow> string) \<Rightarrow> string \<Rightarrow> string \<Rightarrow> string" where
  "ResolveServiceURL getenv compiled flagValue =
    (if flagValue \<noteq> '''' then flagValue
     else (let v = getenv ''GHS_SERVICE_URL'' in if v \<noteq> '''' then v else compiled))"

text \<open>\<^verbatim>\<open>Sscanf("%d")\<close>: leading blanks, a sign, and the digits up to the first other character.\<close>

definition scan_int :: "string \<Rightarrow> int option" where
  "scan_int s =
    (let s = dropWhile (\<lambda>c. c = CHR '' '' \<or> c = CHR 0x09) s;
         sign = (if take 1 s = ''-'' \<or> take 1 s = ''+'' then take 1 s else '''');
         ds = takeWhile is_digit (drop (length sign) s) in
     if ds = '''' then None else fst (ParseInt (sign @ ds)))"

text \<open>A 64-bit product or sum.\<close>

definition wrap64 :: "int \<Rightarrow> int" where "wrap64 i = sint (word_of_int i :: 64 word)"

text \<open>The zero time, the first instant of the year 1, in nanoseconds from 1970.\<close>

definition zero_Time :: time where "zero_Time = - 62135596800 * Second"

definition defaultMaxRetries :: int where "defaultMaxRetries = 3"

definition defaultBackoff :: duration where "defaultBackoff = 250 * 1000000"

definition maxBackoff :: duration where "maxBackoff = 5 * Second"

text \<open>\<^verbatim>\<open>New\<close> without options.\<close>

definition New_Client :: "string \<Rightarrow> string \<Rightarrow> string \<Rightarrow> Client" where
  "New_Client version baseURL token =
    \<lparr>cl_baseURL = rev (dropWhile (\<lambda>c. c = CHR ''/'') (rev baseURL)), cl_token = token,
     cl_userAgent = ''gh-stories/'' @ version, cl_maxRetries = defaultMaxRetries, cl_backoff = defaultBackoff\<rparr>"

section \<open>Requests\<close>

record requestSpec =
  rs_method :: string
  rs_path :: string
  rs_query :: "(string \<times> string) list"
  rs_headers :: headers
  rs_body :: "string option"

text \<open>\<^verbatim>\<open>url.Values.Encode\<close> sorts by key.\<close>

definition Encode :: "(string \<times> string) list \<Rightarrow> string" where
  "Encode q = join ''&'' (map (\<lambda>p. QueryEscape (fst p) @ ''='' @ QueryEscape (snd p)) (sort_key (\<lambda>p. map of_char (fst p) :: nat list) q))"

text \<open>\<^verbatim>\<open>url.PathEscape\<close>.\<close>

definition pathEscape :: "string \<Rightarrow> string" where
  "pathEscape s = concat (map (\<lambda>c.
     if unreserved c \<or> c \<in> set ''$&+=:@'' then [c]
     else [CHR ''%'', hex_digit (byte c div 16), hex_digit (byte c mod 16)]) s)"

definition idemHeader :: "string \<Rightarrow> headers" where
  "idemHeader key = (if key = '''' then [] else [(''Idempotency-Key'', key)])"

definition url_of :: "Client \<Rightarrow> requestSpec \<Rightarrow> string" where
  "url_of c spec = cl_baseURL c @ ''/v1'' @ rs_path spec @ (if rs_query spec \<noteq> [] then ''?'' @ Encode (rs_query spec) else '''')"

definition request_headers :: "Client \<Rightarrow> requestSpec \<Rightarrow> headers" where
  "request_headers c spec =
    (let hs = (if rs_body spec \<noteq> None then set_header ''Content-Type'' ''application/json'' [] else []);
         hs = set_header ''User-Agent'' (cl_userAgent c) (set_header ''Accept'' ''application/json'' hs);
         hs = (if cl_token c \<noteq> '''' then set_header ''Authorization'' (''Bearer '' @ cl_token c) hs else hs) in
     fold (\<lambda>(k, v). set_header k v) (rs_headers spec) hs)"

definition wire_of :: "Client \<Rightarrow> requestSpec \<Rightarrow> wire" where
  "wire_of c spec =
    \<lparr>wr_Method = rs_method spec, wr_URL = url_of c spec, wr_Headers = request_headers c spec, wr_Body = rs_body spec\<rparr>"

section \<open>Failures\<close>

definition isRetryable :: "int \<Rightarrow> bool" where "isRetryable status \<longleftrightarrow> status = 429 \<or> 500 \<le> status"

definition httpStatusError :: "int \<Rightarrow> APIError" where
  "httpStatusError status =
    \<lparr>ae_Status = status, ae_Code = ''unavailable'', ae_Message = ''Request failed with HTTP '' @ decimal status @ ''.'',
     ae_Field = '''', ae_RetryAfter = 0\<rparr>"

text \<open>The decoder of the error body gives its code, message, field and delay.\<close>

definition decodeAPIError :: "(string \<Rightarrow> (string \<times> string \<times> string \<times> int) option) \<Rightarrow> int \<Rightarrow> string \<Rightarrow> APIError" where
  "decodeAPIError dec status body =
    (case dec body of
       Some (code, message, field, after) \<Rightarrow>
         if code = '''' then
           \<lparr>ae_Status = status, ae_Code = ''internal'',
            ae_Message = ''The service returned an unexpected error (HTTP '' @ decimal status @ '').'', ae_Field = '''', ae_RetryAfter = 0\<rparr>
         else \<lparr>ae_Status = status, ae_Code = code, ae_Message = message, ae_Field = field, ae_RetryAfter = after\<rparr>
     | None \<Rightarrow>
         \<lparr>ae_Status = status, ae_Code = ''internal'',
          ae_Message = ''The service returned an unexpected error (HTTP '' @ decimal status @ '').'', ae_Field = '''', ae_RetryAfter = 0\<rparr>)"

definition with_retry_after :: "string \<Rightarrow> APIError \<Rightarrow> APIError" where
  "with_retry_after ra e =
    (if ra \<noteq> '''' \<and> ae_RetryAfter e = 0 then (case Atoi ra of Some secs \<Rightarrow> e\<lparr>ae_RetryAfter := secs\<rparr> | None \<Rightarrow> e) else e)"

text \<open>The shift is that of a 64-bit integer.\<close>

definition doubled :: "duration \<Rightarrow> nat \<Rightarrow> duration" where
  "doubled d n = sint (push_bit n (word_of_int d :: 64 word))"

definition retryDelay :: "Client \<Rightarrow> nat \<Rightarrow> client_error option \<Rightarrow> duration" where
  "retryDelay c attempt lastErr =
    (let d = doubled (cl_backoff c) (attempt - 1); d = (if maxBackoff < d \<or> d \<le> 0 then maxBackoff else d) in
     case lastErr of
       Some (Api e) \<Rightarrow> if 0 < ae_RetryAfter e then ae_RetryAfter e * Second else d
     | _ \<Rightarrow> d)"

section \<open>A call\<close>

type_synonym 'a call = "event list \<Rightarrow> (client_error + 'a) \<times> event list"

text \<open>What one attempt ends in: the call is over, or it failed in a way worth another attempt.  A body
  that is empty leaves the result as it was, \<open>None\<close>.\<close>

datatype 'a attempt = Over "client_error + 'a option" | Again client_error

definition status_attempt ::
  "(string \<Rightarrow> (string \<times> string \<times> string \<times> int) option) \<Rightarrow> (string \<Rightarrow> 'a option) \<Rightarrow> requestSpec \<Rightarrow> answer \<Rightarrow> string \<Rightarrow> 'a attempt" where
  "status_attempt err dec spec resp body =
    (let status = an_Status resp in
     if status = 204 \<or> body = '''' then
       (if 400 \<le> status then (if isRetryable status then Again (Api (httpStatusError status)) else Over (Inl (Api (httpStatusError status))))
        else Over (Inr None))
     else if 400 \<le> status then
       (let e = with_retry_after (get_header ''Retry-After'' (an_Headers resp)) (decodeAPIError err status body) in
        if isRetryable status then Again (Api e) else Over (Inl (Api e)))
     else
       (case dec body of
          Some x \<Rightarrow> Over (Inr (Some x))
        | None \<Rightarrow> Over (Inl (BadAnswer (''cliapi: decode response from '' @ rs_method spec @ '' '' @ rs_path spec)))))"

definition one_attempt ::
  "network \<Rightarrow> Client \<Rightarrow> (string \<Rightarrow> (string \<times> string \<times> string \<times> int) option) \<Rightarrow> (string \<Rightarrow> 'a option) \<Rightarrow> requestSpec
     \<Rightarrow> event list \<Rightarrow> 'a attempt \<times> event list" where
  "one_attempt nw c err dec spec h =
    (let h' = h @ [Sent (wire_of c spec)] in
     (case nw_send nw h (wire_of c spec) of
        Inl e \<Rightarrow> (case nw_ctx nw h' of Some why \<Rightarrow> Over (Inl (Cancelled why)) | None \<Rightarrow> Again (NetworkError e))
      | Inr resp \<Rightarrow>
          (case an_Body resp of
             None \<Rightarrow> Again (NetworkError ''unexpected EOF'')
           | Some body \<Rightarrow> status_attempt err dec spec resp body), h'))"

text \<open>The loop of \<^verbatim>\<open>do\<close>: \<open>left\<close> attempts remain after \<open>attempt\<close> of them.\<close>

fun attempts_loop ::
  "network \<Rightarrow> Client \<Rightarrow> (string \<Rightarrow> (string \<times> string \<times> string \<times> int) option) \<Rightarrow> (string \<Rightarrow> 'a option) \<Rightarrow> requestSpec
     \<Rightarrow> nat \<Rightarrow> nat \<Rightarrow> client_error option \<Rightarrow> 'a option call" where
  "attempts_loop nw c err dec spec attempt 0 lastErr h =
    ((case lastErr of Some e \<Rightarrow> Inl e | None \<Rightarrow> Inr None), h)"
| "attempts_loop nw c err dec spec attempt (Suc left) lastErr h =
    (let delay = retryDelay c attempt lastErr in
     case (if 0 < attempt then nw_sleep nw h delay else None) of
       Some why \<Rightarrow> (Inl (Cancelled why), h @ [Slept delay])
     | None \<Rightarrow>
         (let h = (if 0 < attempt then h @ [Slept delay] else h) in
          case one_attempt nw c err dec spec h of
            (Over r, h) \<Rightarrow> (r, h)
          | (Again e, h) \<Rightarrow> attempts_loop nw c err dec spec (attempt + 1) left (Some e) h))"

definition attempts_of :: "Client \<Rightarrow> nat" where
  "attempts_of c = (if cl_maxRetries c + 1 < 1 then 1 else nat (cl_maxRetries c + 1))"

definition do_call ::
  "network \<Rightarrow> Client \<Rightarrow> (string \<Rightarrow> (string \<times> string \<times> string \<times> int) option) \<Rightarrow> (string \<Rightarrow> 'a option) \<Rightarrow> requestSpec
     \<Rightarrow> 'a option call" where
  "do_call nw c err dec spec h = attempts_loop nw c err dec spec 0 (attempts_of c) None h"


section \<open>The documents of a request\<close>

datatype client_doc =
    LoginDoc string string
  | PollDoc string string
  | DevicePollDoc string
  | EnabledDoc bool
  | StoryUpdateDoc cliStoryUpdate
  | EmojiDoc string
  | BodyDoc string
  | InboxReadDoc "string list" bool
  | UploadIntentDoc cliUploadIntentRequest
  | FinalizeDoc int string
  | SettingsUpdateDoc cliSettingsUpdate
  | ReportDoc cliReportRequest
  | ListDoc string "string list"
  | ListUpdateDoc "string option" "string list option"

text \<open>The JSON codec.\<close>

record codec =
  co_enc :: "client_doc \<Rightarrow> string option"
  co_error :: "string \<Rightarrow> (string \<times> string \<times> string \<times> int) option"
  co_Me :: "string \<Rightarrow> cliMe option"
  co_PendingLogin :: "string \<Rightarrow> cliPendingLogin option"
  co_LoginPoll :: "string \<Rightarrow> cliLoginPoll option"
  co_DeviceLogin :: "string \<Rightarrow> cliDeviceLogin option"
  co_Sessions :: "string \<Rightarrow> cliSession list option"
  co_ImportSummary :: "string \<Rightarrow> cliImportSummary option"
  co_Feed :: "string \<Rightarrow> cliFeed option"
  co_Group :: "string \<Rightarrow> cliGroup option"
  co_Users :: "string \<Rightarrow> cliUser list option"
  co_Story :: "string \<Rightarrow> cliStory option"
  co_Viewers :: "string \<Rightarrow> cliViewerList option"
  co_Reaction :: "string \<Rightarrow> cliReaction option"
  co_Reply :: "string \<Rightarrow> cliReply option"
  co_Inbox :: "string \<Rightarrow> cliInbox option"
  co_Relationship :: "string \<Rightarrow> cliRelationship option"
  co_Page :: "string \<Rightarrow> cliRelationshipPage option"
  co_Lists :: "string \<Rightarrow> cliAudienceList list option"
  co_List :: "string \<Rightarrow> cliAudienceList option"
  co_Settings :: "string \<Rightarrow> cliSettings option"
  co_Report :: "string \<Rightarrow> cliReport option"
  co_UploadIntent :: "string \<Rightarrow> cliUploadIntent option"

text \<open>A connection: the network, the client, the codec.\<close>

record connection =
  cc_net :: network
  cc_client :: Client
  cc_codec :: codec

definition request_to :: "connection \<Rightarrow> (codec \<Rightarrow> string \<Rightarrow> 'a option) \<Rightarrow> requestSpec \<Rightarrow> 'a option call" where
  "request_to x dec spec = do_call (cc_net x) (cc_client x) (co_error (cc_codec x)) (dec (cc_codec x)) spec"

text \<open>\<^verbatim>\<open>nil\<close> for the result: the body is not decoded.\<close>

definition no_result :: "codec \<Rightarrow> string \<Rightarrow> unit option" where "no_result cd s = Some ()"

definition get :: "connection \<Rightarrow> (codec \<Rightarrow> string \<Rightarrow> 'a option) \<Rightarrow> string \<Rightarrow> (string \<times> string) list \<Rightarrow> 'a option call" where
  "get x dec path query =
    request_to x dec \<lparr>rs_method = ''GET'', rs_path = path, rs_query = query, rs_headers = [], rs_body = None\<rparr>"

definition bare :: "connection \<Rightarrow> string \<Rightarrow> string \<Rightarrow> unit option call" where
  "bare x method path =
    request_to x no_result \<lparr>rs_method = method, rs_path = path, rs_query = [], rs_headers = [], rs_body = None\<rparr>"

definition putEmpty :: "connection \<Rightarrow> (codec \<Rightarrow> string \<Rightarrow> 'a option) \<Rightarrow> string \<Rightarrow> 'a option call" where
  "putEmpty x dec path =
    request_to x dec \<lparr>rs_method = ''PUT'', rs_path = path, rs_query = [], rs_headers = [], rs_body = None\<rparr>"

definition deleteReq :: "connection \<Rightarrow> string \<Rightarrow> unit option call" where
  "deleteReq x path = bare x ''DELETE'' path"

definition jsonReq ::
  "connection \<Rightarrow> (codec \<Rightarrow> string \<Rightarrow> 'a option) \<Rightarrow> string \<Rightarrow> string \<Rightarrow> headers \<Rightarrow> client_doc \<Rightarrow> 'a option call" where
  "jsonReq x dec method path hs doc h =
    (case co_enc (cc_codec x) doc of
       None \<Rightarrow> (Inl (BadAnswer (''cliapi: encode request body for '' @ method @ '' '' @ path)), h)
     | Some b \<Rightarrow> request_to x dec \<lparr>rs_method = method, rs_path = path, rs_query = [], rs_headers = hs, rs_body = Some b\<rparr> h)"

definition postJSON :: "connection \<Rightarrow> (codec \<Rightarrow> string \<Rightarrow> 'a option) \<Rightarrow> string \<Rightarrow> headers \<Rightarrow> client_doc \<Rightarrow> 'a option call" where
  "postJSON x dec path hs doc = jsonReq x dec ''POST'' path hs doc"

definition patchJSON :: "connection \<Rightarrow> (codec \<Rightarrow> string \<Rightarrow> 'a option) \<Rightarrow> string \<Rightarrow> headers \<Rightarrow> client_doc \<Rightarrow> 'a option call" where
  "patchJSON x dec path hs doc = jsonReq x dec ''PATCH'' path hs doc"

definition putJSON :: "connection \<Rightarrow> (codec \<Rightarrow> string \<Rightarrow> 'a option) \<Rightarrow> string \<Rightarrow> headers \<Rightarrow> client_doc \<Rightarrow> 'a option call" where
  "putJSON x dec path hs doc = jsonReq x dec ''PUT'' path hs doc"

section \<open>Media\<close>

record MediaInfo =
  mi_StatusCode :: int
  mi_ContentType :: string
  mi_ContentLength :: int
  mi_ContentRange :: string

text \<open>\<^verbatim>\<open>GetMedia\<close>: one request, no retries; the body is handed on unread, \<open>None\<close> being a body that
  fails while it is read.\<close>

definition GetMedia :: "connection \<Rightarrow> string \<Rightarrow> string \<Rightarrow> string \<Rightarrow> (string option \<times> MediaInfo) call" where
  "GetMedia x storyID variant rangeHeader h =
    (let c = cc_client x;
         hs = set_header ''User-Agent'' (cl_userAgent c) (set_header ''Accept'' ''*/*'' []);
         hs = (if cl_token c \<noteq> '''' then set_header ''Authorization'' (''Bearer '' @ cl_token c) hs else hs);
         hs = (if rangeHeader \<noteq> '''' then set_header ''Range'' rangeHeader hs else hs);
         w = \<lparr>wr_Method = ''GET'', wr_URL = cl_baseURL c @ ''/v1/media/'' @ pathEscape storyID @ ''/'' @ pathEscape variant,
              wr_Headers = hs, wr_Body = None\<rparr> in
     (case nw_send (cc_net x) h w of
        Inl e \<Rightarrow> Inl (NetworkError e)
      | Inr resp \<Rightarrow>
          if 400 \<le> an_Status resp then
            Inl (Api (decodeAPIError (co_error (cc_codec x)) (an_Status resp)
              (take (64 * 1024) (case an_Body resp of None \<Rightarrow> '''' | Some b \<Rightarrow> b))))
          else
            Inr (an_Body resp,
              \<lparr>mi_StatusCode = an_Status resp, mi_ContentType = get_header ''Content-Type'' (an_Headers resp),
               mi_ContentLength = (let cl = get_header ''Content-Length'' (an_Headers resp) in
                 if cl \<noteq> '''' then (case fst (ParseInt cl) of Some n \<Rightarrow> n | None \<Rightarrow> 0) else 0),
               mi_ContentRange = get_header ''Content-Range'' (an_Headers resp)\<rparr>),
      h @ [Sent w]))"

section \<open>Uploads\<close>

definition terminalStoryStates :: "string list" where
  "terminalStoryStates = [''published'', ''failed'', ''deleted'', ''removed'']"

text \<open>One read of the progress reader: \<open>n\<close> bytes more, reported when there are any.\<close>

definition progressReader_Read :: "int \<Rightarrow> int \<Rightarrow> int \<Rightarrow> int \<times> (int \<times> int) list" where
  "progressReader_Read tot sent n = (if 0 < n then (sent + n, [(sent + n, tot)]) else (sent, []))"

definition CreateUpload :: "connection \<Rightarrow> cliUploadIntentRequest \<Rightarrow> string \<Rightarrow> cliUploadIntent option call" where
  "CreateUpload x req key = postJSON x co_UploadIntent ''/uploads'' (idemHeader key) (UploadIntentDoc req)"

text \<open>The bytes of the file are what the reader gives; a length that differs fails in the network.\<close>

definition PutUploadBytes :: "connection \<Rightarrow> cliUploadIntent \<Rightarrow> string \<Rightarrow> int \<Rightarrow> unit call" where
  "PutUploadBytes x intent bytes len h =
    (let w = \<lparr>wr_Method = ct_Method intent, wr_URL = ct_URL intent,
        wr_Headers = fold (\<lambda>(k, v). set_header k v) (ct_Headers intent) [(''Content-Length'', decimal len)], wr_Body = Some bytes\<rparr> in
     (case nw_send (cc_net x) h w of
        Inl e \<Rightarrow> Inl (NetworkError e)
      | Inr resp \<Rightarrow>
          if 300 \<le> an_Status resp then
            Inl (BadAnswer (''cliapi: upload was rejected (HTTP '' @ decimal (an_Status resp) @ ''): ''
              @ take (4 * 1024) (case an_Body resp of None \<Rightarrow> '''' | Some b \<Rightarrow> b)))
          else Inr (), h @ [Sent w]))"

definition FinalizeUpload_call :: "connection \<Rightarrow> string \<Rightarrow> int \<Rightarrow> string \<Rightarrow> string \<Rightarrow> cliStory option call" where
  "FinalizeUpload_call x uploadID byteSize sha key =
    postJSON x co_Story (''/uploads/'' @ pathEscape uploadID @ ''/finalize'') (idemHeader key) (FinalizeDoc byteSize sha)"

definition GetStory :: "connection \<Rightarrow> string \<Rightarrow> cliStory option call" where
  "GetStory x storyID = get x co_Story (''/stories/'' @ pathEscape storyID) []"

text \<open>The time slept in the part of the history after \<open>n\<close> events; a context with a deadline refuses a
  sleep that would pass it.\<close>

definition slept_since :: "nat \<Rightarrow> event list \<Rightarrow> duration" where
  "slept_since n h = sum_list (map (\<lambda>e. case e of Slept d \<Rightarrow> d | Sent w \<Rightarrow> 0) (drop n h))"

definition with_timeout :: "nat \<Rightarrow> duration \<Rightarrow> network \<Rightarrow> network" where
  "with_timeout n maxWait nw =
    nw\<lparr>nw_sleep := \<lambda>h d. if maxWait < slept_since n h + d then Some ''context deadline exceeded'' else nw_sleep nw h d\<rparr>"

definition state_of :: "cliStory option \<Rightarrow> string" where
  "state_of item = (case item of None \<Rightarrow> '''' | Some it \<Rightarrow> ci_State it)"

text \<open>The loop of \<^verbatim>\<open>PollStoryUntilTerminal\<close>; \<open>None\<close> when it never returns.  \<open>seen\<close> are the items
  that \<^verbatim>\<open>onUpdate\<close> was called with.\<close>

partial_function (option) poll_loop ::
  "connection \<Rightarrow> string \<Rightarrow> duration \<Rightarrow> cliStory option list \<Rightarrow> event list
     \<Rightarrow> ((client_error + cliStory option) \<times> cliStory option list \<times> event list) option" where
  "poll_loop x storyID interval seen h =
    (case GetStory x storyID h of
       (Inl e, h) \<Rightarrow> Some (Inl e, seen, h)
     | (Inr item, h) \<Rightarrow>
         (let seen = seen @ [item] in
          if state_of item \<in> set terminalStoryStates then Some (Inr item, seen, h)
          else (case nw_sleep (cc_net x) h interval of
              Some why \<Rightarrow> Some (Inl (Cancelled why), seen, h @ [Slept interval])
            | None \<Rightarrow> poll_loop x storyID interval seen (h @ [Slept interval]))))"

definition PollStoryUntilTerminal ::
  "connection \<Rightarrow> string \<Rightarrow> duration \<Rightarrow> duration \<Rightarrow> cliStory option list \<Rightarrow> event list
     \<Rightarrow> ((client_error + cliStory option) \<times> cliStory option list \<times> event list) option" where
  "PollStoryUntilTerminal x storyID interval maxWait seen h =
    (let interval = (if interval \<le> 0 then 1500 * 1000000 else interval);
         x = (if 0 < maxWait then x\<lparr>cc_net := with_timeout (length h) maxWait (cc_net x)\<rparr> else x) in
     poll_loop x storyID interval seen h)"

record UploadRequest =
  ur_Meta :: cliUploadIntentRequest
  ur_Reader :: string
  ur_Size :: int
  ur_ChecksumSHA256 :: string
  ur_IdempotencyKey :: string
  ur_PollInterval :: duration
  ur_MaxWait :: duration

definition no_intent :: cliUploadIntent where
  "no_intent = \<lparr>ct_UploadID = '''', ct_Method = '''', ct_URL = '''', ct_Headers = [], ct_ExpiresAt = 0, ct_MaxBytes = 0\<rparr>"

definition Upload ::
  "connection \<Rightarrow> UploadRequest \<Rightarrow> event list \<Rightarrow> ((client_error + cliStory option) \<times> cliStory option list \<times> event list) option" where
  "Upload x req h =
    (case CreateUpload x (ur_Meta req) (ur_IdempotencyKey req) h of
       (Inl e, h) \<Rightarrow> Some (Inl e, [], h)
     | (Inr i, h) \<Rightarrow>
         (let intent = (case i of None \<Rightarrow> no_intent | Some i \<Rightarrow> i) in
          case PutUploadBytes x intent (ur_Reader req) (ur_Size req) h of
            (Inl e, h) \<Rightarrow> Some (Inl e, [], h)
          | (Inr _, h) \<Rightarrow>
              (case FinalizeUpload_call x (ct_UploadID intent) (ur_Size req) (ur_ChecksumSHA256 req) (ur_IdempotencyKey req) h of
                 (Inl e, h) \<Rightarrow> Some (Inl e, [], h)
               | (Inr item, h) \<Rightarrow>
                   if state_of item \<in> set terminalStoryStates then Some (Inr item, [item], h)
                   else PollStoryUntilTerminal x (case item of None \<Rightarrow> '''' | Some it \<Rightarrow> ci_ID it) (ur_PollInterval req)
                     (ur_MaxWait req) [item] h)))"

end
