(* ===== verification/ClientCalls.thy ===== *)
theory ClientCalls
  imports Client
begin

text \<open>
  The calls of the client, one for each operation of the API: \<^verbatim>\<open>endpoints_auth.go\<close>,
  \<^verbatim>\<open>endpoints_feed.go\<close> and \<^verbatim>\<open>endpoints_graph.go\<close> of \<^verbatim>\<open>src/internal/cliapi\<close>.  A name
  that the server's model also has carries the suffix \<open>_call\<close>.
\<close>

section \<open>Signing in\<close>

definition Me_call :: "connection \<Rightarrow> cliMe option call" where "Me_call x = get x co_Me ''/me'' []"

definition CreatePendingLogin_call :: "connection \<Rightarrow> string \<Rightarrow> string \<Rightarrow> cliPendingLogin option call" where
  "CreatePendingLogin_call x kind label = postJSON x co_PendingLogin ''/auth/cli/pending'' [] (LoginDoc kind label)"

definition PollPendingLogin_call :: "connection \<Rightarrow> string \<Rightarrow> string \<Rightarrow> cliLoginPoll option call" where
  "PollPendingLogin_call x i secret = postJSON x co_LoginPoll ''/auth/cli/poll'' [] (PollDoc i secret)"

definition StartDeviceLogin_call :: "connection \<Rightarrow> string \<Rightarrow> string \<Rightarrow> cliDeviceLogin option call" where
  "StartDeviceLogin_call x kind label = postJSON x co_DeviceLogin ''/auth/device/start'' [] (LoginDoc kind label)"

definition PollDeviceLogin_call :: "connection \<Rightarrow> string \<Rightarrow> cliLoginPoll option call" where
  "PollDeviceLogin_call x i = postJSON x co_LoginPoll ''/auth/device/poll'' [] (DevicePollDoc i)"

definition Logout_call :: "connection \<Rightarrow> unit option call" where "Logout_call x = bare x ''POST'' ''/auth/logout''"

text \<open>A list that the answer does not give is the empty one.\<close>

definition listed :: "'a list option call \<Rightarrow> 'a list call" where
  "listed f h = (case f h of (Inl e, h) \<Rightarrow> (Inl e, h) | (Inr xs, h) \<Rightarrow> (Inr (case xs of None \<Rightarrow> [] | Some xs \<Rightarrow> xs), h))"

definition Sessions_call :: "connection \<Rightarrow> cliSession list call" where
  "Sessions_call x = listed (get x co_Sessions ''/auth/sessions'' [])"

definition RevokeSession_call :: "connection \<Rightarrow> string \<Rightarrow> unit option call" where
  "RevokeSession_call x i = deleteReq x (''/auth/sessions/'' @ pathEscape i)"

definition ImportFollows_call :: "connection \<Rightarrow> bool \<Rightarrow> cliImportSummary option call" where
  "ImportFollows_call x enabled = postJSON x co_ImportSummary ''/onboarding/import-follows'' [] (EnabledDoc enabled)"

section \<open>Stories\<close>

text \<open>\<^verbatim>\<open>cursor\<close> and \<^verbatim>\<open>limit\<close> of a page.\<close>

definition page_query :: "string \<Rightarrow> int \<Rightarrow> (string \<times> string) list" where
  "page_query cursor n = (if cursor \<noteq> '''' then [(''cursor'', cursor)] else []) @ (if 0 < n then [(''limit'', decimal n)] else [])"

definition Feed_call :: "connection \<Rightarrow> string \<Rightarrow> int \<Rightarrow> bool \<Rightarrow> cliFeed option call" where
  "Feed_call x cursor n includeMuted =
    get x co_Feed ''/feed'' (page_query cursor n @ (if includeMuted then [(''include_muted'', ''true'')] else []))"

definition StoriesMine_call :: "connection \<Rightarrow> cliGroup option call" where
  "StoriesMine_call x = get x co_Group ''/stories/mine'' []"

definition UserStories_call :: "connection \<Rightarrow> string \<Rightarrow> cliGroup option call" where
  "UserStories_call x login = get x co_Group (''/users/'' @ pathEscape login @ ''/stories'') []"

definition UsersLookup_call :: "connection \<Rightarrow> string \<Rightarrow> cliUser list call" where
  "UsersLookup_call x q = listed (get x co_Users ''/users/lookup'' [(''q'', q)])"

definition UpdateStory_call :: "connection \<Rightarrow> string \<Rightarrow> cliStoryUpdate \<Rightarrow> cliStory option call" where
  "UpdateStory_call x i upd = patchJSON x co_Story (''/stories/'' @ pathEscape i) [] (StoryUpdateDoc upd)"

definition DeleteStory_call :: "connection \<Rightarrow> string \<Rightarrow> unit option call" where
  "DeleteStory_call x i = deleteReq x (''/stories/'' @ pathEscape i)"

definition Viewers_call :: "connection \<Rightarrow> string \<Rightarrow> cliViewerList option call" where
  "Viewers_call x i = get x co_Viewers (''/stories/'' @ pathEscape i @ ''/viewers'') []"

definition AckView_call :: "connection \<Rightarrow> string \<Rightarrow> unit option call" where
  "AckView_call x i = bare x ''POST'' (''/stories/'' @ pathEscape i @ ''/view'')"

definition SetReaction_call :: "connection \<Rightarrow> string \<Rightarrow> string \<Rightarrow> string \<Rightarrow> cliReaction option call" where
  "SetReaction_call x i emoji key = putJSON x co_Reaction (''/stories/'' @ pathEscape i @ ''/reaction'') (idemHeader key) (EmojiDoc emoji)"

definition ClearReaction_call :: "connection \<Rightarrow> string \<Rightarrow> unit option call" where
  "ClearReaction_call x i = deleteReq x (''/stories/'' @ pathEscape i @ ''/reaction'')"

definition Reply_call :: "connection \<Rightarrow> string \<Rightarrow> string \<Rightarrow> string \<Rightarrow> cliReply option call" where
  "Reply_call x i body key = postJSON x co_Reply (''/stories/'' @ pathEscape i @ ''/replies'') (idemHeader key) (BodyDoc body)"

definition Inbox_call :: "connection \<Rightarrow> string \<Rightarrow> int \<Rightarrow> cliInbox option call" where
  "Inbox_call x cursor n = get x co_Inbox ''/inbox'' (page_query cursor n)"

definition InboxRead_call :: "connection \<Rightarrow> string list \<Rightarrow> bool \<Rightarrow> unit option call" where
  "InboxRead_call x ids everything = postJSON x no_result ''/inbox/read'' [] (InboxReadDoc ids everything)"

section \<open>People\<close>

definition Follow_call :: "connection \<Rightarrow> string \<Rightarrow> cliRelationship option call" where
  "Follow_call x login = putEmpty x co_Relationship (''/following/'' @ pathEscape login)"

definition Unfollow_call :: "connection \<Rightarrow> string \<Rightarrow> unit option call" where
  "Unfollow_call x login = deleteReq x (''/following/'' @ pathEscape login)"

definition relationshipPage_call :: "connection \<Rightarrow> string \<Rightarrow> string \<Rightarrow> int \<Rightarrow> cliRelationshipPage option call" where
  "relationshipPage_call x path cursor n = get x co_Page path (page_query cursor n)"

definition Following_call :: "connection \<Rightarrow> string \<Rightarrow> int \<Rightarrow> cliRelationshipPage option call" where
  "Following_call x cursor n = relationshipPage_call x ''/following'' cursor n"

definition Followers_call :: "connection \<Rightarrow> string \<Rightarrow> int \<Rightarrow> cliRelationshipPage option call" where
  "Followers_call x cursor n = relationshipPage_call x ''/followers'' cursor n"

definition Mute_call :: "connection \<Rightarrow> string \<Rightarrow> unit option call" where
  "Mute_call x login = bare x ''PUT'' (''/mutes/'' @ pathEscape login)"

definition Unmute_call :: "connection \<Rightarrow> string \<Rightarrow> unit option call" where
  "Unmute_call x login = deleteReq x (''/mutes/'' @ pathEscape login)"

definition Block_call :: "connection \<Rightarrow> string \<Rightarrow> unit option call" where
  "Block_call x login = bare x ''PUT'' (''/blocks/'' @ pathEscape login)"

definition Unblock_call :: "connection \<Rightarrow> string \<Rightarrow> unit option call" where
  "Unblock_call x login = deleteReq x (''/blocks/'' @ pathEscape login)"

definition Hide_call :: "connection \<Rightarrow> string \<Rightarrow> unit option call" where
  "Hide_call x login = bare x ''PUT'' (''/hides/'' @ pathEscape login)"

definition Unhide_call :: "connection \<Rightarrow> string \<Rightarrow> unit option call" where
  "Unhide_call x login = deleteReq x (''/hides/'' @ pathEscape login)"

definition Mutes_call :: "connection \<Rightarrow> cliRelationshipPage option call" where "Mutes_call x = get x co_Page ''/mutes'' []"

definition Blocks_call :: "connection \<Rightarrow> cliRelationshipPage option call" where "Blocks_call x = get x co_Page ''/blocks'' []"

definition Hides_call :: "connection \<Rightarrow> cliRelationshipPage option call" where "Hides_call x = get x co_Page ''/hides'' []"

definition AudienceLists_call :: "connection \<Rightarrow> cliAudienceList list call" where
  "AudienceLists_call x = listed (get x co_Lists ''/audience-lists'' [])"

definition Settings_call :: "connection \<Rightarrow> cliSettings option call" where "Settings_call x = get x co_Settings ''/settings'' []"

definition UpdateSettings_call :: "connection \<Rightarrow> cliSettingsUpdate \<Rightarrow> cliSettings option call" where
  "UpdateSettings_call x upd = patchJSON x co_Settings ''/settings'' [] (SettingsUpdateDoc upd)"

definition CreateReport_call :: "connection \<Rightarrow> cliReportRequest \<Rightarrow> cliReport option call" where
  "CreateReport_call x req = postJSON x co_Report ''/reports'' [] (ReportDoc req)"

definition CreateAudienceList_call :: "connection \<Rightarrow> string \<Rightarrow> string list \<Rightarrow> cliAudienceList option call" where
  "CreateAudienceList_call x name logins = postJSON x co_List ''/audience-lists'' [] (ListDoc name logins)"

definition UpdateAudienceList_call :: "connection \<Rightarrow> string \<Rightarrow> string option \<Rightarrow> string list option \<Rightarrow> cliAudienceList option call" where
  "UpdateAudienceList_call x i name logins = patchJSON x co_List (''/audience-lists/'' @ pathEscape i) [] (ListUpdateDoc name logins)"

definition DeleteAudienceList_call :: "connection \<Rightarrow> string \<Rightarrow> unit option call" where
  "DeleteAudienceList_call x i = deleteReq x (''/audience-lists/'' @ pathEscape i)"

end
