(* ===== verification/Journeys.thy ===== *)
theory Journeys
  imports Secrecy Doors
begin

text \<open>
  Requests that belong together: a reply and its retry, a settings change and its answer, a follow
  and the block it meets, a moderation action and its log.
\<close>

section \<open>A retried reply\<close>

lemma postReply_Inr:
  assumes "postReply body srv out hs r d = (Inr rsp, d1)" and "hr_User r = Some u"
    and "\<not> list_ex (same_idem (u_ID u) ''reply'' (idempotencyKey r)) (idempotency_keys d)"
  obtains raw sid doc d0 where "DecodeJSON body (4 * 1024) = Inr raw" "pathUUID srv r ''storyId'' = Inr sid"
    "TrimSpace raw \<noteq> ''''" "length (runes (TrimSpace raw)) \<le> 500" "mustCaller r = Inr u"
    "length (replies d0) = length (replies d) + 1" "user_exists d0 (u_ID u)" "idempotency_keys d0 = idempotency_keys d"
    "rsp = WriteJSON hs 201 (JSON (ReplyDoc doc))" "rq_Body doc = TrimSpace raw"
    "d1 = (case RememberIdempotent (sr_sha srv) (u_ID u) ''reply'' (idempotencyKey r)
        (sr_reply_request srv (sr_text srv sid) (TrimSpace raw)) 201 (sr_reply_json srv doc) d0 of Inl e \<Rightarrow> d0 | Inr (x, d') \<Rightarrow> d')"
proof -
  have nf: "find (same_idem (u_ID u) ''reply'' (idempotencyKey r)) (idempotency_keys d) = None"
    using assms(3) by (auto simp: find_None_iff list_ex_iff)
  have repl: "IdempotentReplay (sr_sha srv) (u_ID u) ''reply'' (idempotencyKey r) q d = (False, 0, '''', False)" for q
    by (simp add: IdempotentReplay_def nf)
  from assms(1) obtain v where v: "mustCaller r = Inr v" by (cases "mustCaller r") (simp_all add: postReply_def act_simps)
  with assms(2) have vu: "v = u" by (simp add: mustCaller_Inr)
  from assms(1) v obtain sid where s: "pathUUID srv r ''storyId'' = Inr sid"
    by (cases "pathUUID srv r ''storyId''") (simp_all add: postReply_def act_simps)
  from assms(1) v s obtain raw where b: "DecodeJSON body (4 * 1024) = Inr raw"
    by (cases "DecodeJSON body (4 * 1024)") (simp_all add: postReply_def act_simps)
  note step = assms(1)[unfolded postReply_def v s b vu, simplified andthen_simps Let_def]
  have okt: "TrimSpace raw \<noteq> ''''" "length (runes (TrimSpace raw)) \<le> 500"
    using step by (auto split: if_splits)
  obtain it where it: "StoryForViewer (ou_env out 0) (u_ID u) (u_GitHubID u) sid d = Inr it"
    using step okt by (cases "StoryForViewer (ou_env out 0) (u_ID u) (u_GitHubID u) sid d") (simp_all add: act_simps repl)
  let ?c = "CreateReply (ou_env out 1) (ou_id out 0) (ou_id out 1) sid (u_ID u) (si_AuthorUserID it) (TrimSpace raw)
      (cf_ReplyRetention (sr_Cfg srv)) d"
  obtain replyID d0 where c: "?c = Inr (replyID, d0)"
    using step okt it by (cases ?c) (auto simp: act_simps repl split: if_splits)
  let ?doc = "\<lparr>rq_ID = sr_text srv replyID, rq_StoryID = sr_text srv sid, rq_Sender = presentUser u,
      rq_Recipient = (case si_Author it of None \<Rightarrow> no_user | Some a \<Rightarrow> presentIdentity a),
      rq_Body = TrimSpace raw, rq_CreatedAt = now_at out 2\<rparr>"
  have rest: "rsp = WriteJSON hs 201 (JSON (ReplyDoc ?doc))"
    "d1 = (case RememberIdempotent (sr_sha srv) (u_ID u) ''reply'' (idempotencyKey r)
        (sr_reply_request srv (sr_text srv sid) (TrimSpace raw)) 201 (sr_reply_json srv ?doc) d0 of Inl e \<Rightarrow> d0 | Inr (x, d') \<Rightarrow> d')"
    using step okt it c by (simp_all add: act_simps repl split: if_splits)
  from c have "length (replies d0) = length (replies d) + 1" "user_exists d0 (u_ID u)" "idempotency_keys d0 = idempotency_keys d"
    by (auto simp: CreateReply_def user_exists_def split: if_splits)
  with that[OF b s okt _ this rest(1) _ rest(2)] v vu show thesis by simp
qed

text \<open>A reply can be retried: the first request with an idempotency key posts exactly one reply; the
  same request sent again, at any later time and whatever else has changed, posts nothing, answers
  201 with the document of the first answer, and says that it is a replay.\<close>

theorem reply_retry_safe:
  assumes "postReply body srv out hs r d = (Inr rsp, d1)" and "hr_User r = Some u" and "idempotencyKey r \<noteq> ''''"
    and "\<not> list_ex (same_idem (u_ID u) ''reply'' (idempotencyKey r)) (idempotency_keys d)"
    and "idempotency_keys d2 = idempotency_keys d1"
  shows "length (replies d1) = length (replies d) + 1
    \<and> (\<exists>doc. rsp = WriteJSON hs 201 (JSON (ReplyDoc doc))
        \<and> postReply body srv out2 hs2 r d2 = (Inr (writeRaw hs2 201 (sr_reply_json srv doc)), d2))"
proof -
  obtain raw sid doc d0 where p: "DecodeJSON body (4 * 1024) = Inr raw"
    "pathUUID srv r ''storyId'' = Inr sid" "TrimSpace raw \<noteq> ''''" "length (runes (TrimSpace raw)) \<le> 500" "mustCaller r = Inr u"
    and d0: "length (replies d0) = length (replies d) + 1" "user_exists d0 (u_ID u)" "idempotency_keys d0 = idempotency_keys d"
    and rsp: "rsp = WriteJSON hs 201 (JSON (ReplyDoc doc))" "rq_Body doc = TrimSpace raw"
    and d1: "d1 = (case RememberIdempotent (sr_sha srv) (u_ID u) ''reply'' (idempotencyKey r)
        (sr_reply_request srv (sr_text srv sid) (TrimSpace raw)) 201 (sr_reply_json srv doc) d0 of Inl e \<Rightarrow> d0 | Inr (x, d') \<Rightarrow> d')"
    by (rule postReply_Inr[OF assms(1,2,4)])
  let ?q = "sr_reply_request srv (sr_text srv sid) (TrimSpace raw)"
  let ?row = "\<lparr>ik_UserID = u_ID u, ik_Scope = ''reply'', ik_Key = idempotencyKey r, ik_RequestHash = hashRequest (sr_sha srv) ?q,
      ik_Status = 201, ik_Response = sr_reply_json srv doc\<rparr>"
  have eq: "d1 = d0\<lparr>idempotency_keys := insert_new (same_idem (u_ID u) ''reply'' (idempotencyKey r)) ?row (idempotency_keys d0)\<rparr>"
    unfolding d1 using assms(3) d0(2) by (simp add: RememberIdempotent_def)
  have "find (same_idem (u_ID u) ''reply'' (idempotencyKey r)) (idempotency_keys d) = None"
    using assms(4) by (auto simp: find_None_iff list_ex_iff)
  then have f: "find (same_idem (u_ID u) ''reply'' (idempotencyKey r)) (idempotency_keys d2) = Some ?row"
    unfolding assms(5) eq using d0(3) by (simp add: find_insert_new_same same_idem_def)
  have "IdempotentReplay (sr_sha srv) (u_ID u) ''reply'' (idempotencyKey r) ?q d2 = (True, 201, sr_reply_json srv doc, False)"
    using assms(3) by (simp add: IdempotentReplay_def f equalBytes_iff)
  then have "postReply body srv out2 hs2 r d2 = (Inr (writeRaw hs2 201 (sr_reply_json srv doc)), d2)"
    unfolding postReply_def p(1,2,5) using p(3,4) by (simp add: act_simps Let_def)
  moreover have "length (replies d1) = length (replies d) + 1" unfolding eq using d0(1) by simp
  ultimately show ?thesis using rsp(1) by blast
qed

definition wit_reply_request :: request where
  "wit_reply_request = wit_request\<lparr>hr_User := Some wit_bob, hr_Header := (\<lambda>n. if n = ''Idempotency-Key'' then ''k'' else '''')\<rparr>"

lemma wit_reply_request_fields [simp]:
  "hr_User wit_reply_request = Some wit_bob" "hr_Param wit_reply_request = hr_Param wit_request"
  "idempotencyKey wit_reply_request = ''k''"
  by (simp_all add: wit_reply_request_def idempotencyKey_def TrimSpace_def is_space_def)

lemma wit_chat_fields:
  "idempotency_keys wit_chat_db = []" "stories wit_chat_db = [published_row 100 50 (wit_story StoryProcessing)]"
  "user_exists wit_chat_db 2" "user_exists wit_chat_db 3" "story_exists wit_chat_db 7"
  by (simp_all add: wit_chat_defs story_exists_def)

lemma wit_reply_story:
  obtains it where "StoryForViewer wit_env 2 12 7 wit_chat_db = Inr it" "si_AuthorUserID it = 3" "si_AllowReplies it"
proof -
  have "\<not> isl (StoryForViewer wit_env 2 12 7 wit_chat_db)"
    unfolding isl_StoryForViewer
    by (simp add: story_join_def visibleToViewer_eq_may_see may_see_def Live_def Expired_def blocked_pair_def wit_chat_defs)
  then obtain it where i: "StoryForViewer wit_env 2 12 7 wit_chat_db = Inr it"
    by (cases "StoryForViewer wit_env 2 12 7 wit_chat_db") auto
  then obtain si au gi where "si \<in> set (stories wit_chat_db)" "it = loadVariants wit_chat_db (scanStory si au gi)"
    by (rule StoryForViewer_Inr)
  then have "si_AuthorUserID it = 3" "si_AllowReplies it"
    by (simp_all add: wit_chat_fields loadVariants_def scanStory_def published_row_def wit_story_defs)
  with i that show thesis by simp
qed

lemma wit_reply:
  obtains rsp d1 where "postReply (\<lambda>n. Decoded ''hi'') wit_server wit_outside [] wit_reply_request wit_chat_db = (Inr rsp, d1)"
proof -
  obtain it where it: "StoryForViewer wit_env 2 12 7 wit_chat_db = Inr it" "si_AuthorUserID it = 3" "si_AllowReplies it"
    by (rule wit_reply_story)
  have t: "TrimSpace ''hi'' = ''hi''" "length (runes ''hi'') = 2" "char_length ''hi'' = 2"
    by code_simp+
  have "\<exists>rsp d1. postReply (\<lambda>n. Decoded ''hi'') wit_server wit_outside [] wit_reply_request wit_chat_db = (Inr rsp, d1)"
    by (simp add: postReply_def act_simps mustCaller_simps pathUUID_def DecodeJSON_def t it IdempotentReplay_def
        CreateReply_def wit_chat_fields Let_def del: runes.simps)
  then show thesis using that by auto
qed

theorem reply_retry_safe_witness:
  "\<exists>d1. length (replies d1) = length (replies wit_chat_db) + 1
    \<and> (\<exists>doc. postReply (\<lambda>n. Decoded ''hi'') wit_server wit_outside [] wit_reply_request d1
        = (Inr (writeRaw [] 201 (sr_reply_json wit_server doc)), d1))"
proof -
  obtain rsp d1 where g: "postReply (\<lambda>n. Decoded ''hi'') wit_server wit_outside [] wit_reply_request wit_chat_db = (Inr rsp, d1)"
    by (rule wit_reply)
  show ?thesis
    using reply_retry_safe[OF g wit_reply_request_fields(1), of d1 wit_outside "[]"]
    by (intro exI[of _ d1]) (auto simp: wit_chat_fields)
qed

end
