(* ===== verification/ClientFacts.thy ===== *)
theory ClientFacts
  imports ClientCalls Journeys
begin

text \<open>
  What the client guarantees: how often it asks, that every attempt of a call is the same request, when
  it stops, and that waiting for a Story ends.  Together with the server's handling of idempotency keys:
  a reply is posted once, whatever the network loses.
\<close>

section \<open>The attempts of a call\<close>

text \<open>An answer that was read and does not ask for another attempt.\<close>

definition final :: "answer \<Rightarrow> bool" where "final a \<longleftrightarrow> an_Body a \<noteq> None \<and> \<not> isRetryable (an_Status a)"

text \<open>The events of a call: every request is the same, every pause is positive and at most the longest one
  unless the server asked for it in seconds, and nothing follows a final answer.\<close>

definition attempts_ok :: "network \<Rightarrow> wire \<Rightarrow> event list \<Rightarrow> event list \<Rightarrow> bool" where
  "attempts_ok nw w h es \<longleftrightarrow>
    (\<forall>v. Sent v \<in> set es \<longrightarrow> v = w) \<and> (\<forall>d. Slept d \<in> set es \<longrightarrow> 0 < d \<and> (d \<le> maxBackoff \<or> Second dvd d))
    \<and> (\<forall>pre post a. es = pre @ Sent w # post \<and> nw_send nw (h @ pre) w = Inr a \<and> final a \<longrightarrow> post = [])"

lemma retryDelay_ok: "0 < retryDelay c n e \<and> (retryDelay c n e \<le> maxBackoff \<or> Second dvd retryDelay c n e)"
  by (auto simp: retryDelay_def Let_def maxBackoff_def split: option.split client_error.split)

lemma status_attempt_Again: "status_attempt err dec spec a body = Again e \<Longrightarrow> isRetryable (an_Status a)"
  by (auto simp: status_attempt_def Let_def split: if_splits option.splits)

lemma status_attempt_Inr: "status_attempt err dec spec a body = Over (Inr x) \<Longrightarrow> an_Status a < 400"
  by (auto simp: status_attempt_def Let_def split: if_splits option.splits)

lemma one_attempt_cases:
  assumes "one_attempt nw c err dec spec h = (r, h1)"
  shows "h1 = h @ [Sent (wire_of c spec)]"
    and "r = Again e \<Longrightarrow> nw_send nw h (wire_of c spec) = Inr a \<Longrightarrow> \<not> final a"
    and "r = Over (Inr y) \<Longrightarrow> \<exists>a. nw_send nw h (wire_of c spec) = Inr a \<and> an_Status a < 400"
  using assms
  by (auto simp: one_attempt_def Let_def final_def split: sum.splits option.splits dest: status_attempt_Again status_attempt_Inr)

lemma attempts_ok_Nil [simp]: "attempts_ok nw w h []"
  by (simp add: attempts_ok_def)

lemma attempts_ok_one: "attempts_ok nw w h [Sent w]"
  by (auto simp: attempts_ok_def Cons_eq_append_conv)

lemma attempts_ok_again:
  assumes "attempts_ok nw w (h @ [Sent w]) es" and "\<And>a. nw_send nw h w = Inr a \<Longrightarrow> \<not> final a"
  shows "attempts_ok nw w h (Sent w # es)"
  using assms unfolding attempts_ok_def by (auto simp: Cons_eq_append_conv; blast)

lemma attempts_ok_slept:
  assumes "attempts_ok nw w (h @ [Slept d]) es" and "0 < d \<and> (d \<le> maxBackoff \<or> Second dvd d)"
  shows "attempts_ok nw w h (Slept d # es)"
  using assms unfolding attempts_ok_def by (auto simp: Cons_eq_append_conv; blast)

lemma attempts_loop_ok:
  assumes "attempts_loop nw c err dec spec attempt left lastErr h = (r, h')"
  shows "\<exists>es. h' = h @ es \<and> attempts_ok nw (wire_of c spec) h es \<and> sends es \<le> left
    \<and> (\<forall>y. r = Inr y \<longrightarrow> 0 < left \<or> lastErr \<noteq> None \<longrightarrow>
        (\<exists>pre a. es = pre @ [Sent (wire_of c spec)] \<and> nw_send nw (h @ pre) (wire_of c spec) = Inr a \<and> an_Status a < 400))"
  using assms
proof (induction left arbitrary: attempt lastErr h r h')
  case 0
  then show ?case by (intro exI[of _ "[]"]) (auto split: option.splits)
next
  case (Suc left)
  let ?w = "wire_of c spec" and ?d = "retryDelay c attempt lastErr"
  define pause where "pause = (if 0 < attempt then [Slept ?d] else [])"
  have paused: "attempts_ok nw ?w h (pause @ es)" if "attempts_ok nw ?w (h @ pause) es" for es
    using that attempts_ok_slept[OF _ retryDelay_ok] by (auto simp: pause_def)
  show ?case
  proof (cases "if 0 < attempt then nw_sleep nw h ?d else None")
    case (Some why)
    with Suc.prems have "r = Inl (Cancelled why)" "h' = h @ [Slept ?d]" by (simp_all add: Let_def split: if_splits)
    then show ?thesis using attempts_ok_slept[OF attempts_ok_Nil retryDelay_ok]
      by (intro exI[of _ "[Slept ?d]"]) auto
  next
    case None
    obtain t h1 where one: "one_attempt nw c err dec spec (h @ pause) = (t, h1)" by fastforce
    note c1 = one_attempt_cases[OF one]
    show ?thesis
    proof (cases t)
      case (Over q)
      with Suc.prems None one have "r = q" "h' = h @ pause @ [Sent ?w]"
        using c1(1) by (auto simp: Let_def pause_def split: if_splits)
      moreover have "attempts_ok nw ?w h (pause @ [Sent ?w])" by (rule paused[OF attempts_ok_one])
      moreover have "sends (pause @ [Sent ?w]) \<le> Suc left" by (simp add: pause_def)
      moreover have "\<exists>a. nw_send nw (h @ pause) ?w = Inr a \<and> an_Status a < 400" if "q = Inr y" for y
        using c1(3) Over that by blast
      ultimately show ?thesis by (intro exI[of _ "pause @ [Sent ?w]"]) auto
    next
      case (Again e)
      with Suc.prems None one have "attempts_loop nw c err dec spec (attempt + 1) left (Some e) h1 = (r, h')"
        by (auto simp: Let_def pause_def split: if_splits)
      from Suc.IH[OF this] obtain es where es: "h' = h1 @ es" "attempts_ok nw ?w h1 es" "sends es \<le> left"
        "\<And>y. r = Inr y \<Longrightarrow> \<exists>pre a. es = pre @ [Sent ?w] \<and> nw_send nw (h1 @ pre) ?w = Inr a \<and> an_Status a < 400"
        by auto
      have "attempts_ok nw ?w (h @ pause) (Sent ?w # es)"
        using attempts_ok_again[of nw ?w "h @ pause" es] es(2) c1(1,2) Again by auto
      from paused[OF this] have "attempts_ok nw ?w h (pause @ Sent ?w # es)" .
      moreover have "\<exists>pre a. pause @ Sent ?w # es = pre @ [Sent ?w] \<and> nw_send nw (h @ pre) ?w = Inr a \<and> an_Status a < 400" if "r = Inr y" for y
      proof -
        from es(4)[OF that] obtain pre a where "es = pre @ [Sent ?w]" "nw_send nw (h1 @ pre) ?w = Inr a" "an_Status a < 400" by blast
        then show ?thesis using c1(1) by (intro exI[of _ "pause @ Sent ?w # pre"] exI[of _ a]) simp
      qed
      moreover have "sends (pause @ Sent ?w # es) \<le> Suc left" using es(3) by (simp add: pause_def)
      ultimately show ?thesis using es(1) c1(1) by (intro exI[of _ "pause @ Sent ?w # es"]) auto
    qed
  qed
qed

lemma do_call_ok:
  assumes "do_call nw c err dec spec h = (r, h')"
  obtains es where "h' = h @ es" "attempts_ok nw (wire_of c spec) h es" "sends es \<le> attempts_of c"
    "\<And>y. r = Inr y \<Longrightarrow> \<exists>pre a. es = pre @ [Sent (wire_of c spec)] \<and> nw_send nw (h @ pre) (wire_of c spec) = Inr a \<and> an_Status a < 400"
proof -
  have "0 < attempts_of c" by (simp add: attempts_of_def)
  with attempts_loop_ok[OF assms[unfolded do_call_def]] that show thesis by auto
qed



section \<open>Waiting for a Story\<close>

lemma slept_since_append: "n \<le> length h \<Longrightarrow> slept_since n (h @ es) = slept_since n h + slept_since 0 es"
  by (simp add: slept_since_def)

lemma slept_positive: "(\<forall>d. Slept d \<in> set es \<longrightarrow> 0 < d) \<Longrightarrow> 0 \<le> slept_since 0 es"
  by (induction es) (auto simp: slept_since_def split: event.split)

lemma GetStory_slept:
  assumes "GetStory x i h = (r, h')" and "n \<le> length h"
  shows "n \<le> length h' \<and> slept_since n h \<le> slept_since n h'"
proof -
  have "\<exists>es. h' = h @ es \<and> (\<forall>d. Slept d \<in> set es \<longrightarrow> 0 < d)"
    using assms(1) unfolding GetStory_def get_def request_to_def by (elim do_call_ok) (auto simp: attempts_ok_def)
  with assms(2) show ?thesis using slept_positive by (auto simp: slept_since_append)
qed

lemma poll_loop_ends:
  assumes "0 < t" and "n \<le> length h" and "slept_since n h \<le> maxWait" and "cc_net x = with_timeout n maxWait nw"
  shows "\<exists>r seen' h'. poll_loop x i t seen h = Some (r, seen', h')
    \<and> int (length seen') \<le> int (length seen) + (maxWait - slept_since n h) div t + 1"
  using assms(2,3)
proof (induction "nat (maxWait - slept_since n h)" arbitrary: h seen rule: less_induct)
  case less
  obtain r h1 where g: "GetStory x i h = (r, h1)" by fastforce
  note s = GetStory_slept[OF g less.prems(1)]
  have nonneg: "0 \<le> (maxWait - slept_since n h) div t" using less.prems(2) assms(1) by (simp add: pos_imp_zdiv_nonneg_iff)
  show ?case
  proof (cases "\<exists>item. r = Inr item \<and> state_of item \<notin> set terminalStoryStates \<and> nw_sleep (cc_net x) h1 t = None")
    case False
    then show ?thesis using nonneg by (subst poll_loop.simps) (auto simp: g Let_def split: sum.split option.split)
  next
    case True
    then obtain item where item: "r = Inr item" "state_of item \<notin> set terminalStoryStates" "nw_sleep (cc_net x) h1 t = None" by blast
    have fits: "slept_since n h1 + t \<le> maxWait" using item(3) assms(4) by (auto simp: with_timeout_def split: if_splits)
    let ?h = "h1 @ [Slept t]"
    have eq: "slept_since n ?h = slept_since n h1 + t" using s by (simp add: slept_since_append) (simp add: slept_since_def)
    have "poll_loop x i t seen h = poll_loop x i t (seen @ [item]) ?h"
      using item by (subst poll_loop.simps) (simp add: g Let_def)
    moreover obtain r' seen' h' where ih: "poll_loop x i t (seen @ [item]) ?h = Some (r', seen', h')"
      "int (length seen') \<le> int (length (seen @ [item])) + (maxWait - slept_since n ?h) div t + 1"
      using less.hyps[of ?h "seen @ [item]"] eq s fits assms(1) less.prems by auto
    moreover have "(maxWait - slept_since n ?h) div t + 1 \<le> (maxWait - slept_since n h) div t"
    proof -
      have "(maxWait - slept_since n ?h) div t + 1 = (maxWait - slept_since n h1) div t"
        using assms(1) div_add_self2[of t "maxWait - slept_since n ?h"] by (simp add: eq)
      also have "\<dots> \<le> (maxWait - slept_since n h) div t" using s assms(1) by (intro zdiv_mono1) auto
      finally show ?thesis .
    qed
    ultimately show ?thesis by auto
  qed
qed

text \<open>C20. Waiting for a Story with a bound ends, whatever the server answers and even when the Story never leaves
  processing: the loop returns after at most as many questions as fit between the pauses, and one more.\<close>

theorem bounded_poll_ends:
  assumes "0 < maxWait"
  shows "\<exists>r seen' h'. PollStoryUntilTerminal x i interval maxWait seen h = Some (r, seen', h')
    \<and> int (length seen') \<le> int (length seen) + maxWait div (if interval \<le> 0 then 1500000000 else interval) + 1"
proof -
  let ?t = "if interval \<le> 0 then 1500000000 else interval"
  have "slept_since (length h) h = 0" by (simp add: slept_since_def)
  moreover have "0 < ?t" by simp
  ultimately show ?thesis
    using assms poll_loop_ends[of ?t "length h" h maxWait "x\<lparr>cc_net := with_timeout (length h) maxWait (cc_net x)\<rparr>" "cc_net x" i seen]
    by (cases "interval \<le> 0") (simp_all add: PollStoryUntilTerminal_def Let_def)
qed

section \<open>A reply and the server\<close>

definition remembered :: "User \<Rightarrow> string \<Rightarrow> db \<Rightarrow> bool" where
  "remembered u key d \<longleftrightarrow> list_ex (same_idem (u_ID u) ''reply'' key) (idempotency_keys d)"

lemma postReply_step:
  assumes "hr_User r = Some u" and "idempotencyKey r \<noteq> ''''" and "postReply body srv out hs r d = (res, d')"
  shows "remembered u (idempotencyKey r) d \<Longrightarrow> d' = d"
    and "\<not> remembered u (idempotencyKey r) d \<Longrightarrow> isl res \<Longrightarrow> d' = d"
    and "\<not> remembered u (idempotencyKey r) d \<Longrightarrow> \<not> isl res \<Longrightarrow>
      remembered u (idempotencyKey r) d' \<and> length (replies d') = length (replies d) + 1"
proof -
  let ?key = "idempotencyKey r" and ?idem = "same_idem (u_ID u) ''reply'' (idempotencyKey r)"
  have fresh: "\<not> remembered u ?key d" if "IdempotentReplay sha (u_ID u) ''reply'' ?key q d = (False, a, b, c)" for sha q a b c
    using that assms(2) by (auto simp: IdempotentReplay_def remembered_def list_ex_iff find_None_iff split: option.splits if_splits)
  have writes: "d' = d \<or> \<not> remembered u ?key d \<and> \<not> isl res"
    using assms(3) unfolding postReply_def
    by (simp add: andthen_known act_simps Let_def mustCaller_Inr assms(1) split: sum.splits if_splits prod.splits) (auto dest: fresh)
  then show "remembered u ?key d \<Longrightarrow> d' = d" "\<not> remembered u ?key d \<Longrightarrow> isl res \<Longrightarrow> d' = d" by blast+
  assume new: "\<not> remembered u ?key d" "\<not> isl res"
  then obtain rsp where "res = Inr rsp" by (cases res) auto
  then obtain raw sid doc d0 where d0: "length (replies d0) = length (replies d) + 1" "user_exists d0 (u_ID u)"
    and d': "d' = (case RememberIdempotent (sr_sha srv) (u_ID u) ''reply'' ?key
        (sr_reply_request srv (sr_text srv sid) (TrimSpace raw)) 201 (sr_reply_json srv doc) d0 of Inl e \<Rightarrow> d0 | Inr (x, d1) \<Rightarrow> d1)"
    using postReply_Inr[of body srv out hs r d rsp d' u] assms(1,3) new(1) unfolding remembered_def by metis
  then show "remembered u ?key d' \<and> length (replies d') = length (replies d) + 1"
    using assms(2) by (auto simp: RememberIdempotent_def remembered_def insert_new_def same_idem_def list_ex_iff)
qed


text \<open>The server as the wire sees it: the \<open>k\<close>-th request is parsed and handled, and what it did to the
  database stays whether or not the answer arrives.\<close>

definition reply_service ::
  "server \<Rightarrow> (nat \<Rightarrow> outside) \<Rightarrow> headers \<Rightarrow> (wire \<Rightarrow> request) \<Rightarrow> (wire \<Rightarrow> int \<Rightarrow> string decoded)
     \<Rightarrow> nat \<Rightarrow> wire \<Rightarrow> db \<Rightarrow> (api_Error + payload response) \<times> db" where
  "reply_service srv outs hs parse body k w = postReply (body w) srv (outs k) hs (parse w)"

fun served :: "(nat \<Rightarrow> wire \<Rightarrow> db \<Rightarrow> 'r \<times> db) \<Rightarrow> nat \<Rightarrow> event list \<Rightarrow> db \<Rightarrow> db" where
  "served f k [] d = d"
| "served f k (Sent w # es) d = served f (Suc k) es (snd (f k w d))"
| "served f k (Slept t # es) d = served f k es d"

lemma served_append: "served f k (xs @ ys) d = served f (k + sends xs) ys (served f k xs d)"
  by (induction f k xs d rule: served.induct) simp_all

definition status_of :: "api_Error + payload response \<Rightarrow> int" where
  "status_of r = (case r of Inl e \<Rightarrow> er_Status e | Inr rsp \<Rightarrow> rsp_Status rsp)"

lemma postReply_error:
  assumes "postReply body srv out hs r d = (Inl e, d')"
  shows "400 \<le> er_Status e"
proof -
  have 1: "mustCaller r = Inl e \<Longrightarrow> 400 \<le> er_Status e" for e
    by (auto simp: mustCaller_def Unauthorized_def Forbidden_def Err_def split: option.splits if_splits)
  have 2: "pathUUID srv r n = Inl e \<Longrightarrow> 400 \<le> er_Status e" for n e
    by (auto simp: pathUUID_def NotFound_def BadRequest_def Err_def split: option.splits)
  have 3: "DecodeJSON body n = Inl e \<Longrightarrow> 400 \<le> er_Status e" for n e
    by (auto simp: DecodeJSON_def TooLarge_def BadRequest_def Err_def split: decoded.splits)
  have 4: "400 \<le> er_Status (FieldError f s)" "400 \<le> er_Status (Conflict s)" "400 \<le> er_Status (Forbidden s)"
    "400 \<le> er_Status (missing err)" "400 \<le> er_Status (internal err)" for f s err
    by (simp_all add: FieldError_def Conflict_def Forbidden_def missing_def internal_def NotFound_def Internal_def Err_def split: store_error.split)
  show ?thesis
    using assms unfolding postReply_def
    by (simp add: andthen_known act_simps Let_def split: sum.splits if_splits prod.splits) (auto dest: 1 2 3 simp: 4)
qed

lemma served_replies:
  assumes "\<And>k. idempotencyKey (parse w) = key \<and> hr_User (parse w) = Some u" and "key \<noteq> ''''" and "\<forall>v. Sent v \<in> set es \<longrightarrow> v = w"
  shows "(remembered u key d \<longrightarrow> served (reply_service srv outs hs parse body) k es d = d)
    \<and> (\<not> remembered u key d \<longrightarrow> served (reply_service srv outs hs parse body) k es d = d
        \<or> remembered u key (served (reply_service srv outs hs parse body) k es d)
          \<and> length (replies (served (reply_service srv outs hs parse body) k es d)) = length (replies d) + 1)"
  using assms(3)
proof (induction es arbitrary: k d)
  case (Cons e es)
  show ?case
  proof (cases e)
    case (Slept t)
    with Cons show ?thesis by simp
  next
    case (Sent v)
    with Cons.prems have v: "v = w" by auto
    obtain res d1 where p: "postReply (body w) srv (outs k) hs (parse w) d = (res, d1)" by fastforce
    have "snd (reply_service srv outs hs parse body k v d) = d1" by (simp add: reply_service_def v p)
    then have F: "served (reply_service srv outs hs parse body) k (e # es) d = served (reply_service srv outs hs parse body) (Suc k) es d1"
      by (simp add: Sent)
    have key: "idempotencyKey (parse w) = key" and user: "hr_User (parse w) = Some u" using assms(1) by blast+
    note step = postReply_step[OF user _ p, unfolded key, OF assms(2)]
    have IH: "(remembered u key d1 \<longrightarrow> served (reply_service srv outs hs parse body) (Suc k) es d1 = d1)
      \<and> (\<not> remembered u key d1 \<longrightarrow> served (reply_service srv outs hs parse body) (Suc k) es d1 = d1
        \<or> remembered u key (served (reply_service srv outs hs parse body) (Suc k) es d1)
          \<and> length (replies (served (reply_service srv outs hs parse body) (Suc k) es d1)) = length (replies d1) + 1)"
      using Cons.IH[of d1 "Suc k"] Cons.prems by simp
    show ?thesis
    proof (cases "remembered u key d")
      case True
      with step(1) IH F show ?thesis by simp
    next
      case False
      then show ?thesis using step(2,3) IH by (cases "isl res") (simp_all add: F)
    qed
  qed
qed simp

lemma replies_delivered:
  assumes "idempotencyKey (parse w) = key \<and> hr_User (parse w) = Some u" and "key \<noteq> []" and "\<forall>v. Sent v \<in> set es \<longrightarrow> v = w"
    and "\<not> remembered u key d" and "f = reply_service srv outs hs parse body"
    and "\<forall>pre w a. nw_send nw (h @ pre) w = Inr a \<longrightarrow> an_Status a = status_of (fst (f (sends pre) w (served f 0 pre d)))"
  shows "length (replies (served f 0 es d)) \<le> length (replies d) + 1"
    and "es = pre @ [Sent w] \<Longrightarrow> nw_send nw (h @ pre) w = Inr a \<Longrightarrow> an_Status a < 400 \<Longrightarrow>
      length (replies (served f 0 es d)) = length (replies d) + 1"
proof -
  note replies = served_replies[of parse w key u, OF assms(1,2), of _ _ srv outs hs body, folded assms(5)]
  from replies[OF assms(3), of d 0] assms(4) show "length (replies (served f 0 es d)) \<le> length (replies d) + 1" by auto
  assume pre: "es = pre @ [Sent w]" "nw_send nw (h @ pre) w = Inr a" "an_Status a < 400"
  obtain r1 d1 where p: "postReply (body w) srv (outs (sends pre)) hs (parse w) (served f 0 pre d) = (r1, d1)" by fastforce
  have "fst (f (sends pre) w (served f 0 pre d)) = r1" by (simp add: assms(5) reply_service_def p[unfolded assms(5)])
  then have "status_of r1 < 400" using assms(6) pre(2,3) by auto
  then have ok: "\<not> isl r1" using postReply_error[of "body w" srv "outs (sends pre)" hs "parse w" "served f 0 pre d"] p
    by (cases r1) (auto simp: status_of_def)
  have end1: "served f 0 es d = d1" by (simp add: pre(1) served_append assms(5) reply_service_def p[unfolded assms(5)])
  have "\<forall>v. Sent v \<in> set pre \<longrightarrow> v = w" using assms(3) pre(1) by auto
  note before = replies[OF this, of d 0]
  note step = postReply_step[OF conjunct2[OF assms(1)] _ p, unfolded conjunct1[OF assms(1)], OF assms(2)]
  show "length (replies (served f 0 es d)) = length (replies d) + 1"
  proof (cases "remembered u key (served f 0 pre d)")
    case True
    with before assms(4) step(1) end1 show ?thesis by metis
  next
    case False
    with before assms(4) step(3) end1 ok show ?thesis by metis
  qed
qed



section \<open>Instances\<close>

definition wit_codec :: codec where
  "wit_codec = \<lparr>co_enc = (\<lambda>doc. Some ''{}''), co_error = (\<lambda>s. None), co_Me = (\<lambda>s. None), co_PendingLogin = (\<lambda>s. None),
    co_LoginPoll = (\<lambda>s. None), co_DeviceLogin = (\<lambda>s. None), co_Sessions = (\<lambda>s. None), co_ImportSummary = (\<lambda>s. None),
    co_Feed = (\<lambda>s. None), co_Group = (\<lambda>s. None), co_Users = (\<lambda>s. None), co_Story = (\<lambda>s. None), co_Viewers = (\<lambda>s. None),
    co_Reaction = (\<lambda>s. None), co_Reply = (\<lambda>s. None), co_Inbox = (\<lambda>s. None), co_Relationship = (\<lambda>s. None),
    co_Page = (\<lambda>s. None), co_Lists = (\<lambda>s. None), co_List = (\<lambda>s. None), co_Settings = (\<lambda>s. None), co_Report = (\<lambda>s. None),
    co_UploadIntent = (\<lambda>s. None)\<rparr>"

definition wit_client :: Client where "wit_client = New_Client ''dev'' ''https://stories.test/'' ''token''"

definition wit_down :: network where
  "wit_down = \<lparr>nw_send = (\<lambda>h w. Inr \<lparr>an_Status = 503, an_Headers = [], an_Body = Some ''''\<rparr>), nw_sleep = (\<lambda>h d. None), nw_ctx = (\<lambda>h. None)\<rparr>"

definition wit_spec :: requestSpec where
  "wit_spec = \<lparr>rs_method = ''GET'', rs_path = ''/me'', rs_query = [], rs_headers = [], rs_body = None\<rparr>"


theorem bounded_poll_ends_witness:
  "\<exists>r seen h. PollStoryUntilTerminal \<lparr>cc_net = wit_down, cc_client = wit_client, cc_codec = wit_codec\<rparr> ''s1'' 0 (60 * Second) [] []
    = Some (r, seen, h) \<and> length seen \<le> 41"
  using bounded_poll_ends[of "60 * Second" "\<lparr>cc_net = wit_down, cc_client = wit_client, cc_codec = wit_codec\<rparr>" "''s1''" 0 "[]" "[]"]
  by (force)

definition wit_parse :: "wire \<Rightarrow> request" where
  "wit_parse w = wit_request\<lparr>hr_User := Some wit_bob, hr_Header := (\<lambda>n. get_header n (wr_Headers w))\<rparr>"

definition wit_served :: "nat \<Rightarrow> wire \<Rightarrow> db \<Rightarrow> (api_Error + payload response) \<times> db" where
  "wit_served = reply_service wit_server (\<lambda>k. wit_outside) [] wit_parse (\<lambda>w n. Decoded ''hi'')"

definition wit_lossy :: network where
  "wit_lossy = \<lparr>nw_send = (\<lambda>h w. if h = [] then Inl ''connection reset''
      else Inr \<lparr>an_Status = status_of (fst (wit_served (sends h) w (served wit_served 0 h wit_chat_db))), an_Headers = [], an_Body = Some ''''\<rparr>),
    nw_sleep = (\<lambda>h d. None), nw_ctx = (\<lambda>h. None)\<rparr>"


end
