(* ===== verification/Github.thy ===== *)
theory Github
  imports Client
begin

text \<open>
  The client of the GitHub API that the service signs people in with: \<^verbatim>\<open>src/internal/ghclient\<close>.
  A call reads and extends the history of what went over the wire, as in \<open>Client\<close>; the network, the
  clock, the URL parser and the JSON decoder are parameters.
\<close>

section \<open>The client\<close>

definition DefaultAPIBaseURL :: string where "DefaultAPIBaseURL = ''https://api.github.com''"

definition DefaultAuthBaseURL :: string where "DefaultAuthBaseURL = ''https://github.com''"

definition gh_maxBodyBytes :: nat where "gh_maxBodyBytes = 5 * 1024 * 1024"

definition gh_maxRetries :: nat where "gh_maxRetries = 3"

definition gh_minBackoff :: duration where "gh_minBackoff = 100 * 1000000"

definition gh_maxBackoff :: duration where "gh_maxBackoff = 2 * Second"

record gh_options =
  go_BaseURL :: string
  go_UserAgent :: string

record gh_client =
  gc_apiBase :: string
  gc_authBase :: string
  gc_userAgent :: string

definition New_ghclient :: "gh_options \<Rightarrow> gh_client" where
  "New_ghclient opts =
    \<lparr>gc_apiBase = (if go_BaseURL opts \<noteq> '''' then go_BaseURL opts else DefaultAPIBaseURL),
     gc_authBase = (if go_BaseURL opts \<noteq> '''' then go_BaseURL opts else DefaultAuthBaseURL),
     gc_userAgent = (if go_UserAgent opts \<noteq> '''' then go_UserAgent opts
       else ''github-stories/1.0 (+https://github.com/alliecatowo/gh-stories)'')\<rparr>"

record ghUser =
  gu_ID :: int
  gu_Login :: string
  gu_AvatarURL :: string
  gu_HTMLURL :: string
  gu_Type :: string

record ghTokenResponse =
  gt_AccessToken :: string
  gt_TokenType :: string
  gt_Scope :: string
  gt_Error :: string
  gt_ErrorDescription :: string

record gh_token =
  tk_AccessToken :: string
  tk_TokenType :: string
  tk_Scope :: string

record gh_world =
  gw_net :: network
  gw_now :: "event list \<Rightarrow> nat \<Rightarrow> time"
  gw_url :: "string \<Rightarrow> bool"
  gw_users :: "string \<Rightarrow> ghUser list option"
  gw_user :: "string \<Rightarrow> ghUser option"
  gw_token :: "string \<Rightarrow> ghTokenResponse option"
  gw_device :: "string \<Rightarrow> DeviceCode option"
  gw_message :: "string \<Rightarrow> string option"

section \<open>Errors\<close>

datatype gh_error = GhUnauthorized | GhForbidden | GhAPI int string | GhRateLimited "time option" nat | GhFailed string

definition redact :: "string \<Rightarrow> string" where
  "redact secret = (if secret = '''' then '''' else ''***redacted***'')"

definition readLimited :: "nat \<Rightarrow> string option \<Rightarrow> gh_error + string" where
  "readLimited n body =
    (case body of
       None \<Rightarrow> Inl (GhFailed ''ghclient: read response body'')
     | Some b \<Rightarrow>
         if n < length b then Inl (GhFailed (''ghclient: response body exceeds '' @ decimal (int n) @ '' byte cap''))
         else Inr b)"

definition apiErrorMessage :: "gh_world \<Rightarrow> string \<Rightarrow> string" where
  "apiErrorMessage W body =
    (case gw_message W body of
       Some m \<Rightarrow> if m \<noteq> '''' then m else if body = '''' then ''no error body'' else take 200 body
     | None \<Rightarrow> if body = '''' then ''no error body'' else take 200 body)"

definition classify :: "gh_world \<Rightarrow> answer \<Rightarrow> string \<Rightarrow> gh_error option" where
  "classify W resp body =
    (let status = an_Status resp in
     if 200 \<le> status \<and> status < 300 then None
     else if status = 401 then Some GhUnauthorized
     else if status = 403 then Some GhForbidden
     else Some (GhAPI status (apiErrorMessage W body)))"

section \<open>Rate limits\<close>

definition rateLimited :: "answer \<Rightarrow> bool" where
  "rateLimited resp \<longleftrightarrow>
    (an_Status resp = 403 \<or> an_Status resp = 429)
    \<and> (get_header ''Retry-After'' (an_Headers resp) \<noteq> '''' \<or> get_header ''X-Ratelimit-Remaining'' (an_Headers resp) = ''0'')"

definition rateLimitReset :: "time \<Rightarrow> answer \<Rightarrow> time option" where
  "rateLimitReset now resp =
    (let ra = get_header ''Retry-After'' (an_Headers resp); rl = get_header ''X-Ratelimit-Reset'' (an_Headers resp);
         later = (if rl \<noteq> '''' then map_option (\<lambda>secs. secs * Second) (scan_int rl) else None) in
     if ra \<noteq> '''' then (case scan_int ra of Some secs \<Rightarrow> Some (now + wrap64 (secs * Second)) | None \<Rightarrow> later)
     else later)"

definition rateLimitWait :: "time \<Rightarrow> time option \<Rightarrow> duration" where
  "rateLimitWait now reset =
    (let wait = (case reset of None \<Rightarrow> 0 | Some t \<Rightarrow> t - now);
         wait = (if wait \<le> 0 then gh_minBackoff else wait) in
     if gh_maxBackoff < wait then gh_maxBackoff else wait)"

definition backoffFor :: "nat \<Rightarrow> duration" where
  "backoffFor attempt = (let wait = gh_minBackoff * (int attempt + 1) in if gh_maxBackoff < wait then gh_maxBackoff else wait)"

section \<open>A call\<close>

type_synonym 'a gh_call = "event list \<Rightarrow> (gh_error + 'a) \<times> event list"

fun gh_attempts :: "gh_world \<Rightarrow> wire \<Rightarrow> nat \<Rightarrow> nat \<Rightarrow> gh_error \<Rightarrow> (answer \<times> string) gh_call" where
  "gh_attempts W w attempt 0 lastErr h = (Inl lastErr, h)"
| "gh_attempts W w attempt (Suc left) lastErr h =
    (let h' = h @ [Sent w] in
     case nw_send (gw_net W) h w of
       Inl e \<Rightarrow>
         (let err = GhFailed (''ghclient: request failed: '' @ e) in
          if attempt < gh_maxRetries \<and> nw_ctx (gw_net W) h' = None then
            gh_attempts W w (attempt + 1) left err (h' @ [Slept (backoffFor attempt)])
          else (Inl err, h'))
     | Inr resp \<Rightarrow>
         (case readLimited gh_maxBodyBytes (an_Body resp) of
            Inl e \<Rightarrow> (Inl e, h')
          | Inr body \<Rightarrow>
              if rateLimited resp then
                (let reset = rateLimitReset (gw_now W h' 0) resp in
                 if attempt < gh_maxRetries then
                   gh_attempts W w (attempt + 1) left lastErr (h' @ [Slept (rateLimitWait (gw_now W h' 1) reset)])
                 else (Inl (GhRateLimited reset (attempt + 1)), h'))
              else (Inr (resp, body), h')))"

definition doWithRetry :: "gh_world \<Rightarrow> wire \<Rightarrow> (answer \<times> string) gh_call" where
  "doWithRetry W w h =
    (if \<not> gw_url W (wr_URL w) then (Inl (GhFailed ''ghclient: build request''), h)
     else gh_attempts W w 0 (gh_maxRetries + 1) (GhFailed '''') h)"

definition applyHeaders :: "gh_client \<Rightarrow> string \<Rightarrow> headers" where
  "applyHeaders c token =
    (let hs = set_header ''X-Github-Api-Version'' ''2022-11-28''
           (set_header ''Accept'' ''application/vnd.github+json'' (set_header ''User-Agent'' (gc_userAgent c) [])) in
     if token \<noteq> '''' then set_header ''Authorization'' (''Bearer '' @ token) hs else hs)"

definition gh_get :: "gh_client \<Rightarrow> string \<Rightarrow> string \<Rightarrow> wire" where
  "gh_get c token url = \<lparr>wr_Method = ''GET'', wr_URL = url, wr_Headers = applyHeaders c token, wr_Body = None\<rparr>"

definition checked :: "gh_world \<Rightarrow> wire \<Rightarrow> (answer \<times> string) gh_call" where
  "checked W w h =
    (case doWithRetry W w h of
       (Inl e, h) \<Rightarrow> (Inl e, h)
     | (Inr (resp, body), h) \<Rightarrow>
         ((case classify W resp body of Some e \<Rightarrow> Inl e | None \<Rightarrow> Inr (resp, body)), h))"

definition toIdentity :: "ghUser \<Rightarrow> Identity" where
  "toIdentity u = \<lparr>gi_GitHubID = gu_ID u, gi_Login = gu_Login u, gi_AvatarURL = gu_AvatarURL u, gi_ProfileURL = gu_HTMLURL u,
    gi_AccountType = gu_Type u, gi_RefreshedAt = zero_Time, gi_Registered = False\<rparr>"

definition CurrentUser :: "gh_world \<Rightarrow> gh_client \<Rightarrow> string \<Rightarrow> Identity gh_call" where
  "CurrentUser W c token h =
    (case checked W (gh_get c token (gc_apiBase c @ ''/user'')) h of
       (Inl e, h) \<Rightarrow> (Inl e, h)
     | (Inr (resp, body), h) \<Rightarrow>
         ((case gw_user W body of
             None \<Rightarrow> Inl (GhFailed ''ghclient: decode current user'')
           | Some u \<Rightarrow> Inr (toIdentity u)), h))"

section \<open>Whom an account follows\<close>

definition maxFollowingPages :: nat where "maxFollowingPages = 100"

definition followingPerPage :: int where "followingPerPage = 100"

text \<open>The leftmost match of \<open><([^>]+)>;\s*rel="next"\<close>.\<close>

definition link_space :: "char \<Rightarrow> bool" where
  "link_space c \<longleftrightarrow> byte c \<in> {9, 10, 12, 13, 32}"

definition next_here :: "string \<Rightarrow> string option" where
  "next_here s =
    (let url = takeWhile (\<lambda>c. c \<noteq> CHR ''>'') s; rest = dropWhile (\<lambda>c. c \<noteq> CHR ''>'') s in
     if url \<noteq> '''' \<and> HasPrefix rest ''>;'' \<and> HasPrefix (dropWhile link_space (drop 2 rest)) ''rel=\"next\"'' then Some url else None)"

fun nextLink :: "string \<Rightarrow> string" where
  "nextLink [] = ''''"
| "nextLink (c # s) =
    (case (if c = CHR ''<'' then next_here s else None) of Some url \<Rightarrow> url | None \<Rightarrow> nextLink s)"

fun page_users :: "int \<Rightarrow> ghUser list \<Rightarrow> int list \<Rightarrow> Identity list \<Rightarrow> int list \<times> Identity list" where
  "page_users mx [] seen out = (seen, out)"
| "page_users mx (u # us) seen out =
    (if gu_ID u \<in> set seen then page_users mx us seen out
     else (let seen = gu_ID u # seen; out = out @ [toIdentity u] in
       if mx \<le> int (length out) then (seen, out) else page_users mx us seen out))"

fun following_pages ::
  "gh_world \<Rightarrow> gh_client \<Rightarrow> string \<Rightarrow> int \<Rightarrow> nat \<Rightarrow> string \<Rightarrow> int list \<Rightarrow> Identity list \<Rightarrow> Identity list gh_call" where
  "following_pages W c token mx 0 url seen out h = (Inr out, h)"
| "following_pages W c token mx (Suc pages) url seen out h =
    (if url = '''' \<or> mx \<le> int (length out) then (Inr out, h)
     else (case checked W (gh_get c token url) h of
         (Inl e, h) \<Rightarrow> (Inl e, h)
       | (Inr (resp, body), h) \<Rightarrow>
           (case gw_users W body of
              None \<Rightarrow> (Inl (GhFailed ''ghclient: decode following page''), h)
            | Some us \<Rightarrow>
                (case page_users mx us seen out of
                   (seen, out) \<Rightarrow>
                     following_pages W c token mx pages (nextLink (get_header ''Link'' (an_Headers resp))) seen out h))))"

definition gh_Following_call :: "gh_world \<Rightarrow> gh_client \<Rightarrow> string \<Rightarrow> int \<Rightarrow> Identity list gh_call" where
  "gh_Following_call W c token mx h =
    (if mx \<le> 0 then (Inr [], h)
     else following_pages W c token mx maxFollowingPages
       (gc_apiBase c @ ''/user/following?per_page='' @ decimal followingPerPage) [] [] h)"

section \<open>Exchanges\<close>

text \<open>One request, no retries.\<close>

definition form_post :: "gh_world \<Rightarrow> gh_client \<Rightarrow> string \<Rightarrow> (string \<times> string) list \<Rightarrow> string gh_call" where
  "form_post W c path form h =
    (let w = \<lparr>wr_Method = ''POST'', wr_URL = gc_authBase c @ path,
              wr_Headers = set_header ''User-Agent'' (gc_userAgent c) (set_header ''Accept'' ''application/json''
                (set_header ''Content-Type'' ''application/x-www-form-urlencoded'' [])),
              wr_Body = Some (Encode form)\<rparr> in
     if \<not> gw_url W (wr_URL w) then (Inl (GhFailed ''ghclient: build request''), h)
     else
       ((case nw_send (gw_net W) h w of
           Inl e \<Rightarrow> Inl (GhFailed (''ghclient: request failed: '' @ e))
         | Inr resp \<Rightarrow>
             (case readLimited gh_maxBodyBytes (an_Body resp) of
                Inl e \<Rightarrow> Inl e
              | Inr body \<Rightarrow> (case classify W resp body of Some e \<Rightarrow> Inl e | None \<Rightarrow> Inr body))), h @ [Sent w]))"

definition ExchangeCode_call :: "gh_world \<Rightarrow> gh_client \<Rightarrow> string \<Rightarrow> string \<Rightarrow> string \<Rightarrow> string \<Rightarrow> string \<Rightarrow> gh_token gh_call" where
  "ExchangeCode_call W c clientID clientSecret code redirectURI codeVerifier h =
    (case form_post W c ''/login/oauth/access_token''
        [(''client_id'', clientID), (''client_secret'', clientSecret), (''code'', code), (''redirect_uri'', redirectURI),
         (''code_verifier'', codeVerifier)] h of
       (Inl e, h) \<Rightarrow> (Inl e, h)
     | (Inr body, h) \<Rightarrow>
         ((case gw_token W body of
             None \<Rightarrow> Inl (GhFailed ''ghclient: decode token response'')
           | Some tr \<Rightarrow>
               if gt_Error tr \<noteq> '''' then
                 Inl (GhAPI 200 (if gt_ErrorDescription tr \<noteq> '''' then gt_ErrorDescription tr else gt_Error tr))
               else if gt_AccessToken tr = '''' then Inl (GhAPI 200 ''github returned no access token'')
               else Inr \<lparr>tk_AccessToken = gt_AccessToken tr, tk_TokenType = gt_TokenType tr, tk_Scope = gt_Scope tr\<rparr>), h))"

definition RequestDeviceCode_call :: "gh_world \<Rightarrow> gh_client \<Rightarrow> string \<Rightarrow> DeviceCode gh_call" where
  "RequestDeviceCode_call W c clientID h =
    (case form_post W c ''/login/device/code'' [(''client_id'', clientID)] h of
       (Inl e, h) \<Rightarrow> (Inl e, h)
     | (Inr body, h) \<Rightarrow>
         ((case gw_device W body of
             None \<Rightarrow> Inl (GhFailed ''ghclient: decode device code response'')
           | Some d \<Rightarrow>
               if dc_DeviceCode d = '''' \<or> dc_UserCode d = '''' \<or> dc_VerificationURI d = '''' \<or> dc_ExpiresIn d \<le> 0 then
                 Inl (GhAPI 200 ''github returned incomplete device code'')
               else Inr d), h))"

definition ExchangeDeviceToken_call ::
  "gh_world \<Rightarrow> gh_client \<Rightarrow> string \<Rightarrow> string \<Rightarrow> string \<Rightarrow> (DeviceStatus \<times> string) gh_call" where
  "ExchangeDeviceToken_call W c clientID secret deviceCode h =
    (case form_post W c ''/login/oauth/access_token''
        [(''client_id'', clientID), (''client_secret'', secret), (''device_code'', deviceCode),
         (''grant_type'', ''urn:ietf:params:oauth:grant-type:device_code'')] h of
       (Inl e, h) \<Rightarrow> (Inl e, h)
     | (Inr body, h) \<Rightarrow>
         ((case gw_token W body of
             None \<Rightarrow> Inl (GhFailed ''ghclient: decode device token response'')
           | Some tr \<Rightarrow>
               (let e = gt_Error tr in
                if e = '''' then
                  (if gt_AccessToken tr = '''' then Inl (GhAPI 200 ''github returned no access token'')
                   else Inr (DeviceApproved, gt_AccessToken tr))
                else if e = ''authorization_pending'' then Inr (DevicePending, '''')
                else if e = ''slow_down'' then Inr (DeviceSlowDown, '''')
                else if e = ''access_denied'' then Inr (DeviceDenied, '''')
                else if e = ''expired_token'' then Inr (DeviceExpired, '''')
                else Inl (GhAPI 200 (if gt_ErrorDescription tr \<noteq> '''' then gt_ErrorDescription tr else e)))), h))"

section \<open>What the client keeps to\<close>

text \<open>The events of reading from GitHub: only requests of one kind and pauses of at most two seconds.\<close>

definition reads_only :: "(wire \<Rightarrow> bool) \<Rightarrow> event list \<Rightarrow> bool" where
  "reads_only P es \<longleftrightarrow> (\<forall>v. Sent v \<in> set es \<longrightarrow> P v) \<and> (\<forall>d. Slept d \<in> set es \<longrightarrow> 0 < d \<and> d \<le> gh_maxBackoff)"

lemma reads_only_simps [simp]:
  "reads_only P []" "reads_only P (Sent v # es) \<longleftrightarrow> P v \<and> reads_only P es"
  "reads_only P (Slept d # es) \<longleftrightarrow> 0 < d \<and> d \<le> gh_maxBackoff \<and> reads_only P es"
  "reads_only P (xs @ ys) \<longleftrightarrow> reads_only P xs \<and> reads_only P ys"
  by (auto simp: reads_only_def)

lemma rateLimitWait_bounds: "0 < rateLimitWait now reset" "rateLimitWait now reset \<le> gh_maxBackoff"
  by (auto simp: rateLimitWait_def Let_def gh_maxBackoff_def gh_minBackoff_def split: option.split)

lemma backoffFor_bounds: "0 < backoffFor n" "backoffFor n \<le> gh_maxBackoff"
  by (auto simp: backoffFor_def Let_def gh_maxBackoff_def gh_minBackoff_def)

lemma gh_attempts_events:
  "gh_attempts W w attempt left lastErr h = (r, h') \<Longrightarrow> \<exists>es. h' = h @ es \<and> sends es \<le> left \<and> reads_only (\<lambda>v. v = w) es"
proof (induction W w attempt left lastErr h rule: gh_attempts.induct)
  case (2 W w attempt left lastErr h)
  consider (stop) "h' = h @ [Sent w]"
    | (again) d e where "0 < d" "d \<le> gh_maxBackoff" "gh_attempts W w (attempt + 1) left e (h @ [Sent w, Slept d]) = (r, h')"
      "\<exists>es. h' = (h @ [Sent w, Slept d]) @ es \<and> sends es \<le> left \<and> reads_only (\<lambda>v. v = w) es"
  proof (cases "nw_send (gw_net W) h w")
    case (Inl e)
    then show thesis
      using 2 that(1) that(2)[of "backoffFor attempt" "GhFailed (''ghclient: request failed: '' @ e)"] backoffFor_bounds[of attempt]
      by (auto simp: Let_def split: if_splits)
  next
    case (Inr resp)
    show thesis
    proof (cases "readLimited gh_maxBodyBytes (an_Body resp)")
      case (Inl e)
      then show thesis using 2(3) that(1) Inr by (simp add: Let_def)
    next
      case body: (Inr body)
      let ?d = "rateLimitWait (gw_now W (h @ [Sent w]) 1) (rateLimitReset (gw_now W (h @ [Sent w]) 0) resp)"
      show thesis
      proof (cases "rateLimited resp \<and> attempt < gh_maxRetries")
        case True
        then have "gh_attempts W w (attempt + 1) left lastErr (h @ [Sent w, Slept ?d]) = (r, h')"
          using 2(3) Inr body by (simp add: Let_def)
        moreover have "\<exists>es. h' = (h @ [Sent w, Slept ?d]) @ es \<and> sends es \<le> left \<and> reads_only (\<lambda>v. v = w) es"
          using 2(2)[OF refl Inr body _ refl] True calculation by auto
        ultimately show thesis using that(2) rateLimitWait_bounds by blast
      next
        case False
        then show thesis using 2(3) that(1) Inr body by (auto simp: Let_def split: if_splits)
      qed
    qed
  qed
  then show ?case
  proof cases
    case stop
    then show ?thesis by (intro exI[of _ "[Sent w]"]) simp
  next
    case again
    from again(4) obtain es where "h' = h @ [Sent w, Slept d] @ es" "sends es \<le> left" "reads_only (\<lambda>v. v = w) es" by auto
    then show ?thesis using again(1,2) by (intro exI[of _ "Sent w # Slept d # es"]) simp
  qed
qed simp

lemma checked_events:
  assumes "checked W w h = (r, h')"
  obtains es where "h' = h @ es" "sends es \<le> gh_maxRetries + 1" "reads_only (\<lambda>v. v = w) es"
proof -
  obtain r1 where "doWithRetry W w h = (r1, h')" using assms by (auto simp: checked_def split: prod.splits sum.splits)
  then have "\<exists>es. h' = h @ es \<and> sends es \<le> gh_maxRetries + 1 \<and> reads_only (\<lambda>v. v = w) es"
    using gh_attempts_events by (fastforce simp: doWithRetry_def split: if_splits)
  then show thesis using that by blast
qed

definition listing_ok :: "int \<Rightarrow> int list \<Rightarrow> Identity list \<Rightarrow> bool" where
  "listing_ok mx seen out \<longleftrightarrow> set seen = gi_GitHubID ` set out \<and> distinct (map gi_GitHubID out) \<and> int (length out) \<le> mx"

lemma page_users_ok:
  "listing_ok mx seen out \<Longrightarrow> int (length out) < mx \<Longrightarrow> page_users mx us seen out = (seen', out') \<Longrightarrow> listing_ok mx seen' out'"
proof (induction us arbitrary: seen out)
  case (Cons u us)
  show ?case
  proof (cases "gu_ID u \<in> set seen")
    case True
    with Cons show ?thesis by auto
  next
    case False
    have "listing_ok mx (gu_ID u # seen) (out @ [toIdentity u])"
      using Cons.prems(1,2) False by (auto simp: listing_ok_def toIdentity_def)
    with Cons False show ?thesis by (auto simp: Let_def split: if_splits)
  qed
qed simp

lemma following_pages_ok:
  assumes "following_pages W c token mx pages url seen out h = (r, h')" and "listing_ok mx seen out"
  shows "\<exists>es. h' = h @ es \<and> sends es \<le> pages * (gh_maxRetries + 1)
    \<and> reads_only (\<lambda>v. wr_Method v = ''GET'' \<and> wr_Body v = None) es
    \<and> (\<forall>out'. r = Inr out' \<longrightarrow> distinct (map gi_GitHubID out') \<and> int (length out') \<le> mx)"
  using assms
proof (induction pages arbitrary: url seen out h)
  case 0
  then show ?case by (auto simp: listing_ok_def)
next
  case (Suc pages)
  let ?P = "\<lambda>v. wr_Method v = ''GET'' \<and> wr_Body v = None"
  show ?case
  proof (cases "url = '''' \<or> mx \<le> int (length out)")
    case True
    with Suc.prems show ?thesis by (auto simp: listing_ok_def)
  next
    case False
    obtain t h1 where call: "checked W (gh_get c token url) h = (t, h1)" by fastforce
    then obtain es where es: "h1 = h @ es" "sends es \<le> gh_maxRetries + 1" "reads_only (\<lambda>v. v = gh_get c token url) es"
      by (rule checked_events)
    have quiet: "reads_only ?P es" using es(3) by (auto simp: reads_only_def gh_get_def)
    show ?thesis
    proof (cases "\<exists>resp body us. t = Inr (resp, body) \<and> gw_users W body = Some us")
      case True
      then obtain resp body us where t: "t = Inr (resp, body)" "gw_users W body = Some us" by blast
      obtain seen' out' where p: "page_users mx us seen out = (seen', out')" by fastforce
      have "following_pages W c token mx pages (nextLink (get_header ''Link'' (an_Headers resp))) seen' out' h1 = (r, h')"
        using Suc.prems(1) False call t p by simp
      moreover have "listing_ok mx seen' out'" using page_users_ok[OF Suc.prems(2) _ p] False by simp
      ultimately obtain es' where es': "h' = h1 @ es'" "sends es' \<le> pages * (gh_maxRetries + 1)" "reads_only ?P es'"
        "\<forall>out'. r = Inr out' \<longrightarrow> distinct (map gi_GitHubID out') \<and> int (length out') \<le> mx" using Suc.IH by blast
      then show ?thesis using es quiet by (intro exI[of _ "es @ es'"]) simp
    next
      case no: False
      then have "h' = h1 \<and> isl r" using Suc.prems(1) False call by (cases t) (auto split: option.splits)
      then show ?thesis using es quiet by (intro exI[of _ es]) auto
    qed
  qed
qed

text \<open>C26. Reading whom an account follows ends, whatever GitHub answers, even with pages that link to themselves:
  it sends at most four hundred requests, all of them GET without a body, and pauses two seconds at most before a
  retry; the accounts it returns are distinct and no more than were asked for.\<close>

theorem following_bounded:
  assumes "gh_Following_call W c token mx h = (r, h')"
  shows "\<exists>es. h' = h @ es \<and> sends es \<le> 400 \<and> (\<forall>v. Sent v \<in> set es \<longrightarrow> wr_Method v = ''GET'' \<and> wr_Body v = None)
    \<and> (\<forall>d. Slept d \<in> set es \<longrightarrow> 0 < d \<and> d \<le> 2 * Second)
    \<and> (\<forall>out. r = Inr out \<longrightarrow> distinct (map gi_GitHubID out) \<and> int (length out) \<le> max 0 mx)"
proof (cases "mx \<le> 0")
  case True
  then show ?thesis using assms by (auto simp: gh_Following_call_def)
next
  case False
  then have "listing_ok mx [] []" by (simp add: listing_ok_def)
  from following_pages_ok[OF _ this] assms False show ?thesis
    by (fastforce simp: gh_Following_call_def maxFollowingPages_def gh_maxRetries_def reads_only_def gh_maxBackoff_def)
qed

definition wit_gh_user :: ghUser where
  "wit_gh_user = \<lparr>gu_ID = 7, gu_Login = ''maya'', gu_AvatarURL = '''', gu_HTMLURL = '''', gu_Type = ''User''\<rparr>"

definition wit_gh_world :: gh_world where
  "wit_gh_world =
    \<lparr>gw_net = \<lparr>nw_send = \<lambda>h w. Inr \<lparr>an_Status = 200, an_Headers = [], an_Body = Some ''[]''\<rparr>, nw_sleep = \<lambda>h d. None, nw_ctx = \<lambda>h. None\<rparr>,
     gw_now = \<lambda>h k. 0, gw_url = \<lambda>u. True, gw_users = \<lambda>b. Some [wit_gh_user, wit_gh_user], gw_user = \<lambda>b. None, gw_token = \<lambda>b. None,
     gw_device = \<lambda>b. None, gw_message = \<lambda>b. None\<rparr>"

theorem following_bounded_witness:
  "case gh_Following_call wit_gh_world (New_ghclient \<lparr>go_BaseURL = '''', go_UserAgent = ''''\<rparr>) ''t'' 10 [] of
     (r, h') \<Rightarrow> r = Inr [toIdentity wit_gh_user] \<and> sends h' = 1 \<and> sends h' \<le> 400"
proof -
  let ?c = "New_ghclient \<lparr>go_BaseURL = '''', go_UserAgent = ''''\<rparr>"
  obtain r h' where call: "gh_Following_call wit_gh_world ?c ''t'' 10 [] = (r, h')" by fastforce
  have small: "readLimited gh_maxBodyBytes (Some ''[]'') = Inr ''[]''" by (simp add: readLimited_def gh_maxBodyBytes_def)
  have one: "checked wit_gh_world w [] = (Inr (\<lparr>an_Status = 200, an_Headers = [], an_Body = Some ''[]''\<rparr>, ''[]''), [Sent w])" for w
    by (simp add: checked_def doWithRetry_def wit_gh_world_def small rateLimited_def classify_def Let_def)
  have stop: "following_pages W c t mx n '''' seen out h = (Inr out, h)" for W c t mx n seen out h
    by (cases n) simp_all
  have page: "page_users 10 [wit_gh_user, wit_gh_user] [] [] = ([7], [toIdentity wit_gh_user])"
    by (simp add: wit_gh_user_def)
  have us: "gw_users wit_gh_world b = Some [wit_gh_user, wit_gh_user]" for b by (simp add: wit_gh_world_def)
  have hundred: "(100::nat) = Suc 99" by simp
  have "following_pages wit_gh_world ?c ''t'' 10 100 (u # url) [] [] [] = (Inr [toIdentity wit_gh_user], [Sent (gh_get ?c ''t'' (u # url))])" for u url
    unfolding hundred following_pages.simps by (simp add: one us page stop get_header_def)
  from this[of "CHR ''h''" "''ttps://api.github.com/user/following?per_page='' @ decimal followingPerPage"]
  have "r = Inr [toIdentity wit_gh_user] \<and> sends h' = 1"
    using call by (auto simp: gh_Following_call_def maxFollowingPages_def New_ghclient_def DefaultAPIBaseURL_def simp del: following_pages.simps)
  then show ?thesis using following_bounded[OF call] call by auto
qed

text \<open>An authorization code is sent once, whatever happens.\<close>

theorem code_sent_once:
  assumes "ExchangeCode_call W c i s code uri v h = (r, h')"
  shows "\<exists>es. h' = h @ es \<and> sends es \<le> 1"
proof -
  have "\<exists>es. h1 = h @ es \<and> sends es \<le> 1" if "form_post W c p form h = (r1, h1)" for p form r1 h1
    using that by (auto simp: form_post_def Let_def split: if_splits)
  then show ?thesis using assms by (fastforce simp: ExchangeCode_call_def split: prod.splits sum.splits)
qed

end
