(* ===== verification/Credstore.thy ===== *)
theory Credstore
  imports ServiceConfig "HOL-Library.AList"
begin

unbundle bit_operations_syntax

text \<open>
  Where the command line keeps its session tokens: \<^verbatim>\<open>src/internal/credstore\<close>.  Both backends
  promise the same, the locale \<open>credential_store\<close>; the file backend interprets it, and what it leaves on
  the disk when it is interrupted is followed state by state.  The library behind the operating system's
  keyring is a parameter.
\<close>

section \<open>Credentials\<close>

record Credential =
  cd_ServiceURL :: string
  cd_Token :: string
  cd_Login :: string
  cd_UserID :: int
  cd_StoredAt :: time

datatype cred_error = CredNotFound | CredFailed string

text \<open>What a file or a keyring entry holds: the whole JSON text of a value, the first bytes of it, or bytes
  that are no JSON of the type that is read.  A JSON \<open>null\<close> reads as \<open>None\<close>.\<close>

datatype json = CredMap "(string \<times> Credential) list option" | Urls "string list option" | OneCred Credential

datatype content = Doc json | Cut nat json | Other string

fun no_bytes :: "content \<Rightarrow> bool" where
  "no_bytes (Doc x) = False"
| "no_bytes (Cut n x) = (n = 0)"
| "no_bytes (Other s) = (s = '''')"

section \<open>The disk\<close>

record entry =
  en_Content :: content
  en_Mode :: int

record disk =
  dk_dir :: "int option"
  dk_files :: "string \<Rightarrow> entry option"

text \<open>A system call answers as \<open>os\<close> says, and the states of the disk are kept, the present one first.  A
  write may be refused or stop after some bytes; \<open>os_len\<close> is the length of a JSON text.\<close>

datatype write_fault = NoFault | Refused | StopsAfter nat

record os =
  os_mkdir :: bool
  os_chmod :: "string \<Rightarrow> bool"
  os_read :: "string \<Rightarrow> bool"
  os_write :: "string \<Rightarrow> write_fault"
  os_rename :: "string \<Rightarrow> bool"
  os_umask :: int
  os_len :: "json \<Rightarrow> nat"
  os_getenv :: "string \<Rightarrow> string"
  os_home :: "string option"

type_synonym disks = "disk list"

type_synonym 'a io = "disks \<Rightarrow> (cred_error + 'a) \<times> disks"

definition put_file :: "string \<Rightarrow> entry option \<Rightarrow> disk \<Rightarrow> disk" where
  "put_file p e d = d\<lparr>dk_files := (dk_files d)(p := e)\<rparr>"

text \<open>\<^verbatim>\<open>os.WriteFile\<close> truncates, a new file gets the mode less the umask, and the bytes arrive one
  after the other.\<close>

definition write_states :: "os \<Rightarrow> string \<Rightarrow> json \<Rightarrow> int \<Rightarrow> nat \<Rightarrow> disk \<Rightarrow> disks" where
  "write_states sys p x perm n d =
    (let mode = (case dk_files d p of Some e \<Rightarrow> en_Mode e | None \<Rightarrow> perm AND NOT (os_umask sys)) in
     rev (map (\<lambda>k. put_file p (Some \<lparr>en_Content = (if k < os_len sys x then Cut k x else Doc x), en_Mode = mode\<rparr>) d) [0..<Suc n]))"

definition WriteFile :: "os \<Rightarrow> string \<Rightarrow> json \<Rightarrow> int \<Rightarrow> disks \<Rightarrow> bool \<times> disks" where
  "WriteFile sys p x perm ds =
    (case os_write sys p of
       Refused \<Rightarrow> (False, ds)
     | StopsAfter n \<Rightarrow> (False, write_states sys p x perm (min n (os_len sys x)) (hd ds) @ ds)
     | NoFault \<Rightarrow> (True, write_states sys p x perm (os_len sys x) (hd ds) @ ds))"

definition Chmod :: "os \<Rightarrow> string \<Rightarrow> int \<Rightarrow> disks \<Rightarrow> bool \<times> disks" where
  "Chmod sys p perm ds =
    (if os_chmod sys p then
       (True, put_file p (map_option (en_Mode_update (\<lambda>_. perm)) (dk_files (hd ds) p)) (hd ds) # ds)
     else (False, ds))"

definition Rename :: "os \<Rightarrow> string \<Rightarrow> string \<Rightarrow> disks \<Rightarrow> bool \<times> disks" where
  "Rename sys a b ds =
    (if os_rename sys a then (True, put_file a None (put_file b (dk_files (hd ds) a) (hd ds)) # ds) else (False, ds))"

definition Remove :: "string \<Rightarrow> disks \<Rightarrow> disks" where "Remove p ds = put_file p None (hd ds) # ds"

section \<open>The file backend\<close>

definition configDir :: "os \<Rightarrow> cred_error + string" where
  "configDir sys =
    (let xdg = os_getenv sys ''XDG_CONFIG_HOME'' in
     if xdg \<noteq> '''' then Inr (xdg @ ''/gh-stories'')
     else (case os_home sys of
         None \<Rightarrow> Inl (CredFailed ''credstore: could not determine home directory'')
       | Some home \<Rightarrow> Inr (home @ ''/.config/gh-stories'')))"

text \<open>Modes: \<open>0o700\<close> and \<open>0o600\<close>.\<close>

definition dir_mode :: int where "dir_mode = 448"

definition file_mode :: int where "file_mode = 384"

definition openFileStoreDir :: "os \<Rightarrow> string \<Rightarrow> string io" where
  "openFileStoreDir sys dir ds =
    (if \<not> os_mkdir sys then (Inl (CredFailed ''credstore: create config directory''), ds)
     else (let made = (case dk_dir (hd ds) of None \<Rightarrow> (hd ds)\<lparr>dk_dir := Some (dir_mode AND NOT (os_umask sys))\<rparr> | Some m \<Rightarrow> hd ds);
               ds = made # ds in
       if \<not> os_chmod sys dir then (Inl (CredFailed ''credstore: restrict config directory permissions''), ds)
       else (Inr (dir @ ''/credentials.json''), (hd ds)\<lparr>dk_dir := Some dir_mode\<rparr> # ds)))"

definition newFileStore :: "os \<Rightarrow> string io" where
  "newFileStore sys ds = (case configDir sys of Inl e \<Rightarrow> (Inl e, ds) | Inr dir \<Rightarrow> openFileStoreDir sys dir ds)"

definition readAll :: "os \<Rightarrow> string \<Rightarrow> disk \<Rightarrow> cred_error + (string \<times> Credential) list" where
  "readAll sys p d =
    (case dk_files d p of
       None \<Rightarrow> Inr []
     | Some e \<Rightarrow>
         if \<not> os_read sys p then Inl (CredFailed ''credstore: read credentials file'')
         else if no_bytes (en_Content e) then Inr []
         else (case en_Content e of
             Doc (CredMap m) \<Rightarrow> Inr (case m of None \<Rightarrow> [] | Some all \<Rightarrow> all)
           | _ \<Rightarrow> Inl (CredFailed ''credstore: credentials file is corrupt'')))"

definition writeAll :: "os \<Rightarrow> string \<Rightarrow> (string \<times> Credential) list \<Rightarrow> unit io" where
  "writeAll sys p all ds =
    (let tmp = p @ ''.tmp'' in
     case WriteFile sys tmp (CredMap (Some all)) file_mode ds of
       (False, ds) \<Rightarrow> (Inl (CredFailed ''credstore: write credentials file''), ds)
     | (True, ds) \<Rightarrow>
         (case Chmod sys tmp file_mode ds of
            (False, ds) \<Rightarrow> (Inl (CredFailed ''credstore: restrict credentials file permissions''), Remove tmp ds)
          | (True, ds) \<Rightarrow>
              (case Rename sys tmp p ds of
                 (False, ds) \<Rightarrow> (Inl (CredFailed ''credstore: replace credentials file''), Remove tmp ds)
               | (True, ds) \<Rightarrow> (Inr (), ds))))"

definition file_Load :: "os \<Rightarrow> string \<Rightarrow> disks \<Rightarrow> string \<Rightarrow> cred_error + Credential" where
  "file_Load sys p ds serviceURL =
    (case readAll sys p (hd ds) of
       Inl e \<Rightarrow> Inl e
     | Inr all \<Rightarrow> (case map_of all serviceURL of None \<Rightarrow> Inl CredNotFound | Some c \<Rightarrow> Inr c))"

definition file_Save :: "os \<Rightarrow> string \<Rightarrow> Credential \<Rightarrow> unit io" where
  "file_Save sys p cred ds =
    (case readAll sys p (hd ds) of
       Inl e \<Rightarrow> (Inl e, ds)
     | Inr all \<Rightarrow> writeAll sys p (AList.update (cd_ServiceURL cred) cred all) ds)"

definition file_Delete :: "os \<Rightarrow> string \<Rightarrow> string \<Rightarrow> unit io" where
  "file_Delete sys p serviceURL ds =
    (case readAll sys p (hd ds) of
       Inl e \<Rightarrow> (Inl e, ds)
     | Inr all \<Rightarrow> if map_of all serviceURL = None then (Inr (), ds) else writeAll sys p (AList.delete serviceURL all) ds)"

text \<open>The order of the result is that of the map, which Go does not fix.\<close>

definition file_List :: "os \<Rightarrow> string \<Rightarrow> disks \<Rightarrow> cred_error + Credential list" where
  "file_List sys p ds = (case readAll sys p (hd ds) of Inl e \<Rightarrow> Inl e | Inr all \<Rightarrow> Inr (map snd all))"

section \<open>The keyring backend\<close>

text \<open>The calls of the keyring library on its own state.\<close>

datatype keyring_error = KeyringNotFound | KeyringFailed string

record 'k keyring =
  kr_Set :: "string \<Rightarrow> string \<Rightarrow> content \<Rightarrow> 'k \<Rightarrow> keyring_error option \<times> 'k"
  kr_Get :: "string \<Rightarrow> string \<Rightarrow> 'k \<Rightarrow> keyring_error + content"
  kr_Delete :: "string \<Rightarrow> string \<Rightarrow> 'k \<Rightarrow> keyring_error option \<times> 'k"

definition keyringService :: string where "keyringService = ''gh-stories''"

definition keyringProbeAccount :: string where "keyringProbeAccount = ''__gh-stories-probe__''"

definition probe :: "'k keyring \<Rightarrow> 'k \<Rightarrow> bool \<times> 'k" where
  "probe kr k =
    (case kr_Set kr keyringService keyringProbeAccount (Other ''probe'') k of
       (Some e, k) \<Rightarrow> (False, k)
     | (None, k) \<Rightarrow>
         (let got = kr_Get kr keyringService keyringProbeAccount k in
          (\<not> isl got, snd (kr_Delete kr keyringService keyringProbeAccount k))))"

definition newKeyringStore :: "os \<Rightarrow> 'k keyring \<Rightarrow> 'k \<times> disks \<Rightarrow> string option \<times> 'k \<times> disks" where
  "newKeyringStore sys kr s =
    (case s of (k, ds) \<Rightarrow>
     (case configDir sys of
        Inl e \<Rightarrow> (None, k, ds)
      | Inr dir \<Rightarrow>
          if \<not> os_mkdir sys then (None, k, ds)
          else (let made = (case dk_dir (hd ds) of None \<Rightarrow> (hd ds)\<lparr>dk_dir := Some (dir_mode AND NOT (os_umask sys))\<rparr> | Some m \<Rightarrow> hd ds);
                    now = (if os_chmod sys dir then made\<lparr>dk_dir := Some dir_mode\<rparr> else made);
                    (works, k) = probe kr k in
             (if works then Some (dir @ ''/index.json'') else None, k, now # made # ds))))"

definition ring_Load :: "'k keyring \<Rightarrow> 'k \<times> disks \<Rightarrow> string \<Rightarrow> cred_error + Credential" where
  "ring_Load kr s serviceURL =
    (case kr_Get kr keyringService serviceURL (fst s) of
       Inl KeyringNotFound \<Rightarrow> Inl CredNotFound
     | Inl (KeyringFailed e) \<Rightarrow> Inl (CredFailed (''credstore: read from OS keyring: '' @ e))
     | Inr (Doc (OneCred c)) \<Rightarrow> Inr c
     | Inr _ \<Rightarrow> Inl (CredFailed ''credstore: stored credential is corrupt''))"

definition readIndex :: "os \<Rightarrow> string \<Rightarrow> disk \<Rightarrow> cred_error + string list" where
  "readIndex sys p d =
    (case dk_files d p of
       None \<Rightarrow> Inr []
     | Some e \<Rightarrow>
         if \<not> os_read sys p then Inl (CredFailed ''credstore: read service index'')
         else if no_bytes (en_Content e) then Inr []
         else (case en_Content e of
             Doc (Urls us) \<Rightarrow> Inr (case us of None \<Rightarrow> [] | Some us \<Rightarrow> us)
           | _ \<Rightarrow> Inl (CredFailed ''credstore: service index is corrupt'')))"

definition writeIndex :: "os \<Rightarrow> string \<Rightarrow> string list \<Rightarrow> unit io" where
  "writeIndex sys p urls ds =
    (let tmp = p @ ''.tmp'' in
     case WriteFile sys tmp (Urls (Some urls)) file_mode ds of
       (False, ds) \<Rightarrow> (Inl (CredFailed ''credstore: write service index''), ds)
     | (True, ds) \<Rightarrow>
         (case Rename sys tmp p ds of
            (False, ds) \<Rightarrow> (Inl (CredFailed ''credstore: replace service index''), Remove tmp ds)
          | (True, ds) \<Rightarrow> (Inr (), ds)))"

definition indexAdd :: "os \<Rightarrow> string \<Rightarrow> string \<Rightarrow> unit io" where
  "indexAdd sys p serviceURL ds =
    (case readIndex sys p (hd ds) of
       Inl e \<Rightarrow> (Inl e, ds)
     | Inr urls \<Rightarrow> if serviceURL \<in> set urls then (Inr (), ds) else writeIndex sys p (urls @ [serviceURL]) ds)"

definition indexRemove :: "os \<Rightarrow> string \<Rightarrow> string \<Rightarrow> unit io" where
  "indexRemove sys p serviceURL ds =
    (case readIndex sys p (hd ds) of
       Inl e \<Rightarrow> (Inl e, ds)
     | Inr urls \<Rightarrow> writeIndex sys p (filter (\<lambda>u. u \<noteq> serviceURL) urls) ds)"

definition keyring_text :: "keyring_error \<Rightarrow> string" where
  "keyring_text e = (case e of KeyringNotFound \<Rightarrow> ''secret not found in keyring'' | KeyringFailed s \<Rightarrow> s)"

definition ring_Save :: "os \<Rightarrow> 'k keyring \<Rightarrow> string \<Rightarrow> Credential \<Rightarrow> 'k \<times> disks \<Rightarrow> (cred_error + unit) \<times> 'k \<times> disks" where
  "ring_Save sys kr p cred s =
    (case s of (k, ds) \<Rightarrow>
     (case kr_Set kr keyringService (cd_ServiceURL cred) (Doc (OneCred cred)) k of
        (Some e, k) \<Rightarrow> (Inl (CredFailed (''credstore: write to OS keyring: '' @ keyring_text e)), k, ds)
      | (None, k) \<Rightarrow> (case indexAdd sys p (cd_ServiceURL cred) ds of (r, ds) \<Rightarrow> (r, k, ds))))"

definition ring_Delete :: "os \<Rightarrow> 'k keyring \<Rightarrow> string \<Rightarrow> string \<Rightarrow> 'k \<times> disks \<Rightarrow> (cred_error + unit) \<times> 'k \<times> disks" where
  "ring_Delete sys kr p serviceURL s =
    (case s of (k, ds) \<Rightarrow>
     (case kr_Delete kr keyringService serviceURL k of
        (Some (KeyringFailed e), k) \<Rightarrow> (Inl (CredFailed (''credstore: delete from OS keyring: '' @ e)), k, ds)
      | (_, k) \<Rightarrow> (case indexRemove sys p serviceURL ds of (r, ds) \<Rightarrow> (r, k, ds))))"

fun ring_collect :: "'k keyring \<Rightarrow> 'k \<times> disks \<Rightarrow> string list \<Rightarrow> cred_error + Credential list" where
  "ring_collect kr s [] = Inr []"
| "ring_collect kr s (u # us) =
    (case ring_Load kr s u of
       Inl CredNotFound \<Rightarrow> ring_collect kr s us
     | Inl e \<Rightarrow> Inl e
     | Inr c \<Rightarrow> (case ring_collect kr s us of Inl e \<Rightarrow> Inl e | Inr cs \<Rightarrow> Inr (c # cs)))"

definition ring_List :: "os \<Rightarrow> 'k keyring \<Rightarrow> string \<Rightarrow> 'k \<times> disks \<Rightarrow> cred_error + Credential list" where
  "ring_List sys kr p s = (case readIndex sys p (hd (snd s)) of Inl e \<Rightarrow> Inl e | Inr us \<Rightarrow> ring_collect kr s us)"

section \<open>The store in use\<close>

datatype Store = FileStore string | KeyringStore string

fun Backend :: "Store \<Rightarrow> string" where
  "Backend (FileStore p) = ''file''"
| "Backend (KeyringStore p) = ''keyring''"

definition EnvBackend :: string where "EnvBackend = ''GHS_CREDENTIAL_STORE''"

definition open_file :: "os \<Rightarrow> 'k \<times> disks \<Rightarrow> (cred_error + Store) \<times> 'k \<times> disks" where
  "open_file sys s = (case newFileStore sys (snd s) of (Inl e, ds) \<Rightarrow> (Inl e, fst s, ds) | (Inr p, ds) \<Rightarrow> (Inr (FileStore p), fst s, ds))"

definition Open :: "os \<Rightarrow> 'k keyring \<Rightarrow> 'k \<times> disks \<Rightarrow> (cred_error + Store) \<times> 'k \<times> disks" where
  "Open sys kr s =
    (let choice = lower (TrimSpace (os_getenv sys EnvBackend)) in
     if choice = ''file'' then open_file sys s
     else if choice = ''keyring'' then
       (case newKeyringStore sys kr s of
          (None, s) \<Rightarrow> (Inl (CredFailed (EnvBackend @ ''=keyring was requested but no OS credential store is available'')), s)
        | (Some p, s) \<Rightarrow> (Inr (KeyringStore p), s))
     else
       (case newKeyringStore sys kr s of
          (Some p, s) \<Rightarrow> (Inr (KeyringStore p), s)
        | (None, s) \<Rightarrow> open_file sys s))"

definition store_Load :: "os \<Rightarrow> 'k keyring \<Rightarrow> Store \<Rightarrow> 'k \<times> disks \<Rightarrow> string \<Rightarrow> cred_error + Credential" where
  "store_Load sys kr st s u = (case st of FileStore p \<Rightarrow> file_Load sys p (snd s) u | KeyringStore p \<Rightarrow> ring_Load kr s u)"

definition store_Save :: "os \<Rightarrow> 'k keyring \<Rightarrow> Store \<Rightarrow> Credential \<Rightarrow> 'k \<times> disks \<Rightarrow> (cred_error + unit) \<times> 'k \<times> disks" where
  "store_Save sys kr st c s =
    (case st of FileStore p \<Rightarrow> (case file_Save sys p c (snd s) of (r, ds) \<Rightarrow> (r, fst s, ds)) | KeyringStore p \<Rightarrow> ring_Save sys kr p c s)"

definition store_Delete :: "os \<Rightarrow> 'k keyring \<Rightarrow> Store \<Rightarrow> string \<Rightarrow> 'k \<times> disks \<Rightarrow> (cred_error + unit) \<times> 'k \<times> disks" where
  "store_Delete sys kr st u s =
    (case st of FileStore p \<Rightarrow> (case file_Delete sys p u (snd s) of (r, ds) \<Rightarrow> (r, fst s, ds)) | KeyringStore p \<Rightarrow> ring_Delete sys kr p u s)"

section \<open>What a store promises\<close>

datatype store_op = SaveOp Credential | DeleteOp string

fun spec_op :: "store_op \<Rightarrow> (string \<rightharpoonup> Credential) \<Rightarrow> (string \<rightharpoonup> Credential)" where
  "spec_op (SaveOp c) m = m(cd_ServiceURL c \<mapsto> c)"
| "spec_op (DeleteOp u) m = m(u := None)"

locale credential_store =
  fixes load :: "'s \<Rightarrow> string \<Rightarrow> cred_error + Credential"
    and save :: "Credential \<Rightarrow> 's \<Rightarrow> (cred_error + unit) \<times> 's"
    and del :: "string \<Rightarrow> 's \<Rightarrow> (cred_error + unit) \<times> 's"
    and listing :: "'s \<Rightarrow> cred_error + Credential list"
    and ok :: "'s \<Rightarrow> bool"
  assumes save_stores: "ok s \<Longrightarrow> save c s = (Inr x, s') \<Longrightarrow>
      ok s' \<and> load s' u = (if u = cd_ServiceURL c then Inr c else load s u)"
    and save_fails: "ok s \<Longrightarrow> save c s = (Inl e, s') \<Longrightarrow> ok s' \<and> load s' u = load s u"
    and del_removes: "ok s \<Longrightarrow> del v s = (Inr x, s') \<Longrightarrow>
      ok s' \<and> load s' u = (if u = v then Inl CredNotFound else load s u)"
    and del_fails: "ok s \<Longrightarrow> del v s = (Inl e, s') \<Longrightarrow> ok s' \<and> load s' u = load s u"
    and listing_loads: "ok s \<Longrightarrow> listing s = Inr cs \<Longrightarrow> c \<in> set cs \<longleftrightarrow> (\<exists>u. load s u = Inr c)"
begin

fun op_of :: "store_op \<Rightarrow> 's \<Rightarrow> (cred_error + unit) \<times> 's" where
  "op_of (SaveOp c) s = save c s"
| "op_of (DeleteOp u) s = del u s"

text \<open>A store answers as a map whose updates are the operations that succeeded.\<close>

fun after_ops :: "store_op list \<Rightarrow> 's \<Rightarrow> store_op list \<times> 's" where
  "after_ops [] s = ([], s)"
| "after_ops (a # as) s =
    (case op_of a s of
       (Inl e, s) \<Rightarrow> after_ops as s
     | (Inr x, s) \<Rightarrow> (case after_ops as s of (took, s) \<Rightarrow> (a # took, s)))"

lemma op_of_spec:
  assumes "ok s" and m: "\<And>u. load s u = (case m u of None \<Rightarrow> Inl CredNotFound | Some c \<Rightarrow> Inr c)" and "op_of a s = (Inr x, s')"
  shows "ok s' \<and> load s' u = (case spec_op a m u of None \<Rightarrow> Inl CredNotFound | Some c \<Rightarrow> Inr c)"
proof (cases a)
  case (SaveOp c)
  with assms have "save c s = (Inr x, s')" by simp
  from save_stores[OF assms(1) this] m SaveOp show ?thesis by simp
next
  case (DeleteOp v)
  with assms have "del v s = (Inr x, s')" by simp
  from del_removes[OF assms(1) this] m DeleteOp show ?thesis by simp
qed

lemma op_of_fails: "ok s \<Longrightarrow> op_of a s = (Inl e, s') \<Longrightarrow> ok s' \<and> load s' u = load s u"
proof (cases a)
  case (SaveOp c)
  assume "ok s" "op_of a s = (Inl e, s')"
  with SaveOp show ?thesis using save_fails[of s c e s' u] by simp
next
  case (DeleteOp v)
  assume "ok s" "op_of a s = (Inl e, s')"
  with DeleteOp show ?thesis using del_fails[of s v e s' u] by simp
qed

theorem stores_are_maps:
  assumes "ok s" and "\<And>u. load s u = (case m u of None \<Rightarrow> Inl CredNotFound | Some c \<Rightarrow> Inr c)"
    and "after_ops as s = (took, s')"
  shows "ok s' \<and> load s' u = (case fold spec_op took m u of None \<Rightarrow> Inl CredNotFound | Some c \<Rightarrow> Inr c)"
  using assms
proof (induction as arbitrary: s m took)
  case (Cons a as)
  show ?case
  proof (cases "op_of a s")
    case (Pair r s1)
    show ?thesis
    proof (cases r)
      case (Inl e)
      with Cons.prems Pair have "after_ops as s1 = (took, s')" "ok s1" "\<And>u. load s1 u = load s u" using op_of_fails[OF Cons.prems(1), of a e s1] by auto
      then show ?thesis using Cons.IH[of s1 m took] Cons.prems(2) by simp
    next
      case (Inr x)
      with Cons.prems(3) Pair obtain took' where t: "after_ops as s1 = (took', s')" "took = a # took'" by (auto split: prod.splits)
      have "ok s1" "\<And>u. load s1 u = (case spec_op a m u of None \<Rightarrow> Inl CredNotFound | Some c \<Rightarrow> Inr c)"
        using op_of_spec[OF Cons.prems(1,2)] Pair Inr by blast+
      from Cons.IH[OF this t(1)] t(2) show ?thesis by simp
    qed
  qed
qed auto

end

section \<open>The file backend keeps the promise\<close>

definition credentials_file :: "(string \<times> Credential) list \<Rightarrow> entry" where
  "credentials_file all = \<lparr>en_Content = Doc (CredMap (Some all)), en_Mode = file_mode\<rparr>"

definition owner_only :: "entry \<Rightarrow> bool" where "owner_only e \<longleftrightarrow> en_Mode e AND 63 = 0"

text \<open>A disk that differs from another only by the file of credentials, which is the old or the new one,
  and by its temporary copy, which only its owner can read.\<close>

definition between :: "string \<Rightarrow> entry \<Rightarrow> disk \<Rightarrow> disk \<Rightarrow> bool" where
  "between p new d0 d \<longleftrightarrow>
    (dk_files d p = dk_files d0 p \<or> dk_files d p = Some new)
    \<and> (\<forall>q. q \<noteq> p \<and> q \<noteq> p @ ''.tmp'' \<longrightarrow> dk_files d q = dk_files d0 q)
    \<and> (\<forall>e. dk_files d (p @ ''.tmp'') = Some e \<longrightarrow> owner_only e)"

definition tmp_private :: "string \<Rightarrow> disk \<Rightarrow> bool" where
  "tmp_private p d \<longleftrightarrow> (\<forall>e. dk_files d (p @ ''.tmp'') = Some e \<longrightarrow> owner_only e)"

lemma file_of_put [simp]: "dk_files (put_file p e d) q = (if q = p then e else dk_files d q)"
  by (simp add: put_file_def)

lemma private_masked: "(file_mode AND NOT m) AND 63 = 0"
proof -
  have "(file_mode AND NOT m) AND 63 = (file_mode AND 63) AND NOT m" by (metis and.assoc and.commute)
  then show ?thesis by (simp add: file_mode_def)
qed

lemma owner_only_file [simp]: "owner_only (credentials_file all)"
  by (simp add: owner_only_def credentials_file_def file_mode_def)

lemma write_states_between:
  assumes "tmp_private p d" and "e \<in> set (write_states sys (p @ ''.tmp'') x file_mode n d)"
  shows "between p new d e \<and> dk_files e p = dk_files d p \<and> tmp_private p e"
  using assms private_masked[of "os_umask sys"]
  by (auto simp: write_states_def Let_def between_def tmp_private_def owner_only_def split: option.splits)

lemma write_states_hd: "hd (write_states sys q x m n d @ ds) =
    put_file q (Some \<lparr>en_Content = (if n < os_len sys x then Cut n x else Doc x),
      en_Mode = (case dk_files d q of Some e \<Rightarrow> en_Mode e | None \<Rightarrow> m AND NOT (os_umask sys))\<rparr>) d"
  by (simp add: write_states_def Let_def)

lemma write_states_nonempty [simp]: "write_states sys q x m n d \<noteq> []"
  by (simp add: write_states_def Let_def)

lemma writeAll_states:
  assumes "tmp_private p (hd ds)" and "ds \<noteq> []" and "writeAll sys p all ds = (r, ds')"
  shows "\<exists>pre. ds' = pre @ ds \<and> (\<forall>d\<in>set pre. between p (credentials_file all) (hd ds) d)
    \<and> dk_files (hd ds') p = (if isl r then dk_files (hd ds) p else Some (credentials_file all))"
proof -
  let ?tmp = "p @ ''.tmp''" and ?x = "CredMap (Some all)"
  let ?w = "write_states sys ?tmp ?x file_mode"
  note b = write_states_between[OF assms(1)]
  show ?thesis
  proof (cases "os_write sys ?tmp")
    case NoFault
    let ?ds1 = "?w (os_len sys ?x) (hd ds) @ ds"
    have h1: "dk_files (hd ?ds1) p = dk_files (hd ds) p" and f1: "\<exists>m. dk_files (hd ?ds1) ?tmp = Some \<lparr>en_Content = Doc ?x, en_Mode = m\<rparr>"
      and o1: "\<And>q. q \<noteq> ?tmp \<Longrightarrow> dk_files (hd ?ds1) q = dk_files (hd ds) q"
      by (simp_all add: write_states_hd)
    obtain m where m: "dk_files (hd ?ds1) ?tmp = Some \<lparr>en_Content = Doc ?x, en_Mode = m\<rparr>" using f1 by blast
    define ds2 where "ds2 = put_file ?tmp (map_option (en_Mode_update (\<lambda>_. file_mode)) (dk_files (hd ?ds1) ?tmp)) (hd ?ds1) # ?ds1"
    have f2: "dk_files (hd ds2) ?tmp = Some (credentials_file all)" "\<And>q. q \<noteq> ?tmp \<Longrightarrow> dk_files (hd ds2) q = dk_files (hd ds) q"
      using m o1 by (simp_all add: ds2_def credentials_file_def)
    have b2: "between p (credentials_file all) (hd ds) (hd ds2)" using f2 by (auto simp: between_def)
    have w: "WriteFile sys ?tmp ?x file_mode ds = (True, ?ds1)" by (simp add: WriteFile_def NoFault)
    consider (chmod) "\<not> os_chmod sys ?tmp" | (rename) "os_chmod sys ?tmp" "\<not> os_rename sys ?tmp" | (fine) "os_chmod sys ?tmp" "os_rename sys ?tmp"
      by blast
    then show ?thesis
    proof cases
      case chmod
      then have "r = Inl (CredFailed ''credstore: restrict credentials file permissions'')" "ds' = Remove ?tmp ?ds1"
        using assms(3) w by (simp_all add: writeAll_def Chmod_def Let_def)
      then show ?thesis using b h1 o1
        by (intro exI[of _ "put_file ?tmp None (hd ?ds1) # ?w (os_len sys ?x) (hd ds)"]) (auto simp: Remove_def between_def)
    next
      case rename
      then have "r = Inl (CredFailed ''credstore: replace credentials file'')" "ds' = Remove ?tmp ds2"
        using assms(3) w by (simp_all add: writeAll_def Chmod_def Rename_def Let_def ds2_def)
      then show ?thesis using b b2 f2
        by (intro exI[of _ "put_file ?tmp None (hd ds2) # hd ds2 # ?w (os_len sys ?x) (hd ds)"]) (auto simp: Remove_def between_def ds2_def)
    next
      case fine
      then have "r = Inr ()" "ds' = put_file ?tmp None (put_file p (dk_files (hd ds2) ?tmp) (hd ds2)) # ds2"
        using assms(3) w by (simp_all add: writeAll_def Chmod_def Rename_def Let_def ds2_def)
      then show ?thesis using b b2 f2
        by (intro exI[of _ "put_file ?tmp None (put_file p (dk_files (hd ds2) ?tmp) (hd ds2)) # hd ds2 # ?w (os_len sys ?x) (hd ds)"])
          (auto simp: between_def ds2_def)
    qed
  next
    case Refused
    then show ?thesis using assms(3) by (auto simp: writeAll_def WriteFile_def Let_def)
  next
    case (StopsAfter n)
    then have "r = Inl (CredFailed ''credstore: write credentials file'')" "ds' = ?w (min n (os_len sys ?x)) (hd ds) @ ds"
      using assms(3) by (simp_all add: writeAll_def WriteFile_def Let_def)
    then show ?thesis using b by (intro exI[of _ "?w (min n (os_len sys ?x)) (hd ds)"]) (auto simp: write_states_hd)
  qed
qed

text \<open>The file can be read, its keys are distinct as those of a decoded map are, and a temporary copy left
  behind is private.\<close>

definition file_ok :: "os \<Rightarrow> string \<Rightarrow> disks \<Rightarrow> bool" where
  "file_ok sys p ds \<longleftrightarrow> os_read sys p \<and> ds \<noteq> [] \<and> tmp_private p (hd ds)
    \<and> (\<forall>all. readAll sys p (hd ds) = Inr all \<longrightarrow> distinct (map fst all))"

lemma readAll_same: "dk_files d p = dk_files d' p \<Longrightarrow> readAll sys p d = readAll sys p d'"
  by (simp add: readAll_def)

lemma readAll_new: "os_read sys p \<Longrightarrow> dk_files d p = Some (credentials_file all) \<Longrightarrow> readAll sys p d = Inr all"
  by (simp add: readAll_def credentials_file_def)

definition loaded :: "cred_error + (string \<times> Credential) list \<Rightarrow> string \<Rightarrow> cred_error + Credential" where
  "loaded r u = (case r of Inl e \<Rightarrow> Inl e | Inr all \<Rightarrow> (case map_of all u of None \<Rightarrow> Inl CredNotFound | Some c \<Rightarrow> Inr c))"

lemma file_Load_loaded: "file_Load sys p ds = loaded (readAll sys p (hd ds))"
  by (rule ext) (simp add: file_Load_def loaded_def)

text \<open>What a store answers after an operation, given what it answered before.\<close>

fun answer_after :: "store_op \<Rightarrow> (string \<Rightarrow> cred_error + Credential) \<Rightarrow> string \<Rightarrow> cred_error + Credential" where
  "answer_after (SaveOp c) ans u = (if u = cd_ServiceURL c then Inr c else ans u)"
| "answer_after (DeleteOp v) ans u = (if u = v then Inl CredNotFound else ans u)"

fun file_op :: "os \<Rightarrow> string \<Rightarrow> store_op \<Rightarrow> unit io" where
  "file_op sys p (SaveOp c) ds = file_Save sys p c ds"
| "file_op sys p (DeleteOp v) ds = file_Delete sys p v ds"

fun map_after :: "store_op \<Rightarrow> (string \<times> Credential) list \<Rightarrow> (string \<times> Credential) list" where
  "map_after (SaveOp c) all = AList.update (cd_ServiceURL c) c all"
| "map_after (DeleteOp v) all = AList.delete v all"

lemma loaded_after: "loaded (Inr (map_after a all)) = answer_after a (loaded (Inr all))"
  by (cases a) (auto simp: loaded_def fun_eq_iff update_conv' delete_conv')

lemma distinct_after: "distinct (map fst all) \<Longrightarrow> distinct (map fst (map_after a all))"
  by (cases a) (simp_all add: distinct_update distinct_delete)

lemma file_op_cases:
  assumes "file_op sys p a ds = (r, ds')"
  obtains e where "readAll sys p (hd ds) = Inl e" "r = Inl e" "ds' = ds"
  | all where "readAll sys p (hd ds) = Inr all" "r = Inr ()" "ds' = ds" "loaded (Inr (map_after a all)) = loaded (Inr all)"
  | all where "readAll sys p (hd ds) = Inr all" "writeAll sys p (map_after a all) ds = (r, ds')"
proof (cases "readAll sys p (hd ds)")
  case (Inl e)
  with assms have "r = Inl e" "ds' = ds" by (cases a; simp add: file_Save_def file_Delete_def)+
  with Inl that(1) show thesis by blast
next
  case (Inr all)
  show thesis
  proof (cases "\<exists>v. a = DeleteOp v \<and> map_of all v = None")
    case True
    then obtain v where v: "a = DeleteOp v" "map_of all v = None" by blast
    with assms Inr have "r = Inr ()" "ds' = ds" by (simp_all add: file_Delete_def)
    moreover have "loaded (Inr (map_after a all)) = loaded (Inr all)"
      unfolding loaded_after using v by (auto simp: fun_eq_iff loaded_def)
    ultimately show thesis using that(2) Inr by blast
  next
    case False
    with assms Inr have "writeAll sys p (map_after a all) ds = (r, ds')"
      by (cases a) (auto simp: file_Save_def file_Delete_def)
    with Inr that(3) show thesis by blast
  qed
qed

lemma file_op_states:
  assumes "file_ok sys p ds" and "file_op sys p a ds = (r, ds')"
  shows "\<exists>pre. ds' = pre @ ds
    \<and> (\<forall>d\<in>set pre. file_Load sys p [d] = file_Load sys p ds \<or> file_Load sys p [d] = answer_after a (file_Load sys p ds))
    \<and> (\<forall>d\<in>set pre. \<forall>q e. dk_files d q = Some e \<longrightarrow> dk_files (hd ds) q = Some e \<or> owner_only e)
    \<and> file_Load sys p ds' = (if isl r then file_Load sys p ds else answer_after a (file_Load sys p ds)) \<and> file_ok sys p ds'"
  using assms(2)
proof (cases rule: file_op_cases)
  case (3 all)
  let ?new = "credentials_file (map_after a all)"
  from assms(1) have ok: "os_read sys p" "ds \<noteq> []" "tmp_private p (hd ds)" "distinct (map fst all)"
    using 3(1) by (auto simp: file_ok_def)
  have old: "file_Load sys p ds = loaded (Inr all)" by (simp add: file_Load_loaded 3(1))
  have new: "file_Load sys p [d] = answer_after a (loaded (Inr all))" if "dk_files d p = Some ?new" for d
    unfolding file_Load_loaded using readAll_new[OF ok(1) that] by (simp add: loaded_after)
  have same: "file_Load sys p [d] = file_Load sys p ds" if "dk_files d p = dk_files (hd ds) p" for d
    unfolding file_Load_loaded using readAll_same[OF that] by simp
  from writeAll_states[OF ok(3,2) 3(2)] obtain pre where pre: "ds' = pre @ ds" "\<forall>d\<in>set pre. between p ?new (hd ds) d"
    "dk_files (hd ds') p = (if isl r then dk_files (hd ds) p else Some ?new)" by blast
  have tmp: "tmp_private p (hd ds')" using pre(1,2) ok(3) by (cases pre) (auto simp: between_def tmp_private_def)
  have "file_Load sys p ds' = (if isl r then file_Load sys p ds else answer_after a (file_Load sys p ds))"
    using pre(3) new[of "hd ds'"] same[of "hd ds'"] old by (simp add: file_Load_loaded split: if_splits)
  moreover have "file_ok sys p ds'"
  proof (cases "isl r")
    case True
    then have "readAll sys p (hd ds') = readAll sys p (hd ds)" using pre(3) by (intro readAll_same) simp
    then show ?thesis using ok tmp pre(1) 3(1) by (simp add: file_ok_def)
  next
    case False
    then have "readAll sys p (hd ds') = Inr (map_after a all)" using pre(3) ok(1) by (intro readAll_new) simp_all
    then show ?thesis using ok tmp pre(1) by (simp add: file_ok_def distinct_after)
  qed
  moreover have "file_Load sys p [d] = file_Load sys p ds \<or> file_Load sys p [d] = answer_after a (file_Load sys p ds)" if "d \<in> set pre" for d
    using pre(2) that new same old unfolding between_def by metis
  moreover have "dk_files (hd ds) q = Some e \<or> owner_only e" if "d \<in> set pre" "dk_files d q = Some e" for d q e
    using pre(2) that unfolding between_def by (metis option.inject owner_only_file)
  ultimately show ?thesis using pre(1) by blast
qed (use assms(1) in \<open>auto simp: file_Load_loaded loaded_after[symmetric]\<close>)

interpretation files: credential_store "file_Load sys p" "file_Save sys p" "file_Delete sys p" "file_List sys p" "file_ok sys p" for sys p
proof (unfold_locales, goal_cases)
  case (1 s c x s' u)
  with file_op_states[of sys p s "SaveOp c" "Inr x" s'] show ?case by auto
next
  case (2 s c e s' u)
  with file_op_states[of sys p s "SaveOp c" "Inl e" s'] show ?case by auto
next
  case (3 s v x s' u)
  with file_op_states[of sys p s "DeleteOp v" "Inr x" s'] show ?case by auto
next
  case (4 s v e s' u)
  with file_op_states[of sys p s "DeleteOp v" "Inl e" s'] show ?case by auto
next
  case (5 s cs c)
  then obtain all where "readAll sys p (hd s) = Inr all" "cs = map snd all" "distinct (map fst all)"
    by (auto simp: file_List_def file_ok_def split: sum.splits)
  moreover from this have "file_Load sys p s u = Inr c \<longleftrightarrow> (u, c) \<in> set all" for u
    by (auto simp: file_Load_loaded loaded_def split: option.split dest: map_of_SomeD eq_key_imp_eq_value)
  ultimately show ?case by force
qed

text \<open>C22. Saving and removing a credential in the file backend is all or nothing, whatever system call fails and
  wherever the process dies: in every state the disk goes through, the store answers for every service as
  before the operation or as after it; it answers as after it exactly when the operation reports success; and
  every file that was written on the way can be read by its owner alone.\<close>

theorem credentials_survive:
  assumes "file_ok sys p ds" and "file_op sys p a ds = (r, ds')"
  shows "\<exists>pre. ds' = pre @ ds
    \<and> (\<forall>d\<in>set pre. file_Load sys p [d] = file_Load sys p ds \<or> file_Load sys p [d] = answer_after a (file_Load sys p ds))
    \<and> (\<forall>d\<in>set pre. \<forall>q e. dk_files d q = Some e \<longrightarrow> dk_files (hd ds) q = Some e \<or> owner_only e)
    \<and> file_Load sys p ds' = (if isl r then file_Load sys p ds else answer_after a (file_Load sys p ds))"
  using file_op_states[OF assms] by blast

definition wit_os :: os where
  "wit_os = \<lparr>os_mkdir = True, os_chmod = \<lambda>p. True, os_read = \<lambda>p. True, os_write = \<lambda>p. NoFault, os_rename = \<lambda>p. True,
    os_umask = 18, os_len = \<lambda>x. 1, os_getenv = \<lambda>n. '''', os_home = Some ''/home/a''\<rparr>"

definition wit_cred :: "string \<Rightarrow> Credential" where
  "wit_cred u = \<lparr>cd_ServiceURL = u, cd_Token = ''t'', cd_Login = ''alice'', cd_UserID = 1, cd_StoredAt = 0\<rparr>"

definition wit_disk :: disk where
  "wit_disk = \<lparr>dk_dir = Some dir_mode, dk_files = Map.empty(''c'' \<mapsto> credentials_file [(''https://a'', wit_cred ''https://a'')])\<rparr>"

lemma wit_disk_ok: "file_ok wit_os ''c'' [wit_disk]"
  by (simp add: file_ok_def wit_os_def wit_disk_def tmp_private_def readAll_def credentials_file_def)

theorem credentials_survive_witness:
  "let after = snd (file_op wit_os ''c'' (SaveOp (wit_cred ''https://b'')) [wit_disk]) in
   length after = 5 \<and> (\<exists>pre. after = pre @ [wit_disk]) \<and> file_Load wit_os ''c'' after ''https://b'' = Inr (wit_cred ''https://b'')"
proof -
  let ?a = "SaveOp (wit_cred ''https://b'')"
  obtain r ds' where step: "file_op wit_os ''c'' ?a [wit_disk] = (r, ds')" by fastforce
  have "r = Inr () \<and> length ds' = 5"
    using step by (auto simp: wit_os_def wit_disk_def wit_cred_def file_Save_def readAll_def credentials_file_def writeAll_def
      WriteFile_def Chmod_def Rename_def write_states_def Let_def)
  then show ?thesis using credentials_survive[OF wit_disk_ok step] step by (auto simp: wit_cred_def)
qed



section \<open>The keyring backend and the choice\<close>

text \<open>What the keyring library documents: an entry that was set is read back until it is set or deleted, other
  entries stay, and deleting an absent entry reports that it is absent.\<close>

definition keyring_laws :: "'k keyring \<Rightarrow> bool" where
  "keyring_laws kr \<longleftrightarrow>
    (\<forall>s a x k k' b. kr_Set kr s a x k = (None, k') \<longrightarrow> kr_Get kr s b k' = (if b = a then Inr x else kr_Get kr s b k))
    \<and> (\<forall>s a k k' b. kr_Delete kr s a k = (None, k') \<longrightarrow> kr_Get kr s b k' = (if b = a then Inl KeyringNotFound else kr_Get kr s b k))
    \<and> (\<forall>s a k k' b. kr_Delete kr s a k = (Some KeyringNotFound, k') \<longrightarrow>
        kr_Get kr s a k = Inl KeyringNotFound \<and> kr_Get kr s b k' = kr_Get kr s b k)"

lemma ring_Save_Load:
  assumes "keyring_laws kr" and "ring_Save sys kr p c s = (Inr x, s')"
  shows "ring_Load kr s' u = (if u = cd_ServiceURL c then Inr c else ring_Load kr s u)"
  using assms unfolding keyring_laws_def
  by (auto simp: ring_Save_def ring_Load_def split: prod.splits option.splits)

lemma ring_Delete_Load:
  assumes "keyring_laws kr" and "ring_Delete sys kr p v s = (Inr x, s')"
  shows "ring_Load kr s' u = (if u = v then Inl CredNotFound else ring_Load kr s u)"
proof -
  obtain e k' where d: "kr_Delete kr keyringService v (fst s) = (e, k')" by fastforce
  with assms(2) have "e = None \<or> e = Some KeyringNotFound" "fst s' = k'"
    by (auto simp: ring_Delete_def split: prod.splits option.splits keyring_error.splits)
  with assms(1) d show ?thesis unfolding keyring_laws_def ring_Load_def by auto
qed

text \<open>A save whose index could not be written reports a failure, and the token is stored all the same.\<close>

theorem failed_save_has_stored:
  assumes "keyring_laws kr" and "kr_Set kr keyringService (cd_ServiceURL c) (Doc (OneCred c)) (fst s) = (None, k')"
    and "ring_Save sys kr p c s = (r, s')"
  shows "ring_Load kr s' (cd_ServiceURL c) = Inr c"
  using assms unfolding keyring_laws_def by (auto simp: ring_Save_def ring_Load_def split: prod.splits)

text \<open>An explicit choice of the file backend never touches the keyring, and one of the keyring never falls back
  to a file.\<close>

theorem explicit_choice_wins:
  assumes "Open sys kr s = (Inr st, s')"
  shows "lower (TrimSpace (os_getenv sys EnvBackend)) = ''file'' \<Longrightarrow> Backend st = ''file'' \<and> fst s' = fst s"
    and "lower (TrimSpace (os_getenv sys EnvBackend)) = ''keyring'' \<Longrightarrow> Backend st = ''keyring''"
  using assms by (auto simp: Open_def open_file_def Let_def split: prod.splits sum.splits option.splits)

end
