(* ===== verification/Cli.thy ===== *)
theory Cli
  imports Credstore ClientCalls Viewer Capability Media
begin

text \<open>
  The frame of the command line: \<^verbatim>\<open>src/cli/gh-stories/main.go\<close> and \<^verbatim>\<open>context.go\<close>, with what they use
  of Go's \<^verbatim>\<open>flag\<close> package.  A command is a sequence of steps on its surroundings: what went over the
  wire, the credential store, the cache of the terminal detection, what was printed.
\<close>

section \<open>Flags\<close>

datatype flag_kind = BoolFlag | TextFlag | DurationFlag

type_synonym flags = "(string \<times> flag_kind) list"

type_synonym flag_values = "(string \<times> string) list"

definition bool_texts :: "string list" where
  "bool_texts = [''1'', ''t'', ''T'', ''TRUE'', ''true'', ''True'', ''0'', ''f'', ''F'', ''FALSE'', ''false'', ''False'']"

text \<open>Whether a value can be given to a flag; \<open>dur\<close> is \<^verbatim>\<open>time.ParseDuration\<close>.\<close>

fun accepts :: "(string \<Rightarrow> duration option) \<Rightarrow> flag_kind \<Rightarrow> string \<Rightarrow> bool" where
  "accepts dur BoolFlag v = (v \<in> set bool_texts)"
| "accepts dur TextFlag v = True"
| "accepts dur DurationFlag v = (dur v \<noteq> None)"

text \<open>\<open>name=value\<close> is cut at the first equals sign after the first character.\<close>

definition cut_value :: "string \<Rightarrow> string \<times> string option" where
  "cut_value name =
    (let front = take 1 name @ takeWhile (\<lambda>c. c \<noteq> CHR ''='') (drop 1 name); rest = drop (length front) name in
     (front, if rest = '''' then None else Some (drop 1 rest)))"

text \<open>One argument: no flag, the end of the flags, an error, or a flag with the arguments it leaves.\<close>

datatype parse_step = NoFlag "string list" | BadFlag | OneFlag string string "string list"

definition parseOne :: "(string \<Rightarrow> duration option) \<Rightarrow> flags \<Rightarrow> string list \<Rightarrow> parse_step" where
  "parseOne dur fs args =
    (case args of
       [] \<Rightarrow> NoFlag []
     | s # rest \<Rightarrow>
         if length s < 2 \<or> \<not> HasPrefix s ''-'' then NoFlag args
         else if s = ''--'' then NoFlag rest
         else (let name = (if HasPrefix s ''--'' then drop 2 s else drop 1 s) in
           if HasPrefix name ''-'' \<or> HasPrefix name ''='' then BadFlag
           else (case cut_value name of (front, val) \<Rightarrow>
             (case map_of fs front of
                None \<Rightarrow> BadFlag
              | Some BoolFlag \<Rightarrow>
                  (let v = (case val of None \<Rightarrow> ''true'' | Some v \<Rightarrow> v) in
                   if accepts dur BoolFlag v then OneFlag front v rest else BadFlag)
              | Some k \<Rightarrow>
                  (case val of
                     Some v \<Rightarrow> if accepts dur k v then OneFlag front v rest else BadFlag
                   | None \<Rightarrow>
                       (case rest of
                          [] \<Rightarrow> BadFlag
                        | v # rest \<Rightarrow> if accepts dur k v then OneFlag front v rest else BadFlag))))))"

lemma parseOne_shrinks: "parseOne dur fs args = OneFlag n v rest \<Longrightarrow> length rest < length args"
  by (auto simp: parseOne_def Let_def split: list.splits if_splits prod.splits option.splits flag_kind.splits)

lemma parseOne_rest: "parseOne dur fs args = NoFlag rest \<Longrightarrow> length rest \<le> length args"
  by (auto simp: parseOne_def Let_def split: list.splits if_splits prod.splits option.splits flag_kind.splits)

text \<open>\<^verbatim>\<open>FlagSet.Parse\<close>: the values of the flags, with those given last, and the remaining arguments.\<close>

function flag_parse :: "(string \<Rightarrow> duration option) \<Rightarrow> flags \<Rightarrow> flag_values \<Rightarrow> string list \<Rightarrow> (flag_values \<times> string list) option" where
  "flag_parse dur fs vals args =
    (case parseOne dur fs args of
       NoFlag rest \<Rightarrow> Some (vals, rest)
     | BadFlag \<Rightarrow> None
     | OneFlag n v rest \<Rightarrow> flag_parse dur fs (AList.update n v vals) rest)"
  by pat_completeness auto
termination
  by (relation "measure (\<lambda>(dur, fs, vals, args). length args)") (auto dest: parseOne_shrinks)

declare flag_parse.simps [simp del]

lemma flag_parse_shrinks: "flag_parse dur fs vals args = Some (vals', rest) \<Longrightarrow> length rest \<le> length args"
proof (induction dur fs vals args rule: flag_parse.induct)
  case (1 dur fs vals args)
  from 1(2) 1(1) show ?case
    by (subst (asm) flag_parse.simps)
      (fastforce split: parse_step.splits dest: parseOne_rest parseOne_shrinks)
qed

text \<open>\<^verbatim>\<open>parseArgs\<close> peels off one positional argument at a time.\<close>

function parseArgs :: "(string \<Rightarrow> duration option) \<Rightarrow> flags \<Rightarrow> flag_values \<Rightarrow> string list \<Rightarrow> (flag_values \<times> string list) option" where
  "parseArgs dur fs vals rest =
    (case flag_parse dur fs vals rest of
       None \<Rightarrow> None
     | Some (vals, []) \<Rightarrow> Some (vals, [])
     | Some (vals, a # rest) \<Rightarrow> (case parseArgs dur fs vals rest of None \<Rightarrow> None | Some (vals, as) \<Rightarrow> Some (vals, a # as)))"
  by pat_completeness auto
termination
  by (relation "measure (\<lambda>(dur, fs, vals, args). length args)") (auto dest!: flag_parse_shrinks)

declare parseArgs.simps [simp del]

definition text_flag :: "flag_values \<Rightarrow> string \<Rightarrow> string \<Rightarrow> string" where
  "text_flag vals n def = (case map_of vals n of None \<Rightarrow> def | Some v \<Rightarrow> v)"

definition bool_flag :: "flag_values \<Rightarrow> string \<Rightarrow> bool \<Rightarrow> bool" where
  "bool_flag vals n def = (case map_of vals n of None \<Rightarrow> def | Some v \<Rightarrow> v \<in> set (take 6 bool_texts))"

definition globalFlags :: flags where
  "globalFlags = [(''service'', TextFlag), (''renderer'', TextFlag), (''json'', BoolFlag)]"

section \<open>Errors and exit codes\<close>

datatype cli_error = Usage string | OfClient client_error | ErrNotSignedIn | ErrNoService | ErrProcessingFailed string
  | CliError string

definition context_canceled :: string where "context_canceled = ''context canceled''"

definition cli_error_text :: "cli_error \<Rightarrow> string" where
  "cli_error_text e =
    (case e of
       Usage m \<Rightarrow> m
     | OfClient c \<Rightarrow> client_error_text c
     | ErrNotSignedIn \<Rightarrow> ''you are not signed in to this service. Run: gh stories login''
     | ErrNoService \<Rightarrow> join [CHR 0x0A] [''no GitHub Stories service is configured.'', '''',
         ''This build does not ship with a hosted service. Point it at one:'', '''',
         ''    gh stories --service https://your-service.example login'', '''', ''or set it once:'', '''',
         ''    export GHS_SERVICE_URL=https://your-service.example'', '''',
         ''Running your own takes a container, PostgreSQL and an S3-compatible bucket:'',
         ''https://github.com/alliecatowo/gh-stories/blob/main/docs/runbook.md'']
     | ErrProcessingFailed m \<Rightarrow> ''media processing failed: '' @ m
     | CliError m \<Rightarrow> m)"

definition exitOK :: int where "exitOK = 0"
definition exitError :: int where "exitError = 1"
definition exitUsage :: int where "exitUsage = 2"
definition exitNotAuthed :: int where "exitNotAuthed = 3"
definition exitNoAccess :: int where "exitNoAccess = 4"
definition exitNetwork :: int where "exitNetwork = 5"
definition exitMediaFailure :: int where "exitMediaFailure = 6"

definition codeFor :: "cli_error \<Rightarrow> int" where
  "codeFor e =
    (case e of
       OfClient (Api a) \<Rightarrow>
         if ae_Code a = ''unauthorized'' then exitNotAuthed
         else if ae_Code a = ''forbidden'' \<or> ae_Code a = ''not_found'' then exitNoAccess
         else if ae_Code a = ''rate_limited'' \<or> ae_Code a = ''unavailable'' then exitNetwork
         else if ae_Code a = ''unsupported_media'' \<or> ae_Code a = ''payload_too_large'' then exitMediaFailure
         else if 500 \<le> ae_Status a then exitNetwork
         else exitError
     | OfClient (NetworkError m) \<Rightarrow> exitNetwork
     | ErrNotSignedIn \<Rightarrow> exitNotAuthed
     | ErrProcessingFailed m \<Rightarrow> exitMediaFailure
     | _ \<Rightarrow> exitError)"

definition humanError :: "cli_error \<Rightarrow> string" where
  "humanError e =
    (case e of
       OfClient (Api a) \<Rightarrow>
         if ae_Code a = ''unauthorized'' then ''you are not signed in. Run: gh stories login''
         else if ae_Code a = ''not_found'' then ''not found, or you do not have access to it.''
         else if ae_Code a = ''forbidden'' then
           (if ae_Message a \<noteq> '''' then ae_Message a else ''you do not have access to that.'')
         else if ae_Code a = ''rate_limited'' then
           (if 0 < ae_RetryAfter a then ''too many requests. Try again in '' @ decimal (ae_RetryAfter a) @ ''s.''
            else ''too many requests. Try again shortly.'')
         else if ae_Message a \<noteq> '''' then ae_Message a
         else ''the service returned '' @ decimal (ae_Status a) @ ''.''
     | OfClient (NetworkError m) \<Rightarrow> ''could not reach the service. Check your connection, or run: gh stories doctor''
     | _ \<Rightarrow> cli_error_text e)"

section \<open>The surroundings of a command\<close>

text \<open>A JSON document on standard output.\<close>

datatype cli_doc = ReplyJson "cliReply option" | ReactionJson "cliReaction option" | ViewersJson "cliViewerList option"
  | InboxJson "cliInbox option" | ReportJson "cliReport option" | SettingsJson "cliSettings option"
  | ImportJson "cliImportSummary option" | GroupsJson "cliGroup list" | StoryJson "cliStory option"

text \<open>What a command shows: lines on standard output and standard error, documents, a URL handed to the
  browser, the viewer, an alias set in the GitHub command line.\<close>

datatype printed = OutLine string | ErrLine string | Json cli_doc | Browser string | Launched Model | AliasSet string string | UsageText bool

record 'k cli_env =
  ce_sys :: os
  ce_keyring :: "'k keyring"
  ce_net :: network
  ce_codec :: Client.codec
  ce_version :: string
  ce_build :: string
  ce_service :: string
  ce_stdin_tty :: bool
  ce_stdout_tty :: bool
  ce_answer :: string
  ce_now :: "event list \<Rightarrow> time"
  ce_duration :: "string \<Rightarrow> duration option"
  ce_width :: "string \<Rightarrow> int"
  ce_trunc :: "string \<Rightarrow> int \<Rightarrow> string \<Rightarrow> string"
  ce_quote :: "string \<Rightarrow> string"
  ce_equalfold :: "string \<Rightarrow> string \<Rightarrow> bool"
  ce_source :: "string \<Rightarrow> string + string"
  ce_sha256 :: "string \<Rightarrow> string"
  ce_uuid :: string
  ce_clock :: "time \<Rightarrow> string"
  ce_browser :: "string \<Rightarrow> bool"
  ce_label :: string
  ce_terminal :: surroundings
  ce_gh :: bool
  ce_aliases :: "string option"
  ce_builtin :: "string \<Rightarrow> bool"
  ce_alias_set :: "string \<Rightarrow> string \<Rightarrow> string option"

record 'k cli_state =
  st_wire :: "event list"
  st_cred :: "'k \<times> disks"
  st_cache :: "string \<Rightarrow> capCache option"
  st_shown :: "printed list"

type_synonym ('k, 'a) doing = "'k cli_state \<Rightarrow> (cli_error + 'a) \<times> 'k cli_state"

definition gives :: "'a \<Rightarrow> ('k, 'a) doing" where "gives x s = (Inr x, s)"

definition stops :: "cli_error \<Rightarrow> ('k, 'a) doing" where "stops e s = (Inl e, s)"

definition seq :: "('k, 'a) doing \<Rightarrow> ('a \<Rightarrow> ('k, 'b) doing) \<Rightarrow> ('k, 'b) doing" where
  "seq m f s = (case m s of (Inl e, s) \<Rightarrow> (Inl e, s) | (Inr x, s) \<Rightarrow> f x s)"

definition refuse :: "bool \<Rightarrow> cli_error \<Rightarrow> ('k, unit) doing" where
  "refuse b e s = (if b then Inl e else Inr (), s)"

definition value_of :: "cli_error + 'a \<Rightarrow> ('k, 'a) doing" where "value_of r s = (r, s)"

text \<open>A call of the API, a line that is printed, a line of status, a step that is skipped.\<close>

definition calls :: "'a call \<Rightarrow> ('k, 'a) doing" where
  "calls f s = (case f (st_wire s) of (r, h) \<Rightarrow> (map_sum OfClient id r, s\<lparr>st_wire := h\<rparr>))"

definition show_this :: "printed \<Rightarrow> ('k, unit) doing" where
  "show_this x s = (Inr (), s\<lparr>st_shown := st_shown s @ [x]\<rparr>)"

definition out :: "string \<Rightarrow> ('k, unit) doing" where "out line = show_this (OutLine (Sanitize line))"

definition status_line :: "string \<Rightarrow> ('k, unit) doing" where "status_line line = show_this (ErrLine (Sanitize line))"

definition provided :: "bool \<Rightarrow> ('k, unit) doing \<Rightarrow> ('k, unit) doing" where
  "provided b m = (if b then m else gives ())"

fun each :: "('a \<Rightarrow> ('k, unit) doing) \<Rightarrow> 'a list \<Rightarrow> ('k, unit) doing" where
  "each f [] = gives ()"
| "each f (x # xs) = seq (f x) (\<lambda>_. each f xs)"

definition getenv :: "'k cli_env \<Rightarrow> string \<Rightarrow> string" where "getenv W n = os_getenv (ce_sys W) n"

definition shorten :: "'k cli_env \<Rightarrow> string \<Rightarrow> int \<Rightarrow> string" where
  "shorten W s n = SanitizeTruncate (ce_width W) (ce_trunc W) s n"

text \<open>\<^verbatim>\<open>%-20s\<close>: padded on the right, by runes.\<close>

definition pad_right :: "nat \<Rightarrow> string \<Rightarrow> string" where
  "pad_right n s = s @ replicate (n - length (runes s)) (CHR '' '')"

section \<open>Sessions\<close>

record session =
  ss_Client :: connection
  ss_ServiceURL :: string
  ss_Login :: string
  ss_Store :: "Store option"
  ss_JSON :: bool
  ss_Renderer :: Protocol

definition serviceURL :: "'k cli_env \<Rightarrow> string \<Rightarrow> string" where
  "serviceURL W flagValue =
    (if flagValue \<noteq> '''' then TrimSuffix flagValue ''/''
     else (let v = getenv W ''GHS_SERVICE_URL'' in
       if v \<noteq> '''' then TrimSuffix v ''/'' else TrimSuffix (ce_service W) ''/''))"

definition requireService :: "string \<Rightarrow> ('k, unit) doing" where
  "requireService url = refuse (TrimSpace url = '''') ErrNoService"

definition connect :: "'k cli_env \<Rightarrow> string \<Rightarrow> string \<Rightarrow> connection" where
  "connect W url token = \<lparr>cc_net = ce_net W, cc_client = New_Client (ce_version W) url token, cc_codec = ce_codec W\<rparr>"

definition cred_text :: "cred_error \<Rightarrow> string" where
  "cred_text e = (case e of CredNotFound \<Rightarrow> ''credstore: no credential stored for this service'' | CredFailed m \<Rightarrow> m)"

definition open_store :: "'k cli_env \<Rightarrow> ('k, Store) doing" where
  "open_store W s =
    (case Open (ce_sys W) (ce_keyring W) (st_cred s) of
       (Inl e, c) \<Rightarrow> (Inl (CliError (''could not open a credential store: '' @ cred_text e)), s\<lparr>st_cred := c\<rparr>)
     | (Inr st, c) \<Rightarrow> (Inr st, s\<lparr>st_cred := c\<rparr>))"

definition load_cred :: "'k cli_env \<Rightarrow> Store \<Rightarrow> string \<Rightarrow> ('k, Credential) doing" where
  "load_cred W st url s =
    ((case store_Load (ce_sys W) (ce_keyring W) st (st_cred s) url of
        Inl e \<Rightarrow> Inl ErrNotSignedIn
      | Inr c \<Rightarrow> if cd_Token c = '''' then Inl ErrNotSignedIn else Inr c), s)"

definition openSession :: "'k cli_env \<Rightarrow> string \<Rightarrow> bool \<Rightarrow> string \<Rightarrow> ('k, session) doing" where
  "openSession W service asJSON renderer =
    (let url = serviceURL W service in
     seq (requireService url) (\<lambda>_.
     seq (open_store W) (\<lambda>st.
     seq (load_cred W st url) (\<lambda>cred.
     gives \<lparr>ss_Client = connect W url (cd_Token cred), ss_ServiceURL = url, ss_Login = cd_Login cred, ss_Store = Some st,
       ss_JSON = asJSON, ss_Renderer = renderer\<rparr>))))"

definition anonymousSession :: "'k cli_env \<Rightarrow> string \<Rightarrow> ('k, session) doing" where
  "anonymousSession W service =
    (let url = serviceURL W service in
     seq (requireService url) (\<lambda>_.
     gives \<lparr>ss_Client = connect W url '''', ss_ServiceURL = url, ss_Login = '''', ss_Store = None, ss_JSON = False, ss_Renderer = ''''\<rparr>))"

definition interactive :: "'k cli_env \<Rightarrow> bool" where "interactive W \<longleftrightarrow> ce_stdin_tty W \<and> ce_stdout_tty W"

definition colorEnabled :: "'k cli_env \<Rightarrow> bool" where
  "colorEnabled W \<longleftrightarrow>
    (if getenv W ''NO_COLOR'' \<noteq> '''' then False
     else if getenv W ''CLICOLOR_FORCE'' \<noteq> '''' \<and> getenv W ''CLICOLOR_FORCE'' \<noteq> ''0'' then True
     else ce_stdout_tty W)"

definition detectTerminal :: "'k cli_env \<Rightarrow> Protocol \<Rightarrow> ('k, Capabilities) doing" where
  "detectTerminal W override s =
    (case Detect (ce_terminal W) override (st_cache s) of (caps, cache) \<Rightarrow> (Inr caps, s\<lparr>st_cache := cache\<rparr>))"

text \<open>The flags of a command; those that do not parse, or a test on the positional arguments that fails, are a
  usage error.\<close>

definition flags_of :: "'k cli_env \<Rightarrow> flags \<Rightarrow> string \<Rightarrow> string list \<Rightarrow> ('k, flag_values \<times> string list) doing" where
  "flags_of W fs use args =
    value_of (case flag_parse (ce_duration W) fs [] args of None \<Rightarrow> Inl (Usage use) | Some p \<Rightarrow> Inr p)"

definition args_of :: "'k cli_env \<Rightarrow> flags \<Rightarrow> string \<Rightarrow> string list \<Rightarrow> ('k, flag_values \<times> string list) doing" where
  "args_of W fs use args =
    value_of (case parseArgs (ce_duration W) fs [] args of None \<Rightarrow> Inl (Usage use) | Some p \<Rightarrow> Inr p)"

section \<open>Running a command\<close>

definition run_end :: "(cli_error + unit) \<times> 'k cli_state \<Rightarrow> int \<times> 'k cli_state" where
  "run_end p =
    (case p of
       (Inr _, s) \<Rightarrow> (exitOK, s)
     | (Inl e, s) \<Rightarrow>
         if e = OfClient (Cancelled context_canceled) then (exitError, s\<lparr>st_shown := st_shown s @ [ErrLine ''Cancelled.'']\<rparr>)
         else (case e of
             Usage m \<Rightarrow> (exitUsage, s\<lparr>st_shown := st_shown s @ [ErrLine (''gh stories: '' @ m)]\<rparr>)
           | _ \<Rightarrow> (codeFor e, s\<lparr>st_shown := st_shown s @ [ErrLine (''gh stories: '' @ humanError e)]\<rparr>)))"

text \<open>A command that may not end is \<open>None\<close>.\<close>

definition run :: "((cli_error + unit) \<times> 'k cli_state) option \<Rightarrow> (int \<times> 'k cli_state) option" where
  "run r = map_option run_end r"

section \<open>Version\<close>

text \<open>\<^verbatim>\<open>version.Short\<close> of the tag and the commit.\<close>

definition version_Short :: "string \<Rightarrow> string \<Rightarrow> string" where
  "version_Short version commit = version @ '' ('' @ take 7 commit @ '')''"

end
