(* ===== verification/CliCommands.thy ===== *)
theory CliCommands
  imports Cli
begin

text \<open>
  The commands: \<^verbatim>\<open>cmd_auth.go\<close>, \<^verbatim>\<open>cmd_social.go\<close>, \<^verbatim>\<open>cmd_interact.go\<close>,
  \<^verbatim>\<open>cmd_post.go\<close>, \<^verbatim>\<open>cmd_view.go\<close> and \<^verbatim>\<open>cmd_import.go\<close> of
  \<^verbatim>\<open>src/cli/gh-stories\<close>, and the table they are called from.  A result that the answer left out is its
  zero value, \<open>None\<close>.
\<close>

definition dots :: string where "dots = encode_rune 0x2026"

definition arrow :: string where "arrow = encode_rune 0x2192"

definition bullet :: string where "bullet = encode_rune 0x25CF"

section \<open>Signing in\<close>

definition detectSSH :: "'k cli_env \<Rightarrow> bool" where
  "detectSSH W \<longleftrightarrow> getenv W ''SSH_CONNECTION'' \<noteq> '''' \<or> getenv W ''SSH_TTY'' \<noteq> ''''"

definition openBrowser :: "'k cli_env \<Rightarrow> string \<Rightarrow> ('k, bool) doing" where
  "openBrowser W url =
    (if \<not> HasPrefix url ''http://'' \<and> \<not> HasPrefix url ''https://'' then gives False
     else seq (show_this (Browser url)) (\<lambda>_. gives (ce_browser W url)))"

definition offer_browser :: "'k cli_env \<Rightarrow> bool \<Rightarrow> string \<Rightarrow> ('k, unit) doing" where
  "offer_browser W noBrowser url =
    seq (if \<not> noBrowser \<and> \<not> detectSSH W then openBrowser W url else gives False) (\<lambda>opened.
    seq (if opened then status_line ''Opened your browser.''
      else status_line ''Open that URL on any device where you are signed in to GitHub.'') (\<lambda>_.
    status_line (''Waiting for approval'' @ dots)))"

definition no_poll :: cliLoginPoll where "no_poll = \<lparr>ck_Status = '''', ck_Token = '''', ck_User = None\<rparr>"

definition new_credential :: "session \<Rightarrow> time \<Rightarrow> cliLoginPoll \<Rightarrow> Credential" where
  "new_credential sess now poll =
    \<lparr>cd_ServiceURL = ss_ServiceURL sess, cd_Token = ck_Token poll,
     cd_Login = (case ck_User poll of None \<Rightarrow> '''' | Some u \<Rightarrow> cu_Login u),
     cd_UserID = (case ck_User poll of None \<Rightarrow> 0 | Some u \<Rightarrow> cu_GitHubID u), cd_StoredAt = now\<rparr>"

definition save_cred :: "'k cli_env \<Rightarrow> Store \<Rightarrow> Credential \<Rightarrow> ('k, unit) doing" where
  "save_cred W st cred s =
    (case store_Save (ce_sys W) (ce_keyring W) st cred (st_cred s) of
       (Inl e, c) \<Rightarrow> (Inl (CliError (''could not save your session: '' @ cred_text e)), s\<lparr>st_cred := c\<rparr>)
     | (Inr _, c) \<Rightarrow> (Inr (), s\<lparr>st_cred := c\<rparr>))"

definition signed_in :: "'k cli_env \<Rightarrow> session \<Rightarrow> cliLoginPoll \<Rightarrow> ('k, unit) doing" where
  "signed_in W sess poll s =
    (let cred = new_credential sess (ce_now W (st_wire s)) poll in
     seq (open_store W) (\<lambda>st.
     seq (save_cred W st cred) (\<lambda>_.
     seq (status_line '''') (\<lambda>_.
     seq (status_line (''Signed in as '' @ cd_Login cred @ ''.'')) (\<lambda>_.
     provided (Backend st \<noteq> ''keyring'')
       (seq (status_line ''No OS keyring was available, so the session was saved to a'') (\<lambda>_.
        status_line ''permission-restricted file instead. Run `gh stories doctor` for details.''))))))) s"

text \<open>Waiting between two polls: over when the context is.\<close>

definition pause :: "'k cli_env \<Rightarrow> duration \<Rightarrow> ('k, unit) doing" where
  "pause W interval s =
    (let h = st_wire s in
     ((case nw_sleep (ce_net W) h interval of Some why \<Rightarrow> Inl (OfClient (Cancelled why)) | None \<Rightarrow> Inr ()),
      s\<lparr>st_wire := h @ [Slept interval]\<rparr>))"

definition poll_once :: "'k cli_env \<Rightarrow> cliLoginPoll option call \<Rightarrow> duration \<Rightarrow> ('k, cliLoginPoll) doing" where
  "poll_once W ask interval =
    seq (pause W interval) (\<lambda>_.
    seq (calls ask) (\<lambda>poll. gives (case poll of None \<Rightarrow> no_poll | Some p \<Rightarrow> p)))"

text \<open>The loops of \<^verbatim>\<open>cmdLogin\<close> and \<^verbatim>\<open>cmdLoginDevice\<close>, which differ in what a request to slow down
  does and in one message; \<open>None\<close> when they never end.\<close>

partial_function (option) login_loop ::
  "'k cli_env \<Rightarrow> session \<Rightarrow> cliLoginPoll option call \<Rightarrow> bool \<Rightarrow> duration \<Rightarrow> time \<Rightarrow> 'k cli_state
     \<Rightarrow> ((cli_error + unit) \<times> 'k cli_state) option" where
  "login_loop W sess ask device interval deadline s =
    (if \<not> ce_now W (st_wire s) < deadline then Some (Inl (CliError ''timed out waiting for approval''), s)
     else (case poll_once W ask interval s of
         (Inl e, s) \<Rightarrow> Some (Inl e, s)
       | (Inr poll, s) \<Rightarrow>
           if ck_Status poll = ''approved'' then Some (signed_in W sess poll s)
           else if ck_Status poll = ''denied'' then Some (Inl (CliError ''the authorization was denied''), s)
           else if ck_Status poll = ''expired'' then
             Some (Inl (CliError (''the authorization expired. Run `gh stories login'' @ (if device then '' --device'' else '''') @ ''` again'')), s)
           else login_loop W sess ask device
             (if device \<and> ck_Status poll = ''slow_down'' then interval + 5 * Second else interval) deadline s))"

definition no_pending :: cliPendingLogin where
  "no_pending = \<lparr>cp_PendingLoginID = '''', cp_PollingSecret = '''', cp_UserCode = '''', cp_VerificationURL = '''', cp_ExpiresAt = zero_Time,
    cp_IntervalSeconds = 0\<rparr>"

definition no_device :: cliDeviceLogin where
  "no_device = \<lparr>cd_DeviceLoginID = '''', cd_UserCode = '''', cd_VerificationURI = '''', cd_ExpiresAt = zero_Time, cd_IntervalSeconds = 0\<rparr>"

text \<open>What is shown before the waiting.\<close>

definition login_start :: "'k cli_env \<Rightarrow> session \<Rightarrow> bool \<Rightarrow> ('k, cliPendingLogin) doing" where
  "login_start W sess noBrowser =
    seq (calls (CreatePendingLogin_call (ss_Client sess) ''cli'' (ce_label W))) (\<lambda>p.
    let pending = (case p of None \<Rightarrow> no_pending | Some p \<Rightarrow> p) in
    seq (status_line '''') (\<lambda>_.
    seq (status_line (''  Open:  '' @ cp_VerificationURL pending)) (\<lambda>_.
    seq (status_line (''  Code:  '' @ cp_UserCode pending)) (\<lambda>_.
    seq (status_line '''') (\<lambda>_.
    seq (status_line ''Check that the code above matches the one on the page before you approve.'') (\<lambda>_.
    seq (offer_browser W noBrowser (cp_VerificationURL pending)) (\<lambda>_.
    gives pending)))))))"

definition device_start :: "'k cli_env \<Rightarrow> session \<Rightarrow> bool \<Rightarrow> ('k, cliDeviceLogin) doing" where
  "device_start W sess noBrowser =
    seq (calls (StartDeviceLogin_call (ss_Client sess) ''cli'' (ce_label W))) (\<lambda>d.
    let device = (case d of None \<Rightarrow> no_device | Some d \<Rightarrow> d) in
    seq (status_line '''') (\<lambda>_.
    seq (status_line (''  Open:  '' @ cd_VerificationURI device)) (\<lambda>_.
    seq (status_line (''  Code:  '' @ cd_UserCode device)) (\<lambda>_.
    seq (status_line '''') (\<lambda>_.
    seq (status_line ''Enter the code above on the page to authorize this device.'') (\<lambda>_.
    seq (offer_browser W noBrowser (cd_VerificationURI device)) (\<lambda>_.
    gives device)))))))"

definition login_interval :: "int \<Rightarrow> duration \<Rightarrow> duration" where
  "login_interval secs fallback = (let i = wrap64 (secs * Second) in if i < Second then fallback else i)"

definition cmdLoginDevice :: "'k cli_env \<Rightarrow> session \<Rightarrow> bool \<Rightarrow> 'k cli_state \<Rightarrow> ((cli_error + unit) \<times> 'k cli_state) option" where
  "cmdLoginDevice W sess noBrowser s =
    (case device_start W sess noBrowser s of
       (Inl e, s) \<Rightarrow> Some (Inl e, s)
     | (Inr device, s) \<Rightarrow>
         (let now = ce_now W (st_wire s);
              deadline = (if cd_ExpiresAt device = zero_Time \<or> \<not> now < cd_ExpiresAt device then now + 10 * Minute else cd_ExpiresAt device) in
          login_loop W sess (PollDeviceLogin_call (ss_Client sess) (cd_DeviceLoginID device)) True
            (login_interval (cd_IntervalSeconds device) (5 * Second)) deadline s))"

definition cmdLogin :: "'k cli_env \<Rightarrow> string list \<Rightarrow> 'k cli_state \<Rightarrow> ((cli_error + unit) \<times> 'k cli_state) option" where
  "cmdLogin W args s =
    (case seq (flags_of W (globalFlags @ [(''no-browser'', BoolFlag), (''device'', BoolFlag)])
          ''gh stories login [--device] [--no-browser] [--service URL]'' args) (\<lambda>(vals, rest).
        seq (anonymousSession W (text_flag vals ''service'' '''')) (\<lambda>sess. gives (vals, sess))) s of
       (Inl e, s) \<Rightarrow> Some (Inl e, s)
     | (Inr (vals, sess), s) \<Rightarrow>
         (let noBrowser = bool_flag vals ''no-browser'' False in
          if bool_flag vals ''device'' False then cmdLoginDevice W sess noBrowser s
          else (case login_start W sess noBrowser s of
              (Inl e, s) \<Rightarrow> Some (Inl e, s)
            | (Inr pending, s) \<Rightarrow>
                login_loop W sess (PollPendingLogin_call (ss_Client sess) (cp_PendingLoginID pending) (cp_PollingSecret pending)) False
                  (login_interval (cp_IntervalSeconds pending) (2 * Second)) (ce_now W (st_wire s) + 10 * Minute) s)))"

definition delete_cred :: "'k cli_env \<Rightarrow> session \<Rightarrow> ('k, unit) doing" where
  "delete_cred W sess s =
    (case ss_Store sess of
       None \<Rightarrow> (Inr (), s)
     | Some st \<Rightarrow>
         (case store_Delete (ce_sys W) (ce_keyring W) st (ss_ServiceURL sess) (st_cred s) of
            (Inl e, c) \<Rightarrow> (Inl (CliError (''could not remove the stored session: '' @ cred_text e)), s\<lparr>st_cred := c\<rparr>)
          | (Inr _, c) \<Rightarrow> (Inr (), s\<lparr>st_cred := c\<rparr>)))"

text \<open>A call whose error is only reported.\<close>

definition tried :: "('k, 'a) doing \<Rightarrow> ('k, cli_error + 'a) doing" where
  "tried m s = (case m s of (r, s) \<Rightarrow> (Inr r, s))"

definition cmdLogout :: "'k cli_env \<Rightarrow> string list \<Rightarrow> ('k, unit) doing" where
  "cmdLogout W args =
    seq (flags_of W globalFlags ''gh stories logout'' args) (\<lambda>(vals, rest).
    seq (tried (openSession W (text_flag vals ''service'' '''') False ''auto'')) (\<lambda>r.
    case r of
      Inl e \<Rightarrow> if e = ErrNotSignedIn then status_line ''Not signed in.'' else stops e
    | Inr sess \<Rightarrow>
        seq (tried (calls (Logout_call (ss_Client sess)))) (\<lambda>l.
        seq (case l of Inl e \<Rightarrow> status_line (''Could not revoke the session on the service: '' @ humanError e) | Inr _ \<Rightarrow> gives ()) (\<lambda>_.
        seq (delete_cred W sess) (\<lambda>_.
        status_line ''Signed out.'')))))"

section \<open>The alias\<close>

text \<open>The lines of \<^verbatim>\<open>gh alias list\<close>, with a tab or a colon after the name.\<close>

fun find_alias :: "string \<Rightarrow> string list \<Rightarrow> string option" where
  "find_alias name [] = None"
| "find_alias name (l # ls) =
    (let line = TrimSpace l; sep = (if CHR 0x09 \<in> set line then CHR 0x09 else CHR '':'') in
     if line = '''' \<or> sep \<notin> set line then find_alias name ls
     else if TrimSpace (TrimSuffix (takeWhile (\<lambda>c. c \<noteq> sep) line) '':'') = name then
       Some (TrimSpace (drop 1 (dropWhile (\<lambda>c. c \<noteq> sep) line)))
     else find_alias name ls)"

definition existingAlias :: "'k cli_env \<Rightarrow> string \<Rightarrow> string option" where
  "existingAlias W name = (case ce_aliases W of None \<Rightarrow> None | Some text \<Rightarrow> find_alias name (split_on (CHR 0x0A) text))"

definition set_alias :: "'k cli_env \<Rightarrow> ('k, unit) doing" where
  "set_alias W =
    seq (show_this (AliasSet ''story'' ''stories'')) (\<lambda>_.
    case ce_alias_set W ''story'' ''stories'' of
      Some output \<Rightarrow> stops (CliError (''could not set the alias: '' @ TrimSpace output))
    | None \<Rightarrow> out ''Done. `gh story post cat.jpg` now works.'')"

definition cmdSetup :: "'k cli_env \<Rightarrow> string list \<Rightarrow> ('k, unit) doing" where
  "cmdSetup W args =
    seq (flags_of W [(''yes'', BoolFlag)] ''gh stories setup [--yes]'' args) (\<lambda>(vals, rest).
    seq (each out [''Everything works under `gh stories` with no setup.'', '''',
      ''This adds a convenience alias so the singular form works too:'', '''', ''    gh alias set story stories'', '''',
      ''Then `gh story post cat.jpg` does the same as `gh stories post cat.jpg`.'', '''']) (\<lambda>_.
    seq (refuse (\<not> ce_gh W) (CliError ''the GitHub CLI (gh) is not on your PATH, so the alias cannot be set'')) (\<lambda>_.
    case existingAlias W ''story'' of
      Some existing \<Rightarrow> each out [''You already have an alias for `story`:'', ''    story: '' @ existing, '''', ''Leaving it alone. Nothing was changed.'']
    | None \<Rightarrow>
        if ce_builtin W ''story'' then out ''`gh story` is already a real gh command. Leaving it alone.''
        else if \<not> bool_flag vals ''yes'' False \<and> interactive W then
          seq (show_this (ErrLine ''Set the alias now? [y/N] '')) (\<lambda>_.
          if lower (TrimSpace (ce_answer W)) \<noteq> ''y'' then out ''Nothing was changed.'' else set_alias W)
        else if \<not> bool_flag vals ''yes'' False then out ''Run with --yes to set it noninteractively.''
        else set_alias W)))"

section \<open>People and settings\<close>

definition relation_call :: "string \<Rightarrow> connection \<Rightarrow> string \<Rightarrow> ('k, string \<times> string) doing option" where
  "relation_call verb x login =
    (let did = (\<lambda>f before rest. Some (seq (calls f) (\<lambda>_. gives (before, rest)))) in
     if verb = ''follow'' then
       Some (seq (calls (Follow_call x login)) (\<lambda>_. gives (''Following '', '' on Stories. This did not change who you follow on GitHub.'')))
     else if verb = ''unfollow'' then did (Unfollow_call x login) ''Unfollowed '' ''. A later GitHub import will not undo this.''
     else if verb = ''mute'' then did (Mute_call x login) ''Muted '' ''. They can still see your Stories; you just will not see theirs.''
     else if verb = ''unmute'' then did (Unmute_call x login) ''Unmuted '' ''.''
     else if verb = ''block'' then did (Block_call x login) ''Blocked '' (''. Neither of you can see the other'' @ [CHR 0x27] @ ''s Stories or interact.'')
     else if verb = ''unblock'' then did (Unblock_call x login) ''Unblocked '' ''.''
     else None)"

text \<open>\<^verbatim>\<open>TrimPrefix(s, "@")\<close> is \<open>trim_at\<close>.\<close>

definition relationCommand :: "'k cli_env \<Rightarrow> string \<Rightarrow> string list \<Rightarrow> ('k, unit) doing" where
  "relationCommand W verb args =
    (let use = ''gh stories '' @ verb @ '' @alice'' in
     seq (args_of W globalFlags use args) (\<lambda>(vals, parsed).
     seq (refuse (length parsed \<noteq> 1) (Usage use)) (\<lambda>_.
     let login = trim_at (hd parsed) in
     seq (openSession W (text_flag vals ''service'' '''') (bool_flag vals ''json'' False) ''auto'') (\<lambda>sess.
     case relation_call verb (ss_Client sess) login of
       None \<Rightarrow> stops (Usage (''unknown command '' @ ce_quote W verb))
     | Some act \<Rightarrow> seq act (\<lambda>(before, rest). status_line (before @ shorten W login 39 @ rest))))))"

text \<open>\<open>None\<close> is the nil slice of an absent value.\<close>

definition parseMembers :: "string \<Rightarrow> string list option" where
  "parseMembers raw =
    (if TrimSpace raw = '''' then None
     else Some (filter (\<lambda>l. l \<noteq> '''') (map (\<lambda>p. trim_at (TrimSpace p)) (split_on (CHR '','') raw))))"

definition members_list :: "string list option \<Rightarrow> string list" where
  "members_list m = (case m of None \<Rightarrow> [] | Some xs \<Rightarrow> xs)"

definition onOff :: "'k cli_env \<Rightarrow> string \<Rightarrow> cli_error + bool option" where
  "onOff W v =
    (let w = lower (TrimSpace v) in
     if w = '''' then Inr None
     else if w \<in> {''on'', ''yes'', ''true''} then Inr (Some True)
     else if w \<in> {''off'', ''no'', ''false''} then Inr (Some False)
     else Inl (Usage (''expected on or off, got '' @ ce_quote W v)))"

definition onOffLabel :: "bool \<Rightarrow> string" where "onOffLabel v = (if v then ''on'' else ''off'')"

definition audienceLabel :: "'k cli_env \<Rightarrow> string \<Rightarrow> string" where
  "audienceLabel W v =
    (if v = ''followers_of_author'' then ''People I follow''
     else if v = ''author_follows'' then ''My followers''
     else if v = ''mutuals'' then ''Mutuals''
     else if v = ''custom_list'' then ''Custom list''
     else if v = ''public'' then ''Public '' @ em_dash @ '' anyone signed in''
     else ce_quote W v)"

text \<open>The audience of a flag, as the API names it, and the name of a list.\<close>

definition parseAudience :: "'k cli_env \<Rightarrow> string \<Rightarrow> cli_error + string \<times> string" where
  "parseAudience W v =
    (let w = lower (TrimSpace v) in
     if w = '''' then Inr ('''', '''')
     else if w = ''people-i-follow'' \<or> w = ''following'' then Inr (''followers_of_author'', '''')
     else if w = ''my-followers'' \<or> w = ''followers'' then Inr (''author_follows'', '''')
     else if w = ''mutuals'' then Inr (''mutuals'', '''')
     else if w = ''public'' then Inr (''public'', '''')
     else if HasPrefix v ''list:'' \<and> drop 5 v \<noteq> '''' then Inr (''custom_list'', drop 5 v)
     else Inl (Usage (''unknown audience '' @ ce_quote W v @ ''. Use people-i-follow, my-followers, mutuals, list:NAME or public'')))"

definition findAudienceList :: "'k cli_env \<Rightarrow> session \<Rightarrow> string \<Rightarrow> ('k, cliAudienceList) doing" where
  "findAudienceList W sess name =
    seq (calls (AudienceLists_call (ss_Client sess))) (\<lambda>lists.
    case find (\<lambda>l. ce_equalfold W (co_Name l) name) lists of
      Some l \<Rightarrow> gives l
    | None \<Rightarrow>
        if lists = [] then
          stops (CliError (''you have no audience lists yet. Create one with: gh stories settings --create-list '' @ ce_quote W name))
        else stops (CliError (''you have no audience list called '' @ ce_quote W name @ ''. You have: '' @ join '', '' (map co_Name lists))))"

definition cli_resolveAudienceList :: "'k cli_env \<Rightarrow> session \<Rightarrow> string \<Rightarrow> ('k, string) doing" where
  "cli_resolveAudienceList W sess name = seq (findAudienceList W sess name) (\<lambda>l. gives (co_ID l))"

definition printPeople :: "'k cli_env \<Rightarrow> string \<Rightarrow> cliUser list \<Rightarrow> ('k, unit) doing" where
  "printPeople W title people =
    provided (people \<noteq> []) (each out ('''' # title # map (\<lambda>p. ''  '' @ shorten W (cu_Login p) 39) people))"

text \<open>What the flags change about other people and sessions.\<close>

definition settings_people :: "session \<Rightarrow> flag_values \<Rightarrow> ('k, unit) doing" where
  "settings_people sess vals =
    (let x = ss_Client sess; hide = text_flag vals ''hide-from'' ''''; unhide = text_flag vals ''unhide-from'' '''';
         revoke = text_flag vals ''revoke-session'' '''' in
     seq (provided (hide \<noteq> '''') (seq (calls (Hide_call x (trim_at hide))) (\<lambda>_. status_line (''Hidden from '' @ trim_at hide @ ''.'')))) (\<lambda>_.
     seq (provided (unhide \<noteq> '''')
       (seq (calls (Unhide_call x (trim_at unhide))) (\<lambda>_. status_line (''No longer hidden from '' @ trim_at unhide @ ''.'')))) (\<lambda>_.
     provided (revoke \<noteq> '''') (seq (calls (RevokeSession_call x revoke)) (\<lambda>_. status_line ''Session revoked.'')))))"

definition no_list :: cliAudienceList where "no_list = \<lparr>co_ID = '''', co_Name = '''', co_Members = [], co_MemberCount = 0\<rparr>"

definition list_result :: "cliAudienceList option \<Rightarrow> cliAudienceList" where
  "list_result l = (case l of None \<Rightarrow> no_list | Some l \<Rightarrow> l)"

definition settings_create_list :: "'k cli_env \<Rightarrow> session \<Rightarrow> flag_values \<Rightarrow> ('k, unit) doing" where
  "settings_create_list W sess vals =
    (let name = text_flag vals ''create-list'' ''''; logins = members_list (parseMembers (text_flag vals ''members'' '''')) in
     provided (name \<noteq> '''')
       (seq (calls (CreateAudienceList_call (ss_Client sess) name logins)) (\<lambda>l.
        let l = list_result l in
        seq (status_line (''Created the list '' @ ce_quote W (shorten W (co_Name l) 60) @ '' with '' @ decimal (co_MemberCount l) @ '' member(s).'')) (\<lambda>_.
        provided (co_MemberCount l < int (length logins))
          (status_line ''Some logins were skipped because no such account has signed up yet.'')))))"

text \<open>The members of a list are replaced only when the flag was given, possibly as empty.\<close>

definition settings_members :: "'k cli_env \<Rightarrow> session \<Rightarrow> flag_values \<Rightarrow> ('k, unit) doing" where
  "settings_members W sess vals =
    (let name = text_flag vals ''list'' ''''; logins = members_list (parseMembers (text_flag vals ''members'' '''')) in
     provided (name \<noteq> '''')
       (seq (findAudienceList W sess name) (\<lambda>l.
        seq (refuse (map_of vals ''members'' = None)
          (Usage (''say who should be on the list: --list '' @ ce_quote W name @ '' --members @maya,@sam (use --members \"\" to empty it)''))) (\<lambda>_.
        seq (calls (UpdateAudienceList_call (ss_Client sess) (co_ID l) None (Some logins))) (\<lambda>u.
        let u = list_result u in
        if co_MemberCount u = 0 then
          status_line (ce_quote W (shorten W (co_Name u) 60) @ '' is now empty. Nobody can see Stories posted to it.'')
        else status_line (ce_quote W (shorten W (co_Name u) 60) @ '' now has '' @ decimal (co_MemberCount u) @ '' member(s).'')))))) "

definition settings_delete_list :: "'k cli_env \<Rightarrow> session \<Rightarrow> flag_values \<Rightarrow> ('k, unit) doing" where
  "settings_delete_list W sess vals =
    (let name = text_flag vals ''delete-list'' '''' in
     provided (name \<noteq> '''')
       (seq (findAudienceList W sess name) (\<lambda>l.
        seq (calls (DeleteAudienceList_call (ss_Client sess) (co_ID l))) (\<lambda>_.
        status_line (''Deleted the list '' @ ce_quote W (shorten W (co_Name l) 60) @ ''. Stories already posted to it keep their audience.'')))))"

definition no_update :: cliSettingsUpdate where
  "no_update = \<lparr>dn_DefaultVisibility = None, dn_DefaultAudienceListID = None, dn_DefaultAllowReplies = None, dn_DefaultAllowReactions = None\<rparr>"

definition settings_update :: "'k cli_env \<Rightarrow> session \<Rightarrow> flag_values \<Rightarrow> ('k, cliSettingsUpdate) doing" where
  "settings_update W sess vals =
    (let aud = text_flag vals ''default-audience'' '''' in
     seq (if aud = '''' then gives no_update
       else seq (value_of (parseAudience W aud)) (\<lambda>(vis, name).
         if name = '''' then gives (no_update\<lparr>dn_DefaultVisibility := Some vis\<rparr>)
         else seq (cli_resolveAudienceList W sess name) (\<lambda>i.
           gives (no_update\<lparr>dn_DefaultVisibility := Some vis, dn_DefaultAudienceListID := Some i\<rparr>)))) (\<lambda>upd.
     seq (value_of (onOff W (text_flag vals ''replies'' ''''))) (\<lambda>re.
     seq (value_of (onOff W (text_flag vals ''reactions'' ''''))) (\<lambda>ra.
     gives (upd\<lparr>dn_DefaultAllowReplies := re, dn_DefaultAllowReactions := ra\<rparr>)))))"

definition no_settings :: cliSettings where
  "no_settings = \<lparr>cn_DefaultVisibility = '''', cn_DefaultAudienceListID = '''', cn_DefaultAllowReplies = False, cn_DefaultAllowReactions = False,
    cn_AudienceLists = [], cn_HiddenFrom = [], cn_Muted = [], cn_Blocked = [], cn_Sessions = [], cn_ReplyRetentionDays = 0\<rparr>"

definition print_settings :: "'k cli_env \<Rightarrow> cliSettings \<Rightarrow> ('k, unit) doing" where
  "print_settings W st =
    seq (each out [''Defaults for new Stories'', ''  audience           '' @ audienceLabel W (cn_DefaultVisibility st),
      ''  replies            '' @ onOffLabel (cn_DefaultAllowReplies st), ''  reactions          '' @ onOffLabel (cn_DefaultAllowReactions st), '''',
      ''Every Story disappears 24 hours after it is published.'',
      ''Private replies are kept for '' @ decimal (cn_ReplyRetentionDays st) @ '' days, then deleted.'', '''', ''Audience lists'']) (\<lambda>_.
    seq (if cn_AudienceLists st = [] then
        out (''  (none) '' @ em_dash @ '' create one with: gh stories settings --create-list \"close friends\" --members @maya,@sam'')
      else each out (map (\<lambda>l. ''  '' @ pad_right 20 (shorten W (co_Name l) 20) @ '' '' @ decimal (co_MemberCount l) @ '' member(s)  ''
          @ shorten W (join '', '' (map cu_Login (co_Members l))) 48) (cn_AudienceLists st)
        @ ['''', ''  Post to one with: gh stories post photo.jpg --audience list:NAME''])) (\<lambda>_.
    seq (printPeople W ''Hidden from'' (cn_HiddenFrom st)) (\<lambda>_.
    seq (printPeople W ''Muted'' (cn_Muted st)) (\<lambda>_.
    seq (printPeople W ''Blocked'' (cn_Blocked st)) (\<lambda>_.
    provided (cn_Sessions st \<noteq> []) (each out ('''' # ''Active sessions'' # map (\<lambda>z. ''  '' @ (if cs_Current z then ''*'' else '' '') @ '' ''
        @ pad_right 36 (cs_ID z) @ '' '' @ pad_right 18 (cs_ClientKind z) @ '' '' @ shorten W (cs_ClientLabel z) 32) (cn_Sessions st)
      @ ['''', ''  * this session. Revoke another with: gh stories settings --revoke-session ID'']))))))) "

definition settings_flags :: flags where
  "settings_flags = globalFlags @ map (\<lambda>n. (n, TextFlag)) [''default-audience'', ''replies'', ''reactions'', ''hide-from'', ''unhide-from'',
    ''revoke-session'', ''create-list'', ''delete-list'', ''list'', ''members'']"

definition cmdSettings :: "'k cli_env \<Rightarrow> string list \<Rightarrow> ('k, unit) doing" where
  "cmdSettings W args =
    seq (flags_of W settings_flags
      (''gh stories settings [--default-audience '' @ dots @ ''] [--replies on|off]'') args) (\<lambda>(vals, rest).
    seq (openSession W (text_flag vals ''service'' '''') (bool_flag vals ''json'' False) ''auto'') (\<lambda>sess.
    seq (settings_people sess vals) (\<lambda>_.
    seq (settings_create_list W sess vals) (\<lambda>_.
    seq (settings_members W sess vals) (\<lambda>_.
    seq (settings_delete_list W sess vals) (\<lambda>_.
    seq (settings_update W sess vals) (\<lambda>upd.
    seq (provided (upd \<noteq> no_update) (seq (calls (UpdateSettings_call (ss_Client sess) upd)) (\<lambda>_. status_line ''Updated.''))) (\<lambda>_.
    seq (calls (Settings_call (ss_Client sess))) (\<lambda>st.
    if ss_JSON sess then show_this (Json (SettingsJson st))
    else print_settings W (case st of None \<Rightarrow> no_settings | Some st \<Rightarrow> st))))))))))"

section \<open>Interacting with a Story\<close>

text \<open>\<^verbatim>\<open>relativeAge\<close>: the time since, in its largest unit.\<close>

definition relativeAge :: "time \<Rightarrow> time \<Rightarrow> string" where
  "relativeAge now t =
    (let d = now - t in
     if d < Minute then ''now''
     else if d < Hour then decimal (d div Minute) @ ''m''
     else if d < 24 * Hour then decimal (d div Hour) @ ''h''
     else decimal (d div (24 * Hour)) @ ''d'')"

definition describeItem :: "'k cli_env \<Rightarrow> time \<Rightarrow> cliStory \<Rightarrow> string" where
  "describeItem W now it =
    join dot ([ci_MediaKind it] @ (case ci_PublishedAt it of None \<Rightarrow> [] | Some t \<Rightarrow> [relativeAge now t])
      @ (if ci_Caption it \<noteq> '''' then [encode_rune 0x201C @ shorten W (ci_Caption it) 40 @ encode_rune 0x201D] else []))"

definition group_items :: "cliGroup option \<Rightarrow> cliStory list" where
  "group_items g = (case g of None \<Rightarrow> [] | Some g \<Rightarrow> cg_Items g)"

text \<open>The answer at the prompt as an index; an empty one is the first.\<close>

definition chosen_index :: "string \<Rightarrow> nat \<Rightarrow> nat option" where
  "chosen_index answer n =
    (let a = TrimSpace answer in
     if a = '''' then Some 0
     else (case scan_int a of
         None \<Rightarrow> None
       | Some i \<Rightarrow> if i < 1 \<or> int n < i then None else Some (nat (i - 1))))"

definition with_clock :: "'k cli_env \<Rightarrow> ('k, time) doing" where "with_clock W s = (Inr (ce_now W (st_wire s)), s)"

definition cli_resolveTarget :: "'k cli_env \<Rightarrow> session \<Rightarrow> string \<Rightarrow> string list \<Rightarrow> string \<Rightarrow> ('k, string \<times> string list) doing" where
  "cli_resolveTarget W sess storyFlag args action =
    (if storyFlag \<noteq> '''' then gives (storyFlag, args)
     else if args = [] \<or> \<not> HasPrefix (hd args) ''@'' then
       stops (Usage (''say who or what to '' @ action @ '': gh stories '' @ action @ '' @alice \"'' @ dots @ ''\"  or  --story STORY_ID''))
     else (let login = trim_at (hd args); rest = tl args in
       seq (calls (UserStories_call (ss_Client sess) login)) (\<lambda>group.
       seq (with_clock W) (\<lambda>now.
       let live = filter (\<lambda>it. ci_State it = ''published'') (group_items group); n = decimal (int (length live)) in
       case live of
         [] \<Rightarrow> stops (CliError (login @ '' has no active Stories you can see''))
       | [it] \<Rightarrow>
           seq (status_line (action @ '' '' @ arrow @ '' '' @ login @ '' '' @ describeItem W now it)) (\<lambda>_. gives (ci_ID it, rest))
       | _ \<Rightarrow>
           if \<not> interactive W \<or> ss_JSON sess then
             seq (out (login @ '' has '' @ n @ '' active Stories:'')) (\<lambda>_.
             seq (each (\<lambda>it. out (''  '' @ ci_ID it @ ''  '' @ describeItem W now it)) live) (\<lambda>_.
             stops (Usage ''more than one Story matches; pass --story STORY_ID'')))
           else
             seq (out (login @ '' has '' @ n @ '' active Stories:'')) (\<lambda>_.
             seq (each (\<lambda>(i, it). out (''  '' @ decimal (int i + 1) @ '') '' @ ci_ID it @ ''  '' @ describeItem W now it)) (enumerate 0 live)) (\<lambda>_.
             seq (show_this (ErrLine ''Which one? [1] '')) (\<lambda>_.
             case chosen_index (ce_answer W) (length live) of
               None \<Rightarrow> stops (CliError ''that was not one of the choices'')
             | Some i \<Rightarrow> gives (ci_ID (live ! i), rest))))))))"

definition story_flags :: flags where "story_flags = globalFlags @ [(''story'', TextFlag)]"

definition cmdReply :: "'k cli_env \<Rightarrow> string list \<Rightarrow> ('k, unit) doing" where
  "cmdReply W args =
    seq (args_of W story_flags ''gh stories reply @alice \"lmao\"   or   gh stories reply --story ID \"lmao\"'' args) (\<lambda>(vals, parsed).
    seq (openSession W (text_flag vals ''service'' '''') (bool_flag vals ''json'' False) ''auto'') (\<lambda>sess.
    seq (cli_resolveTarget W sess (text_flag vals ''story'' '''') parsed ''reply'') (\<lambda>(storyID, rest).
    let body = TrimSpace (join '' '' rest) in
    seq (refuse (body = '''') (Usage ''write something: gh stories reply @alice \"lmao\"'')) (\<lambda>_.
    seq (calls (Reply_call (ss_Client sess) storyID body '''')) (\<lambda>reply.
    if ss_JSON sess then show_this (Json (ReplyJson reply)) else status_line ''Sent.'')))))"

definition cmdReact :: "'k cli_env \<Rightarrow> string list \<Rightarrow> ('k, unit) doing" where
  "cmdReact W args =
    seq (args_of W (story_flags @ [(''remove'', BoolFlag)]) (''gh stories react @alice '' @ [CHR 0x27] @ encode_rune 0x2764 @ encode_rune 0xFE0F @ [CHR 0x27]) args) (\<lambda>(vals, parsed).
    seq (openSession W (text_flag vals ''service'' '''') (bool_flag vals ''json'' False) ''auto'') (\<lambda>sess.
    seq (cli_resolveTarget W sess (text_flag vals ''story'' '''') parsed ''react to'') (\<lambda>(storyID, rest).
    if bool_flag vals ''remove'' False then
      seq (calls (ClearReaction_call (ss_Client sess) storyID)) (\<lambda>_. status_line ''Reaction removed.'')
    else
      seq (refuse (rest = []) (Usage (''pick one of: '' @ join '' '' Reactions))) (\<lambda>_.
      let emoji = TrimSpace (hd rest) in
      seq (refuse (\<not> ValidReaction emoji) (Usage (ce_quote W emoji @ '' is not available. Pick one of: '' @ join '' '' Reactions))) (\<lambda>_.
      seq (calls (SetReaction_call (ss_Client sess) storyID emoji '''')) (\<lambda>reaction.
      if ss_JSON sess then show_this (Json (ReactionJson reaction)) else status_line (''Reacted '' @ emoji)))))))"

definition cmdDelete :: "'k cli_env \<Rightarrow> string list \<Rightarrow> ('k, unit) doing" where
  "cmdDelete W args =
    seq (args_of W globalFlags ''gh stories delete STORY_ID'' args) (\<lambda>(vals, parsed).
    seq (refuse (length parsed \<noteq> 1) (Usage ''gh stories delete STORY_ID'')) (\<lambda>_.
    seq (openSession W (text_flag vals ''service'' '''') False ''auto'') (\<lambda>sess.
    seq (calls (DeleteStory_call (ss_Client sess) (hd parsed))) (\<lambda>_.
    status_line ''Deleted. It is no longer served, and its files are scheduled for removal.''))))"

definition no_viewers :: cliViewerList where "no_viewers = \<lparr>cl_StoryID = '''', cl_Total = 0, cl_Viewers = []\<rparr>"

definition cmdViewers :: "'k cli_env \<Rightarrow> string list \<Rightarrow> ('k, unit) doing" where
  "cmdViewers W args =
    seq (args_of W globalFlags ''gh stories viewers STORY_ID'' args) (\<lambda>(vals, parsed).
    seq (refuse (length parsed \<noteq> 1) (Usage ''gh stories viewers STORY_ID'')) (\<lambda>_.
    seq (openSession W (text_flag vals ''service'' '''') (bool_flag vals ''json'' False) ''auto'') (\<lambda>sess.
    seq (calls (Viewers_call (ss_Client sess) (hd parsed))) (\<lambda>l.
    if ss_JSON sess then show_this (Json (ViewersJson l))
    else (let l = (case l of None \<Rightarrow> no_viewers | Some l \<Rightarrow> l) in
      if cl_Total l = 0 then out ''No views yet.''
      else seq (out (decimal (cl_Total l) @ '' viewer(s)'')) (\<lambda>_.
        each (\<lambda>v. out (''  '' @ shorten W (cu_Login (cw_User v)) 24 @ (if cw_Reaction v \<noteq> '''' then ''  '' @ cw_Reaction v else '''')))
          (cl_Viewers l)))))))"

definition inbox_line :: "'k cli_env \<Rightarrow> cliInboxEntry \<Rightarrow> string" where
  "inbox_line W e =
    (let detail =
       (if ce_Kind e = ''reply'' then ''replied: '' @ shorten W (ce_Body e) 48
        else if ce_Kind e = ''reaction'' then ''reacted '' @ ce_Emoji e
        else if ce_Kind e = ''follow'' then ''started following you'' else '''') in
     (if ce_ReadAt e = None then bullet else '' '') @ '' '' @ pad_right 18 (shorten W (cu_Login (ce_Actor e)) 18) @ '' '' @ detail
       @ (if ce_StoryExpired e \<and> ce_Kind e \<noteq> ''follow'' then ''  (Story expired)'' else ''''))"

definition cmdInbox :: "'k cli_env \<Rightarrow> string list \<Rightarrow> ('k, unit) doing" where
  "cmdInbox W args =
    seq (flags_of W (globalFlags @ [(''read'', BoolFlag)]) ''gh stories inbox [--read]'' args) (\<lambda>(vals, rest).
    seq (openSession W (text_flag vals ''service'' '''') (bool_flag vals ''json'' False) ''auto'') (\<lambda>sess.
    seq (calls (Inbox_call (ss_Client sess) '''' 30)) (\<lambda>inbox.
    let entries = (case inbox of None \<Rightarrow> [] | Some b \<Rightarrow> cb_Entries b); unread = (case inbox of None \<Rightarrow> 0 | Some b \<Rightarrow> cb_Unread b) in
    seq (if ss_JSON sess then show_this (Json (InboxJson inbox))
      else if entries = [] then out ''Nothing in your inbox.''
      else each out (map (inbox_line W) entries @ ['''', decimal unread @ '' unread''])) (\<lambda>_.
    provided (bool_flag vals ''read'' False)
      (seq (calls (InboxRead_call (ss_Client sess) [] True)) (\<lambda>_. status_line ''Marked all as read.''))))))"

definition cmdReport :: "'k cli_env \<Rightarrow> string list \<Rightarrow> ('k, unit) doing" where
  "cmdReport W args =
    seq (flags_of W (story_flags @ [(''user'', TextFlag), (''reason'', TextFlag), (''details'', TextFlag)])
      (''gh stories report --story STORY_ID [--reason '' @ dots @ '']'') args) (\<lambda>(vals, rest).
    let story = text_flag vals ''story'' ''''; login = text_flag vals ''user'' '''' in
    seq (refuse (story = '''' \<and> login = '''') (Usage ''gh stories report --story STORY_ID   or   --user @alice'')) (\<lambda>_.
    seq (openSession W (text_flag vals ''service'' '''') (bool_flag vals ''json'' False) ''auto'') (\<lambda>sess.
    seq (calls (CreateReport_call (ss_Client sess)
      \<lparr>cq_SubjectKind = (if story \<noteq> '''' then ''story'' else ''user''), cq_StoryID = story,
       cq_Login = (if story \<noteq> '''' then '''' else trim_at login), cq_Reason = text_flag vals ''reason'' ''other'',
       cq_Details = text_flag vals ''details'' ''''\<rparr>)) (\<lambda>report.
    if ss_JSON sess then show_this (Json (ReportJson report)) else status_line ''Reported. A moderator will look at it.''))))"

section \<open>Posting\<close>

definition maxUpload :: int where "maxUpload = 100 * 1024 * 1024"

text \<open>The bytes of the source, at most the limit and not none, with their number and checksum.\<close>

definition spool :: "'k cli_env \<Rightarrow> string \<Rightarrow> int \<Rightarrow> cli_error + string \<times> int \<times> string" where
  "spool W source cap =
    (case ce_source W source of
       Inl e \<Rightarrow> Inl (CliError e)
     | Inr bytes \<Rightarrow>
         (let copied = take (nat (cap + 1)) bytes; n = int (length copied) in
          if cap < n then Inl (CliError (''that file is larger than the '' @ decimal (cap div (1024 * 1024)) @ '' MB limit''))
          else if n = 0 then Inl (CliError ''there was nothing to post'')
          else Inr (copied, n, ce_sha256 W copied)))"

text \<open>\<^verbatim>\<open>filepath.Base\<close> of a name.\<close>

definition base_name :: "string \<Rightarrow> string" where
  "base_name p =
    (let q = rev (dropWhile (\<lambda>c. c = CHR ''/'') (rev p)) in
     if p = '''' then ''.'' else if q = '''' then ''/'' else rev (takeWhile (\<lambda>c. c \<noteq> CHR ''/'') (rev q)))"

definition post_flags :: flags where
  "post_flags = globalFlags @ [(''caption'', TextFlag), (''description'', TextFlag), (''audience'', TextFlag), (''filename'', TextFlag),
    (''no-replies'', BoolFlag), (''no-reactions'', BoolFlag), (''wait'', BoolFlag), (''wait-timeout'', DurationFlag)]"

text \<open>What is checked and resolved before a byte is sent.\<close>

definition post_request :: "'k cli_env \<Rightarrow> session \<Rightarrow> flag_values \<Rightarrow> string \<Rightarrow> ('k, UploadRequest) doing" where
  "post_request W sess vals source =
    seq (value_of (spool W source maxUpload)) (\<lambda>(bytes, n, sum).
    case Sniff (take 512 bytes) of
      None \<Rightarrow> stops (CliError ''that file is not a supported image or video (JPEG, PNG, WebP, GIF, MP4 or WebM)'')
    | Some mime \<Rightarrow>
        (let named = text_flag vals ''filename'' ''''; advisory = (if named = '''' \<and> source \<noteq> ''-'' then base_name source else named) in
         seq (value_of (parseAudience W (text_flag vals ''audience'' ''''))) (\<lambda>(vis, name).
         seq (if vis \<noteq> '''' \<and> name \<noteq> '''' then cli_resolveAudienceList W sess name else gives '''') (\<lambda>listID.
         gives \<lparr>ur_Meta = \<lparr>cr_MIME = mime, cr_ByteSize = n, cr_Filename = advisory, cr_Caption = text_flag vals ''caption'' '''',
                 cr_AltText = text_flag vals ''description'' '''', cr_Visibility = vis, cr_AudienceListID = listID,
                 cr_AllowReplies = (if bool_flag vals ''no-replies'' False then Some False else None),
                 cr_AllowReactions = (if bool_flag vals ''no-reactions'' False then Some False else None)\<rparr>,
               ur_Reader = bytes, ur_Size = n, ur_ChecksumSHA256 = sum, ur_IdempotencyKey = ce_uuid W, ur_PollInterval = 0,
               ur_MaxWait = (case ce_duration W (text_flag vals ''wait-timeout'' ''10m0s'') of None \<Rightarrow> 10 * Minute | Some d \<Rightarrow> d)\<rparr>))))"

definition emitPosted :: "'k cli_env \<Rightarrow> cliStory option \<Rightarrow> bool \<Rightarrow> bool \<Rightarrow> ('k, unit) doing" where
  "emitPosted W item asJSON published =
    (if asJSON then show_this (Json (StoryJson item))
     else
       seq (if published \<and> state_of item = ''published'' then
           status_line (''Posted.'' @ (case item of None \<Rightarrow> '''' | Some it \<Rightarrow>
             (case ci_ExpiresAt it of None \<Rightarrow> '''' | Some t \<Rightarrow> '' It disappears '' @ ce_clock W t @ ''.'')))
         else status_line ''Accepted for processing. Track it with: gh stories'') (\<lambda>_.
       show_this (OutLine (case item of None \<Rightarrow> '''' | Some it \<Rightarrow> ci_ID it))))"

definition post_end :: "'k cli_env \<Rightarrow> flag_values \<Rightarrow> bool \<Rightarrow> cliStory option \<Rightarrow> ('k, unit) doing" where
  "post_end W vals asJSON item =
    (if \<not> bool_flag vals ''wait'' True then emitPosted W item asJSON False
     else if state_of item = ''failed'' then
       seq (provided asJSON (emitPosted W item True False)) (\<lambda>_.
       stops (ErrProcessingFailed (case item of None \<Rightarrow> '''' | Some it \<Rightarrow> ci_FailureMessage it)))
     else emitPosted W item asJSON True)"

text \<open>The upload itself, then what is said about it; the progress line is not modelled.\<close>

definition post_upload :: "'k cli_env \<Rightarrow> session \<Rightarrow> flag_values \<Rightarrow> UploadRequest \<Rightarrow> 'k cli_state \<Rightarrow> ((cli_error + unit) \<times> 'k cli_state) option" where
  "post_upload W sess vals req s =
    (case Upload (ss_Client sess) req (st_wire s) of
       None \<Rightarrow> None
     | Some (r, seen, h) \<Rightarrow>
         (let s = s\<lparr>st_wire := h\<rparr>;
              s = (if \<not> ss_JSON sess \<and> list_ex (\<lambda>i. state_of i = ''processing'') seen
                   then s\<lparr>st_shown := st_shown s @ [ErrLine (Sanitize (''uploaded. processing'' @ dots))]\<rparr> else s) in
          Some (case r of Inl e \<Rightarrow> (Inl (OfClient e), s) | Inr item \<Rightarrow> post_end W vals (ss_JSON sess) item s)))"

definition cmdPost :: "'k cli_env \<Rightarrow> string list \<Rightarrow> 'k cli_state \<Rightarrow> ((cli_error + unit) \<times> 'k cli_state) option" where
  "cmdPost W args s =
    (case seq (args_of W post_flags (''gh stories post <file|-> [--caption '' @ dots @ ''] [--audience '' @ dots @ '']'') args) (\<lambda>(vals, rest).
        seq (refuse (length rest \<noteq> 1) (Usage ''gh stories post <file|->   (use - to read from stdin)'')) (\<lambda>_.
        seq (openSession W (text_flag vals ''service'' '''') (bool_flag vals ''json'' False) ''auto'') (\<lambda>sess.
        seq (post_request W sess vals (hd rest)) (\<lambda>req. gives (vals, sess, req))))) s of
       (Inl e, s) \<Rightarrow> Some (Inl e, s)
     | (Inr (vals, sess, req), s) \<Rightarrow> post_upload W sess vals req s)"

section \<open>Viewing\<close>

definition print_group :: "'k cli_env \<Rightarrow> time \<Rightarrow> cliGroup \<Rightarrow> ('k, unit) doing" where
  "print_group W now g =
    each out (((if cg_HasUnseen g then bullet else '' '') @ '' '' @ pad_right 20 (shorten W (cu_Login (cg_Author g)) 20) @ '' ''
        @ decimal (int (length (cg_Items g))) @ '' item(s)'' @ (if cg_Muted g then '' (muted)'' else ''''))
      # map (\<lambda>it. ''    '' @ ci_ID it @ ''  '' @ pad_right 6 (case ci_PublishedAt it of None \<Rightarrow> '''' | Some t \<Rightarrow> relativeAge now t) @ '' ''
          @ pad_right 8 (ci_MediaKind it) @ '' '' @ shorten W (ci_Caption it) 48) (cg_Items g))"

definition printFeed :: "'k cli_env \<Rightarrow> cliGroup list \<Rightarrow> bool \<Rightarrow> ('k, unit) doing" where
  "printFeed W groups asJSON =
    (if asJSON then show_this (Json (GroupsJson groups))
     else if groups = [] then out ''No Stories right now.''
     else seq (with_clock W) (\<lambda>now. each (print_group W now) groups))"

definition no_cli_user :: cliUser where
  "no_cli_user = \<lparr>cu_GitHubID = 0, cu_Login = '''', cu_AvatarURL = '''', cu_ProfileURL = '''', cu_HasAccount = False\<rparr>"

definition no_cli_group :: cliGroup where
  "no_cli_group = \<lparr>cg_Author = no_cli_user, cg_Items = [], cg_HasUnseen = False, cg_Muted = False, cg_FollowProvenance = ''''\<rparr>"

definition view_groups :: "session \<Rightarrow> string \<Rightarrow> ('k, cliGroup list) doing" where
  "view_groups sess who =
    (if who \<noteq> '''' then
       seq (calls (UserStories_call (ss_Client sess) who)) (\<lambda>g. gives [case g of None \<Rightarrow> no_cli_group | Some g \<Rightarrow> g])
     else
       seq (calls (Feed_call (ss_Client sess) '''' 25 False)) (\<lambda>feed.
       gives (case feed of
           None \<Rightarrow> []
         | Some f \<Rightarrow> (case cf_Me f of Some me \<Rightarrow> if cg_Items me \<noteq> [] then [me] else [] | None \<Rightarrow> []) @ cf_Groups f)))"

text \<open>Every argument with an at sign names the account, the last one counts; the rest are flags.\<close>

definition cmdView :: "'k cli_env \<Rightarrow> string list \<Rightarrow> ('k, unit) doing" where
  "cmdView W args =
    (let ats = filter (\<lambda>a. HasPrefix a ''@'') args; who = (if ats = [] then '''' else trim_at (List.last ats)) in
     seq (flags_of W (globalFlags @ [(''video'', TextFlag)]) ''gh stories [@login] [--renderer M] [--json]''
       (filter (\<lambda>a. \<not> HasPrefix a ''@'') args)) (\<lambda>(vals, rest).
     let renderer = text_flag vals ''renderer'' ''auto''; asJSON = bool_flag vals ''json'' False in
     seq (openSession W (text_flag vals ''service'' '''') asJSON renderer) (\<lambda>sess.
     seq (view_groups sess who) (\<lambda>groups.
     if asJSON \<or> \<not> interactive W then printFeed W groups asJSON
     else if groups = [] then status_line ''No Stories right now. People you follow will show up here.''
     else
       seq (detectTerminal W renderer) (\<lambda>caps.
       show_this (Launched (New_Model groups 0 (Some (New_renderer caps)) caps (text_flag vals ''video'' ''auto'')
         (Some (\<lambda>storyID. ss_ServiceURL sess @ ''/s/'' @ storyID)) (Some (ce_browser W)))))))))"

text \<open>What the viewer fetches with: a picture of at most 64 MiB through the decoder of its size, and the
  calls, replies and reactions without a key.\<close>

definition fetcher_Media :: "(string \<Rightarrow> (int \<times> int) option) \<Rightarrow> connection \<Rightarrow> string \<Rightarrow> string \<Rightarrow> MediaMeta call" where
  "fetcher_Media img x storyID variant h =
    (case GetMedia x storyID variant '''' h of
       (Inl e, h) \<Rightarrow> (Inl e, h)
     | (Inr (None, info), h) \<Rightarrow> (Inl (NetworkError ''unexpected EOF''), h)
     | (Inr (Some body, info), h) \<Rightarrow>
         (let raw = take (64 * 1024 * 1024) body in
          ((case img raw of
              None \<Rightarrow> Inl (BadAnswer ''could not decode the media'')
            | Some (w, ht) \<Rightarrow> Inr (no_media_meta\<lparr>mm_Kind := variant, mm_ByteSize := int (length raw), mm_Width := w, mm_Height := ht,
                mm_IsVideo := (variant = ''poster'')\<rparr>)), h)))"

text \<open>The bytes of the file a video is downloaded to.\<close>

definition fetcher_MediaFile :: "connection \<Rightarrow> string \<Rightarrow> string \<Rightarrow> string call" where
  "fetcher_MediaFile x storyID variant h =
    (case GetMedia x storyID variant '''' h of
       (Inl e, h) \<Rightarrow> (Inl e, h)
     | (Inr (body, info), h) \<Rightarrow>
         ((case body of
             None \<Rightarrow> Inl (BadAnswer ''could not download the video'')
           | Some b \<Rightarrow>
               (let copied = take (200 * 1024 * 1024) b in
                if copied = '''' then Inl (BadAnswer ''could not download the video'') else Inr copied)), h))"

definition fetcher_Reply :: "connection \<Rightarrow> string \<Rightarrow> string \<Rightarrow> cliReply option call" where
  "fetcher_Reply x storyID body = Reply_call x storyID body ''''"

definition fetcher_React :: "connection \<Rightarrow> string \<Rightarrow> string \<Rightarrow> cliReaction option call" where
  "fetcher_React x storyID emoji = SetReaction_call x storyID emoji ''''"

definition fetcher_ClearReaction :: "connection \<Rightarrow> string \<Rightarrow> unit option call" where
  "fetcher_ClearReaction x storyID = ClearReaction_call x storyID"

definition fetcher_Viewers :: "connection \<Rightarrow> string \<Rightarrow> cliViewerList option call" where
  "fetcher_Viewers x storyID = Viewers_call x storyID"

definition fetcher_AckView :: "connection \<Rightarrow> string \<Rightarrow> unit option call" where
  "fetcher_AckView x storyID = AckView_call x storyID"

section \<open>Importing\<close>

definition no_summary :: cliImportSummary where
  "no_summary = \<lparr>cm_Enabled = False, cm_Account = no_cli_user, cm_NeedsGitHubAuthorization = False, cm_AuthorizationURL = '''', cm_Added = 0,
    cm_AlreadyFollowing = 0, cm_SkippedUnfollowed = 0, cm_SkippedBlocked = 0, cm_Sample = []\<rparr>"

definition print_import :: "cliImportSummary \<Rightarrow> ('k, unit) doing" where
  "print_import r =
    each out ([''Now following '' @ decimal (cm_Added r) @ '' new account(s).'']
      @ (if 0 < cm_AlreadyFollowing r then [decimal (cm_AlreadyFollowing r) @ '' you already followed here.''] else [])
      @ (if 0 < cm_SkippedUnfollowed r then [decimal (cm_SkippedUnfollowed r) @ '' skipped because you unfollowed them here before.''] else [])
      @ (if 0 < cm_SkippedBlocked r then [decimal (cm_SkippedBlocked r) @ '' skipped because of a block.''] else [])
      @ (if cm_Sample r \<noteq> [] then [''For example: '' @ join '', '' (map cu_Login (cm_Sample r)) @ ''.''] else []))"

definition cmdImport :: "'k cli_env \<Rightarrow> string list \<Rightarrow> ('k, unit) doing" where
  "cmdImport W args =
    seq (flags_of W (globalFlags @ [(''no'', BoolFlag)]) ''gh stories import [--no]'' args) (\<lambda>(vals, rest).
    seq (refuse (rest \<noteq> []) (Usage ''gh stories import [--no]'')) (\<lambda>_.
    let decline = bool_flag vals ''no'' False in
    seq (openSession W (text_flag vals ''service'' '''') (bool_flag vals ''json'' False) ''auto'') (\<lambda>sess.
    seq (calls (ImportFollows_call (ss_Client sess) (\<not> decline))) (\<lambda>r.
    let result = (case r of None \<Rightarrow> no_summary | Some r \<Rightarrow> r) in
    if ss_JSON sess then show_this (Json (ImportJson r))
    else if decline then
      each out [''Not importing. You can still follow people one at a time:'', ''  gh stories follow maya'']
    else if cm_NeedsGitHubAuthorization result then
      (let url = (if cm_AuthorizationURL result = '''' then ss_ServiceURL sess @ ''/v1/auth/github/start?purpose=import''
         else cm_AuthorizationURL result) in
       seq (each out [''Importing reads who you follow on GitHub, so GitHub has to authorize it.'', '''', ''  Open: '' @ url, '''',
         ''You will see the summary there. This never changes who you follow on GitHub.'']) (\<lambda>_.
       provided (\<not> detectSSH W)
         (seq (openBrowser W url) (\<lambda>opened. provided opened (status_line ''Opened your browser.'')))))
    else print_import result))))"

section \<open>The commands\<close>

text \<open>What \<^verbatim>\<open>dispatch\<close> does with its arguments; \<open>None\<close> when a command never ends.  The report of
  \<^verbatim>\<open>doctor\<close> is a parameter.\<close>

definition cli_dispatch :: "'k cli_env \<Rightarrow> (string list \<Rightarrow> ('k, unit) doing) \<Rightarrow> string list \<Rightarrow> 'k cli_state \<Rightarrow> (int \<times> 'k cli_state) option" where
  "cli_dispatch W cmdDoctor args s =
    (case args of
       [] \<Rightarrow> run (Some (cmdView W [] s))
     | c # rest \<Rightarrow>
         if c \<in> {''-h'', ''--help'', ''help''} then Some (exitOK, s\<lparr>st_shown := st_shown s @ [UsageText True]\<rparr>)
         else if c \<in> {''version'', ''--version'', ''-v''} then
           Some (exitOK, s\<lparr>st_shown := st_shown s @ [OutLine (''gh-stories '' @ ce_version W), OutLine (''built '' @ ce_build W)]\<rparr>)
         else if c = ''login'' then run (cmdLogin W rest s)
         else if c = ''logout'' then run (Some (cmdLogout W rest s))
         else if c = ''setup'' then run (Some (cmdSetup W rest s))
         else if c = ''doctor'' then run (Some (cmdDoctor rest s))
         else if c = ''import'' then run (Some (cmdImport W rest s))
         else if c = ''post'' then run (cmdPost W rest s)
         else if c = ''reply'' then run (Some (cmdReply W rest s))
         else if c = ''react'' then run (Some (cmdReact W rest s))
         else if c = ''delete'' then run (Some (cmdDelete W rest s))
         else if c = ''viewers'' then run (Some (cmdViewers W rest s))
         else if c = ''inbox'' then run (Some (cmdInbox W rest s))
         else if c = ''report'' then run (Some (cmdReport W rest s))
         else if c = ''settings'' then run (Some (cmdSettings W rest s))
         else if c \<in> {''follow'', ''unfollow'', ''mute'', ''unmute'', ''block'', ''unblock''} then run (Some (relationCommand W c rest s))
         else if HasPrefix c ''@'' \<or> HasPrefix c ''-'' then run (Some (cmdView W args s))
         else Some (exitUsage, s\<lparr>st_shown := st_shown s
           @ [ErrLine (''gh stories: unknown command '' @ ce_quote W c), UsageText False]\<rparr>))"

end
