(* ===== verification/CliFacts.thy ===== *)
theory CliFacts
  imports CliCommands ClientFacts
begin

text \<open>
  What the command line keeps to: flags may stand anywhere, signing in ends and stores nothing but an
  approved token, a Story is never guessed, an error of the service has the documented exit code.  And
  where it does not do what it says.
\<close>

section \<open>Flags\<close>

definition not_flag :: "string \<Rightarrow> bool" where "not_flag a \<longleftrightarrow> length a < 2 \<or> \<not> HasPrefix a ''-''"

text \<open>A line of settings and positional arguments in any order.\<close>

inductive command_line ::
  "(string \<Rightarrow> duration option) \<Rightarrow> flags \<Rightarrow> string list \<Rightarrow> (string \<times> string) list \<Rightarrow> string list \<Rightarrow> bool" for dur fs where
  line_end: "command_line dur fs [] [] []"
| line_flag: "(\<And>zs. parseOne dur fs (g @ zs) = OneFlag n v zs) \<Longrightarrow> command_line dur fs xs us ps
    \<Longrightarrow> command_line dur fs (g @ xs) ((n, v) # us) ps"
| line_word: "not_flag a \<Longrightarrow> command_line dur fs xs us ps \<Longrightarrow> command_line dur fs (a # xs) us (a # ps)"

definition set_flags :: "(string \<times> string) list \<Rightarrow> flag_values \<Rightarrow> flag_values" where
  "set_flags us vals = fold (\<lambda>(n, v). AList.update n v) us vals"

lemma set_flags_Cons [simp]: "set_flags ((n, v) # us) vals = set_flags us (AList.update n v vals)"
  by (simp add: set_flags_def)

lemma parseOne_Nil [simp]: "parseOne dur fs [] = NoFlag []"
  by (simp add: parseOne_def)

lemma parseOne_word: "not_flag a \<Longrightarrow> parseOne dur fs (a # xs) = NoFlag (a # xs)"
  by (auto simp: parseOne_def not_flag_def)

lemma parseArgs_flag:
  assumes "\<And>zs. parseOne dur fs (g @ zs) = OneFlag n v zs"
  shows "parseArgs dur fs vals (g @ xs) = parseArgs dur fs (AList.update n v vals) xs"
proof -
  have "flag_parse dur fs vals (g @ xs) = flag_parse dur fs (AList.update n v vals) xs"
    by (subst flag_parse.simps) (simp add: assms)
  then show ?thesis
    by (subst parseArgs.simps, subst (2) parseArgs.simps) simp
qed

lemma parseArgs_line: "command_line dur fs args us ps \<Longrightarrow> parseArgs dur fs vals args = Some (set_flags us vals, ps)"
proof (induction arbitrary: vals rule: command_line.induct)
  case line_end
  then show ?case by (subst parseArgs.simps) (simp add: flag_parse.simps set_flags_def)
next
  case (line_flag g n v xs us ps)
  then show ?case using parseArgs_flag[OF line_flag.hyps(1)] by simp
next
  case (line_word a xs us ps)
  then show ?case by (subst parseArgs.simps) (simp add: flag_parse.simps parseOne_word)
qed

text \<open>C28. Flags may stand before, after and between the positional arguments: two command lines with the same
  flags in the same order and the same positional arguments in the same order parse to the same, however the two
  are interleaved, and nothing of either is dropped.\<close>

theorem flags_anywhere:
  assumes "command_line dur fs args us ps" and "command_line dur fs args' us ps"
  shows "parseArgs dur fs vals args = parseArgs dur fs vals args' \<and> parseArgs dur fs vals args = Some (set_flags us vals, ps)"
  using parseArgs_line[OF assms(1)] parseArgs_line[OF assms(2)] by simp

theorem flags_anywhere_witness:
  "parseArgs (\<lambda>d. None) post_flags [] [''cat.jpg'', ''--caption'', ''hi''] = parseArgs (\<lambda>d. None) post_flags [] [''--caption'', ''hi'', ''cat.jpg'']
    \<and> parseArgs (\<lambda>d. None) post_flags [] [''cat.jpg'', ''--caption'', ''hi''] = Some ([(''caption'', ''hi'')], [''cat.jpg''])"
proof -
  let ?line = "command_line (\<lambda>d. None) post_flags"
  have caption: "parseOne (\<lambda>d. None) post_flags ([''--caption'', ''hi''] @ zs) = OneFlag ''caption'' ''hi'' zs" for zs
    by (simp add: parseOne_def HasPrefix_def cut_value_def post_flags_def globalFlags_def Let_def)
  have word: "not_flag ''cat.jpg''" by (simp add: not_flag_def HasPrefix_def)
  have one: "?line [''cat.jpg'', ''--caption'', ''hi''] [(''caption'', ''hi'')] [''cat.jpg'']"
    using line_word[OF word line_flag[OF caption line_end]] by simp
  have two: "?line [''--caption'', ''hi'', ''cat.jpg''] [(''caption'', ''hi'')] [''cat.jpg'']"
    using line_flag[OF caption line_word[OF word line_end]] by simp
  have "set_flags [(''caption'', ''hi'')] [] = [(''caption'', ''hi'')]" by (simp add: set_flags_def)
  note evaluated = this
  show ?thesis using flags_anywhere[OF one two, of "[]"] unfolding evaluated .
qed

text \<open>The end of the flags holds for one argument only: what follows it is parsed for flags again.\<close>

theorem double_dash_protects_one_word:
  "parseArgs dur story_flags vals [''@alice'', ''--'', ''well'', ''-so''] = None"
proof -
  note run = flag_parse.simps parseOne_def HasPrefix_def cut_value_def story_flags_def globalFlags_def Let_def
  have "flag_parse dur story_flags vals [''@alice'', ''--'', ''well'', ''-so''] = Some (vals, [''@alice'', ''--'', ''well'', ''-so''])"
    "flag_parse dur story_flags vals [''--'', ''well'', ''-so''] = Some (vals, [''well'', ''-so''])"
    "flag_parse dur story_flags vals [''-so''] = None"
    by (simp_all add: run)
  note parses = this
  have "parseArgs dur story_flags vals [''-so''] = None" by (subst parseArgs.simps) (simp add: parses)
  then have "parseArgs dur story_flags vals [''--'', ''well'', ''-so''] = None" by (subst parseArgs.simps) (simp add: parses)
  then show ?thesis by (subst parseArgs.simps) (simp add: parses)
qed

text \<open>What the message about a missing service advises opens the viewer: flags before the command make the
  rest of the line the flags of the viewer, and the command is ignored.\<close>

theorem advice_opens_the_viewer:
  assumes "HasPrefix url ''https://''"
  shows "cli_dispatch W cmdDoctor [''--service'', url, ''login''] s = run (Some (cmdView W [''--service'', url] s))"
proof -
  obtain rest where url: "url = ''https://'' @ rest" using assms by (metis HasPrefix_def append_take_drop_id)
  have parse: "flag_parse (ce_duration W) (globalFlags @ [(''video'', TextFlag)]) [] [''--service'', url, ''login''] = Some ([(''service'', url)], [''login''])"
      "flag_parse (ce_duration W) (globalFlags @ [(''video'', TextFlag)]) [] [''--service'', url] = Some ([(''service'', url)], [])"
    by (simp_all add: flag_parse.simps parseOne_def HasPrefix_def cut_value_def globalFlags_def Let_def)
  have "filter (\<lambda>a. HasPrefix a ''@'') [''--service'', url, ''login''] = []" "filter (\<lambda>a. HasPrefix a ''@'') [''--service'', url] = []"
    "filter (\<lambda>a. \<not> HasPrefix a ''@'') [''--service'', url, ''login''] = [''--service'', url, ''login'']"
    "filter (\<lambda>a. \<not> HasPrefix a ''@'') [''--service'', url] = [''--service'', url]"
    by (simp_all add: HasPrefix_def url)
  then have "cmdView W [''--service'', url, ''login''] s = cmdView W [''--service'', url] s"
    unfolding cmdView_def Let_def flags_of_def seq_def value_of_def by (simp only: parse) simp
  then show ?thesis by (simp add: cli_dispatch_def HasPrefix_def)
qed

section \<open>Signing in ends\<close>

text \<open>A call that extends the history, waiting no negative time.\<close>

definition extends :: "'a call \<Rightarrow> bool" where
  "extends f \<longleftrightarrow> (\<forall>h. \<exists>es. snd (f h) = h @ es \<and> 0 \<le> slept_since 0 es)"

lemma request_extends: "extends (request_to x dec spec)"
  unfolding extends_def
proof
  fix h
  obtain r h' where c: "request_to x dec spec h = (r, h')" by fastforce
  then have "\<exists>es. h' = h @ es \<and> (\<forall>d. Slept d \<in> set es \<longrightarrow> 0 < d)"
    unfolding request_to_def by (elim do_call_ok) (auto simp: attempts_ok_def)
  with c show "\<exists>es. snd (request_to x dec spec h) = h @ es \<and> 0 \<le> slept_since 0 es" using slept_positive by auto
qed

lemma slept_Nil [simp]: "slept_since 0 [] = 0"
  by (simp add: slept_since_def)

lemma poll_extends: "extends (PollPendingLogin_call x i sec)" "extends (PollDeviceLogin_call x i)"
proof -
  have "extends (jsonReq x dec m p hs doc)" for dec m p hs doc
    using request_extends[of x dec] by (auto simp: extends_def jsonReq_def slept_since_def split: option.split intro: exI[of _ "[]"])
  then show "extends (PollPendingLogin_call x i sec)" "extends (PollDeviceLogin_call x i)"
    by (simp_all add: PollPendingLogin_call_def PollDeviceLogin_call_def postJSON_def)
qed

lemma poll_once_wire:
  assumes "poll_once W ask t s = (r, s')" and "extends ask" and "0 \<le> t"
  shows "\<exists>es. st_wire s' = st_wire s @ es \<and> t \<le> slept_since 0 es \<and> st_cred s' = st_cred s"
proof -
  obtain q h1 where a: "ask (st_wire s @ [Slept t]) = (q, h1)" by fastforce
  with assms(2)[unfolded extends_def, rule_format, of "st_wire s @ [Slept t]"]
  obtain es where es: "h1 = st_wire s @ [Slept t] @ es" "0 \<le> slept_since 0 es" by auto
  have sl: "slept_since 0 ([Slept t] @ es) = t + slept_since 0 es" by (simp add: slept_since_def)
  show ?thesis
  proof (cases "nw_sleep (ce_net W) (st_wire s) t")
    case None
    then have "s' = s\<lparr>st_wire := h1\<rparr>"
      using assms(1) a by (cases q) (auto simp: poll_once_def seq_def pause_def calls_def gives_def Let_def split: option.splits)
    then show ?thesis using es sl by (intro exI[of _ "[Slept t] @ es"]) simp
  next
    case (Some why)
    then have "s' = s\<lparr>st_wire := st_wire s @ [Slept t]\<rparr>"
      using assms(1) by (auto simp: poll_once_def seq_def pause_def Let_def)
    then show ?thesis by (intro exI[of _ "[Slept t]"]) (simp add: slept_since_def)
  qed
qed

lemma login_loop_ends:
  assumes "\<And>h es. ce_now W h + slept_since 0 es \<le> ce_now W (h @ es)" and "extends ask" and "0 < t"
  shows "\<exists>r. login_loop W sess ask dev t deadline s = Some r"
  using assms(3)
proof (induction "nat (deadline - ce_now W (st_wire s))" arbitrary: s t rule: less_induct)
  case less
  show ?case
  proof (cases "ce_now W (st_wire s) < deadline")
    case False
    then show ?thesis by (subst login_loop.simps) simp
  next
    case True
    obtain q s1 where p: "poll_once W ask t s = (q, s1)" by fastforce
    from poll_once_wire[OF p assms(2)] less.prems obtain es where es: "st_wire s1 = st_wire s @ es" "t \<le> slept_since 0 es" by auto
    have "ce_now W (st_wire s) + t \<le> ce_now W (st_wire s1)" using assms(1)[of "st_wire s" es] es by simp
    then have "nat (deadline - ce_now W (st_wire s1)) < nat (deadline - ce_now W (st_wire s))" using True less.prems by simp
    from less.hyps[OF this] less.prems
    have IH: "\<exists>r. login_loop W sess ask dev t deadline s1 = Some r" "\<exists>r. login_loop W sess ask dev (t + 5 * Second) deadline s1 = Some r"
      by auto
    show ?thesis using True IH by (subst login_loop.simps) (auto simp: p split: sum.split)
  qed
qed

lemma login_interval_pos: "Second \<le> fallback \<Longrightarrow> Second \<le> login_interval secs fallback"
  by (simp add: login_interval_def Let_def)

lemma cmdLogin_returns:
  assumes "\<And>h es. ce_now W h + slept_since 0 es \<le> ce_now W (h @ es)"
  shows "\<exists>r. cmdLogin W args s = Some r"
proof -
  have pos: "0 < login_interval n 5000000000" "0 < login_interval n 2000000000" for n
    using login_interval_pos[of "5 * Second" n] login_interval_pos[of "2 * Second" n] by auto
  note ends = login_loop_ends[OF assms poll_extends(1) pos(2)] login_loop_ends[OF assms poll_extends(2) pos(1)]
  show ?thesis
    unfolding cmdLogin_def cmdLoginDevice_def Let_def by (auto split: prod.split sum.split intro: ends simp del: split_paired_Ex)
qed

text \<open>C25. Signing in ends, whatever the service answers to the polls and even when nobody ever approves: the
  command returns as soon as the clock, which moves on by at least what was waited, has passed the deadline.\<close>

theorem login_ends:
  assumes "\<And>h es. ce_now W h + slept_since 0 es \<le> ce_now W (h @ es)"
  shows "\<exists>r. cmdLogin W args s = Some r"
  by (rule cmdLogin_returns[OF assms])

section \<open>Signing in stores approved tokens only\<close>

text \<open>Steps that leave the credential store alone.\<close>

definition keeps :: "('k, 'a) doing \<Rightarrow> bool" where "keeps m \<longleftrightarrow> (\<forall>s. st_cred (snd (m s)) = st_cred s)"

named_theorems keeping \<open>steps that leave the credential store alone\<close>

lemma keeps_steps [keeping]:
  "keeps (gives x)" "keeps (stops e)" "keeps (refuse b e)" "keeps (value_of r)" "keeps (calls f)" "keeps (show_this y)"
  "keeps (out line)" "keeps (status_line line)"
  by (auto simp: keeps_def gives_def stops_def refuse_def value_of_def calls_def show_this_def out_def status_line_def split: prod.split)

lemma keeps_seq [keeping]: "keeps m \<Longrightarrow> (\<And>x. keeps (f x)) \<Longrightarrow> keeps (seq m f)"
  unfolding keeps_def
proof
  fix s
  assume m: "\<forall>s. st_cred (snd (m s)) = st_cred s" and f: "\<And>x. \<forall>s. st_cred (snd (f x s)) = st_cred s"
  obtain r s1 where "m s = (r, s1)" by fastforce
  with m[rule_format, of s] f show "st_cred (snd (seq m f s)) = st_cred s" by (cases r) (simp_all add: seq_def)
qed

lemma keeps_if [keeping]: "keeps m \<Longrightarrow> keeps n \<Longrightarrow> keeps (if b then m else n)"
  by simp

lemma keeps_provided [keeping]: "keeps m \<Longrightarrow> keeps (provided b m)"
  by (simp add: provided_def keeps_steps)

lemma keeps_browser [keeping]: "keeps (openBrowser W url)" "keeps (offer_browser W b url)"
  unfolding openBrowser_def offer_browser_def by (intro keeping)+

lemma keeps_session [keeping]: "keeps (anonymousSession W url)" "keeps (flags_of W fs use args)"
  unfolding anonymousSession_def requireService_def flags_of_def Let_def by (intro keeping)+

lemma keeps_login [keeping]: "keeps (login_start W sess b)" "keeps (device_start W sess b)"
  unfolding login_start_def device_start_def Let_def by (intro keeping)+

lemma keepsD: "keeps m \<Longrightarrow> m s = (r, s') \<Longrightarrow> st_cred s' = st_cred s"
  by (auto simp: keeps_def dest: spec[of _ s])

lemma poll_once_cred: "poll_once W ask t s = (r, s') \<Longrightarrow> st_cred s' = st_cred s"
proof -
  have "keeps (poll_once W ask t)"
    unfolding poll_once_def by (intro keeping) (simp add: keeps_def pause_def Let_def)
  then show "poll_once W ask t s = (r, s') \<Longrightarrow> st_cred s' = st_cred s" by (rule keepsD)
qed

lemma of_client_Inr: "map_sum OfClient id x = Inr y \<longleftrightarrow> x = Inr y"
  by (cases x) simp_all

text \<open>The service answered a poll of this connection with this result.\<close>

definition answered :: "connection \<Rightarrow> cliLoginPoll \<Rightarrow> bool" where
  "answered x poll \<longleftrightarrow> (\<exists>h h' i sec. PollPendingLogin_call x i sec h = (Inr (Some poll), h') \<or> PollDeviceLogin_call x i h = (Inr (Some poll), h'))"

text \<open>The file backend was chosen, and its file is in order.\<close>

definition file_backend :: "'k cli_env \<Rightarrow> string \<Rightarrow> bool" where
  "file_backend W dir \<longleftrightarrow> lower (TrimSpace (getenv W EnvBackend)) = ''file'' \<and> configDir (ce_sys W) = Inr dir"

definition stored :: "'k cli_env \<Rightarrow> string \<Rightarrow> 'k cli_state \<Rightarrow> string \<Rightarrow> cred_error + Credential" where
  "stored W dir s = file_Load (ce_sys W) (dir @ ''/credentials.json'') (snd (st_cred s))"

lemma open_store_file:
  assumes "file_backend W dir" and "open_store W s = (r, s')" and "file_ok (ce_sys W) (dir @ ''/credentials.json'') (snd (st_cred s))"
  shows "(\<forall>st. r = Inr st \<longrightarrow> st = FileStore (dir @ ''/credentials.json''))
    \<and> file_ok (ce_sys W) (dir @ ''/credentials.json'') (snd (st_cred s')) \<and> stored W dir s' = stored W dir s"
proof -
  let ?p = "dir @ ''/credentials.json''" and ?sys = "ce_sys W"
  have "file_ok ?sys ?p ds' \<and> file_Load ?sys ?p ds' = file_Load ?sys ?p ds \<and> (\<forall>q. t = Inr q \<longrightarrow> q = ?p)"
    if "openFileStoreDir ?sys dir ds = (t, ds')" "file_ok ?sys ?p ds" for t ds ds'
    using that by (auto simp: openFileStoreDir_def Let_def file_ok_def tmp_private_def readAll_def file_Load_def fun_eq_iff
      split: if_splits option.splits)
  note dir = this
  obtain t ds' where o: "openFileStoreDir ?sys dir (snd (st_cred s)) = (t, ds')" by fastforce
  from assms(1,2) o have "s' = s\<lparr>st_cred := (fst (st_cred s), ds')\<rparr> \<and> (\<forall>st. r = Inr st \<longrightarrow> (\<exists>q. t = Inr q \<and> st = FileStore q))"
    by (auto simp: open_store_def Open_def open_file_def newFileStore_def file_backend_def getenv_def Let_def split: sum.splits)
  with dir[OF o assms(3)] show ?thesis by (auto simp: stored_def)
qed

lemma signed_in_stores:
  assumes "file_backend W dir" and "file_ok (ce_sys W) (dir @ ''/credentials.json'') (snd (st_cred s))" and "signed_in W sess poll s = (r, s')"
  shows "isl r \<and> stored W dir s' = stored W dir s
    \<or> \<not> isl r \<and> stored W dir s' = (stored W dir s)(ss_ServiceURL sess := Inr (new_credential sess (ce_now W (st_wire s)) poll))"
proof -
  let ?c = "new_credential sess (ce_now W (st_wire s)) poll" and ?p = "dir @ ''/credentials.json''"
  have url: "cd_ServiceURL ?c = ss_ServiceURL sess" by (simp add: new_credential_def)
  obtain q s1 where o: "open_store W s = (q, s1)" by fastforce
  note op = open_store_file[OF assms(1) o assms(2)]
  show ?thesis
  proof (cases q)
    case (Inl e)
    then show ?thesis using assms(3) o op by (auto simp: signed_in_def seq_def Let_def)
  next
    case (Inr st)
    with op have st: "st = FileStore ?p" by blast
    obtain t ds' where sv: "file_op (ce_sys W) ?p (SaveOp ?c) (snd (st_cred s1)) = (t, ds')" by fastforce
    from file_op_states[OF _ sv] op have load: "file_Load (ce_sys W) ?p ds' =
        (if isl t then stored W dir s else answer_after (SaveOp ?c) (stored W dir s))" by (auto simp: stored_def)
    have sv': "store_Save (ce_sys W) (ce_keyring W) st ?c (st_cred s1) = (t, fst (st_cred s1), ds')"
      using sv by (simp add: store_Save_def st)
    show ?thesis
    proof (cases t)
      case (Inl e)
      then show ?thesis using assms(3) o \<open>q = Inr st\<close> sv' load by (auto simp: signed_in_def seq_def save_cred_def stored_def Let_def)
    next
      case t: (Inr x)
      let ?s2 = "s1\<lparr>st_cred := (fst (st_cred s1), ds')\<rparr>"
      have rest: "signed_in W sess poll s =
          seq (status_line '''') (\<lambda>_. seq (status_line (''Signed in as '' @ cd_Login ?c @ ''.'')) (\<lambda>_. provided (Backend st \<noteq> ''keyring'')
            (seq (status_line ''No OS keyring was available, so the session was saved to a'') (\<lambda>_.
             status_line ''permission-restricted file instead. Run `gh stories doctor` for details.'')))) ?s2"
        using o \<open>q = Inr st\<close> sv' t by (simp add: signed_in_def seq_def save_cred_def Let_def)
      then have "r = Inr () \<and> st_cred s' = st_cred ?s2"
        using assms(3) by (auto simp: seq_def status_line_def show_this_def provided_def gives_def split: if_splits)
      then show ?thesis using load t url by (auto simp: stored_def fun_eq_iff)
    qed
  qed
qed

text \<open>How a login may end: the store as before, or with the token of an approved answer.\<close>

definition login_result ::
  "'k cli_env \<Rightarrow> string \<Rightarrow> session \<Rightarrow> cliLoginPoll option call \<Rightarrow> 'k cli_state \<Rightarrow> (cli_error + unit) \<times> 'k cli_state \<Rightarrow> bool" where
  "login_result W dir sess ask s res \<longleftrightarrow>
    isl (fst res) \<and> stored W dir (snd res) = stored W dir s
    \<or> \<not> isl (fst res) \<and> (\<exists>poll h h' now. ask h = (Inr (Some poll), h') \<and> ck_Status poll = ''approved''
        \<and> stored W dir (snd res) = (stored W dir s)(ss_ServiceURL sess := Inr (new_credential sess now poll)))"

lemma login_loop_stores:
  assumes "login_loop W sess ask dev t deadline s = Some res"
    and "file_backend W dir" and "file_ok (ce_sys W) (dir @ ''/credentials.json'') (snd (st_cred s))"
  shows "login_result W dir sess ask s res"
proof -
  let ?P = "\<lambda>W sess ask dev t deadline s res. file_backend W dir \<longrightarrow> file_ok (ce_sys W) (dir @ ''/credentials.json'') (snd (st_cred s))
    \<longrightarrow> login_result W dir sess ask s res"
  have "?P W sess ask dev t deadline s res"
  proof (rule login_loop.raw_induct[where P = ?P, OF _ assms(1)], intro impI, goal_cases)
  case (1 loop W sess ask dev t deadline s res)
  show ?case
  proof (cases "ce_now W (st_wire s) < deadline")
    case False
    with 1(2) have "res = (Inl (CliError ''timed out waiting for approval''), s)" by simp
    then show ?thesis by (simp add: login_result_def)
  next
    case True
    obtain q s1 where p: "poll_once W ask t s = (q, s1)" by fastforce
    have cred: "st_cred s1 = st_cred s" by (rule poll_once_cred[OF p])
    then have same: "stored W dir s1 = stored W dir s" by (simp add: stored_def)
    show ?thesis
    proof (cases q)
      case (Inl e)
      with 1(2) True p have "res = (Inl e, s1)" by simp
      then show ?thesis using same by (simp add: login_result_def)
    next
      case (Inr poll)
      note go = 1(2)[simplified True p Inr, simplified]
      consider (approved) "ck_Status poll = ''approved''" | (denied) "ck_Status poll = ''denied''" | (expired) "ck_Status poll = ''expired''"
        | (other) "ck_Status poll \<notin> {''approved'', ''denied'', ''expired''}" by blast
      then show ?thesis
      proof cases
        case approved
        obtain r s2 where sg: "signed_in W sess poll s1 = (r, s2)" by fastforce
        with go approved have res: "res = (r, s2)" by simp
        have "file_ok (ce_sys W) (dir @ ''/credentials.json'') (snd (st_cred s1))" using 1(4) cred by simp
        note st = signed_in_stores[OF 1(3) this sg]
        have "\<exists>h h'. ask h = (Inr (Some poll), h')"
          using p Inr approved by (auto simp: poll_once_def seq_def pause_def calls_def gives_def no_poll_def Let_def of_client_Inr
            split: prod.splits sum.splits option.splits)
        then show ?thesis using st res same approved by (auto simp: login_result_def)
      next
        case denied
        then show ?thesis using go same by (auto simp: login_result_def)
      next
        case expired
        then show ?thesis using go same by (auto simp: login_result_def)
      next
        case other
        then have "loop W sess ask dev (if dev \<and> ck_Status poll = ''slow_down'' then t + 5 * Second else t) deadline s1 = Some res"
          using go by simp
        from 1(1)[OF this] 1(3,4) cred have "login_result W dir sess ask s1 res" by simp
        then show ?thesis using same by (simp add: login_result_def)
      qed
    qed
  qed
  qed
  with assms(2,3) show ?thesis by blast
qed

lemma login_loop_answered:
  assumes "login_loop W sess ask dev t deadline s1 = Some (r, s')" and "\<And>h poll h'. ask h = (Inr (Some poll), h') \<Longrightarrow> answered (ss_Client sess) poll"
    and "st_cred s1 = st_cred s" and "file_backend W dir" and "file_ok (ce_sys W) (dir @ ''/credentials.json'') (snd (st_cred s))"
  shows "isl r \<and> stored W dir s' = stored W dir s
    \<or> \<not> isl r \<and> (\<exists>poll now. answered (ss_Client sess) poll \<and> ck_Status poll = ''approved''
        \<and> stored W dir s' = (stored W dir s)(ss_ServiceURL sess := Inr (new_credential sess now poll)))"
  using login_loop_stores[OF assms(1,4)] assms(2,3,5) unfolding login_result_def by (fastforce simp: stored_def)

lemma login_outcome:
  assumes "(case start s1 of (Inl e, s2) \<Rightarrow> Some (Inl e, s2) | (Inr x, s2) \<Rightarrow> login_loop W sess (ask x) dev (t x) (deadline x s2) s2) = Some (r, s')"
    and "keeps start" and "st_cred s1 = st_cred s" and "\<And>x h poll h'. ask x h = (Inr (Some poll), h') \<Longrightarrow> answered (ss_Client sess) poll"
    and "file_backend W dir" and "file_ok (ce_sys W) (dir @ ''/credentials.json'') (snd (st_cred s))"
  shows "isl r \<and> stored W dir s' = stored W dir s
    \<or> \<not> isl r \<and> (\<exists>poll now. answered (ss_Client sess) poll \<and> ck_Status poll = ''approved''
        \<and> stored W dir s' = (stored W dir s)(ss_ServiceURL sess := Inr (new_credential sess now poll)))"
proof -
  obtain d s2 where ds: "start s1 = (d, s2)" by fastforce
  have c2: "st_cred s2 = st_cred s" using keepsD[OF assms(2) ds] assms(3) by simp
  show ?thesis
  proof (cases d)
    case (Inl e)
    then show ?thesis using assms(1) ds c2 by (auto simp: stored_def)
  next
    case (Inr x)
    with assms(1) ds have "login_loop W sess (ask x) dev (t x) (deadline x s2) s2 = Some (r, s')" by simp
    from login_loop_answered[where ask = "ask x", OF this assms(4) c2 assms(5,6)] show ?thesis by simp
  qed
qed

lemma polls_answered:
  "PollDeviceLogin_call x i h = (Inr (Some poll), h') \<Longrightarrow> answered x poll"
  "PollPendingLogin_call x i secret h = (Inr (Some poll), h') \<Longrightarrow> answered x poll"
  unfolding answered_def by blast+


section \<open>A service that approves\<close>

definition wit_yes :: network where
  "wit_yes = \<lparr>nw_send = (\<lambda>h w. Inr \<lparr>an_Status = 200, an_Headers = [], an_Body = Some ''{}''\<rparr>), nw_sleep = (\<lambda>h d. None), nw_ctx = (\<lambda>h. None)\<rparr>"

definition wit_pending :: cliPendingLogin where
  "wit_pending = no_pending\<lparr>cp_PendingLoginID := ''p'', cp_PollingSecret := ''s'', cp_UserCode := ''ABCD'', cp_IntervalSeconds := 5\<rparr>"

definition wit_cli_sys :: os where
  "wit_cli_sys = wit_os\<lparr>os_getenv := (\<lambda>n. if n = ''GHS_CREDENTIAL_STORE'' then ''file'' else '''')\<rparr>"

definition wit_cli :: "unit cli_env" where
  "wit_cli =
    \<lparr>ce_sys = wit_cli_sys,
     ce_keyring = \<lparr>kr_Set = (\<lambda>s a x k. (Some (KeyringFailed ''none''), k)), kr_Get = (\<lambda>s a k. Inl KeyringNotFound),
       kr_Delete = (\<lambda>s a k. (Some KeyringNotFound, k))\<rparr>,
     ce_net = wit_yes,
     ce_codec = wit_codec\<lparr>co_PendingLogin := (\<lambda>s. Some wit_pending),
       co_LoginPoll := (\<lambda>s. Some \<lparr>ck_Status = ''approved'', ck_Token = ''token'', ck_User = None\<rparr>)\<rparr>,
     ce_version = ''dev'', ce_build = '''', ce_service = ''https://stories.test'', ce_stdin_tty = False, ce_stdout_tty = False,
     ce_answer = '''', ce_now = slept_since 0, ce_duration = (\<lambda>d. None), ce_width = (\<lambda>s. int (length s)), ce_trunc = (\<lambda>s n t. s),
     ce_quote = id, ce_equalfold = (=), ce_source = (\<lambda>p. Inl ''no such file''), ce_sha256 = id, ce_uuid = ''u'', ce_clock = (\<lambda>t. ''''),
     ce_browser = (\<lambda>u. False), ce_label = ''gh stories'',
     ce_terminal = \<lparr>sx_env = (\<lambda>n. ''''), sx_home = None, sx_now = 0, sx_size = None, sx_out = False, sx_in = False, sx_probe = (\<lambda>b. Inl '''')\<rparr>,
     ce_gh = False, ce_aliases = None, ce_builtin = (\<lambda>n. False), ce_alias_set = (\<lambda>n e. None)\<rparr>"

definition wit_cli_state :: "unit cli_state" where
  "wit_cli_state = \<lparr>st_wire = [], st_cred = ((), [\<lparr>dk_dir = None, dk_files = Map.empty\<rparr>]), st_cache = Map.empty, st_shown = []\<rparr>"

lemma wit_clock: "ce_now wit_cli h + slept_since 0 es \<le> ce_now wit_cli (h @ es)"
  by (simp add: wit_cli_def slept_since_def)

lemma wit_yes_request: "cc_net x = wit_yes \<Longrightarrow> dec (cc_codec x) ''{}'' = Some y \<Longrightarrow>
  request_to x dec spec h = (Inr (Some y), h @ [Sent (wire_of (cc_client x) spec)])"
proof -
  have "0 < attempts_of (cc_client x)" by (simp add: attempts_of_def)
  then obtain n where "attempts_of (cc_client x) = Suc n" using gr0_implies_Suc by blast
  then show "cc_net x = wit_yes \<Longrightarrow> dec (cc_codec x) ''{}'' = Some y \<Longrightarrow>
    request_to x dec spec h = (Inr (Some y), h @ [Sent (wire_of (cc_client x) spec)])"
    by (simp add: request_to_def do_call_def one_attempt_def wit_yes_def status_attempt_def Let_def)
qed

lemma status_line_step: "seq (status_line line) f s = f () (s\<lparr>st_shown := st_shown s @ [ErrLine (Sanitize line)]\<rparr>)"
  by (simp add: seq_def status_line_def show_this_def)

lemma poll_once_yes: "nw_sleep (ce_net W) (st_wire s) t = None \<Longrightarrow> ask (st_wire s @ [Slept t]) = (Inr (Some p), h) \<Longrightarrow>
  poll_once W ask t s = (Inr p, s\<lparr>st_wire := h\<rparr>)"
  by (simp add: poll_once_def seq_def pause_def calls_def gives_def Let_def)

lemma seq_Inr: "m s = (Inr x, s') \<Longrightarrow> seq m f s = f x s'"
  by (simp add: seq_def)

lemma signed_in_fine:
  assumes "open_store W s = (Inr st, s1)" and "save_cred W st (new_credential sess (ce_now W (st_wire s)) poll) s1 = (Inr (), s2)"
  shows "fst (signed_in W sess poll s) = Inr ()"
proof -
  have line: "fst (status_line l s) = Inr ()" for l s by (simp add: status_line_def show_this_def)
  show ?thesis by (simp add: signed_in_def Let_def seq_Inr[where m = "open_store W" and s = s, OF assms(1)]
    seq_Inr[where m = "save_cred W st c" and s = s1 for c, OF assms(2)] status_line_step provided_def gives_def line)
qed

lemma login_loop_approved:
  "ce_now W (st_wire s) < deadline \<Longrightarrow> poll_once W ask t s = (Inr poll, s1) \<Longrightarrow> ck_Status poll = ''approved'' \<Longrightarrow>
   login_loop W sess ask dev t deadline s = Some (signed_in W sess poll s1)"
  by (subst login_loop.simps) simp

lemma wit_login:
  obtains s1 where "cmdLogin wit_cli [] wit_cli_state
      = Some (signed_in wit_cli \<lparr>ss_Client = connect wit_cli ''https://stories.test'' '''', ss_ServiceURL = ''https://stories.test'', ss_Login = '''',
          ss_Store = None, ss_JSON = False, ss_Renderer = ''''\<rparr> \<lparr>ck_Status = ''approved'', ck_Token = ''token'', ck_User = None\<rparr> s1)"
    and "st_cred s1 = st_cred wit_cli_state"
proof -
  let ?sess = "\<lparr>ss_Client = connect wit_cli ''https://stories.test'' '''', ss_ServiceURL = ''https://stories.test'', ss_Login = '''',
    ss_Store = None, ss_JSON = False, ss_Renderer = ''''\<rparr>" and ?poll = "\<lparr>ck_Status = ''approved'', ck_Token = ''token'', ck_User = None\<rparr>"
  have url: "serviceURL wit_cli '''' = ''https://stories.test''"
    by (simp add: serviceURL_def getenv_def wit_cli_def wit_cli_sys_def TrimSuffix_def Let_def)
  have flags: "seq (flags_of wit_cli fs use []) (\<lambda>(vals, rest). seq (anonymousSession wit_cli (text_flag vals ''service'' ''''))
      (\<lambda>sess. gives (vals, sess))) wit_cli_state = (Inr ([], ?sess), wit_cli_state)" for fs use
    by (simp add: seq_def flags_of_def value_of_def flag_parse.simps anonymousSession_def requireService_def refuse_def gives_def text_flag_def url Let_def)
      (simp add: TrimSpace_def is_space_def)
  have net: "cc_net (ss_Client ?sess) = wit_yes" by (simp add: connect_def wit_cli_def)
  have create: "\<exists>w. CreatePendingLogin_call (ss_Client ?sess) k l h = (Inr (Some wit_pending), h @ [Sent w])" for k l h
    using wit_yes_request[OF net, of co_PendingLogin wit_pending]
    by (simp add: CreatePendingLogin_call_def postJSON_def jsonReq_def) (simp add: connect_def wit_cli_def wit_codec_def)
  have ask: "\<exists>w. PollPendingLogin_call (ss_Client ?sess) i k h = (Inr (Some ?poll), h @ [Sent w])" for i k h
    using wit_yes_request[OF net, of co_LoginPoll ?poll]
    by (simp add: PollPendingLogin_call_def postJSON_def jsonReq_def) (simp add: connect_def wit_cli_def wit_codec_def)
  obtain q s2 where start: "login_start wit_cli ?sess False wit_cli_state = (q, s2)" by fastforce
  then have s2: "q = Inr wit_pending \<and> (\<exists>w. st_wire s2 = [Sent w])"
    using create[of "''cli''" "ce_label wit_cli" "[]"]
    by (auto simp: login_start_def offer_browser_def openBrowser_def status_line_step seq_def calls_def gives_def show_this_def status_line_def
      Let_def wit_cli_state_def wit_pending_def no_pending_def HasPrefix_def split: if_splits)
  have c2: "st_cred s2 = st_cred wit_cli_state" by (rule keepsD[OF keeps_login(1) start])
  have now: "ce_now wit_cli (st_wire s2) = 0" using s2 by (auto simp: wit_cli_def slept_since_def)
  let ?ask = "PollPendingLogin_call (ss_Client ?sess) (cp_PendingLoginID wit_pending) (cp_PollingSecret wit_pending)"
    and ?t = "login_interval (cp_IntervalSeconds wit_pending) (2 * Second)"
  have calm: "nw_sleep (ce_net wit_cli) h d = None" for h d by (simp add: wit_cli_def wit_yes_def)
  obtain w where w: "?ask (st_wire s2 @ [Slept ?t]) = (Inr (Some ?poll), (st_wire s2 @ [Slept ?t]) @ [Sent w])" using ask by blast
  define s3 where "s3 = s2\<lparr>st_wire := (st_wire s2 @ [Slept ?t]) @ [Sent w]\<rparr>"
  have poll: "poll_once wit_cli ?ask ?t s2 = (Inr ?poll, s3)"
    unfolding s3_def by (rule poll_once_yes[where s = s2 and t = ?t and ask = ?ask, OF calm w])
  have "login_loop wit_cli ?sess ?ask False ?t (10 * Minute) s2 = Some (signed_in wit_cli ?sess ?poll s3)"
    by (rule login_loop_approved[OF _ poll]) (simp_all add: now)
  then have "cmdLogin wit_cli [] wit_cli_state = Some (signed_in wit_cli ?sess ?poll s3)"
    using s2 start now by (simp add: cmdLogin_def flags bool_flag_def Let_def)
  moreover have "st_cred s3 = st_cred wit_cli_state" using c2 by (simp add: s3_def)
  ultimately show thesis by (rule that)
qed

lemma wit_backend: "file_backend wit_cli ''/home/a/.config/gh-stories''"
  "file_ok (ce_sys wit_cli) (''/home/a/.config/gh-stories'' @ ''/credentials.json'') (snd (st_cred wit_cli_state))"
proof -
  have "lower ''file'' = ''file''" by (simp add: lower_def lower_char_def)
  then show "file_backend wit_cli ''/home/a/.config/gh-stories''"
    by (simp add: file_backend_def getenv_def wit_cli_def wit_cli_sys_def wit_os_def EnvBackend_def configDir_def TrimSpace_def is_space_def)
  show "file_ok (ce_sys wit_cli) (''/home/a/.config/gh-stories'' @ ''/credentials.json'') (snd (st_cred wit_cli_state))"
    by (simp add: file_ok_def wit_cli_def wit_cli_sys_def wit_os_def wit_cli_state_def tmp_private_def readAll_def)
qed


theorem login_ends_witness: "\<exists>r. cmdLogin wit_cli [''--device''] wit_cli_state = Some r"
  by (rule login_ends[OF wit_clock])

section \<open>Which Story is meant\<close>

lemma out_line: "\<exists>s1. out l s = (Inr (), s1) \<and> st_wire s1 = st_wire s"
  by (simp add: out_def show_this_def)

lemma each_line:
  assumes "\<And>x s. \<exists>s1. f x s = (Inr (), s1) \<and> st_wire s1 = st_wire s"
  shows "\<exists>s1. each f xs s = (Inr (), s1) \<and> st_wire s1 = st_wire s"
proof (induction xs arbitrary: s)
  case (Cons x xs)
  from assms[of x s] obtain s1 where "f x s = (Inr (), s1)" "st_wire s1 = st_wire s" by blast
  with Cons.IH[of s1] show ?case by (auto simp: seq_def)
qed (simp add: gives_def)

lemma chosen_index_bound: "chosen_index a n = Some k \<Longrightarrow> 0 < n \<Longrightarrow> k < n"
  by (auto simp: chosen_index_def Let_def split: if_splits option.splits)

lemma seq_clock: "seq (with_clock W) g s = g (ce_now W (st_wire s)) s"
  by (simp add: seq_def with_clock_def)

lemma among_many:
  assumes "(if quiet then seq (out a) (\<lambda>_. seq (each f live) (\<lambda>_. stops e))
      else seq (out a) (\<lambda>_. seq (each g numbered) (\<lambda>_. seq (show_this q) (\<lambda>_.
        case pk of None \<Rightarrow> stops e' | Some k \<Rightarrow> gives (pick k, rest'))))) s = (Inr (i, rest), s')"
    and "\<And>x s. \<exists>s1. f x s = (Inr (), s1) \<and> st_wire s1 = st_wire s" and "\<And>x s. \<exists>s1. g x s = (Inr (), s1) \<and> st_wire s1 = st_wire s"
  shows "\<not> quiet \<and> rest = rest' \<and> st_wire s' = st_wire s \<and> (\<exists>k. pk = Some k \<and> i = pick k)"
proof -
  obtain s1 where s1: "out a s = (Inr (), s1)" "st_wire s1 = st_wire s" using out_line by blast
  obtain s2 where s2: "each f live s1 = (Inr (), s2)" using each_line[of f, OF assms(2)] by blast
  obtain s3 where s3: "each g numbered s1 = (Inr (), s3)" "st_wire s3 = st_wire s" using each_line[of g, OF assms(3)] s1(2) by metis
  show ?thesis using assms(1) s1 s2 s3 by (auto simp: seq_def show_this_def stops_def gives_def split: if_splits option.splits)
qed

text \<open>C23. A command that names a person and no Story acts on a Story of that person which the service lists to the
  caller as published, and never guesses: it is the only one, or the caller was asked at a terminal and chose it.
  The question to the service is all that went over the wire.\<close>

theorem target_never_guessed:
  assumes "cli_resolveTarget W sess '''' args action s = (Inr (i, rest), s')"
  shows "\<exists>group h. UserStories_call (ss_Client sess) (trim_at (hd args)) (st_wire s) = (Inr group, h) \<and> st_wire s' = h \<and> rest = tl args
    \<and> (let live = filter (\<lambda>it. ci_State it = ''published'') (group_items group) in
       (\<exists>it. live = [it] \<and> i = ci_ID it)
       \<or> interactive W \<and> \<not> ss_JSON sess
         \<and> (\<exists>k. chosen_index (ce_answer W) (length live) = Some k \<and> k < length live \<and> i = ci_ID (live ! k)))"
proof -
  obtain q h where c: "UserStories_call (ss_Client sess) (trim_at (hd args)) (st_wire s) = (q, h)" by fastforce
  have named: "args \<noteq> []" "HasPrefix (hd args) ''@''"
    using assms by (auto simp: cli_resolveTarget_def stops_def split: if_splits)
  have "\<exists>group. q = Inr group"
    using assms named c by (cases q) (auto simp: cli_resolveTarget_def seq_def calls_def Let_def)
  then obtain group where group: "q = Inr group" by blast
  let ?live = "filter (\<lambda>it. ci_State it = ''published'') (group_items group)"
  have asks: "seq (calls (UserStories_call (ss_Client sess) (trim_at (hd args)))) g s = g group (s\<lparr>st_wire := h\<rparr>)" for g
    using c group by (simp add: seq_def calls_def)
  note run = assms[unfolded cli_resolveTarget_def, simplified named Let_def, simplified, unfolded asks seq_clock, simplified]
  consider (none) "?live = []" | (only) it where "?live = [it]" | (many) x y zs where "?live = x # y # zs"
    by (metis list.exhaust)
  then show ?thesis
  proof cases
    case none
    with run show ?thesis by (simp add: stops_def)
  next
    case only
    with run c group show ?thesis by (auto simp: status_line_def show_this_def gives_def seq_def)
  next
    case many
    note asked = among_many[OF run[unfolded many list.case, folded many]]
    have "\<And>x s. \<exists>s1. (case x of (i, it) \<Rightarrow> out (f i it)) s = (Inr (), s1) \<and> st_wire s1 = st_wire s" for f
      by (simp add: out_line split: prod.split)
    from asked[OF out_line this] show ?thesis using c group chosen_index_bound many by (fastforce simp: Let_def)
  qed
qed

definition wit_cli_story :: cliStory where
  "wit_cli_story = \<lparr>ci_ID = ''story-7'', ci_Author = no_cli_user, ci_State = ''published'', ci_Caption = '''', ci_AltText = '''',
    ci_Visibility = '''', ci_AudienceListID = '''', ci_AudienceLabel = '''', ci_AllowReplies = True, ci_AllowReactions = True,
    ci_MediaKind = ''image'', ci_Variants = [], ci_PublishedAt = None, ci_ExpiresAt = None, ci_Seen = False, ci_IsOwner = False,
    ci_ViewerCount = 0, ci_ReactionCount = 0, ci_MyReaction = '''', ci_FailureCode = '''', ci_FailureMessage = ''''\<rparr>"

definition wit_session :: session where
  "wit_session =
    \<lparr>ss_Client = \<lparr>cc_net = wit_yes, cc_client = wit_client, cc_codec = wit_codec\<lparr>co_Group := (\<lambda>s. Some (no_cli_group\<lparr>cg_Items := [wit_cli_story]\<rparr>))\<rparr>\<rparr>,
     ss_ServiceURL = '''', ss_Login = '''', ss_Store = None, ss_JSON = True, ss_Renderer = ''''\<rparr>"

theorem target_never_guessed_witness:
  "\<exists>s'. cli_resolveTarget wit_cli wit_session '''' [''@maya'', ''hi''] ''reply'' wit_cli_state = (Inr (''story-7'', [''hi'']), s')
    \<and> (\<exists>group h. UserStories_call (ss_Client wit_session) ''maya'' [] = (Inr group, h) \<and> st_wire s' = h)"
proof -
  have "\<exists>h. UserStories_call (ss_Client wit_session) ''maya'' [] = (Inr (Some (no_cli_group\<lparr>cg_Items := [wit_cli_story]\<rparr>)), h)"
    using wit_yes_request[of "ss_Client wit_session" co_Group] by (simp add: UserStories_call_def get_def wit_session_def)
  then obtain h where h: "UserStories_call (ss_Client wit_session) ''maya'' [] = (Inr (Some (no_cli_group\<lparr>cg_Items := [wit_cli_story]\<rparr>)), h)" ..
  have "\<exists>s'. cli_resolveTarget wit_cli wit_session '''' [''@maya'', ''hi''] ''reply'' wit_cli_state = (Inr (''story-7'', [''hi'']), s')"
    using h by (simp add: cli_resolveTarget_def HasPrefix_def seq_Inr calls_def seq_def with_clock_def status_line_def show_this_def gives_def
      group_items_def no_cli_group_def wit_cli_state_def Let_def) (simp add: wit_cli_story_def)
  then obtain s' where s': "cli_resolveTarget wit_cli wit_session '''' [''@maya'', ''hi''] ''reply'' wit_cli_state = (Inr (''story-7'', [''hi'']), s')" ..
  from target_never_guessed[OF s'] s' show ?thesis by (auto simp: wit_cli_state_def)
qed

section \<open>Exit codes\<close>

text \<open>The documented codes of the errors of the service.\<close>

fun documented_exit :: "Code \<Rightarrow> int \<Rightarrow> int" where
  "documented_exit CodeUnauthorized n = 3"
| "documented_exit CodeForbidden n = 4"
| "documented_exit CodeNotFound n = 4"
| "documented_exit CodeRateLimited n = 5"
| "documented_exit CodeUnavailable n = 5"
| "documented_exit CodeUnsupportedMedia n = 6"
| "documented_exit CodePayloadTooLarge n = 6"
| "documented_exit c n = (if 500 \<le> n then 5 else 1)"

text \<open>A service that answers every request with one error.\<close>

definition always :: "answer \<Rightarrow> network \<Rightarrow> bool" where
  "always a nw \<longleftrightarrow> (\<forall>h w. nw_send nw h w = Inr a) \<and> (\<forall>h d. nw_sleep nw h d = None)"

definition service_error :: "Client.codec \<Rightarrow> answer \<Rightarrow> Code \<Rightarrow> bool" where
  "service_error cd a c \<longleftrightarrow> 400 \<le> an_Status a \<and> an_Status a \<noteq> 204
    \<and> (\<exists>b m f n. an_Body a = Some b \<and> b \<noteq> '''' \<and> co_error cd b = Some (code_text c, m, f, n))"

lemma code_text_nonempty [simp]: "code_text c \<noteq> ''''"
  by (cases c) simp_all

lemma attempts_all_fail:
  assumes "always a nw" and "service_error cd a c"
  shows "\<exists>e h'. attempts_loop nw cl (co_error cd) dec spec k (Suc n) prev h = (Inl (Api e), h') \<and> ae_Code e = code_text c \<and> ae_Status e = an_Status a"
proof (induction n arbitrary: k prev h)
  case 0
  from assms obtain b m f r where b: "an_Body a = Some b" "b \<noteq> ''''" "co_error cd b = Some (code_text c, m, f, r)" "400 \<le> an_Status a"
    by (auto simp: service_error_def)
  then show ?case using assms
    by (auto simp: always_def one_attempt_def status_attempt_def decodeAPIError_def with_retry_after_def Let_def split: option.split)
next
  case (Suc n)
  from assms obtain b m f r where b: "an_Body a = Some b" "b \<noteq> ''''" "co_error cd b = Some (code_text c, m, f, r)" "400 \<le> an_Status a"
    by (auto simp: service_error_def)
  have "\<exists>e h'. (case one_attempt nw cl (co_error cd) dec spec g of (Over r, h) \<Rightarrow> (r, h)
      | (Again e, h) \<Rightarrow> attempts_loop nw cl (co_error cd) dec spec (k + 1) (Suc n) (Some e) h) = (Inl (Api e), h')
      \<and> ae_Code e = code_text c \<and> ae_Status e = an_Status a" for g
  proof (cases "isRetryable (an_Status a)")
    case True
    then obtain e where "one_attempt nw cl (co_error cd) dec spec g = (Again e, g @ [Sent (wire_of cl spec)])"
      using b assms(1) by (auto simp: always_def one_attempt_def status_attempt_def Let_def)
    then show ?thesis using Suc.IH[of "k + 1" "Some e"] by (simp del: attempts_loop.simps)
  next
    case False
    then show ?thesis using b assms(1)
      by (auto simp: always_def one_attempt_def status_attempt_def decodeAPIError_def with_retry_after_def Let_def split: option.split)
  qed
  then show ?case using assms(1) by (simp add: always_def Let_def del: attempts_loop.simps(2)) (subst attempts_loop.simps(2), simp add: Let_def)
qed



section \<open>What the commands get wrong\<close>

text \<open>The reply command and the viewer send a reply without an idempotency key, so the retries of the client are
  new replies to the server, unlike those of a reply with a key.\<close>

theorem reply_commands_send_no_key:
  assumes "Reply_call x i body '''' h = (r, h')" and "Sent w \<in> set (drop (length h) h')"
  shows "get_header ''Idempotency-Key'' (wr_Headers w) = ''''"
proof -
  obtain doc where doc: "h' = h \<or> request_to x co_Reply \<lparr>rs_method = ''POST'', rs_path = ''/stories/'' @ pathEscape i @ ''/replies'', rs_query = [],
      rs_headers = [], rs_body = Some doc\<rparr> h = (r, h')"
    using assms(1) by (auto simp: Reply_call_def postJSON_def jsonReq_def idemHeader_def split: option.splits)
  with assms(2) obtain es where "h' = h @ es" "attempts_ok (cc_net x) (wire_of (cc_client x) \<lparr>rs_method = ''POST'',
      rs_path = ''/stories/'' @ pathEscape i @ ''/replies'', rs_query = [], rs_headers = [], rs_body = Some doc\<rparr>) h es"
    by (auto simp: request_to_def elim!: do_call_ok)
  with assms(2) have "w = wire_of (cc_client x) \<lparr>rs_method = ''POST'',
      rs_path = ''/stories/'' @ pathEscape i @ ''/replies'', rs_query = [], rs_headers = [], rs_body = Some doc\<rparr>"
    by (auto simp: attempts_ok_def)
  then show ?thesis by (auto simp: wire_of_def request_headers_def get_header_def set_header_def Let_def)
qed

theorem unkeyed_replies_repeat:
  assumes "hr_User r = Some u" and "idempotencyKey r = ''''" and "\<not> list_ex (same_idem (u_ID u) ''reply'' '''') (idempotency_keys d)"
    and "postReply body srv outs hs r d = (Inr rsp, d')"
  shows "length (replies d') = length (replies d) + 1 \<and> idempotency_keys d' = idempotency_keys d"
proof -
  from postReply_Inr[OF assms(4,1), unfolded assms(2), OF assms(3)] obtain raw sid doc d0 where
    "length (replies d0) = length (replies d) + 1" "idempotency_keys d0 = idempotency_keys d"
    "d' = (case RememberIdempotent (sr_sha srv) (u_ID u) ''reply'' '''' (sr_reply_request srv (sr_text srv sid) (TrimSpace raw)) 201
        (sr_reply_json srv doc) d0 of Inl e \<Rightarrow> d0 | Inr (x, d1) \<Rightarrow> d1)" by metis
  then show ?thesis by (simp add: RememberIdempotent_def)
qed

text \<open>Not waiting for the processing of a post waits all the same: the flag changes only what is said at the end.\<close>

theorem no_wait_waits:
  "map_option (\<lambda>p. st_wire (snd p)) (post_upload W sess vals req s) = map_option (\<lambda>p. st_wire (snd p)) (post_upload W sess vals' req s)"
proof -
  have "st_wire (snd (post_end W vals j item s)) = st_wire s" for vals j item s
    by (auto simp: post_end_def emitPosted_def seq_def show_this_def status_line_def provided_def gives_def stops_def split: option.split)
  then show ?thesis by (auto simp: post_upload_def Let_def split: option.split sum.split)
qed

text \<open>The command line says that a public audience is anyone who is signed in; the audience needs no sign-in.\<close>

theorem public_label_understates:
  "audienceLabel W (visibility_text Public) = ''Public '' @ em_dash @ '' anyone signed in''"
  "Label (visibility_text Public) = ''Public '' @ em_dash @ '' anyone, no sign-in required''"
  by (simp_all add: audienceLabel_def Label_def)

end
