(* ===== verification/Vidframes.thy ===== *)
theory Vidframes
  imports Graphics "HOL-Library.Multiset"
begin

text \<open>
  Videos in the terminal: \<^verbatim>\<open>src/internal/vidframes/vidframes.go\<close> turns a video file into the still
  frames of an animation.  ffmpeg and the decoder of pictures are parameters; the temporary directories are a
  map from their names to the files in them.  Of \<^verbatim>\<open>filepath.Glob\<close> the source uses one star behind a
  directory whose name holds no pattern characters.
\<close>

section \<open>Options\<close>

record frame_options =
  vo_FPS :: int
  vo_MaxFrames :: int
  vo_MaxWidth :: int
  vo_MaxHeight :: int
  vo_Timeout :: duration

definition frames_setDefaults :: "frame_options \<Rightarrow> frame_options" where
  "frames_setDefaults opts =
    \<lparr>vo_FPS = (if vo_FPS opts \<le> 0 then 8 else vo_FPS opts),
     vo_MaxFrames = (if vo_MaxFrames opts \<le> 0 \<or> int MaxAnimationFrames < vo_MaxFrames opts then int MaxAnimationFrames
       else vo_MaxFrames opts),
     vo_MaxWidth = (if vo_MaxWidth opts \<le> 0 then 480 else vo_MaxWidth opts),
     vo_MaxHeight = (if vo_MaxHeight opts \<le> 0 then 480 else vo_MaxHeight opts),
     vo_Timeout = (if vo_Timeout opts \<le> 0 then 45 * Second else vo_Timeout opts)\<rparr>"

section \<open>The subprocess\<close>

text \<open>What a run of a program leaves: an error, what it wrote to its diagnostics, piece by piece, and the files in
  the directory it was told to write to.\<close>

record run_result =
  rn_Err :: "string option"
  rn_Stderr :: "string list"
  rn_Files :: "(string \<times> string) list"

record frame_machine =
  fm_LookPath :: "string \<Rightarrow> string option"
  fm_MkdirTemp :: "string + string"
  fm_Run :: "duration \<Rightarrow> string list \<Rightarrow> string \<Rightarrow> string list \<Rightarrow> run_result"
  fm_Open :: "string \<Rightarrow> bool"
  fm_Image :: "string \<Rightarrow> picture option"

type_synonym temp_dirs = "string \<rightharpoonup> (string \<times> string) list"

definition frames_available :: "frame_machine \<Rightarrow> string option" where
  "frames_available M = fm_LookPath M ''ffmpeg''"

definition ErrFramesUnavailable :: string where
  "ErrFramesUnavailable = ''vidframes: ffmpeg is not available''"

definition maxDiagnostics :: nat where "maxDiagnostics = 8 * 1024"

definition boundedBuffer_Write :: "string \<Rightarrow> string \<Rightarrow> string" where
  "boundedBuffer_Write p b =
    (if length b < maxDiagnostics then
       (let room = maxDiagnostics - length b; room = (if length p < room then length p else room) in b @ take room p)
     else b)"

definition diagnostics :: "run_result \<Rightarrow> string" where
  "diagnostics x = fold boundedBuffer_Write (rn_Stderr x) ''''"

definition in_quotes :: "string \<Rightarrow> string" where
  "in_quotes e = CHR 0x27 # e @ [CHR 0x27]"

definition decode_args :: "string \<Rightarrow> string \<Rightarrow> frame_options \<Rightarrow> string list" where
  "decode_args videoPath dir opts =
    [''-nostdin'', ''-hide_banner'', ''-loglevel'', ''error'',
     ''-protocol_whitelist'', ''file'',
     ''-i'', videoPath,
     ''-vf'', ''fps='' @ decimal (vo_FPS opts) @ '',scale='' @ in_quotes (''min('' @ decimal (vo_MaxWidth opts) @ '',iw)'') @ '':''
       @ in_quotes (''min('' @ decimal (vo_MaxHeight opts) @ '',ih)'') @ '':force_original_aspect_ratio=decrease'',
     ''-frames:v'', decimal (vo_MaxFrames opts),
     ''-an'',
     dir @ ''/frame-%04d.png'']"

definition decode_env :: "string list" where
  "decode_env = [''PATH=/usr/bin:/bin:/usr/local/bin'']"

section \<open>Decoding\<close>

definition is_frame_name :: "string \<Rightarrow> bool" where
  "is_frame_name n \<longleftrightarrow> length ''frame-'' + length ''.png'' \<le> length n \<and> take (length ''frame-'') n = ''frame-''
    \<and> drop (length n - length ''.png'') n = ''.png''"

text \<open>\<^verbatim>\<open>sort.Strings\<close> compares bytes.\<close>

definition sorted_names :: "string list \<Rightarrow> string list" where
  "sorted_names = sort_key (map (of_char :: char \<Rightarrow> nat))"

fun read_frames :: "frame_machine \<Rightarrow> (string \<Rightarrow> string option) \<Rightarrow> int \<Rightarrow> string list \<Rightarrow> Frame list" where
  "read_frames M content gap [] = []"
| "read_frames M content gap (n # ns) =
    (case (if fm_Open M n then content n else None) of
       None \<Rightarrow> read_frames M content gap ns
     | Some data \<Rightarrow>
         (case fm_Image M data of
            None \<Rightarrow> read_frames M content gap ns
          | Some img \<Rightarrow> \<lparr>fr_Image = Some img, fr_GapMS = gap\<rparr> # read_frames M content gap ns))"

text \<open>A success hands the directory to the caller, who removes it with \<open>frames_cleanup\<close> when it is done.\<close>

definition frames_cleanup :: "string \<Rightarrow> temp_dirs \<Rightarrow> temp_dirs" where
  "frames_cleanup dir t = t(dir := None)"

definition Decode_video ::
  "frame_machine \<Rightarrow> string \<Rightarrow> frame_options \<Rightarrow> temp_dirs \<Rightarrow> (string + Frame list \<times> string) \<times> temp_dirs" where
  "Decode_video M videoPath opts t =
    (let opts = frames_setDefaults opts in
     case frames_available M of
       None \<Rightarrow> (Inl ErrFramesUnavailable, t)
     | Some ffmpeg \<Rightarrow>
         (case fm_MkdirTemp M of
            Inl e \<Rightarrow> (Inl e, t)
          | Inr dir \<Rightarrow>
              (let x = fm_Run M (vo_Timeout opts) decode_env ffmpeg (decode_args videoPath dir opts);
                   t = t(dir \<mapsto> rn_Files x);
                   names = sorted_names (filter is_frame_name (map fst (rn_Files x)));
                   frames = read_frames M (map_of (rn_Files x)) (1000 div vo_FPS opts) names in
               case rn_Err x of
                 Some e \<Rightarrow> (Inl (''vidframes: ffmpeg failed: '' @ e @ '': '' @ diagnostics x), frames_cleanup dir t)
               | None \<Rightarrow>
                   if names = [] then (Inl ''vidframes: no frames were produced'', frames_cleanup dir t)
                   else if frames = [] then (Inl ''vidframes: no frames could be decoded'', frames_cleanup dir t)
                   else (Inr (frames, dir), t))))"

section \<open>What decoding keeps to\<close>

lemma frames_setDefaults_bounds:
  "0 < vo_FPS (frames_setDefaults opts)" "0 < vo_MaxFrames (frames_setDefaults opts)"
  "vo_MaxFrames (frames_setDefaults opts) \<le> int MaxAnimationFrames" "0 < vo_Timeout (frames_setDefaults opts)"
  by (auto simp: frames_setDefaults_def MaxAnimationFrames_def)

lemma boundedBuffer_Write_take:
  "boundedBuffer_Write p (take maxDiagnostics b) = take maxDiagnostics (b @ p)"
  by (auto simp: boundedBuffer_Write_def Let_def min_def)

text \<open>However much a failing ffmpeg has to say, what is kept is the first 8 KiB of it.\<close>

lemma diagnostics_bounded: "diagnostics x = take maxDiagnostics (concat (rn_Stderr x))"
proof -
  have "fold boundedBuffer_Write ps (take maxDiagnostics b) = take maxDiagnostics (b @ concat ps)" for ps b
    by (induction ps arbitrary: b) (simp_all add: boundedBuffer_Write_take del: take_append)
  from this[of _ "[]"] show ?thesis by (simp add: diagnostics_def)
qed

text \<open>No directory stays behind: a decoding that fails leaves none, and after one that succeeded the clean-up
  that the caller is given removes the only one.\<close>

theorem Decode_video_leaves_nothing:
  assumes "Decode_video M videoPath opts t = (r, t')" and "\<And>dir. fm_MkdirTemp M = Inr dir \<Longrightarrow> t dir = None"
  shows "case r of Inl e \<Rightarrow> t' = t | Inr (frames, dir) \<Rightarrow> frames \<noteq> [] \<and> frames_cleanup dir t' = t"
  using assms by (auto simp: Decode_video_def frames_cleanup_def Let_def fun_upd_idem split: option.splits sum.splits if_splits)

lemma read_frames_length: "length (read_frames M content gap ns) \<le> length ns"
  by (induction ns) (auto split: option.split)

lemma read_frames_gap: "f \<in> set (read_frames M content gap ns) \<Longrightarrow> fr_GapMS f = gap \<and> fr_Image f \<noteq> None"
  by (induction ns) (auto split: option.splits)

text \<open>The frames of ffmpeg are numbered with four digits, so that sorting their names is sorting their numbers.\<close>

definition frame_name :: "nat \<Rightarrow> string" where
  "frame_name k = ''frame-'' @ four_digits k @ ''.png''"

definition digits4 :: "nat \<Rightarrow> nat list" where
  "digits4 k = [k div 1000, k div 100 mod 10, k div 10 mod 10, k mod 10]"

lemma four_digits_digits: "k < 10000 \<Longrightarrow> four_digits k = map digit (digits4 k)"
proof -
  assume k: "k < 10000"
  have one: "n < 10 \<Longrightarrow> decimal_nat n = [digit n]" for n by (subst decimal_nat.simps) simp
  have more: "\<not> n < 10 \<Longrightarrow> decimal_nat n = decimal_nat (n div 10) @ [digit (n mod 10)]" for n by (subst decimal_nat.simps) simp
  have zero: "CHR ''0'' = digit 0"
  proof -
    have "(of_char (CHR ''0'') :: nat) = 48" by simp
    then show ?thesis unfolding digit_def by (metis add_0_right char_of_char)
  qed
  consider "k < 10" | "10 \<le> k" "k < 100" | "100 \<le> k" "k < 1000" | "1000 \<le> k" by linarith
  then show ?thesis
    by cases (use k in \<open>simp_all add: four_digits_def digits4_def decimal_def Let_def zero one more div_mult2_eq[symmetric] numeral_2_eq_2 numeral_3_eq_3\<close>)
qed

lemma byte_digit: "d < 10 \<Longrightarrow> of_char (digit d) = 48 + d"
  by (simp add: digit_def)

lemma digits4_less: "j < k \<Longrightarrow> map ((+) 48) (digits4 j) < map ((+) 48) (digits4 k)"
proof -
  assume "j < k"
  have step: "a div 10 < b div 10 \<or> a div 10 = b div 10 \<and> a mod 10 < b mod 10" if "a < b" for a b :: nat
    using that div_le_mono[of a b 10] div_mult_mod_eq[of a 10] div_mult_mod_eq[of b 10] by linarith
  have tens: "n div 100 = n div 10 div 10" "n div 1000 = n div 10 div 10 div 10" for n :: nat
    by (simp_all add: div_mult2_eq[symmetric])
  from step[OF \<open>j < k\<close>] step[of "j div 10" "k div 10"] step[of "j div 10 div 10" "k div 10 div 10"] show ?thesis
    unfolding digits4_def tens by auto
qed

lemma frame_name_less:
  assumes "j < k" and "k < 10000"
  shows "map (of_char :: char \<Rightarrow> nat) (frame_name j) < map of_char (frame_name k)"
proof -
  have four: "map (of_char :: char \<Rightarrow> nat) (four_digits n) = map ((+) 48) (digits4 n)" if "n < 10000" for n
    using that by (auto simp: four_digits_digits byte_digit digits4_def)
  have later: "length xs = length ys \<Longrightarrow> xs < ys \<Longrightarrow> xs @ zs < ys @ zs" for xs ys zs :: "nat list"
    by (induction xs ys rule: list_induct2) auto
  have "map ((+) 48) (digits4 j) @ map of_char ''.png'' < map ((+) 48) (digits4 k) @ map of_char ''.png''"
    by (rule later[OF _ digits4_less[OF assms(1)]]) (simp add: digits4_def)
  with assms four[of j] four[of k] show ?thesis by (simp add: frame_name_def)
qed

text \<open>In whatever order a listing of the directory holds them, the frames are played in the order of the video, as
  long as four digits are enough for their numbers: \<open>MaxAnimationFrames\<close> is far below.\<close>

theorem frames_in_order:
  assumes "mset names = mset (map frame_name [1..<Suc n])" and "n < 10000"
  shows "sorted_names names = map frame_name [1..<Suc n]"
proof -
  let ?b = "map (of_char :: char \<Rightarrow> nat)"
  have "sorted_wrt (\<lambda>x y. ?b (frame_name x) \<le> ?b (frame_name y)) [1..<Suc n]"
    by (rule sorted_wrt_mono_rel[OF _ sorted_wrt_upt]) (use assms(2) in \<open>auto intro!: less_imp_le[OF frame_name_less]\<close>)
  then have "sorted (map ?b (map frame_name [1..<Suc n]))" by (simp only: sorted_wrt_map)
  moreover have "mset (map ?b (sorted_names names)) = mset (map ?b (map frame_name [1..<Suc n]))"
    unfolding mset_map sorted_names_def mset_sort assms(1)[unfolded mset_map] ..
  ultimately have "map ?b (sorted_names names) = map ?b (map frame_name [1..<Suc n])"
    using properties_for_sort[of "map ?b (sorted_names names)"] by (metis sorted_names_def sorted_sort_key properties_for_sort)
  then show ?thesis by (rule injD[OF inj_mapI[OF inj_mapI[OF inj_of_char]]])
qed


text \<open>As long as ffmpeg keeps to its \<^verbatim>\<open>-frames:v\<close>, the animation is no longer than one may be, and every
  frame is shown as long as the frame rate says.\<close>

theorem Decode_video_bounded:
  assumes "Decode_video M videoPath opts t = (Inr (frames, dir), t')"
    and "\<And>limit ffmpeg d. int (length (filter is_frame_name (map fst (rn_Files (fm_Run M limit decode_env ffmpeg
        (decode_args videoPath d (frames_setDefaults opts))))))) \<le> vo_MaxFrames (frames_setDefaults opts)"
  shows "length frames \<le> MaxAnimationFrames
    \<and> (\<forall>f\<in>set frames. fr_GapMS f = 1000 div vo_FPS (frames_setDefaults opts) \<and> fr_Image f \<noteq> None)"
proof -
  obtain content names ffmpeg d where f: "frames = read_frames M content (1000 div vo_FPS (frames_setDefaults opts)) names"
    and n: "names = sorted_names (filter is_frame_name (map fst (rn_Files
      (fm_Run M (vo_Timeout (frames_setDefaults opts)) decode_env ffmpeg (decode_args videoPath d (frames_setDefaults opts))))))"
    using assms(1) by (auto simp: Decode_video_def Let_def split: option.splits sum.splits if_splits)
  have "int (length frames) \<le> int (length names)" unfolding f using read_frames_length by simp
  also have "\<dots> \<le> vo_MaxFrames (frames_setDefaults opts)" unfolding n sorted_names_def length_sort by (rule assms(2))
  also have "\<dots> \<le> int MaxAnimationFrames" by (rule frames_setDefaults_bounds)
  finally show ?thesis using f read_frames_gap by fastforce
qed

end
